(* ===== verification/RffPrelude.thy ===== *)
theory RffPrelude
  imports Complex_Main
begin

section \<open>Shared automation, table rows, and transition systems\<close>

text \<open>
  What every component of the rffmpeg model uses: a table of a SQL database as the list of its
  rows in rowid order, the conditional UPDATE statement on it (\<open>upd_where\<close>, with the
  number of rows it reports, \<open>rows_affected\<close>), COALESCE, the ORDER BY clauses, and the locale of
  a transition system with an invariant, which every stateful component interprets.
\<close>

type_synonym time = int  \<comment> \<open>an instant, in nanoseconds\<close>
type_synonym duration = int  \<comment> \<open>Go's \<open>time.Duration\<close>, in nanoseconds\<close>

named_theorems table_simps \<open>equations of the statements on table rows\<close>

subsection \<open>Conditional updates\<close>

text \<open>\<open>UPDATE t SET f WHERE P\<close>: every row that satisfies \<open>P\<close> is rewritten by \<open>f\<close>.\<close>

definition upd_where :: "('r \<Rightarrow> bool) \<Rightarrow> ('r \<Rightarrow> 'r) \<Rightarrow> 'r list \<Rightarrow> 'r list" where
  "upd_where P f rs = map (\<lambda>r. if P r then f r else r) rs"

text \<open>\<open>result.RowsAffected()\<close> of the same statement.\<close>

definition rows_affected :: "('r \<Rightarrow> bool) \<Rightarrow> 'r list \<Rightarrow> nat" where
  "rows_affected P rs = length (filter P rs)"

text \<open>\<open>SELECT \<dots> WHERE key = k\<close> on a primary key: the first (only) matching row.\<close>

definition find_row :: "('r \<Rightarrow> 'k) \<Rightarrow> 'k \<Rightarrow> 'r list \<Rightarrow> 'r option" where
  "find_row key k rs = List.find (\<lambda>r. key r = k) rs"

text \<open>
  \<open>ORDER BY c ASC\<close> and \<open>ORDER BY c DESC\<close>; rows with equal keys stay in rowid order.
\<close>

definition order_asc :: "('r \<Rightarrow> 'k::linorder) \<Rightarrow> 'r list \<Rightarrow> 'r list" where
  "order_asc c rs = sort_key c rs"

definition order_desc :: "('r \<Rightarrow> int) \<Rightarrow> 'r list \<Rightarrow> 'r list" where
  "order_desc c rs = sort_key (\<lambda>r. - c r) rs"

text \<open>SQL's \<open>COALESCE(x, y)\<close> with a nullable first argument.\<close>

definition coalesce :: "'a option \<Rightarrow> 'a \<Rightarrow> 'a" where
  "coalesce x y = (case x of None \<Rightarrow> y | Some v \<Rightarrow> v)"

lemma coalesce_simps [simp]: "coalesce None y = y" "coalesce (Some v) y = v"
  by (simp_all add: coalesce_def)

lemma upd_where_Nil [simp]: "upd_where P f [] = []"
  by (simp add: upd_where_def)

lemma upd_where_Cons [simp]:
  "upd_where P f (r # rs) = (if P r then f r else r) # upd_where P f rs"
  by (simp add: upd_where_def)

lemma upd_where_append [simp]: "upd_where P f (xs @ ys) = upd_where P f xs @ upd_where P f ys"
  by (simp add: upd_where_def)

lemma length_upd_where [simp]: "length (upd_where P f rs) = length rs"
  by (simp add: upd_where_def)

lemma rows_affected_0: "rows_affected P rs = 0 \<longleftrightarrow> (\<forall>r \<in> set rs. \<not> P r)"
  by (auto simp: rows_affected_def filter_empty_conv)

lemma upd_where_none: "rows_affected P rs = 0 \<Longrightarrow> upd_where P f rs = rs"
  by (induction rs) (auto simp: rows_affected_def split: if_splits)

lemma set_upd_whereE:
  assumes "r' \<in> set (upd_where P f rs)"
  obtains r where "r \<in> set rs" "P r" "r' = f r" | "r' \<in> set rs" "\<not> P r'"
  using assms by (auto simp: upd_where_def split: if_splits)

lemma map_key_upd_where:
  assumes "\<And>r. key (f r) = key r"
  shows "map key (upd_where P f rs) = map key rs"
  using assms by (induction rs) auto

lemma find_row_upd_where:
  assumes "\<And>r. key (f r) = key r"
  shows "find_row key k (upd_where P f rs) =
           map_option (\<lambda>r. if P r then f r else r) (find_row key k rs)"
  using assms by (induction rs) (auto simp: find_row_def)

lemma find_row_SomeD: "find_row key k rs = Some r \<Longrightarrow> r \<in> set rs \<and> key r = k"
  by (auto simp: find_row_def find_Some_iff)

lemma find_row_None: "find_row key k rs = None \<longleftrightarrow> k \<notin> key ` set rs"
  by (auto simp: find_row_def find_None_iff image_iff)

lemma find_row_append:
  "find_row key k (xs @ ys) = (case find_row key k xs of None \<Rightarrow> find_row key k ys | Some r \<Rightarrow> Some r)"
  by (induction xs) (auto simp: find_row_def)

lemma find_row_Cons [simp]:
  "find_row key k (r # rs) = (if key r = k then Some r else find_row key k rs)"
  by (simp add: find_row_def)

lemma find_row_Nil [simp]: "find_row key k [] = None"
  by (simp add: find_row_def)

lemma find_row_distinct:
  "distinct (map key rs) \<Longrightarrow> r \<in> set rs \<Longrightarrow> find_row key (key r) rs = Some r"
  by (induction rs) force+

lemma find_row_iff:
  "distinct (map key rs) \<Longrightarrow> find_row key k rs = Some r \<longleftrightarrow> r \<in> set rs \<and> key r = k"
  using find_row_distinct find_row_SomeD by metis

lemma upd_where_key_only:
  "distinct (map key rs) \<Longrightarrow> find_row key k rs = Some r \<Longrightarrow>
   rows_affected (\<lambda>x. key x = k \<and> Q x) rs = (if Q r then 1 else 0)"
proof (induction rs)
  case (Cons a rs)
  have "filter (\<lambda>x. key x = key a \<and> Q x) rs = []"
    using Cons.prems(1) by (auto simp: filter_empty_conv image_iff)
  with Cons show ?case
    by (auto simp: rows_affected_def split: if_splits)
qed simp

lemma rows_affected_missing:
  "find_row key k rs = None \<Longrightarrow> rows_affected (\<lambda>x. key x = k \<and> Q x) rs = 0"
  by (auto simp: rows_affected_0 find_row_None)

lemma set_order_asc [simp]: "set (order_asc c rs) = set rs"
  by (simp add: order_asc_def)

lemma set_order_desc [simp]: "set (order_desc c rs) = set rs"
  by (simp add: order_desc_def)

lemma length_order_asc [simp]: "length (order_asc c rs) = length rs"
  by (simp add: order_asc_def)

lemma sorted_order_asc: "sorted (map c (order_asc c rs))"
  by (simp add: order_asc_def)

subsection \<open>Transition systems and their invariants\<close>

text \<open>
  The contract between a stateful component and its environment: start states, the steps that
  any interleaving of its operations makes, and an invariant that both keep. The reachable
  states are what a sequence of operations can lead to.
\<close>

inductive reach :: "('s \<Rightarrow> bool) \<Rightarrow> ('s \<Rightarrow> 's \<Rightarrow> bool) \<Rightarrow> 's \<Rightarrow> bool" for init step where
  reach_init: "init s \<Longrightarrow> reach init step s"
| reach_step: "reach init step s \<Longrightarrow> step s t \<Longrightarrow> reach init step t"

locale invariant_system =
  fixes init :: "'s \<Rightarrow> bool"
    and step :: "'s \<Rightarrow> 's \<Rightarrow> bool"
    and inv :: "'s \<Rightarrow> bool"
  assumes init_inv: "init s \<Longrightarrow> inv s"
    and step_inv: "inv s \<Longrightarrow> step s t \<Longrightarrow> inv t"
begin

lemma reach_inv: "reach init step s \<Longrightarrow> inv s"
  by (induction rule: reach.induct) (auto intro: init_inv step_inv)

lemma steps_inv: "step\<^sup>*\<^sup>* s t \<Longrightarrow> inv s \<Longrightarrow> inv t"
  by (induction rule: rtranclp_induct) (auto intro: step_inv)

end

text \<open>
  A system whose steps also stay inside a reflexive and transitive relation between the states
  before and after: what holds of one step holds of every run.
\<close>

locale ordered_system = invariant_system +
  fixes rel :: "'s \<Rightarrow> 's \<Rightarrow> bool"
  assumes rel_refl: "rel s s"
    and rel_trans: "rel s t \<Longrightarrow> rel t u \<Longrightarrow> rel s u"
    and step_rel: "inv s \<Longrightarrow> step s t \<Longrightarrow> rel s t"
begin

lemma steps_rel: "step\<^sup>*\<^sup>* s t \<Longrightarrow> inv s \<Longrightarrow> rel s t"
proof (induction rule: rtranclp_induct)
  case base
  show ?case by (rule rel_refl)
next
  case (step t u)
  then have "inv t" using steps_inv by blast
  with step show ?case by (blast intro: rel_trans step_rel)
qed

end

end
