(* ===== verification/GoStrings.thy ===== *)
theory GoStrings
  imports RffPrelude "HOL-Library.Sublist"
begin

section \<open>Go's strings package on byte strings\<close>

text \<open>
  The functions of Go's \<^verbatim>\<open>strings\<close> package the code calls, on strings of bytes. Case mapping and
  white space are those of ASCII; the identifiers, encoder names and options the code compares
  are ASCII. White space is tab, line feed, vertical tab, form feed, carriage return and space.
\<close>

definition is_space :: "char \<Rightarrow> bool" where
  "is_space c \<longleftrightarrow> c \<in> {CHR ''\<newline>'', CHR 0x09, CHR 0x0B, CHR 0x0C, CHR 0x0D, CHR '' ''}"

definition TrimLeftSpace :: "string \<Rightarrow> string" where
  "TrimLeftSpace s = dropWhile is_space s"

definition TrimSpace :: "string \<Rightarrow> string" where
  "TrimSpace s = rev (dropWhile is_space (rev (dropWhile is_space s)))"

text \<open>\<^verbatim>\<open>strings.Join\<close>.\<close>

fun join_strings :: "string \<Rightarrow> string list \<Rightarrow> string" where
  "join_strings sep [] = []"
| "join_strings sep [s] = s"
| "join_strings sep (s # ss) = s @ sep @ join_strings sep ss"

definition HasPrefix :: "string \<Rightarrow> string \<Rightarrow> bool" where
  "HasPrefix s p \<longleftrightarrow> prefix p s"

definition HasSuffix :: "string \<Rightarrow> string \<Rightarrow> bool" where
  "HasSuffix s p \<longleftrightarrow> prefix (rev p) (rev s)"

fun Contains :: "string \<Rightarrow> string \<Rightarrow> bool" where
  "Contains [] p \<longleftrightarrow> p = []"
| "Contains (c # s) p \<longleftrightarrow> prefix p (c # s) \<or> Contains s p"

definition lower_char :: "char \<Rightarrow> char" where
  "lower_char c = (if 65 \<le> (of_char c :: nat) \<and> (of_char c :: nat) \<le> 90
                   then char_of ((of_char c :: nat) + 32) else c)"

definition ToLower :: "string \<Rightarrow> string" where
  "ToLower s = map lower_char s"

text \<open>
  \<open>strings.Cut(s, sep)\<close> for a one-byte separator: the text before and after its first occurrence, or
  the whole text and \<open>None\<close> where it does not occur. \<open>strings.Split\<close> likewise.
\<close>

fun Cut :: "char \<Rightarrow> string \<Rightarrow> string \<times> string option" where
  "Cut sep [] = ([], None)"
| "Cut sep (c # s) =
     (if c = sep then ([], Some s)
      else (let (a, b) = Cut sep s in (c # a, b)))"

fun Split :: "char \<Rightarrow> string \<Rightarrow> string list" where
  "Split sep [] = [[]]"
| "Split sep (c # s) =
     (if c = sep then [] # Split sep s
      else (case Split sep s of [] \<Rightarrow> [[c]] | w # ws \<Rightarrow> (c # w) # ws))"

lemma HasSuffix_iff: "HasSuffix s p \<longleftrightarrow> suffix p s"
  by (simp add: HasSuffix_def suffix_to_prefix)

lemma Contains_iff: "Contains s p \<longleftrightarrow> sublist p s"
  by (induction s) (auto simp: sublist_Cons_right)

lemma TrimSpace_Nil [simp]: "TrimSpace [] = []"
  by (simp add: TrimSpace_def)

lemma TrimSpace_clean:
  assumes "s = [] \<or> \<not> is_space (hd s) \<and> \<not> is_space (last s)"
  shows "TrimSpace s = s"
proof (cases s)
  case (Cons c t)
  with assms have "dropWhile is_space s = s" by simp
  moreover from assms Cons have "dropWhile is_space (rev s) = rev s"
    by (cases "rev s") (simp_all add: hd_rev [symmetric])
  ultimately show ?thesis by (simp add: TrimSpace_def)
qed simp

lemma hd_dropWhile_not: "dropWhile P xs \<noteq> [] \<Longrightarrow> \<not> P (hd (dropWhile P xs))"
  by (induction xs) auto

lemma TrimSpace_idem: "TrimSpace (TrimSpace s) = TrimSpace s"
proof (rule TrimSpace_clean, cases "TrimSpace s = []")
  case False
  define l where "l = dropWhile is_space s"
  define r where "r = dropWhile is_space (rev l)"
  have t: "TrimSpace s = rev r" by (simp add: TrimSpace_def l_def r_def)
  with False have "r \<noteq> []" by simp
  then have "\<not> is_space (hd r)" unfolding r_def by (rule hd_dropWhile_not)
  with t have last_ok: "\<not> is_space (last (TrimSpace s))" by (simp add: last_rev)
  obtain k where k: "rev l = k @ r" using r_def suffix_dropWhile suffix_def by metis
  then have "l = rev r @ rev k" by (metis rev_append rev_rev_ident)
  with \<open>r \<noteq> []\<close> have "hd l = hd (rev r)" "l \<noteq> []" by simp_all
  moreover from \<open>l \<noteq> []\<close> have "\<not> is_space (hd l)" unfolding l_def by (rule hd_dropWhile_not)
  ultimately show "TrimSpace s = [] \<or> \<not> is_space (hd (TrimSpace s)) \<and> \<not> is_space (last (TrimSpace s))"
    using t last_ok by simp
qed simp

lemma Cut_None: "snd (Cut sep s) = None \<longleftrightarrow> sep \<notin> set s"
  by (induction s) (auto split: prod.splits)

lemma Cut_join: "Cut sep s = (a, Some b) \<Longrightarrow> s = a @ sep # b \<and> sep \<notin> set a"
  by (induction s arbitrary: a b) (auto split: if_splits prod.splits)

lemma Cut_append: "sep \<notin> set a \<Longrightarrow> Cut sep (a @ sep # b) = (a, Some b)"
  by (induction a) auto

end
