(* ===== verification/Access.thy ===== *)
theory Access
  imports GoStrings
begin

section \<open>Access control and path checks (pkg/server/auth, pkg/pathutil)\<close>

text \<open>
  The bearer check in front of the API, and the two predicates on paths that submissions are screened with. The
  client identifier is a hash of the token: \<open>digest\<close> stands for the hexadecimal SHA-256 of the standard library.
\<close>

subsection \<open>Bearer tokens\<close>

definition GenerateClientID :: "(string \<Rightarrow> string) \<Rightarrow> string \<Rightarrow> string" where
  "GenerateClientID digest token = take 16 (digest token)"

text \<open>The outcome: the reason of the 401 answer, or the client.\<close>

definition ValidateBearer :: "(string \<Rightarrow> string) \<Rightarrow> string \<Rightarrow> string \<Rightarrow> string + string" where
  "ValidateBearer digest authHeader authToken =
     (if authToken = [] then Inl ''Server has no auth token configured; refusing request''
      else if authHeader = [] then Inl ''Missing Authorization header''
      else case Cut (CHR '' '') authHeader of
             (scheme, None) \<Rightarrow> Inl ''Invalid Authorization header format''
           | (scheme, Some providedToken) \<Rightarrow>
               if ToLower scheme \<noteq> ''bearer'' then Inl ''Invalid Authorization header format''
               else if providedToken = [] then Inl ''Missing token''
               else if providedToken \<noteq> authToken then Inl ''Invalid token''
               else Inr (GenerateClientID digest providedToken))"

definition exemptPaths :: "string list" where
  "exemptPaths = [''/health'', ''/api/v1/health'']"

text \<open>The middleware: refuse, pass on anonymously (\<open>Inr None\<close>), or pass on with a client.\<close>

definition auth_Middleware :: "(string \<Rightarrow> string) \<Rightarrow> string \<Rightarrow> string \<Rightarrow> string \<Rightarrow> string + string option" where
  "auth_Middleware digest authToken path authHeader =
     (if path \<in> set exemptPaths \<and> authHeader = [] then Inr None
      else case ValidateBearer digest authHeader authToken of
             Inl e \<Rightarrow> Inl e
           | Inr clientID \<Rightarrow> Inr (Some clientID))"

subsection \<open>Paths\<close>

definition path_separator :: "char \<Rightarrow> bool" where
  "path_separator c \<longleftrightarrow> c = CHR ''/'' \<or> c = CHR 0x5C"

text \<open>\<^verbatim>\<open>strings.FieldsFunc\<close>: the maximal runs without a separator.\<close>

function path_fields :: "string \<Rightarrow> string list" where
  "path_fields s =
     (let s = dropWhile path_separator s in
      if s = [] then []
      else takeWhile (\<lambda>c. \<not> path_separator c) s # path_fields (dropWhile (\<lambda>c. \<not> path_separator c) s))"
  by pat_completeness auto
termination
proof (relation "measure length")
  fix s x assume x: "(x :: string) = dropWhile path_separator s" "x \<noteq> []"
  then have "\<not> path_separator (hd x)" by (simp add: hd_dropWhile)
  then have "length (dropWhile (\<lambda>c. \<not> path_separator c) x) < length x"
    using x(2) by (cases x) (auto simp: le_imp_less_Suc length_dropWhile_le)
  also have "length x \<le> length s" using x(1) by (simp add: length_dropWhile_le)
  finally show "(dropWhile (\<lambda>c. \<not> path_separator c) x, s) \<in> measure length" by simp
qed simp

declare path_fields.simps [simp del]

definition ContainsPathTraversal :: "string \<Rightarrow> bool" where
  "ContainsPathTraversal path \<longleftrightarrow> list_ex (\<lambda>part. part = ''..'') (path_fields path)"

definition ascii_letter :: "char \<Rightarrow> bool" where
  "ascii_letter c \<longleftrightarrow> (let n = of_char c :: nat in (65 \<le> n \<and> n \<le> 90) \<or> (97 \<le> n \<and> n \<le> 122))"

definition scheme_char :: "char \<Rightarrow> bool" where
  "scheme_char c \<longleftrightarrow> ascii_letter c \<or> (let n = of_char c :: nat in 48 \<le> n \<and> n \<le> 57) \<or> c \<in> {CHR ''+'', CHR ''.'', CHR ''-''}"

text \<open>The scheme of \<^verbatim>\<open>remoteURLPattern\<close>: a letter, then scheme characters, then \<open>://\<close>.\<close>

definition url_scheme :: "string \<Rightarrow> string option" where
  "url_scheme s =
     (let scheme = takeWhile scheme_char s in
      if scheme \<noteq> [] \<and> ascii_letter (hd scheme) \<and> HasPrefix (drop (length scheme) s) ''://'' then Some scheme else None)"

definition IsRemoteURL :: "string \<Rightarrow> bool" where
  "IsRemoteURL s \<longleftrightarrow> (case url_scheme s of None \<Rightarrow> False | Some scheme \<Rightarrow> ToLower scheme \<noteq> ''file'')"

end
