(* ===== verification/RateLimit.thy ===== *)
theory RateLimit
  imports RffPrelude "HOL-Library.AList" "HOL-Library.Multiset"
begin

section \<open>Per-client rate limiting (pkg/server/ratelimit)\<close>

text \<open>
  The counter of active jobs per client, its interface as a locale, and the middlewares around job submission and
  probes. A Go map is an association list; a missing key reads as 0. Every method holds the counter's mutex, so
  each is one atomic step.
\<close>

subsection \<open>InMemoryCounter (counter.go)\<close>

record counter =
  c_counts :: "(string \<times> int) list"
  c_job_client :: "(string \<times> string) list"
  c_rejected :: int

definition NewInMemoryCounter :: counter where
  "NewInMemoryCounter = \<lparr>c_counts = [], c_job_client = [], c_rejected = 0\<rparr>"

definition Count :: "counter \<Rightarrow> string \<Rightarrow> int" where
  "Count c clientID = coalesce (map_of (c_counts c) clientID) 0"

definition TryIncrement :: "string \<Rightarrow> int \<Rightarrow> counter \<Rightarrow> (int \<times> bool) \<times> counter" where
  "TryIncrement clientID limit c =
     (let current = Count c clientID in
      if current \<ge> limit then ((current, False), c\<lparr>c_rejected := c_rejected c + 1\<rparr>)
      else ((current + 1, True), c\<lparr>c_counts := AList.update clientID (current + 1) (c_counts c)\<rparr>))"

definition RegisterJob :: "string \<Rightarrow> string \<Rightarrow> counter \<Rightarrow> counter" where
  "RegisterJob clientID jobID c = c\<lparr>c_job_client := AList.update jobID clientID (c_job_client c)\<rparr>"

definition Decrement :: "string \<Rightarrow> counter \<Rightarrow> int \<times> counter" where
  "Decrement clientID c =
     (let current = Count c clientID in
      if current \<le> 1 then (0, c\<lparr>c_counts := AList.delete clientID (c_counts c)\<rparr>)
      else (current - 1, c\<lparr>c_counts := AList.update clientID (current - 1) (c_counts c)\<rparr>))"

definition DecrementByJob :: "string \<Rightarrow> counter \<Rightarrow> int \<times> counter" where
  "DecrementByJob jobID c =
     (case map_of (c_job_client c) jobID of
        None \<Rightarrow> (0, c)
      | Some clientID \<Rightarrow>
          (let c = c\<lparr>c_job_client := AList.delete jobID (c_job_client c)\<rparr>;
               current = Count c clientID
           in if current \<le> 1 then (0, c\<lparr>c_counts := AList.delete clientID (c_counts c)\<rparr>)
              else (current - 1, c\<lparr>c_counts := AList.update clientID (current - 1) (c_counts c)\<rparr>)))"

definition TotalActive :: "counter \<Rightarrow> int" where
  "TotalActive c = sum_list (map snd (c_counts c))"

definition RejectedCount :: "counter \<Rightarrow> int" where
  "RejectedCount c = c_rejected c"

subsection \<open>RuntimeConfig and the middlewares (middleware.go)\<close>

record runtime_config =
  rc_enabled :: bool
  rc_limit :: int

definition DefaultRuntimeConfig :: runtime_config where
  "DefaultRuntimeConfig = \<lparr>rc_enabled = True, rc_limit = 10\<rparr>"

definition SetEnabled :: "bool \<Rightarrow> runtime_config \<Rightarrow> runtime_config" where
  "SetEnabled v c = c\<lparr>rc_enabled := v\<rparr>"

definition SetLimit :: "int \<Rightarrow> runtime_config \<Rightarrow> runtime_config" where
  "SetLimit v c = c\<lparr>rc_limit := v\<rparr>"

definition clientIDFor :: "string \<Rightarrow> string \<Rightarrow> string" where
  "clientIDFor clientID remoteAddr = (if clientID \<noteq> [] then clientID else remoteAddr)"

text \<open>
  The response a client sees: a refusal with the counts it carries, or what the wrapped handler wrote, its first
  status (\<open>None\<close> where the handler writes a body, or nothing, without a status: Go then sends 200).
\<close>

datatype response = RateLimited int int | Handled "int option"

text \<open>
  A wrapped handler calls the writer a number of times; \<open>rw_call\<close> is \<^verbatim>\<open>WriteHeader\<close> with its status, or \<^verbatim>\<open>Write\<close>.
\<close>

datatype rw_call = WriteHeader int | WriteBody

definition failure_status :: "int \<Rightarrow> bool" where
  "failure_status statusCode \<longleftrightarrow> statusCode < 200 \<or> statusCode \<ge> 300"

definition rw_step :: "(string \<Rightarrow> 's \<Rightarrow> int \<times> 's) \<Rightarrow> string \<Rightarrow> rw_call \<Rightarrow> bool \<times> 's \<Rightarrow> bool \<times> 's" where
  "rw_step dec clientID call st =
     (case st of (written, s) \<Rightarrow>
        (case call of
           WriteHeader statusCode \<Rightarrow>
             (if \<not> written then (True, if failure_status statusCode then snd (dec clientID s) else s) else (written, s))
         | WriteBody \<Rightarrow> (True, s)))"

text \<open>
  \<open>incr\<close> and \<open>dec\<close> are the counter's \<^verbatim>\<open>TryIncrement\<close> and \<^verbatim>\<open>Decrement\<close>; \<open>handler\<close> is the wrapped handler: its effect on
  the state and the writer calls it makes, in order.
\<close>

definition JobSubmitMiddleware ::
  "(string \<Rightarrow> int \<Rightarrow> 's \<Rightarrow> (int \<times> bool) \<times> 's) \<Rightarrow> (string \<Rightarrow> 's \<Rightarrow> int \<times> 's) \<Rightarrow> runtime_config \<Rightarrow> string \<Rightarrow>
   ('s \<Rightarrow> rw_call list \<times> 's) \<Rightarrow> 's \<Rightarrow> response \<times> 's" where
  "JobSubmitMiddleware incr dec cfg clientID handler s =
     (let first = (\<lambda>calls. case calls of WriteHeader c # _ \<Rightarrow> Some c | _ \<Rightarrow> None) in
      if \<not> rc_enabled cfg then (case handler s of (calls, s) \<Rightarrow> (Handled (first calls), s))
      else (case incr clientID (rc_limit cfg) s of
              ((current, allowed), s) \<Rightarrow>
                if \<not> allowed then (RateLimited current (rc_limit cfg), s)
                else (case handler s of
                        (calls, s) \<Rightarrow> (Handled (first calls), snd (fold (rw_step dec clientID) calls (False, s))))))"

definition ProbeMiddleware ::
  "(string \<Rightarrow> int \<Rightarrow> 's \<Rightarrow> (int \<times> bool) \<times> 's) \<Rightarrow> (string \<Rightarrow> 's \<Rightarrow> int \<times> 's) \<Rightarrow> runtime_config \<Rightarrow> string \<Rightarrow>
   ('s \<Rightarrow> rw_call list \<times> 's) \<Rightarrow> 's \<Rightarrow> response \<times> 's" where
  "ProbeMiddleware incr dec cfg clientID handler s =
     (let first = (\<lambda>calls. case calls of WriteHeader c # _ \<Rightarrow> Some c | _ \<Rightarrow> None) in
      if \<not> rc_enabled cfg then (case handler s of (calls, s) \<Rightarrow> (Handled (first calls), s))
      else (case incr clientID (rc_limit cfg) s of
              ((current, allowed), s) \<Rightarrow>
                if \<not> allowed then (RateLimited current (rc_limit cfg), s)
                else (case handler s of (calls, s) \<Rightarrow> (Handled (first calls), snd (dec clientID s)))))"

subsection \<open>The interface\<close>

text \<open>
  \<^verbatim>\<open>ClientJobCounter\<close>: what the middlewares, the submit handler and the terminal hook rely on. \<open>client_of\<close> is the
  registered client of a job.
\<close>

locale client_job_counter =
  fixes wf :: "'s \<Rightarrow> bool"
    and count :: "'s \<Rightarrow> string \<Rightarrow> int"
    and total :: "'s \<Rightarrow> int"
    and client_of :: "'s \<Rightarrow> string \<Rightarrow> string option"
    and incr :: "string \<Rightarrow> int \<Rightarrow> 's \<Rightarrow> (int \<times> bool) \<times> 's"
    and register :: "string \<Rightarrow> string \<Rightarrow> 's \<Rightarrow> 's"
    and dec :: "string \<Rightarrow> 's \<Rightarrow> int \<times> 's"
    and dec_job :: "string \<Rightarrow> 's \<Rightarrow> int \<times> 's"
  assumes count_nonneg: "wf s \<Longrightarrow> 0 \<le> count s c"
    and wf_ops: "wf s \<Longrightarrow> wf (snd (incr c l s)) \<and> wf (register c j s) \<and> wf (snd (dec c s)) \<and> wf (snd (dec_job j s))"
    and incr_allowed: "wf s \<Longrightarrow> snd (fst (incr c l s)) \<longleftrightarrow> count s c < l"
    and incr_count: "wf s \<Longrightarrow> count (snd (incr c l s)) c' = count s c' + (if c' = c \<and> count s c < l then 1 else 0)"
    and incr_client: "wf s \<Longrightarrow> client_of (snd (incr c l s)) j = client_of s j"
    and register_count: "wf s \<Longrightarrow> count (register c j s) c' = count s c'"
    and register_client: "wf s \<Longrightarrow> client_of (register c j s) j' = (if j' = j then Some c else client_of s j')"
    and dec_count: "wf s \<Longrightarrow> count (snd (dec c s)) c' = (if c' = c then max 0 (count s c - 1) else count s c')"
    and dec_client: "wf s \<Longrightarrow> client_of (snd (dec c s)) j = client_of s j"
    and dec_job_count: "wf s \<Longrightarrow> count (snd (dec_job j s)) c =
          (if client_of s j = Some c then max 0 (count s c - 1) else count s c)"
    and dec_job_client: "wf s \<Longrightarrow> client_of (snd (dec_job j s)) j' = (if j' = j then None else client_of s j')"
    and incr_total: "wf s \<Longrightarrow> total (snd (incr c l s)) = total s + (if count s c < l then 1 else 0)"
    and register_total: "wf s \<Longrightarrow> total (register c j s) = total s"
    and dec_total: "wf s \<Longrightarrow> total (snd (dec c s)) = total s - (if 0 < count s c then 1 else 0)"
    and dec_job_total: "wf s \<Longrightarrow> total (snd (dec_job j s)) =
          total s - (case client_of s j of None \<Rightarrow> 0 | Some c \<Rightarrow> if 0 < count s c then 1 else 0)"

subsection \<open>Who holds a slot\<close>

text \<open>
  The life of slots while limiting is enabled, one atomic counter call per step. \<open>q_open\<close> are the clients of the requests inside
  the middlewares that hold a slot no job has taken over yet; \<open>q_live\<close> the accepted jobs that have not ended. A
  job is registered by its submission before it ends, and its terminal hook runs once (see
  \<open>terminal_notified_exactly_once\<close>).
\<close>

record 's quota =
  q_counter :: 's
  q_open :: "string multiset"
  q_live :: "(string \<times> string) list"  \<comment> \<open>job, client\<close>

inductive quota_step ::
  "(string \<Rightarrow> int \<Rightarrow> 's \<Rightarrow> (int \<times> bool) \<times> 's) \<Rightarrow> (string \<Rightarrow> string \<Rightarrow> 's \<Rightarrow> 's) \<Rightarrow>
   (string \<Rightarrow> 's \<Rightarrow> int \<times> 's) \<Rightarrow> (string \<Rightarrow> 's \<Rightarrow> int \<times> 's) \<Rightarrow> int \<Rightarrow> 's quota \<Rightarrow> 's quota \<Rightarrow> bool"
  for incr register dec dec_job limit where
  op_admit: "incr c limit (q_counter q) = ((n, True), s) \<Longrightarrow>
    quota_step incr register dec dec_job limit q (q\<lparr>q_counter := s, q_open := add_mset c (q_open q)\<rparr>)"
| op_refuse: "incr c limit (q_counter q) = ((n, False), s) \<Longrightarrow>
    quota_step incr register dec dec_job limit q (q\<lparr>q_counter := s\<rparr>)"
| op_accept: "c \<in># q_open q \<Longrightarrow> j \<notin> fst ` set (q_live q) \<Longrightarrow>
    quota_step incr register dec dec_job limit q
      (q\<lparr>q_counter := register c j (q_counter q), q_open := q_open q - {#c#}, q_live := (j, c) # q_live q\<rparr>)"
| op_release: "c \<in># q_open q \<Longrightarrow>
    quota_step incr register dec dec_job limit q
      (q\<lparr>q_counter := snd (dec c (q_counter q)), q_open := q_open q - {#c#}\<rparr>)"
| op_ended: "j \<in> fst ` set (q_live q) \<Longrightarrow>
    quota_step incr register dec dec_job limit q
      (q\<lparr>q_counter := snd (dec_job j (q_counter q)), q_live := filter (\<lambda>e. fst e \<noteq> j) (q_live q)\<rparr>)"
| op_ended_other: "j \<notin> fst ` set (q_live q) \<Longrightarrow>
    quota_step incr register dec dec_job limit q (q\<lparr>q_counter := snd (dec_job j (q_counter q))\<rparr>)"

context client_job_counter begin

definition slots_ok :: "'s quota \<Rightarrow> bool" where
  "slots_ok q \<longleftrightarrow> wf (q_counter q) \<and> distinct (map fst (q_live q)) \<and>
     (\<forall>j. client_of (q_counter q) j = map_of (q_live q) j) \<and>
     (\<forall>c. count (q_counter q) c = int (Multiset.count (q_open q) c) + int (length (filter (\<lambda>e. snd e = c) (q_live q)))) \<and>
     total (q_counter q) = int (size (q_open q)) + int (length (q_live q))"

definition slots_init :: "'s quota \<Rightarrow> bool" where
  "slots_init q \<longleftrightarrow> wf (q_counter q) \<and> (\<forall>c. count (q_counter q) c = 0) \<and> (\<forall>j. client_of (q_counter q) j = None) \<and>
     total (q_counter q) = 0 \<and> q_open q = {#} \<and> q_live q = []"

lemma map_of_ended: "map_of (filter (\<lambda>e. fst e \<noteq> j) xs) = (map_of xs)(j := None)"
  by (induction xs) auto

lemma slots_admit:
  assumes "slots_ok q" "incr c limit (q_counter q) = ((n, True), s)"
  shows "slots_ok (q\<lparr>q_counter := s, q_open := add_mset c (q_open q)\<rparr>)"
proof -
  have wf: "wf (q_counter q)" using assms(1) by (simp add: slots_ok_def)
  note L = wf_ops [OF wf, of c limit] incr_allowed [OF wf, of c limit] incr_count [OF wf, of c limit] incr_client [OF wf, of c limit]
    incr_total [OF wf, of c limit]
  from L assms show ?thesis by (auto simp: slots_ok_def)
qed

lemma slots_refuse:
  assumes "slots_ok q" "incr c limit (q_counter q) = ((n, False), s)"
  shows "slots_ok (q\<lparr>q_counter := s\<rparr>)"
proof -
  have wf: "wf (q_counter q)" using assms(1) by (simp add: slots_ok_def)
  note L = wf_ops [OF wf, of c limit] incr_allowed [OF wf, of c limit] incr_count [OF wf, of c limit] incr_client [OF wf, of c limit]
    incr_total [OF wf, of c limit]
  from L assms show ?thesis by (auto simp: slots_ok_def)
qed

lemma slots_accept:
  assumes "slots_ok q" "c \<in># q_open q" "j \<notin> fst ` set (q_live q)"
  shows "slots_ok (q\<lparr>q_counter := register c j (q_counter q), q_open := q_open q - {#c#}, q_live := (j, c) # q_live q\<rparr>)"
proof -
  have wf: "wf (q_counter q)" using assms(1) by (simp add: slots_ok_def)
  obtain M where M: "q_open q = add_mset c M" using assms(2) by (metis insert_DiffM)
  with assms(1,3) wf_ops [OF wf, of c 0 j] register_count [OF wf] register_client [OF wf] register_total [OF wf]
  show ?thesis by (simp add: slots_ok_def)
qed

lemma slots_release:
  assumes "slots_ok q" "c \<in># q_open q"
  shows "slots_ok (q\<lparr>q_counter := snd (dec c (q_counter q)), q_open := q_open q - {#c#}\<rparr>)"
proof -
  have wf: "wf (q_counter q)" using assms(1) by (simp add: slots_ok_def)
  obtain M where M: "q_open q = add_mset c M" using assms(2) by (metis insert_DiffM)
  with assms(1) wf_ops [OF wf] dec_count [OF wf] dec_client [OF wf] dec_total [OF wf] show ?thesis
    by (simp add: slots_ok_def max_def)
qed

lemma live_without:
  assumes "distinct (map fst xs)"
  shows "length (filter (\<lambda>e. snd e = c) (filter (\<lambda>e. fst e \<noteq> j) xs)) + (if map_of xs j = Some c then 1 else 0) =
    length (filter (\<lambda>e. snd e = c) xs)"
  using assms
proof (induction xs)
  case (Cons e xs)
  then have "fst e = j \<Longrightarrow> map_of xs j = None" by (auto simp: map_of_eq_None_iff)
  with Cons show ?case by (cases e) (auto split: if_splits)
qed simp

lemma length_without:
  assumes "distinct (map fst xs)"
  shows "length (filter (\<lambda>e. fst e \<noteq> j) xs) + (if map_of xs j = None then 0 else 1) = length xs"
  using assms
proof (induction xs)
  case (Cons e xs)
  then have "fst e = j \<Longrightarrow> map_of xs j = None" by (auto simp: map_of_eq_None_iff)
  with Cons show ?case by (cases e) (auto split: if_splits)
qed simp

lemma slots_ended:
  assumes "slots_ok q"
  shows "slots_ok (q\<lparr>q_counter := snd (dec_job j (q_counter q)), q_live := filter (\<lambda>e. fst e \<noteq> j) (q_live q)\<rparr>)"
proof -
  have wf: "wf (q_counter q)" and dist: "distinct (map fst (q_live q))"
    and client: "client_of (q_counter q) j' = map_of (q_live q) j'" for j' using assms by (simp_all add: slots_ok_def)
  note counts = live_without [OF dist, of _ j] length_without [OF dist, of j]
  have pos: "0 < count (q_counter q) c" if "map_of (q_live q) j = Some c" for c
    using assms that counts(1) [of c] by (auto simp: slots_ok_def)
  have "count (snd (dec_job j (q_counter q))) c =
      int (Multiset.count (q_open q) c) + int (length (filter (\<lambda>e. snd e = c) (filter (\<lambda>e. fst e \<noteq> j) (q_live q))))" for c
    using assms dec_job_count [OF wf, of j c] counts(1) [of c] client
    by (auto simp: slots_ok_def max_def split: if_splits)
  moreover have "total (snd (dec_job j (q_counter q))) =
      int (size (q_open q)) + int (length (filter (\<lambda>e. fst e \<noteq> j) (q_live q)))"
    using assms dec_job_total [OF wf, of j] counts(2) client pos
    by (auto simp: slots_ok_def split: option.splits if_splits)
  ultimately show ?thesis
    using assms wf_ops [OF wf] dec_job_client [OF wf] by (simp add: slots_ok_def map_of_ended distinct_map_filter)
qed

lemma slots_step:
  assumes "slots_ok q" "quota_step incr register dec dec_job limit q q'"
  shows "slots_ok q'"
  using assms(2)
proof cases
  case (op_ended_other j)
  then have "filter (\<lambda>e. fst e \<noteq> j) (q_live q) = q_live q" by (auto simp: filter_id_conv image_iff)
  with slots_ended [OF assms(1), of j] op_ended_other show ?thesis by simp
qed (use assms(1) slots_admit slots_refuse slots_accept slots_release slots_ended in auto)

lemma admitted_within:
  assumes "slots_ok q" "incr c limit (q_counter q) = ((n, b), s)"
  shows "b \<longleftrightarrow> count (q_counter q) c < limit"
  using assms incr_allowed [of "q_counter q" c limit] by (simp add: slots_ok_def)

text \<open>With one limit throughout, no count passes it.\<close>

definition slots_within :: "int \<Rightarrow> 's quota \<Rightarrow> bool" where
  "slots_within limit q \<longleftrightarrow> slots_ok q \<and> (\<forall>c. count (q_counter q) c \<le> max 0 limit)"

lemma slots_within_step:
  assumes "slots_within limit q" "quota_step incr register dec dec_job limit q q'"
  shows "slots_within limit q'"
proof -
  have wf: "wf (q_counter q)" and le: "count (q_counter q) c \<le> max 0 limit" for c
    using assms(1) unfolding slots_within_def slots_ok_def by blast+
  have "count (q_counter q') c \<le> max 0 limit" for c
    using assms(2)
  proof cases
    case (op_admit c' n s)
    then show ?thesis using incr_count [OF wf, of c' limit c] le [of c] by (auto split: if_splits)
  next
    case (op_refuse c' n s)
    then show ?thesis using incr_count [OF wf, of c' limit c] incr_allowed [OF wf, of c' limit] le [of c] by (auto split: if_splits)
  qed (use le [of c] in \<open>auto simp: register_count [OF wf] dec_count [OF wf] dec_job_count [OF wf] max_def split: if_splits\<close>)
  with assms slots_step show ?thesis by (auto simp: slots_within_def)
qed

end

sublocale client_job_counter \<subseteq> slots: invariant_system slots_init "quota_step incr register dec dec_job limit" "slots_within limit"
  for limit
proof unfold_locales
  fix q assume "slots_init q"
  then show "slots_within limit q" by (simp add: slots_init_def slots_within_def slots_ok_def)
qed (rule slots_within_step)

subsection \<open>The in-memory counter provides the interface\<close>

definition counter_ok :: "counter \<Rightarrow> bool" where
  "counter_ok c \<longleftrightarrow> distinct (map fst (c_counts c)) \<and> (\<forall>k n. map_of (c_counts c) k = Some n \<longrightarrow> 1 \<le> n) \<and>
     distinct (map fst (c_job_client c))"

definition client_of_job :: "counter \<Rightarrow> string \<Rightarrow> string option" where
  "client_of_job c jobID = map_of (c_job_client c) jobID"

lemma sum_update:
  fixes xs :: "(string \<times> int) list"
  assumes "distinct (map fst xs)"
  shows "sum_list (map snd (AList.update k v xs)) = sum_list (map snd xs) + v - coalesce (map_of xs k) 0"
  using assms by (induction xs) (auto simp: map_of_eq_None_iff)

lemma sum_delete:
  fixes xs :: "(string \<times> int) list"
  assumes "distinct (map fst xs)"
  shows "sum_list (map snd (AList.delete k xs)) = sum_list (map snd xs) - coalesce (map_of xs k) 0"
  using assms
proof (induction xs)
  case (Cons e xs)
  then have "fst e = k \<Longrightarrow> map_of xs k = None" by (auto simp: map_of_eq_None_iff)
  with Cons show ?case by (cases e) (auto simp: AList.delete_simps)
qed simp

lemmas alist_ops = AList.update_conv' AList.delete_conv' AList.distinct_update AList.distinct_delete

lemma counts_update: "counter_ok c \<Longrightarrow> 1 \<le> n \<Longrightarrow> counter_ok (c\<lparr>c_counts := AList.update k n (c_counts c)\<rparr>)"
  by (auto simp: counter_ok_def alist_ops)

lemma counts_delete: "counter_ok c \<Longrightarrow> counter_ok (c\<lparr>c_counts := AList.delete k (c_counts c)\<rparr>)"
  by (auto simp: counter_ok_def alist_ops)

lemma clients_change:
  "counter_ok c \<Longrightarrow> counter_ok (c\<lparr>c_job_client := AList.update j k (c_job_client c)\<rparr>)"
  "counter_ok c \<Longrightarrow> counter_ok (c\<lparr>c_job_client := AList.delete j (c_job_client c)\<rparr>)"
  by (auto simp: counter_ok_def alist_ops)

lemma Count_nonneg: "counter_ok c \<Longrightarrow> 0 \<le> Count c k"
  by (cases "map_of (c_counts c) k") (auto simp: Count_def counter_ok_def intro: order_trans [OF zero_le_one])

lemma Count_change:
  "Count (c\<lparr>c_counts := AList.update k n (c_counts c)\<rparr>) k' = (if k' = k then n else Count c k')"
  "Count (c\<lparr>c_counts := AList.delete k (c_counts c)\<rparr>) k' = (if k' = k then 0 else Count c k')"
  "Count (c\<lparr>c_job_client := xs\<rparr>) k' = Count c k'"
  by (simp_all add: Count_def alist_ops)

lemma Total_change:
  assumes "counter_ok c"
  shows "TotalActive (c\<lparr>c_counts := AList.update k n (c_counts c)\<rparr>) = TotalActive c + n - Count c k"
    and "TotalActive (c\<lparr>c_counts := AList.delete k (c_counts c)\<rparr>) = TotalActive c - Count c k"
    and "TotalActive (c\<lparr>c_job_client := xs\<rparr>) = TotalActive c"
  using assms by (simp_all add: TotalActive_def Count_def counter_ok_def sum_update sum_delete)

lemma rejected_change [simp]:
  "counter_ok (c\<lparr>c_rejected := n\<rparr>) = counter_ok c" "Count (c\<lparr>c_rejected := n\<rparr>) k = Count c k"
  "TotalActive (c\<lparr>c_rejected := n\<rparr>) = TotalActive c"
  by (simp_all add: counter_ok_def Count_def TotalActive_def)

lemma release_slot:
  fixes k :: string
  assumes "counter_ok c"
  defines "c' \<equiv> snd (Decrement k c)"
  shows "counter_ok c'" and "Count c' k' = (if k' = k then max 0 (Count c k - 1) else Count c k')"
    and "TotalActive c' = TotalActive c - (if 0 < Count c k then 1 else 0)"
    and "client_of_job c' j = client_of_job c j"
  using assms(1) Count_nonneg [OF assms(1), of k]
  by (simp_all add: c'_def Decrement_def Let_def counts_update counts_delete Count_change Total_change client_of_job_def max_def)

lemma DecrementByJob_release:
  "DecrementByJob j c = (case map_of (c_job_client c) j of None \<Rightarrow> (0, c)
     | Some k \<Rightarrow> Decrement k (c\<lparr>c_job_client := AList.delete j (c_job_client c)\<rparr>))"
  by (simp add: DecrementByJob_def Decrement_def Let_def split: option.split)

interpretation in_memory: client_job_counter counter_ok Count TotalActive client_of_job TryIncrement RegisterJob
  Decrement DecrementByJob
proof (unfold_locales, goal_cases)
  case (2 s c l j)
  then show ?case using Count_nonneg [OF 2, of c]
    by (auto simp: TryIncrement_def RegisterJob_def DecrementByJob_release Let_def counts_update clients_change
        release_slot split: option.split)
next
  case (10 s j c)
  then show ?case
    by (auto simp: DecrementByJob_release client_of_job_def release_slot clients_change Count_change split: option.split)
next
  case (11 s j j')
  then show ?case
    using release_slot(4) [OF clients_change(2) [OF 11, of j]]
    by (auto simp: DecrementByJob_release client_of_job_def alist_ops split: option.split)
next
  case (15 s j)
  then show ?case
    by (auto simp: DecrementByJob_release client_of_job_def release_slot clients_change Count_change Total_change
        split: option.split)
qed (auto simp: Count_nonneg TryIncrement_def RegisterJob_def Let_def Count_change Total_change client_of_job_def
    alist_ops release_slot(2,3) release_slot(4) [unfolded client_of_job_def])

end
