(* ===== verification/Protocol.thy ===== *)
theory Protocol
  imports GoStrings
begin

section \<open>The protocol vocabulary (pkg/protocol)\<close>

text \<open>
  Job and worker statuses with their wire strings and parsers, failure types with their
  retryability, and worker capability records. A status is a datatype with one constructor per
  constant of \<^verbatim>\<open>constants.go\<close>; \<open>ParseJobStatus\<close> is the only way from a wire string to a status.
\<close>

datatype job_status =
    JobStatusPending | JobStatusQueued | JobStatusRunning
  | JobStatusCompleted | JobStatusFailed | JobStatusCancelled | JobStatusTimeout

datatype worker_status = WorkerStatusIdle | WorkerStatusBusy | WorkerStatusOffline

fun job_status_string :: "job_status \<Rightarrow> string" where
  "job_status_string JobStatusPending = ''pending''"
| "job_status_string JobStatusQueued = ''queued''"
| "job_status_string JobStatusRunning = ''running''"
| "job_status_string JobStatusCompleted = ''completed''"
| "job_status_string JobStatusFailed = ''failed''"
| "job_status_string JobStatusCancelled = ''cancelled''"
| "job_status_string JobStatusTimeout = ''timeout''"

fun worker_status_string :: "worker_status \<Rightarrow> string" where
  "worker_status_string WorkerStatusIdle = ''idle''"
| "worker_status_string WorkerStatusBusy = ''busy''"
| "worker_status_string WorkerStatusOffline = ''offline''"

definition ParseJobStatus :: "string \<Rightarrow> job_status option" where
  "ParseJobStatus s =
     (if s = ''pending'' then Some JobStatusPending
      else if s = ''queued'' then Some JobStatusQueued
      else if s = ''running'' then Some JobStatusRunning
      else if s = ''completed'' then Some JobStatusCompleted
      else if s = ''failed'' then Some JobStatusFailed
      else if s = ''cancelled'' then Some JobStatusCancelled
      else if s = ''timeout'' then Some JobStatusTimeout
      else None)"

definition ParseWorkerStatus :: "string \<Rightarrow> worker_status option" where
  "ParseWorkerStatus s =
     (if s = ''idle'' then Some WorkerStatusIdle
      else if s = ''busy'' then Some WorkerStatusBusy
      else if s = ''offline'' then Some WorkerStatusOffline
      else None)"

definition IsTerminalStatus :: "job_status \<Rightarrow> bool" where
  "IsTerminalStatus status \<longleftrightarrow>
     status = JobStatusCompleted \<or> status = JobStatusFailed \<or>
     status = JobStatusCancelled \<or> status = JobStatusTimeout"

definition IsErrorStatus :: "job_status \<Rightarrow> bool" where
  "IsErrorStatus status \<longleftrightarrow>
     status = JobStatusFailed \<or> status = JobStatusCancelled \<or> status = JobStatusTimeout"

text \<open>Failure types travel as strings, and the database column may hold any of them.\<close>

definition FailureInputUnreachable :: string where
  "FailureInputUnreachable = ''INPUT_UNREACHABLE''"
definition FailureEncoderUnsupported :: string where
  "FailureEncoderUnsupported = ''ENCODER_UNSUPPORTED''"
definition FailureEncoderUnavailable :: string where
  "FailureEncoderUnavailable = ''ENCODER_UNAVAILABLE''"
definition FailureDiskFull :: string where
  "FailureDiskFull = ''DISK_FULL''"
definition FailureTimeout :: string where
  "FailureTimeout = ''TIMEOUT''"
definition FailureWorkerCrash :: string where
  "FailureWorkerCrash = ''WORKER_CRASH''"
definition FailureFFmpegError :: string where
  "FailureFFmpegError = ''FFMPEG_ERROR''"
definition FailureNoWorkerAvailable :: string where
  "FailureNoWorkerAvailable = ''NO_WORKER_AVAILABLE''"
definition FailureInfra :: string where
  "FailureInfra = ''INFRA''"

lemmas failure_type_defs =
  FailureInputUnreachable_def FailureEncoderUnsupported_def FailureEncoderUnavailable_def
  FailureDiskFull_def FailureTimeout_def FailureWorkerCrash_def FailureFFmpegError_def
  FailureNoWorkerAvailable_def FailureInfra_def

definition FailureType_IsValid :: "string \<Rightarrow> bool" where
  "FailureType_IsValid f \<longleftrightarrow> f \<in>
     {FailureInputUnreachable, FailureEncoderUnsupported, FailureEncoderUnavailable,
      FailureDiskFull, FailureTimeout, FailureWorkerCrash, FailureFFmpegError,
      FailureNoWorkerAvailable, FailureInfra}"

definition FailureType_Retryable :: "string \<Rightarrow> bool" where
  "FailureType_Retryable f \<longleftrightarrow> f \<in> {FailureTimeout, FailureWorkerCrash}"

record encoder_info =
  ei_name :: string
  ei_description :: string
  ei_type :: string
  ei_is_hw :: bool
  ei_priority :: int

record decoder_info =
  di_name :: string
  di_description :: string
  di_type :: string
  di_is_hw :: bool

record gpu_device_info =
  gd_type :: string
  gd_path :: string
  gd_name :: string
  gd_driver_version :: string
  gd_vendor :: string
  gd_accessible :: bool
  gd_qsv_healthy :: bool
  gd_qsv_error :: string

record worker_capabilities =
  wc_gpu_model :: string
  wc_encoders :: "string list"
  wc_decoders :: "string list"
  wc_ffmpeg_version :: string
  wc_max_concurrent :: int
  wc_video_encoders :: "encoder_info list"
  wc_video_decoders :: "decoder_info list"
  wc_hw_encoders :: "string list"
  wc_hw_decoders :: "string list"
  wc_gpu_devices :: "gpu_device_info list"
  wc_encoder_priority :: "string list"
  wc_encoder_blacklist :: "string list"
  wc_hwaccels :: string
  wc_codecs :: string
  wc_filters :: string
  wc_pix_fmts :: string
  wc_formats :: string

text \<open>
  \<open>NewWorkerCapabilities\<close>: the legacy name lists are collected in the order of the probe results, and
  the GPU model is the first non-empty device name. A \<^verbatim>\<open>gpu.Device\<close> has the fields of the reported
  record.
\<close>

definition NewWorkerCapabilities ::
  "string \<Rightarrow> encoder_info list \<Rightarrow> decoder_info list \<Rightarrow> gpu_device_info list \<Rightarrow> int \<Rightarrow>
   string list \<Rightarrow> string list \<Rightarrow> worker_capabilities" where
  "NewWorkerCapabilities ffmpegVersion videoEncoders videoDecoders gpuDevices maxConcurrent
     encoderPriority encoderBlacklist =
   \<lparr>wc_gpu_model = (case filter (\<lambda>n. n \<noteq> []) (map gd_name gpuDevices) of [] \<Rightarrow> [] | n # _ \<Rightarrow> n),
    wc_encoders = map ei_name videoEncoders,
    wc_decoders = map di_name videoDecoders,
    wc_ffmpeg_version = ffmpegVersion,
    wc_max_concurrent = maxConcurrent,
    wc_video_encoders = videoEncoders,
    wc_video_decoders = videoDecoders,
    wc_hw_encoders = map ei_name (filter ei_is_hw videoEncoders),
    wc_hw_decoders = map di_name (filter di_is_hw videoDecoders),
    wc_gpu_devices = gpuDevices,
    wc_encoder_priority = encoderPriority,
    wc_encoder_blacklist = encoderBlacklist,
    wc_hwaccels = [], wc_codecs = [], wc_filters = [], wc_pix_fmts = [], wc_formats = []\<rparr>"

definition HasEncoder :: "worker_capabilities \<Rightarrow> string \<Rightarrow> bool" where
  "HasEncoder w encoder \<longleftrightarrow> encoder \<in> set (wc_encoders w)"

definition HasDecoder :: "worker_capabilities \<Rightarrow> string \<Rightarrow> bool" where
  "HasDecoder w decoder \<longleftrightarrow> decoder \<in> set (wc_decoders w)"

subsection \<open>Facts the components share\<close>

lemma IsTerminalStatus_simps [simp]:
  "\<not> IsTerminalStatus JobStatusPending" "\<not> IsTerminalStatus JobStatusQueued"
  "\<not> IsTerminalStatus JobStatusRunning" "IsTerminalStatus JobStatusCompleted"
  "IsTerminalStatus JobStatusFailed" "IsTerminalStatus JobStatusCancelled"
  "IsTerminalStatus JobStatusTimeout"
  by (simp_all add: IsTerminalStatus_def)

lemma not_terminal_cases:
  "\<not> IsTerminalStatus s \<longleftrightarrow> s = JobStatusPending \<or> s = JobStatusQueued \<or> s = JobStatusRunning"
  by (cases s) simp_all

lemma Retryable_literals:
  "FailureType_Retryable f \<longleftrightarrow> f = ''TIMEOUT'' \<or> f = ''WORKER_CRASH''"
  by (simp add: FailureType_Retryable_def failure_type_defs)

lemma Retryable_valid: "FailureType_Retryable f \<Longrightarrow> FailureType_IsValid f"
  by (auto simp: FailureType_Retryable_def FailureType_IsValid_def)

lemma ParseJobStatus_iff: "ParseJobStatus s = Some st \<longleftrightarrow> s = job_status_string st"
  by (cases st) (auto simp: ParseJobStatus_def)

lemma ParseWorkerStatus_iff: "ParseWorkerStatus s = Some st \<longleftrightarrow> s = worker_status_string st"
  by (cases st) (auto simp: ParseWorkerStatus_def)

end
