(* ===== verification/DbState.thy ===== *)
theory DbState
  imports Protocol
begin

section \<open>The database: rows, tables and the statements on them (pkg/server/db)\<close>

text \<open>
  One record per table of \<^verbatim>\<open>initTables\<close>, one field per column; a nullable column is an option. JSON array
  columns are the lists they encode: \<open>job_ids\<close> and \<open>encoders\<close>, which SQL reads with \<^verbatim>\<open>json_each\<close>, and
  \<open>args\<close>, which is \<open>None\<close> where \<^verbatim>\<open>json.Unmarshal\<close> into a string slice fails. REAL columns are rationals.

  The operations of package \<^verbatim>\<open>db\<close> are functions from the database to their result and the database
  they leave. What they take from their environment is explicit: the instant \<open>now\<close> that \<^verbatim>\<open>time.Now\<close>
  returns, the identifier \<open>id\<close> that \<^verbatim>\<open>uuid.New\<close> returns, and \<open>ok\<close>, whether the SQL driver's calls
  succeed. A failing statement, or any failing call of a transaction (its deferred rollback runs),
  is \<open>DriverError\<close> and leaves the tables as they were.

  \<open>terminal_log\<close> records the calls of \<^verbatim>\<open>NotifyTerminal\<close> in order: its hook releases the client's quota
  slot and wakes the waiters of the job.
\<close>

record job_row =
  j_id :: string
  j_status :: job_status
  j_input_files :: string
  j_args :: "string list option"
  j_output_filename :: string
  j_streaming_output :: bool
  j_output_files :: string
  j_worker_id :: "string option"
  j_assigned_worker :: "string option"
  j_worker_name :: "string option"
  j_exit_code :: "int option"
  j_error :: "string option"
  j_failure_type :: string
  j_failure_details :: string
  j_retryable :: bool
  j_auto_hw :: bool
  j_cached :: bool
  j_timeout :: "int option"
  j_direct_paths :: string
  j_progress_percent :: rat
  j_eta_seconds :: int
  j_created_at :: time
  j_updated_at :: time
  j_claimed_at :: "time option"
  j_started_at :: "time option"
  j_finished_at :: "time option"

record worker_row =
  w_id :: string
  w_name :: string
  w_status :: worker_status
  w_gpu_model :: "string option"
  w_encoders :: "string list"
  w_decoders :: "string list"
  w_video_encoders :: "encoder_info list"
  w_video_decoders :: "decoder_info list"
  w_gpu_devices :: "gpu_device_info list"
  w_ffmpeg_version :: string
  w_max_concurrent :: int
  w_evicted :: bool
  w_evicted_at :: "time option"
  w_hwaccels :: string
  w_codecs :: string
  w_filters :: string
  w_pix_fmts :: string
  w_formats :: string
  w_last_heartbeat :: time
  w_created_at :: time

record migration_event =
  me_id :: string
  me_timestamp :: time
  me_worker_id :: string
  me_worker_name :: "string option"
  me_reason :: string
  me_retry_count :: int
  me_job_ids :: "string list"
  me_jobs_migrated :: nat
  me_created_at :: time

record job_redistribution =
  jr_id :: string
  jr_migration_event_id :: string
  jr_job_id :: string
  jr_retry_count :: int
  jr_target_worker_id :: "string option"
  jr_target_worker_name :: "string option"
  jr_created_at :: time

datatype eviction_event_type = EvictionEventEvicted | EvictionEventRecovered

record eviction_event =
  ee_id :: string
  ee_timestamp :: time
  ee_worker_id :: string
  ee_event_type :: eviction_event_type
  ee_current_throughput :: rat
  ee_cluster_median :: rat
  ee_decision_reason :: string
  ee_created_at :: time

record database =
  jobs :: "job_row list"
  workers :: "worker_row list"
  migration_events :: "migration_event list"
  job_redistributions :: "job_redistribution list"
  eviction_events :: "eviction_event list"
  ws_job_seq :: "(string \<times> int) list"
  terminal_log :: "string list"

text \<open>
  The errors the operations return: the sentinels of \<^verbatim>\<open>errors.go\<close>, the status-carrying errors built
  with \<^verbatim>\<open>fmt.Errorf\<close>, and a driver error.
\<close>

datatype db_error =
    ErrJobNotFound | ErrJobNotOwned | ErrJobTerminal job_status | CannotCancel job_status
  | ErrWorkerNotFound | ErrMigrationEventNotFound | DriverError

type_synonym 'a db_result = "(db_error + 'a) \<times> database"

subsection \<open>Statements on the tables\<close>

definition upd_jobs :: "(job_row \<Rightarrow> bool) \<Rightarrow> (job_row \<Rightarrow> job_row) \<Rightarrow> database \<Rightarrow> database" where
  "upd_jobs P f d = d\<lparr>jobs := upd_where P f (jobs d)\<rparr>"

definition upd_workers :: "(worker_row \<Rightarrow> bool) \<Rightarrow> (worker_row \<Rightarrow> worker_row) \<Rightarrow> database \<Rightarrow> database" where
  "upd_workers P f d = d\<lparr>workers := upd_where P f (workers d)\<rparr>"

abbreviation find_job :: "string \<Rightarrow> database \<Rightarrow> job_row option" where
  "find_job i d \<equiv> find_row j_id i (jobs d)"

abbreviation find_worker :: "string \<Rightarrow> database \<Rightarrow> worker_row option" where
  "find_worker i d \<equiv> find_row w_id i (workers d)"

text \<open>The subquery \<^verbatim>\<open>(SELECT name FROM workers WHERE id = ?)\<close>: NULL where there is no such worker.\<close>

definition worker_name_of :: "string \<Rightarrow> database \<Rightarrow> string option" where
  "worker_name_of w d = map_option w_name (find_worker w d)"

definition NotifyTerminal :: "string \<Rightarrow> database \<Rightarrow> database" where
  "NotifyTerminal jobID d = d\<lparr>terminal_log := terminal_log d @ [jobID]\<rparr>"

definition active :: "job_row \<Rightarrow> bool" where
  "active j \<longleftrightarrow> j_status j = JobStatusRunning \<or> j_status j = JobStatusQueued"

text \<open>\<^verbatim>\<open>WHERE id = ? AND worker_id = ? AND status IN ('running', 'queued')\<close>, the ownership guard.\<close>

definition owned_active :: "string \<Rightarrow> string \<Rightarrow> job_row \<Rightarrow> bool" where
  "owned_active jobID workerID j \<longleftrightarrow>
     j_id j = jobID \<and> j_worker_id j = Some workerID \<and> active j"

text \<open>The worker predicates that the stuck-job scan and its guarded update share.\<close>

definition missingWorker :: "database \<Rightarrow> job_row \<Rightarrow> bool" where
  "missingWorker d j \<longleftrightarrow>
     (case j_worker_id j of None \<Rightarrow> True | Some w \<Rightarrow> find_worker w d = None)"

definition offlineWorker :: "database \<Rightarrow> job_row \<Rightarrow> bool" where
  "offlineWorker d j \<longleftrightarrow>
     (case j_worker_id j of None \<Rightarrow> False
      | Some w \<Rightarrow> (case find_worker w d of None \<Rightarrow> False | Some r \<Rightarrow> w_status r = WorkerStatusOffline))"

definition liveWorker :: "database \<Rightarrow> job_row \<Rightarrow> bool" where
  "liveWorker d j \<longleftrightarrow>
     (case j_worker_id j of None \<Rightarrow> False
      | Some w \<Rightarrow> (case find_worker w d of None \<Rightarrow> False | Some r \<Rightarrow> w_status r \<noteq> WorkerStatusOffline))"

text \<open>
  \<open>NormalizeWorkerID\<close>: \<open>uuid_parse\<close> stands for \<^verbatim>\<open>uuid.Parse\<close> of google/uuid followed by \<^verbatim>\<open>String\<close>, the canonical
  form of an identifier that parses.
\<close>

definition NormalizeWorkerID :: "(string \<Rightarrow> string option) \<Rightarrow> string \<Rightarrow> string" where
  "NormalizeWorkerID uuid_parse wid =
     (case uuid_parse (TrimSpace wid) of Some c \<Rightarrow> c | None \<Rightarrow> TrimSpace wid)"

text \<open>
  What the documentation of \<^verbatim>\<open>uuid.Parse\<close> says of the canonical form: it parses to itself and has no
  surrounding white space.
\<close>

definition uuid_canonical :: "(string \<Rightarrow> string option) \<Rightarrow> bool" where
  "uuid_canonical uuid_parse \<longleftrightarrow>
     (\<forall>s c. uuid_parse s = Some c \<longrightarrow> uuid_parse c = Some c \<and> TrimSpace c = c)"

subsection \<open>Lemmas on rows and tables\<close>

lemma upd_jobs_sel [simp]:
  "jobs (upd_jobs P f d) = upd_where P f (jobs d)"
  "workers (upd_jobs P f d) = workers d"
  "migration_events (upd_jobs P f d) = migration_events d"
  "job_redistributions (upd_jobs P f d) = job_redistributions d"
  "eviction_events (upd_jobs P f d) = eviction_events d"
  "ws_job_seq (upd_jobs P f d) = ws_job_seq d"
  "terminal_log (upd_jobs P f d) = terminal_log d"
  by (simp_all add: upd_jobs_def)

lemma upd_workers_sel [simp]:
  "jobs (upd_workers P g d) = jobs d"
  "workers (upd_workers P g d) = upd_where P g (workers d)"
  "migration_events (upd_workers P g d) = migration_events d"
  "job_redistributions (upd_workers P g d) = job_redistributions d"
  "eviction_events (upd_workers P g d) = eviction_events d"
  "ws_job_seq (upd_workers P g d) = ws_job_seq d"
  "terminal_log (upd_workers P g d) = terminal_log d"
  by (simp_all add: upd_workers_def)

lemma NotifyTerminal_sel [simp]:
  "jobs (NotifyTerminal i d) = jobs d"
  "workers (NotifyTerminal i d) = workers d"
  "migration_events (NotifyTerminal i d) = migration_events d"
  "job_redistributions (NotifyTerminal i d) = job_redistributions d"
  "terminal_log (NotifyTerminal i d) = terminal_log d @ [i]"
  by (simp_all add: NotifyTerminal_def)

lemma active_not_terminal: "active j \<Longrightarrow> \<not> IsTerminalStatus (j_status j)"
  by (auto simp: active_def)

lemma worker_predicates_split: "missingWorker d j \<or> offlineWorker d j \<or> liveWorker d j"
  by (auto simp: missingWorker_def offlineWorker_def liveWorker_def split: option.splits)

lemma worker_predicates_exclusive:
  "liveWorker d j \<Longrightarrow> \<not> missingWorker d j \<and> \<not> offlineWorker d j"
  by (auto simp: missingWorker_def offlineWorker_def liveWorker_def split: option.splits)

lemma NormalizeWorkerID_idem:
  assumes "uuid_canonical up"
  shows "NormalizeWorkerID up (NormalizeWorkerID up s) = NormalizeWorkerID up s"
  using assms
  by (auto simp: NormalizeWorkerID_def uuid_canonical_def TrimSpace_idem split: option.splits)

end
