(* ===== verification/WsHub.thy ===== *)
theory WsHub
  imports DbState "HOL-Library.AList"
begin

section \<open>The WebSocket hub (pkg/server/websocket/hub.go, pkg/server/db/ws_seq.go, pkg/protocol/websocket.go)\<close>

text \<open>
  The hub stamps every data-bearing message of a job with a sequence number, queues it, and its run loop copies it
  to the clients of the job. A Go map is an association list; a buffered channel is the list of its elements. A
  message travels as the value that is marshalled; the bytes of a frame are the subject of \<open>writeFrame\<close>. Every
  function is one critical section: the sequential composition of a broadcast is \<open>BroadcastWSMessage\<close>, the
  interleavings of concurrent ones are the step relation.
\<close>

subsection \<open>Messages\<close>

datatype ws_message_type =
  WSMsgStderr | WSMsgStdout | WSMsgStatus | WSMsgProgress | WSMsgComplete | WSMsgError | WSMsgHeartbeat

text \<open>\<open>Data\<close>: nothing, a status payload (status, exit code, error), or a progress payload
  (percent, time, duration, speed, ETA).\<close>

datatype ws_data =
    NoData
  | WSStatusPayload job_status int string
  | WSProgressPayload rat int int rat int

record ws_message =
  m_type :: ws_message_type
  m_timestamp :: time
  m_job_id :: string
  m_payload :: string
  m_data :: ws_data
  m_seq :: int

definition NewWSMessage :: "time \<Rightarrow> ws_message_type \<Rightarrow> string \<Rightarrow> ws_message" where
  "NewWSMessage now msgType jobID =
     \<lparr>m_type = msgType, m_timestamp = now, m_job_id = jobID, m_payload = [], m_data = NoData, m_seq = 0\<rparr>"

definition NewStderrMessage :: "time \<Rightarrow> string \<Rightarrow> string \<Rightarrow> ws_message" where
  "NewStderrMessage now jobID chunk = (NewWSMessage now WSMsgStderr jobID)\<lparr>m_payload := chunk\<rparr>"

definition NewStdoutMessage :: "time \<Rightarrow> string \<Rightarrow> string \<Rightarrow> ws_message" where
  "NewStdoutMessage now jobID chunk = (NewWSMessage now WSMsgStdout jobID)\<lparr>m_payload := chunk\<rparr>"

definition NewStatusMessage :: "time \<Rightarrow> string \<Rightarrow> job_status \<Rightarrow> int \<Rightarrow> string \<Rightarrow> ws_message" where
  "NewStatusMessage now jobID status exitCode err =
     (NewWSMessage now WSMsgStatus jobID)\<lparr>m_data := WSStatusPayload status exitCode err\<rparr>"

definition NewProgressMessage :: "time \<Rightarrow> string \<Rightarrow> rat \<Rightarrow> int \<Rightarrow> int \<Rightarrow> rat \<Rightarrow> int \<Rightarrow> ws_message" where
  "NewProgressMessage now jobID percent timeUs durationUs speed etaSeconds =
     (NewWSMessage now WSMsgProgress jobID)\<lparr>m_data := WSProgressPayload percent timeUs durationUs speed etaSeconds\<rparr>"

definition NewCompleteMessage :: "time \<Rightarrow> string \<Rightarrow> int \<Rightarrow> ws_message" where
  "NewCompleteMessage now jobID exitCode =
     (NewWSMessage now WSMsgComplete jobID)\<lparr>m_data := WSStatusPayload JobStatusCompleted exitCode []\<rparr>"

definition NewErrorMessage :: "time \<Rightarrow> string \<Rightarrow> string \<Rightarrow> ws_message" where
  "NewErrorMessage now jobID errMsg = (NewWSMessage now WSMsgError jobID)\<lparr>m_payload := errMsg\<rparr>"

definition NewHeartbeatMessage :: "time \<Rightarrow> ws_message" where
  "NewHeartbeatMessage now = NewWSMessage now WSMsgHeartbeat []"

subsection \<open>The stored counters (db/ws_seq.go)\<close>

definition LoadWSJobSeq :: "bool \<Rightarrow> string \<Rightarrow> database \<Rightarrow> db_error + int" where
  "LoadWSJobSeq ok jobID d = (if \<not> ok then Inl DriverError else Inr (coalesce (map_of (ws_job_seq d) jobID) 0))"

definition SaveWSJobSeq :: "bool \<Rightarrow> string \<Rightarrow> int \<Rightarrow> database \<Rightarrow> unit db_result" where
  "SaveWSJobSeq ok jobID lastSeq d =
     (if \<not> ok then (Inl DriverError, d) else (Inr (), d\<lparr>ws_job_seq := AList.update jobID lastSeq (ws_job_seq d)\<rparr>))"

definition DeleteWSJobSeq :: "bool \<Rightarrow> string \<Rightarrow> database \<Rightarrow> unit db_result" where
  "DeleteWSJobSeq ok jobID d =
     (if \<not> ok then (Inl DriverError, d) else (Inr (), d\<lparr>ws_job_seq := AList.delete jobID (ws_job_seq d)\<rparr>))"

text \<open>\<^verbatim>\<open>SeqStore\<close>, the interface the hub is given: each method with the outcome of its driver calls.\<close>

record 's seq_store =
  ss_load :: "bool \<Rightarrow> string \<Rightarrow> 's \<Rightarrow> db_error + int"
  ss_save :: "bool \<Rightarrow> string \<Rightarrow> int \<Rightarrow> 's \<Rightarrow> (db_error + unit) \<times> 's"
  ss_delete :: "bool \<Rightarrow> string \<Rightarrow> 's \<Rightarrow> (db_error + unit) \<times> 's"

definition db_seq_store :: "database seq_store" where
  "db_seq_store = \<lparr>ss_load = LoadWSJobSeq, ss_save = SaveWSJobSeq, ss_delete = DeleteWSJobSeq\<rparr>"

subsection \<open>Hub and clients\<close>

text \<open>
  \<open>cl_closed\<close> is the flag that \<^verbatim>\<open>Close\<close> sets when it closes the send channel; \<open>cl_written\<close> what the write pump has
  handed to the connection, in order.
\<close>

record ws_client =
  cl_job :: string
  cl_send :: "ws_message list"
  cl_closed :: bool

record 's hub =
  h_clients :: "(string \<times> nat list) list"
  h_conns :: "nat \<Rightarrow> ws_client"
  h_broadcast :: "ws_message list"
  h_seq :: "(string \<times> int) list"
  h_store :: "'s option"
  h_failures :: int
  h_closed :: bool
  h_panicked :: bool  \<comment> \<open>the run loop sent on a closed channel\<close>

definition hubBroadcastBuffer :: nat where "hubBroadcastBuffer = 256"
definition clientBuffer :: nat where "clientBuffer = 256"

definition NewHubWithSeqStore :: "(nat \<Rightarrow> ws_client) \<Rightarrow> 's option \<Rightarrow> 's hub" where
  "NewHubWithSeqStore conns store =
     \<lparr>h_clients = [], h_conns = conns, h_broadcast = [], h_seq = [], h_store = store, h_failures = 0,
      h_closed = False, h_panicked = False\<rparr>"

definition NewClient :: "string \<Rightarrow> ws_client" where
  "NewClient jobID = \<lparr>cl_job = jobID, cl_send = [], cl_closed = False\<rparr>"

definition upd_conn :: "nat \<Rightarrow> (ws_client \<Rightarrow> ws_client) \<Rightarrow> 's hub \<Rightarrow> 's hub" where
  "upd_conn c f h = h\<lparr>h_conns := (h_conns h)(c := f (h_conns h c))\<rparr>"

text \<open>\<^verbatim>\<open>Close\<close> is idempotent; it closes the send channel, so a later send on it would panic.\<close>

definition client_Close :: "nat \<Rightarrow> 's hub \<Rightarrow> 's hub" where
  "client_Close c h = upd_conn c (\<lambda>cl. cl\<lparr>cl_closed := True\<rparr>) h"

definition listeners :: "string \<Rightarrow> 's hub \<Rightarrow> nat list" where
  "listeners jobID h = coalesce (map_of (h_clients h) jobID) []"

definition set_listeners :: "string \<Rightarrow> nat list \<Rightarrow> 's hub \<Rightarrow> 's hub" where
  "set_listeners jobID cs h = h\<lparr>h_clients :=
     (if cs = [] then AList.delete jobID (h_clients h) else AList.update jobID cs (h_clients h))\<rparr>"

subsection \<open>The run loop\<close>

definition run_register :: "nat \<Rightarrow> 's hub \<Rightarrow> 's hub" where
  "run_register c h =
     (if h_closed h then client_Close c h
      else (let job = cl_job (h_conns h c) in
            set_listeners job (if c \<in> set (listeners job h) then listeners job h else c # listeners job h) h))"

definition run_unregister :: "nat \<Rightarrow> 's hub \<Rightarrow> 's hub" where
  "run_unregister c h =
     (let job = cl_job (h_conns h c) in
      if c \<in> set (listeners job h) then client_Close c (set_listeners job (remove1 c (listeners job h)) h) else h)"

text \<open>
  One client of the broadcast: the message goes to its buffer; a full buffer sheds the client, out of the map
  first and then closed; a send on a closed channel panics the loop.
\<close>

definition deliver_to :: "ws_message \<Rightarrow> nat \<Rightarrow> 's hub \<Rightarrow> 's hub" where
  "deliver_to msg c h =
     (if cl_closed (h_conns h c) then h\<lparr>h_panicked := True\<rparr>
      else if length (cl_send (h_conns h c)) < clientBuffer
      then upd_conn c (\<lambda>cl. cl\<lparr>cl_send := cl_send cl @ [msg]\<rparr>) h
      else client_Close c (set_listeners (m_job_id msg) (remove1 c (listeners (m_job_id msg) h)) h))"

definition run_broadcast :: "'s hub \<Rightarrow> 's hub" where
  "run_broadcast h =
     (case h_broadcast h of
        [] \<Rightarrow> h
      | msg # rest \<Rightarrow>
          (let h = h\<lparr>h_broadcast := rest\<rparr> in fold (deliver_to msg) (listeners (m_job_id msg) h) h))"

text \<open>The shutdown case: every live connection is closed and the map cleared.\<close>

definition run_close :: "'s hub \<Rightarrow> 's hub" where
  "run_close h = (fold client_Close (concat (map snd (h_clients h))) h)\<lparr>h_clients := []\<rparr>"

definition hub_Close :: "'s hub \<Rightarrow> 's hub" where
  "hub_Close h = h\<lparr>h_closed := True\<rparr>"

definition ClientCount :: "string \<Rightarrow> 's hub \<Rightarrow> nat" where
  "ClientCount jobID h = length (listeners jobID h)"

definition TotalClients :: "'s hub \<Rightarrow> nat" where
  "TotalClients h = sum_list (map (\<lambda>e. length (snd e)) (h_clients h))"

subsection \<open>Sequence numbers\<close>

definition injectSeqLocked :: "string \<Rightarrow> int \<Rightarrow> 's hub \<Rightarrow> 's hub" where
  "injectSeqLocked jobID lastSeq h =
     (if map_of (h_seq h) jobID = None \<and> lastSeq > 0
      then h\<lparr>h_seq := AList.update jobID lastSeq (h_seq h)\<rparr> else h)"

text \<open>\<^verbatim>\<open>prefetchSeq\<close> and \<^verbatim>\<open>ensureSeq\<close> make the same lookup, the first before the lock and the second under it.\<close>

definition prefetchSeq :: "'s seq_store \<Rightarrow> bool \<Rightarrow> string \<Rightarrow> 's hub \<Rightarrow> 's hub" where
  "prefetchSeq ss ok jobID h =
     (case h_store h of
        None \<Rightarrow> h
      | Some s \<Rightarrow>
          if map_of (h_seq h) jobID \<noteq> None then h
          else case ss_load ss ok jobID s of Inl e \<Rightarrow> h | Inr lastSeq \<Rightarrow> injectSeqLocked jobID lastSeq h)"

definition ensureSeq :: "'s seq_store \<Rightarrow> bool \<Rightarrow> string \<Rightarrow> 's hub \<Rightarrow> 's hub" where
  "ensureSeq ss ok jobID h =
     (if map_of (h_seq h) jobID \<noteq> None then h
      else case h_store h of
        None \<Rightarrow> h
      | Some s \<Rightarrow> (case ss_load ss ok jobID s of Inl e \<Rightarrow> h | Inr lastSeq \<Rightarrow> injectSeqLocked jobID lastSeq h))"

definition persistSeq :: "'s seq_store \<Rightarrow> bool \<Rightarrow> string \<Rightarrow> int \<Rightarrow> bool \<Rightarrow> 's hub \<Rightarrow> 's hub" where
  "persistSeq ss ok jobID seq terminal h =
     (case h_store h of
        None \<Rightarrow> h
      | Some s \<Rightarrow>
          (case (if terminal then ss_delete ss ok jobID s else ss_save ss ok jobID seq s) of
             (Inl e, s') \<Rightarrow> h\<lparr>h_store := Some s', h_failures := h_failures h + 1\<rparr>
           | (Inr u, s') \<Rightarrow> h\<lparr>h_store := Some s'\<rparr>))"

text \<open>The bounded send on the broadcast channel: with no room the message is dropped after the timeout.\<close>

definition Broadcast :: "ws_message \<Rightarrow> 's hub \<Rightarrow> bool \<times> 's hub" where
  "Broadcast msg h =
     (if length (h_broadcast h) < hubBroadcastBuffer
      then (True, h\<lparr>h_broadcast := h_broadcast h @ [msg]\<rparr>) else (False, h))"

definition terminal_status_message :: "ws_message \<Rightarrow> bool" where
  "terminal_status_message msg \<longleftrightarrow> m_type msg = WSMsgStatus \<and>
     (case m_data msg of WSStatusPayload st ec e \<Rightarrow> IsTerminalStatus st | _ \<Rightarrow> False)"

definition closing_message :: "ws_message \<Rightarrow> bool" where
  "closing_message msg \<longleftrightarrow> m_type msg = WSMsgComplete \<or> m_type msg = WSMsgError"

text \<open>
  The locked middle of a broadcast: restore, increment, stamp, drop the counter after a closing message, send.
  The result is the stamped message, whether the send went through, and the hub.
\<close>

definition stampAndSend :: "'s seq_store \<Rightarrow> bool \<Rightarrow> ws_message \<Rightarrow> 's hub \<Rightarrow> ws_message \<times> bool \<times> 's hub" where
  "stampAndSend ss ok msg h =
     (let h = ensureSeq ss ok (m_job_id msg) h;
          n = coalesce (map_of (h_seq h) (m_job_id msg)) 0 + 1;
          msg = msg\<lparr>m_seq := n\<rparr>;
          h = h\<lparr>h_seq := AList.update (m_job_id msg) n (h_seq h)\<rparr>;
          h = (if closing_message msg then h\<lparr>h_seq := AList.delete (m_job_id msg) (h_seq h)\<rparr> else h);
          (sent, h) = Broadcast msg h
      in (msg, sent, h))"

definition persists_terminal :: "ws_message \<Rightarrow> bool" where
  "persists_terminal msg \<longleftrightarrow> terminal_status_message msg \<or> closing_message msg"

text \<open>One broadcast without interference. \<open>okl\<close>, \<open>oke\<close> and \<open>okp\<close> are the outcomes of its three store calls.\<close>

definition BroadcastWSMessage ::
  "'s seq_store \<Rightarrow> bool \<Rightarrow> bool \<Rightarrow> bool \<Rightarrow> ws_message \<Rightarrow> 's hub \<Rightarrow> bool \<times> 's hub" where
  "BroadcastWSMessage ss okl oke okp msg h =
     (if m_type msg \<noteq> WSMsgHeartbeat
      then (let h = prefetchSeq ss okl (m_job_id msg) h;
                (msg, sent, h) = stampAndSend ss oke msg h
            in (sent, persistSeq ss okp (m_job_id msg) (m_seq msg) (persists_terminal msg) h))
      else Broadcast msg h)"

definition ReleaseJobStream :: "'s seq_store \<Rightarrow> bool \<Rightarrow> string \<Rightarrow> 's hub \<Rightarrow> 's hub" where
  "ReleaseJobStream ss ok jobID h =
     persistSeq ss ok jobID 0 True (h\<lparr>h_seq := AList.delete jobID (h_seq h)\<rparr>)"

definition SeqPersistFailureCount :: "'s hub \<Rightarrow> int" where
  "SeqPersistFailureCount h = h_failures h"

subsection \<open>Frames (WritePump, writeFrame)\<close>

definition WSStdoutChunkBytes :: nat where "WSStdoutChunkBytes = 32 * 1024"
definition WSStdoutBatchChunks :: nat where "WSStdoutBatchChunks = 10"
definition WSMaxStdoutMessageBytes :: nat where
  "WSMaxStdoutMessageBytes = (WSStdoutChunkBytes * WSStdoutBatchChunks + 2) div 3 * 4 + 1024"
definition WSFrameByteBudget :: nat where "WSFrameByteBudget = 2 ^ 20"
definition WSClientReadLimit :: nat where "WSClientReadLimit = 4 * 2 ^ 20"

text \<open>
  The drain of \<^verbatim>\<open>writeFrame\<close>: \<open>sofar\<close> bytes are written; the messages that wait in the channel follow while the
  frame is under budget, each after a newline; one that does not fit is held back as \<open>pending\<close>.
\<close>

fun pack :: "nat \<Rightarrow> nat \<Rightarrow> string list \<Rightarrow> string \<times> string option \<times> string list" where
  "pack budget sofar [] = ([], None, [])"
| "pack budget sofar (next # queue) =
     (if sofar < budget
      then (if sofar + length next > budget then ([], Some next, queue)
            else (case pack budget (sofar + 1 + length next) queue of
                    (bytes, pending, rest) \<Rightarrow> (CHR ''\<newline>'' # next @ bytes, pending, rest)))
      else ([], None, next # queue))"

definition writeFrame :: "nat \<Rightarrow> string \<Rightarrow> string list \<Rightarrow> string \<times> string option \<times> string list" where
  "writeFrame budget message queue =
     (case pack budget (length message) queue of (bytes, pending, rest) \<Rightarrow> (message @ bytes, pending, rest))"

text \<open>
  The write pump on a queue that nothing joins: the frames it writes until the queue is empty, a held-back message first.
\<close>

lemma pack_rest: "pack b n q = (bytes, p, rest) \<Longrightarrow> length rest + (if p = None then 0 else 1) \<le> length q"
  by (induction b n q arbitrary: bytes p rest rule: pack.induct) (auto split: if_splits prod.splits)

function (sequential) write_pump :: "nat \<Rightarrow> string option \<Rightarrow> string list \<Rightarrow> string list" where
  "write_pump budget (Some message) queue =
     (case writeFrame budget message queue of (frame, pending, rest) \<Rightarrow> frame # write_pump budget pending rest)"
| "write_pump budget None [] = []"
| "write_pump budget None (message # queue) =
     (case writeFrame budget message queue of (frame, pending, rest) \<Rightarrow> frame # write_pump budget pending rest)"
  by pat_completeness auto

termination
proof (relation "measure (\<lambda>(b, p, q). length q + (if p = None then 0 else 1))"; (simp; fail)?)
  fix budget message queue frame pending rest y
  assume "(frame, y) = writeFrame budget message queue" "(pending, rest) = y"
  then have "length rest + (if pending = None then 0 else 1) \<le> length queue"
    by (auto simp: writeFrame_def split: prod.splits dest: pack_rest)
  then show "((budget, pending, rest), budget, Some message, queue) \<in> measure (\<lambda>(b, p, q). length q + (if p = None then 0 else 1))"
    "((budget, pending, rest), budget, None, message # queue) \<in> measure (\<lambda>(b, p, q). length q + (if p = None then 0 else 1))"
    by simp_all
qed

end
