(* ===== verification/StateTable.thy ===== *)
theory StateTable
  imports DbState
begin

section \<open>The in-memory worker table (pkg/server/workerhealth/statetable.go)\<close>

text \<open>
  Heartbeats feed a table keyed by canonical worker identity; slow-node detection judges its entries against the
  cluster median. The Go map is a list of entries with distinct keys, in the order of one range over it, which the
  theorems leave arbitrary. Throughputs are rationals where the code has \<^verbatim>\<open>float64\<close>. An instant is counted from
  Go's zero time, so \<^verbatim>\<open>IsZero\<close> is \<open>t = 0\<close>; \<open>up\<close> is the UUID parser of \<open>NormalizeWorkerID\<close>.
\<close>

record worker_state =
  ws_worker_id :: string
  ws_status :: string
  ws_gpu_mem_used_mb :: int
  ws_gpu_metrics_valid :: bool
  ws_gpu_util_pct :: rat
  ws_active_jobs :: "string list"
  ws_jobs_per_sec :: rat
  ws_ewma_jobs_per_sec :: rat
  ws_evicted :: bool
  ws_queue_depth :: int
  ws_completed_jobs :: int
  ws_last_seen :: time
  ws_started_at :: time
  ws_last_throughput_at :: time
  ws_zero_sample_streak :: nat

record heartbeat_payload =
  hb_worker_id :: string
  hb_status :: string
  hb_gpu_util_pct :: rat
  hb_gpu_mem_used_mb :: int
  hb_gpu_metrics_valid :: bool
  hb_active_jobs :: "string list"
  hb_jobs_per_sec :: rat
  hb_queue_depth :: int
  hb_completed_jobs :: int
  hb_timestamp :: time

record state_table =
  st_states :: "(string \<times> worker_state) list"
  st_offline_timeout :: duration
  st_alpha :: rat

definition DefaultEWMAAlpha :: rat where
  "DefaultEWMAAlpha = 2 / 5"

definition NewWorkerStateTable :: "duration \<Rightarrow> state_table" where
  "NewWorkerStateTable offlineTimeout =
     \<lparr>st_states = [], st_offline_timeout = (if offlineTimeout \<le> 0 then 30000000000 else offlineTimeout),
      st_alpha = DefaultEWMAAlpha\<rparr>"

subsection \<open>The map\<close>

fun put :: "string \<Rightarrow> worker_state \<Rightarrow> (string \<times> worker_state) list \<Rightarrow> (string \<times> worker_state) list" where
  "put k s [] = [(k, s)]"
| "put k s ((k', s') # xs) = (if k' = k then (k, s) # xs else (k', s') # put k s xs)"

definition entry :: "state_table \<Rightarrow> string \<Rightarrow> worker_state option" where
  "entry t k = map_of (st_states t) k"

definition set_entry :: "string \<Rightarrow> worker_state \<Rightarrow> state_table \<Rightarrow> state_table" where
  "set_entry k s t = t\<lparr>st_states := put k s (st_states t)\<rparr>"

subsection \<open>Heartbeats\<close>

text \<open>The zero value of a state with the identity and start that a first heartbeat gives it.\<close>

definition fresh_state :: "string \<Rightarrow> time \<Rightarrow> worker_state" where
  "fresh_state workerID ts =
     \<lparr>ws_worker_id = workerID, ws_status = [], ws_gpu_mem_used_mb = 0, ws_gpu_metrics_valid = False,
      ws_gpu_util_pct = 0, ws_active_jobs = [], ws_jobs_per_sec = 0, ws_ewma_jobs_per_sec = 0,
      ws_evicted = False, ws_queue_depth = 0, ws_completed_jobs = 0, ws_last_seen = 0,
      ws_started_at = ts, ws_last_throughput_at = 0, ws_zero_sample_streak = 0\<rparr>"

definition apply_payload :: "heartbeat_payload \<Rightarrow> worker_state \<Rightarrow> worker_state" where
  "apply_payload p s =
     (let s = s\<lparr>ws_status := hb_status p\<rparr>;
          s = (if hb_gpu_metrics_valid p
               then s\<lparr>ws_gpu_util_pct := hb_gpu_util_pct p, ws_gpu_mem_used_mb := hb_gpu_mem_used_mb p,
                      ws_gpu_metrics_valid := True\<rparr>
               else s\<lparr>ws_gpu_metrics_valid := False\<rparr>)
      in s\<lparr>ws_active_jobs := hb_active_jobs p, ws_jobs_per_sec := hb_jobs_per_sec p,
           ws_completed_jobs := hb_completed_jobs p, ws_queue_depth := hb_queue_depth p,
           ws_last_seen := hb_timestamp p,
           ws_zero_sample_streak := (if hb_jobs_per_sec p > 0 then 0 else ws_zero_sample_streak s + 1)\<rparr>)"

definition smooth :: "rat \<Rightarrow> bool \<Rightarrow> heartbeat_payload \<Rightarrow> worker_state \<Rightarrow> worker_state" where
  "smooth alpha exists p s =
     (if exists
      then s\<lparr>ws_last_throughput_at :=
               (if hb_jobs_per_sec p > 0 then hb_timestamp p else ws_last_throughput_at s),
             ws_ewma_jobs_per_sec := alpha * hb_jobs_per_sec p + (1 - alpha) * ws_ewma_jobs_per_sec s\<rparr>
      else s\<lparr>ws_ewma_jobs_per_sec := hb_jobs_per_sec p, ws_last_throughput_at := hb_timestamp p\<rparr>)"

definition UpdateFromHeartbeat ::
  "(string \<Rightarrow> string option) \<Rightarrow> heartbeat_payload \<Rightarrow> state_table \<Rightarrow> state_table" where
  "UpdateFromHeartbeat up p t =
     (let workerID = NormalizeWorkerID up (hb_worker_id p);
          exists = (entry t workerID \<noteq> None);
          state = coalesce (entry t workerID) (fresh_state workerID (hb_timestamp p))
      in set_entry workerID (smooth (st_alpha t) exists p (apply_payload p state)) t)"

definition Get :: "(string \<Rightarrow> string option) \<Rightarrow> string \<Rightarrow> state_table \<Rightarrow> worker_state option" where
  "Get up workerID t = entry t (NormalizeWorkerID up workerID)"

definition SetEviction :: "(string \<Rightarrow> string option) \<Rightarrow> string \<Rightarrow> bool \<Rightarrow> state_table \<Rightarrow> state_table" where
  "SetEviction up workerID evicted t =
     (case entry t (NormalizeWorkerID up workerID) of
        None \<Rightarrow> t
      | Some s \<Rightarrow> set_entry (NormalizeWorkerID up workerID) (s\<lparr>ws_evicted := evicted\<rparr>) t)"

definition ClearEviction :: "(string \<Rightarrow> string option) \<Rightarrow> string \<Rightarrow> state_table \<Rightarrow> state_table" where
  "ClearEviction up workerID t = SetEviction up workerID False t"

definition GetAll :: "state_table \<Rightarrow> worker_state list" where
  "GetAll t = map snd (st_states t)"

definition went_offline :: "time \<Rightarrow> state_table \<Rightarrow> worker_state \<Rightarrow> bool" where
  "went_offline now t s \<longleftrightarrow>
     ws_status s \<noteq> worker_status_string WorkerStatusOffline \<and> now - ws_last_seen s > st_offline_timeout t"

definition ScanOffline :: "time \<Rightarrow> state_table \<Rightarrow> string list \<times> state_table" where
  "ScanOffline now t =
     (map fst (filter (\<lambda>(k, s). went_offline now t s) (st_states t)),
      t\<lparr>st_states := map (\<lambda>(k, s). (k, if went_offline now t s
           then s\<lparr>ws_status := worker_status_string WorkerStatusOffline\<rparr> else s)) (st_states t)\<rparr>)"

definition RemoveWorker :: "(string \<Rightarrow> string option) \<Rightarrow> string \<Rightarrow> state_table \<Rightarrow> state_table" where
  "RemoveWorker up workerID t =
     t\<lparr>st_states := filter (\<lambda>(k, s). k \<noteq> NormalizeWorkerID up workerID) (st_states t)\<rparr>"

subsection \<open>Slow-node detection\<close>

definition SlowNodeThreshold :: rat where "SlowNodeThreshold = 3"
definition RecoveryThreshold :: rat where "RecoveryThreshold = 3 / 2"
definition MinJobsForEviction :: int where "MinJobsForEviction = 5"
definition MinZeroSamplesForIdle :: nat where "MinZeroSamplesForIdle = 2"
definition busyExpiry :: duration where "busyExpiry = 600000000000"

record worker_info =
  wi_id :: string
  wi_ewma :: rat
  wi_jobs_per_sec :: rat
  wi_has_jobs :: bool
  wi_zero_streak :: nat

definition eligible :: "worker_state \<Rightarrow> bool" where
  "eligible s \<longleftrightarrow> ws_status s \<noteq> worker_status_string WorkerStatusOffline \<and>
     ws_completed_jobs s \<ge> MinJobsForEviction"

definition info_of :: "string \<times> worker_state \<Rightarrow> worker_info" where
  "info_of e = (case e of (k, s) \<Rightarrow>
     \<lparr>wi_id = k, wi_ewma = ws_ewma_jobs_per_sec s, wi_jobs_per_sec = ws_jobs_per_sec s,
      wi_has_jobs = (ws_active_jobs s \<noteq> []), wi_zero_streak = ws_zero_sample_streak s\<rparr>)"

definition eligibleSlowNodeWorkersLocked :: "state_table \<Rightarrow> worker_info list" where
  "eligibleSlowNodeWorkersLocked t = map info_of (filter (\<lambda>(k, s). eligible s) (st_states t))"

definition out_of_pool :: "worker_info \<Rightarrow> bool" where
  "out_of_pool w \<longleftrightarrow> \<not> wi_has_jobs w \<and> wi_jobs_per_sec w = 0 \<and>
     (wi_zero_streak w \<ge> MinZeroSamplesForIdle \<or> wi_ewma w = 0)"

definition medianSample :: "worker_info list \<Rightarrow> worker_info list \<times> rat list" where
  "medianSample ws = (let sampled = filter (\<lambda>w. \<not> out_of_pool w) ws in (sampled, map wi_ewma sampled))"

definition computeMedian :: "rat list \<Rightarrow> rat" where
  "computeMedian xs =
     (let n = length xs in
      if n = 0 then 0
      else if n mod 2 = 1 then xs ! (n div 2)
      else (xs ! (n div 2 - 1) + xs ! (n div 2)) / 2)"

definition busyExempt :: "time \<Rightarrow> state_table \<Rightarrow> worker_info \<Rightarrow> bool" where
  "busyExempt now t w =
     (case entry t (wi_id w) of
        None \<Rightarrow> True
      | Some s \<Rightarrow>
          if ws_last_throughput_at s = 0 then now - ws_started_at s < busyExpiry
          else now - ws_last_throughput_at s < busyExpiry)"

text \<open>
  One judgement: the mark after it. \<open>None\<close> is an exemption, which leaves the mark as it is.
\<close>

definition exempt :: "time \<Rightarrow> state_table \<Rightarrow> worker_info \<Rightarrow> bool" where
  "exempt now t w \<longleftrightarrow> wi_jobs_per_sec w = 0 \<and> (\<not> wi_has_jobs w \<or> busyExempt now t w)"

definition recovers :: "rat \<Rightarrow> worker_info \<Rightarrow> bool" where
  "recovers median w \<longleftrightarrow> median > 0 \<and> wi_ewma w \<ge> median / RecoveryThreshold"

definition too_slow :: "rat \<Rightarrow> worker_info \<Rightarrow> bool" where
  "too_slow median w \<longleftrightarrow> median > 0 \<and> wi_ewma w < median / SlowNodeThreshold"

record detection =
  det_newly_evicted :: "string list"
  det_recovered :: "string list"
  det_median :: rat

fun judge_loop ::
  "(string \<Rightarrow> time) \<Rightarrow> rat \<Rightarrow> worker_info list \<Rightarrow> state_table \<Rightarrow> string list \<times> string list \<times> state_table" where
  "judge_loop nows median [] t = ([], [], t)"
| "judge_loop nows median (w # ws) t =
     (if exempt (nows (wi_id w)) t w then judge_loop nows median ws t
      else case entry t (wi_id w) of
        None \<Rightarrow> judge_loop nows median ws t
      | Some s \<Rightarrow>
          if ws_evicted s then
            (if recovers median w
             then (let (ev, rec, t') = judge_loop nows median ws (set_entry (wi_id w) (s\<lparr>ws_evicted := False\<rparr>) t)
                   in (ev, wi_id w # rec, t'))
             else judge_loop nows median ws t)
          else if too_slow median w
          then (let (ev, rec, t') = judge_loop nows median ws (set_entry (wi_id w) (s\<lparr>ws_evicted := True\<rparr>) t)
                in (wi_id w # ev, rec, t'))
          else judge_loop nows median ws t)"

definition DetectSlowWorkers :: "(string \<Rightarrow> time) \<Rightarrow> state_table \<Rightarrow> detection \<times> state_table" where
  "DetectSlowWorkers nows t =
     (let (eligibleWorkers, throughputs) = medianSample (eligibleSlowNodeWorkersLocked t) in
      if length throughputs < 2 then (\<lparr>det_newly_evicted = [], det_recovered = [], det_median = 0\<rparr>, t)
      else (let median = computeMedian (sort throughputs);
                (ev, rec, t') = judge_loop nows median eligibleWorkers t
            in (\<lparr>det_newly_evicted = ev, det_recovered = rec, det_median = median\<rparr>, t')))"

definition ClusterMedian :: "state_table \<Rightarrow> rat" where
  "ClusterMedian t =
     (let throughputs = snd (medianSample (eligibleSlowNodeWorkersLocked t)) in
      if length throughputs < 2 then 0 else computeMedian (sort throughputs))"

end
