(* ===== verification/ThroughputScale.thy ===== *)
theory ThroughputScale
  imports RffPrelude GoStrings
begin

section \<open>Throughput fault injection (pkg/server/workerhealth/scale.go)\<close>

text \<open>
  Rules that scale what a worker's heartbeats report. \<open>parse_factor\<close> is \<^verbatim>\<open>strconv.ParseFloat\<close> restricted to its finite
  results, \<open>parse_window\<close> \<^verbatim>\<open>time.ParseDuration\<close>; a rejected value is \<open>None\<close>, and the error texts are not kept.
\<close>

record scale_entry =
  se_worker :: string
  se_factor :: rat
  se_window :: duration

text \<open>One item of the list: skipped when blank (\<open>Inr None\<close>), an entry, or an error.\<close>

definition parse_scale_item ::
  "(string \<Rightarrow> rat option) \<Rightarrow> (string \<Rightarrow> duration option) \<Rightarrow> string list \<Rightarrow> string \<Rightarrow> unit + scale_entry option" where
  "parse_scale_item parse_factor parse_window seen item =
     (let item = TrimSpace item in
      if item = [] then Inr None
      else case Cut (CHR ''='') item of
             (w, None) \<Rightarrow> Inl ()
           | (w, Some spec) \<Rightarrow>
               (let worker = TrimSpace w in
                if worker = [] \<or> worker \<in> set seen then Inl ()
                else case Cut (CHR ''@'') spec of
                       (factorSpec, windowSpec) \<Rightarrow>
                         (case parse_factor (TrimSpace factorSpec) of
                            None \<Rightarrow> Inl ()
                          | Some factor \<Rightarrow>
                              if factor \<le> 0 then Inl ()
                              else case windowSpec of
                                     None \<Rightarrow> Inr (Some \<lparr>se_worker = worker, se_factor = factor, se_window = 0\<rparr>)
                                   | Some ws \<Rightarrow>
                                       (case parse_window (TrimSpace ws) of
                                          None \<Rightarrow> Inl ()
                                        | Some window \<Rightarrow>
                                            if window \<le> 0 then Inl ()
                                            else Inr (Some \<lparr>se_worker = worker, se_factor = factor, se_window = window\<rparr>)))))"

fun parse_scale_items ::
  "(string \<Rightarrow> rat option) \<Rightarrow> (string \<Rightarrow> duration option) \<Rightarrow> scale_entry list \<Rightarrow> string list \<Rightarrow> unit + scale_entry list" where
  "parse_scale_items pf pw entries [] = (if entries = [] then Inl () else Inr entries)"
| "parse_scale_items pf pw entries (item # items) =
     (case parse_scale_item pf pw (map se_worker entries) item of
        Inl e \<Rightarrow> Inl e
      | Inr None \<Rightarrow> parse_scale_items pf pw entries items
      | Inr (Some e) \<Rightarrow> parse_scale_items pf pw (entries @ [e]) items)"

definition ParseThroughputScale ::
  "(string \<Rightarrow> rat option) \<Rightarrow> (string \<Rightarrow> duration option) \<Rightarrow> string \<Rightarrow> unit + scale_entry list" where
  "ParseThroughputScale pf pw raw = parse_scale_items pf pw [] (Split (CHR '','') raw)"

subsection \<open>The scaler\<close>

record scale_rule =
  sr_entry :: scale_entry
  sr_started :: "time option"
  sr_expired :: bool

type_synonym scaler = "scale_rule list"

definition NewThroughputScaler :: "scale_entry list \<Rightarrow> scaler" where
  "NewThroughputScaler entries = map (\<lambda>e. \<lparr>sr_entry = e, sr_started = None, sr_expired = False\<rparr>) entries"

definition scaler_Enabled :: "scaler option \<Rightarrow> bool" where
  "scaler_Enabled s \<longleftrightarrow> (case s of None \<Rightarrow> False | Some rules \<Rightarrow> rules \<noteq> [])"

definition rule_matches :: "string \<Rightarrow> string \<Rightarrow> scale_rule \<Rightarrow> bool" where
  "rule_matches workerID workerName r \<longleftrightarrow> \<not> sr_expired r \<and>
     (se_worker (sr_entry r) = workerID \<or> (workerName \<noteq> [] \<and> se_worker (sr_entry r) = workerName))"

text \<open>\<^verbatim>\<open>Scale\<close> on the first matching rule.\<close>

fun Scale :: "time \<Rightarrow> string \<Rightarrow> string \<Rightarrow> rat \<Rightarrow> scaler \<Rightarrow> rat \<times> scaler" where
  "Scale now workerID workerName jobsPerSec [] = (jobsPerSec, [])"
| "Scale now workerID workerName jobsPerSec (r # rules) =
     (if \<not> rule_matches workerID workerName r
      then (case Scale now workerID workerName jobsPerSec rules of (v, rules) \<Rightarrow> (v, r # rules))
      else (case sr_started r of
              None \<Rightarrow>
                (if jobsPerSec \<le> 0 then (jobsPerSec * se_factor (sr_entry r), r # rules)
                 else (jobsPerSec * se_factor (sr_entry r), r\<lparr>sr_started := Some now\<rparr> # rules))
            | Some t \<Rightarrow>
                if se_window (sr_entry r) > 0 \<and> now - t \<ge> se_window (sr_entry r)
                then (jobsPerSec, r\<lparr>sr_expired := True\<rparr> # rules)
                else (jobsPerSec * se_factor (sr_entry r), r # rules)))"

text \<open>A rule that parses is usable: a positive factor, no negative window, and no worker listed twice.\<close>

lemma parse_item_usable:
  "parse_scale_item pf pw seen item = Inr (Some e) \<Longrightarrow>
   0 < se_factor e \<and> 0 \<le> se_window e \<and> se_worker e \<notin> set seen \<and> se_worker e \<noteq> []"
  by (auto simp: parse_scale_item_def Let_def split: if_splits prod.splits option.splits)

lemma parse_items_usable:
  assumes "parse_scale_items pf pw entries items = Inr es"
    "distinct (map se_worker entries)" "list_all (\<lambda>e. 0 < se_factor e \<and> 0 \<le> se_window e) entries"
  shows "distinct (map se_worker es) \<and> list_all (\<lambda>e. 0 < se_factor e \<and> 0 \<le> se_window e) es \<and> es \<noteq> []"
  using assms
proof (induction pf pw entries items rule: parse_scale_items.induct)
  case (2 pf pw entries item items)
  then show ?case by (auto split: sum.splits option.splits dest!: parse_item_usable)
qed (auto split: if_splits)

end
