(* ===== verification/WorkerStore.thy ===== *)
theory WorkerStore
  imports DbState "HOL-Library.List_Lexorder" "HOL-Library.Char_ord" "HOL-Library.Product_Lexorder"
    "HOL-Library.Multiset"
begin

section \<open>The workers table (pkg/server/db/workers.go)\<close>

text \<open>
  Registration, heartbeats, the offline and eviction marks, the candidate queries of the
  scheduler and the job counts that rank the candidates. \<open>up\<close> is \<^verbatim>\<open>uuid.Parse\<close> throughout (see
  \<open>NormalizeWorkerID\<close>).
\<close>

subsection \<open>Lookups\<close>

definition GetWorker :: "(string \<Rightarrow> string option) \<Rightarrow> bool \<Rightarrow> string \<Rightarrow> database \<Rightarrow> db_error + worker_row" where
  "GetWorker up ok wid d =
     (if \<not> ok then Inl DriverError
      else case find_worker (NormalizeWorkerID up wid) d of
             None \<Rightarrow> Inl ErrWorkerNotFound
           | Some w \<Rightarrow> Inr w)"

text \<open>
  \<^verbatim>\<open>GetWorkerByReference\<close>: an identifier match wins; a name resolves to the most recently registered row.
\<close>

definition GetWorkerByReference ::
  "(string \<Rightarrow> string option) \<Rightarrow> bool \<Rightarrow> bool \<Rightarrow> string \<Rightarrow> database \<Rightarrow> db_error + worker_row" where
  "GetWorkerByReference up ok ok' ref d =
     (let ref = TrimSpace ref in
      if ref = [] then Inl ErrWorkerNotFound
      else case GetWorker up ok ref d of
             Inr w \<Rightarrow> Inr w
           | Inl e \<Rightarrow>
               if e \<noteq> ErrWorkerNotFound then Inl e
               else if \<not> ok' then Inl DriverError
               else (case rev (order_asc (\<lambda>w. (w_created_at w, w_id w))
                               (filter (\<lambda>w. w_name w = ref) (workers d))) of
                       [] \<Rightarrow> Inl ErrWorkerNotFound
                     | w # _ \<Rightarrow> Inr w))"

definition GetWorkerEncoders ::
  "(string \<Rightarrow> string option) \<Rightarrow> bool \<Rightarrow> string \<Rightarrow> database \<Rightarrow> db_error + string list" where
  "GetWorkerEncoders up ok wid d =
     (if \<not> ok then Inl DriverError
      else case find_worker (NormalizeWorkerID up wid) d of
             None \<Rightarrow> Inl ErrWorkerNotFound
           | Some w \<Rightarrow> Inr (w_encoders w))"

definition IsWorkerEvicted ::
  "(string \<Rightarrow> string option) \<Rightarrow> bool \<Rightarrow> string \<Rightarrow> database \<Rightarrow> db_error + bool" where
  "IsWorkerEvicted up ok wid d =
     (if \<not> ok then Inl DriverError
      else case find_worker (NormalizeWorkerID up wid) d of
             None \<Rightarrow> Inl ErrWorkerNotFound
           | Some w \<Rightarrow> Inr (w_evicted w))"

subsection \<open>Registration\<close>

text \<open>The capability columns of a registration, written by both the UPDATE and the INSERT.\<close>

definition write_caps :: "worker_capabilities \<Rightarrow> worker_row \<Rightarrow> worker_row" where
  "write_caps caps w = w\<lparr>
     w_gpu_model := (if wc_gpu_model caps \<noteq> [] then Some (wc_gpu_model caps) else None),
     w_encoders := wc_encoders caps, w_decoders := wc_decoders caps,
     w_video_encoders := wc_video_encoders caps, w_video_decoders := wc_video_decoders caps,
     w_gpu_devices := wc_gpu_devices caps, w_ffmpeg_version := wc_ffmpeg_version caps,
     w_max_concurrent := wc_max_concurrent caps, w_hwaccels := wc_hwaccels caps,
     w_codecs := wc_codecs caps, w_filters := wc_filters caps, w_pix_fmts := wc_pix_fmts caps,
     w_formats := wc_formats caps\<rparr>"

definition new_worker_row :: "string \<Rightarrow> string \<Rightarrow> worker_capabilities \<Rightarrow> time \<Rightarrow> worker_row" where
  "new_worker_row wid name caps now = write_caps caps
     \<lparr>w_id = wid, w_name = name, w_status = WorkerStatusIdle, w_gpu_model = None, w_encoders = [],
      w_decoders = [], w_video_encoders = [], w_video_decoders = [], w_gpu_devices = [],
      w_ffmpeg_version = [], w_max_concurrent = 0, w_evicted = False, w_evicted_at = None,
      w_hwaccels = [], w_codecs = [], w_filters = [], w_pix_fmts = [], w_formats = [],
      w_last_heartbeat = now, w_created_at = now\<rparr>"

definition CreateWorker ::
  "(string \<Rightarrow> string option) \<Rightarrow> bool \<Rightarrow> bool \<Rightarrow> string \<Rightarrow> time \<Rightarrow> string \<Rightarrow> string \<Rightarrow>
   worker_capabilities \<Rightarrow> database \<Rightarrow> worker_row db_result" where
  "CreateWorker up ok ok' new_id now wid name caps d =
     (let wid = (if wid = [] then new_id else wid) in
      if \<not> ok \<or> find_worker wid d \<noteq> None then (Inl DriverError, d)
      else (let d' = d\<lparr>workers := workers d @ [new_worker_row wid name caps now]\<rparr>
            in (GetWorker up ok' wid d', d')))"

text \<open>
  Rows of the same logical worker that a new registration replaces: offline, or, when the
  freshness window is positive, with a heartbeat older than it.
\<close>

definition stale_same_name :: "string \<Rightarrow> string \<Rightarrow> time \<Rightarrow> duration \<Rightarrow> worker_row \<Rightarrow> bool" where
  "stale_same_name wid name now heartbeatTimeout w \<longleftrightarrow>
     w_name w = name \<and> w_id w \<noteq> wid \<and>
     (w_status w = WorkerStatusOffline \<or>
      (heartbeatTimeout > 0 \<and> w_last_heartbeat w < now - heartbeatTimeout))"

definition CreateOrUpdateWorker ::
  "(string \<Rightarrow> string option) \<Rightarrow> bool \<Rightarrow> bool \<Rightarrow> bool \<Rightarrow> string \<Rightarrow> time \<Rightarrow> string \<Rightarrow> string \<Rightarrow>
   worker_capabilities \<Rightarrow> duration \<Rightarrow> database \<Rightarrow> worker_row db_result" where
  "CreateOrUpdateWorker up ok oktx ok' new_id now wid name caps heartbeatTimeout d =
     (let wid = NormalizeWorkerID up wid;
          wid = (if wid = [] then new_id else wid);
          same = (\<lambda>w. w_id w = wid)
      in if \<not> ok then (Inl DriverError, d)
         else if rows_affected same (workers d) \<noteq> 0
         then (let d' = upd_workers same
                     (\<lambda>w. write_caps caps
                            (w\<lparr>w_name := name, w_status := WorkerStatusIdle, w_last_heartbeat := now\<rparr>)) d
               in (GetWorker up ok' wid d', d'))
         else if \<not> oktx then (Inl DriverError, d)
         else (let kept = (if name \<noteq> []
                           then filter (\<lambda>w. \<not> stale_same_name wid name now heartbeatTimeout w) (workers d)
                           else workers d);
                   d' = d\<lparr>workers := kept @ [new_worker_row wid name caps now]\<rparr>
               in (GetWorker up ok' wid d', d')))"

definition UpdateWorkerCapabilities ::
  "(string \<Rightarrow> string option) \<Rightarrow> bool \<Rightarrow> time \<Rightarrow> string \<Rightarrow> worker_capabilities \<Rightarrow> database \<Rightarrow> unit db_result" where
  "UpdateWorkerCapabilities up ok now wid caps d =
     (let same = (\<lambda>w. w_id w = NormalizeWorkerID up wid) in
      if \<not> ok then (Inl DriverError, d)
      else if rows_affected same (workers d) = 0 then (Inl ErrWorkerNotFound, d)
      else (Inr (), upd_workers same (\<lambda>w. write_caps caps (w\<lparr>w_last_heartbeat := now\<rparr>)) d))"

subsection \<open>Status and heartbeats\<close>

text \<open>The reported status is deliberately ignored: worker status is derived state.\<close>

definition UpdateWorkerHeartbeat ::
  "(string \<Rightarrow> string option) \<Rightarrow> bool \<Rightarrow> time \<Rightarrow> string \<Rightarrow> worker_status \<Rightarrow> database \<Rightarrow> unit db_result" where
  "UpdateWorkerHeartbeat up ok now wid status d =
     (let wid = NormalizeWorkerID up wid;
          P = (\<lambda>w. w_id w = NormalizeWorkerID up wid \<and> w_status w \<noteq> WorkerStatusOffline)
      in if \<not> ok then (Inl DriverError, d)
         else if rows_affected P (workers d) = 0 then (Inl ErrWorkerNotFound, d)
         else (Inr (), upd_workers P (\<lambda>w. w\<lparr>w_last_heartbeat := now\<rparr>) d))"

definition has_active_job :: "database \<Rightarrow> string \<Rightarrow> bool" where
  "has_active_job d wid \<longleftrightarrow> (\<exists>j \<in> set (jobs d). j_worker_id j = Some wid \<and> active j)"

definition SetWorkerIdleIfNoActiveJobs :: "bool \<Rightarrow> time \<Rightarrow> string \<Rightarrow> database \<Rightarrow> unit db_result" where
  "SetWorkerIdleIfNoActiveJobs ok now wid d =
     (let P = (\<lambda>w. w_id w = wid \<and> w_status w \<noteq> WorkerStatusIdle \<and> w_status w \<noteq> WorkerStatusOffline \<and>
                   \<not> has_active_job d (w_id w))
      in if \<not> ok then (Inl DriverError, d)
         else if rows_affected P (workers d) = 0 then (Inl ErrWorkerNotFound, d)
         else (Inr (), upd_workers P (\<lambda>w. w\<lparr>w_status := WorkerStatusIdle, w_last_heartbeat := now\<rparr>) d))"

definition UpdateWorkerStatus ::
  "(string \<Rightarrow> string option) \<Rightarrow> bool \<Rightarrow> time \<Rightarrow> string \<Rightarrow> worker_status \<Rightarrow> database \<Rightarrow> unit db_result" where
  "UpdateWorkerStatus up ok now wid status d =
     (let P = (\<lambda>w. w_id w = NormalizeWorkerID up wid)
      in if \<not> ok then (Inl DriverError, d)
         else if rows_affected P (workers d) = 0 then (Inl ErrWorkerNotFound, d)
         else (Inr (), upd_workers P (\<lambda>w. w\<lparr>w_status := status, w_last_heartbeat := now\<rparr>) d))"

definition heartbeat_stale :: "time \<Rightarrow> duration \<Rightarrow> worker_row \<Rightarrow> bool" where
  "heartbeat_stale now heartbeatTimeout w \<longleftrightarrow>
     w_status w \<noteq> WorkerStatusOffline \<and> w_last_heartbeat w < now - heartbeatTimeout"

definition MarkOfflineWorkers :: "bool \<Rightarrow> time \<Rightarrow> duration \<Rightarrow> database \<Rightarrow> nat db_result" where
  "MarkOfflineWorkers ok now heartbeatTimeout d =
     (if \<not> ok then (Inl DriverError, d)
      else (Inr (rows_affected (heartbeat_stale now heartbeatTimeout) (workers d)),
            upd_workers (heartbeat_stale now heartbeatTimeout)
              (\<lambda>w. w\<lparr>w_status := WorkerStatusOffline\<rparr>) d))"

text \<open>Offline records past the threshold; a marked (evicted) record is exempt.\<close>

definition removable :: "time \<Rightarrow> duration \<Rightarrow> worker_row \<Rightarrow> bool" where
  "removable now offlineThreshold w \<longleftrightarrow>
     w_status w = WorkerStatusOffline \<and> w_last_heartbeat w < now - offlineThreshold \<and> \<not> w_evicted w"

definition RemoveOfflineWorkers :: "bool \<Rightarrow> time \<Rightarrow> duration \<Rightarrow> database \<Rightarrow> string list db_result" where
  "RemoveOfflineWorkers ok now offlineThreshold d =
     (if \<not> ok then (Inl DriverError, d)
      else (Inr (map w_id (filter (removable now offlineThreshold) (workers d))),
            d\<lparr>workers := filter (\<lambda>w. \<not> removable now offlineThreshold w) (workers d)\<rparr>))"

definition RemoveStaleWorkers :: "bool \<Rightarrow> time \<Rightarrow> duration \<Rightarrow> database \<Rightarrow> nat db_result" where
  "RemoveStaleWorkers ok now staleThreshold d =
     (let P = (\<lambda>w. w_last_heartbeat w < now - staleThreshold \<and> \<not> w_evicted w)
      in if \<not> ok then (Inl DriverError, d)
         else (Inr (rows_affected P (workers d)), d\<lparr>workers := filter (\<lambda>w. \<not> P w) (workers d)\<rparr>))"

definition RestoreWorkerStatusAfterFailedMigration ::
  "(string \<Rightarrow> string option) \<Rightarrow> bool \<Rightarrow> string \<Rightarrow> database \<Rightarrow> unit db_result" where
  "RestoreWorkerStatusAfterFailedMigration up ok wid d =
     (if \<not> ok then (Inl DriverError, d)
      else (Inr (), upd_workers
              (\<lambda>w. w_id w = NormalizeWorkerID up wid \<and> w_status w = WorkerStatusOffline)
              (\<lambda>w. w\<lparr>w_status := (if has_active_job d (w_id w) then WorkerStatusBusy else WorkerStatusIdle)\<rparr>) d))"

subsection \<open>Eviction marks and their audit trail\<close>

definition MarkWorkerEvicted ::
  "(string \<Rightarrow> string option) \<Rightarrow> bool \<Rightarrow> time \<Rightarrow> string \<Rightarrow> database \<Rightarrow> unit db_result" where
  "MarkWorkerEvicted up ok now wid d =
     (let P = (\<lambda>w. w_id w = NormalizeWorkerID up wid)
      in if \<not> ok then (Inl DriverError, d)
         else if rows_affected P (workers d) = 0 then (Inl ErrWorkerNotFound, d)
         else (Inr (), upd_workers P (\<lambda>w. w\<lparr>w_evicted := True, w_evicted_at := Some now\<rparr>) d))"

definition insert_eviction_event :: "eviction_event \<Rightarrow> database \<Rightarrow> database" where
  "insert_eviction_event e d = d\<lparr>eviction_events := eviction_events d @ [e]\<rparr>"

definition CreateEvictionEvent ::
  "bool \<Rightarrow> string \<Rightarrow> time \<Rightarrow> string \<Rightarrow> eviction_event_type \<Rightarrow> rat \<Rightarrow> rat \<Rightarrow> string \<Rightarrow> database \<Rightarrow>
   eviction_event db_result" where
  "CreateEvictionEvent ok eid now wid eventType currentThroughput clusterMedian reason d =
     (let e = \<lparr>ee_id = eid, ee_timestamp = now, ee_worker_id = wid, ee_event_type = eventType,
               ee_current_throughput = currentThroughput, ee_cluster_median = clusterMedian,
               ee_decision_reason = reason, ee_created_at = now\<rparr>
      in if \<not> ok then (Inl DriverError, d) else (Inr e, insert_eviction_event e d))"

text \<open>The two clearing paths record different reasons.\<close>

definition EvictionReasonThroughputRecovered :: string where
  "EvictionReasonThroughputRecovered =
     ''worker EWMA throughput recovered within cluster median threshold''"

definition EvictionReasonManualClear :: string where
  "EvictionReasonManualClear = ''manual eviction clear by operator''"

definition ClearWorkerEviction ::
  "(string \<Rightarrow> string option) \<Rightarrow> bool \<Rightarrow> string \<Rightarrow> time \<Rightarrow> string \<Rightarrow> rat \<Rightarrow> rat \<Rightarrow> string \<Rightarrow> database \<Rightarrow>
   bool db_result" where
  "ClearWorkerEviction up ok eid now wid currentThroughput clusterMedian reason d =
     (let wid = NormalizeWorkerID up wid;
          P = (\<lambda>w. w_id w = wid \<and> w_evicted w)
      in if \<not> ok then (Inl DriverError, d)
         else if rows_affected P (workers d) = 0
         then (if find_worker wid d = None then (Inl ErrWorkerNotFound, d) else (Inr False, d))
         else (Inr True,
               insert_eviction_event
                 \<lparr>ee_id = eid, ee_timestamp = now, ee_worker_id = wid,
                  ee_event_type = EvictionEventRecovered,
                  ee_current_throughput = currentThroughput, ee_cluster_median = clusterMedian,
                  ee_decision_reason = reason, ee_created_at = now\<rparr>
                 (upd_workers P (\<lambda>w. w\<lparr>w_evicted := False, w_evicted_at := None\<rparr>) d)))"

definition GetEvictionEvents :: "bool \<Rightarrow> nat \<Rightarrow> nat \<Rightarrow> database \<Rightarrow> db_error + eviction_event list" where
  "GetEvictionEvents ok limit offset d =
     (if \<not> ok then Inl DriverError
      else Inr (take limit (drop offset (order_desc ee_timestamp (eviction_events d)))))"

definition GetEvictionEventsByWorker :: "bool \<Rightarrow> string \<Rightarrow> nat \<Rightarrow> database \<Rightarrow> db_error + eviction_event list" where
  "GetEvictionEventsByWorker ok wid limit d =
     (if \<not> ok then Inl DriverError
      else Inr (take limit (order_desc ee_timestamp
                  (filter (\<lambda>e. ee_worker_id e = wid) (eviction_events d)))))"

end
