(* ===== verification/WorkerQueries.thy ===== *)
theory WorkerQueries
  imports WorkerStore
begin

section \<open>Candidate queries and their ranking (pkg/server/db/workers.go)\<close>

text \<open>
  The worker lists the scheduler and the submit path choose from, the job counts attached to
  them, and the ranking by load. A query that the driver fails is \<open>None\<close>.
\<close>

subsection \<open>The queries\<close>

text \<open>\<^verbatim>\<open>heartbeatFreshnessSQL\<close>: a non-positive window adds no clause.\<close>

definition heartbeat_fresh :: "time \<Rightarrow> duration \<Rightarrow> worker_row \<Rightarrow> bool" where
  "heartbeat_fresh now freshness w \<longleftrightarrow> freshness \<le> 0 \<or> w_last_heartbeat w > now - freshness"

definition GetActiveWorkers :: "bool \<Rightarrow> database \<Rightarrow> worker_row list option" where
  "GetActiveWorkers ok d =
     (if ok then Some (order_asc w_created_at
                         (filter (\<lambda>w. w_status w \<noteq> WorkerStatusOffline) (workers d)))
      else None)"

definition GetAllWorkers :: "bool \<Rightarrow> database \<Rightarrow> worker_row list option" where
  "GetAllWorkers ok d = (if ok then Some (order_asc w_created_at (workers d)) else None)"

definition GetIdleWorkers :: "bool \<Rightarrow> time \<Rightarrow> duration \<Rightarrow> database \<Rightarrow> worker_row list option" where
  "GetIdleWorkers ok now freshness d =
     (if ok then Some (order_desc w_last_heartbeat
        (filter (\<lambda>w. w_status w = WorkerStatusIdle \<and> \<not> w_evicted w \<and> heartbeat_fresh now freshness w)
           (workers d)))
      else None)"

definition GetSchedulableWorkers :: "bool \<Rightarrow> database \<Rightarrow> worker_row list option" where
  "GetSchedulableWorkers ok d =
     (if ok then Some (order_desc w_last_heartbeat
        (filter (\<lambda>w. w_status w \<noteq> WorkerStatusOffline \<and> \<not> w_evicted w) (workers d)))
      else None)"

definition GetLiveSchedulableWorkers :: "bool \<Rightarrow> time \<Rightarrow> duration \<Rightarrow> database \<Rightarrow> worker_row list option" where
  "GetLiveSchedulableWorkers ok now freshness d =
     (if ok then Some (order_desc w_last_heartbeat
        (filter (\<lambda>w. w_status w \<noteq> WorkerStatusOffline \<and> \<not> w_evicted w \<and> heartbeat_fresh now freshness w)
           (workers d)))
      else None)"

definition GetWorkersByEncoder :: "bool \<Rightarrow> string \<Rightarrow> database \<Rightarrow> worker_row list option" where
  "GetWorkersByEncoder ok encoderName d =
     (if ok then Some (order_desc w_last_heartbeat
        (filter (\<lambda>w. w_status w \<noteq> WorkerStatusOffline \<and> encoderName \<in> set (w_encoders w)) (workers d)))
      else None)"

definition GetIdleWorkersByEncoder ::
  "bool \<Rightarrow> time \<Rightarrow> string \<Rightarrow> duration \<Rightarrow> database \<Rightarrow> worker_row list option" where
  "GetIdleWorkersByEncoder ok now encoderName freshness d =
     (if ok then Some (order_desc w_last_heartbeat
        (filter (\<lambda>w. w_status w = WorkerStatusIdle \<and> \<not> w_evicted w \<and>
                     encoderName \<in> set (w_encoders w) \<and> heartbeat_fresh now freshness w) (workers d)))
      else None)"

definition querySchedulableByEncoder ::
  "bool \<Rightarrow> time \<Rightarrow> string \<Rightarrow> duration \<Rightarrow> database \<Rightarrow> worker_row list option" where
  "querySchedulableByEncoder ok now encoderName freshness d =
     (if ok then Some (order_desc w_last_heartbeat
        (filter (\<lambda>w. w_status w \<noteq> WorkerStatusOffline \<and> \<not> w_evicted w \<and>
                     encoderName \<in> set (w_encoders w) \<and> heartbeat_fresh now freshness w) (workers d)))
      else None)"

definition GetSchedulableWorkersByEncoder ::
  "bool \<Rightarrow> time \<Rightarrow> string \<Rightarrow> database \<Rightarrow> worker_row list option" where
  "GetSchedulableWorkersByEncoder ok now encoderName d = querySchedulableByEncoder ok now encoderName 0 d"

definition GetLiveSchedulableWorkersByEncoder ::
  "bool \<Rightarrow> time \<Rightarrow> string \<Rightarrow> duration \<Rightarrow> database \<Rightarrow> worker_row list option" where
  "GetLiveSchedulableWorkersByEncoder ok now encoderName freshness d =
     querySchedulableByEncoder ok now encoderName freshness d"

subsection \<open>Job counts\<close>

definition active_count :: "database \<Rightarrow> string \<Rightarrow> nat" where
  "active_count d wid = length (filter (\<lambda>j. j_worker_id j = Some wid \<and> active j) (jobs d))"

definition completed_count :: "database \<Rightarrow> string \<Rightarrow> nat" where
  "completed_count d wid =
     length (filter (\<lambda>j. j_worker_id j = Some wid \<and> j_status j = JobStatusCompleted) (jobs d))"

definition GetWorkerActiveJobCount ::
  "(string \<Rightarrow> string option) \<Rightarrow> bool \<Rightarrow> string \<Rightarrow> database \<Rightarrow> db_error + nat" where
  "GetWorkerActiveJobCount up ok wid d =
     (if \<not> ok then Inl DriverError else Inr (active_count d (NormalizeWorkerID up wid)))"

definition GetWorkerCompletedJobCount :: "bool \<Rightarrow> string \<Rightarrow> database \<Rightarrow> db_error + nat" where
  "GetWorkerCompletedJobCount ok wid d =
     (if \<not> ok then Inl DriverError else Inr (completed_count d wid))"

record worker_with_job_count =
  wj_worker :: worker_row
  wj_active :: nat
  wj_completed :: nat

text \<open>One grouped query for both counts; a worker with no job rows keeps the zero value.\<close>

definition fillWorkerJobCounts ::
  "bool \<Rightarrow> worker_row list \<Rightarrow> database \<Rightarrow> worker_with_job_count list option" where
  "fillWorkerJobCounts ok ws d =
     (if ws = [] then Some []
      else if \<not> ok then None
      else Some (map (\<lambda>w. \<lparr>wj_worker = w, wj_active = active_count d (w_id w),
                           wj_completed = completed_count d (w_id w)\<rparr>) ws))"

subsection \<open>The exchange sort by load\<close>

text \<open>\<open>workers[j]\<close> before \<open>workers[i]\<close>: fewer active jobs, then fewer completed jobs.\<close>

definition less_loaded :: "worker_with_job_count \<Rightarrow> worker_with_job_count \<Rightarrow> bool" where
  "less_loaded a b \<longleftrightarrow>
     wj_active a < wj_active b \<or> (wj_active a = wj_active b \<and> wj_completed a < wj_completed b)"

text \<open>
  The inner loop for one \<open>i\<close>: \<open>x\<close> is the element at \<open>i\<close>, the list what follows it; a smaller element
  found at \<open>j\<close> is exchanged with the one at \<open>i\<close>.
\<close>

fun exchange_pass ::
  "worker_with_job_count \<Rightarrow> worker_with_job_count list \<Rightarrow>
   worker_with_job_count \<times> worker_with_job_count list" where
  "exchange_pass x [] = (x, [])"
| "exchange_pass x (y # ys) =
     (if less_loaded y x
      then (let (m, rest) = exchange_pass y ys in (m, x # rest))
      else (let (m, rest) = exchange_pass x ys in (m, y # rest)))"

lemma exchange_pass_length: "length (snd (exchange_pass x ys)) = length ys"
  by (induction x ys rule: exchange_pass.induct) (auto split: prod.splits)

function sortWorkersByJobCount :: "worker_with_job_count list \<Rightarrow> worker_with_job_count list" where
  "sortWorkersByJobCount [] = []"
| "sortWorkersByJobCount (x # xs) =
     fst (exchange_pass x xs) # sortWorkersByJobCount (snd (exchange_pass x xs))"
  by pat_completeness auto
termination
  by (relation "measure length") (auto simp: exchange_pass_length)

definition GetIdleWorkersWithJobCount ::
  "bool \<Rightarrow> time \<Rightarrow> duration \<Rightarrow> database \<Rightarrow> worker_with_job_count list option" where
  "GetIdleWorkersWithJobCount ok now freshness d =
     (case GetIdleWorkers ok now freshness d of
        None \<Rightarrow> None
      | Some ws \<Rightarrow> fillWorkerJobCounts ok ws d)"

definition GetIdleWorkersByEncoderWithJobCount ::
  "bool \<Rightarrow> time \<Rightarrow> string \<Rightarrow> duration \<Rightarrow> database \<Rightarrow> worker_with_job_count list option" where
  "GetIdleWorkersByEncoderWithJobCount ok now encoderName freshness d =
     (case GetIdleWorkersByEncoder ok now encoderName freshness d of
        None \<Rightarrow> None
      | Some ws \<Rightarrow> map_option sortWorkersByJobCount (fillWorkerJobCounts ok ws d))"

subsection \<open>Facts about the queries\<close>

text \<open>
  What makes a worker a dispatch candidate: idle, not evicted, with a fresh heartbeat.
\<close>

definition dispatchable :: "time \<Rightarrow> duration \<Rightarrow> worker_row \<Rightarrow> bool" where
  "dispatchable now freshness w \<longleftrightarrow>
     w_status w = WorkerStatusIdle \<and> \<not> w_evicted w \<and> heartbeat_fresh now freshness w"

lemma set_GetLiveSchedulableWorkers:
  "GetLiveSchedulableWorkers ok now fr d = Some ws \<Longrightarrow>
   set ws = {w \<in> set (workers d). w_status w \<noteq> WorkerStatusOffline \<and> \<not> w_evicted w \<and> heartbeat_fresh now fr w}"
  by (auto simp: GetLiveSchedulableWorkers_def split: if_splits)

definition load_key :: "worker_with_job_count \<Rightarrow> nat \<times> nat" where
  "load_key w = (wj_active w, wj_completed w)"

lemma less_loaded_key: "less_loaded a b \<longleftrightarrow> load_key a < load_key b"
  by (auto simp: less_loaded_def load_key_def less_prod_def)

lemma exchange_pass_mset:
  "mset (fst (exchange_pass x ys) # snd (exchange_pass x ys)) = mset (x # ys)"
  by (induction x ys rule: exchange_pass.induct) (auto split: prod.splits simp: add_mset_commute)

lemma exchange_pass_min:
  "z \<in> set (x # ys) \<Longrightarrow> load_key (fst (exchange_pass x ys)) \<le> load_key z"
proof (induction x ys arbitrary: z rule: exchange_pass.induct)
  case (2 x y ys)
  show ?case
  proof (cases "less_loaded y x")
    case True
    from "2.IH"(1) [OF True, of y] have "load_key (fst (exchange_pass y ys)) \<le> load_key y" by simp
    moreover from True have "load_key y < load_key x" by (simp add: less_loaded_key)
    ultimately show ?thesis
      using "2.IH"(1) [OF True, of z] "2.prems" True by (auto split: prod.splits)
  next
    case False
    from "2.IH"(2) [OF False, of x] have "load_key (fst (exchange_pass x ys)) \<le> load_key x" by simp
    moreover from False have "load_key x \<le> load_key y" by (simp add: less_loaded_key not_less)
    ultimately show ?thesis
      using "2.IH"(2) [OF False, of z] "2.prems" False by (auto split: prod.splits)
  qed
qed simp

lemma mset_sortWorkersByJobCount [simp]: "mset (sortWorkersByJobCount ws) = mset ws"
proof (induction ws rule: sortWorkersByJobCount.induct)
  case (2 x xs)
  then show ?case using exchange_pass_mset [of x xs] by simp
qed simp

lemma set_sortWorkersByJobCount [simp]: "set (sortWorkersByJobCount ws) = set ws"
  by (metis mset_sortWorkersByJobCount set_mset_mset)

lemma sorted_by_load: "sorted (map load_key (sortWorkersByJobCount ws))"
proof (induction ws rule: sortWorkersByJobCount.induct)
  case (2 x xs)
  have "set (snd (exchange_pass x xs)) \<subseteq> set (x # xs)"
    using exchange_pass_mset [of x xs] by (metis set_mset_mset set_subset_Cons)
  then show ?case using 2 exchange_pass_min [of _ x xs] by auto
qed simp

lemma idle_candidates:
  "GetIdleWorkersWithJobCount ok now fr d = Some cs \<Longrightarrow> c \<in> set cs \<Longrightarrow>
   wj_worker c \<in> set (workers d) \<and> dispatchable now fr (wj_worker c) \<and>
   wj_active c = active_count d (w_id (wj_worker c))"
  by (auto simp: GetIdleWorkersWithJobCount_def GetIdleWorkers_def fillWorkerJobCounts_def
      dispatchable_def split: if_splits)

lemma idle_encoder_candidates:
  "GetIdleWorkersByEncoderWithJobCount ok now enc fr d = Some cs \<Longrightarrow> c \<in> set cs \<Longrightarrow>
   wj_worker c \<in> set (workers d) \<and> dispatchable now fr (wj_worker c) \<and>
   enc \<in> set (w_encoders (wj_worker c)) \<and>
   wj_active c = active_count d (w_id (wj_worker c))"
  by (auto simp: GetIdleWorkersByEncoderWithJobCount_def GetIdleWorkersByEncoder_def
      fillWorkerJobCounts_def dispatchable_def split: if_splits)

end
