(* ===== verification/MigrationAudit.thy ===== *)
theory MigrationAudit
  imports WorkerQueries
begin

section \<open>The migration audit trail (pkg/server/db/migrations.go, pkg/server/migration)\<close>

text \<open>
  Migration events, per-job redistribution placeholders and the counts the retry budgets read.
\<close>

definition ReasonHeartbeatTimeout :: string where
  "ReasonHeartbeatTimeout = ''heartbeat_timeout''"
definition ReasonJobTimeout :: string where
  "ReasonJobTimeout = ''job_timeout''"

subsection \<open>Writers\<close>

definition insertMigrationEventTx ::
  "string \<Rightarrow> time \<Rightarrow> string \<Rightarrow> string option \<Rightarrow> string \<Rightarrow> int \<Rightarrow> string list \<Rightarrow> database \<Rightarrow> database" where
  "insertMigrationEventTx eid ts workerID workerName reason retryCount jobIDs d =
     d\<lparr>migration_events := migration_events d @
        [\<lparr>me_id = eid, me_timestamp = ts, me_worker_id = workerID, me_worker_name = workerName,
          me_reason = reason, me_retry_count = retryCount, me_job_ids = jobIDs,
          me_jobs_migrated = length jobIDs, me_created_at = ts\<rparr>]\<rparr>"

text \<open>
  One unresolved placeholder per migrated job. Go ranges over a map here; the list gives the order
  of one such range, and \<open>uids\<close> the identifier drawn for each job.
\<close>

definition insertRedistributionsTx ::
  "(string \<Rightarrow> string) \<Rightarrow> string \<Rightarrow> (string \<times> int) list \<Rightarrow> time \<Rightarrow> database \<Rightarrow> database" where
  "insertRedistributionsTx uids eventID retryCounts ts d =
     d\<lparr>job_redistributions := job_redistributions d @
        map (\<lambda>(jobID, retryCount).
               \<lparr>jr_id = uids jobID, jr_migration_event_id = eventID, jr_job_id = jobID,
                jr_retry_count = retryCount, jr_target_worker_id = None,
                jr_target_worker_name = None, jr_created_at = ts\<rparr>) retryCounts\<rparr>"

text \<open>The newest unresolved placeholder of the job gets the target; without one nothing changes.\<close>

definition unresolved_placeholders :: "string \<Rightarrow> database \<Rightarrow> job_redistribution list" where
  "unresolved_placeholders jobID d =
     order_asc (\<lambda>r. (jr_created_at r, jr_id r))
       (filter (\<lambda>r. jr_job_id r = jobID \<and> jr_target_worker_id r = None) (job_redistributions d))"

definition RecordMigrationTarget ::
  "bool \<Rightarrow> string \<Rightarrow> string \<Rightarrow> string \<Rightarrow> database \<Rightarrow> unit db_result" where
  "RecordMigrationTarget ok jobID targetWorkerID targetWorkerName d =
     (if \<not> ok then (Inl DriverError, d)
      else case rev (unresolved_placeholders jobID d) of
             [] \<Rightarrow> (Inr (), d)
           | r # _ \<Rightarrow>
               (Inr (), d\<lparr>job_redistributions := upd_where (\<lambda>x. jr_id x = jr_id r)
                  (\<lambda>x. x\<lparr>jr_target_worker_id := Some targetWorkerID,
                         jr_target_worker_name :=
                           (if targetWorkerName \<noteq> [] then Some targetWorkerName else None)\<rparr>)
                  (job_redistributions d)\<rparr>))"

subsection \<open>Readers\<close>

definition GetMigrationEvent :: "bool \<Rightarrow> string \<Rightarrow> database \<Rightarrow> db_error + migration_event" where
  "GetMigrationEvent ok eid d =
     (if \<not> ok then Inl DriverError
      else case find_row me_id eid (migration_events d) of
             None \<Rightarrow> Inl ErrMigrationEventNotFound
           | Some e \<Rightarrow> Inr e)"

definition GetMigrationEvents :: "bool \<Rightarrow> nat \<Rightarrow> nat \<Rightarrow> database \<Rightarrow> db_error + migration_event list" where
  "GetMigrationEvents ok limit offset d =
     (if \<not> ok then Inl DriverError
      else Inr (take limit (drop offset
             (rev (order_asc (\<lambda>e. (me_timestamp e, me_id e)) (migration_events d))))))"

definition GetMigrationEventsByWorker ::
  "bool \<Rightarrow> string \<Rightarrow> nat \<Rightarrow> database \<Rightarrow> db_error + migration_event list" where
  "GetMigrationEventsByWorker ok workerID limit d =
     (if \<not> ok then Inl DriverError
      else Inr (take limit (rev (order_asc (\<lambda>e. (me_timestamp e, me_id e))
             (filter (\<lambda>e. me_worker_id e = workerID) (migration_events d))))))"

definition GetJobRedistributionsByEvents ::
  "bool \<Rightarrow> string list \<Rightarrow> database \<Rightarrow> db_error + job_redistribution list" where
  "GetJobRedistributionsByEvents ok eventIDs d =
     (if eventIDs = [] then Inr []
      else if \<not> ok then Inl DriverError
      else Inr (order_asc (\<lambda>r. (jr_created_at r, jr_id r))
             (filter (\<lambda>r. jr_migration_event_id r \<in> set eventIDs) (job_redistributions d))))"

text \<open>
  The worker-failure migrations of a job: every occurrence in the \<open>job_ids\<close> of an event that is
  not a timeout requeue.
\<close>

definition migration_count :: "database \<Rightarrow> string \<Rightarrow> nat" where
  "migration_count d jobID =
     sum_list (map (\<lambda>e. if me_reason e \<noteq> ReasonJobTimeout then count_list (me_job_ids e) jobID else 0)
                 (migration_events d))"

definition timeout_count :: "database \<Rightarrow> string \<Rightarrow> nat" where
  "timeout_count d jobID =
     length (filter (\<lambda>e. me_reason e = ReasonJobTimeout \<and> jobID \<in> set (me_job_ids e)) (migration_events d))"

definition GetJobRetryCounts :: "bool \<Rightarrow> string list \<Rightarrow> database \<Rightarrow> db_error + (string \<rightharpoonup> nat)" where
  "GetJobRetryCounts ok jobIDs d =
     (if jobIDs = [] then Inr Map.empty
      else if \<not> ok then Inl DriverError
      else Inr (\<lambda>i. if i \<in> set jobIDs \<and> migration_count d i > 0 then Some (migration_count d i) else None))"

definition GetJobTimeoutRetryCount :: "bool \<Rightarrow> string \<Rightarrow> database \<Rightarrow> db_error + nat" where
  "GetJobTimeoutRetryCount ok jobID d =
     (if \<not> ok then Inl DriverError else Inr (timeout_count d jobID))"

text \<open>
  The reason of the job's most recent event, the last of the greatest timestamp; empty for a job
  that was never migrated.
\<close>

definition latest_migration_reason :: "database \<Rightarrow> string \<Rightarrow> string" where
  "latest_migration_reason d jobID =
     (case rev (order_asc me_timestamp (filter (\<lambda>e. jobID \<in> set (me_job_ids e)) (migration_events d))) of
        [] \<Rightarrow> []
      | e # _ \<Rightarrow> me_reason e)"

subsection \<open>The public view\<close>

record event_info =
  ei_event_id :: string
  ei_timestamp :: time
  ei_worker_id :: string
  ei_worker_name :: string
  ei_reason :: string
  ei_retry_count :: int
  ei_job_ids :: "string list"
  ei_jobs_migrated :: nat

definition FromDBEvent :: "migration_event \<Rightarrow> event_info" where
  "FromDBEvent event =
     \<lparr>ei_event_id = me_id event, ei_timestamp = me_timestamp event, ei_worker_id = me_worker_id event,
      ei_worker_name = coalesce (me_worker_name event) [], ei_reason = me_reason event,
      ei_retry_count = me_retry_count event, ei_job_ids = me_job_ids event,
      ei_jobs_migrated = me_jobs_migrated event\<rparr>"

record redistribution_target =
  rt_job_id :: string
  rt_retry_count :: int
  rt_target_worker_id :: string
  rt_target_worker_name :: string

definition redistribution_target_of :: "job_redistribution \<Rightarrow> redistribution_target" where
  "redistribution_target_of r =
     \<lparr>rt_job_id = jr_job_id r, rt_retry_count = jr_retry_count r,
      rt_target_worker_id = coalesce (jr_target_worker_id r) [],
      rt_target_worker_name = coalesce (jr_target_worker_name r) []\<rparr>"

fun RedistributionsByEvent_loop ::
  "job_redistribution list \<Rightarrow> (string \<rightharpoonup> redistribution_target list) \<Rightarrow>
   (string \<rightharpoonup> redistribution_target list)" where
  "RedistributionsByEvent_loop [] grouped = grouped"
| "RedistributionsByEvent_loop (r # rs) grouped =
     RedistributionsByEvent_loop rs
       (grouped(jr_migration_event_id r \<mapsto>
          coalesce (grouped (jr_migration_event_id r)) [] @ [redistribution_target_of r]))"

definition RedistributionsByEvent ::
  "job_redistribution list \<Rightarrow> (string \<rightharpoonup> redistribution_target list)" where
  "RedistributionsByEvent rs = RedistributionsByEvent_loop rs Map.empty"

subsection \<open>Facts\<close>

lemma audit_writers_sel [simp]:
  "jobs (insertMigrationEventTx i ts w n rs c js d) = jobs d"
  "workers (insertMigrationEventTx i ts w n rs c js d) = workers d"
  "job_redistributions (insertMigrationEventTx i ts w n rs c js d) = job_redistributions d"
  "terminal_log (insertMigrationEventTx i ts w n rs c js d) = terminal_log d"
  "jobs (insertRedistributionsTx u i m ts d) = jobs d"
  "workers (insertRedistributionsTx u i m ts d) = workers d"
  "migration_events (insertRedistributionsTx u i m ts d) = migration_events d"
  "terminal_log (insertRedistributionsTx u i m ts d) = terminal_log d"
  by (simp_all add: insertMigrationEventTx_def insertRedistributionsTx_def)

lemma RecordMigrationTarget_sel [simp]:
  "jobs (snd (RecordMigrationTarget ok j w n d)) = jobs d"
  "workers (snd (RecordMigrationTarget ok j w n d)) = workers d"
  "migration_events (snd (RecordMigrationTarget ok j w n d)) = migration_events d"
  "terminal_log (snd (RecordMigrationTarget ok j w n d)) = terminal_log d"
  by (simp_all add: RecordMigrationTarget_def split: list.splits)

lemma migration_count_insert:
  "migration_count (insertMigrationEventTx i ts w n rs c js d) x =
     migration_count d x + (if rs \<noteq> ReasonJobTimeout then count_list js x else 0)"
  by (simp add: migration_count_def insertMigrationEventTx_def)

lemma timeout_count_insert:
  "timeout_count (insertMigrationEventTx i ts w n rs c js d) x =
     timeout_count d x + (if rs = ReasonJobTimeout \<and> x \<in> set js then 1 else 0)"
  by (simp add: timeout_count_def insertMigrationEventTx_def)

lemma counts_cong:
  assumes "migration_events d' = migration_events d"
  shows "migration_count d' x = migration_count d x" and "timeout_count d' x = timeout_count d x"
  using assms by (simp_all add: migration_count_def timeout_count_def)

lemma RedistributionsByEvent_loop_lookup:
  "RedistributionsByEvent_loop rs g e =
     (case filter (\<lambda>r. jr_migration_event_id r = e) rs of
        [] \<Rightarrow> g e
      | xs \<Rightarrow> Some (coalesce (g e) [] @ map redistribution_target_of xs))"
  by (induction rs arbitrary: g) (auto split: list.splits)

end
