(* ===== verification/JobStore.thy ===== *)
theory JobStore
  imports MigrationAudit
begin

section \<open>The jobs table (pkg/server/db/jobs.go)\<close>

text \<open>
  Submission, assignment, the guarded status writers, cancellation, requeueing and the sweeps.
  Every guarded writer is one conditional UPDATE: the guard and the new row are named, and the
  operation reports the error that zero affected rows mean.
\<close>

subsection \<open>Submission and lookup\<close>

definition GetJob :: "bool \<Rightarrow> string \<Rightarrow> database \<Rightarrow> db_error + job_row" where
  "GetJob ok jobID d =
     (if \<not> ok then Inl DriverError
      else case find_job jobID d of None \<Rightarrow> Inl ErrJobNotFound | Some j \<Rightarrow> Inr j)"

definition JobExists :: "bool \<Rightarrow> string \<Rightarrow> database \<Rightarrow> db_error + bool" where
  "JobExists ok jobID d = (if \<not> ok then Inl DriverError else Inr (find_job jobID d \<noteq> None))"

text \<open>The arguments of both submission writers.\<close>

record job_spec =
  js_input_files :: string
  js_args :: "string list option"
  js_output_filename :: string
  js_auto_hw :: bool
  js_streaming_output :: bool
  js_timeout :: "duration option"
  js_direct_paths :: string

definition new_job_row :: "string \<Rightarrow> time \<Rightarrow> job_spec \<Rightarrow> job_row" where
  "new_job_row jid now spec =
     \<lparr>j_id = jid, j_status = JobStatusPending, j_input_files = js_input_files spec,
      j_args = js_args spec, j_output_filename = js_output_filename spec,
      j_streaming_output = js_streaming_output spec, j_output_files = ''[]'',
      j_worker_id = None, j_assigned_worker = None, j_worker_name = None, j_exit_code = None,
      j_error = None, j_failure_type = [], j_failure_details = [], j_retryable = False,
      j_auto_hw = js_auto_hw spec, j_cached = False, j_timeout = js_timeout spec,
      j_direct_paths = js_direct_paths spec, j_progress_percent = 0, j_eta_seconds = 0,
      j_created_at = now, j_updated_at = now, j_claimed_at = None, j_started_at = None,
      j_finished_at = None\<rparr>"

definition CreateJobWithStreaming ::
  "bool \<Rightarrow> bool \<Rightarrow> string \<Rightarrow> time \<Rightarrow> job_spec \<Rightarrow> database \<Rightarrow> job_row db_result" where
  "CreateJobWithStreaming ok ok' jid now spec d =
     (if \<not> ok \<or> find_job jid d \<noteq> None then (Inl DriverError, d)
      else (let d' = d\<lparr>jobs := jobs d @ [new_job_row jid now spec]\<rparr> in (GetJob ok' jid d', d')))"

definition failed_job_row :: "string \<Rightarrow> time \<Rightarrow> job_spec \<Rightarrow> string \<Rightarrow> string \<Rightarrow> job_row" where
  "failed_job_row jid now spec failureType errMsg =
     (new_job_row jid now spec)\<lparr>j_status := JobStatusFailed, j_exit_code := Some (-1),
        j_error := Some errMsg, j_failure_type := failureType,
        j_retryable := FailureType_Retryable failureType, j_finished_at := Some now\<rparr>"

definition CreateFailedJob ::
  "bool \<Rightarrow> bool \<Rightarrow> string \<Rightarrow> time \<Rightarrow> job_spec \<Rightarrow> string \<Rightarrow> string \<Rightarrow> database \<Rightarrow> job_row db_result" where
  "CreateFailedJob ok ok' jid now spec failureType errMsg d =
     (if \<not> ok \<or> find_job jid d \<noteq> None then (Inl DriverError, d)
      else (let d' = NotifyTerminal jid (d\<lparr>jobs := jobs d @ [failed_job_row jid now spec failureType errMsg]\<rparr>)
            in (GetJob ok' jid d', d')))"

subsection \<open>Status reports of the owning worker\<close>

definition terminal_report ::
  "time \<Rightarrow> string \<Rightarrow> string option \<Rightarrow> job_status \<Rightarrow> int option \<Rightarrow> string option \<Rightarrow> string option \<Rightarrow>
   string option \<Rightarrow> bool \<Rightarrow> job_row \<Rightarrow> job_row" where
  "terminal_report now workerID name status exitCode errMsg failureType failureDetails cached j =
     j\<lparr>j_status := status, j_updated_at := now, j_exit_code := exitCode, j_error := errMsg,
       j_failure_type := coalesce failureType (j_failure_type j),
       j_retryable := FailureType_Retryable (coalesce failureType (j_failure_type j)),
       j_failure_details := coalesce failureDetails (j_failure_details j),
       j_finished_at := Some now, j_cached := cached,
       j_assigned_worker := Some (coalesce (j_assigned_worker j) workerID),
       j_worker_name := (case j_worker_name j of None \<Rightarrow> name | Some n \<Rightarrow> Some n)\<rparr>"

definition UpdateJobTerminalStatusWithOwnerAndCache ::
  "bool \<Rightarrow> time \<Rightarrow> string \<Rightarrow> string \<Rightarrow> job_status \<Rightarrow> int option \<Rightarrow> string option \<Rightarrow> string option \<Rightarrow>
   string option \<Rightarrow> bool \<Rightarrow> database \<Rightarrow> unit db_result" where
  "UpdateJobTerminalStatusWithOwnerAndCache ok now jobID workerID status exitCode errMsg
     failureType failureDetails cached d =
     (let cached = (if status \<noteq> JobStatusCompleted then False else cached)
      in if \<not> ok then (Inl DriverError, d)
         else if rows_affected (owned_active jobID workerID) (jobs d) = 0 then (Inl ErrJobNotOwned, d)
         else (Inr (), NotifyTerminal jobID
                 (upd_jobs (owned_active jobID workerID)
                    (terminal_report now workerID (worker_name_of workerID d) status exitCode errMsg
                       failureType failureDetails cached) d)))"

definition UpdateJobTerminalStatusWithOwner ::
  "bool \<Rightarrow> time \<Rightarrow> string \<Rightarrow> string \<Rightarrow> job_status \<Rightarrow> int option \<Rightarrow> string option \<Rightarrow> string option \<Rightarrow>
   string option \<Rightarrow> database \<Rightarrow> unit db_result" where
  "UpdateJobTerminalStatusWithOwner ok now jobID workerID status exitCode errMsg failureType
     failureDetails d =
     UpdateJobTerminalStatusWithOwnerAndCache ok now jobID workerID status exitCode errMsg
       failureType failureDetails False d"

definition running_report ::
  "time \<Rightarrow> int option \<Rightarrow> string option \<Rightarrow> string option \<Rightarrow> string option \<Rightarrow> job_row \<Rightarrow> job_row" where
  "running_report now exitCode errMsg failureType failureDetails j =
     j\<lparr>j_status := JobStatusRunning, j_updated_at := now, j_exit_code := exitCode, j_error := errMsg,
       j_failure_type := coalesce failureType (j_failure_type j),
       j_retryable := FailureType_Retryable (coalesce failureType (j_failure_type j)),
       j_failure_details := coalesce failureDetails (j_failure_details j),
       j_started_at := Some (coalesce (j_started_at j) now)\<rparr>"

definition UpdateJobRunningStatusWithOwner ::
  "bool \<Rightarrow> time \<Rightarrow> string \<Rightarrow> string \<Rightarrow> int option \<Rightarrow> string option \<Rightarrow> string option \<Rightarrow> string option \<Rightarrow>
   database \<Rightarrow> unit db_result" where
  "UpdateJobRunningStatusWithOwner ok now jobID workerID exitCode errMsg failureType failureDetails d =
     (if \<not> ok then (Inl DriverError, d)
      else if rows_affected (owned_active jobID workerID) (jobs d) = 0 then (Inl ErrJobNotOwned, d)
      else (Inr (), upd_jobs (owned_active jobID workerID)
              (running_report now exitCode errMsg failureType failureDetails) d))"

text \<open>
  Progress is monotonic: the comparison is part of the UPDATE's guard. Zero rows are then told
  apart into an unknown job, a reporter that lost the job, and a regression (\<open>Inr False\<close>).
\<close>

definition UpdateJobProgressWithOwner ::
  "(string \<Rightarrow> string option) \<Rightarrow> bool \<Rightarrow> bool \<Rightarrow> time \<Rightarrow> string \<Rightarrow> string \<Rightarrow> rat \<Rightarrow> int \<Rightarrow> database \<Rightarrow>
   bool db_result" where
  "UpdateJobProgressWithOwner up ok ok' now jobID workerID progress etaSeconds d =
     (let P = (\<lambda>j. owned_active jobID workerID j \<and> j_progress_percent j \<le> progress)
      in if \<not> ok then (Inl DriverError, d)
         else if rows_affected P (jobs d) > 0
         then (Inr True, upd_jobs P
                 (\<lambda>j. j\<lparr>j_progress_percent := progress, j_eta_seconds := etaSeconds, j_updated_at := now\<rparr>) d)
         else if \<not> ok' then (Inl DriverError, d)
         else (case find_job jobID d of
                 None \<Rightarrow> (Inl ErrJobNotFound, d)
               | Some j \<Rightarrow>
                   (case j_worker_id j of
                      None \<Rightarrow> (Inl ErrJobNotOwned, d)
                    | Some owner \<Rightarrow>
                        if NormalizeWorkerID up owner \<noteq> NormalizeWorkerID up workerID \<or> \<not> active j
                        then (Inl ErrJobNotOwned, d)
                        else (Inr False, d))))"

definition UpdateJobOutputWithOwner ::
  "bool \<Rightarrow> bool \<Rightarrow> time \<Rightarrow> string \<Rightarrow> string \<Rightarrow> string \<Rightarrow> database \<Rightarrow> unit db_result" where
  "UpdateJobOutputWithOwner ok ok' now jobID workerID outputFiles d =
     (if \<not> ok then (Inl DriverError, d)
      else if rows_affected (owned_active jobID workerID) (jobs d) > 0
      then (Inr (), upd_jobs (owned_active jobID workerID)
              (\<lambda>j. j\<lparr>j_output_files := outputFiles, j_updated_at := now\<rparr>) d)
      else case GetJob ok' jobID d of
             Inl _ \<Rightarrow> (Inl ErrJobNotFound, d)
           | Inr _ \<Rightarrow> (Inl ErrJobNotOwned, d))"

subsection \<open>Assignment\<close>

definition claimable :: "string \<Rightarrow> job_row \<Rightarrow> bool" where
  "claimable jobID j \<longleftrightarrow> j_id j = jobID \<and> j_status j = JobStatusPending \<and> j_worker_id j = None"

definition claim_row :: "time \<Rightarrow> string \<Rightarrow> string option \<Rightarrow> job_row \<Rightarrow> job_row" where
  "claim_row now workerID name j =
     j\<lparr>j_worker_id := Some workerID, j_assigned_worker := Some workerID, j_worker_name := name,
       j_status := JobStatusQueued, j_updated_at := now, j_claimed_at := Some now\<rparr>"

definition AssignJobToWorker :: "bool \<Rightarrow> time \<Rightarrow> string \<Rightarrow> string \<Rightarrow> database \<Rightarrow> unit db_result" where
  "AssignJobToWorker ok now jobID workerID d =
     (if \<not> ok then (Inl DriverError, d)
      else if rows_affected (claimable jobID) (jobs d) = 0 then (Inl ErrJobNotOwned, d)
      else (Inr (), upd_jobs (claimable jobID) (claim_row now workerID (worker_name_of workerID d)) d))"

definition GetPendingJobs :: "bool \<Rightarrow> nat \<Rightarrow> database \<Rightarrow> db_error + job_row list" where
  "GetPendingJobs ok limit d =
     (if \<not> ok then Inl DriverError
      else Inr (take limit (order_asc j_created_at
             (filter (\<lambda>j. j_status j = JobStatusPending) (jobs d)))))"

text \<open>The jobs committed to a worker that it has not started.\<close>

definition queued_for :: "string \<Rightarrow> job_row \<Rightarrow> bool" where
  "queued_for workerID j \<longleftrightarrow> j_worker_id j = Some workerID \<and>
     (j_status j = JobStatusPending \<or> j_status j = JobStatusQueued)"

definition GetJobsForWorker ::
  "(string \<Rightarrow> string option) \<Rightarrow> bool \<Rightarrow> string \<Rightarrow> nat \<Rightarrow> database \<Rightarrow> db_error + job_row list" where
  "GetJobsForWorker up ok workerID limit d =
     (if \<not> ok then Inl DriverError
      else Inr (take limit (order_asc j_created_at
             (filter (queued_for (NormalizeWorkerID up workerID)) (jobs d)))))"

text \<open>
  The claim loop of a pull: each job is claimed by its own guarded UPDATE; the copy handed back
  carries the claim (its \<open>updated_at\<close> stays that of the scan).
\<close>

fun claim_jobs ::
  "time \<Rightarrow> string \<Rightarrow> string \<Rightarrow> job_row list \<Rightarrow> database \<Rightarrow> job_row list \<times> database" where
  "claim_jobs now workerID workerName [] d = ([], d)"
| "claim_jobs now workerID workerName (j # js) d =
     (if rows_affected (claimable (j_id j)) (jobs d) = 0
      then claim_jobs now workerID workerName js d
      else (let d' = upd_jobs (claimable (j_id j)) (claim_row now workerID (worker_name_of workerID d)) d;
                (claimed, d'') = claim_jobs now workerID workerName js d'
            in (j\<lparr>j_worker_id := Some workerID, j_assigned_worker := Some workerID,
                  j_worker_name := (if workerName \<noteq> [] then Some workerName else None),
                  j_status := JobStatusQueued, j_claimed_at := Some now\<rparr> # claimed, d'')))"

fun record_targets :: "(string \<Rightarrow> bool) \<Rightarrow> string \<Rightarrow> string \<Rightarrow> job_row list \<Rightarrow> database \<Rightarrow> database" where
  "record_targets okr workerID workerName [] d = d"
| "record_targets okr workerID workerName (j # js) d =
     record_targets okr workerID workerName js
       (snd (RecordMigrationTarget (okr (j_id j)) (j_id j) workerID workerName d))"

definition AssignPendingJobsToWorker ::
  "(string \<Rightarrow> string option) \<Rightarrow> bool \<Rightarrow> bool \<Rightarrow> (string \<Rightarrow> bool) \<Rightarrow> time \<Rightarrow> string \<Rightarrow> int \<Rightarrow> database \<Rightarrow>
   job_row list db_result" where
  "AssignPendingJobsToWorker up okw oktx okr now workerID maxConcurrent d =
     (let workerID = NormalizeWorkerID up workerID;
          workerName = (case GetWorker up okw workerID d of Inr w \<Rightarrow> w_name w | Inl _ \<Rightarrow> []);
          queuedJobs = order_asc j_created_at (filter (queued_for workerID) (jobs d));
          maxNewJobs = nat (maxConcurrent - int (active_count d workerID))
      in if \<not> oktx then (Inl DriverError, d)
         else if maxNewJobs = 0 then (Inr queuedJobs, d)
         else (let newJobs = take maxNewJobs (order_asc j_created_at
                     (filter (\<lambda>j. j_status j = JobStatusPending \<and> j_worker_id j = None) (jobs d)));
                   (claimedJobs, d1) = claim_jobs now workerID workerName newJobs d;
                   d2 = (if claimedJobs \<noteq> []
                         then upd_workers (\<lambda>w. w_id w = workerID \<and> w_status w = WorkerStatusIdle)
                                (\<lambda>w. w\<lparr>w_status := WorkerStatusBusy\<rparr>) d1
                         else d1)
               in (Inr (queuedJobs @ claimedJobs), record_targets okr workerID workerName claimedJobs d2)))"

subsection \<open>Cancellation, failure and requeueing\<close>

definition cancellable :: "job_row \<Rightarrow> bool" where
  "cancellable j \<longleftrightarrow> j_status j = JobStatusPending \<or> active j"

definition CancelJob :: "bool \<Rightarrow> bool \<Rightarrow> time \<Rightarrow> string \<Rightarrow> database \<Rightarrow> unit db_result" where
  "CancelJob ok ok' now jobID d =
     (let P = (\<lambda>j. j_id j = jobID \<and> cancellable j)
      in if \<not> ok then (Inl DriverError, d)
         else if rows_affected P (jobs d) = 0
         then (case GetJob ok' jobID d of
                 Inl _ \<Rightarrow> (Inl ErrJobNotFound, d)
               | Inr j \<Rightarrow> (Inl (CannotCancel (j_status j)), d))
         else (Inr (), NotifyTerminal jobID
                 (upd_jobs P (\<lambda>j. j\<lparr>j_status := JobStatusCancelled, j_updated_at := now,
                                    j_finished_at := Some now\<rparr>) d)))"

text \<open>Back to pending: the claim and the start are cleared and the pending clock restarts.\<close>

definition requeue_row :: "time \<Rightarrow> job_row \<Rightarrow> job_row" where
  "requeue_row now j =
     j\<lparr>j_status := JobStatusPending, j_worker_id := None, j_started_at := None, j_claimed_at := None,
       j_updated_at := now, j_created_at := now\<rparr>"

definition RescheduleJob :: "bool \<Rightarrow> bool \<Rightarrow> time \<Rightarrow> string \<Rightarrow> database \<Rightarrow> unit db_result" where
  "RescheduleJob ok ok' now jobID d =
     (let P = (\<lambda>j. j_id j = jobID \<and> j_status j = JobStatusRunning)
      in if \<not> ok then (Inl DriverError, d)
         else if rows_affected P (jobs d) = 0
         then (case GetJob ok' jobID d of
                 Inl _ \<Rightarrow> (Inl ErrJobNotFound, d)
               | Inr j \<Rightarrow> (Inl (ErrJobTerminal (j_status j)), d))
         else (Inr (), upd_jobs P (requeue_row now) d))"

definition fail_row :: "time \<Rightarrow> string \<Rightarrow> string \<Rightarrow> job_row \<Rightarrow> job_row" where
  "fail_row now errMsg failureType j =
     (let ft = (if failureType = [] then j_failure_type j else failureType)
      in j\<lparr>j_status := JobStatusFailed, j_worker_id := None, j_started_at := None,
           j_exit_code := Some (-1), j_error := Some errMsg, j_failure_type := ft,
           j_retryable := FailureType_Retryable ft, j_finished_at := Some now, j_updated_at := now\<rparr>)"

definition FailJob :: "bool \<Rightarrow> bool \<Rightarrow> time \<Rightarrow> string \<Rightarrow> string \<Rightarrow> string \<Rightarrow> database \<Rightarrow> unit db_result" where
  "FailJob ok ok' now jobID errMsg failureType d =
     (let P = (\<lambda>j. j_id j = jobID \<and> cancellable j)
      in if \<not> ok then (Inl DriverError, d)
         else if rows_affected P (jobs d) = 0
         then (case GetJob ok' jobID d of
                 Inl _ \<Rightarrow> (Inl ErrJobNotFound, d)
               | Inr j \<Rightarrow> (Inl (ErrJobTerminal (j_status j)), d))
         else (Inr (), NotifyTerminal jobID (upd_jobs P (fail_row now errMsg failureType) d)))"

definition reset_row :: "time \<Rightarrow> job_row \<Rightarrow> job_row" where
  "reset_row now j =
     (requeue_row now j)\<lparr>j_failure_type := [], j_retryable := False, j_failure_details := [],
        j_exit_code := None, j_error := None\<rparr>"

definition resetJobToPendingExec :: "string \<Rightarrow> string \<Rightarrow> time \<Rightarrow> database \<Rightarrow> bool \<times> database" where
  "resetJobToPendingExec jobID workerID now d =
     (rows_affected (owned_active jobID workerID) (jobs d) > 0,
      upd_jobs (owned_active jobID workerID) (reset_row now) d)"

text \<open>The timed-out jobs of the timeout sweep, in rowid order.\<close>

definition GetTimedOutJobs :: "bool \<Rightarrow> time \<Rightarrow> duration \<Rightarrow> database \<Rightarrow> db_error + job_row list" where
  "GetTimedOutJobs ok now timeout d =
     (if \<not> ok then Inl DriverError
      else Inr (filter (\<lambda>j. j_status j = JobStatusRunning \<and>
                  (case j_started_at j of None \<Rightarrow> False | Some t \<Rightarrow> t < now - timeout)) (jobs d)))"

definition RecordJobTimeoutMigration ::
  "bool \<Rightarrow> time \<Rightarrow> string \<Rightarrow> (string \<Rightarrow> string) \<Rightarrow> string \<Rightarrow> string \<Rightarrow> int \<Rightarrow> database \<Rightarrow> bool db_result" where
  "RecordJobTimeoutMigration ok now eventID uids workerID jobID retryCount d =
     (let P = (\<lambda>j. j_id j = jobID \<and> j_status j = JobStatusRunning)
      in if \<not> ok then (Inl DriverError, d)
         else if rows_affected P (jobs d) = 0 then (Inr False, d)
         else (Inr True,
               insertRedistributionsTx uids eventID [(jobID, retryCount)] now
                 (insertMigrationEventTx eventID now workerID (worker_name_of workerID d)
                    ReasonJobTimeout retryCount [jobID] (upd_jobs P (requeue_row now) d))))"

definition RecoverState :: "bool \<Rightarrow> time \<Rightarrow> database \<Rightarrow> (nat \<times> nat) db_result" where
  "RecoverState ok now d =
     (if \<not> ok then (Inl DriverError, d)
      else (Inr (rows_affected active (jobs d), length (workers d)),
            upd_workers (\<lambda>_. True) (\<lambda>w. w\<lparr>w_status := WorkerStatusOffline\<rparr>)
              (upd_jobs active (requeue_row now) d)))"

definition GetJobsByStatus :: "bool \<Rightarrow> job_status \<Rightarrow> nat \<Rightarrow> database \<Rightarrow> db_error + job_row list" where
  "GetJobsByStatus ok status limit d =
     (if \<not> ok then Inl DriverError
      else Inr (take limit (order_asc j_created_at (filter (\<lambda>j. j_status j = status) (jobs d)))))"

definition ListJobs :: "bool \<Rightarrow> nat \<Rightarrow> nat \<Rightarrow> database \<Rightarrow> db_error + job_row list" where
  "ListJobs ok limit offset d =
     (if \<not> ok then Inl DriverError
      else Inr (take limit (drop offset (rev (order_asc (\<lambda>j. (j_created_at j, j_id j)) (jobs d))))))"

end
