(* ===== verification/JobSweeps.thy ===== *)
theory JobSweeps
  imports JobStore
begin

section \<open>The starvation and stuck-job sweeps (pkg/server/db/jobs.go)\<close>

text \<open>
  Both sweeps read a classified snapshot, then fail it in chunks of bound ids; each statement checks
  its guard again, so a job that moved on between the two is left alone and is not reported. The
  chunked loop is shown to do what one statement over all ids does.
\<close>

subsection \<open>Starved pending jobs\<close>

definition pendingUnassigned :: "job_row \<Rightarrow> bool" where
  "pendingUnassigned j \<longleftrightarrow> j_status j = JobStatusPending \<and> j_worker_id j = None"

definition EarliestPendingCreatedAt :: "bool \<Rightarrow> database \<Rightarrow> db_error + time option" where
  "EarliestPendingCreatedAt ok d =
     (if \<not> ok then Inl DriverError
      else case order_asc j_created_at (filter pendingUnassigned (jobs d)) of
             [] \<Rightarrow> Inr None
           | j # _ \<Rightarrow> Inr (Some (j_created_at j)))"

record classified_job =
  cj_id :: string
  cj_crashed :: bool

definition starved :: "time \<Rightarrow> job_row \<Rightarrow> bool" where
  "starved cutoff j \<longleftrightarrow> pendingUnassigned j \<and> j_created_at j < cutoff"

definition GetStarvedPendingJobs ::
  "bool \<Rightarrow> time \<Rightarrow> string \<Rightarrow> database \<Rightarrow> db_error + classified_job list" where
  "GetStarvedPendingJobs ok cutoff crashReason d =
     (if \<not> ok then Inl DriverError
      else Inr (map (\<lambda>j. \<lparr>cj_id = j_id j, cj_crashed = (latest_migration_reason d (j_id j) = crashReason)\<rparr>)
             (filter (starved cutoff) (jobs d))))"

definition starvedUpdateChunkSize :: nat where
  "starvedUpdateChunkSize = 500"

definition starved_row :: "time \<Rightarrow> int \<Rightarrow> string \<Rightarrow> string \<Rightarrow> job_row \<Rightarrow> job_row" where
  "starved_row now exitCode errMsg failureType j =
     j\<lparr>j_status := JobStatusFailed, j_worker_id := None, j_exit_code := Some exitCode,
       j_error := Some errMsg, j_failure_type := failureType,
       j_retryable := FailureType_Retryable failureType,
       j_finished_at := Some now, j_updated_at := now\<rparr>"

text \<open>
  One guarded statement \<^verbatim>\<open>UPDATE \<dots> WHERE id IN (\<dots>) AND \<dots> RETURNING id\<close>: the changed ids in table order,
  and the table after it.
\<close>

definition update_returning ::
  "(job_row \<Rightarrow> bool) \<Rightarrow> (job_row \<Rightarrow> job_row) \<Rightarrow> string list \<Rightarrow> database \<Rightarrow> string list \<times> database" where
  "update_returning P f ids d =
     (map j_id (filter (\<lambda>j. j_id j \<in> set ids \<and> P j) (jobs d)),
      upd_jobs (\<lambda>j. j_id j \<in> set ids \<and> P j) f d)"

function update_chunked ::
  "nat \<Rightarrow> (job_row \<Rightarrow> bool) \<Rightarrow> (job_row \<Rightarrow> job_row) \<Rightarrow> string list \<Rightarrow> database \<Rightarrow> string list \<times> database" where
  "update_chunked n P f ids d =
     (if ids = [] \<or> n = 0 then ([], d)
      else (let (failed, d1) = update_returning P f (take n ids) d;
                (rest, d2) = update_chunked n P f (drop n ids) d1
            in (failed @ rest, d2)))"
  by pat_completeness auto
termination
  by (relation "measure (\<lambda>(n, P, f, ids, d). length ids)") auto

declare update_chunked.simps [simp del]

definition failStarvedJobsChunked ::
  "time \<Rightarrow> int \<Rightarrow> string list \<Rightarrow> string \<Rightarrow> string \<Rightarrow> time \<Rightarrow> database \<Rightarrow> string list \<times> database" where
  "failStarvedJobsChunked now exitCode ids errMsg failureType cutoff d =
     update_chunked starvedUpdateChunkSize (starved cutoff)
       (starved_row now exitCode errMsg failureType) ids d"

definition FailStarvedPendingJobs ::
  "bool \<Rightarrow> time \<Rightarrow> time \<Rightarrow> classified_job list \<Rightarrow> string \<Rightarrow> string \<Rightarrow> database \<Rightarrow> string list db_result" where
  "FailStarvedPendingJobs ok now cutoff cs noWorkerErrMsg crashErrMsg d =
     (let crashIDs = map cj_id (filter cj_crashed cs);
          noWorkerIDs = map cj_id (filter (\<lambda>c. \<not> cj_crashed c) cs)
      in if \<not> ok then (Inl DriverError, d)
         else (let (failed, d1) = failStarvedJobsChunked now (-1) crashIDs crashErrMsg FailureWorkerCrash cutoff d;
                   (noWorkerFailed, d2) =
                     failStarvedJobsChunked now (-1) noWorkerIDs noWorkerErrMsg FailureNoWorkerAvailable cutoff d1
               in (Inr (failed @ noWorkerFailed), d2)))"

subsection \<open>Stuck active jobs\<close>

definition stale_active :: "time \<Rightarrow> job_row \<Rightarrow> bool" where
  "stale_active cutoff j \<longleftrightarrow> active j \<and> j_updated_at j < cutoff"

definition GetStuckActiveJobs :: "bool \<Rightarrow> time \<Rightarrow> duration \<Rightarrow> database \<Rightarrow> db_error + classified_job list" where
  "GetStuckActiveJobs ok now staleAfter d =
     (if \<not> ok then Inl DriverError
      else Inr (map (\<lambda>j. \<lparr>cj_id = j_id j, cj_crashed = (missingWorker d j \<or> offlineWorker d j)\<rparr>)
             (order_asc j_updated_at
                (filter (\<lambda>j. stale_active (now - staleAfter) j \<and>
                             (j_status j = JobStatusQueued \<or> missingWorker d j)) (jobs d)))))"

text \<open>The guard that each classification checks again.\<close>

definition stuck_guard :: "database \<Rightarrow> bool \<Rightarrow> time \<Rightarrow> job_row \<Rightarrow> bool" where
  "stuck_guard d crashed cutoff j \<longleftrightarrow> stale_active cutoff j \<and>
     (if crashed
      then missingWorker d j \<or> (j_status j = JobStatusQueued \<and> offlineWorker d j)
      else j_status j = JobStatusQueued \<and> liveWorker d j)"

definition stuck_row :: "time \<Rightarrow> string \<Rightarrow> string \<Rightarrow> job_row \<Rightarrow> job_row" where
  "stuck_row now errMsg failureType j =
     j\<lparr>j_status := JobStatusFailed, j_worker_id := None, j_started_at := None, j_claimed_at := None,
       j_exit_code := Some (-1), j_error := Some errMsg, j_failure_type := failureType,
       j_retryable := FailureType_Retryable failureType,
       j_finished_at := Some now, j_updated_at := now\<rparr>"

text \<open>The statements only change job rows, so the worker predicates read the same workers in every chunk.\<close>

definition failStuckJobsChunked ::
  "time \<Rightarrow> time \<Rightarrow> string list \<Rightarrow> string \<Rightarrow> string \<Rightarrow> bool \<Rightarrow> database \<Rightarrow> string list \<times> database" where
  "failStuckJobsChunked now cutoff ids errMsg failureType crashed d =
     update_chunked starvedUpdateChunkSize (stuck_guard d crashed cutoff)
       (stuck_row now errMsg failureType) ids d"

definition FailStuckActiveJobs ::
  "bool \<Rightarrow> time \<Rightarrow> duration \<Rightarrow> classified_job list \<Rightarrow> string \<Rightarrow> string \<Rightarrow> database \<Rightarrow> string list db_result" where
  "FailStuckActiveJobs ok now staleAfter cs infraErrMsg crashErrMsg d =
     (let crashIDs = map cj_id (filter cj_crashed cs);
          infraIDs = map cj_id (filter (\<lambda>c. \<not> cj_crashed c) cs);
          cutoff = now - staleAfter
      in if \<not> ok then (Inl DriverError, d)
         else (let (failed, d1) = failStuckJobsChunked now cutoff crashIDs crashErrMsg FailureWorkerCrash True d;
                   (infraFailed, d2) = failStuckJobsChunked now cutoff infraIDs infraErrMsg FailureInfra False d1
               in (Inr (failed @ infraFailed), d2)))"

subsection \<open>The chunked statement against one statement\<close>

text \<open>
  A statement that takes the rows it changes out of its own guard can be cut into chunks: the
  table is the same, and the ids returned are the same up to order.
\<close>

lemma update_returning_sel [simp]:
  "workers (snd (update_returning P f ids d)) = workers d"
  "migration_events (snd (update_returning P f ids d)) = migration_events d"
  "job_redistributions (snd (update_returning P f ids d)) = job_redistributions d"
  "terminal_log (snd (update_returning P f ids d)) = terminal_log d"
  by (simp_all add: update_returning_def)

lemma upd_where_split:
  assumes "\<And>r. key (f r) = key r" and "\<And>r. P r \<Longrightarrow> \<not> P (f r)"
  shows "upd_where (\<lambda>r. key r \<in> B \<and> P r) f (upd_where (\<lambda>r. key r \<in> A \<and> P r) f rs) =
         upd_where (\<lambda>r. key r \<in> A \<union> B \<and> P r) f rs"
  using assms by (induction rs) auto

lemma filter_split_mset:
  assumes "\<And>r. key (f r) = key r" and "\<And>r. P r \<Longrightarrow> \<not> P (f r)"
  shows "mset (map key (filter (\<lambda>r. key r \<in> A \<and> P r) rs)) +
         mset (map key (filter (\<lambda>r. key r \<in> B \<and> P r) (upd_where (\<lambda>r. key r \<in> A \<and> P r) f rs))) =
         mset (map key (filter (\<lambda>r. key r \<in> A \<union> B \<and> P r) rs))"
  using assms by (induction rs) (auto simp: add_ac)

lemma update_chunked_spec:
  assumes "0 < n" and "\<And>r. j_id (f r) = j_id r" and "\<And>r. P r \<Longrightarrow> \<not> P (f r)"
  shows "mset (fst (update_chunked n P f ids d)) = mset (fst (update_returning P f ids d)) \<and>
         snd (update_chunked n P f ids d) = snd (update_returning P f ids d)"
  using assms
proof (induction n P f ids d rule: update_chunked.induct)
  case (1 n P f ids d)
  show ?case
  proof (cases "ids = []")
    case True
    have "upd_where (\<lambda>j. False) f (jobs d) = jobs d" by (simp add: upd_where_def)
    with True show ?thesis
      by (simp add: update_chunked.simps update_returning_def upd_jobs_def)
  next
    case False
    let ?d1 = "snd (update_returning P f (take n ids) d)"
    have IH: "mset (fst (update_chunked n P f (drop n ids) ?d1)) = mset (fst (update_returning P f (drop n ids) ?d1)) \<and>
              snd (update_chunked n P f (drop n ids) ?d1) = snd (update_returning P f (drop n ids) ?d1)"
      using "1.IH" [OF _ refl] "1.prems" False by (metis not_gr_zero prod.collapse)
    have ids: "set ids = set (take n ids) \<union> set (drop n ids)"
      by (metis append_take_drop_id set_append)
    have "snd (update_returning P f (drop n ids) ?d1) = snd (update_returning P f ids d)"
      using upd_where_split [of j_id f P "set (drop n ids)" "set (take n ids)" "jobs d"] "1.prems" ids
      by (simp add: update_returning_def upd_jobs_def)
    moreover have "mset (fst (update_returning P f (take n ids) d)) +
        mset (fst (update_returning P f (drop n ids) ?d1)) = mset (fst (update_returning P f ids d))"
      using filter_split_mset [of j_id f P "set (take n ids)" "jobs d" "set (drop n ids)"] "1.prems" ids
      by (simp add: update_returning_def)
    ultimately show ?thesis
      using IH "1.prems"(1) False by (simp add: update_chunked.simps [of n P f ids d] split_beta)
  qed
qed

lemma chunk_size_pos [simp]: "0 < starvedUpdateChunkSize"
  by (simp add: starvedUpdateChunkSize_def)

lemma starved_row_id [simp]: "j_id (starved_row now e m ft j) = j_id j"
  by (simp add: starved_row_def)

lemma starved_row_done: "\<not> starved cutoff (starved_row now e m ft j)"
  by (simp add: starved_def pendingUnassigned_def starved_row_def)

lemma stuck_row_id [simp]: "j_id (stuck_row now m ft j) = j_id j"
  by (simp add: stuck_row_def)

lemma stuck_row_done: "\<not> stuck_guard d c cutoff (stuck_row now m ft j)"
  by (simp add: stuck_guard_def stale_active_def active_def stuck_row_def)

lemma failStarvedJobsChunked_spec:
  "snd (failStarvedJobsChunked now e ids m ft cutoff d) =
     upd_jobs (\<lambda>j. j_id j \<in> set ids \<and> starved cutoff j) (starved_row now e m ft) d"
  "mset (fst (failStarvedJobsChunked now e ids m ft cutoff d)) =
     mset (map j_id (filter (\<lambda>j. j_id j \<in> set ids \<and> starved cutoff j) (jobs d)))"
  using update_chunked_spec [of starvedUpdateChunkSize "starved_row now e m ft" "starved cutoff" ids d]
  by (simp_all add: failStarvedJobsChunked_def update_returning_def starved_row_done)

lemma failStuckJobsChunked_spec:
  "snd (failStuckJobsChunked now cutoff ids m ft c d) =
     upd_jobs (\<lambda>j. j_id j \<in> set ids \<and> stuck_guard d c cutoff j) (stuck_row now m ft) d"
  "mset (fst (failStuckJobsChunked now cutoff ids m ft c d)) =
     mset (map j_id (filter (\<lambda>j. j_id j \<in> set ids \<and> stuck_guard d c cutoff j) (jobs d)))"
  using update_chunked_spec [of starvedUpdateChunkSize "stuck_row now m ft" "stuck_guard d c cutoff" ids d]
  by (simp_all add: failStuckJobsChunked_def update_returning_def stuck_row_done)

end
