(* ===== verification/MigrationStore.thy ===== *)
theory MigrationStore
  imports JobSweeps
begin

section \<open>Migrating the jobs of an offline worker (pkg/server/db/migrations.go)\<close>

text \<open>
  One transaction classifies the worker's active jobs against the retry budget, requeues those
  within it, writes the audit rows, and fails the rest. Its result lists what was changed.
\<close>

record worker_migration_result =
  mr_event_id :: string
  mr_worker_name :: string
  mr_migrated :: "string list"
  mr_failed :: "string list"

definition empty_migration_result :: "string \<Rightarrow> worker_migration_result" where
  "empty_migration_result name =
     \<lparr>mr_event_id = [], mr_worker_name = name, mr_migrated = [], mr_failed = []\<rparr>"

text \<open>The requeue loop: the jobs actually reset, each with its migration count after this event.\<close>

fun reset_loop :: "time \<Rightarrow> string \<Rightarrow> (string \<times> nat) list \<Rightarrow> database \<Rightarrow> (string \<times> int) list \<times> database" where
  "reset_loop now workerID [] d = ([], d)"
| "reset_loop now workerID ((i, n) # js) d =
     (let (reset, d1) = resetJobToPendingExec i workerID now d;
          (rest, d2) = reset_loop now workerID js d1
      in (if reset then ((i, int n + 1) # rest, d2) else (rest, d2)))"

definition maxRetryErrMsg :: string where
  "maxRetryErrMsg = ''max retry count exceeded after repeated worker failures''"

definition budget_row :: "time \<Rightarrow> job_row \<Rightarrow> job_row" where
  "budget_row now j =
     j\<lparr>j_status := JobStatusFailed, j_worker_id := None, j_started_at := None, j_claimed_at := None,
       j_exit_code := Some (-1), j_error := Some maxRetryErrMsg,
       j_failure_type := FailureWorkerCrash, j_retryable := True,
       j_finished_at := Some now, j_updated_at := now\<rparr>"

fun budget_loop :: "time \<Rightarrow> string \<Rightarrow> (string \<times> nat) list \<Rightarrow> database \<Rightarrow> string list \<times> database" where
  "budget_loop now workerID [] d = ([], d)"
| "budget_loop now workerID ((i, n) # js) d =
     (let hit = rows_affected (owned_active i workerID) (jobs d) > 0;
          (rest, d2) = budget_loop now workerID js (upd_jobs (owned_active i workerID) (budget_row now) d)
      in (if hit then i # rest else rest, d2))"

text \<open>The classified snapshot: the worker's active jobs, oldest first, with their migration counts.\<close>

definition active_jobs_with_count :: "database \<Rightarrow> string \<Rightarrow> (string \<times> nat) list" where
  "active_jobs_with_count d workerID =
     map (\<lambda>j. (j_id j, migration_count d (j_id j)))
       (order_asc j_created_at (filter (\<lambda>j. j_worker_id j = Some workerID \<and> active j) (jobs d)))"

definition notify_all :: "string list \<Rightarrow> database \<Rightarrow> database" where
  "notify_all ids d = fold NotifyTerminal ids d"

definition MigrateJobsFromWorker ::
  "(string \<Rightarrow> string option) \<Rightarrow> bool \<Rightarrow> time \<Rightarrow> string \<Rightarrow> (string \<Rightarrow> string) \<Rightarrow> string \<Rightarrow> string \<Rightarrow> int \<Rightarrow>
   database \<Rightarrow> worker_migration_result db_result" where
  "MigrateJobsFromWorker up ok now eventID uids workerID reason maxRetryCount d =
     (let workerID = NormalizeWorkerID up workerID in
      if \<not> ok then (Inl DriverError, d)
      else case find_worker workerID d of
        None \<Rightarrow> (Inr (empty_migration_result []), d)
      | Some w \<Rightarrow>
          if w_status w \<noteq> WorkerStatusOffline then (Inr (empty_migration_result (w_name w)), d)
          else
            (let snapshot = active_jobs_with_count d workerID;
                 toFail = filter (\<lambda>(i, n). maxRetryCount \<le> int n) snapshot;
                 toMigrate = filter (\<lambda>(i, n). \<not> maxRetryCount \<le> int n) snapshot;
                 (retryCounts, d1) = reset_loop now workerID toMigrate d;
                 migrated = map fst retryCounts;
                 d2 = (if migrated \<noteq> []
                       then insertRedistributionsTx uids eventID retryCounts now
                              (insertMigrationEventTx eventID now workerID (Some (w_name w)) reason
                                 (fold max (map snd retryCounts) 0) migrated d1)
                       else d1);
                 (failed, d3) = budget_loop now workerID toFail d2
             in (Inr \<lparr>mr_event_id = (if migrated \<noteq> [] then eventID else []),
                      mr_worker_name = w_name w, mr_migrated = migrated, mr_failed = failed\<rparr>,
                 notify_all failed d3)))"

text \<open>One \<^verbatim>\<open>UPDATE \<dots> RETURNING id\<close>: exactly the workers this call flipped.\<close>

definition MarkOfflineWorkersWithMigration ::
  "bool \<Rightarrow> time \<Rightarrow> duration \<Rightarrow> database \<Rightarrow> string list db_result" where
  "MarkOfflineWorkersWithMigration ok now heartbeatTimeout d =
     (if \<not> ok then (Inl DriverError, d)
      else (Inr (map w_id (filter (heartbeat_stale now heartbeatTimeout) (workers d))),
            upd_workers (heartbeat_stale now heartbeatTimeout)
              (\<lambda>w. w\<lparr>w_status := WorkerStatusOffline\<rparr>) d))"

subsection \<open>Facts about the loops\<close>

lemma notify_all_frame:
  "jobs (notify_all ids d) = jobs d \<and> workers (notify_all ids d) = workers d \<and>
   migration_events (notify_all ids d) = migration_events d \<and>
   job_redistributions (notify_all ids d) = job_redistributions d \<and>
   terminal_log (notify_all ids d) = terminal_log d @ ids"
  by (induction ids arbitrary: d) (simp_all add: notify_all_def)

lemma reset_loop_frame:
  "workers (snd (reset_loop now w js d)) = workers d \<and>
   migration_events (snd (reset_loop now w js d)) = migration_events d \<and>
   job_redistributions (snd (reset_loop now w js d)) = job_redistributions d \<and>
   terminal_log (snd (reset_loop now w js d)) = terminal_log d"
  by (induction js arbitrary: d) (auto simp: resetJobToPendingExec_def split_beta Let_def)

lemma budget_loop_frame:
  "workers (snd (budget_loop now w js d)) = workers d \<and>
   migration_events (snd (budget_loop now w js d)) = migration_events d \<and>
   job_redistributions (snd (budget_loop now w js d)) = job_redistributions d \<and>
   terminal_log (snd (budget_loop now w js d)) = terminal_log d"
  by (induction js arbitrary: d) (auto simp: split_beta Let_def)

lemmas loop_frames [simp] =
  notify_all_frame [THEN conjunct1] notify_all_frame [THEN conjunct2, THEN conjunct1]
  notify_all_frame [THEN conjunct2, THEN conjunct2, THEN conjunct1]
  notify_all_frame [THEN conjunct2, THEN conjunct2, THEN conjunct2, THEN conjunct1]
  notify_all_frame [THEN conjunct2, THEN conjunct2, THEN conjunct2, THEN conjunct2]
  reset_loop_frame [THEN conjunct1] reset_loop_frame [THEN conjunct2, THEN conjunct1]
  reset_loop_frame [THEN conjunct2, THEN conjunct2, THEN conjunct1]
  reset_loop_frame [THEN conjunct2, THEN conjunct2, THEN conjunct2]
  budget_loop_frame [THEN conjunct1] budget_loop_frame [THEN conjunct2, THEN conjunct1]
  budget_loop_frame [THEN conjunct2, THEN conjunct2, THEN conjunct1]
  budget_loop_frame [THEN conjunct2, THEN conjunct2, THEN conjunct2]

lemma owned_active_reset: "\<not> owned_active i w (reset_row now j)"
  by (simp add: owned_active_def reset_row_def requeue_row_def)

lemma owned_active_budget: "\<not> owned_active i w (budget_row now j)"
  by (simp add: owned_active_def budget_row_def)

lemma row_ids [simp]:
  "j_id (reset_row now j) = j_id j" "j_id (budget_row now j) = j_id j"
  "j_id (requeue_row now j) = j_id j" "j_id (claim_row now w n j) = j_id j"
  "j_id (fail_row now m fty j) = j_id j"
  "j_id (terminal_report now w n s ec em ft fd c j) = j_id j"
  "j_id (running_report now ec em ft fd j) = j_id j"
  by (simp_all add: reset_row_def budget_row_def requeue_row_def claim_row_def fail_row_def
      terminal_report_def running_report_def Let_def)

text \<open>
  The two loops on a snapshot of distinct ids, as one statement each: every job in the list that
  the worker still owns is rewritten.
\<close>

lemma merge_owned:
  assumes "\<And>r. j_id (f r) = j_id r" and "\<And>i r. \<not> owned_active i w (f r)"
  shows "upd_where (\<lambda>j. j_id j \<in> A \<and> owned_active (j_id j) w j) f (upd_where (owned_active i w) f rs) =
         upd_where (\<lambda>j. j_id j \<in> insert i A \<and> owned_active (j_id j) w j) f rs"
  using assms by (induction rs) (auto simp: owned_active_def)

lemma reset_loop_jobs:
  "jobs (snd (reset_loop now w js d)) =
     upd_where (\<lambda>j. j_id j \<in> fst ` set js \<and> owned_active (j_id j) w j) (reset_row now) (jobs d)"
proof (induction js arbitrary: d)
  case Nil
  then show ?case by (simp add: upd_where_def)
next
  case (Cons p js)
  then show ?case
    by (cases p) (simp add: split_beta Let_def resetJobToPendingExec_def merge_owned owned_active_reset)
qed

lemma budget_loop_jobs:
  "jobs (snd (budget_loop now w js d)) =
     upd_where (\<lambda>j. j_id j \<in> fst ` set js \<and> owned_active (j_id j) w j) (budget_row now) (jobs d)"
proof (induction js arbitrary: d)
  case Nil
  then show ?case by (simp add: upd_where_def)
next
  case (Cons p js)
  then show ?case
    by (cases p) (simp add: split_beta Let_def merge_owned owned_active_budget)
qed

end
