(* ===== verification/EncoderSelect.thy ===== *)
theory EncoderSelect
  imports GoStrings
begin

section \<open>Encoder requests and codec families (pkg/server/scheduler)\<close>

text \<open>
  What encoder a job asks for (\<^verbatim>\<open>encoder_parser.go\<close>) and which encoders may stand in for it
  (\<^verbatim>\<open>encoder_fallback.go\<close>). The Go tables are literal lists here; a codec family is the string of its constant,
  and the empty string an unknown family. The \<open>args\<close> column is \<open>None\<close> where it is no JSON string array.
\<close>

subsection \<open>The requested encoder\<close>

definition passthroughEncoders :: "string list" where
  "passthroughEncoders = [''copy'']"

definition videoEncoders :: "string list" where
  "videoEncoders = [
     ''libx264'', ''libx264rgb'', ''libx265'', ''libx265rgb'', ''libvpx'', ''libvpx-vp9'',
     ''libaom-av1'', ''librav1e'', ''libsvtav1'', ''mpeg2video'', ''mpeg4'', ''msmpeg4'',
     ''msmpeg4v2'', ''wmv1'', ''wmv2'', ''flv'', ''h261'', ''h263'', ''h263p'', ''svq1'',
     ''dvvideo'', ''h264_nvenc'', ''hevc_nvenc'', ''nvenc'', ''nvenc_h264'', ''nvenc_hevc'',
     ''av1_nvenc'', ''h264_qsv'', ''hevc_qsv'', ''av1_qsv'', ''vp9_qsv'', ''mpeg2_qsv'',
     ''h264_amf'', ''hevc_amf'', ''av1_amf'', ''h264_vaapi'', ''hevc_vaapi'', ''av1_vaapi'',
     ''vp8_vaapi'', ''vp9_vaapi'', ''mpeg2_vaapi'', ''h264_videotoolbox'',
     ''hevc_videotoolbox'', ''prores_videotoolbox'', ''h264_v4l2m2m'', ''hevc_v4l2m2m'']"

definition isVideoEncoder :: "string \<Rightarrow> bool" where
  "isVideoEncoder name \<longleftrightarrow> name \<in> set videoEncoders"

text \<open>The options that name a video encoder outright, with or without a stream index.\<close>

definition names_video_encoder :: "string \<Rightarrow> bool" where
  "names_video_encoder arg \<longleftrightarrow>
     arg = ''-c:v'' \<or> arg = ''-codec:v'' \<or> HasPrefix arg ''-c:v:'' \<or> HasPrefix arg ''-codec:v:'' \<or>
     arg = ''-vcodec''"

fun ExtractEncoder_loop :: "string list \<Rightarrow> string" where
  "ExtractEncoder_loop (arg # nextArg # rest) =
     (if names_video_encoder arg
      then (if nextArg \<in> set passthroughEncoders then [] else nextArg)
      else if (arg = ''-c'' \<or> arg = ''-codec'') \<and> isVideoEncoder nextArg then nextArg
      else ExtractEncoder_loop (nextArg # rest))"
| "ExtractEncoder_loop _ = []"

definition ExtractEncoderFromArgs :: "string list option \<Rightarrow> string" where
  "ExtractEncoderFromArgs argsJSON =
     (case argsJSON of None \<Rightarrow> [] | Some args \<Rightarrow> ExtractEncoder_loop args)"

subsection \<open>Codec families\<close>

definition CodecFamilyH264 :: string where
  "CodecFamilyH264 = ''h264''"
definition CodecFamilyHEVC :: string where
  "CodecFamilyHEVC = ''hevc''"
definition CodecFamilyVP9 :: string where
  "CodecFamilyVP9 = ''vp9''"
definition CodecFamilyAV1 :: string where
  "CodecFamilyAV1 = ''av1''"
definition CodecFamilyVP8 :: string where
  "CodecFamilyVP8 = ''vp8''"
definition CodecFamilyMPEG2 :: string where
  "CodecFamilyMPEG2 = ''mpeg2''"
definition CodecFamilyMPEG4 :: string where
  "CodecFamilyMPEG4 = ''mpeg4''"

lemmas family_defs = CodecFamilyH264_def CodecFamilyHEVC_def CodecFamilyVP9_def CodecFamilyAV1_def CodecFamilyVP8_def CodecFamilyMPEG2_def CodecFamilyMPEG4_def

definition encoderFamilyMapping :: "(string \<times> string) list" where
  "encoderFamilyMapping = [
     (''libx264'', CodecFamilyH264), (''libx264rgb'', CodecFamilyH264),
     (''h264_nvenc'', CodecFamilyH264), (''h264_qsv'', CodecFamilyH264),
     (''h264_vaapi'', CodecFamilyH264), (''h264_amf'', CodecFamilyH264),
     (''h264_videotoolbox'', CodecFamilyH264), (''h264_v4l2m2m'', CodecFamilyH264),
     (''h264_omx'', CodecFamilyH264), (''libx265'', CodecFamilyHEVC),
     (''libx265rgb'', CodecFamilyHEVC), (''hevc_nvenc'', CodecFamilyHEVC),
     (''hevc_qsv'', CodecFamilyHEVC), (''hevc_vaapi'', CodecFamilyHEVC),
     (''hevc_amf'', CodecFamilyHEVC), (''hevc_videotoolbox'', CodecFamilyHEVC),
     (''hevc_v4l2m2m'', CodecFamilyHEVC), (''libvpx-vp9'', CodecFamilyVP9),
     (''vp9_nvenc'', CodecFamilyVP9), (''vp9_qsv'', CodecFamilyVP9),
     (''vp9_vaapi'', CodecFamilyVP9), (''vp9_videotoolbox'', CodecFamilyVP9),
     (''libaom-av1'', CodecFamilyAV1), (''libsvtav1'', CodecFamilyAV1),
     (''av1_nvenc'', CodecFamilyAV1), (''av1_qsv'', CodecFamilyAV1),
     (''av1_vaapi'', CodecFamilyAV1), (''av1_amf'', CodecFamilyAV1),
     (''libvpx'', CodecFamilyVP8), (''vp8_vaapi'', CodecFamilyVP8),
     (''mpeg2video'', CodecFamilyMPEG2), (''mpeg2_qsv'', CodecFamilyMPEG2),
     (''mpeg2_vaapi'', CodecFamilyMPEG2), (''mpeg4'', CodecFamilyMPEG4)]"

definition encoderPriority :: "(string \<times> string list) list" where
  "encoderPriority = [
     (CodecFamilyH264,
       [''h264_nvenc'', ''h264_qsv'', ''h264_vaapi'', ''h264_amf'', ''h264_videotoolbox'',
       ''libx264'', ''libx264rgb'']),
     (CodecFamilyHEVC,
       [''hevc_nvenc'', ''hevc_qsv'', ''hevc_vaapi'', ''hevc_amf'', ''hevc_videotoolbox'',
       ''libx265'', ''libx265rgb'']),
     (CodecFamilyVP9,
       [''vp9_nvenc'', ''vp9_qsv'', ''vp9_vaapi'', ''vp9_videotoolbox'', ''libvpx-vp9'']),
     (CodecFamilyAV1,
       [''av1_nvenc'', ''av1_qsv'', ''av1_vaapi'', ''av1_amf'', ''libsvtav1'', ''libaom-av1'']),
     (CodecFamilyVP8,
       [''vp8_vaapi'', ''libvpx'']),
     (CodecFamilyMPEG2,
       [''mpeg2_qsv'', ''mpeg2_vaapi'', ''mpeg2video'']),
     (CodecFamilyMPEG4,
       [''mpeg4''])]"

definition GetCodecFamily :: "string \<Rightarrow> string" where
  "GetCodecFamily encoder =
     (case map_of encoderFamilyMapping encoder of
        Some family \<Rightarrow> family
      | None \<Rightarrow>
          (let encoderLower = ToLower encoder in
           if Contains encoderLower ''h264'' \<or> Contains encoderLower ''avc'' then CodecFamilyH264
           else if Contains encoderLower ''hevc'' \<or> Contains encoderLower ''h265'' \<or> Contains encoderLower ''x265''
           then CodecFamilyHEVC
           else if Contains encoderLower ''vp9'' then CodecFamilyVP9
           else if Contains encoderLower ''av1'' then CodecFamilyAV1
           else if Contains encoderLower ''vp8'' then CodecFamilyVP8
           else if Contains encoderLower ''mpeg2'' then CodecFamilyMPEG2
           else if Contains encoderLower ''mpeg4'' then CodecFamilyMPEG4
           else []))"

definition GetCompatibleEncoders :: "string \<Rightarrow> string list" where
  "GetCompatibleEncoders encoder =
     (let family = GetCodecFamily encoder in
      if family = [] then []
      else case map_of encoderPriority family of Some encoders \<Rightarrow> encoders | None \<Rightarrow> [])"

definition hwSuffixes :: "string list" where
  "hwSuffixes = [''_nvenc'', ''_qsv'', ''_vaapi'', ''_amf'', ''_videotoolbox'', ''_v4l2m2m'', ''_omx'']"

definition IsHardwareEncoder :: "string \<Rightarrow> bool" where
  "IsHardwareEncoder encoder \<longleftrightarrow> (\<exists>suffix \<in> set hwSuffixes. HasSuffix encoder suffix)"

definition softwareEncoders :: "string list" where
  "softwareEncoders = [
     ''libx264'', ''libx264rgb'', ''libx265'', ''libx265rgb'', ''libvpx'', ''libvpx-vp9'',
     ''libaom-av1'', ''libsvtav1'', ''mpeg2video'', ''mpeg4'']"

definition IsSoftwareEncoder :: "string \<Rightarrow> bool" where
  "IsSoftwareEncoder encoder \<longleftrightarrow> encoder \<in> set softwareEncoders"

subsection \<open>Facts about the tables\<close>

text \<open>A decidable check over both tables, evaluated once.\<close>

lemma priority_table_families:
  "list_all (\<lambda>(f, es). f \<noteq> [] \<and> list_all (\<lambda>e. map_of encoderFamilyMapping e = Some f) es) encoderPriority"
  by (simp add: encoderPriority_def encoderFamilyMapping_def family_defs)

lemma priority_table_order:
  "list_all (\<lambda>(f, es). es = filter IsHardwareEncoder es @ filter IsSoftwareEncoder es) encoderPriority"
  by code_simp

lemma GetCompatibleEncoders_row:
  "GetCompatibleEncoders e = [] \<or> (GetCodecFamily e, GetCompatibleEncoders e) \<in> set encoderPriority"
  by (auto simp: GetCompatibleEncoders_def Let_def split: option.splits dest: map_of_SomeD)

lemma GetCompatibleEncoders_family:
  "\<forall>c \<in> set (GetCompatibleEncoders e). GetCodecFamily c = GetCodecFamily e"
proof (cases "GetCompatibleEncoders e = []")
  case False
  with GetCompatibleEncoders_row [of e]
  have "(GetCodecFamily e, GetCompatibleEncoders e) \<in> set encoderPriority" by blast
  with priority_table_families show ?thesis
    by (auto simp: list_all_iff GetCodecFamily_def [of "_ :: string"] split: prod.splits)
qed simp

lemma GetCompatibleEncoders_order:
  "GetCompatibleEncoders e =
     filter IsHardwareEncoder (GetCompatibleEncoders e) @ filter IsSoftwareEncoder (GetCompatibleEncoders e)"
  using GetCompatibleEncoders_row [of e] priority_table_order
  by (auto simp: list_all_iff split: prod.splits)

text \<open>
  An encoder that may stand in for a requested one is always in the same codec family, whatever name was requested
  (a known encoder, or a family inferred from its name), and the candidates list every hardware
  encoder before every software one.
\<close>

theorem compatible_encoders_same_family:
  "(\<forall>c \<in> set (GetCompatibleEncoders e). GetCodecFamily c = GetCodecFamily e) \<and>
   GetCompatibleEncoders e =
     filter IsHardwareEncoder (GetCompatibleEncoders e) @ filter IsSoftwareEncoder (GetCompatibleEncoders e)"
  using GetCompatibleEncoders_family GetCompatibleEncoders_order by blast

theorem compatible_encoders_same_family_witness:
  "GetCodecFamily ''libx264'' = GetCodecFamily ''h264_omx''"
proof -
  have "''libx264'' \<in> set (GetCompatibleEncoders ''h264_omx'')" by code_simp
  with compatible_encoders_same_family [of "''h264_omx''"] show ?thesis by blast
qed

end
