(* ===== verification/GoFormat.thy ===== *)
theory GoFormat
  imports GoStrings
begin

section \<open>Go's number and duration formatting\<close>

text \<open>
  \<^verbatim>\<open>%d\<close> (\<^verbatim>\<open>strconv.Itoa\<close>) and \<^verbatim>\<open>time.Duration.String\<close>, which the server puts into the messages of failed
  jobs. Strings are byte strings, so the micro sign is its two UTF-8 bytes.
\<close>

definition digit_char :: "int \<Rightarrow> char" where
  "digit_char n = char_of (48 + nat (n mod 10))"

function show_pos :: "int \<Rightarrow> string" where
  "show_pos n = (if n < 10 then [digit_char n] else show_pos (n div 10) @ [digit_char (n mod 10)])"
  by pat_completeness auto
termination
  by (relation "measure nat") auto

declare show_pos.simps [simp del]

definition Itoa :: "int \<Rightarrow> string" where
  "Itoa n = (if n < 0 then CHR ''-'' # show_pos (- n) else show_pos n)"

definition digit_value :: "char \<Rightarrow> int option" where
  "digit_value c = (if 48 \<le> (of_char c :: nat) \<and> (of_char c :: nat) \<le> 57 then Some (int (of_char c) - 48) else None)"

text \<open>The decimal value of a digit string, read from the left.\<close>

fun read_digits :: "int \<Rightarrow> string \<Rightarrow> int option" where
  "read_digits acc [] = Some acc"
| "read_digits acc (c # cs) =
     (case digit_value c of None \<Rightarrow> None | Some v \<Rightarrow> read_digits (10 * acc + v) cs)"

subsection \<open>Durations\<close>

text \<open>
  \<open>fmtFrac\<close>: the low \<open>prec\<close> digits of \<open>v\<close> as a fraction without trailing zeros (empty, without the point, if they
  are all zero), and the rest of \<open>v\<close>.
\<close>

fun frac_digits :: "nat \<Rightarrow> int \<Rightarrow> bool \<Rightarrow> string \<Rightarrow> int \<times> string" where
  "frac_digits 0 v p acc = (v, if p then CHR ''.'' # acc else acc)"
| "frac_digits (Suc prec) v p acc =
     (let digit = v mod 10; p' = (p \<or> digit \<noteq> 0)
      in frac_digits prec (v div 10) p' (if p' then digit_char digit # acc else acc))"

definition micro :: string where
  "micro = [char_of (194 :: nat), char_of (181 :: nat)]"

definition duration_string :: "duration \<Rightarrow> string" where
  "duration_string d =
     (let u = \<bar>d\<bar>;
          body =
            (if u = 0 then ''0s''
             else if u < 1000 then show_pos u @ ''ns''
             else if u < 1000000 then
               (let (v, f) = frac_digits 3 u False [] in show_pos v @ f @ micro @ ''s'')
             else if u < 1000000000 then
               (let (v, f) = frac_digits 6 u False [] in show_pos v @ f @ ''ms'')
             else
               (let (v, f) = frac_digits 9 u False [];
                    secs = show_pos (v mod 60) @ f @ ''s'';
                    m = v div 60
                in if m = 0 then secs
                   else (let mins = show_pos (m mod 60) @ ''m'' @ secs; h = m div 60
                         in if h = 0 then mins else show_pos h @ ''h'' @ mins)))
      in if d < 0 then CHR ''-'' # body else body)"

lemma digit_value_char [simp]: "digit_value (digit_char n) = Some (n mod 10)"
proof -
  have "0 \<le> n mod 10" "n mod 10 < 10" by simp_all
  then have "nat (n mod 10) < 10" "int (nat (n mod 10)) = n mod 10" by simp_all
  moreover from this have "(of_char (digit_char n) :: nat) = 48 + nat (n mod 10)"
    by (simp add: digit_char_def)
  ultimately show ?thesis by (simp only: digit_value_def) simp
qed

lemma read_digits_append:
  "read_digits acc (xs @ [digit_char n]) = map_option (\<lambda>v. 10 * v + n mod 10) (read_digits acc xs)"
  by (induction xs arbitrary: acc) (auto split: option.splits)

lemma read_show_pos: "0 \<le> n \<Longrightarrow> read_digits 0 (show_pos n) = Some n"
proof (induction n rule: show_pos.induct)
  case (1 n)
  show ?case
  proof (cases "n < 10")
    case True
    with 1 show ?thesis by (simp add: show_pos.simps [of n])
  next
    case False
    with 1 have "read_digits 0 (show_pos (n div 10)) = Some (n div 10)" by simp
    with False show ?thesis
      by (simp add: show_pos.simps [of n] read_digits_append)
  qed
qed

end
