(* ===== verification/Scheduler.thy ===== *)
theory Scheduler
  imports MigrationStore EncoderSelect GoFormat
begin

section \<open>The scheduler (pkg/server/scheduler/scheduler.go)\<close>

text \<open>
  One definition per method. A pass makes many database calls; each has a label (\<open>sched_call\<close>), and the
  environment gives every label its driver outcome, instant and fresh identifier, arbitrary functions that
  the theorems quantify over. Log output is not modelled. \<open>s_frames\<close> is what the optional
  broadcaster was sent, in order; \<open>s_timer\<close> is the instant at which the starvation wake will fire, and \<open>s_resched\<close> the
  one-slot reschedule channel.
\<close>

datatype sched_call =
    PendingScan
  | EncoderScan string string  \<comment> \<open>job, encoder\<close>
  | IdleScan string
  | AssignCall string
  | TargetCall string
  | TimeoutScan
  | RetryCountCall string
  | FailCall string
  | FailLookup string
  | TimeoutTx string
  | StuckScan
  | StuckTx
  | PendingProbe
  | LiveScan
  | CutoffClock
  | StarvedScan
  | StarvedTx
  | ArmLiveScan
  | EarliestScan
  | WaitClock

record sched_env =
  e_ok :: "sched_call \<Rightarrow> bool"
  e_now :: "sched_call \<Rightarrow> time"
  e_uid :: "sched_call \<Rightarrow> string"
  e_uids :: "sched_call \<Rightarrow> string \<Rightarrow> string"

record sched_config =
  JobTimeout :: duration
  ScheduleInterval :: duration
  TimeoutCheckInterval :: duration
  MaxJobsPerWorker :: int
  NoWorkerJobTimeout :: duration
  HeartbeatFreshness :: duration
  MaxTimeoutRetries :: int
  StuckJobTimeout :: duration
  has_notifier :: bool  \<comment> \<open>whether \<open>SetJobNotifier\<close> wired a broadcaster\<close>

definition second :: duration where "second = 1000000000"
definition minute :: duration where "minute = 60 * second"

definition DefaultConfig :: sched_config where
  "DefaultConfig = \<lparr>JobTimeout = 30 * minute, ScheduleInterval = 5 * second,
     TimeoutCheckInterval = 30 * second, MaxJobsPerWorker = 1, NoWorkerJobTimeout = 2 * minute,
     HeartbeatFreshness = 90 * second, MaxTimeoutRetries = 2, StuckJobTimeout = 5 * minute,
     has_notifier = False\<rparr>"

definition starvationExpiryMargin :: duration where
  "starvationExpiryMargin = second"

definition crashStarvationErrMsg :: string where
  "crashStarvationErrMsg =
     ''worker crashed (heartbeat timeout) and no surviving worker to take over the job''"

datatype ws_frame = StatusFrame string job_status int string | StreamReleased string

record sched_state =
  s_db :: database
  s_frames :: "ws_frame list"
  s_timer :: "time option"
  s_resched :: bool

definition emit :: "sched_config \<Rightarrow> ws_frame list \<Rightarrow> sched_state \<Rightarrow> sched_state" where
  "emit cfg fs s = (if has_notifier cfg then s\<lparr>s_frames := s_frames s @ fs\<rparr> else s)"

subsection \<open>Worker selection\<close>

definition maxJobs :: "sched_config \<Rightarrow> worker_with_job_count \<Rightarrow> int" where
  "maxJobs cfg w = (if w_max_concurrent (wj_worker w) \<le> 0 then MaxJobsPerWorker cfg
                    else w_max_concurrent (wj_worker w))"

fun select_loop ::
  "sched_config \<Rightarrow> worker_with_job_count list \<Rightarrow> worker_row option \<Rightarrow> int \<Rightarrow> int \<Rightarrow> worker_row option" where
  "select_loop cfg [] bestWorker bestActive bestCompleted = bestWorker"
| "select_loop cfg (w # ws) bestWorker bestActive bestCompleted =
     (if int (wj_active w) \<ge> maxJobs cfg w then select_loop cfg ws bestWorker bestActive bestCompleted
      else if bestActive = -1 \<or> int (wj_active w) < bestActive \<or>
              (int (wj_active w) = bestActive \<and> int (wj_completed w) < bestCompleted)
      then select_loop cfg ws (Some (wj_worker w)) (int (wj_active w)) (int (wj_completed w))
      else select_loop cfg ws bestWorker bestActive bestCompleted)"

definition selectBestWorker :: "sched_config \<Rightarrow> worker_with_job_count list \<Rightarrow> worker_row option" where
  "selectBestWorker cfg ws = select_loop cfg ws None (-1) 0"

fun fallback_loop ::
  "sched_env \<Rightarrow> sched_config \<Rightarrow> string \<Rightarrow> string \<Rightarrow> database \<Rightarrow> string list \<Rightarrow> (worker_row \<times> string) option" where
  "fallback_loop env cfg jobID requested d [] = None"
| "fallback_loop env cfg jobID requested d (enc # encs) =
     (if enc = requested then fallback_loop env cfg jobID requested d encs
      else case GetIdleWorkersByEncoderWithJobCount (e_ok env (EncoderScan jobID enc))
                  (e_now env (EncoderScan jobID enc)) enc (HeartbeatFreshness cfg) d of
             None \<Rightarrow> fallback_loop env cfg jobID requested d encs
           | Some [] \<Rightarrow> fallback_loop env cfg jobID requested d encs
           | Some (w # ws) \<Rightarrow>
               (case selectBestWorker cfg (w # ws) of
                  Some best \<Rightarrow> Some (best, enc)
                | None \<Rightarrow> fallback_loop env cfg jobID requested d encs))"

definition tryEncoderFallback ::
  "sched_env \<Rightarrow> sched_config \<Rightarrow> string \<Rightarrow> string \<Rightarrow> database \<Rightarrow> (worker_row \<times> string) option" where
  "tryEncoderFallback env cfg jobID requested d =
     (if GetCodecFamily requested = [] then None
      else if GetCompatibleEncoders requested = [] then None
      else fallback_loop env cfg jobID requested d (GetCompatibleEncoders requested))"

subsection \<open>Scheduling\<close>

text \<open>The worker that \<open>scheduleJob\<close> settles on: the first half of the method.\<close>

definition choose_worker :: "sched_env \<Rightarrow> sched_config \<Rightarrow> job_row \<Rightarrow> database \<Rightarrow> worker_row option" where
  "choose_worker env cfg job d =
     (let requestedEncoder = ExtractEncoderFromArgs (j_args job) in
      if requestedEncoder \<noteq> [] then
        (case GetIdleWorkersByEncoderWithJobCount (e_ok env (EncoderScan (j_id job) requestedEncoder))
                (e_now env (EncoderScan (j_id job) requestedEncoder)) requestedEncoder
                (HeartbeatFreshness cfg) d of
           None \<Rightarrow> None
         | Some [] \<Rightarrow> map_option fst (tryEncoderFallback env cfg (j_id job) requestedEncoder d)
         | Some (w # ws) \<Rightarrow> selectBestWorker cfg (w # ws))
      else
        (case GetIdleWorkersWithJobCount (e_ok env (IdleScan (j_id job))) (e_now env (IdleScan (j_id job)))
                (HeartbeatFreshness cfg) d of
           None \<Rightarrow> None
         | Some ws \<Rightarrow> selectBestWorker cfg ws))"

definition scheduleJob :: "sched_env \<Rightarrow> sched_config \<Rightarrow> job_row \<Rightarrow> database \<Rightarrow> bool \<times> database" where
  "scheduleJob env cfg job d =
     (case choose_worker env cfg job d of
        None \<Rightarrow> (False, d)
      | Some w \<Rightarrow>
          (case AssignJobToWorker (e_ok env (AssignCall (j_id job))) (e_now env (AssignCall (j_id job)))
                  (j_id job) (w_id w) d of
             (Inl err, d') \<Rightarrow> (err = ErrJobNotOwned, d')
           | (Inr _, d') \<Rightarrow>
               (True, snd (RecordMigrationTarget (e_ok env (TargetCall (j_id job))) (j_id job) (w_id w)
                             (w_name w) d'))))"

fun schedule_loop :: "sched_env \<Rightarrow> sched_config \<Rightarrow> job_row list \<Rightarrow> database \<Rightarrow> database" where
  "schedule_loop env cfg [] d = d"
| "schedule_loop env cfg (job # js) d = schedule_loop env cfg js (snd (scheduleJob env cfg job d))"

definition schedulePendingJobs :: "sched_env \<Rightarrow> sched_config \<Rightarrow> sched_state \<Rightarrow> sched_state" where
  "schedulePendingJobs env cfg s =
     (case GetPendingJobs (e_ok env PendingScan) 100 (s_db s) of
        Inl _ \<Rightarrow> s
      | Inr pendingJobs \<Rightarrow> s\<lparr>s_db := schedule_loop env cfg pendingJobs (s_db s)\<rparr>)"

subsection \<open>The timeout sweep\<close>

definition timeoutErrMsg :: "sched_config \<Rightarrow> string" where
  "timeoutErrMsg cfg = ''job exceeded maximum timeout retries ('' @ Itoa (MaxTimeoutRetries cfg) @ '')''"

definition check_timeout :: "sched_env \<Rightarrow> sched_config \<Rightarrow> job_row \<Rightarrow> sched_state \<Rightarrow> sched_state" where
  "check_timeout env cfg job s =
     (case GetJobTimeoutRetryCount (e_ok env (RetryCountCall (j_id job))) (j_id job) (s_db s) of
        Inl _ \<Rightarrow> s
      | Inr retries \<Rightarrow>
          if int retries \<ge> MaxTimeoutRetries cfg then
            (case FailJob (e_ok env (FailCall (j_id job))) (e_ok env (FailLookup (j_id job)))
                    (e_now env (FailCall (j_id job))) (j_id job) (timeoutErrMsg cfg) FailureTimeout (s_db s) of
               (Inl _, d') \<Rightarrow> s\<lparr>s_db := d'\<rparr>
             | (Inr _, d') \<Rightarrow> emit cfg [StreamReleased (j_id job)] (s\<lparr>s_db := d'\<rparr>))
          else s\<lparr>s_db := snd (RecordJobTimeoutMigration (e_ok env (TimeoutTx (j_id job)))
                   (e_now env (TimeoutTx (j_id job))) (e_uid env (TimeoutTx (j_id job)))
                   (e_uids env (TimeoutTx (j_id job))) (coalesce (j_worker_id job) []) (j_id job)
                   (int retries + 1) (s_db s))\<rparr>)"

fun timeout_loop :: "sched_env \<Rightarrow> sched_config \<Rightarrow> job_row list \<Rightarrow> sched_state \<Rightarrow> sched_state" where
  "timeout_loop env cfg [] s = s"
| "timeout_loop env cfg (job # js) s = timeout_loop env cfg js (check_timeout env cfg job s)"

definition checkTimeouts :: "sched_env \<Rightarrow> sched_config \<Rightarrow> sched_state \<Rightarrow> sched_state" where
  "checkTimeouts env cfg s =
     (case GetTimedOutJobs (e_ok env TimeoutScan) (e_now env TimeoutScan) (JobTimeout cfg) (s_db s) of
        Inl _ \<Rightarrow> s
      | Inr timedOutJobs \<Rightarrow> timeout_loop env cfg timedOutJobs s)"

subsection \<open>The bulk sweeps and their notifications\<close>

text \<open>\<open>crashed[sj.ID] = sj.Crashed\<close> over the snapshot, in its order.\<close>

definition crashed_map :: "classified_job list \<Rightarrow> (string \<rightharpoonup> bool)" where
  "crashed_map cs = fold (\<lambda>c m. m(cj_id c \<mapsto> cj_crashed c)) cs Map.empty"

fun notify_failed ::
  "sched_config \<Rightarrow> (string \<rightharpoonup> bool) \<Rightarrow> string \<Rightarrow> string \<Rightarrow> string list \<Rightarrow> sched_state \<Rightarrow> sched_state" where
  "notify_failed cfg crashed msg crashMsg [] s = s"
| "notify_failed cfg crashed msg crashMsg (jobID # ids) s =
     (let m = (if crashed jobID = Some True then crashMsg else msg);
          s' = emit cfg [StatusFrame jobID JobStatusFailed (-1) m, StreamReleased jobID] s
      in notify_failed cfg crashed msg crashMsg ids (s'\<lparr>s_db := NotifyTerminal jobID (s_db s')\<rparr>))"

definition stuckInfraMsg :: "sched_config \<Rightarrow> string" where
  "stuckInfraMsg cfg = ''job stuck in queued for over '' @ duration_string (StuckJobTimeout cfg) @
     '' without being picked up by its worker''"

definition stuckCrashMsg :: string where
  "stuckCrashMsg =
     ''worker went offline or disappeared before finishing the job and no surviving worker took over''"

definition sweepStuckJobs :: "sched_env \<Rightarrow> sched_config \<Rightarrow> sched_state \<Rightarrow> sched_state" where
  "sweepStuckJobs env cfg s =
     (if StuckJobTimeout cfg \<le> 0 then s
      else case GetStuckActiveJobs (e_ok env StuckScan) (e_now env StuckScan) (StuckJobTimeout cfg) (s_db s) of
        Inl _ \<Rightarrow> s
      | Inr stuck \<Rightarrow>
          if stuck = [] then s
          else (case FailStuckActiveJobs (e_ok env StuckTx) (e_now env StuckTx) (StuckJobTimeout cfg) stuck
                       (stuckInfraMsg cfg) stuckCrashMsg (s_db s) of
                  (Inl _, d') \<Rightarrow> s\<lparr>s_db := d'\<rparr>
                | (Inr failedIDs, d') \<Rightarrow>
                    notify_failed cfg (crashed_map stuck) (stuckInfraMsg cfg) stuckCrashMsg failedIDs
                      (s\<lparr>s_db := d'\<rparr>)))"

definition noWorkerErrMsg :: "sched_config \<Rightarrow> string" where
  "noWorkerErrMsg cfg = ''no worker available for over '' @ duration_string (NoWorkerJobTimeout cfg) @
     '' (all workers offline or evicted); submit again once a worker is online''"

definition noWorkerEnabled :: "sched_config \<Rightarrow> bool" where
  "noWorkerEnabled cfg \<longleftrightarrow> NoWorkerJobTimeout cfg > 0"

definition checkNoWorkerStarvation :: "sched_env \<Rightarrow> sched_config \<Rightarrow> sched_state \<Rightarrow> sched_state" where
  "checkNoWorkerStarvation env cfg s =
     (if \<not> noWorkerEnabled cfg then s
      else case GetPendingJobs (e_ok env PendingProbe) 1 (s_db s) of
        Inl _ \<Rightarrow> s
      | Inr pendingJobs \<Rightarrow>
          if pendingJobs = [] then s
          else case GetLiveSchedulableWorkers (e_ok env LiveScan) (e_now env LiveScan)
                      (HeartbeatFreshness cfg) (s_db s) of
            None \<Rightarrow> s
          | Some schedulable \<Rightarrow>
              if schedulable \<noteq> [] then s
              else (let cutoff = e_now env CutoffClock - NoWorkerJobTimeout cfg in
                case GetStarvedPendingJobs (e_ok env StarvedScan) cutoff ReasonHeartbeatTimeout (s_db s) of
                  Inl _ \<Rightarrow> s
                | Inr starved_jobs \<Rightarrow>
                    if starved_jobs = [] then s
                    else (case FailStarvedPendingJobs (e_ok env StarvedTx) (e_now env StarvedTx) cutoff
                                 starved_jobs (noWorkerErrMsg cfg) crashStarvationErrMsg (s_db s) of
                            (Inl _, d') \<Rightarrow> s\<lparr>s_db := d'\<rparr>
                          | (Inr failedIDs, d') \<Rightarrow>
                              notify_failed cfg (crashed_map starved_jobs) (noWorkerErrMsg cfg)
                                crashStarvationErrMsg failedIDs (s\<lparr>s_db := d'\<rparr>))))"

subsection \<open>The expiry wake and the loop\<close>

definition armStarvationWake :: "sched_env \<Rightarrow> sched_config \<Rightarrow> sched_state \<Rightarrow> sched_state" where
  "armStarvationWake env cfg s =
     (if \<not> noWorkerEnabled cfg then s
      else let s = s\<lparr>s_timer := None\<rparr> in
        case GetLiveSchedulableWorkers (e_ok env ArmLiveScan) (e_now env ArmLiveScan)
               (HeartbeatFreshness cfg) (s_db s) of
          None \<Rightarrow> s
        | Some schedulable \<Rightarrow>
            if schedulable \<noteq> [] then s
            else case EarliestPendingCreatedAt (e_ok env EarliestScan) (s_db s) of
              Inl _ \<Rightarrow> s
            | Inr None \<Rightarrow> s
            | Inr (Some anchor) \<Rightarrow>
                (let deadline = anchor + (NoWorkerJobTimeout cfg + starvationExpiryMargin);
                     wait = deadline - e_now env WaitClock
                 in if wait \<le> 0 then checkNoWorkerStarvation env cfg s
                    else s\<lparr>s_timer := Some (e_now env WaitClock + wait)\<rparr>))"

definition TriggerReschedule :: "sched_state \<Rightarrow> sched_state" where
  "TriggerReschedule s = s\<lparr>s_resched := True\<rparr>"

text \<open>
  What the select loop does for each ready channel; a received signal leaves its channel empty. The
  second environment is that of the arming that follows a sweep.
\<close>

datatype sched_event = ScheduleTick | Resched | TimeoutTick | StarvationWake

fun run_event :: "sched_env \<Rightarrow> sched_env \<Rightarrow> sched_config \<Rightarrow> sched_event \<Rightarrow> sched_state \<Rightarrow> sched_state" where
  "run_event env env' cfg ScheduleTick s = schedulePendingJobs env cfg s"
| "run_event env env' cfg Resched s =
     armStarvationWake env' cfg (schedulePendingJobs env cfg (s\<lparr>s_resched := False\<rparr>))"
| "run_event env env' cfg TimeoutTick s =
     armStarvationWake env' cfg (checkNoWorkerStarvation env cfg
       (sweepStuckJobs env cfg (checkTimeouts env cfg s)))"
| "run_event env env' cfg StarvationWake s =
     armStarvationWake env' cfg (checkNoWorkerStarvation env cfg (s\<lparr>s_timer := None\<rparr>))"

end
