(* ===== verification/JobHandlers.thy ===== *)
theory JobHandlers
  imports Access RateLimit WsHub StateTable ThroughputScale Scheduler
begin

section \<open>The job endpoints (pkg/server/handlers/jobs.go)\<close>

text \<open>
  A handler is a function from the request to a reply and the new server state: the database, the per-client counter
  that its terminal hook feeds, the calls made to the hub, in order, and the reschedule flag. The database calls of a handler
  have labels; the environment gives each its driver outcome and instant. Routing, request bodies and response
  encoding are the library's: a body that does not decode is \<open>None\<close>, and a reply is its status and payload.
\<close>

subsection \<open>Server state\<close>

text \<open>Calls to the hub, by its \<^verbatim>\<open>Broadcast\<close> wrappers.\<close>

datatype hub_call =
    BroadcastStderr string string
  | BroadcastStdout string string
  | BroadcastStatus string job_status int string
  | BroadcastProgress string rat int int rat int
  | BroadcastComplete string int
  | ReleaseStream string

text \<open>The message each wrapper builds (releasing builds none).\<close>

definition hub_message :: "time \<Rightarrow> hub_call \<Rightarrow> ws_message option" where
  "hub_message now c =
     (case c of
        BroadcastStderr j chunk \<Rightarrow> Some (NewStderrMessage now j chunk)
      | BroadcastStdout j chunk \<Rightarrow> Some (NewStdoutMessage now j chunk)
      | BroadcastStatus j st ec e \<Rightarrow> Some (NewStatusMessage now j st ec e)
      | BroadcastProgress j p t d sp eta \<Rightarrow> Some (NewProgressMessage now j p t d sp eta)
      | BroadcastComplete j ec \<Rightarrow> Some (NewCompleteMessage now j ec)
      | ReleaseStream j \<Rightarrow> None)"

record api =
  a_db :: database
  a_counter :: counter
  a_hub :: "hub_call list"
  a_table :: "state_table option"
  a_scaler :: "scaler option"
  a_resched :: bool

record api_config =
  heartbeatTimeout :: duration
  maxJobsPerWorker :: int
  noWorkerJobTimeout :: duration
  timeoutCheckInterval :: duration
  has_scheduler :: bool

datatype api_call =
    SubmitEncoderScan string
  | SubmitAllScan
  | SubmitHasScan string
  | SubmitLiveScan
  | SubmitInsert
  | SubmitRead
  | JobRead
  | CancelWrite
  | CancelRead
  | UpdateWrite
  | UpdateRead
  | UpdateIdle
  | ProgressWrite
  | ProgressRead
  | RetryRead nat
  | WorkerRead
  | HeartbeatWrite
  | HeartbeatRead
  | ScaleRead
  | SampleClock
  | ActiveJobRead string
  | PullTx
  | PullName
  | PullTarget string
  | RegisterRead
  | RegisterTx
  | RegisterReadBack

record api_env =
  ae_ok :: "api_call \<Rightarrow> bool"
  ae_now :: "api_call \<Rightarrow> time"
  ae_uid :: string
  ae_uuid_parse :: "string \<Rightarrow> string option"  \<comment> \<open>\<open>uuid.Parse\<close>\<close>
  ae_touch :: "string \<Rightarrow> bool option"  \<comment> \<open>\<open>Storage.TouchFile\<close>; \<open>None\<close> is an error\<close>
  ae_marshal :: "string list \<Rightarrow> string"  \<comment> \<open>the JSON text of a list of strings\<close>
  ae_unmarshal :: "string \<Rightarrow> string list"
  ae_busy :: bool  \<comment> \<open>a failed insert is a write conflict\<close>

text \<open>
  A database call. The terminal hook runs inside it, once per notified job: it releases the job's slot
  (\<^verbatim>\<open>bindQuotaRelease\<close>).
\<close>

definition ended_since :: "database \<Rightarrow> database \<Rightarrow> string list" where
  "ended_since d d' = drop (length (terminal_log d)) (terminal_log d')"

definition release_ended :: "string list \<Rightarrow> counter \<Rightarrow> counter" where
  "release_ended ids c = fold (\<lambda>jobID c. snd (DecrementByJob jobID c)) ids c"

definition db_call :: "(database \<Rightarrow> 'r \<times> database) \<Rightarrow> api \<Rightarrow> 'r \<times> api" where
  "db_call op s =
     (case op (a_db s) of
        (r, d) \<Rightarrow> (r, s\<lparr>a_db := d, a_counter := release_ended (ended_since (a_db s) d) (a_counter s)\<rparr>))"

definition to_hub :: "hub_call list \<Rightarrow> api \<Rightarrow> api" where
  "to_hub cs s = s\<lparr>a_hub := a_hub s @ cs\<rparr>"

definition wake_scheduler :: "api_config \<Rightarrow> api \<Rightarrow> api" where
  "wake_scheduler cfg s = (if has_scheduler cfg then s\<lparr>a_resched := True\<rparr> else s)"

subsection \<open>Replies\<close>

datatype error_code =
    ErrCodeInvalidRequest | ErrCodeUnauthorized | ErrCodeNotFound | ErrCodeConflict | ErrCodeSubmitConflict
  | ErrCodeWorkerEvicted | ErrCodeInternalError | ErrCodeWorkerUnavailable | ErrCodeJobFailed | ErrCodeUploadFailed
  | ErrCodeDownloadFailed | ErrCodeInsufficientStorage | ErrCodeRateLimitExceeded | ErrCodeUpgradeRequired

datatype 'a reply = Success 'a | Failure int error_code

text \<open>A failed insert: a write conflict may be retried.\<close>

definition writeCreateJobError :: "api_env \<Rightarrow> 'a reply" where
  "writeCreateJobError env = (if ae_busy env then Failure 429 ErrCodeSubmitConflict else Failure 500 ErrCodeInternalError)"

definition lookup_failure :: "db_error \<Rightarrow> 'a reply" where
  "lookup_failure e =
     (if e = ErrJobNotFound \<or> e = ErrWorkerNotFound then Failure 404 ErrCodeNotFound else Failure 500 ErrCodeInternalError)"

subsection \<open>SubmitJob\<close>

record submit_request =
  rq_input_files :: "string list"
  rq_direct_path :: "string list"
  rq_args :: "string list"
  rq_output_filename :: string
  rq_streaming_output :: bool
  rq_timeout :: "duration option"
  rq_auto_hw :: bool

datatype submit_result = Submitted string | SubmittedFailed string

definition output_traversal :: "submit_request \<Rightarrow> bool" where
  "output_traversal req \<longleftrightarrow> rq_direct_path req \<noteq> [] \<and> rq_output_filename req \<noteq> ''-'' \<and>
     \<not> IsRemoteURL (rq_output_filename req) \<and> ContainsPathTraversal (rq_output_filename req)"

text \<open>The uploaded inputs of a submission without direct paths; names with a scheme are not uploads.\<close>

fun touch_inputs :: "(string \<Rightarrow> bool option) \<Rightarrow> string list \<Rightarrow> bool" where
  "touch_inputs touch [] = True"
| "touch_inputs touch (fileID # ids) =
     (if Contains fileID ''://'' then touch_inputs touch ids
      else if touch fileID = Some True then touch_inputs touch ids else False)"

definition spec_of :: "api_env \<Rightarrow> submit_request \<Rightarrow> job_spec" where
  "spec_of env req =
     \<lparr>js_input_files = ae_marshal env (rq_input_files req), js_args = Some (rq_args req),
      js_output_filename = rq_output_filename req, js_auto_hw = rq_auto_hw req,
      js_streaming_output = rq_streaming_output req, js_timeout = rq_timeout req,
      js_direct_paths = (if rq_direct_path req \<noteq> [] then ae_marshal env (rq_direct_path req) else ''[]'')\<rparr>"

definition live_with_encoder :: "api_config \<Rightarrow> api_env \<Rightarrow> string \<Rightarrow> database \<Rightarrow> worker_row list option" where
  "live_with_encoder cfg env enc d =
     GetLiveSchedulableWorkersByEncoder (ae_ok env (SubmitEncoderScan enc)) (ae_now env (SubmitEncoderScan enc)) enc
       (heartbeatTimeout cfg) d"

definition has_live_encoder :: "api_config \<Rightarrow> api_env \<Rightarrow> database \<Rightarrow> string \<Rightarrow> bool" where
  "has_live_encoder cfg env d enc \<longleftrightarrow>
     (case live_with_encoder cfg env enc d of None \<Rightarrow> False | Some ws \<Rightarrow> ws \<noteq> [])"

text \<open>\<open>has\<close> of the verdict: \<open>None\<close> is a failed query.\<close>

definition has_encoder :: "api_env \<Rightarrow> database \<Rightarrow> string \<Rightarrow> bool option" where
  "has_encoder env d enc =
     map_option (\<lambda>ws. ws \<noteq> [])
       (GetSchedulableWorkersByEncoder (ae_ok env (SubmitHasScan enc)) (ae_now env (SubmitHasScan enc)) enc d)"

fun none_has_encoder :: "api_env \<Rightarrow> database \<Rightarrow> string \<Rightarrow> string list \<Rightarrow> bool" where
  "none_has_encoder env d requestedEncoder [] = True"
| "none_has_encoder env d requestedEncoder (enc # encs) =
     (if enc = requestedEncoder then none_has_encoder env d requestedEncoder encs
      else if has_encoder env d enc = Some False then none_has_encoder env d requestedEncoder encs else False)"

definition failAsEncoderUnavailable :: "api_env \<Rightarrow> string \<Rightarrow> string list \<Rightarrow> database \<Rightarrow> bool" where
  "failAsEncoderUnavailable env requestedEncoder compatibleEncoders d =
     (case GetSchedulableWorkers (ae_ok env SubmitAllScan) d of
        None \<Rightarrow> False
      | Some [] \<Rightarrow> False
      | Some ws \<Rightarrow> has_encoder env d requestedEncoder = Some False \<and>
                   none_has_encoder env d requestedEncoder compatibleEncoders)"

definition encoder_errMsg :: "string \<Rightarrow> string" where
  "encoder_errMsg requestedEncoder =
     ''No worker available with encoder: '' @ requestedEncoder @ '' (or compatible encoders)''"

text \<open>The label \<^verbatim>\<open>jobCreate\<close>.\<close>

definition jobCreate ::
  "api_config \<Rightarrow> api_env \<Rightarrow> string \<Rightarrow> submit_request \<Rightarrow> api \<Rightarrow> submit_result reply \<times> api" where
  "jobCreate cfg env clientID req s =
     (if GetLiveSchedulableWorkers (ae_ok env SubmitLiveScan) (ae_now env SubmitLiveScan) (heartbeatTimeout cfg) (a_db s) = Some []
      then (Failure 503 ErrCodeWorkerUnavailable, s)
      else case db_call (CreateJobWithStreaming (ae_ok env SubmitInsert) (ae_ok env SubmitRead) (ae_uid env)
                           (ae_now env SubmitInsert) (spec_of env req)) s of
             (Inl e, s) \<Rightarrow> (writeCreateJobError env, s)
           | (Inr job, s) \<Rightarrow>
               (let s = (if clientID \<noteq> [] then s\<lparr>a_counter := RegisterJob clientID (j_id job) (a_counter s)\<rparr> else s)
                in (Success (Submitted (j_id job)), wake_scheduler cfg s)))"

definition rejectEncoder ::
  "api_config \<Rightarrow> api_env \<Rightarrow> string \<Rightarrow> submit_request \<Rightarrow> string \<Rightarrow> api \<Rightarrow> submit_result reply \<times> api" where
  "rejectEncoder cfg env clientID req requestedEncoder s =
     (if \<not> failAsEncoderUnavailable env requestedEncoder (GetCompatibleEncoders requestedEncoder) (a_db s)
      then (Failure 503 ErrCodeWorkerUnavailable, s)
      else case db_call (CreateFailedJob (ae_ok env SubmitInsert) (ae_ok env SubmitRead) (ae_uid env)
                           (ae_now env SubmitInsert) (spec_of env req) FailureEncoderUnavailable
                           (encoder_errMsg requestedEncoder)) s of
             (Inl e, s) \<Rightarrow> (writeCreateJobError env, s)
           | (Inr job, s) \<Rightarrow>
               (let s = (if clientID \<noteq> [] then s\<lparr>a_counter := snd (Decrement clientID (a_counter s))\<rparr> else s)
                in (Success (SubmittedFailed (j_id job)), s)))"

text \<open>\<open>client\<close> is the outcome of the token check, \<open>body\<close> the decoded request.\<close>

definition SubmitJob ::
  "api_config \<Rightarrow> api_env \<Rightarrow> string option \<Rightarrow> submit_request option \<Rightarrow> api \<Rightarrow> submit_result reply \<times> api" where
  "SubmitJob cfg env client body s =
     (case client of
        None \<Rightarrow> (Failure 401 ErrCodeUnauthorized, s)
      | Some clientID \<Rightarrow>
     (case body of
        None \<Rightarrow> (Failure 400 ErrCodeInvalidRequest, s)
      | Some req \<Rightarrow>
          if rq_input_files req = [] \<or> rq_args req = [] then (Failure 400 ErrCodeInvalidRequest, s)
          else if list_ex ContainsPathTraversal (rq_direct_path req) then (Failure 400 ErrCodeInvalidRequest, s)
          else if output_traversal req then (Failure 400 ErrCodeInvalidRequest, s)
          else if rq_direct_path req = [] \<and> \<not> touch_inputs (ae_touch env) (rq_input_files req)
          then (Failure 400 ErrCodeNotFound, s)
          else (let requestedEncoder = ExtractEncoderFromArgs (Some (rq_args req)) in
                if requestedEncoder = [] \<or> has_live_encoder cfg env (a_db s) requestedEncoder \<or>
                   list_ex (\<lambda>enc. enc \<noteq> requestedEncoder \<and> has_live_encoder cfg env (a_db s) enc)
                     (GetCompatibleEncoders requestedEncoder)
                then jobCreate cfg env clientID req s
                else rejectEncoder cfg env clientID req requestedEncoder s)))"

subsection \<open>CancelJob\<close>

definition api_CancelJob :: "api_env \<Rightarrow> string \<Rightarrow> api \<Rightarrow> unit reply \<times> api" where
  "api_CancelJob env jobID s =
     (case GetJob (ae_ok env JobRead) jobID (a_db s) of
        Inl e \<Rightarrow> (lookup_failure e, s)
      | Inr job \<Rightarrow>
          (case db_call (CancelJob (ae_ok env CancelWrite) (ae_ok env CancelRead) (ae_now env CancelWrite) jobID) s of
             (Inl e, s) \<Rightarrow>
               (if e = ErrJobNotFound then Failure 404 ErrCodeNotFound else Failure 400 ErrCodeInvalidRequest, s)
           | (Inr u, s) \<Rightarrow>
               (Success (),
                to_hub ([BroadcastStatus jobID JobStatusCancelled 0 ''Job cancelled''] @
                        (if j_status job = JobStatusRunning then [BroadcastComplete jobID 0] else []) @
                        [ReleaseStream jobID]) s)))"

subsection \<open>UpdateJob\<close>

record update_request =
  ur_worker_id :: string
  ur_status :: string
  ur_exit_code :: int
  ur_error :: string
  ur_failure_type :: string
  ur_failure_details :: string
  ur_cached :: bool
  ur_stderr_chunk :: string
  ur_stdout_chunk :: string
  ur_progress :: rat
  ur_eta_seconds :: int
  ur_time_us :: int
  ur_duration_us :: int
  ur_speed :: rat

definition ur_exit :: "update_request \<Rightarrow> int option" where
  "ur_exit req = (if ur_exit_code req \<noteq> 0 then Some (ur_exit_code req) else None)"

definition ur_errMsg :: "update_request \<Rightarrow> string option" where
  "ur_errMsg req = (if ur_error req \<noteq> [] then Some (ur_error req) else None)"

text \<open>The verdict columns of a report: a completed job clears them, an absent one keeps them.\<close>

definition ur_failure :: "update_request \<Rightarrow> job_status \<Rightarrow> string option \<times> string option" where
  "ur_failure req status =
     (if status = JobStatusCompleted then (Some [], Some [])
      else (if ur_failure_type req \<noteq> [] then Some (ur_failure_type req) else None,
            if ur_failure_details req \<noteq> [] then Some (ur_failure_details req) else None))"

text \<open>\<open>owns\<close>: the pre-check on the row that was read.\<close>

definition reporter_owns :: "api_env \<Rightarrow> string \<Rightarrow> job_row \<Rightarrow> bool" where
  "reporter_owns env workerID job \<longleftrightarrow>
     (case j_worker_id job of None \<Rightarrow> False | Some w \<Rightarrow> NormalizeWorkerID (ae_uuid_parse env) w = workerID) \<and> active job"

definition write_status :: "api_env \<Rightarrow> string \<Rightarrow> string \<Rightarrow> update_request \<Rightarrow> job_status \<Rightarrow> api \<Rightarrow> (db_error + unit) \<times> api" where
  "write_status env jobID workerID req status s =
     (case ur_failure req status of
        (failureType, failureDetails) \<Rightarrow>
          if IsTerminalStatus status
          then db_call (UpdateJobTerminalStatusWithOwnerAndCache (ae_ok env UpdateWrite) (ae_now env UpdateWrite) jobID workerID
                          status (ur_exit req) (ur_errMsg req) failureType failureDetails (ur_cached req)) s
          else db_call (UpdateJobRunningStatusWithOwner (ae_ok env UpdateWrite) (ae_now env UpdateWrite) jobID workerID
                          (ur_exit req) (ur_errMsg req) failureType failureDetails) s)"

definition write_failure :: "db_error \<Rightarrow> 'a reply" where
  "write_failure e =
     (case e of
        ErrJobNotFound \<Rightarrow> Failure 404 ErrCodeNotFound
      | ErrJobTerminal st \<Rightarrow> Failure 409 ErrCodeConflict
      | ErrJobNotOwned \<Rightarrow> Failure 409 ErrCodeConflict
      | _ \<Rightarrow> Failure 500 ErrCodeInternalError)"

text \<open>After a terminal report the worker goes idle when it has nothing else, and the scheduler is woken.\<close>

definition settle_worker :: "api_config \<Rightarrow> api_env \<Rightarrow> string \<Rightarrow> api \<Rightarrow> api" where
  "settle_worker cfg env jobID s =
     (case GetJob (ae_ok env UpdateRead) jobID (a_db s) of
        Inl e \<Rightarrow> s
      | Inr job \<Rightarrow>
          (case j_worker_id job of
             None \<Rightarrow> s
           | Some w \<Rightarrow>
               (case db_call (SetWorkerIdleIfNoActiveJobs (ae_ok env UpdateIdle) (ae_now env UpdateIdle) w) s of
                  (Inl e, s) \<Rightarrow> s
                | (Inr u, s) \<Rightarrow> wake_scheduler cfg s)))"

text \<open>The part of the report that carries a status.\<close>

definition report_status ::
  "api_config \<Rightarrow> api_env \<Rightarrow> string \<Rightarrow> string \<Rightarrow> update_request \<Rightarrow> job_status option \<Rightarrow> api \<Rightarrow> unit reply option \<times> api" where
  "report_status cfg env jobID workerID req status s =
     (case status of
        None \<Rightarrow> (None, s)
      | Some status \<Rightarrow>
          if ur_failure_type req \<noteq> [] \<and> \<not> FailureType_IsValid (ur_failure_type req)
          then (Some (Failure 400 ErrCodeInvalidRequest), s)
          else (case write_status env jobID workerID req status s of
                  (Inl e, s) \<Rightarrow> (Some (write_failure e), s)
                | (Inr u, s) \<Rightarrow> (None, if IsTerminalStatus status then settle_worker cfg env jobID s else s)))"

text \<open>Output and progress, then the status frames; a progress write that finds the job gone stops the handler.\<close>

definition output_calls :: "string \<Rightarrow> update_request \<Rightarrow> hub_call list" where
  "output_calls jobID req =
     (if ur_stderr_chunk req \<noteq> [] then [BroadcastStderr jobID (ur_stderr_chunk req)] else []) @
     (if ur_stdout_chunk req \<noteq> [] then [BroadcastStdout jobID (ur_stdout_chunk req)] else [])"

definition report_progress ::
  "api_env \<Rightarrow> string \<Rightarrow> string \<Rightarrow> update_request \<Rightarrow> api \<Rightarrow> unit reply option \<times> api" where
  "report_progress env jobID workerID req s =
     (if ur_progress req > 0 \<or> ur_eta_seconds req > 0
      then (let frame = [BroadcastProgress jobID (ur_progress req) (ur_time_us req) (ur_duration_us req) (ur_speed req)
                           (ur_eta_seconds req)]
            in case db_call (UpdateJobProgressWithOwner (ae_uuid_parse env) (ae_ok env ProgressWrite) (ae_ok env ProgressRead)
                               (ae_now env ProgressWrite) jobID workerID (ur_progress req) (ur_eta_seconds req)) s of
                 (Inl ErrJobNotOwned, s) \<Rightarrow> (Some (Failure 409 ErrCodeConflict), s)
               | (Inl ErrJobNotFound, s) \<Rightarrow> (Some (Failure 404 ErrCodeNotFound), s)
               | (Inl e, s) \<Rightarrow> (None, to_hub frame s)
               | (Inr accepted, s) \<Rightarrow> (None, if accepted then to_hub frame s else s))
      else (None, s))"

definition status_calls :: "string \<Rightarrow> update_request \<Rightarrow> job_status option \<Rightarrow> hub_call list" where
  "status_calls jobID req status =
     (case status of
        None \<Rightarrow> []
      | Some status \<Rightarrow>
          [BroadcastStatus jobID status (ur_exit_code req) (ur_error req)] @
          (if IsTerminalStatus status then [BroadcastComplete jobID (ur_exit_code req)] else []))"

definition UpdateJob ::
  "api_config \<Rightarrow> api_env \<Rightarrow> string \<Rightarrow> update_request option \<Rightarrow> api \<Rightarrow> unit reply \<times> api" where
  "UpdateJob cfg env jobID body s =
     (case body of
        None \<Rightarrow> (Failure 400 ErrCodeInvalidRequest, s)
      | Some req \<Rightarrow>
          (let workerID = NormalizeWorkerID (ae_uuid_parse env) (ur_worker_id req);
               status = ParseJobStatus (ur_status req)
           in if workerID = [] then (Failure 400 ErrCodeInvalidRequest, s)
              else if ur_status req \<noteq> [] \<and>
                \<not> (case status of None \<Rightarrow> False | Some st \<Rightarrow> IsTerminalStatus st \<or> st = JobStatusRunning)
              then (Failure 400 ErrCodeInvalidRequest, s)
              else (case GetJob (ae_ok env JobRead) jobID (a_db s) of
                      Inl e \<Rightarrow> (lookup_failure e, s)
                    | Inr job \<Rightarrow>
                        if \<not> reporter_owns env workerID job then (Failure 409 ErrCodeConflict, s)
                        else (case report_status cfg env jobID workerID req status s of
                                (Some r, s) \<Rightarrow> (r, s)
                              | (None, s) \<Rightarrow>
                                  (case report_progress env jobID workerID req (to_hub (output_calls jobID req) s) of
                                     (Some r, s) \<Rightarrow> (r, s)
                                   | (None, s) \<Rightarrow> (Success (), to_hub (status_calls jobID req status) s))))))"

subsection \<open>Queries\<close>

definition hasNoLiveSchedulableWorker :: "api_config \<Rightarrow> api_env \<Rightarrow> database \<Rightarrow> bool" where
  "hasNoLiveSchedulableWorker cfg env d \<longleftrightarrow> noWorkerJobTimeout cfg > 0 \<and>
     GetLiveSchedulableWorkers (ae_ok env SubmitLiveScan) (ae_now env SubmitLiveScan) (heartbeatTimeout cfg) d = Some []"

text \<open>One retry; \<open>None\<close> where both reads fail.\<close>

definition jobRetryCounts :: "api_env \<Rightarrow> string list \<Rightarrow> database \<Rightarrow> (string \<rightharpoonup> nat) option" where
  "jobRetryCounts env jobIDs d =
     (case GetJobRetryCounts (ae_ok env (RetryRead 1)) jobIDs d of
        Inr m \<Rightarrow> Some m
      | Inl e \<Rightarrow>
          (case GetJobRetryCounts (ae_ok env (RetryRead 2)) jobIDs d of Inr m \<Rightarrow> Some m | Inl e \<Rightarrow> None))"

record job_info =
  jo_id :: string
  jo_status :: job_status
  jo_input_files :: "string list"
  jo_args :: "string list"
  jo_output_filename :: string
  jo_streaming_output :: bool
  jo_output_files :: "string list"
  jo_worker_id :: string
  jo_assigned_worker :: string
  jo_worker_name :: string
  jo_exit_code :: int
  jo_error :: string
  jo_auto_hw :: bool
  jo_cached :: bool
  jo_failure_type :: string
  jo_failure_details :: string
  jo_retryable :: bool
  jo_retry_count :: nat
  jo_direct_paths :: "string list"
  jo_progress_percent :: rat
  jo_eta_seconds :: int
  jo_timeout :: "duration option"
  jo_created_at :: time
  jo_updated_at :: time
  jo_claimed_at :: "time option"
  jo_started_at :: "time option"
  jo_finished_at :: "time option"
  jo_no_worker_deadline :: "time option"

definition dbJobToJobInfo :: "api_config \<Rightarrow> api_env \<Rightarrow> bool \<Rightarrow> (string \<rightharpoonup> nat) option \<Rightarrow> job_row \<Rightarrow> job_info" where
  "dbJobToJobInfo cfg env noLiveWorker retryCounts job =
     \<lparr>jo_id = j_id job, jo_status = j_status job, jo_input_files = ae_unmarshal env (j_input_files job),
      jo_args = coalesce (j_args job) [], jo_output_filename = j_output_filename job,
      jo_streaming_output = j_streaming_output job, jo_output_files = ae_unmarshal env (j_output_files job),
      jo_worker_id = coalesce (j_worker_id job) [], jo_assigned_worker = coalesce (j_assigned_worker job) [],
      jo_worker_name = coalesce (j_worker_name job) [], jo_exit_code = coalesce (j_exit_code job) 0,
      jo_error = coalesce (j_error job) [], jo_auto_hw = j_auto_hw job, jo_cached = j_cached job,
      jo_failure_type = j_failure_type job, jo_failure_details = j_failure_details job,
      jo_retryable = FailureType_Retryable (j_failure_type job),
      jo_retry_count = (case retryCounts of None \<Rightarrow> 0 | Some m \<Rightarrow> coalesce (m (j_id job)) 0),
      jo_direct_paths = ae_unmarshal env (j_direct_paths job), jo_progress_percent = j_progress_percent job,
      jo_eta_seconds = j_eta_seconds job, jo_timeout = j_timeout job, jo_created_at = j_created_at job,
      jo_updated_at = j_updated_at job, jo_claimed_at = j_claimed_at job, jo_started_at = j_started_at job,
      jo_finished_at = j_finished_at job,
      jo_no_worker_deadline =
        (if j_status job = JobStatusPending \<and> noWorkerJobTimeout cfg > 0 \<and> noLiveWorker
         then Some (j_created_at job + (noWorkerJobTimeout cfg + timeoutCheckInterval cfg)) else None)\<rparr>"

definition api_GetJob :: "api_config \<Rightarrow> api_env \<Rightarrow> string \<Rightarrow> api \<Rightarrow> job_info reply" where
  "api_GetJob cfg env jobID s =
     (case GetJob (ae_ok env JobRead) jobID (a_db s) of
        Inl e \<Rightarrow> lookup_failure e
      | Inr job \<Rightarrow>
          (let noLiveWorker = (j_status job = JobStatusPending \<and> hasNoLiveSchedulableWorker cfg env (a_db s))
           in Success (dbJobToJobInfo cfg env noLiveWorker (jobRetryCounts env [j_id job] (a_db s)) job)))"

text \<open>\<open>atoi\<close> is \<^verbatim>\<open>strconv.Atoi\<close>; an absent parameter is empty.\<close>

definition parsePagination :: "(string \<Rightarrow> int option) \<Rightarrow> string \<Rightarrow> string \<Rightarrow> int \<Rightarrow> int \<Rightarrow> int \<times> int" where
  "parsePagination atoi limitParam offsetParam defaultLimit maxLimit =
     (let limit = (case atoi limitParam of Some n \<Rightarrow> (if limitParam \<noteq> [] \<and> n > 0 then n else defaultLimit) | None \<Rightarrow> defaultLimit);
          limit = (if limit > maxLimit then maxLimit else limit);
          offset = (case atoi offsetParam of Some n \<Rightarrow> (if offsetParam \<noteq> [] \<and> n > 0 then n else 0) | None \<Rightarrow> 0)
      in (limit, offset))"

definition api_ListJobs ::
  "api_config \<Rightarrow> api_env \<Rightarrow> (string \<Rightarrow> int option) \<Rightarrow> string \<Rightarrow> string \<Rightarrow> api \<Rightarrow> job_info list reply" where
  "api_ListJobs cfg env atoi limitParam offsetParam s =
     (case parsePagination atoi limitParam offsetParam 50 500 of
        (limit, offset) \<Rightarrow>
          (case ListJobs (ae_ok env JobRead) (nat limit) (nat offset) (a_db s) of
             Inl e \<Rightarrow> Failure 500 ErrCodeInternalError
           | Inr js \<Rightarrow>
               (let noLiveWorker = hasNoLiveSchedulableWorker cfg env (a_db s);
                    retryCounts = jobRetryCounts env (map j_id js) (a_db s)
                in Success (map (dbJobToJobInfo cfg env noLiveWorker retryCounts) js))))"

end
