(* ===== verification/WorkerHandlers.thy ===== *)
theory WorkerHandlers
  imports JobHandlers
begin

section \<open>The worker and administration endpoints (pkg/server/handlers/workers.go, admin.go)\<close>

subsection \<open>Registration\<close>

definition hwEncoderSuffixes :: "string list" where
  "hwEncoderSuffixes = [''_nvenc'', ''_qsv'', ''_vaapi'', ''_amf'', ''_videotoolbox'', ''_cuvid'', ''_vdpau'', ''_nvdec'']"

definition isHWEncoder :: "string \<Rightarrow> bool" where
  "isHWEncoder name \<longleftrightarrow> list_ex (HasSuffix name) hwEncoderSuffixes"

text \<open>Missing detail lists are filled from the name lists.\<close>

definition complete_caps :: "worker_capabilities \<Rightarrow> worker_capabilities" where
  "complete_caps caps =
     caps\<lparr>wc_video_encoders := (if wc_video_encoders caps = []
            then map (\<lambda>n. \<lparr>ei_name = n, ei_description = [], ei_type = ''video'', ei_is_hw = isHWEncoder n, ei_priority = 0\<rparr>) (wc_encoders caps)
            else wc_video_encoders caps),
          wc_video_decoders := (if wc_video_decoders caps = []
            then map (\<lambda>n. \<lparr>di_name = n, di_description = [], di_type = ''video'', di_is_hw = isHWEncoder n\<rparr>) (wc_decoders caps)
            else wc_video_decoders caps)\<rparr>"

definition RegisterWorker ::
  "api_config \<Rightarrow> api_env \<Rightarrow> (string \<times> string \<times> worker_capabilities) option \<Rightarrow> api \<Rightarrow> string reply \<times> api" where
  "RegisterWorker cfg env body s =
     (case body of
        None \<Rightarrow> (Failure 400 ErrCodeInvalidRequest, s)
      | Some (workerID, name, caps) \<Rightarrow>
          if name = [] then (Failure 400 ErrCodeInvalidRequest, s)
          else if wc_encoders caps = [] \<or> wc_ffmpeg_version caps = [] then (Failure 400 ErrCodeInvalidRequest, s)
          else (case db_call (CreateOrUpdateWorker (ae_uuid_parse env) (ae_ok env RegisterRead) (ae_ok env RegisterTx)
                                (ae_ok env RegisterReadBack) (ae_uid env) (ae_now env RegisterTx) workerID name
                                (complete_caps caps) (heartbeatTimeout cfg)) s of
                  (Inl e, s) \<Rightarrow> (Failure 500 ErrCodeInternalError, s)
                | (Inr worker, s) \<Rightarrow> (Success (w_id worker), s)))"

subsection \<open>Heartbeats\<close>

record heartbeat_request =
  hr_worker_id :: string
  hr_status :: worker_status
  hr_active_jobs :: "string list"
  hr_jobs_per_sec :: rat
  hr_completed_jobs :: int
  hr_gpu_util_pct :: rat
  hr_gpu_mem_used_mb :: int
  hr_gpu_metrics_valid :: bool

text \<open>The listed jobs the worker must stop.\<close>

definition recalled :: "api_env \<Rightarrow> string \<Rightarrow> database \<Rightarrow> string \<Rightarrow> bool" where
  "recalled env workerID d jobID \<longleftrightarrow>
     (case GetJob (ae_ok env (ActiveJobRead jobID)) jobID d of
        Inl e \<Rightarrow> False
      | Inr job \<Rightarrow> j_status job = JobStatusCancelled \<or> j_status job = JobStatusPending \<or>
          (case j_worker_id job of None \<Rightarrow> False | Some w \<Rightarrow> w \<noteq> NormalizeWorkerID (ae_uuid_parse env) workerID))"

text \<open>The memory table takes the sample, scaled where fault injection asks for it.\<close>

definition record_sample :: "api_env \<Rightarrow> heartbeat_request \<Rightarrow> api \<Rightarrow> api" where
  "record_sample env req s =
     (case a_table s of
        None \<Rightarrow> s
      | Some t \<Rightarrow>
          (let (jobsPerSec, scaler) =
             (case a_scaler s of
                Some rules \<Rightarrow>
                  if scaler_Enabled (Some rules)
                  then (let workerName = (case GetWorker (ae_uuid_parse env) (ae_ok env ScaleRead) (hr_worker_id req) (a_db s) of
                                            Inr w \<Rightarrow> w_name w | Inl e \<Rightarrow> []);
                            (v, rules) = Scale (ae_now env ScaleRead) (hr_worker_id req) workerName (hr_jobs_per_sec req) rules
                        in (v, Some rules))
                  else (hr_jobs_per_sec req, Some rules)
              | None \<Rightarrow> (hr_jobs_per_sec req, None))
           in s\<lparr>a_scaler := scaler,
                a_table := Some (UpdateFromHeartbeat (ae_uuid_parse env)
                  \<lparr>hb_worker_id = hr_worker_id req, hb_status = worker_status_string (hr_status req),
                   hb_gpu_util_pct = hr_gpu_util_pct req, hb_gpu_mem_used_mb = hr_gpu_mem_used_mb req,
                   hb_gpu_metrics_valid = hr_gpu_metrics_valid req, hb_active_jobs = hr_active_jobs req,
                   hb_jobs_per_sec = jobsPerSec, hb_queue_depth = 0, hb_completed_jobs = hr_completed_jobs req,
                   hb_timestamp = ae_now env SampleClock\<rparr> t)\<rparr>))"

definition WorkerHeartbeat :: "api_env \<Rightarrow> heartbeat_request option \<Rightarrow> api \<Rightarrow> string list reply \<times> api" where
  "WorkerHeartbeat env body s =
     (case body of
        None \<Rightarrow> (Failure 400 ErrCodeInvalidRequest, s)
      | Some req \<Rightarrow>
          (case db_call (UpdateWorkerHeartbeat (ae_uuid_parse env) (ae_ok env HeartbeatWrite) (ae_now env HeartbeatWrite)
                           (hr_worker_id req) (hr_status req)) s of
             (Inl e, s) \<Rightarrow>
               (if e = ErrWorkerNotFound
                then (case GetWorker (ae_uuid_parse env) (ae_ok env HeartbeatRead) (hr_worker_id req) (a_db s) of
                        Inr w \<Rightarrow> (if w_evicted w then Failure 409 ErrCodeWorkerEvicted else Failure 404 ErrCodeNotFound)
                      | Inl e \<Rightarrow> Failure 404 ErrCodeNotFound)
                else Failure 500 ErrCodeInternalError, s)
           | (Inr u, s) \<Rightarrow>
               (let s = record_sample env req s
                in (Success (filter (recalled env (hr_worker_id req) (a_db s)) (hr_active_jobs req)), s))))"

subsection \<open>Pulls\<close>

definition PullWorkerJobs :: "api_config \<Rightarrow> api_env \<Rightarrow> string \<Rightarrow> api \<Rightarrow> job_info list reply \<times> api" where
  "PullWorkerJobs cfg env workerID s =
     (case GetWorker (ae_uuid_parse env) (ae_ok env WorkerRead) workerID (a_db s) of
        Inl e \<Rightarrow> (lookup_failure e, s)
      | Inr worker \<Rightarrow>
          if w_evicted worker then (Failure 409 ErrCodeWorkerEvicted, s)
          else if w_status worker = WorkerStatusOffline then (Failure 409 ErrCodeConflict, s)
          else (let maxConcurrent = (if w_max_concurrent worker \<le> 0 then maxJobsPerWorker cfg else w_max_concurrent worker)
                in case db_call (AssignPendingJobsToWorker (ae_uuid_parse env) (ae_ok env PullName) (ae_ok env PullTx)
                                   (\<lambda>j. ae_ok env (PullTarget j)) (ae_now env PullTx) workerID maxConcurrent) s of
                     (Inl e, s) \<Rightarrow> (Failure 500 ErrCodeInternalError, s)
                   | (Inr js, s) \<Rightarrow>
                       (Success (map (dbJobToJobInfo cfg env False (jobRetryCounts env (map j_id js) (a_db s))) js), s)))"

subsection \<open>Administration\<close>

definition UpdateConfig :: "(bool option \<times> int option) option \<Rightarrow> runtime_config \<Rightarrow> (bool \<times> int) reply \<times> runtime_config" where
  "UpdateConfig body c =
     (case body of
        None \<Rightarrow> (Failure 400 ErrCodeInvalidRequest, c)
      | Some (enabled, limit) \<Rightarrow>
          (let c = (case enabled of None \<Rightarrow> c | Some v \<Rightarrow> SetEnabled v c);
               c = (case limit of None \<Rightarrow> c | Some v \<Rightarrow> if v > 0 then SetLimit v c else c)
           in (Success (rc_enabled c, rc_limit c), c)))"

text \<open>\<open>okr\<close>, \<open>okn\<close> and \<open>okw\<close> are the outcomes of the two lookups and of the write; \<open>eid\<close> is the identifier of the audit row.\<close>

definition ClearEvictionEndpoint ::
  "api_env \<Rightarrow> bool \<Rightarrow> bool \<Rightarrow> bool \<Rightarrow> string \<Rightarrow> time \<Rightarrow> string option \<Rightarrow> api \<Rightarrow> (string \<times> bool) reply \<times> api" where
  "ClearEvictionEndpoint env okr okn okw eid now body s =
     (case body of
        None \<Rightarrow> (Failure 400 ErrCodeInvalidRequest, s)
      | Some raw \<Rightarrow>
          (let ref = TrimSpace raw in
           if ref = [] then (Failure 400 ErrCodeInvalidRequest, s)
           else case GetWorkerByReference (ae_uuid_parse env) okr okn ref (a_db s) of
                  Inl e \<Rightarrow> (lookup_failure e, s)
                | Inr worker \<Rightarrow>
                    (let clusterMedian = (case a_table s of None \<Rightarrow> 0 | Some t \<Rightarrow> ClusterMedian t);
                         throughput = (case a_table s of None \<Rightarrow> 0
                           | Some t \<Rightarrow> (case Get (ae_uuid_parse env) (w_id worker) t of None \<Rightarrow> 0 | Some st \<Rightarrow> ws_ewma_jobs_per_sec st))
                     in case db_call (ClearWorkerEviction (ae_uuid_parse env) okw eid now (w_id worker) throughput clusterMedian
                                        EvictionReasonManualClear) s of
                          (Inl e, s) \<Rightarrow> (lookup_failure e, s)
                        | (Inr cleared, s) \<Rightarrow>
                            (Success (w_id worker, cleared),
                             s\<lparr>a_table := map_option (ClearEviction (ae_uuid_parse env) (w_id worker)) (a_table s)\<rparr>))))"

end
