(* ===== verification/JobLifecycle.thy ===== *)
theory JobLifecycle
  imports MigrationStore
begin

section \<open>The life of a job: steps, invariant and refinement\<close>

text \<open>
  Every operation that writes the jobs table, as one step of a transition system: SQLite serialises
  writers, so any interleaving of handlers, scheduler, monitor and recovery is a sequence of these
  steps, with arbitrary arguments, instants and driver outcomes. The row invariant \<open>job_ok\<close> says how the columns of a
  job agree; \<open>abs_job\<close> is the abstract life of a job that the columns implement; \<open>evolves\<close> relates a
  database to any later one.
\<close>

subsection \<open>The row invariant\<close>

definition job_ok :: "job_row \<Rightarrow> bool" where
  "job_ok j \<longleftrightarrow>
     (j_status j = JobStatusPending \<longrightarrow>
        j_worker_id j = None \<and> j_claimed_at j = None \<and> j_started_at j = None) \<and>
     (active j \<longrightarrow> j_worker_id j \<noteq> None \<and> j_claimed_at j \<noteq> None \<and>
        j_assigned_worker j = j_worker_id j) \<and>
     (j_status j = JobStatusQueued \<longrightarrow> j_started_at j = None) \<and>
     (j_status j = JobStatusRunning \<longrightarrow> j_started_at j \<noteq> None) \<and>
     (IsTerminalStatus (j_status j) \<longleftrightarrow> j_finished_at j \<noteq> None) \<and>
     (j_retryable j \<longleftrightarrow> FailureType_Retryable (j_failure_type j)) \<and>
     (j_cached j \<longrightarrow> j_status j = JobStatusCompleted)"

definition db_ok :: "database \<Rightarrow> bool" where
  "db_ok d \<longleftrightarrow> distinct (map j_id (jobs d)) \<and> (\<forall>j \<in> set (jobs d). job_ok j)"

subsection \<open>The abstract life of a job\<close>

datatype abs_job = Waiting | Claimed string | Executing string | Done job_status

definition abs_of :: "job_row \<Rightarrow> abs_job" where
  "abs_of j =
     (case j_status j of
        JobStatusPending \<Rightarrow> Waiting
      | JobStatusQueued \<Rightarrow> Claimed (coalesce (j_worker_id j) [])
      | JobStatusRunning \<Rightarrow> Executing (coalesce (j_worker_id j) [])
      | s \<Rightarrow> Done s)"

inductive abs_step :: "abs_job \<Rightarrow> abs_job \<Rightarrow> bool" where
  claim: "abs_step Waiting (Claimed w)"
| start: "abs_step (Claimed w) (Executing w)"
| requeue_claimed: "abs_step (Claimed w) Waiting"
| requeue_executing: "abs_step (Executing w) Waiting"
| finish_claimed: "IsTerminalStatus s \<Longrightarrow> abs_step (Claimed w) (Done s)"
| finish_executing: "IsTerminalStatus s \<Longrightarrow> abs_step (Executing w) (Done s)"
| drop_waiting: "s = JobStatusFailed \<or> s = JobStatusCancelled \<Longrightarrow> abs_step Waiting (Done s)"

inductive_cases abs_step_DoneE: "abs_step (Done s) a"
inductive_simps abs_step_simps [simp]:
  "abs_step Waiting (Claimed w)" "abs_step (Claimed v) (Executing w)"
  "abs_step (Claimed w) Waiting" "abs_step (Executing w) Waiting"
  "abs_step (Claimed w) (Done s)" "abs_step (Executing w) (Done s)" "abs_step Waiting (Done s)"

lemma abs_steps_Done: "abs_step\<^sup>*\<^sup>* (Done s) a \<Longrightarrow> a = Done s"
  by (induction rule: rtranclp_induct) (auto elim: abs_step_DoneE)

subsection \<open>Moves of one row\<close>

definition row_move :: "job_row \<Rightarrow> job_row \<Rightarrow> bool" where
  "row_move j j' \<longleftrightarrow> j_id j' = j_id j \<and> job_ok j' \<and> \<not> IsTerminalStatus (j_status j) \<and>
     j_progress_percent j \<le> j_progress_percent j' \<and>
     (abs_of j' = abs_of j \<or> abs_step (abs_of j) (abs_of j'))"

definition row_later :: "job_row \<Rightarrow> job_row \<Rightarrow> bool" where
  "row_later j j' \<longleftrightarrow> (IsTerminalStatus (j_status j) \<longrightarrow> j' = j) \<and>
     j_progress_percent j \<le> j_progress_percent j' \<and> abs_step\<^sup>*\<^sup>* (abs_of j) (abs_of j')"

definition evolves :: "database \<Rightarrow> database \<Rightarrow> bool" where
  "evolves d d' \<longleftrightarrow>
     (\<forall>i j. find_job i d = Some j \<longrightarrow> (\<exists>j'. find_job i d' = Some j' \<and> row_later j j'))"

lemma row_later_refl: "row_later j j"
  by (simp add: row_later_def)

lemma row_later_trans: "row_later a b \<Longrightarrow> row_later b c \<Longrightarrow> row_later a c"
  by (auto simp: row_later_def)

lemma row_move_later: "row_move j j' \<Longrightarrow> row_later j j'"
  by (auto simp: row_move_def row_later_def)

lemma evolves_refl: "evolves d d"
  by (auto simp: evolves_def intro: row_later_refl)

lemma evolves_trans: "evolves d e \<Longrightarrow> evolves e f \<Longrightarrow> evolves d f"
  unfolding evolves_def by (meson row_later_trans)

text \<open>The named row updates, under the guards of their statements.\<close>

lemma owned_active_status:
  "owned_active i w j \<Longrightarrow> active j \<and> j_id j = i \<and> j_worker_id j = Some w"
  by (simp add: owned_active_def)

lemmas move_simps = row_move_def job_ok_def owned_active_def active_def abs_of_def

lemma move_terminal_report:
  "job_ok j \<Longrightarrow> owned_active i w j \<Longrightarrow> IsTerminalStatus s \<Longrightarrow> (c \<longrightarrow> s = JobStatusCompleted) \<Longrightarrow>
   row_move j (terminal_report now w n s ec em ft fd c j)"
  by (cases s; cases "j_status j") (simp_all add: move_simps terminal_report_def)

lemma move_running_report:
  "job_ok j \<Longrightarrow> owned_active i w j \<Longrightarrow> row_move j (running_report now ec em ft fd j)"
  by (cases "j_status j") (simp_all add: move_simps running_report_def)

lemma move_progress:
  "job_ok j \<Longrightarrow> owned_active i w j \<Longrightarrow> j_progress_percent j \<le> p \<Longrightarrow>
   row_move j (j\<lparr>j_progress_percent := p, j_eta_seconds := e, j_updated_at := now\<rparr>)"
  by (cases "j_status j") (simp_all add: move_simps)

lemma move_output:
  "job_ok j \<Longrightarrow> owned_active i w j \<Longrightarrow> row_move j (j\<lparr>j_output_files := fs, j_updated_at := now\<rparr>)"
  by (cases "j_status j") (simp_all add: move_simps)

lemma move_claim:
  "job_ok j \<Longrightarrow> claimable i j \<Longrightarrow> row_move j (claim_row now w n j)"
  by (simp add: move_simps claimable_def claim_row_def)

lemma move_cancel:
  "job_ok j \<Longrightarrow> cancellable j \<Longrightarrow>
   row_move j (j\<lparr>j_status := JobStatusCancelled, j_updated_at := now, j_finished_at := Some now\<rparr>)"
  by (cases "j_status j") (simp_all add: move_simps cancellable_def)

lemma move_requeue: "job_ok j \<Longrightarrow> active j \<Longrightarrow> row_move j (requeue_row now j)"
  by (cases "j_status j") (simp_all add: move_simps requeue_row_def)

lemma move_reset: "job_ok j \<Longrightarrow> active j \<Longrightarrow> row_move j (reset_row now j)"
  by (cases "j_status j") (simp_all add: move_simps reset_row_def requeue_row_def Retryable_literals)

lemma move_fail: "job_ok j \<Longrightarrow> cancellable j \<Longrightarrow> row_move j (fail_row now m ft j)"
  by (cases "j_status j") (simp_all add: move_simps cancellable_def fail_row_def Let_def)

lemma move_starved: "job_ok j \<Longrightarrow> starved c j \<Longrightarrow> row_move j (starved_row now e m ft j)"
  by (simp add: move_simps starved_def pendingUnassigned_def starved_row_def)

lemma move_stuck: "job_ok j \<Longrightarrow> stuck_guard d c t j \<Longrightarrow> row_move j (stuck_row now m ft j)"
  by (cases "j_status j")
     (simp_all add: move_simps stuck_guard_def stale_active_def stuck_row_def)

lemma move_budget: "job_ok j \<Longrightarrow> active j \<Longrightarrow> row_move j (budget_row now j)"
  by (cases "j_status j") (simp_all add: move_simps budget_row_def FailureType_Retryable_def)

lemmas row_moves = move_terminal_report move_running_report move_progress move_output move_claim
  move_cancel move_requeue move_reset move_fail move_starved move_stuck move_budget

subsection \<open>Moves of the database\<close>

definition moves :: "database \<Rightarrow> database \<Rightarrow> bool" where
  "moves d d' \<longleftrightarrow> db_ok d' \<and> evolves d d'"

lemma moves_same: "db_ok d \<Longrightarrow> jobs d' = jobs d \<Longrightarrow> moves d d'"
  by (simp add: moves_def db_ok_def evolves_def) (blast intro: row_later_refl)

lemma moves_trans: "moves d e \<Longrightarrow> moves e f \<Longrightarrow> moves d f"
  by (auto simp: moves_def intro: evolves_trans)

lemma moves_upd:
  assumes ok: "db_ok d" and eq: "jobs d' = upd_where P f (jobs d)"
    and ids: "\<And>j. j_id (f j) = j_id j"
    and mv: "\<And>j. job_ok j \<Longrightarrow> P j \<Longrightarrow> row_move j (f j)"
  shows "moves d d'"
proof -
  have "db_ok d'"
    using ok mv unfolding db_ok_def eq
    by (auto simp: map_key_upd_where ids row_move_def elim!: set_upd_whereE)
  moreover have "evolves d d'"
    unfolding evolves_def
  proof (intro allI impI)
    fix i j assume j: "find_job i d = Some j"
    then have "find_job i d' = Some (if P j then f j else j)"
      by (simp add: eq find_row_upd_where ids)
    moreover from j ok have "job_ok j" by (auto simp: db_ok_def dest: find_row_SomeD)
    then have "row_later j (if P j then f j else j)"
      by (auto intro: row_move_later mv row_later_refl)
    ultimately show "\<exists>j'. find_job i d' = Some j' \<and> row_later j j'" by blast
  qed
  ultimately show ?thesis by (simp add: moves_def)
qed

lemma moves_upd_jobs:
  "db_ok d \<Longrightarrow> (\<And>j. j_id (f j) = j_id j) \<Longrightarrow> (\<And>j. job_ok j \<Longrightarrow> P j \<Longrightarrow> row_move j (f j)) \<Longrightarrow>
   moves d (upd_jobs P f d)"
  by (rule moves_upd [OF _ upd_jobs_sel(1)])

lemma moves_insert:
  assumes "db_ok d" and "find_job (j_id r) d = None" and "jobs d' = jobs d @ [r]" and "job_ok r"
  shows "moves d d'"
proof -
  have "db_ok d'" using assms by (auto simp: db_ok_def find_row_None)
  moreover have "evolves d d'"
    using assms(3) by (auto simp: evolves_def find_row_append row_later_refl)
  ultimately show ?thesis by (simp add: moves_def)
qed

text \<open>Only the jobs table matters, so the other tables' statements drop out.\<close>

lemma moves_cong: "jobs d' = jobs e \<Longrightarrow> moves d d' \<longleftrightarrow> moves d e"
  by (simp add: moves_def db_ok_def evolves_def)

lemma moves_self [simp]: "moves d d \<longleftrightarrow> db_ok d"
  by (simp add: moves_def evolves_refl)

lemma record_targets_jobs [simp]: "jobs (record_targets okr w n js d) = jobs d"
  by (induction js arbitrary: d) simp_all

lemma moves_frames [simp]:
  "moves d (NotifyTerminal i e) \<longleftrightarrow> moves d e"
  "moves d (notify_all is e) \<longleftrightarrow> moves d e"
  "moves d (upd_workers Q g e) \<longleftrightarrow> moves d e"
  "moves d (insertMigrationEventTx eid ts w wn rs rc is e) \<longleftrightarrow> moves d e"
  "moves d (insertRedistributionsTx u eid rcs ts e) \<longleftrightarrow> moves d e"
  "moves d (record_targets okr w nm js e) \<longleftrightarrow> moves d e"
  by (rule moves_cong, simp)+

lemma moves_ok: "moves d d' \<Longrightarrow> db_ok d'"
  by (simp add: moves_def)

lemma job_ok_new: "job_ok (new_job_row i now spec)"
  by (simp add: job_ok_def new_job_row_def active_def Retryable_literals)

lemma job_ok_failed_row: "job_ok (failed_job_row i now spec ft m)"
  by (simp add: job_ok_def failed_job_row_def new_job_row_def active_def)

lemma new_row_ids [simp]:
  "j_id (new_job_row i now spec) = i" "j_id (failed_job_row i now spec ft m) = i"
  by (simp_all add: new_job_row_def failed_job_row_def)

subsection \<open>Each operation moves the database\<close>

lemma moves_CreateJob: "db_ok d \<Longrightarrow> moves d (snd (CreateJobWithStreaming ok ok' i now spec d))"
  unfolding CreateJobWithStreaming_def Let_def
  by (simp add: moves_insert [where r = "new_job_row i now spec"] job_ok_new)

lemma moves_CreateFailedJob: "db_ok d \<Longrightarrow> moves d (snd (CreateFailedJob ok ok' i now spec ft m d))"
  unfolding CreateFailedJob_def Let_def
  by (simp add: moves_insert [where r = "failed_job_row i now spec ft m"] job_ok_failed_row)

lemma moves_terminal:
  assumes "db_ok d" and "IsTerminalStatus s"
  shows "moves d (snd (UpdateJobTerminalStatusWithOwnerAndCache ok now i w s ec em ft fd c d))"
proof -
  have "moves d (upd_jobs (owned_active i w)
      (terminal_report now w n s ec em ft fd (if s \<noteq> JobStatusCompleted then False else c)) d)" for n
    using assms by (intro moves_upd_jobs move_terminal_report [where i = i]) simp_all
  with assms show ?thesis
    by (simp add: UpdateJobTerminalStatusWithOwnerAndCache_def Let_def)
qed

lemma moves_running:
  assumes "db_ok d"
  shows "moves d (snd (UpdateJobRunningStatusWithOwner ok now i w ec em ft fd d))"
proof -
  have "moves d (upd_jobs (owned_active i w) (running_report now ec em ft fd) d)"
    using assms by (intro moves_upd_jobs move_running_report [where i = i and w = w]) simp_all
  with assms show ?thesis by (simp add: UpdateJobRunningStatusWithOwner_def)
qed

lemma moves_progress:
  assumes "db_ok d"
  shows "moves d (snd (UpdateJobProgressWithOwner up ok ok' now i w p e d))"
proof -
  have "moves d (upd_jobs (\<lambda>j. owned_active i w j \<and> j_progress_percent j \<le> p)
      (\<lambda>j. j\<lparr>j_progress_percent := p, j_eta_seconds := e, j_updated_at := now\<rparr>) d)"
    using assms by (intro moves_upd_jobs) (auto intro: move_progress)
  with assms show ?thesis
    by (simp add: UpdateJobProgressWithOwner_def Let_def split: option.split)
qed

lemma moves_output:
  assumes "db_ok d"
  shows "moves d (snd (UpdateJobOutputWithOwner ok ok' now i w fs d))"
proof -
  have "moves d (upd_jobs (owned_active i w) (\<lambda>j. j\<lparr>j_output_files := fs, j_updated_at := now\<rparr>) d)"
    using assms by (intro moves_upd_jobs) (auto intro: move_output)
  with assms show ?thesis
    by (simp add: UpdateJobOutputWithOwner_def split: sum.split)
qed

lemma moves_claim_upd:
  "db_ok d \<Longrightarrow> moves d (upd_jobs (claimable i) (claim_row now w n) d)"
  by (intro moves_upd_jobs) (auto intro: move_claim)

lemma moves_assign: "db_ok d \<Longrightarrow> moves d (snd (AssignJobToWorker ok now i w d))"
  by (simp add: AssignJobToWorker_def moves_claim_upd)

lemma moves_claim_jobs: "db_ok d \<Longrightarrow> moves d (snd (claim_jobs now w n js d))"
proof (induction js arbitrary: d)
  case (Cons j js)
  let ?d' = "upd_jobs (claimable (j_id j)) (claim_row now w (worker_name_of w d)) d"
  have "moves d ?d'" using Cons.prems by (rule moves_claim_upd)
  moreover from this have "moves ?d' (snd (claim_jobs now w n js ?d'))"
    by (intro Cons.IH moves_ok)
  ultimately have "moves d (snd (claim_jobs now w n js ?d'))" by (rule moves_trans)
  with Cons show ?case by (simp add: Let_def split_beta)
qed simp

lemma moves_pull:
  "db_ok d \<Longrightarrow> moves d (snd (AssignPendingJobsToWorker up okw oktx okr now w m d))"
  unfolding AssignPendingJobsToWorker_def Let_def split_beta
  by (simp add: moves_claim_jobs)

lemma moves_cancel:
  assumes "db_ok d"
  shows "moves d (snd (CancelJob ok ok' now i d))"
proof -
  have "moves d (upd_jobs (\<lambda>j. j_id j = i \<and> cancellable j)
      (\<lambda>j. j\<lparr>j_status := JobStatusCancelled, j_updated_at := now, j_finished_at := Some now\<rparr>) d)"
    using assms by (intro moves_upd_jobs) (auto intro: move_cancel)
  with assms show ?thesis by (simp add: CancelJob_def Let_def split: sum.split)
qed

lemma moves_requeue_running:
  "db_ok d \<Longrightarrow> moves d (upd_jobs (\<lambda>j. j_id j = i \<and> j_status j = JobStatusRunning) (requeue_row now) d)"
  by (intro moves_upd_jobs) (auto intro: move_requeue simp: active_def)

lemma moves_reschedule: "db_ok d \<Longrightarrow> moves d (snd (RescheduleJob ok ok' now i d))"
  by (simp add: RescheduleJob_def Let_def moves_requeue_running split: sum.split)

lemma moves_fail:
  assumes "db_ok d"
  shows "moves d (snd (FailJob ok ok' now i m ft d))"
proof -
  have "moves d (upd_jobs (\<lambda>j. j_id j = i \<and> cancellable j) (fail_row now m ft) d)"
    using assms by (intro moves_upd_jobs) (auto intro: move_fail)
  with assms show ?thesis by (simp add: FailJob_def Let_def split: sum.split)
qed

lemma moves_timeout_migration:
  "db_ok d \<Longrightarrow> moves d (snd (RecordJobTimeoutMigration ok now eid uids w i n d))"
  by (simp add: RecordJobTimeoutMigration_def Let_def moves_requeue_running)

lemma moves_recover: "db_ok d \<Longrightarrow> moves d (snd (RecoverState ok now d))"
  by (simp add: RecoverState_def) (intro impI moves_upd_jobs, auto intro: move_requeue)

lemma moves_starved_chunk:
  "db_ok d \<Longrightarrow> moves d (snd (failStarvedJobsChunked now e ids m ft c d))"
  unfolding failStarvedJobsChunked_spec by (intro moves_upd_jobs) (auto intro: move_starved)

lemma moves_stuck_chunk:
  "db_ok d \<Longrightarrow> moves d (snd (failStuckJobsChunked now c ids m ft b d))"
  unfolding failStuckJobsChunked_spec by (intro moves_upd_jobs) (auto intro: move_stuck)

lemma moves_starved: "db_ok d \<Longrightarrow> moves d (snd (FailStarvedPendingJobs ok now c cs m1 m2 d))"
  unfolding FailStarvedPendingJobs_def Let_def split_beta
  by (simp add: moves_trans [OF moves_starved_chunk moves_starved_chunk] moves_ok [OF moves_starved_chunk])

lemma moves_stuck: "db_ok d \<Longrightarrow> moves d (snd (FailStuckActiveJobs ok now st cs m1 m2 d))"
  unfolding FailStuckActiveJobs_def Let_def split_beta
  by (simp add: moves_trans [OF moves_stuck_chunk moves_stuck_chunk] moves_ok [OF moves_stuck_chunk])

lemma moves_reset_loop: "db_ok d \<Longrightarrow> moves d (snd (reset_loop now w js d))"
  by (rule moves_upd [OF _ reset_loop_jobs]) (auto intro: move_reset simp: owned_active_def)

lemma moves_budget_loop: "db_ok d \<Longrightarrow> moves d (snd (budget_loop now w js d))"
  by (rule moves_upd [OF _ budget_loop_jobs]) (auto intro: move_budget simp: owned_active_def)

lemma moves_then_budget: "moves d e \<Longrightarrow> moves d (snd (budget_loop now w js e))"
  by (blast intro: moves_trans moves_budget_loop moves_ok)

lemma moves_migrate:
  "db_ok d \<Longrightarrow> moves d (snd (MigrateJobsFromWorker up b now eid uids w r m d))"
  unfolding MigrateJobsFromWorker_def Let_def split_beta
  by (simp add: moves_then_budget moves_reset_loop split: option.split)

subsection \<open>The transition system of the database\<close>

text \<open>
  One rule per operation that writes jobs and notifies on its own. The terminal writer is only called with a
  terminal status (\<^verbatim>\<open>handlers/jobs.go\<close> branches on \<^verbatim>\<open>IsTerminalStatus\<close> first). The last rule covers the writes to
  other tables. The two bulk sweeps, whose caller notifies, are the steps that \<open>db_step\<close> adds.
\<close>

inductive store_step :: "database \<Rightarrow> database \<Rightarrow> bool" where
  op_create_job: "store_step d (snd (CreateJobWithStreaming ok ok' i now spec d))"
| op_create_failed: "store_step d (snd (CreateFailedJob ok ok' i now spec ft m d))"
| op_terminal: "IsTerminalStatus s \<Longrightarrow>
    store_step d (snd (UpdateJobTerminalStatusWithOwnerAndCache ok now i w s ec em ft' fd c d))"
| op_running: "store_step d (snd (UpdateJobRunningStatusWithOwner ok now i w ec em ft' fd d))"
| op_progress: "store_step d (snd (UpdateJobProgressWithOwner up ok ok' now i w p e d))"
| op_output: "store_step d (snd (UpdateJobOutputWithOwner ok ok' now i w fs d))"
| op_assign: "store_step d (snd (AssignJobToWorker ok now i w d))"
| op_pull: "store_step d (snd (AssignPendingJobsToWorker up ok ok' okr now w n d))"
| op_cancel: "store_step d (snd (CancelJob ok ok' now i d))"
| op_reschedule: "store_step d (snd (RescheduleJob ok ok' now i d))"
| op_fail: "store_step d (snd (FailJob ok ok' now i m ft d))"
| op_timeout_migration: "store_step d (snd (RecordJobTimeoutMigration ok now eid uids w i n d))"
| op_recover: "store_step d (snd (RecoverState ok now d))"
| op_migrate: "store_step d (snd (MigrateJobsFromWorker up ok now eid uids w r n d))"
| op_other_tables: "jobs d' = jobs d \<Longrightarrow> terminal_log d' = terminal_log d \<Longrightarrow> store_step d d'"

inductive db_step :: "database \<Rightarrow> database \<Rightarrow> bool" where
  op_store: "store_step d d' \<Longrightarrow> db_step d d'"
| op_starvation: "db_step d (snd (FailStarvedPendingJobs ok now t cs m m' d))"
| op_stuck: "db_step d (snd (FailStuckActiveJobs ok now t cs m m' d))"

text \<open>The worker operations, the audit writers and the sequence counter are steps that leave the jobs
  table alone.\<close>

lemma worker_ops_jobs:
  "jobs (snd (CreateWorker up ok ok' ni now w n caps d)) = jobs d"
  "jobs (snd (CreateOrUpdateWorker up ok ok'' ok' ni now w n caps t d)) = jobs d"
  "jobs (snd (UpdateWorkerCapabilities up ok now w caps d)) = jobs d"
  "jobs (snd (UpdateWorkerHeartbeat up ok now w st d)) = jobs d"
  "jobs (snd (SetWorkerIdleIfNoActiveJobs ok now w d)) = jobs d"
  "jobs (snd (UpdateWorkerStatus up ok now w st d)) = jobs d"
  "jobs (snd (MarkOfflineWorkers ok now t d)) = jobs d"
  "jobs (snd (MarkOfflineWorkersWithMigration ok now t d)) = jobs d"
  "jobs (snd (RemoveOfflineWorkers ok now t d)) = jobs d"
  "jobs (snd (RemoveStaleWorkers ok now t d)) = jobs d"
  "jobs (snd (RestoreWorkerStatusAfterFailedMigration up ok w d)) = jobs d"
  "jobs (snd (MarkWorkerEvicted up ok now w d)) = jobs d"
  "jobs (snd (ClearWorkerEviction up ok eid now w r1 r2 rs d)) = jobs d"
  by (simp_all add: CreateWorker_def CreateOrUpdateWorker_def UpdateWorkerCapabilities_def
      UpdateWorkerHeartbeat_def SetWorkerIdleIfNoActiveJobs_def UpdateWorkerStatus_def
      MarkOfflineWorkers_def MarkOfflineWorkersWithMigration_def RemoveOfflineWorkers_def
      RemoveStaleWorkers_def RestoreWorkerStatusAfterFailedMigration_def MarkWorkerEvicted_def
      ClearWorkerEviction_def insert_eviction_event_def Let_def)

lemma moves_jobs_eq: "db_ok d \<Longrightarrow> jobs d' = jobs d \<Longrightarrow> moves d d'"
  by (simp add: moves_cong [of d' d])

lemmas moves_ops = moves_CreateJob moves_CreateFailedJob moves_terminal moves_running moves_progress
  moves_output moves_assign moves_pull moves_cancel moves_reschedule moves_fail
  moves_timeout_migration moves_recover moves_starved moves_stuck moves_migrate moves_jobs_eq

lemma store_step_moves: "store_step d d' \<Longrightarrow> db_ok d \<Longrightarrow> moves d d'"
  by (induction rule: store_step.induct) (rule moves_ops, assumption+)+

lemma db_step_moves: "db_step d d' \<Longrightarrow> db_ok d \<Longrightarrow> moves d d'"
  by (induction rule: db_step.induct) (simp_all add: store_step_moves moves_starved moves_stuck)

definition db_init :: "database \<Rightarrow> bool" where
  "db_init d \<longleftrightarrow> jobs d = []"

lemma db_init_ok: "db_init d \<Longrightarrow> db_ok d"
  by (simp add: db_init_def db_ok_def)

interpretation lifecycle: ordered_system db_init db_step db_ok evolves
  by unfold_locales
    (auto simp: moves_def evolves_refl dest: db_init_ok db_step_moves intro: evolves_trans)

end
