(* ===== verification/StoreGuarantees.thy ===== *)
theory StoreGuarantees
  imports JobLifecycle
begin

section \<open>What the job store guarantees\<close>

text \<open>
  The properties of package \<^verbatim>\<open>db\<close>: those of every run of the transition system, and the functional
  behaviour of ownership, pulls, migration, the sweeps, recovery and eviction.
\<close>

subsection \<open>A concrete database for the applications\<close>

definition ex_spec :: job_spec where
  "ex_spec = \<lparr>js_input_files = ''[]'', js_args = Some [''-i'', ''a''], js_output_filename = ''o'',
     js_auto_hw = False, js_streaming_output = False, js_timeout = None, js_direct_paths = []\<rparr>"

definition ex_caps :: worker_capabilities where
  "ex_caps = NewWorkerCapabilities ''7.0'' [] [] [] 2 [] []"

definition ex_worker :: worker_row where
  "ex_worker = new_worker_row ''w1'' ''node'' ex_caps 0"

definition ex_db :: database where
  "ex_db = \<lparr>jobs = [new_job_row ''a'' 3 ex_spec, new_job_row ''b'' 1 ex_spec, new_job_row ''c'' 2 ex_spec],
     workers = [ex_worker], migration_events = [], job_redistributions = [], eviction_events = [],
     ws_job_seq = [], terminal_log = []\<rparr>"

definition ex_claimed :: database where
  "ex_claimed = snd (AssignJobToWorker True 5 ''a'' ''w1'' ex_db)"

lemmas ex_defs = ex_db_def ex_spec_def ex_worker_def ex_caps_def new_job_row_def new_worker_row_def
  write_caps_def NewWorkerCapabilities_def

lemma ex_db_ok: "db_ok ex_db"
  by (simp add: db_ok_def ex_db_def job_ok_new)

lemma ex_claimed_ok: "db_ok ex_claimed"
  unfolding ex_claimed_def by (rule moves_ok [OF moves_assign [OF ex_db_ok]])

subsection \<open>Every run\<close>

lemma db_init_empty: "db_init (ex_db\<lparr>jobs := []\<rparr>)"
  by (simp add: db_init_def)

text \<open>
  C3: in every database that any interleaving of the operations can lead to from an empty jobs table,
  identifiers are unique and each row is consistent: a pending job has no owner, claim or start,
  an active one has an owner, a claim time and an assigned worker equal to the owner, the finish time is set exactly
  for terminal statuses, the stored retryable flag agrees with the failure type, and only a completed
  job is marked cached.
\<close>

theorem db_invariant_reachable:
  assumes "reach db_init db_step d"
  shows "distinct (map j_id (jobs d)) \<and> (\<forall>j \<in> set (jobs d). job_ok j)"
  using lifecycle.reach_inv [OF assms] by (simp add: db_ok_def)

theorem db_invariant_reachable_witness:
  "list_all job_ok (jobs (snd (CreateJobWithStreaming True True ''a'' 3 ex_spec (ex_db\<lparr>jobs := []\<rparr>))))"
proof -
  have "reach db_init db_step (snd (CreateJobWithStreaming True True ''a'' 3 ex_spec (ex_db\<lparr>jobs := []\<rparr>)))"
    by (rule reach_step, rule reach_init, rule db_init_empty, rule op_store, rule op_create_job)
  from db_invariant_reachable [OF this] show ?thesis unfolding list_all_iff by blast
qed

text \<open>
  C1: along every run a job stays in the table, its life follows the abstract life of a job (waiting, claimed by a
  worker, executing on that worker, done), its progress never decreases, and once it is terminal its whole row is
  never changed again.
\<close>

theorem jobs_follow_lifecycle:
  assumes "db_ok d" and "db_step\<^sup>*\<^sup>* d d'" and "find_job i d = Some j"
  shows "\<exists>j'. find_job i d' = Some j' \<and> abs_step\<^sup>*\<^sup>* (abs_of j) (abs_of j') \<and>
    j_progress_percent j \<le> j_progress_percent j' \<and>
    (IsTerminalStatus (j_status j) \<longrightarrow> j' = j)"
  using lifecycle.steps_rel [OF assms(2,1)] assms(3) by (auto simp: evolves_def row_later_def)

theorem jobs_follow_lifecycle_witness:
  "\<exists>j'. find_job ''a'' ex_claimed = Some j' \<and>
     abs_step\<^sup>*\<^sup>* (abs_of (new_job_row ''a'' 3 ex_spec)) (abs_of j')"
proof -
  have s: "db_step\<^sup>*\<^sup>* ex_db ex_claimed"
    unfolding ex_claimed_def by (rule r_into_rtranclp, rule op_store, rule op_assign)
  have "find_job ''a'' ex_db = Some (new_job_row ''a'' 3 ex_spec)"
    by (simp add: ex_db_def)
  from jobs_follow_lifecycle [OF ex_db_ok s this] show ?thesis by blast
qed

subsection \<open>Ownership\<close>

lemma owned_rows:
  assumes "db_ok d"
  shows "rows_affected (owned_active i w) (jobs d) = 0 \<longleftrightarrow>
    \<not> (\<exists>j. find_job i d = Some j \<and> j_worker_id j = Some w \<and> active j)"
  using assms find_row_iff [of j_id "jobs d" i]
  by (auto simp: db_ok_def rows_affected_0 owned_active_def)

text \<open>
  A report of a worker is accepted only while the job's row names that worker and is active; any
  other reporter of an existing job (a stale owner after a requeue, a late report of a finished job) gets
  ErrJobNotOwned from the terminal, running, output and progress writers, and none of them changes the
  database.
\<close>

theorem stale_reports_rejected:
  assumes "db_ok d" and "find_job i d = Some j"
    and "\<not> (\<exists>v. j_worker_id j = Some v \<and> NormalizeWorkerID up v = NormalizeWorkerID up w \<and> active j)"
  shows "UpdateJobTerminalStatusWithOwnerAndCache True now i w s ec em ft fd c d = (Inl ErrJobNotOwned, d) \<and>
    UpdateJobRunningStatusWithOwner True now i w ec em ft fd d = (Inl ErrJobNotOwned, d) \<and>
    UpdateJobOutputWithOwner True True now i w fs d = (Inl ErrJobNotOwned, d) \<and>
    UpdateJobProgressWithOwner up True True now i w p e d = (Inl ErrJobNotOwned, d)"
proof -
  have none: "rows_affected (owned_active i w) (jobs d) = 0"
    using assms by (auto simp: owned_rows)
  then have none': "rows_affected (\<lambda>j. owned_active i w j \<and> j_progress_percent j \<le> p) (jobs d) = 0"
    by (auto simp: rows_affected_0)
  show ?thesis
    using none none' assms(2,3)
    by (auto simp: UpdateJobTerminalStatusWithOwnerAndCache_def UpdateJobRunningStatusWithOwner_def
        UpdateJobOutputWithOwner_def GetJob_def UpdateJobProgressWithOwner_def Let_def split: option.split)
qed

theorem stale_reports_rejected_witness:
  "UpdateJobTerminalStatusWithOwnerAndCache True 9 ''b'' ''w1'' JobStatusCompleted None None None None False ex_db =
     (Inl ErrJobNotOwned, ex_db)"
proof -
  have f: "find_job ''b'' ex_db = Some (new_job_row ''b'' 1 ex_spec)" by (simp add: ex_db_def)
  have "\<not> (\<exists>v. j_worker_id (new_job_row ''b'' 1 ex_spec) = Some v \<and>
      NormalizeWorkerID (\<lambda>_. None) v = NormalizeWorkerID (\<lambda>_. None) ''w1'' \<and> active (new_job_row ''b'' 1 ex_spec))"
    by (simp add: new_job_row_def)
  from stale_reports_rejected [OF ex_db_ok f this] show ?thesis by blast
qed

text \<open>
  A claim takes exactly a pending job without an owner. After a successful claim the job is queued for
  that worker with its claim time, and every further claim, by whichever worker, is refused and
  changes nothing.
\<close>

theorem claim_is_exclusive:
  assumes "db_ok d" and "AssignJobToWorker ok now i w d = (r, d')"
  shows "(r = Inr () \<longleftrightarrow> ok \<and> (\<exists>j. find_job i d = Some j \<and> pendingUnassigned j)) \<and>
    (r \<noteq> Inr () \<longrightarrow> d' = d) \<and>
    (r = Inr () \<longrightarrow>
       (\<exists>j'. find_job i d' = Some j' \<and> j_status j' = JobStatusQueued \<and> j_worker_id j' = Some w \<and>
             j_claimed_at j' = Some now) \<and>
       AssignJobToWorker True now' i w' d' = (Inl ErrJobNotOwned, d'))"
proof -
  have rows: "rows_affected (claimable i) (jobs d) = 0 \<longleftrightarrow> \<not> (\<exists>j. find_job i d = Some j \<and> pendingUnassigned j)"
    using assms(1) find_row_iff [of j_id "jobs d" i]
    by (auto simp: db_ok_def rows_affected_0 claimable_def pendingUnassigned_def)
  have taken: "rows_affected (claimable i) (upd_where (claimable i) (claim_row now w n) xs) = 0" for n xs
    by (auto simp: rows_affected_0 claimable_def claim_row_def elim!: set_upd_whereE)
  show ?thesis
    using assms(2) rows taken
    by (auto simp: AssignJobToWorker_def find_row_upd_where claimable_def pendingUnassigned_def claim_row_def
        split: if_splits dest: find_row_SomeD)
qed

theorem claim_is_exclusive_witness:
  "fst (AssignJobToWorker True 6 ''a'' ''w2'' ex_claimed) = Inl ErrJobNotOwned"
proof -
  have f: "find_job ''a'' ex_db = Some (new_job_row ''a'' 3 ex_spec)" by (simp add: ex_db_def)
  have c: "AssignJobToWorker True 5 ''a'' ''w1'' ex_db = (fst (AssignJobToWorker True 5 ''a'' ''w1'' ex_db), ex_claimed)"
    by (simp add: ex_claimed_def)
  show ?thesis
    using claim_is_exclusive [OF ex_db_ok c, of 6 "''w2''"] f
    by (simp add: pendingUnassigned_def new_job_row_def)
qed

subsection \<open>Pulling work\<close>

text \<open>
  The claim loop as one statement. On the jobs of one scan (distinct, still claimable) every claim
  succeeds, since the connection is exclusive.
\<close>

lemma claim_row_done: "\<not> claimable i (claim_row now w n j)"
  by (simp add: claimable_def claim_row_def)

lemma merge_claims:
  "upd_where (\<lambda>j. j_id j \<in> A \<and> claimable (j_id j) j) (claim_row now w n)
     (upd_where (claimable i) (claim_row now w n) rs) =
   upd_where (\<lambda>j. j_id j \<in> insert i A \<and> claimable (j_id j) j) (claim_row now w n) rs"
  by (induction rs) (auto simp: claimable_def claim_row_def)

lemma claim_jobs_spec:
  assumes "distinct (map j_id js)" and "\<forall>j \<in> set js. \<exists>r \<in> set (jobs d). claimable (j_id j) r"
  shows "map j_id (fst (claim_jobs now w n js d)) = map j_id js \<and>
    jobs (snd (claim_jobs now w n js d)) =
      upd_where (\<lambda>j. j_id j \<in> j_id ` set js \<and> claimable (j_id j) j)
        (claim_row now w (worker_name_of w d)) (jobs d)"
  using assms
proof (induction js arbitrary: d)
  case Nil
  then show ?case by (simp add: upd_where_def)
next
  case (Cons a js)
  let ?d' = "upd_jobs (claimable (j_id a)) (claim_row now w (worker_name_of w d)) d"
  have name: "worker_name_of w ?d' = worker_name_of w d" by (simp add: worker_name_of_def)
  have hit: "rows_affected (claimable (j_id a)) (jobs d) \<noteq> 0"
    using Cons.prems(2) by (auto simp: rows_affected_0)
  have "\<exists>r \<in> set (jobs ?d'). claimable (j_id j) r" if "j \<in> set js" for j
  proof -
    from Cons.prems(2) that obtain r where r: "r \<in> set (jobs d)" "claimable (j_id j) r" by auto
    from Cons.prems(1) that have "j_id j \<noteq> j_id a" by (auto simp: image_iff)
    with r have "r \<in> set (jobs ?d')" by (auto simp: upd_where_def claimable_def image_iff)
    with r show ?thesis by blast
  qed
  with Cons.IH [of ?d'] Cons.prems(1) hit show ?case
    by (simp add: Let_def split_beta name merge_claims)
qed

definition pull_new :: "database \<Rightarrow> nat \<Rightarrow> job_row list" where
  "pull_new d n = take n (order_asc j_created_at (filter pendingUnassigned (jobs d)))"

lemma pull_new_sub: "set (pull_new d n) \<subseteq> {j \<in> set (jobs d). pendingUnassigned j}"
  by (auto simp: pull_new_def dest!: in_set_takeD)

lemma pull_new_distinct:
  assumes "db_ok d"
  shows "distinct (map j_id (pull_new d n))"
proof -
  have "inj_on j_id (set (jobs d))" "distinct (jobs d)"
    using assms by (auto simp: db_ok_def distinct_map)
  moreover have "distinct (pull_new d n)"
    using \<open>distinct (jobs d)\<close> by (simp add: pull_new_def order_asc_def)
  ultimately show ?thesis
    using pull_new_sub by (auto simp: distinct_map intro: inj_on_subset)
qed

lemma pull_new_mem:
  assumes "db_ok d" and "j \<in> set (jobs d)"
  shows "j_id j \<in> j_id ` set (pull_new d n) \<and> claimable (j_id j) j \<longleftrightarrow> j \<in> set (pull_new d n)"
proof -
  have "inj_on j_id (set (jobs d))" using assms(1) by (simp add: db_ok_def distinct_map)
  moreover have "set (pull_new d n) \<subseteq> set (jobs d)" using pull_new_sub by blast
  ultimately have "j_id j \<in> j_id ` set (pull_new d n) \<longleftrightarrow> j \<in> set (pull_new d n)"
    using assms(2) by (simp add: inj_on_image_mem_iff)
  moreover have "j \<in> set (pull_new d n) \<Longrightarrow> claimable (j_id j) j"
    using pull_new_sub by (auto simp: claimable_def pendingUnassigned_def)
  ultimately show ?thesis by blast
qed

lemma upd_where_cong:
  "(\<And>r. r \<in> set rs \<Longrightarrow> P r \<longleftrightarrow> Q r) \<Longrightarrow> upd_where P f rs = upd_where Q f rs"
  by (simp add: upd_where_def)

lemma pull_claims:
  assumes "db_ok d"
  shows "map j_id (fst (claim_jobs now w nm (pull_new d n) d)) = map j_id (pull_new d n) \<and>
    jobs (snd (claim_jobs now w nm (pull_new d n) d)) =
      upd_where (\<lambda>j. j \<in> set (pull_new d n)) (claim_row now w (worker_name_of w d)) (jobs d)"
proof -
  have ex: "\<forall>j \<in> set (pull_new d n). \<exists>r \<in> set (jobs d). claimable (j_id j) r"
    using pull_new_sub by (auto simp: claimable_def pendingUnassigned_def)
  from claim_jobs_spec [OF pull_new_distinct [OF assms] this] show ?thesis
    using upd_where_cong [OF pull_new_mem [OF assms]] by simp
qed

lemma active_after_claim:
  assumes "db_ok d" and "jobs d' = upd_where (\<lambda>j. j \<in> set (pull_new d n)) (claim_row now w nm) (jobs d)"
  shows "active_count d' w = active_count d w + length (pull_new d n)"
proof -
  let ?N = "set (pull_new d n)" and ?A = "\<lambda>j. j_worker_id j = Some w \<and> active j"
  have "length (filter ?A (upd_where (\<lambda>j. j \<in> ?N) (claim_row now w nm) rs)) =
        length (filter ?A rs) + length (filter (\<lambda>j. j \<in> ?N) rs)" for rs
    using pull_new_sub [of d n]
    by (induction rs) (auto simp: claim_row_def active_def pendingUnassigned_def)
  moreover have "length (filter (\<lambda>j. j \<in> ?N) (jobs d)) = length (pull_new d n)"
  proof -
    have d: "distinct (jobs d)" "distinct (pull_new d n)"
      using assms(1) pull_new_distinct [OF assms(1)] by (auto simp: db_ok_def distinct_map)
    have "set (filter (\<lambda>j. j \<in> ?N) (jobs d)) = ?N" using pull_new_sub by auto
    with d show ?thesis by (metis distinct_card distinct_filter)
  qed
  ultimately show ?thesis by (simp add: active_count_def assms(2))
qed

text \<open>
  C6: a pull of a worker returns the jobs already queued for it followed by the oldest pending
  unassigned jobs, exactly as many as its remaining capacity (none when it is at or above its
  limit); the returned new jobs are exactly those claimed in the table, and the worker's active count
  grows by their number, so it ends at most at the larger of its limit and what it was.
\<close>

theorem pull_respects_capacity:
  assumes "db_ok d" and "AssignPendingJobsToWorker up okw True okr now w m d = (Inr js, d')"
  shows "let wid = NormalizeWorkerID up w;
             new = pull_new d (nat (m - int (active_count d wid)))
         in map j_id js = map j_id (order_asc j_created_at (filter (queued_for wid) (jobs d))) @ map j_id new \<and>
            jobs d' = upd_where (\<lambda>j. j \<in> set new) (claim_row now wid (worker_name_of wid d)) (jobs d) \<and>
            int (active_count d' wid) \<le> max (int (active_count d wid)) m"
proof -
  define wid where "wid = NormalizeWorkerID up w"
  define n where "n = nat (m - int (active_count d wid))"
  have new: "take n (order_asc j_created_at (filter (\<lambda>j. j_status j = JobStatusPending \<and> j_worker_id j = None) (jobs d)))
      = pull_new d n" by (simp add: pull_new_def pendingUnassigned_def [abs_def])
  have J: "jobs d' = upd_where (\<lambda>j. j \<in> set (pull_new d n)) (claim_row now wid (worker_name_of wid d)) (jobs d) \<and>
      map j_id js = map j_id (order_asc j_created_at (filter (queued_for wid) (jobs d))) @ map j_id (pull_new d n)"
    using assms(2) pull_claims [OF assms(1), of now wid _ n]
    unfolding AssignPendingJobsToWorker_def Let_def wid_def [symmetric] n_def [symmetric] new split_beta
    by (cases "n = 0") (auto simp: pull_new_def upd_where_def)
  have "length (pull_new d n) \<le> n" by (simp add: pull_new_def)
  with active_after_claim [OF assms(1) J [THEN conjunct1]] J show ?thesis
    by (simp add: Let_def wid_def [symmetric] n_def [symmetric]) (simp add: n_def)
qed

theorem pull_respects_capacity_witness:
  "\<exists>js d'. AssignPendingJobsToWorker (\<lambda>_. None) True True (\<lambda>_. True) 5 ''w1'' 2 ex_db = (Inr js, d') \<and>
     int (active_count d' ''w1'') \<le> 2"
proof -
  let ?A = "AssignPendingJobsToWorker (\<lambda>_. None) True True (\<lambda>_. True) 5 ''w1'' 2 ex_db"
  have "\<exists>js. fst ?A = Inr js"
    unfolding AssignPendingJobsToWorker_def Let_def split_beta by simp
  then obtain js where js: "?A = (Inr js, snd ?A)" by (metis prod.collapse)
  have n: "NormalizeWorkerID (\<lambda>_. None) ''w1'' = ''w1''"
    by (simp add: NormalizeWorkerID_def TrimSpace_def is_space_def)
  have z: "active_count ex_db ''w1'' = 0"
    by (simp add: active_count_def ex_db_def new_job_row_def)
  from pull_respects_capacity [OF ex_db_ok js] js show ?thesis
    by (auto simp: Let_def n z)
qed

subsection \<open>Migration\<close>

text \<open>On a snapshot of distinct jobs that the worker owns, both loops hit every entry.\<close>

lemma owned_elsewhere:
  assumes "owned_active i w r" and "r \<in> set rs" and "i \<noteq> a"
  shows "r \<in> set (upd_where (owned_active a w) f rs)"
  using assms by (auto simp: upd_where_def owned_active_def image_iff)

lemma reset_loop_ids:
  "distinct (map fst js) \<Longrightarrow> \<forall>i \<in> fst ` set js. \<exists>r \<in> set (jobs d). owned_active i w r \<Longrightarrow>
   fst (reset_loop now w js d) = map (\<lambda>(i, n). (i, int n + 1)) js"
proof (induction js arbitrary: d)
  case (Cons p js)
  obtain a n where p: "p = (a, n)" by (cases p)
  let ?d' = "upd_jobs (owned_active a w) (reset_row now) d"
  have "\<forall>i \<in> fst ` set js. \<exists>r \<in> set (jobs ?d'). owned_active i w r"
    using Cons.prems by (auto simp: p image_iff) (metis fst_conv owned_elsewhere)
  moreover have "rows_affected (owned_active a w) (jobs d) \<noteq> 0"
    using Cons.prems by (auto simp: p rows_affected_0)
  ultimately show ?case
    using Cons.IH [of ?d'] Cons.prems(1) by (simp add: p Let_def split_beta resetJobToPendingExec_def)
qed simp

lemma budget_loop_ids:
  "distinct (map fst js) \<Longrightarrow> \<forall>i \<in> fst ` set js. \<exists>r \<in> set (jobs d). owned_active i w r \<Longrightarrow>
   fst (budget_loop now w js d) = map fst js"
proof (induction js arbitrary: d)
  case (Cons p js)
  obtain a n where p: "p = (a, n)" by (cases p)
  let ?d' = "upd_jobs (owned_active a w) (budget_row now) d"
  have "\<forall>i \<in> fst ` set js. \<exists>r \<in> set (jobs ?d'). owned_active i w r"
    using Cons.prems by (auto simp: p image_iff) (metis fst_conv owned_elsewhere)
  moreover have "rows_affected (owned_active a w) (jobs d) \<noteq> 0"
    using Cons.prems by (auto simp: p rows_affected_0)
  ultimately show ?case
    using Cons.IH [of ?d'] Cons.prems(1) by (simp add: p Let_def split_beta)
qed simp

text \<open>The two halves of the snapshot of a worker.\<close>

definition held :: "string \<Rightarrow> job_row \<Rightarrow> bool" where
  "held w j \<longleftrightarrow> j_worker_id j = Some w \<and> active j"

definition over_budget :: "int \<Rightarrow> database \<Rightarrow> job_row \<Rightarrow> bool" where
  "over_budget m d j \<longleftrightarrow> m \<le> int (migration_count d (j_id j))"

definition to_migrate :: "int \<Rightarrow> database \<Rightarrow> string \<Rightarrow> (string \<times> nat) list" where
  "to_migrate m d w = filter (\<lambda>(i, n). \<not> m \<le> int n) (active_jobs_with_count d w)"

definition to_fail :: "int \<Rightarrow> database \<Rightarrow> string \<Rightarrow> (string \<times> nat) list" where
  "to_fail m d w = filter (\<lambda>(i, n). m \<le> int n) (active_jobs_with_count d w)"

lemma set_snapshot:
  "set (active_jobs_with_count d w) = {(j_id j, migration_count d (j_id j)) |j. j \<in> set (jobs d) \<and> held w j}"
  by (auto simp: active_jobs_with_count_def held_def)

lemma snapshot_ids:
  "fst ` set (to_migrate m d w) = j_id ` {j \<in> set (jobs d). held w j \<and> \<not> over_budget m d j} \<and>
   fst ` set (to_fail m d w) = j_id ` {j \<in> set (jobs d). held w j \<and> over_budget m d j}"
  by (auto simp: to_migrate_def to_fail_def set_snapshot over_budget_def image_iff) blast+

lemma distinct_snapshot:
  assumes "db_ok d"
  shows "distinct (map fst (to_migrate m d w)) \<and> distinct (map fst (to_fail m d w))"
proof -
  have i: "inj_on j_id (set (jobs d))" "distinct (jobs d)"
    using assms by (auto simp: db_ok_def distinct_map)
  have "distinct (map fst (active_jobs_with_count d w))"
    using i by (auto simp: active_jobs_with_count_def comp_def distinct_map order_asc_def intro: inj_on_subset)
  then show ?thesis
    by (auto simp: to_migrate_def to_fail_def intro: distinct_map_filter)
qed

lemma held_owned: "held w j \<longleftrightarrow> owned_active (j_id j) w j"
  by (auto simp: held_def owned_active_def)

lemma in_ids_iff:
  assumes "db_ok d" and "j \<in> set (jobs d)"
  shows "j_id j \<in> j_id ` {j \<in> set (jobs d). Q j} \<longleftrightarrow> Q j"
  using assms by (auto simp: db_ok_def distinct_map inj_on_def)

text \<open>What the loops leave of the jobs table: one pass that requeues or fails each held job.\<close>

lemma both_loops_jobs:
  assumes ok: "db_ok d" and j2: "jobs d2 = jobs (snd (reset_loop now w (to_migrate m d w) d))"
  shows "jobs (snd (budget_loop now w (to_fail m d w) d2)) =
    map (\<lambda>j. if held w j then (if over_budget m d j then budget_row now j else reset_row now j) else j) (jobs d)"
proof -
  have A: "jobs d2 = upd_where (\<lambda>j. held w j \<and> \<not> over_budget m d j) (reset_row now) (jobs d)"
    unfolding j2 reset_loop_jobs snapshot_ids [THEN conjunct1]
    by (rule upd_where_cong) (auto simp: in_ids_iff [OF ok] held_owned [symmetric])
  have "j_id j \<in> j_id ` {j \<in> set (jobs d). held w j \<and> over_budget m d j} \<and> owned_active (j_id j) w j \<longleftrightarrow>
      held w j \<and> over_budget m d j" if "j \<in> set (jobs d2)" for j
    using that unfolding A
    by (auto elim!: set_upd_whereE simp: in_ids_iff [OF ok] held_owned [symmetric] owned_active_reset)
      (auto simp: owned_active_def held_def reset_row_def requeue_row_def active_def)
  then have "jobs (snd (budget_loop now w (to_fail m d w) d2)) =
      upd_where (\<lambda>j. held w j \<and> over_budget m d j) (budget_row now) (jobs d2)"
    unfolding budget_loop_jobs snapshot_ids [THEN conjunct2] by (rule upd_where_cong)
  then show ?thesis
    by (auto simp: A upd_where_def held_def reset_row_def requeue_row_def active_def)
qed

text \<open>The operation on an offline worker, with its loops evaluated.\<close>

definition counts_of :: "(string \<times> nat) list \<Rightarrow> (string \<times> int) list" where
  "counts_of ps = map (\<lambda>(i, n). (i, int n + 1)) ps"

lemma counts_of_simps [simp]:
  "map fst (counts_of ps) = map fst ps" "counts_of ps = [] \<longleftrightarrow> ps = []"
  by (simp_all add: counts_of_def comp_def split_beta)

lemma count_list_distinct: "distinct xs \<Longrightarrow> count_list xs x = (if x \<in> set xs then 1 else 0)"
  by (induction xs) auto

definition migrated_db ::
  "time \<Rightarrow> string \<Rightarrow> (string \<Rightarrow> string) \<Rightarrow> string \<Rightarrow> string \<Rightarrow> string \<Rightarrow> int \<Rightarrow> database \<Rightarrow> database" where
  "migrated_db now eventID uids w name reason m d =
     (let rcs = counts_of (to_migrate m d w);
          d1 = snd (reset_loop now w (to_migrate m d w) d)
      in if to_migrate m d w = [] then d1
         else insertRedistributionsTx uids eventID rcs now
                (insertMigrationEventTx eventID now w (Some name) reason (fold max (map snd rcs) 0)
                   (map fst (to_migrate m d w)) d1))"

lemma migrated_db_jobs:
  "jobs (migrated_db now eventID uids w name reason m d) = jobs (snd (reset_loop now w (to_migrate m d w) d))"
  by (simp add: migrated_db_def Let_def)

lemma migrated_db_count:
  "migration_count (migrated_db now eventID uids w name reason m d) i =
     migration_count d i + (if reason = ReasonJobTimeout then 0 else count_list (map fst (to_migrate m d w)) i)"
proof -
  have r: "migration_count (insertRedistributionsTx u e rcs t x) i = migration_count x i" for u e rcs t x
    by (rule counts_cong) simp
  have "migration_count (snd (reset_loop now w js d)) i = migration_count d i" for js
    by (rule counts_cong) simp
  then show ?thesis by (simp add: migrated_db_def Let_def r migration_count_insert)
qed

lemma migrate_offline_eq:
  assumes ok: "db_ok d" and w: "find_worker (NormalizeWorkerID up w) d = Some r" "w_status r = WorkerStatusOffline"
  shows "MigrateJobsFromWorker up True now eid uids w reason m d =
    (let wid = NormalizeWorkerID up w;
         d2 = migrated_db now eid uids wid (w_name r) reason m d
     in (Inr \<lparr>mr_event_id = (if to_migrate m d wid = [] then [] else eid), mr_worker_name = w_name r,
              mr_migrated = map fst (to_migrate m d wid), mr_failed = map fst (to_fail m d wid)\<rparr>,
         notify_all (map fst (to_fail m d wid)) (snd (budget_loop now wid (to_fail m d wid) d2))))"
proof -
  define wid where "wid = NormalizeWorkerID up w"
  let ?tm = "to_migrate m d wid" and ?tf = "to_fail m d wid"
  have dist: "distinct (map fst ?tm)" "distinct (map fst ?tf)"
    using distinct_snapshot [OF ok] by auto
  have "\<forall>i \<in> fst ` set ?tm. \<exists>x \<in> set (jobs d). owned_active i wid x"
    unfolding snapshot_ids [THEN conjunct1] by (auto simp: held_owned)
  then have reset: "fst (reset_loop now wid ?tm d) = counts_of ?tm"
    unfolding counts_of_def by (rule reset_loop_ids [OF dist(1)])
  let ?d1 = "snd (reset_loop now wid ?tm d)"
  have kept: "\<forall>i \<in> fst ` set ?tf. \<exists>x \<in> set (jobs ?d1). owned_active i wid x"
  proof
    fix i assume "i \<in> fst ` set ?tf"
    then obtain x where x: "x \<in> set (jobs d)" "held wid x" "over_budget m d x" "i = j_id x"
      unfolding snapshot_ids [THEN conjunct2] by auto
    have "j_id x \<notin> fst ` set ?tm"
      using in_ids_iff [OF ok x(1), of "\<lambda>j. held wid j \<and> \<not> over_budget m d j"] x(3)
      unfolding snapshot_ids [THEN conjunct1] by blast
    then have "x \<in> set (jobs ?d1)"
      using x(1) unfolding reset_loop_jobs upd_where_def by force
    with x show "\<exists>x \<in> set (jobs ?d1). owned_active i wid x" by (auto simp: held_owned)
  qed
  have fails: "fst (budget_loop now wid ?tf d2) = map fst ?tf" if "jobs d2 = jobs ?d1" for d2
    using kept by (intro budget_loop_ids [OF dist(2)]) (simp add: that)
  have d1: "?d1 = d" if "?tm = []" using that by simp
  show ?thesis
    unfolding MigrateJobsFromWorker_def migrated_db_def wid_def [symmetric] to_migrate_def [symmetric]
      to_fail_def [symmetric] Let_def split_beta
    by (cases "?tm = []") (simp_all add: w [folded wid_def] wid_def [symmetric] reset fails)
qed

text \<open>What the operation leaves on an offline worker.\<close>

lemma migrate_offline_spec:
  assumes "db_ok d" and "find_worker (NormalizeWorkerID up w) d = Some r" and "w_status r = WorkerStatusOffline"
    and "reason \<noteq> ReasonJobTimeout"
    and "MigrateJobsFromWorker up True now eid uids w reason m d = (Inr res, d')"
  shows "let wid = NormalizeWorkerID up w in
    jobs d' = map (\<lambda>j. if held wid j then (if over_budget m d j then budget_row now j else reset_row now j) else j) (jobs d) \<and>
    set (mr_migrated res) = j_id ` {j \<in> set (jobs d). held wid j \<and> \<not> over_budget m d j} \<and>
    set (mr_failed res) = j_id ` {j \<in> set (jobs d). held wid j \<and> over_budget m d j} \<and>
    terminal_log d' = terminal_log d @ mr_failed res \<and>
    (\<forall>i. migration_count d' i = migration_count d i + (if i \<in> set (mr_migrated res) then 1 else 0))"
proof -
  define wid where "wid = NormalizeWorkerID up w"
  let ?tm = "to_migrate m d wid" and ?tf = "to_fail m d wid"
  let ?d2 = "migrated_db now eid uids wid (w_name r) reason m d"
  from migrate_offline_eq [OF assms(1-3), of now eid uids reason m] assms(5)
  have res: "mr_migrated res = map fst ?tm" "mr_failed res = map fst ?tf"
    and d': "d' = notify_all (map fst ?tf) (snd (budget_loop now wid ?tf ?d2))"
    by (auto simp: Let_def wid_def)
  have "terminal_log ?d2 = terminal_log d" by (simp add: migrated_db_def Let_def)
  moreover have "migration_count d' i = migration_count d i + (if i \<in> fst ` set ?tm then 1 else 0)" for i
  proof -
    have "migration_count d' i = migration_count ?d2 i"
      by (rule counts_cong) (simp add: d')
    also have "\<dots> = migration_count d i + count_list (map fst ?tm) i"
      using assms(4) by (simp add: migrated_db_count)
    finally show ?thesis
      using distinct_snapshot [OF assms(1), of m wid] by (simp add: count_list_distinct)
  qed
  ultimately show ?thesis
    using both_loops_jobs [OF assms(1) migrated_db_jobs [of now eid uids wid "w_name r" reason m d]]
    by (simp add: Let_def wid_def [symmetric] res d' snapshot_ids)
qed

text \<open>
  C4: migrating the jobs of an offline worker leaves none of them with it: in one pass each job it held
  is failed with WORKER_CRASH when its migrations have used up the budget, and goes back to
  pending otherwise, and no other row changes. The result lists exactly the requeued and the failed
  ids, every failed id is notified, and each requeued job (no other) has one more migration on record.
\<close>

theorem migration_requeues_or_fails:
  assumes "db_ok d" and "find_worker (NormalizeWorkerID up w) d = Some r" and "w_status r = WorkerStatusOffline"
    and "reason \<noteq> ReasonJobTimeout"
    and "MigrateJobsFromWorker up True now eid uids w reason m d = (Inr res, d')"
  shows "let wid = NormalizeWorkerID up w in
    jobs d' = map (\<lambda>j. if held wid j then (if over_budget m d j then budget_row now j else reset_row now j) else j) (jobs d) \<and>
    set (mr_migrated res) = j_id ` {j \<in> set (jobs d). held wid j \<and> \<not> over_budget m d j} \<and>
    set (mr_failed res) = j_id ` {j \<in> set (jobs d). held wid j \<and> over_budget m d j} \<and>
    terminal_log d' = terminal_log d @ mr_failed res \<and>
    (\<forall>i. migration_count d' i = migration_count d i + (if i \<in> set (mr_migrated res) then 1 else 0))"
  using assms by (rule migrate_offline_spec)

definition ex_off :: database where
  "ex_off = upd_workers (\<lambda>_. True) (\<lambda>w. w\<lparr>w_status := WorkerStatusOffline\<rparr>) ex_claimed"

lemma ex_off_ok: "db_ok ex_off"
  using ex_claimed_ok by (simp add: ex_off_def db_ok_def)

lemma ex_off_worker:
  "find_worker (NormalizeWorkerID (\<lambda>_. None) ''w1'') ex_off = Some (ex_worker\<lparr>w_status := WorkerStatusOffline\<rparr>)"
  by (simp add: ex_off_def ex_claimed_def AssignJobToWorker_def ex_defs NormalizeWorkerID_def TrimSpace_def
      TrimLeftSpace_def is_space_def)

theorem migration_requeues_or_fails_witness:
  "jobs (snd (MigrateJobsFromWorker (\<lambda>_. None) True 9 ''e'' (\<lambda>_. ''u'') ''w1'' ReasonHeartbeatTimeout 3 ex_off)) =
     map (\<lambda>j. if held (NormalizeWorkerID (\<lambda>_. None) ''w1'') j
              then (if over_budget 3 ex_off j then budget_row 9 j else reset_row 9 j) else j) (jobs ex_off)"
proof -
  let ?M = "MigrateJobsFromWorker (\<lambda>_. None) True 9 ''e'' (\<lambda>_. ''u'') ''w1'' ReasonHeartbeatTimeout 3 ex_off"
  have off: "w_status (ex_worker\<lparr>w_status := WorkerStatusOffline\<rparr>) = WorkerStatusOffline" by simp
  have r: "ReasonHeartbeatTimeout \<noteq> ReasonJobTimeout"
    by (simp add: ReasonHeartbeatTimeout_def ReasonJobTimeout_def)
  obtain res where "?M = (Inr res, snd ?M)"
    using migrate_offline_eq [OF ex_off_ok ex_off_worker off] by (auto simp: Let_def)
  from migration_requeues_or_fails [OF ex_off_ok ex_off_worker off r this] show ?thesis
    by (simp add: Let_def)
qed

end
