(* ===== verification/SweepGuarantees.thy ===== *)
theory SweepGuarantees
  imports StoreGuarantees
begin

section \<open>What the sweeps, recovery and the audit trail guarantee\<close>

text \<open>
  The bulk writers: the starvation and the stuck-job sweep (each shown to be one pass over the table),
  restart recovery, cancellation, and the resolution of migration targets.
\<close>

subsection \<open>The starvation sweep\<close>

text \<open>The ids that a classified snapshot fails as crashed and as starved.\<close>

definition crashed_ids :: "classified_job list \<Rightarrow> string set" where
  "crashed_ids cs = set (map cj_id (filter cj_crashed cs))"

definition other_ids :: "classified_job list \<Rightarrow> string set" where
  "other_ids cs = set (map cj_id (filter (\<lambda>c. \<not> cj_crashed c) cs))"

lemma classified_ids:
  "cj_id ` {c \<in> set cs. cj_crashed c} = crashed_ids cs"
  "cj_id ` {c \<in> set cs. \<not> cj_crashed c} = other_ids cs"
  by (simp_all add: crashed_ids_def other_ids_def)

lemma two_statements:
  assumes "\<And>r. P r \<Longrightarrow> \<not> Q (f r)" and "\<And>r. Q r \<Longrightarrow> \<not> P (g r)"
  shows "upd_where Q g (upd_where P f rs) = map (\<lambda>r. if P r then f r else if Q r then g r else r) rs"
  using assms by (induction rs) auto

lemma filter_after:
  assumes "\<And>r. P r \<Longrightarrow> \<not> Q (f r)"
  shows "mset (filter P rs) + mset (filter Q (upd_where P f rs)) = mset (filter (\<lambda>r. P r \<or> Q r) rs)"
  using assms by (induction rs) auto

lemma FailStarvedPendingJobs_spec:
  assumes "FailStarvedPendingJobs True now cutoff cs m1 m2 d = (Inr ids, d')"
  shows "jobs d' = map (\<lambda>j. if j_id j \<in> crashed_ids cs \<and> starved cutoff j
                            then starved_row now (-1) m2 FailureWorkerCrash j
                            else if j_id j \<in> other_ids cs \<and> starved cutoff j
                            then starved_row now (-1) m1 FailureNoWorkerAvailable j
                            else j) (jobs d) \<and>
    mset ids = mset (map j_id (filter (\<lambda>j. j_id j \<in> crashed_ids cs \<union> other_ids cs \<and> starved cutoff j) (jobs d)))"
proof -
  let ?P = "\<lambda>j. j_id j \<in> crashed_ids cs \<and> starved cutoff j"
  let ?Q = "\<lambda>j. j_id j \<in> other_ids cs \<and> starved cutoff j"
  let ?f = "starved_row now (-1) m2 FailureWorkerCrash"
  have jobs': "jobs d' = upd_where ?Q (starved_row now (-1) m1 FailureNoWorkerAvailable) (upd_where ?P ?f (jobs d))"
    using assms
    by (auto simp: FailStarvedPendingJobs_def Let_def split_beta failStarvedJobsChunked_spec
        classified_ids)
  have ids: "mset ids = image_mset j_id (mset (filter ?P (jobs d)) + mset (filter ?Q (upd_where ?P ?f (jobs d))))"
    using assms
    by (auto simp: FailStarvedPendingJobs_def Let_def split_beta failStarvedJobsChunked_spec
        classified_ids)
  also have "\<dots> = mset (map j_id (filter (\<lambda>j. ?P j \<or> ?Q j) (jobs d)))"
    by (subst filter_after) (simp_all add: starved_row_done)
  also have "(\<lambda>j. ?P j \<or> ?Q j) = (\<lambda>j. j_id j \<in> crashed_ids cs \<union> other_ids cs \<and> starved cutoff j)" by auto
  finally have I: "mset ids = mset (map j_id (filter (\<lambda>j. j_id j \<in> crashed_ids cs \<union> other_ids cs \<and> starved cutoff j) (jobs d)))" .
  have "jobs d' = map (\<lambda>j. if ?P j then ?f j else if ?Q j then starved_row now (-1) m1 FailureNoWorkerAvailable j else j) (jobs d)"
    unfolding jobs' by (rule two_statements) (simp_all add: starved_row_done)
  with I show ?thesis by blast
qed

text \<open>
  The starvation sweep is one pass over the table: a job of the snapshot that is still pending,
  unassigned and older than the cutoff is failed, as WORKER_CRASH when the snapshot classed it as
  crashed and as NO_WORKER_AVAILABLE otherwise; a job that was claimed since the scan, or is not in
  the snapshot, keeps its row; and the ids returned for notification are exactly the ids changed, each once.
\<close>

theorem starvation_sweep_exact:
  assumes "FailStarvedPendingJobs True now cutoff cs m1 m2 d = (Inr ids, d')"
  shows "jobs d' = map (\<lambda>j. if j_id j \<in> crashed_ids cs \<and> starved cutoff j
                            then starved_row now (-1) m2 FailureWorkerCrash j
                            else if j_id j \<in> other_ids cs \<and> starved cutoff j
                            then starved_row now (-1) m1 FailureNoWorkerAvailable j
                            else j) (jobs d) \<and>
    mset ids = mset (map j_id (filter (\<lambda>j. j_id j \<in> crashed_ids cs \<union> other_ids cs \<and> starved cutoff j) (jobs d)))"
  by (rule FailStarvedPendingJobs_spec [OF assms])

theorem starvation_sweep_exact_witness:
  "\<exists>ids d'. FailStarvedPendingJobs True 200 100 [\<lparr>cj_id = ''b'', cj_crashed = False\<rparr>] ''m'' ''n'' ex_db = (Inr ids, d') \<and>
     mset ids = {#''b''#}"
proof -
  let ?F = "FailStarvedPendingJobs True 200 100 [\<lparr>cj_id = ''b'', cj_crashed = False\<rparr>] ''m'' ''n'' ex_db"
  obtain ids where ids: "?F = (Inr ids, snd ?F)"
    by (auto simp: FailStarvedPendingJobs_def Let_def split_beta)
  from starvation_sweep_exact [OF this, THEN conjunct2] have "mset ids = {#''b''#}"
    by (simp add: crashed_ids_def other_ids_def ex_db_def starved_def pendingUnassigned_def new_job_row_def)
  with ids show ?thesis by blast
qed

subsection \<open>The stuck-job sweep\<close>

lemma stuck_guard_jobs: "workers d' = workers d \<Longrightarrow> stuck_guard d' c t j = stuck_guard d c t j"
  by (cases "j_worker_id j") (simp_all add: stuck_guard_def missingWorker_def offlineWorker_def liveWorker_def)

lemma FailStuckActiveJobs_spec:
  assumes "FailStuckActiveJobs True now staleAfter cs m1 m2 d = (Inr ids, d')"
  shows "jobs d' = map (\<lambda>j. if j_id j \<in> crashed_ids cs \<and> stuck_guard d True (now - staleAfter) j
                            then stuck_row now m2 FailureWorkerCrash j
                            else if j_id j \<in> other_ids cs \<and> stuck_guard d False (now - staleAfter) j
                            then stuck_row now m1 FailureInfra j
                            else j) (jobs d) \<and>
    mset ids = mset (map j_id (filter (\<lambda>j.
      j_id j \<in> crashed_ids cs \<and> stuck_guard d True (now - staleAfter) j \<or>
      j_id j \<in> other_ids cs \<and> stuck_guard d False (now - staleAfter) j) (jobs d))) \<and>
    (\<forall>j \<in> set (jobs d). j_status j = JobStatusRunning \<and> \<not> missingWorker d j \<longrightarrow> j \<in> set (jobs d'))"
proof -
  let ?t = "now - staleAfter"
  let ?P = "\<lambda>j. j_id j \<in> crashed_ids cs \<and> stuck_guard d True ?t j"
  let ?Q = "\<lambda>j. j_id j \<in> other_ids cs \<and> stuck_guard d False ?t j"
  let ?f = "stuck_row now m2 FailureWorkerCrash" and ?g = "stuck_row now m1 FailureInfra"
  let ?d1 = "upd_jobs ?P ?f d"
  have g: "stuck_guard ?d1 c t j = stuck_guard d c t j" for c t j
    by (rule stuck_guard_jobs) simp
  have jobs': "jobs d' = upd_where ?Q ?g (upd_where ?P ?f (jobs d))"
    using assms
    by (auto simp: FailStuckActiveJobs_def Let_def split_beta failStuckJobsChunked_spec g
        classified_ids)
  have "mset ids = image_mset j_id (mset (filter ?P (jobs d)) + mset (filter ?Q (upd_where ?P ?f (jobs d))))"
    using assms
    by (auto simp: FailStuckActiveJobs_def Let_def split_beta failStuckJobsChunked_spec g
        classified_ids)
  also have "\<dots> = mset (map j_id (filter (\<lambda>j. ?P j \<or> ?Q j) (jobs d)))"
    by (subst filter_after) (simp_all add: stuck_row_done)
  finally have ids: "mset ids = mset (map j_id (filter (\<lambda>j. ?P j \<or> ?Q j) (jobs d)))" .
  have J: "jobs d' = map (\<lambda>j. if ?P j then ?f j else if ?Q j then ?g j else j) (jobs d)"
    unfolding jobs' by (rule two_statements) (simp_all add: stuck_row_done)
  have "j \<in> set (jobs d')" if "j \<in> set (jobs d)" "j_status j = JobStatusRunning" "\<not> missingWorker d j" for j
  proof -
    have "\<not> ?P j \<and> \<not> ?Q j" using that by (simp add: stuck_guard_def)
    with that(1) show ?thesis unfolding J by (force simp: image_iff)
  qed
  with J ids show ?thesis by blast
qed

text \<open>
  The stuck-job sweep fails a job of its snapshot only if, at the time of the sweep, the job is still
  active and untouched since the cutoff, and either its worker's record is gone (or it is queued on an offline worker), for a
  job classed as crashed, or it is queued on a live worker, for the others; every other row is kept, the
  ids returned are exactly those changed, and a running job whose worker still has a record is never touched.
\<close>

theorem stuck_sweep_exact:
  assumes "FailStuckActiveJobs True now staleAfter cs m1 m2 d = (Inr ids, d')"
  shows "jobs d' = map (\<lambda>j. if j_id j \<in> crashed_ids cs \<and> stuck_guard d True (now - staleAfter) j
                            then stuck_row now m2 FailureWorkerCrash j
                            else if j_id j \<in> other_ids cs \<and> stuck_guard d False (now - staleAfter) j
                            then stuck_row now m1 FailureInfra j
                            else j) (jobs d) \<and>
    mset ids = mset (map j_id (filter (\<lambda>j.
      j_id j \<in> crashed_ids cs \<and> stuck_guard d True (now - staleAfter) j \<or>
      j_id j \<in> other_ids cs \<and> stuck_guard d False (now - staleAfter) j) (jobs d))) \<and>
    (\<forall>j \<in> set (jobs d). j_status j = JobStatusRunning \<and> \<not> missingWorker d j \<longrightarrow> j \<in> set (jobs d'))"
  by (rule FailStuckActiveJobs_spec [OF assms])

theorem stuck_sweep_exact_witness:
  "\<exists>ids d'. FailStuckActiveJobs True 200 100 [\<lparr>cj_id = ''a'', cj_crashed = True\<rparr>] ''m'' ''n'' ex_off = (Inr ids, d') \<and>
     mset ids = mset (map j_id (filter (\<lambda>j. j_id j = ''a'' \<and> stuck_guard ex_off True 100 j) (jobs ex_off)))"
proof -
  let ?F = "FailStuckActiveJobs True 200 100 [\<lparr>cj_id = ''a'', cj_crashed = True\<rparr>] ''m'' ''n'' ex_off"
  obtain ids where ids: "?F = (Inr ids, snd ?F)"
    by (auto simp: FailStuckActiveJobs_def Let_def split_beta)
  from stuck_sweep_exact [OF this, THEN conjunct2, THEN conjunct1]
  have "mset ids = mset (map j_id (filter (\<lambda>j. j_id j = ''a'' \<and> stuck_guard ex_off True 100 j) (jobs ex_off)))"
    by (simp add: crashed_ids_def other_ids_def)
  with ids show ?thesis by blast
qed

end
