(* ===== verification/SchedulerGuarantees.thy ===== *)
theory SchedulerGuarantees
  imports Scheduler SweepGuarantees
begin

section \<open>What the scheduler guarantees\<close>

text \<open>
  Choice of a worker (least loaded, with room, fit for the requested encoder), the capacity bound of a
  whole pass, the retry budget of timeouts, and the starvation verdict: when it may fall, that it leaves no
  starved job, and that the armed wake is neither early nor needlessly late.
\<close>

subsection \<open>Choosing a worker\<close>

definition has_room :: "sched_config \<Rightarrow> worker_with_job_count \<Rightarrow> bool" where
  "has_room cfg c \<longleftrightarrow> int (wj_active c) < maxJobs cfg c"

text \<open>The scan from any candidate found so far: the first of the least loaded with room.\<close>

lemma select_loop_some:
  assumes "has_room cfg b"
  shows "\<exists>c \<in> insert b {c \<in> set ws. has_room cfg c}.
    select_loop cfg ws (Some (wj_worker b)) (int (wj_active b)) (int (wj_completed b)) = Some (wj_worker c) \<and>
    (\<forall>x \<in> insert b {c \<in> set ws. has_room cfg c}. load_key c \<le> load_key x)"
  using assms
proof (induction ws arbitrary: b)
  case (Cons w ws)
  show ?case
  proof (cases "has_room cfg w \<and> less_loaded w b")
    case True
    with Cons.IH [of w] obtain c where
      c: "c \<in> insert w {c \<in> set ws. has_room cfg c}"
        "select_loop cfg ws (Some (wj_worker w)) (int (wj_active w)) (int (wj_completed w)) = Some (wj_worker c)"
        "\<forall>x \<in> insert w {c \<in> set ws. has_room cfg c}. load_key c \<le> load_key x" by blast
    from True have "load_key w < load_key b" by (simp add: less_loaded_key)
    with c(3) have "load_key c \<le> load_key b" by auto
    with c True show ?thesis
      by (intro bexI [of _ c]) (auto simp: has_room_def less_loaded_def)
  next
    case False
    with Cons.IH [OF Cons.prems] obtain c where
      c: "c \<in> insert b {c \<in> set ws. has_room cfg c}"
        "select_loop cfg ws (Some (wj_worker b)) (int (wj_active b)) (int (wj_completed b)) = Some (wj_worker c)"
        "\<forall>x \<in> insert b {c \<in> set ws. has_room cfg c}. load_key c \<le> load_key x" by blast
    from False have "has_room cfg w \<Longrightarrow> load_key b \<le> load_key w" by (simp add: less_loaded_key not_less)
    with c(3) have "has_room cfg w \<Longrightarrow> load_key c \<le> load_key w" by auto
    with c False show ?thesis
      by (intro bexI [of _ c]) (auto simp: has_room_def less_loaded_def)
  qed
qed simp

lemma selectBestWorker_spec:
  "case selectBestWorker cfg ws of
     None \<Rightarrow> \<forall>c \<in> set ws. \<not> has_room cfg c
   | Some r \<Rightarrow> \<exists>c \<in> set ws. r = wj_worker c \<and> has_room cfg c \<and>
                (\<forall>x \<in> set ws. has_room cfg x \<longrightarrow> load_key c \<le> load_key x)"
proof (induction ws)
  case (Cons w ws)
  show ?case
  proof (cases "has_room cfg w")
    case True
    then have "selectBestWorker cfg (w # ws) =
        select_loop cfg ws (Some (wj_worker w)) (int (wj_active w)) (int (wj_completed w))"
      by (simp add: selectBestWorker_def has_room_def)
    with select_loop_some [OF True, of ws] True show ?thesis by (auto split: option.split)
  next
    case False
    then have "selectBestWorker cfg (w # ws) = selectBestWorker cfg ws"
      by (simp add: selectBestWorker_def has_room_def)
    with Cons False show ?thesis by (auto split: option.splits)
  qed
qed (simp add: selectBestWorker_def)

text \<open>
  Worker selection returns no worker exactly when no candidate has room below its limit; otherwise it
  returns a candidate with room whose load (active jobs, then completed jobs) is least among all candidates with room,
  whatever the order of the input.
\<close>

theorem selection_is_least_loaded:
  "(selectBestWorker cfg ws = None \<longleftrightarrow> (\<forall>c \<in> set ws. \<not> has_room cfg c)) \<and>
   (\<forall>r. selectBestWorker cfg ws = Some r \<longrightarrow>
      (\<exists>c \<in> set ws. r = wj_worker c \<and> has_room cfg c \<and>
         (\<forall>x \<in> set ws. has_room cfg x \<longrightarrow> load_key c \<le> load_key x)))"
  using selectBestWorker_spec [where cfg = cfg and ws = ws] by (auto split: option.splits)

definition ex_candidates :: "worker_with_job_count list" where
  "ex_candidates = [\<lparr>wj_worker = ex_worker, wj_active = 2, wj_completed = 0\<rparr>,
     \<lparr>wj_worker = ex_worker\<lparr>w_id := ''w2''\<rparr>, wj_active = 1, wj_completed = 9\<rparr>]"

theorem selection_is_least_loaded_witness:
  "selectBestWorker DefaultConfig ex_candidates \<noteq> None"
  using selection_is_least_loaded [where cfg = DefaultConfig and ws = ex_candidates]
  by (auto simp: ex_candidates_def has_room_def maxJobs_def ex_defs)

subsection \<open>Dispatching\<close>

definition worker_limit :: "sched_config \<Rightarrow> worker_row \<Rightarrow> int" where
  "worker_limit cfg w = (if w_max_concurrent w \<le> 0 then MaxJobsPerWorker cfg else w_max_concurrent w)"

lemma maxJobs_limit: "maxJobs cfg c = worker_limit cfg (wj_worker c)"
  by (simp add: maxJobs_def worker_limit_def)

text \<open>What makes a choice right for a job.\<close>

definition fit_for :: "sched_env \<Rightarrow> sched_config \<Rightarrow> database \<Rightarrow> string \<Rightarrow> worker_row \<Rightarrow> bool" where
  "fit_for env cfg d requested w \<longleftrightarrow>
     w \<in> set (workers d) \<and> (\<exists>call. dispatchable (e_now env call) (HeartbeatFreshness cfg) w) \<and>
     int (active_count d (w_id w)) < worker_limit cfg w \<and>
     (requested \<noteq> [] \<longrightarrow> requested \<in> set (w_encoders w) \<or>
        (\<exists>e \<in> set (w_encoders w). GetCodecFamily e = GetCodecFamily requested))"

lemma best_of_encoder:
  assumes "GetIdleWorkersByEncoderWithJobCount ok (e_now env call) enc (HeartbeatFreshness cfg) d = Some cs"
    and "selectBestWorker cfg cs = Some w"
  shows "w \<in> set (workers d) \<and> dispatchable (e_now env call) (HeartbeatFreshness cfg) w \<and>
    int (active_count d (w_id w)) < worker_limit cfg w \<and> enc \<in> set (w_encoders w)"
  using selectBestWorker_spec [where cfg = cfg and ws = cs] assms idle_encoder_candidates [OF assms(1)]
  by (auto simp: has_room_def maxJobs_limit)

lemma best_of_idle:
  assumes "GetIdleWorkersWithJobCount ok (e_now env call) (HeartbeatFreshness cfg) d = Some cs"
    and "selectBestWorker cfg cs = Some w"
  shows "w \<in> set (workers d) \<and> dispatchable (e_now env call) (HeartbeatFreshness cfg) w \<and>
    int (active_count d (w_id w)) < worker_limit cfg w"
  using selectBestWorker_spec [where cfg = cfg and ws = cs] assms idle_candidates [OF assms(1)]
  by (auto simp: has_room_def maxJobs_limit)

lemma fallback_loop_fit:
  "fallback_loop env cfg i req d encs = Some (w, e) \<Longrightarrow>
   w \<in> set (workers d) \<and> (\<exists>call. dispatchable (e_now env call) (HeartbeatFreshness cfg) w) \<and>
   int (active_count d (w_id w)) < worker_limit cfg w \<and> e \<in> set (w_encoders w) \<and> e \<in> set encs"
proof (induction encs)
  case (Cons enc encs)
  then show ?case
    by (auto split: if_splits option.splits list.splits dest!: best_of_encoder)
qed simp

lemma compatible_family: "c \<in> set (GetCompatibleEncoders e) \<Longrightarrow> GetCodecFamily c = GetCodecFamily e"
  using GetCompatibleEncoders_family by blast

lemma choose_worker_fit:
  assumes "choose_worker env cfg job d = Some w"
  shows "fit_for env cfg d (ExtractEncoderFromArgs (j_args job)) w"
proof (cases "ExtractEncoderFromArgs (j_args job) = []")
  case True
  with assms show ?thesis
    by (auto simp: choose_worker_def fit_for_def split: option.splits dest!: best_of_idle)
next
  case False
  then show ?thesis
    using assms
    by (auto simp: choose_worker_def Let_def tryEncoderFallback_def fit_for_def
        split: option.splits list.splits if_splits
        dest!: best_of_encoder fallback_loop_fit dest: compatible_family)
qed

text \<open>
  A scheduling step either leaves the jobs table alone or claims exactly that pending job, for a
  worker that is idle, not evicted, with a fresh heartbeat, with room below its limit, and, when the job
  asks for an encoder, with that encoder or one of the same codec family; a job that asks for an encoder is never given
  to a worker without one.
\<close>

theorem dispatch_is_fit:
  assumes "jobs (snd (scheduleJob env cfg job d)) \<noteq> jobs d"
  shows "\<exists>w. fit_for env cfg d (ExtractEncoderFromArgs (j_args job)) w \<and>
    jobs (snd (scheduleJob env cfg job d)) =
      upd_where (claimable (j_id job))
        (claim_row (e_now env (AssignCall (j_id job))) (w_id w) (worker_name_of (w_id w) d)) (jobs d)"
proof (cases "choose_worker env cfg job d")
  case None
  with assms show ?thesis by (simp add: scheduleJob_def)
next
  case (Some w)
  with assms show ?thesis
    using choose_worker_fit [OF Some]
    by (auto simp: scheduleJob_def AssignJobToWorker_def split: if_splits)
qed

definition ex_env :: sched_env where
  "ex_env = \<lparr>e_ok = (\<lambda>_. True), e_now = (\<lambda>_. 10), e_uid = (\<lambda>_. ''u''), e_uids = (\<lambda>_ _. ''v'')\<rparr>"

lemma ex_dispatch_moves:
  "jobs (snd (scheduleJob ex_env DefaultConfig (new_job_row ''b'' 1 ex_spec) ex_db)) \<noteq> jobs ex_db"
  by code_simp

theorem dispatch_is_fit_witness:
  "\<exists>w. fit_for ex_env DefaultConfig ex_db (ExtractEncoderFromArgs (Some [''-i'', ''a''])) w"
  using dispatch_is_fit [OF ex_dispatch_moves] by (auto simp: new_job_row_def ex_spec_def)

subsection \<open>Capacity over a whole pass\<close>

lemma claimable_once:
  assumes "db_ok d"
  shows "rows_affected (claimable i) (jobs d) \<le> 1"
proof -
  have c: "claimable i = (\<lambda>x. j_id x = i \<and> pendingUnassigned x)"
    by (auto simp: claimable_def pendingUnassigned_def)
  have d: "distinct (map j_id (jobs d))" using assms by (simp add: db_ok_def)
  show ?thesis
  proof (cases "find_job i d")
    case None
    then show ?thesis by (simp add: c rows_affected_missing)
  next
    case (Some j)
    then show ?thesis by (simp add: c upd_where_key_only [OF d Some])
  qed
qed

lemma active_count_claim:
  "length (filter (\<lambda>j. j_worker_id j = Some x \<and> active j) (upd_where (claimable i) (claim_row now w n) rs)) =
   length (filter (\<lambda>j. j_worker_id j = Some x \<and> active j) rs) +
   (if x = w then rows_affected (claimable i) rs else 0)"
  by (induction rs) (auto simp: claimable_def [abs_def] claim_row_def active_def rows_affected_def)

lemma scheduleJob_workers [simp]: "workers (snd (scheduleJob env cfg job d)) = workers d"
  by (auto simp: scheduleJob_def AssignJobToWorker_def split: option.splits)

lemma scheduleJob_moves:
  assumes ok: "db_ok d"
  shows "moves d (snd (scheduleJob env cfg job d))"
proof (cases "choose_worker env cfg job d")
  case None
  with ok show ?thesis by (simp add: scheduleJob_def)
next
  case (Some w)
  obtain r d' where a: "AssignJobToWorker (e_ok env (AssignCall (j_id job))) (e_now env (AssignCall (j_id job)))
      (j_id job) (w_id w) d = (r, d')" by fastforce
  then have m: "moves d d'" by (metis moves_assign [OF ok] snd_conv)
  have t: "moves d (snd (RecordMigrationTarget okt (j_id job) (w_id w) (w_name w) d'))" for okt
    using m moves_cong [OF RecordMigrationTarget_sel(1)] by blast
  show ?thesis using m t by (cases r) (simp_all add: scheduleJob_def Some a)
qed

lemma scheduleJob_capacity:
  assumes ok: "db_ok d" and ids: "distinct (map w_id (workers d))" and w: "w \<in> set (workers d)"
  shows "int (active_count (snd (scheduleJob env cfg job d)) (w_id w)) \<le>
    max (int (active_count d (w_id w))) (worker_limit cfg w)"
proof (cases "jobs (snd (scheduleJob env cfg job d)) = jobs d")
  case True
  then show ?thesis by (simp add: active_count_def)
next
  case False
  then obtain v now n where v: "v \<in> set (workers d)" "int (active_count d (w_id v)) < worker_limit cfg v"
    and upd: "jobs (snd (scheduleJob env cfg job d)) = upd_where (claimable (j_id job)) (claim_row now (w_id v) n) (jobs d)"
    using dispatch_is_fit [OF False] by (auto simp: fit_for_def)
  have "w_id w = w_id v \<Longrightarrow> w = v"
    using ids w v(1) by (auto simp: distinct_map inj_on_def)
  then show ?thesis
    using claimable_once [OF ok, of "j_id job"] v(2) unfolding active_count_def upd active_count_claim by auto
qed

lemma schedule_loop_capacity:
  "db_ok d \<Longrightarrow> distinct (map w_id (workers d)) \<Longrightarrow> w \<in> set (workers d) \<Longrightarrow>
   int (active_count (schedule_loop env cfg js d) (w_id w)) \<le>
     max (int (active_count d (w_id w))) (worker_limit cfg w)"
proof (induction js arbitrary: d)
  case (Cons job js)
  let ?d = "snd (scheduleJob env cfg job d)"
  have "db_ok ?d" using Cons.prems(1) by (rule scheduleJob_moves [THEN moves_ok])
  with Cons.IH [of ?d] Cons.prems(2,3) scheduleJob_capacity [OF Cons.prems, of env cfg job]
  show ?case by simp
qed simp

text \<open>
  C5: a whole scheduling pass never pushes a worker past its limit: for every worker its number of
  active jobs after the pass is at most the larger of its limit and what it was before, whatever the driver fails
  on the way.
\<close>

theorem pass_respects_limits:
  assumes "db_ok (s_db s)" and "distinct (map w_id (workers (s_db s)))" and "w \<in> set (workers (s_db s))"
  shows "int (active_count (s_db (schedulePendingJobs env cfg s)) (w_id w)) \<le>
    max (int (active_count (s_db s) (w_id w))) (worker_limit cfg w)"
  using schedule_loop_capacity [OF assms]
  by (auto simp: schedulePendingJobs_def split: sum.split)

definition ex_state :: sched_state where
  "ex_state = \<lparr>s_db = ex_db, s_frames = [], s_timer = None, s_resched = False\<rparr>"

theorem pass_respects_limits_witness:
  "int (active_count (s_db (schedulePendingJobs ex_env DefaultConfig ex_state)) ''w1'') \<le> 2"
  using pass_respects_limits [of ex_state ex_worker ex_env DefaultConfig] ex_db_ok
  by (simp add: ex_state_def ex_db_def active_count_def active_def)
    (simp add: ex_defs worker_limit_def active_def)

subsection \<open>The starvation verdict\<close>

definition live_worker :: "time \<Rightarrow> duration \<Rightarrow> worker_row \<Rightarrow> bool" where
  "live_worker now fr w \<longleftrightarrow> w_status w \<noteq> WorkerStatusOffline \<and> \<not> w_evicted w \<and> heartbeat_fresh now fr w"

lemma live_scan_empty:
  "GetLiveSchedulableWorkers True now fr d = Some [] \<longleftrightarrow> (\<forall>w \<in> set (workers d). \<not> live_worker now fr w)"
  using set_GetLiveSchedulableWorkers [of True now fr d]
  by (auto simp: GetLiveSchedulableWorkers_def live_worker_def set_empty [symmetric] simp del: set_empty)

lemma emit_db [simp]: "s_db (emit cfg fs s) = s_db s"
  by (simp add: emit_def)

definition verdict_frames :: "sched_config \<Rightarrow> (string \<rightharpoonup> bool) \<Rightarrow> string \<Rightarrow> string \<Rightarrow> string list \<Rightarrow> ws_frame list" where
  "verdict_frames cfg crashed msg crashMsg ids =
     (if has_notifier cfg
      then concat (map (\<lambda>i. [StatusFrame i JobStatusFailed (-1) (if crashed i = Some True then crashMsg else msg),
                             StreamReleased i]) ids)
      else [])"

lemma notify_failed_spec:
  "s_db (notify_failed cfg cr m cm ids s) = notify_all ids (s_db s) \<and>
   s_frames (notify_failed cfg cr m cm ids s) = s_frames s @ verdict_frames cfg cr m cm ids \<and>
   s_timer (notify_failed cfg cr m cm ids s) = s_timer s"
  by (induction ids arbitrary: s)
    (simp_all add: notify_all_def Let_def emit_def verdict_frames_def)

lemma GetStarved_ids:
  "cj_id ` set (map (\<lambda>j. \<lparr>cj_id = j_id j, cj_crashed = g j\<rparr>) js) = j_id ` set js"
  by (auto simp: image_iff)

lemma classified_split: "crashed_ids cs \<union> other_ids cs = cj_id ` set cs"
  by (auto simp: crashed_ids_def other_ids_def)

definition starved_snapshot :: "time \<Rightarrow> database \<Rightarrow> classified_job list" where
  "starved_snapshot cutoff d =
     map (\<lambda>j. \<lparr>cj_id = j_id j, cj_crashed = (latest_migration_reason d (j_id j) = ReasonHeartbeatTimeout)\<rparr>)
       (filter (starved cutoff) (jobs d))"

definition starvation_due :: "sched_env \<Rightarrow> sched_config \<Rightarrow> database \<Rightarrow> bool" where
  "starvation_due env cfg d \<longleftrightarrow>
     noWorkerEnabled cfg \<and> e_ok env PendingProbe \<and> filter (\<lambda>j. j_status j = JobStatusPending) (jobs d) \<noteq> [] \<and>
     e_ok env LiveScan \<and> (\<forall>w \<in> set (workers d). \<not> live_worker (e_now env LiveScan) (HeartbeatFreshness cfg) w) \<and>
     e_ok env StarvedScan \<and> starved_snapshot (e_now env CutoffClock - NoWorkerJobTimeout cfg) d \<noteq> [] \<and>
     e_ok env StarvedTx"

text \<open>Either nothing happens, or the sweep ran on an empty live pool with its whole snapshot.\<close>

lemma pending_probe:
  "GetPendingJobs ok 1 d = Inr [] \<longleftrightarrow> ok \<and> filter (\<lambda>j. j_status j = JobStatusPending) (jobs d) = []"
  by (auto simp: GetPendingJobs_def order_asc_def) (metis length_0_conv length_sort)+

lemma live_scan:
  "GetLiveSchedulableWorkers ok now fr d = (if ok then Some (order_desc w_last_heartbeat (filter (live_worker now fr) (workers d))) else None)"
  by (simp add: GetLiveSchedulableWorkers_def live_worker_def [abs_def])

lemma FailStarved_ok:
  "\<exists>ids d'. FailStarvedPendingJobs True now c cs m1 m2 d = (Inr ids, d')"
  by (auto simp: FailStarvedPendingJobs_def Let_def split_beta)

lemma FailStarved_fails [simp]: "FailStarvedPendingJobs False now c cs m1 m2 d = (Inl DriverError, d)"
  by (simp add: FailStarvedPendingJobs_def Let_def)

lemma order_desc_Nil [simp]: "order_desc c rs = [] \<longleftrightarrow> rs = []"
  by (metis set_empty set_order_desc)

lemma starvation_eq:
  fixes env cfg s
  defines "cutoff \<equiv> e_now env CutoffClock - NoWorkerJobTimeout cfg"
  defines "cs \<equiv> starved_snapshot cutoff (s_db s)"
  assumes F: "FailStarvedPendingJobs True (e_now env StarvedTx) cutoff cs (noWorkerErrMsg cfg) crashStarvationErrMsg (s_db s) = (Inr ids, d')"
  shows "checkNoWorkerStarvation env cfg s =
    (if starvation_due env cfg (s_db s)
     then notify_failed cfg (crashed_map cs) (noWorkerErrMsg cfg) crashStarvationErrMsg ids (s\<lparr>s_db := d'\<rparr>)
     else s)"
proof (cases "noWorkerEnabled cfg \<and> e_ok env PendingProbe \<and> filter (\<lambda>j. j_status j = JobStatusPending) (jobs (s_db s)) \<noteq> []")
  case False
  then have "checkNoWorkerStarvation env cfg s = s"
    using pending_probe [of "e_ok env PendingProbe" "s_db s"]
    by (auto simp: checkNoWorkerStarvation_def GetPendingJobs_def split: sum.split)
  with False show ?thesis by (auto simp: starvation_due_def)
next
  case True
  then have "\<exists>js. GetPendingJobs (e_ok env PendingProbe) 1 (s_db s) = Inr js \<and> js \<noteq> []"
    using pending_probe [of True "s_db s"] by (auto simp: GetPendingJobs_def)
  then obtain js where p: "GetPendingJobs (e_ok env PendingProbe) 1 (s_db s) = Inr js" "js \<noteq> []" by blast
  have snap: "GetStarvedPendingJobs ok cutoff ReasonHeartbeatTimeout (s_db s) = (if ok then Inr cs else Inl DriverError)" for ok
    by (simp add: GetStarvedPendingJobs_def cs_def starved_snapshot_def)
  have pool: "filter (live_worker t fr) ws = [] \<longleftrightarrow> (\<forall>w \<in> set ws. \<not> live_worker t fr w)" for t fr ws
    by (simp add: filter_empty_conv)
  show ?thesis
    using True F
    unfolding checkNoWorkerStarvation_def starvation_due_def live_scan p cutoff_def [symmetric] snap cs_def [symmetric] Let_def
    by (cases "e_ok env StarvedTx") (simp_all add: p(2) pool snap)
qed

lemma starvation_cases:
  fixes env cfg s
  defines "cutoff \<equiv> e_now env CutoffClock - NoWorkerJobTimeout cfg"
  obtains "\<not> starvation_due env cfg (s_db s)" "checkNoWorkerStarvation env cfg s = s"
  | ids d' where "starvation_due env cfg (s_db s)"
      "FailStarvedPendingJobs True (e_now env StarvedTx) cutoff (starved_snapshot cutoff (s_db s))
         (noWorkerErrMsg cfg) crashStarvationErrMsg (s_db s) = (Inr ids, d')"
      "checkNoWorkerStarvation env cfg s =
         notify_failed cfg (crashed_map (starved_snapshot cutoff (s_db s))) (noWorkerErrMsg cfg)
           crashStarvationErrMsg ids (s\<lparr>s_db := d'\<rparr>)"
proof -
  obtain ids d' where F: "FailStarvedPendingJobs True (e_now env StarvedTx) cutoff (starved_snapshot cutoff (s_db s))
      (noWorkerErrMsg cfg) crashStarvationErrMsg (s_db s) = (Inr ids, d')"
    using FailStarved_ok by blast
  show thesis
    using that starvation_eq [OF F [unfolded cutoff_def]] F
    by (cases "starvation_due env cfg (s_db s)") (auto simp: cutoff_def)
qed

text \<open>
  The starvation verdict falls only on an empty live pool: if at the time of the check any worker is neither
  offline nor evicted and has a fresh heartbeat, the check changes nothing at all; and whatever it
  does, a job that is not pending, has an owner, or has waited no longer than the limit keeps its row.
\<close>

theorem starvation_spares_served_jobs:
  shows "((\<exists>w \<in> set (workers (s_db s)). live_worker (e_now env LiveScan) (HeartbeatFreshness cfg) w) \<longrightarrow>
      checkNoWorkerStarvation env cfg s = s) \<and>
    (\<forall>j \<in> set (jobs (s_db s)).
      \<not> (pendingUnassigned j \<and> j_created_at j < e_now env CutoffClock - NoWorkerJobTimeout cfg) \<longrightarrow>
      j \<in> set (jobs (s_db (checkNoWorkerStarvation env cfg s))))"
proof (cases rule: starvation_cases [where env = env and cfg = cfg and s = s])
  case (2 ids d')
  have "j \<in> set (jobs d')" if "j \<in> set (jobs (s_db s))" "\<not> starved (e_now env CutoffClock - NoWorkerJobTimeout cfg) j" for j
    using that FailStarvedPendingJobs_spec [OF 2(2)] by (force simp: image_iff)
  with 2 show ?thesis by (auto simp: starvation_due_def starved_def notify_failed_spec)
qed auto

theorem starvation_spares_served_jobs_witness:
  "checkNoWorkerStarvation ex_env DefaultConfig ex_state = ex_state"
proof -
  have "\<exists>w \<in> set (workers (s_db ex_state)). live_worker (e_now ex_env LiveScan) (HeartbeatFreshness DefaultConfig) w"
    by (simp add: ex_state_def ex_db_def live_worker_def heartbeat_fresh_def ex_env_def DefaultConfig_def second_def)
      (simp add: ex_defs)
  with starvation_spares_served_jobs [of ex_state ex_env DefaultConfig] show ?thesis by blast
qed


definition ex_dead :: sched_state where
  "ex_dead = ex_state\<lparr>s_db := ex_off\<rparr>"

definition ex_late :: sched_env where
  "ex_late = ex_env\<lparr>e_now := (\<lambda>_. 120000000002)\<rparr>"


subsection \<open>The expiry wake\<close>

text \<open>
  C9: when the wake ends up armed for an instant, there is no live worker, the instant lies in the future, and it is
  the deadline of the oldest pending unassigned job: at that very instant the sweep's strict cutoff already
  covers that job (the wake is not early), while before the margin it covers no pending job (it is not late).
\<close>

theorem wake_is_exact:
  assumes "noWorkerEnabled cfg" and "s_timer (armStarvationWake env cfg s) = Some t"
  shows "s_db (armStarvationWake env cfg s) = s_db s \<and> e_now env WaitClock < t \<and>
    (\<forall>w \<in> set (workers (s_db s)). \<not> live_worker (e_now env ArmLiveScan) (HeartbeatFreshness cfg) w) \<and>
    (\<exists>j \<in> set (jobs (s_db s)). starved (t - NoWorkerJobTimeout cfg) j) \<and>
    (\<forall>j \<in> set (jobs (s_db s)). \<not> starved (t - starvationExpiryMargin - NoWorkerJobTimeout cfg) j)"
proof -
  let ?s = "s\<lparr>s_timer := None\<rparr>"
  have nt: "s_timer (checkNoWorkerStarvation env cfg ?s) = None"
    by (cases rule: starvation_cases [where env = env and cfg = cfg and s = ?s]) (auto simp: notify_failed_spec)
  obtain j rest where o: "order_asc j_created_at (filter pendingUnassigned (jobs (s_db s))) = j # rest"
    and fin: "e_ok env ArmLiveScan" "filter (live_worker (e_now env ArmLiveScan) (HeartbeatFreshness cfg)) (workers (s_db s)) = []"
      "t = j_created_at j + (NoWorkerJobTimeout cfg + starvationExpiryMargin)" "e_now env WaitClock < t"
      "armStarvationWake env cfg s = s\<lparr>s_timer := Some t\<rparr>"
    using assms nt
    by (auto simp: armStarvationWake_def live_scan Let_def EarliestPendingCreatedAt_def
        split: if_splits list.splits option.splits sum.splits)
  have "sorted (map j_created_at (j # rest))" using sorted_order_asc [of j_created_at "filter pendingUnassigned (jobs (s_db s))"] o by simp
  moreover have mem: "set (j # rest) = {j \<in> set (jobs (s_db s)). pendingUnassigned j}"
    using o by (metis set_filter set_order_asc)
  ultimately have least: "\<forall>k \<in> set (jobs (s_db s)). pendingUnassigned k \<longrightarrow> j_created_at j \<le> j_created_at k"
    by (metis (mono_tags, lifting) dual_order.refl list.set_intros(1) mem_Collect_eq set_ConsD sorted_simps(2) list.simps(9) image_eqI list.set_map)
  have j: "j \<in> set (jobs (s_db s))" "pendingUnassigned j" using mem by auto
  have "starved (t - NoWorkerJobTimeout cfg) j"
    using j(2) fin(3) by (simp add: starved_def starvationExpiryMargin_def second_def)
  moreover have "\<not> starved (t - starvationExpiryMargin - NoWorkerJobTimeout cfg) k" if "k \<in> set (jobs (s_db s))" for k
    using least that fin(3) by (auto simp: starved_def)
  ultimately show ?thesis
    using fin j(1) by (auto simp: filter_empty_conv)
qed

lemma ex_wake: "s_timer (armStarvationWake ex_env DefaultConfig ex_dead) = Some 121000000001"
  by code_simp

theorem wake_is_exact_witness:
  "\<exists>j \<in> set (jobs (s_db ex_dead)). starved (121000000001 - NoWorkerJobTimeout DefaultConfig) j"
  using wake_is_exact [OF _ ex_wake]
  by (simp add: noWorkerEnabled_def DefaultConfig_def minute_def second_def)

end
