(* ===== verification/TimeoutGuarantees.thy ===== *)
theory TimeoutGuarantees
  imports SchedulerGuarantees
begin

section \<open>What the timeout sweep guarantees\<close>

text \<open>
  The requeue budget of timeouts, and that one sweep settles every timed-out job: requeued while the
  budget lasts, failed as TIMEOUT after it.
\<close>

text \<open>A timed-out job, as the scan sees it.\<close>

definition timed_out :: "time \<Rightarrow> job_row \<Rightarrow> bool" where
  "timed_out cutoff j \<longleftrightarrow> j_status j = JobStatusRunning \<and>
     (case j_started_at j of None \<Rightarrow> False | Some t \<Rightarrow> t < cutoff)"

definition running_rows :: "database \<Rightarrow> job_row set" where
  "running_rows d = {j \<in> set (jobs d). j_status j = JobStatusRunning}"

lemma timeout_migration_result:
  "snd (RecordJobTimeoutMigration True now eid uids w i n d) = d \<and> (\<forall>j \<in> running_rows d. j_id j \<noteq> i) \<or>
   running_rows (snd (RecordJobTimeoutMigration True now eid uids w i n d)) = {j \<in> running_rows d. j_id j \<noteq> i} \<and>
   (\<forall>x. timeout_count (snd (RecordJobTimeoutMigration True now eid uids w i n d)) x = timeout_count d x + (if x = i then 1 else 0))"
proof -
  have ev: "migration_events (upd_jobs P f d) = migration_events d" for P f by simp
  have ri: "timeout_count (insertRedistributionsTx u e m t d) x = timeout_count d x" for u e m t d x
    by (rule counts_cong) simp
  have rj: "timeout_count (upd_jobs P f d) x = timeout_count d x" for P f x
    by (rule counts_cong) simp
  show ?thesis
    by (auto simp: RecordJobTimeoutMigration_def Let_def rows_affected_0 running_rows_def ri rj
        timeout_count_insert upd_where_def requeue_row_def)
qed

lemma timeout_migration_count:
  "timeout_count (snd (RecordJobTimeoutMigration ok now eid uids w i n d)) x \<le> timeout_count d x + (if x = i then 1 else 0)"
  using timeout_migration_result [of now eid uids w i n d]
  by (cases ok) (auto simp: RecordJobTimeoutMigration_def)

lemma FailJob_events: "migration_events (snd (FailJob ok ok' now i m ft d)) = migration_events d"
  by (simp add: FailJob_def Let_def NotifyTerminal_def upd_jobs_def split: sum.split)

lemma FailJob_count: "timeout_count (snd (FailJob ok ok' now i m ft d)) x = timeout_count d x"
  by (rule counts_cong) (rule FailJob_events)

lemma check_timeout_db:
  "s_db (check_timeout env cfg job s) =
     (if \<not> e_ok env (RetryCountCall (j_id job)) then s_db s
      else if int (timeout_count (s_db s) (j_id job)) \<ge> MaxTimeoutRetries cfg
      then snd (FailJob (e_ok env (FailCall (j_id job))) (e_ok env (FailLookup (j_id job)))
             (e_now env (FailCall (j_id job))) (j_id job) (timeoutErrMsg cfg) FailureTimeout (s_db s))
      else snd (RecordJobTimeoutMigration (e_ok env (TimeoutTx (j_id job)))
             (e_now env (TimeoutTx (j_id job))) (e_uid env (TimeoutTx (j_id job)))
             (e_uids env (TimeoutTx (j_id job))) (coalesce (j_worker_id job) []) (j_id job)
             (int (timeout_count (s_db s) (j_id job)) + 1) (s_db s)))"
  by (auto simp: check_timeout_def GetJobTimeoutRetryCount_def split: prod.split sum.split)

lemma check_timeout_budget:
  "int (timeout_count (s_db (check_timeout env cfg job s)) x) \<le>
     max (int (timeout_count (s_db s) x)) (MaxTimeoutRetries cfg)"
proof (cases "\<not> e_ok env (RetryCountCall (j_id job)) \<or> int (timeout_count (s_db s) (j_id job)) \<ge> MaxTimeoutRetries cfg")
  case True
  then show ?thesis by (auto simp: check_timeout_db FailJob_count)
next
  case False
  define c where "c = timeout_count (s_db (check_timeout env cfg job s)) x"
  have "c \<le> timeout_count (s_db s) x + (if x = j_id job then 1 else 0)"
    using False unfolding c_def check_timeout_db by (simp add: timeout_migration_count)
  with False show ?thesis unfolding c_def [symmetric] by (cases "x = j_id job") auto
qed

lemma timeout_loop_budget:
  "int (timeout_count (s_db (timeout_loop env cfg js s)) x) \<le>
     max (int (timeout_count (s_db s) x)) (MaxTimeoutRetries cfg)"
proof (induction js arbitrary: s)
  case (Cons job js)
  from Cons [of "check_timeout env cfg job s"] check_timeout_budget [of env cfg job s x]
  show ?case by simp
qed simp

text \<open>The effect of one verdict on the rows, when the driver succeeds.\<close>

definition timeout_verdict :: "sched_env \<Rightarrow> sched_config \<Rightarrow> database \<Rightarrow> job_row \<Rightarrow> job_row" where
  "timeout_verdict env cfg d j =
     (if int (timeout_count d (j_id j)) \<ge> MaxTimeoutRetries cfg
      then fail_row (e_now env (FailCall (j_id j))) (timeoutErrMsg cfg) FailureTimeout j
      else requeue_row (e_now env (TimeoutTx (j_id j))) j)"

lemma check_timeout_rows:
  assumes "\<forall>call. e_ok env call" and "db_ok (s_db s)" and "find_job (j_id job) (s_db s) = Some j"
    and "j_status j = JobStatusRunning"
  shows "jobs (s_db (check_timeout env cfg job s)) =
      upd_where (\<lambda>x. j_id x = j_id job) (timeout_verdict env cfg (s_db s)) (jobs (s_db s)) \<and>
    (\<forall>x. x \<noteq> j_id job \<longrightarrow> timeout_count (s_db (check_timeout env cfg job s)) x = timeout_count (s_db s) x)"
proof -
  let ?d = "s_db s"
  have mem: "j \<in> set (jobs ?d)" "j_id j = j_id job" using assms(3) by (auto dest: find_row_SomeD)
  have only: "x = j" if "x \<in> set (jobs ?d)" "j_id x = j_id job" for x
    using assms(2) mem that by (auto simp: db_ok_def distinct_map inj_on_def)
  have runs: "rows_affected (\<lambda>x. j_id x = j_id job \<and> j_status x = JobStatusRunning) (jobs ?d) \<noteq> 0"
    "rows_affected (\<lambda>x. j_id x = j_id job \<and> cancellable x) (jobs ?d) \<noteq> 0"
    using mem assms(4) by (auto simp: rows_affected_0 cancellable_def active_def)
  have rew: "upd_where (\<lambda>x. j_id x = j_id job \<and> Q x) f (jobs ?d) = upd_where (\<lambda>x. j_id x = j_id job) g (jobs ?d)"
    if "Q j" "f j = g j" for Q f g
    using that only by (auto simp: upd_where_def)
  have Q: "cancellable j" using assms(4) by (simp add: cancellable_def active_def)
  show ?thesis
  proof (cases "int (timeout_count ?d (j_id job)) \<ge> MaxTimeoutRetries cfg")
    case True
    have "jobs (s_db (check_timeout env cfg job s)) =
        upd_where (\<lambda>x. j_id x = j_id job) (timeout_verdict env cfg ?d) (jobs ?d)"
      using True assms(1) runs
      by (auto simp: check_timeout_db FailJob_def Let_def timeout_verdict_def mem(2) Q intro!: rew)
    moreover have "timeout_count (s_db (check_timeout env cfg job s)) x = timeout_count ?d x" for x
      using True assms(1) by (simp add: check_timeout_db FailJob_count)
    ultimately show ?thesis by simp
next
    case False
    have "timeout_count (snd (RecordJobTimeoutMigration True now eid uids w (j_id job) n ?d)) x = timeout_count ?d x"
      if "x \<noteq> j_id job" for now eid uids w n x
      using timeout_migration_result [of now eid uids w "j_id job" n ?d] that by auto
    with False assms(1,4) runs show ?thesis
      by (auto simp: check_timeout_db RecordJobTimeoutMigration_def Let_def timeout_verdict_def mem(2) intro!: rew)
  qed
qed

lemma check_timeout_ok:
  assumes "db_ok (s_db s)"
  shows "db_ok (s_db (check_timeout env cfg job s))"
  using moves_ok [OF moves_fail [OF assms]] moves_ok [OF moves_timeout_migration [OF assms]] assms
  by (simp add: check_timeout_db)

lemma verdict_id [simp]: "j_id (timeout_verdict env cfg d j) = j_id j"
  by (simp add: timeout_verdict_def)

lemma timeout_loop_rows:
  assumes "\<forall>call. e_ok env call" and "db_ok (s_db s)" and "distinct (map j_id js)"
    and "\<forall>j \<in> set js. j \<in> set (jobs (s_db s)) \<and> j_status j = JobStatusRunning"
  shows "jobs (s_db (timeout_loop env cfg js s)) =
    upd_where (\<lambda>x. j_id x \<in> j_id ` set js) (timeout_verdict env cfg (s_db s)) (jobs (s_db s))"
  using assms
proof (induction js arbitrary: s)
  case Nil
  then show ?case by (simp add: upd_where_def)
next
  case (Cons a js)
  let ?d = "s_db s" and ?s = "check_timeout env cfg a s"
  have fa: "find_job (j_id a) ?d = Some a" "j_status a = JobStatusRunning"
    using Cons.prems(2,4) find_row_distinct [of j_id "jobs ?d" a] by (auto simp: db_ok_def)
  note step = check_timeout_rows [OF Cons.prems(1,2) fa, of cfg]
  have other: "j_id j \<noteq> j_id a" if "j \<in> set js" for j
    using Cons.prems(3) that by (auto simp: image_iff)
  have same: "timeout_verdict env cfg (s_db ?s) x = timeout_verdict env cfg ?d x" if "j_id x \<noteq> j_id a" for x
    using step that by (simp add: timeout_verdict_def)
  have "\<forall>j \<in> set js. j \<in> set (jobs (s_db ?s)) \<and> j_status j = JobStatusRunning"
    using Cons.prems(4) step other by (auto simp: upd_where_def image_iff)
  with Cons.IH [OF Cons.prems(1) check_timeout_ok [OF Cons.prems(2)]] Cons.prems(3)
  have IH: "jobs (s_db (timeout_loop env cfg js ?s)) =
      upd_where (\<lambda>x. j_id x \<in> j_id ` set js) (timeout_verdict env cfg (s_db ?s)) (jobs (s_db ?s))" by simp
  have "upd_where (\<lambda>x. j_id x \<in> j_id ` set js) (timeout_verdict env cfg (s_db ?s))
        (upd_where (\<lambda>x. j_id x = j_id a) (timeout_verdict env cfg ?d) rs) =
      upd_where (\<lambda>x. j_id x \<in> j_id ` set (a # js)) (timeout_verdict env cfg ?d) rs" for rs
  proof (induction rs)
    case (Cons r rs)
    moreover have "j_id r = j_id a \<Longrightarrow> j_id r \<notin> j_id ` set js" using other by (metis imageE)
    ultimately show ?case by (simp add: same)
  qed simp
  with IH step show ?case by simp
qed

lemma timed_out_scan:
  "GetTimedOutJobs ok now t d = (if ok then Inr (filter (timed_out (now - t)) (jobs d)) else Inl DriverError)"
  by (simp add: GetTimedOutJobs_def timed_out_def [abs_def])

text \<open>
  C8: one timeout sweep settles every job running past the limit and touches no other: a job whose requeues
  have used up the budget is failed as TIMEOUT, every other goes back to pending; none is left
  running past the limit.
\<close>

theorem timeout_sweep_settles:
  assumes "\<forall>call. e_ok env call" and "db_ok (s_db s)"
  shows "let cutoff = e_now env TimeoutScan - JobTimeout cfg; s' = checkTimeouts env cfg s in
    jobs (s_db s') = map (\<lambda>j. if timed_out cutoff j then timeout_verdict env cfg (s_db s) j else j) (jobs (s_db s)) \<and>
    (\<forall>j \<in> set (jobs (s_db s')). \<not> timed_out cutoff j)"
proof -
  define cutoff where "cutoff = e_now env TimeoutScan - JobTimeout cfg"
  let ?js = "filter (timed_out cutoff) (jobs (s_db s))"
  have run: "checkTimeouts env cfg s = timeout_loop env cfg ?js s"
    using assms(1) by (simp add: checkTimeouts_def timed_out_scan cutoff_def)
  have "distinct (map j_id ?js)" "\<forall>j \<in> set ?js. j \<in> set (jobs (s_db s)) \<and> j_status j = JobStatusRunning"
    using assms(2) by (auto simp: db_ok_def timed_out_def intro: distinct_map_filter)
  note rows = timeout_loop_rows [OF assms this, of cfg]
  have "j_id x \<in> j_id ` set ?js \<longleftrightarrow> timed_out cutoff x" if "x \<in> set (jobs (s_db s))" for x
    using in_ids_iff [OF assms(2) that, of "timed_out cutoff"] by simp
  then have J: "jobs (s_db (checkTimeouts env cfg s)) =
      map (\<lambda>j. if timed_out cutoff j then timeout_verdict env cfg (s_db s) j else j) (jobs (s_db s))"
    unfolding run rows by (simp add: upd_where_def)
  have "\<not> timed_out cutoff (timeout_verdict env cfg (s_db s) j)" for j
    by (simp add: timed_out_def timeout_verdict_def fail_row_def requeue_row_def Let_def)
  with J show ?thesis by (auto simp: Let_def cutoff_def [symmetric])
qed

theorem timeout_sweep_settles_witness:
  "filter (timed_out (e_now ex_late TimeoutScan - JobTimeout DefaultConfig))
     (jobs (s_db (checkTimeouts ex_late DefaultConfig ex_dead))) = []"
proof -
  have "\<forall>call. e_ok ex_late call" "db_ok (s_db ex_dead)"
    by (simp_all add: ex_late_def ex_env_def ex_dead_def ex_off_ok)
  from timeout_sweep_settles [OF this, of DefaultConfig] show ?thesis
    unfolding Let_def filter_empty_conv by (rule conjunct2)
qed

text \<open>
  Whatever the driver fails and however the sweep is repeated, the timeout requeues recorded for a job never
  exceed the configured number of retries (or what they were before the sweep).
\<close>

theorem timeout_requeues_bounded:
  "int (timeout_count (s_db (checkTimeouts env cfg s)) i) \<le>
     max (int (timeout_count (s_db s) i)) (MaxTimeoutRetries cfg)"
  using timeout_loop_budget [of env cfg _ s i] by (simp add: checkTimeouts_def split: sum.split)

end
