(* ===== verification/NotificationGuarantees.thy ===== *)
theory NotificationGuarantees
  imports TimeoutGuarantees
begin

section \<open>Every terminal job is notified exactly once\<close>

text \<open>
  The terminal hook releases the client's quota slot and wakes the job's waiters, so a job that ends must run it
  once, whichever writer ended it. The state of the whole server moves by the store's
  own operations and by the scheduler's events; both keep the notification log in step with the table.
\<close>

definition term_ids :: "database \<Rightarrow> string set" where
  "term_ids d = j_id ` {j \<in> set (jobs d). IsTerminalStatus (j_status j)}"

text \<open>The ids newly notified between two databases are the ids that newly ended, each once.\<close>

definition logs :: "database \<Rightarrow> database \<Rightarrow> bool" where
  "logs d d' \<longleftrightarrow> (\<exists>new. terminal_log d' = terminal_log d @ new \<and> distinct new \<and>
     set new \<inter> term_ids d = {} \<and> term_ids d' = term_ids d \<union> set new)"

lemma logs_trans: "logs d e \<Longrightarrow> logs e f \<Longrightarrow> logs d f"
  unfolding logs_def by (elim exE conjE, rule_tac x = "new @ newa" in exI) auto

lemma logs_same: "jobs d' = jobs d \<Longrightarrow> terminal_log d' = terminal_log d \<Longrightarrow> logs d d'"
  by (auto simp: logs_def term_ids_def)

lemma term_ids_upd:
  assumes "jobs d' = upd_where P f (jobs d)" and "\<And>j. j_id (f j) = j_id j"
    and "\<And>j. P j \<Longrightarrow> \<not> IsTerminalStatus (j_status j)"
  shows "term_ids d' = term_ids d \<union> j_id ` {j \<in> set (jobs d). P j \<and> IsTerminalStatus (j_status (f j))}"
  using assms(3) unfolding term_ids_def assms(1) upd_where_def
  by (auto simp: image_iff assms(2) split: if_splits) (metis Int_iff mem_Collect_eq assms(2))+

lemma logs_quiet:
  assumes "jobs d' = upd_where P f (jobs d)" and "terminal_log d' = terminal_log d"
    and "\<And>j. j_id (f j) = j_id j"
    and "\<And>j. P j \<Longrightarrow> \<not> IsTerminalStatus (j_status j) \<and> \<not> IsTerminalStatus (j_status (f j))"
  shows "logs d d'"
  using term_ids_upd [OF assms(1,3)] assms(2,4) by (auto simp: logs_def)

lemma logs_final:
  assumes "db_ok d" and "jobs d' = upd_where P f (jobs d)" and "terminal_log d' = terminal_log d @ ids"
    and "mset ids = mset (map j_id (filter P (jobs d)))" and "\<And>j. j_id (f j) = j_id j"
    and "\<And>j. P j \<Longrightarrow> \<not> IsTerminalStatus (j_status j) \<and> IsTerminalStatus (j_status (f j))"
  shows "logs d d'"
proof -
  have s: "set ids = j_id ` {j \<in> set (jobs d). P j}" using mset_eq_setD [OF assms(4)] by simp
  have "distinct (map j_id (filter P (jobs d)))"
    using assms(1) by (auto simp: db_ok_def intro: distinct_map_filter)
  with assms(4) have "distinct ids" by (metis mset_eq_imp_distinct_iff)
  moreover have "set ids \<inter> term_ids d = {}"
    using assms(1,6) by (auto simp: s term_ids_def db_ok_def distinct_map inj_on_def)
  moreover have "term_ids d' = term_ids d \<union> set ids"
    using term_ids_upd [OF assms(2,5)] assms(6) by (auto simp: s)
  ultimately show ?thesis using assms(3) by (auto simp: logs_def)
qed

lemma distinct_singleton_list: "distinct xs \<Longrightarrow> set xs = {a} \<Longrightarrow> xs = [a]"
  by (cases xs; cases "tl xs") auto

lemma logs_final_one:
  assumes "db_ok d" and "jobs d' = upd_where P f (jobs d)" and "terminal_log d' = terminal_log d @ [i]"
    and "rows_affected P (jobs d) \<noteq> 0" and "\<And>j. j_id (f j) = j_id j"
    and "\<And>j. P j \<Longrightarrow> j_id j = i \<and> \<not> IsTerminalStatus (j_status j) \<and> IsTerminalStatus (j_status (f j))"
  shows "logs d d'"
proof (rule logs_final [OF assms(1-3) _ assms(5)])
  obtain j where j: "j \<in> set (jobs d)" "P j" using assms(4) by (auto simp: rows_affected_0)
  have "distinct (map j_id (filter P (jobs d)))"
    using assms(1) by (auto simp: db_ok_def intro: distinct_map_filter)
  moreover have "set (map j_id (filter P (jobs d))) = {i}" using j assms(6) by auto
  ultimately have "map j_id (filter P (jobs d)) = [i]"
    by (rule distinct_singleton_list)
  then show "mset [i] = mset (map j_id (filter P (jobs d)))" by simp
qed (use assms(6) in auto)

subsection \<open>The operations of the store\<close>

lemma owned_not_terminal: "owned_active i w j \<Longrightarrow> j_id j = i \<and> \<not> IsTerminalStatus (j_status j)"
  by (auto simp: owned_active_def active_def)

lemma cancellable_not_terminal: "cancellable j \<Longrightarrow> \<not> IsTerminalStatus (j_status j)"
  by (auto simp: cancellable_def active_def)

lemma new_row_status [simp]:
  "j_status (new_job_row i now spec) = JobStatusPending"
  "j_status (failed_job_row i now spec ft m) = JobStatusFailed"
  by (simp_all add: new_job_row_def failed_job_row_def)

lemma row_status [simp]:
  "j_status (terminal_report now w n s ec em ft' fd c j) = s"
  "j_status (running_report now ec em ft' fd j) = JobStatusRunning"
  "j_status (claim_row now w n j) = JobStatusQueued"
  "j_status (requeue_row now j) = JobStatusPending" "j_status (reset_row now j) = JobStatusPending"
  "j_status (fail_row now m ft j) = JobStatusFailed" "j_status (budget_row now j) = JobStatusFailed"
  "j_status (starved_row now e m ft j) = JobStatusFailed" "j_status (stuck_row now m ft j) = JobStatusFailed"
  by (simp_all add: terminal_report_def running_report_def claim_row_def requeue_row_def reset_row_def
      fail_row_def budget_row_def starved_row_def stuck_row_def Let_def)

lemma term_ids_append:
  "jobs d' = jobs d @ [r] \<Longrightarrow>
   term_ids d' = term_ids d \<union> (if IsTerminalStatus (j_status r) then {j_id r} else {})"
  by (auto simp: term_ids_def image_iff)

lemma logs_create: "logs d (snd (CreateJobWithStreaming ok ok' i now spec d))"
  by (auto simp: CreateJobWithStreaming_def Let_def logs_def term_ids_append [where r = "new_job_row i now spec"])

lemma logs_create_failed: "logs d (snd (CreateFailedJob ok ok' i now spec ft m d))"
proof (cases "ok \<and> find_job i d = None")
  case True
  then have "i \<notin> term_ids d" by (auto simp: term_ids_def find_row_None)
  with True show ?thesis
    by (auto simp: CreateFailedJob_def Let_def logs_def term_ids_append [where d = d and r = "failed_job_row i now spec ft m"]
        intro!: exI [of _ "[i]"])
qed (auto simp: CreateFailedJob_def logs_same)

lemma logs_terminal:
  assumes "db_ok d" and "IsTerminalStatus s"
  shows "logs d (snd (UpdateJobTerminalStatusWithOwnerAndCache ok now i w s ec em ft fd c d))"
proof (cases "ok \<and> rows_affected (owned_active i w) (jobs d) \<noteq> 0")
  case True
  show ?thesis
    by (rule logs_final_one [where P = "owned_active i w" and i = i and
          f = "terminal_report now w (worker_name_of w d) s ec em ft fd (if s \<noteq> JobStatusCompleted then False else c)"])
      (use True assms in \<open>simp_all add: UpdateJobTerminalStatusWithOwnerAndCache_def Let_def owned_not_terminal\<close>)
qed (auto simp: UpdateJobTerminalStatusWithOwnerAndCache_def logs_same)

lemma logs_running: "logs d (snd (UpdateJobRunningStatusWithOwner ok now i w ec em ft fd d))"
  unfolding UpdateJobRunningStatusWithOwner_def
  by (auto simp: logs_same dest: owned_not_terminal intro: logs_quiet [where P = "owned_active i w"])

lemma logs_progress: "logs d (snd (UpdateJobProgressWithOwner up ok ok' now i w p e d))"
proof -
  have "logs d (upd_jobs (\<lambda>j. owned_active i w j \<and> j_progress_percent j \<le> p)
      (\<lambda>j. j\<lparr>j_progress_percent := p, j_eta_seconds := e, j_updated_at := now\<rparr>) d)"
    by (rule logs_quiet [OF upd_jobs_sel(1)]) (auto dest: owned_not_terminal)
  then show ?thesis
    by (simp add: UpdateJobProgressWithOwner_def Let_def logs_same split: option.split)
qed

lemma logs_output: "logs d (snd (UpdateJobOutputWithOwner ok ok' now i w fs d))"
proof -
  have "logs d (upd_jobs (owned_active i w) (\<lambda>j. j\<lparr>j_output_files := fs, j_updated_at := now\<rparr>) d)"
    by (rule logs_quiet [OF upd_jobs_sel(1)]) (auto dest: owned_not_terminal)
  then show ?thesis by (simp add: UpdateJobOutputWithOwner_def logs_same split: sum.split)
qed

lemma logs_claim: "logs d (upd_jobs (claimable i) (claim_row now w n) d)"
  by (rule logs_quiet [OF upd_jobs_sel(1)]) (auto simp: claimable_def)

lemma logs_assign: "logs d (snd (AssignJobToWorker ok now i w d))"
  by (simp add: AssignJobToWorker_def logs_claim logs_same)

lemma logs_claim_jobs: "logs d (snd (claim_jobs now w n js d))"
  by (induction js arbitrary: d)
    (auto simp: logs_same Let_def split_beta intro: logs_trans [OF logs_claim])

lemma record_targets_log [simp]: "terminal_log (record_targets okr w n js d) = terminal_log d"
  by (induction js arbitrary: d) simp_all

lemma logs_pull: "logs d (snd (AssignPendingJobsToWorker up okw oktx okr now w m d))"
  unfolding AssignPendingJobsToWorker_def Let_def split_beta
  by (auto simp: logs_same intro!: logs_trans [OF logs_claim_jobs logs_same])

lemma logs_cancel:
  assumes "db_ok d"
  shows "logs d (snd (CancelJob ok ok' now i d))"
proof (cases "ok \<and> rows_affected (\<lambda>j. j_id j = i \<and> cancellable j) (jobs d) \<noteq> 0")
  case True
  show ?thesis
    by (rule logs_final_one [where P = "\<lambda>j. j_id j = i \<and> cancellable j" and i = i and
          f = "\<lambda>j. j\<lparr>j_status := JobStatusCancelled, j_updated_at := now, j_finished_at := Some now\<rparr>"])
      (use True assms in \<open>simp_all add: CancelJob_def Let_def cancellable_not_terminal\<close>)
qed (auto simp: CancelJob_def Let_def logs_same split: sum.split)

lemma logs_fail:
  assumes "db_ok d"
  shows "logs d (snd (FailJob ok ok' now i m ft d))"
proof (cases "ok \<and> rows_affected (\<lambda>j. j_id j = i \<and> cancellable j) (jobs d) \<noteq> 0")
  case True
  show ?thesis
    by (rule logs_final_one [where P = "\<lambda>j. j_id j = i \<and> cancellable j" and i = i and f = "fail_row now m ft"])
      (use True assms in \<open>simp_all add: FailJob_def Let_def cancellable_not_terminal\<close>)
qed (auto simp: FailJob_def Let_def logs_same split: sum.split)

lemma logs_requeue_running:
  "logs d (upd_jobs (\<lambda>j. j_id j = i \<and> j_status j = JobStatusRunning) (requeue_row now) d)"
  by (rule logs_quiet [OF upd_jobs_sel(1)]) auto

lemma logs_reschedule: "logs d (snd (RescheduleJob ok ok' now i d))"
  by (simp add: RescheduleJob_def Let_def logs_requeue_running logs_same split: sum.split)

lemma logs_timeout_migration: "logs d (snd (RecordJobTimeoutMigration ok now eid uids w i n d))"
  by (auto simp: RecordJobTimeoutMigration_def Let_def logs_same
      intro!: logs_trans [OF logs_requeue_running logs_same])

lemma logs_recover: "logs d (snd (RecoverState ok now d))"
  by (auto simp: RecoverState_def logs_same active_def intro!: logs_quiet [where P = active and f = "requeue_row now"])

lemma term_ids_map:
  assumes "jobs d' = map g (jobs d)" and "\<And>j. j_id (g j) = j_id j"
  shows "term_ids d' = j_id ` {j \<in> set (jobs d). IsTerminalStatus (j_status (g j))}"
  by (auto simp: term_ids_def assms image_iff) (metis assms(2))

lemma held_not_terminal: "held w j \<Longrightarrow> \<not> IsTerminalStatus (j_status j)"
  by (auto simp: held_def active_def)

lemma logs_migrate:
  assumes ok: "db_ok d"
  shows "logs d (snd (MigrateJobsFromWorker up okm now eid uids w r m d))"
proof (cases "okm \<and> (\<exists>x. find_worker (NormalizeWorkerID up w) d = Some x \<and> w_status x = WorkerStatusOffline)")
  case False
  then have "snd (MigrateJobsFromWorker up okm now eid uids w r m d) = d"
    by (auto simp: MigrateJobsFromWorker_def Let_def split: option.split)
  then show ?thesis by (simp add: logs_same)
next
  case True
  define wid where "wid = NormalizeWorkerID up w"
  from True obtain x where x: "find_worker (NormalizeWorkerID up w) d = Some x" "w_status x = WorkerStatusOffline" by blast
  let ?d2 = "migrated_db now eid uids wid (w_name x) r m d"
  let ?d' = "notify_all (map fst (to_fail m d wid)) (snd (budget_loop now wid (to_fail m d wid) ?d2))"
  have d': "snd (MigrateJobsFromWorker up okm now eid uids w r m d) = ?d'"
    using migrate_offline_eq [OF ok x, of now eid uids r m] True by (simp add: Let_def wid_def)
  note J = both_loops_jobs [OF ok migrated_db_jobs [of now eid uids wid "w_name x" r m d]]
  have "terminal_log ?d2 = terminal_log d" by (simp add: migrated_db_def Let_def)
  moreover have t: "term_ids ?d' = term_ids d \<union> set (map fst (to_fail m d wid))"
    by (subst term_ids_map [where d = d and g = "\<lambda>j. if held wid j then (if over_budget m d j then budget_row now j else reset_row now j) else j"])
      (auto simp: J snapshot_ids term_ids_def dest: held_not_terminal)
  moreover have "set (map fst (to_fail m d wid)) \<inter> term_ids d = {}"
    using ok by (auto simp: snapshot_ids [THEN conjunct2] term_ids_def db_ok_def distinct_map inj_on_def dest: held_not_terminal)
  ultimately show ?thesis
    using distinct_snapshot [OF ok] unfolding d' logs_def by (intro exI [of _ "map fst (to_fail m d wid)"]) simp
qed

lemmas logs_ops = logs_create logs_create_failed logs_terminal logs_running logs_progress logs_output
  logs_assign logs_pull logs_cancel logs_reschedule logs_fail logs_timeout_migration logs_recover
  logs_migrate logs_same

lemma store_step_logs: "store_step d d' \<Longrightarrow> db_ok d \<Longrightarrow> logs d d'"
  by (induction rule: store_step.induct) (blast intro: logs_ops)+

subsection \<open>The scheduler's events\<close>

text \<open>Both at once, for the steps of the scheduler.\<close>

definition settles :: "database \<Rightarrow> database \<Rightarrow> bool" where
  "settles d d' \<longleftrightarrow> (db_ok d \<longrightarrow> moves d d' \<and> logs d d')"

lemma settles_refl: "settles d d"
  by (simp add: settles_def logs_same)

lemma settles_trans: "settles d e \<Longrightarrow> settles e f \<Longrightarrow> settles d f"
  unfolding settles_def by (meson logs_trans moves_trans moves_ok)

lemma settles_same: "jobs d' = jobs d \<Longrightarrow> terminal_log d' = terminal_log d \<Longrightarrow> settles d d'"
  by (simp add: settles_def logs_same moves_jobs_eq)

lemma store_settles: "store_step d d' \<Longrightarrow> settles d d'"
  by (simp add: settles_def store_step_moves store_step_logs)

lemma scheduleJob_settles: "settles d (snd (scheduleJob env cfg job d))"
proof (cases "choose_worker env cfg job d")
  case None
  then show ?thesis by (simp add: scheduleJob_def settles_refl)
next
  case (Some w)
  obtain r d' where a: "AssignJobToWorker (e_ok env (AssignCall (j_id job))) (e_now env (AssignCall (j_id job)))
      (j_id job) (w_id w) d = (r, d')" by fastforce
  then have s: "settles d d'" by (metis op_assign snd_conv store_settles)
  moreover have "settles d' (snd (RecordMigrationTarget okt i x n d'))" for okt i x n
    by (rule settles_same) simp_all
  ultimately show ?thesis
    by (cases r) (auto simp: scheduleJob_def Some a intro: settles_trans)
qed

lemma schedule_loop_settles: "settles d (schedule_loop env cfg js d)"
  by (induction js arbitrary: d) (auto intro: settles_refl settles_trans scheduleJob_settles)

lemma schedulePendingJobs_settles: "settles (s_db s) (s_db (schedulePendingJobs env cfg s))"
  by (simp add: schedulePendingJobs_def settles_refl schedule_loop_settles split: sum.split)

lemma check_timeout_settles: "settles (s_db s) (s_db (check_timeout env cfg job s))"
  unfolding check_timeout_db by (auto intro: settles_refl store_settles op_fail op_timeout_migration)

lemma timeout_loop_settles: "settles (s_db s) (s_db (timeout_loop env cfg js s))"
  by (induction js arbitrary: s) (auto intro: settles_refl settles_trans check_timeout_settles)

lemma checkTimeouts_settles: "settles (s_db s) (s_db (checkTimeouts env cfg s))"
  by (simp add: checkTimeouts_def settles_refl timeout_loop_settles split: sum.split)

lemma starved_then_notify:
  assumes F: "FailStarvedPendingJobs True now cutoff cs m1 m2 d = (Inr ids, d')"
  shows "settles d (notify_all ids d')"
proof -
  let ?P = "\<lambda>j. j_id j \<in> crashed_ids cs \<union> other_ids cs \<and> starved cutoff j"
  let ?f = "\<lambda>j. if j_id j \<in> crashed_ids cs then starved_row now (-1) m2 FailureWorkerCrash j
                else starved_row now (-1) m1 FailureNoWorkerAvailable j"
  note S = FailStarvedPendingJobs_spec [OF F]
  have J: "jobs (notify_all ids d') = upd_where ?P ?f (jobs d)"
    using S by (auto simp: upd_where_def)
  have tl: "terminal_log d' = terminal_log d"
    using F by (auto simp: FailStarvedPendingJobs_def Let_def split_beta failStarvedJobsChunked_spec)
  have "logs d (notify_all ids d')" if "db_ok d"
    by (rule logs_final [OF that J]) (use S tl in \<open>auto simp: starved_def pendingUnassigned_def\<close>)
  moreover have "db_ok d \<Longrightarrow> moves d d'" using moves_starved [of d True now cutoff cs m1 m2] F by simp
  ultimately show ?thesis by (simp add: settles_def)
qed

lemma stuck_then_notify:
  assumes F: "FailStuckActiveJobs True now staleAfter cs m1 m2 d = (Inr ids, d')"
  shows "settles d (notify_all ids d')"
proof -
  let ?t = "now - staleAfter"
  let ?A = "\<lambda>j. j_id j \<in> crashed_ids cs \<and> stuck_guard d True ?t j"
  let ?P = "\<lambda>j. ?A j \<or> j_id j \<in> other_ids cs \<and> stuck_guard d False ?t j"
  let ?f = "\<lambda>j. if ?A j then stuck_row now m2 FailureWorkerCrash j else stuck_row now m1 FailureInfra j"
  note S = FailStuckActiveJobs_spec [OF F]
  have J: "jobs (notify_all ids d') = upd_where ?P ?f (jobs d)"
    using S [THEN conjunct1] by (auto simp: upd_where_def)
  have tl: "terminal_log d' = terminal_log d"
    using F by (auto simp: FailStuckActiveJobs_def Let_def split_beta failStuckJobsChunked_spec)
  have nt: "stuck_guard d c t j \<Longrightarrow> \<not> IsTerminalStatus (j_status j)" for c t j
    by (auto simp: stuck_guard_def stale_active_def active_def)
  have "logs d (notify_all ids d')" if "db_ok d"
    by (rule logs_final [OF that J]) (use S [THEN conjunct2, THEN conjunct1] tl nt in auto)
  moreover have "db_ok d \<Longrightarrow> moves d d'" using moves_stuck [of d True now staleAfter cs m1 m2] F by simp
  ultimately show ?thesis by (simp add: settles_def)
qed

lemma checkNoWorkerStarvation_settles: "settles (s_db s) (s_db (checkNoWorkerStarvation env cfg s))"
  by (cases rule: starvation_cases [where env = env and cfg = cfg and s = s])
    (auto simp: settles_refl notify_failed_spec dest: starved_then_notify)

lemma FailStuck_fails [simp]: "FailStuckActiveJobs False now st cs m1 m2 d = (Inl DriverError, d)"
  by (simp add: FailStuckActiveJobs_def Let_def)

lemma sweepStuckJobs_settles: "settles (s_db s) (s_db (sweepStuckJobs env cfg s))"
proof (cases "e_ok env StuckTx")
  case True
  then show ?thesis
    by (auto simp: sweepStuckJobs_def settles_refl notify_failed_spec FailStuckActiveJobs_def [of True] Let_def split_beta
        split: sum.split prod.split intro: stuck_then_notify)
next
  case False
  then show ?thesis by (auto simp: sweepStuckJobs_def settles_refl split: sum.split)
qed

lemma armStarvationWake_settles: "settles (s_db s) (s_db (armStarvationWake env cfg s))"
  using checkNoWorkerStarvation_settles [of "s\<lparr>s_timer := None\<rparr>" env cfg]
  by (auto simp: armStarvationWake_def Let_def settles_refl split: sum.split option.split)

lemma run_event_settles: "settles (s_db s) (s_db (run_event env env' cfg ev s))"
proof (cases ev)
  case ScheduleTick
  then show ?thesis by (simp add: schedulePendingJobs_settles)
next
  case Resched
  then show ?thesis
    using settles_trans [OF schedulePendingJobs_settles [of "s\<lparr>s_resched := False\<rparr>"] armStarvationWake_settles] by simp
next
  case TimeoutTick
  have "settles (s_db s) (s_db (checkNoWorkerStarvation env cfg (sweepStuckJobs env cfg (checkTimeouts env cfg s))))"
    by (rule settles_trans [OF settles_trans [OF checkTimeouts_settles sweepStuckJobs_settles] checkNoWorkerStarvation_settles])
  with TimeoutTick show ?thesis by (auto intro: settles_trans armStarvationWake_settles)
next
  case StarvationWake
  then show ?thesis
    using settles_trans [OF checkNoWorkerStarvation_settles [of "s\<lparr>s_timer := None\<rparr>"] armStarvationWake_settles] by simp
qed

subsection \<open>The server as one system\<close>

inductive server_step :: "database \<Rightarrow> database \<Rightarrow> bool" where
  store: "store_step d d' \<Longrightarrow> server_step d d'"
| scheduler: "server_step (s_db s) (s_db (run_event env env' cfg ev s))"

definition server_init :: "database \<Rightarrow> bool" where
  "server_init d \<longleftrightarrow> jobs d = [] \<and> terminal_log d = []"

definition server_ok :: "database \<Rightarrow> bool" where
  "server_ok d \<longleftrightarrow> db_ok d \<and> distinct (terminal_log d) \<and> set (terminal_log d) = term_ids d"

lemma server_step_settles: "server_step d d' \<Longrightarrow> settles d d'"
  by (induction rule: server_step.induct) (auto intro: store_settles run_event_settles)

lemma settles_server_ok: "settles d d' \<Longrightarrow> server_ok d \<Longrightarrow> server_ok d'"
  by (auto simp: settles_def server_ok_def logs_def dest: moves_ok)

lemma settles_evolves: "settles d d' \<Longrightarrow> server_ok d \<Longrightarrow> evolves d d'"
  by (simp add: settles_def server_ok_def moves_def)

lemma server_init_ok: "server_init d \<Longrightarrow> server_ok d"
  by (simp add: server_init_def server_ok_def db_ok_def term_ids_def)

interpretation server: ordered_system server_init server_step server_ok evolves
  by unfold_locales
    (auto simp: evolves_refl dest: server_init_ok server_step_settles settles_server_ok settles_evolves
      intro: evolves_trans)

text \<open>
  C2: in every state of the server, the terminal hook has run exactly once for each job that has ended, and for no
  other: whichever writer ended it (worker report, cancellation, failed submission, retry budget, migration budget, starvation or
  stuck-job sweep), and in whatever order the handlers, the monitor and the scheduler act.
\<close>

theorem terminal_notified_exactly_once:
  assumes "reach server_init server_step d"
  shows "distinct (terminal_log d) \<and>
    set (terminal_log d) = {j_id j |j. j \<in> set (jobs d) \<and> IsTerminalStatus (j_status j)}"
  using server.reach_inv [OF assms] by (auto simp: server_ok_def term_ids_def)

theorem terminal_notified_exactly_once_witness:
  "terminal_log (snd (CreateFailedJob True True ''a'' 3 ex_spec ''INFRA'' ''e'' (ex_db\<lparr>jobs := []\<rparr>))) = [''a'']"
proof -
  let ?d = "snd (CreateFailedJob True True ''a'' 3 ex_spec ''INFRA'' ''e'' (ex_db\<lparr>jobs := []\<rparr>))"
  have i: "server_init (ex_db\<lparr>jobs := []\<rparr>)" by (simp add: server_init_def ex_db_def)
  have "reach server_init server_step ?d"
    by (rule reach_step, rule reach_init, rule i, rule store, rule op_create_failed)
  from terminal_notified_exactly_once [OF this]
  have "distinct (terminal_log ?d)" "set (terminal_log ?d) = {''a''}"
    by (auto simp: CreateFailedJob_def Let_def)
  then show ?thesis by (rule distinct_singleton_list)
qed

end
