(* ===== verification/ReportGuarantees.thy ===== *)
theory ReportGuarantees
  imports WorkerHandlers NotificationGuarantees
begin

section \<open>Submissions, reports and heartbeats\<close>

text \<open>
  The verdict of a submission against an abstract rule, the all-or-nothing effect of a final report, and what a
  heartbeat recalls.
\<close>

subsection \<open>The verdict of a submission\<close>

datatype verdict = Queue | EncoderMissing | NoWorkers

text \<open>
  The rule: \<open>live\<close> and \<open>sched\<close> are the encoder lists of the live and of all schedulable workers, \<open>family\<close> the requested
  encoder with its stand-ins; an empty request needs no encoder.
\<close>

definition admission :: "string \<Rightarrow> string list \<Rightarrow> string list list \<Rightarrow> string list list \<Rightarrow> verdict" where
  "admission requested family live sched =
     (let offers = list_ex (\<lambda>encs. list_ex (\<lambda>e. e \<in> set encs) family) in
      if requested \<noteq> [] \<and> \<not> offers live
      then (if sched \<noteq> [] \<and> \<not> offers sched then EncoderMissing else NoWorkers)
      else if live = [] then NoWorkers else Queue)"

definition schedulable :: "worker_row \<Rightarrow> bool" where
  "schedulable w \<longleftrightarrow> w_status w \<noteq> WorkerStatusOffline \<and> \<not> w_evicted w"

definition live_encoders :: "time \<Rightarrow> duration \<Rightarrow> database \<Rightarrow> string list list" where
  "live_encoders now window d = map w_encoders (filter (\<lambda>w. schedulable w \<and> heartbeat_fresh now window w) (workers d))"

definition sched_encoders :: "database \<Rightarrow> string list list" where
  "sched_encoders d = map w_encoders (filter schedulable (workers d))"

text \<open>A submission that passes the checks on its fields.\<close>

definition well_formed :: "api_env \<Rightarrow> submit_request \<Rightarrow> bool" where
  "well_formed env req \<longleftrightarrow> rq_input_files req \<noteq> [] \<and> rq_args req \<noteq> [] \<and>
     \<not> list_ex ContainsPathTraversal (rq_direct_path req) \<and> \<not> output_traversal req \<and>
     (rq_direct_path req = [] \<longrightarrow> touch_inputs (ae_touch env) (rq_input_files req))"

text \<open>Every call succeeds, the scans read one clock, and the identifier is fresh.\<close>

definition quiet_env :: "api_env \<Rightarrow> time \<Rightarrow> database \<Rightarrow> bool" where
  "quiet_env env now d \<longleftrightarrow> (\<forall>call. ae_ok env call \<and> ae_now env call = now) \<and> find_job (ae_uid env) d = None"

lemma has_live_iff:
  assumes "quiet_env env now d"
  shows "has_live_encoder cfg env d enc \<longleftrightarrow> list_ex (\<lambda>encs. enc \<in> set encs) (live_encoders now (heartbeatTimeout cfg) d)"
  using assms
  by (auto simp: has_live_encoder_def live_with_encoder_def GetLiveSchedulableWorkersByEncoder_def querySchedulableByEncoder_def
      quiet_env_def live_encoders_def schedulable_def list_ex_iff order_desc_def filter_empty_conv simp flip: set_empty)

lemma has_encoder_iff:
  assumes "quiet_env env now d"
  shows "has_encoder env d enc = Some (list_ex (\<lambda>encs. enc \<in> set encs) (sched_encoders d))"
  using assms
  by (auto simp: has_encoder_def GetSchedulableWorkersByEncoder_def querySchedulableByEncoder_def heartbeat_fresh_def
      quiet_env_def sched_encoders_def schedulable_def list_ex_iff order_desc_def filter_empty_conv simp flip: set_empty)

lemma none_has_iff:
  assumes "quiet_env env now d"
  shows "none_has_encoder env d enc encs \<longleftrightarrow>
    list_all (\<lambda>e. e = enc \<or> \<not> list_ex (\<lambda>es. e \<in> set es) (sched_encoders d)) encs"
  by (induction encs) (auto simp: has_encoder_iff [OF assms])

lemma sched_empty:
  assumes "quiet_env env now d"
  shows "(\<exists>ws. GetSchedulableWorkers (ae_ok env SubmitAllScan) d = Some ws \<and> (ws = [] \<longleftrightarrow> sched_encoders d = []))"
  using assms
  by (auto simp: GetSchedulableWorkers_def quiet_env_def sched_encoders_def schedulable_def order_desc_def filter_empty_conv
      simp flip: set_empty)

lemma live_empty:
  assumes "quiet_env env now d"
  shows "GetLiveSchedulableWorkers (ae_ok env SubmitLiveScan) (ae_now env SubmitLiveScan) window d = Some [] \<longleftrightarrow>
    live_encoders now window d = []"
  using assms
  by (auto simp: GetLiveSchedulableWorkers_def quiet_env_def live_encoders_def schedulable_def order_desc_def filter_empty_conv
      simp flip: set_empty)

lemma fails_iff:
  assumes "quiet_env env now d"
  shows "failAsEncoderUnavailable env enc encs d \<longleftrightarrow>
    sched_encoders d \<noteq> [] \<and> \<not> list_ex (\<lambda>es. list_ex (\<lambda>e. e \<in> set es) (enc # encs)) (sched_encoders d)"
proof -
  obtain ws where "GetSchedulableWorkers (ae_ok env SubmitAllScan) d = Some ws" "ws = [] \<longleftrightarrow> sched_encoders d = []"
    using sched_empty [OF assms] by blast
  then show ?thesis
    by (cases ws) (auto simp: failAsEncoderUnavailable_def has_encoder_iff [OF assms] none_has_iff [OF assms]
        list_ex_iff list_all_iff)
qed

text \<open>
  C18: a submission with valid fields is queued, recorded as failed, or turned away, exactly by the rule: turned away
  without a trace when no live worker can take it, recorded as failed with its encoder named when workers are there but none
  of them, live or not, has the encoder or a stand-in, and otherwise appended to the jobs as pending. Nothing else
  in the jobs table changes, and only the failed one is notified as ended.
\<close>

theorem submit_verdict:
  fixes cfg :: api_config and env :: api_env and req :: submit_request and s :: api
  assumes env: "quiet_env env now (a_db s)" and req: "well_formed env req"
  defines "requested \<equiv> ExtractEncoderFromArgs (Some (rq_args req))"
  defines "verdict \<equiv> admission requested (requested # GetCompatibleEncoders requested)
             (live_encoders now (heartbeatTimeout cfg) (a_db s)) (sched_encoders (a_db s))"
  shows "case SubmitJob cfg env (Some c) (Some req) s of (reply, s') \<Rightarrow>
     reply = (case verdict of
         Queue \<Rightarrow> Success (Submitted (ae_uid env))
       | EncoderMissing \<Rightarrow> Success (SubmittedFailed (ae_uid env))
       | NoWorkers \<Rightarrow> Failure 503 ErrCodeWorkerUnavailable) \<and>
     jobs (a_db s') = jobs (a_db s) @ (case verdict of
         Queue \<Rightarrow> [new_job_row (ae_uid env) now (spec_of env req)]
       | EncoderMissing \<Rightarrow>
           [failed_job_row (ae_uid env) now (spec_of env req) FailureEncoderUnavailable (encoder_errMsg requested)]
       | NoWorkers \<Rightarrow> []) \<and>
     terminal_log (a_db s') = terminal_log (a_db s) @ (if verdict = EncoderMissing then [ae_uid env] else [])"
proof -
  let ?d = "a_db s" and ?live = "live_encoders now (heartbeatTimeout cfg) (a_db s)" and ?sched = "sched_encoders (a_db s)"
  let ?fam = "requested # GetCompatibleEncoders requested"
  let ?offers = "list_ex (\<lambda>encs. list_ex (\<lambda>e. e \<in> set encs) ?fam)"
  have calls: "ae_ok env call" "ae_now env call = now" "find_job (ae_uid env) ?d = None" for call
    using env by (simp_all add: quiet_env_def)
  have fields: "SubmitJob cfg env (Some c) (Some req) s =
      (if requested = [] \<or> ?offers ?live then jobCreate cfg env c req s else rejectEncoder cfg env c req requested s)"
    using req by (auto simp: SubmitJob_def well_formed_def Let_def requested_def has_live_iff [OF env] list_ex_iff)
  have reject: "failAsEncoderUnavailable env requested (GetCompatibleEncoders requested) ?d \<longleftrightarrow> ?sched \<noteq> [] \<and> \<not> ?offers ?sched"
    by (rule fails_iff [OF env])
  have queue: "jobCreate cfg env c req s =
      (if ?live = [] then (Failure 503 ErrCodeWorkerUnavailable, s) else jobCreate cfg env c req s)"
    using live_empty [OF env, of "heartbeatTimeout cfg"] by (simp add: jobCreate_def)
  have created: "?live \<noteq> [] \<Longrightarrow> fst (jobCreate cfg env c req s) = Success (Submitted (ae_uid env))
      \<and> jobs (a_db (snd (jobCreate cfg env c req s))) = jobs ?d @ [new_job_row (ae_uid env) now (spec_of env req)]
      \<and> terminal_log (a_db (snd (jobCreate cfg env c req s))) = terminal_log ?d"
    using live_empty [OF env, of "heartbeatTimeout cfg"] calls
    by (simp add: jobCreate_def db_call_def CreateJobWithStreaming_def GetJob_def Let_def wake_scheduler_def new_job_row_def
        find_row_append)
  have failed: "?sched \<noteq> [] \<and> \<not> ?offers ?sched \<Longrightarrow>
      fst (rejectEncoder cfg env c req requested s) = Success (SubmittedFailed (ae_uid env))
      \<and> jobs (a_db (snd (rejectEncoder cfg env c req requested s))) =
          jobs ?d @ [failed_job_row (ae_uid env) now (spec_of env req) FailureEncoderUnavailable (encoder_errMsg requested)]
      \<and> terminal_log (a_db (snd (rejectEncoder cfg env c req requested s))) = terminal_log ?d @ [ae_uid env]"
    using reject calls
    by (simp add: rejectEncoder_def db_call_def CreateFailedJob_def GetJob_def Let_def failed_job_row_def new_job_row_def
        find_row_append)
  have turned: "\<not> (?sched \<noteq> [] \<and> \<not> ?offers ?sched) \<Longrightarrow>
      rejectEncoder cfg env c req requested s = (Failure 503 ErrCodeWorkerUnavailable, s)"
    using reject by (simp add: rejectEncoder_def)
  have "verdict = (if requested = [] \<or> ?offers ?live then (if ?live = [] then NoWorkers else Queue)
      else if ?sched \<noteq> [] \<and> \<not> ?offers ?sched then EncoderMissing else NoWorkers)"
    unfolding verdict_def admission_def Let_def by argo
  then show ?thesis
    using fields queue created failed turned by (auto simp: split_def split: if_splits)
qed

definition ex_api_cfg :: api_config where
  "ex_api_cfg = \<lparr>heartbeatTimeout = 90, maxJobsPerWorker = 1, noWorkerJobTimeout = 0, timeoutCheckInterval = 0, has_scheduler = True\<rparr>"

definition ex_api_env :: api_env where
  "ex_api_env = \<lparr>ae_ok = \<lambda>_. True, ae_now = \<lambda>_. 5, ae_uid = ''j1'', ae_uuid_parse = \<lambda>_. None, ae_touch = \<lambda>_. Some True,
     ae_marshal = concat, ae_unmarshal = \<lambda>s. [s], ae_busy = False\<rparr>"

definition ex_api :: api where
  "ex_api = \<lparr>a_db = ex_db\<lparr>jobs := []\<rparr>, a_counter = NewInMemoryCounter, a_hub = [], a_table = None, a_scaler = None,
     a_resched = False\<rparr>"

definition ex_request :: submit_request where
  "ex_request = \<lparr>rq_input_files = [''f''], rq_direct_path = [], rq_args = [''-i''], rq_output_filename = ''o'',
     rq_streaming_output = False, rq_timeout = None, rq_auto_hw = False\<rparr>"

definition ex_hevc :: submit_request where
  "ex_hevc = ex_request\<lparr>rq_args := [''-c:v'', ''libx265'']\<rparr>"

theorem submit_verdict_witness:
  "fst (SubmitJob ex_api_cfg ex_api_env (Some ''c'') (Some ex_hevc) ex_api) = Success (SubmittedFailed ''j1'')
    \<and> terminal_log (a_db (snd (SubmitJob ex_api_cfg ex_api_env (Some ''c'') (Some ex_hevc) ex_api))) = [''j1'']"
proof -
  have q: "quiet_env ex_api_env 5 (a_db ex_api)"
    by (simp add: quiet_env_def ex_api_env_def ex_api_def)
  have w: "well_formed ex_api_env ex_hevc"
    by (simp add: well_formed_def ex_hevc_def ex_request_def output_traversal_def ex_api_env_def)
  have enc: "ExtractEncoderFromArgs (Some (rq_args ex_hevc)) = ''libx265''"
    by (simp add: ex_hevc_def ExtractEncoderFromArgs_def names_video_encoder_def passthroughEncoders_def)
  have workers: "live_encoders 5 (heartbeatTimeout ex_api_cfg) (a_db ex_api) = [[]]" "sched_encoders (a_db ex_api) = [[]]"
    by (simp_all add: live_encoders_def sched_encoders_def schedulable_def heartbeat_fresh_def ex_api_cfg_def ex_api_def ex_db_def
        ex_worker_def new_worker_row_def write_caps_def ex_caps_def NewWorkerCapabilities_def)
  have "admission ''libx265'' (''libx265'' # GetCompatibleEncoders ''libx265'') [[]] [[]] = EncoderMissing"
    by (simp add: admission_def list_ex_iff)
  with submit_verdict [OF q w, of ex_api_cfg "''c''"] show ?thesis
    by (simp add: enc workers split_def) (simp add: ex_api_env_def ex_api_def ex_db_def)
qed

subsection \<open>A final report\<close>

lemma owned_precheck:
  assumes "uuid_canonical (ae_uuid_parse env)" "owned_active i (NormalizeWorkerID (ae_uuid_parse env) x) j"
  shows "reporter_owns env (NormalizeWorkerID (ae_uuid_parse env) x) j"
  using assms by (simp add: reporter_owns_def owned_active_def NormalizeWorkerID_idem)

lemma release_none [simp]: "release_ended [] k = k" "ended_since d d = []"
  by (simp_all add: release_ended_def ended_since_def)

lemma db_call_unchanged: "snd (op (a_db s)) = a_db s \<Longrightarrow> snd (db_call op s) = s"
  by (cases "op (a_db s)") (simp add: db_call_def)

text \<open>A report that ends the job, with a valid failure type and no progress.\<close>

definition final_report :: "api_env \<Rightarrow> update_request \<Rightarrow> job_status \<Rightarrow> bool" where
  "final_report env req status \<longleftrightarrow> ParseJobStatus (ur_status req) = Some status \<and> IsTerminalStatus status \<and>
     NormalizeWorkerID (ae_uuid_parse env) (ur_worker_id req) \<noteq> [] \<and>
     (ur_failure_type req \<noteq> [] \<longrightarrow> FailureType_IsValid (ur_failure_type req)) \<and>
     ur_progress req \<le> 0 \<and> ur_eta_seconds req \<le> 0"

lemma db_call_sel [simp]:
  "a_hub (snd (db_call op s)) = a_hub s" "a_db (snd (db_call op s)) = snd (op (a_db s))"
  "fst (db_call op s) = fst (op (a_db s))"
  by (simp_all add: db_call_def split_def)

lemma idle_frame:
  "jobs (snd (SetWorkerIdleIfNoActiveJobs ok now w d)) = jobs d"
  "terminal_log (snd (SetWorkerIdleIfNoActiveJobs ok now w d)) = terminal_log d"
  by (simp_all add: SetWorkerIdleIfNoActiveJobs_def Let_def)

lemma settle_worker_eq:
  "settle_worker cfg env j s = s \<or> (\<exists>w. let s' = snd (db_call (SetWorkerIdleIfNoActiveJobs (ae_ok env UpdateIdle) (ae_now env UpdateIdle) w) s)
     in settle_worker cfg env j s \<in> {s', wake_scheduler cfg s'})"
  by (auto simp: settle_worker_def Let_def split: sum.split option.split prod.split) (metis snd_conv)+

lemma settle_worker_frame [simp]:
  "a_hub (settle_worker cfg env j s) = a_hub s" "jobs (a_db (settle_worker cfg env j s)) = jobs (a_db s)"
  "terminal_log (a_db (settle_worker cfg env j s)) = terminal_log (a_db s)"
  using settle_worker_eq [of cfg env j s] by (auto simp: Let_def wake_scheduler_def idle_frame)

lemma ParseJobStatus_Nil [simp]: "ParseJobStatus [] = None"
  by (simp add: ParseJobStatus_def)


definition ex_report :: update_request where
  "ex_report = \<lparr>ur_worker_id = ''w1'', ur_status = ''completed'', ur_exit_code = 0, ur_error = [], ur_failure_type = [],
     ur_failure_details = [], ur_cached = False, ur_stderr_chunk = ''bye'', ur_stdout_chunk = [], ur_progress = 0,
     ur_eta_seconds = 0, ur_time_us = 0, ur_duration_us = 0, ur_speed = 0\<rparr>"

lemma ex_worker_id: "NormalizeWorkerID (ae_uuid_parse ex_api_env) ''w1'' = ''w1''"
  by (simp add: NormalizeWorkerID_def ex_api_env_def TrimSpace_def is_space_def)

lemma ex_canonical: "uuid_canonical (ae_uuid_parse ex_api_env)"
  by (simp add: uuid_canonical_def ex_api_env_def)

lemma ex_claimed_rows:
  "workers ex_claimed = [ex_worker]" "terminal_log ex_claimed = []"
  "find_job ''a'' ex_claimed = Some (claim_row 5 ''w1'' (Some ''node'') (new_job_row ''a'' 3 ex_spec))"
  "find_job ''b'' ex_claimed = Some (new_job_row ''b'' 1 ex_spec)"
proof -
  have claim: "claimable ''a'' (new_job_row ''a'' 3 ex_spec)" "\<not> claimable ''a'' (new_job_row ''b'' 1 ex_spec)"
    "\<not> claimable ''a'' (new_job_row ''c'' 2 ex_spec)" by (simp_all add: claimable_def new_job_row_def)
  have name: "worker_name_of ''w1'' ex_db = Some ''node''"
    by (simp add: worker_name_of_def ex_db_def ex_worker_def new_worker_row_def write_caps_def)
  have ids: "j_id (claim_row 5 ''w1'' (Some ''node'') (new_job_row ''a'' 3 ex_spec)) = ''a''" "j_id (new_job_row ''b'' 1 ex_spec) = ''b''"
    by (simp_all add: claim_row_def new_job_row_def)
  have "ex_claimed = upd_jobs (claimable ''a'') (claim_row 5 ''w1'' (Some ''node'')) ex_db"
    using claim name by (simp add: ex_claimed_def AssignJobToWorker_def ex_db_def rows_affected_def)
  then have e: "ex_claimed = ex_db\<lparr>jobs := [claim_row 5 ''w1'' (Some ''node'') (new_job_row ''a'' 3 ex_spec),
      new_job_row ''b'' 1 ex_spec, new_job_row ''c'' 2 ex_spec]\<rparr>"
    using claim by (simp add: upd_jobs_def ex_db_def)
  show "workers ex_claimed = [ex_worker]" "terminal_log ex_claimed = []"
    "find_job ''a'' ex_claimed = Some (claim_row 5 ''w1'' (Some ''node'') (new_job_row ''a'' 3 ex_spec))"
    "find_job ''b'' ex_claimed = Some (new_job_row ''b'' 1 ex_spec)"
    by (simp_all add: e ids) (simp_all add: ex_db_def)
qed


text \<open>
  The same report with progress in it: the verdict is written, and then the progress of the job, no longer active, is refused. The
  reply is a conflict and the stream never gets its status or its end.
\<close>

lemma verdict_with_progress_conflicts:
  fixes cfg :: api_config and env :: api_env and req :: update_request and s :: api
  assumes job: "find_job i (a_db s) = Some j" and up: "uuid_canonical (ae_uuid_parse env)"
    and calls: "\<And>call. ae_ok env call"
    and own: "owned_active i (NormalizeWorkerID (ae_uuid_parse env) (ur_worker_id req)) j"
    and rep: "final_report env (req\<lparr>ur_progress := 0, ur_eta_seconds := 0\<rparr>) status" and more: "ur_progress req > 0"
  shows "case UpdateJob cfg env i (Some req) s of (reply, s') \<Rightarrow> reply = Failure 409 ErrCodeConflict \<and>
    terminal_log (a_db s') = terminal_log (a_db s) @ [i] \<and> a_hub s' = a_hub s @ output_calls i req"
proof -
  let ?w = "NormalizeWorkerID (ae_uuid_parse env) (ur_worker_id req)" and ?P = "owned_active i"
  have st: "ParseJobStatus (ur_status req) = Some status" "IsTerminalStatus status" "?w \<noteq> []"
    and valid: "\<not> (ur_failure_type req \<noteq> [] \<and> \<not> FailureType_IsValid (ur_failure_type req))"
    using rep by (auto simp: final_report_def)
  have j: "j \<in> set (jobs (a_db s))" "j_id j = i" using job by (auto dest: find_row_SomeD)
  let ?op = "UpdateJobTerminalStatusWithOwnerAndCache (ae_ok env UpdateWrite) (ae_now env UpdateWrite) i ?w status
    (ur_exit req) (ur_errMsg req) (fst (ur_failure req status)) (snd (ur_failure req status)) (ur_cached req)"
  have hit: "rows_affected (?P ?w) (jobs (a_db s)) \<noteq> 0" using j own by (auto simp: rows_affected_0)
  then obtain f where res: "fst (?op (a_db s)) = Inr ()" "jobs (snd (?op (a_db s))) = upd_where (?P ?w) f (jobs (a_db s))"
      "terminal_log (snd (?op (a_db s))) = terminal_log (a_db s) @ [i]" "\<And>k. j_id (f k) = j_id k" "\<And>k. j_status (f k) = status"
      "\<And>k. j_worker_id (f k) = j_worker_id k"
    using calls by (simp add: UpdateJobTerminalStatusWithOwnerAndCache_def Let_def terminal_report_def)
  have stored: "write_status env i ?w req status s = db_call ?op s" using st by (simp add: write_status_def split_def)
  obtain s1 where s1: "write_status env i ?w req status s = (Inr (), s1)" "a_hub s1 = a_hub s" "a_db s1 = snd (?op (a_db s))"
    using res(1) db_call_sel [of ?op s] unfolding stored by (metis prod.collapse)
  let ?s2 = "to_hub (output_calls i req) (settle_worker cfg env i s1)"
  let ?prog = "UpdateJobProgressWithOwner (ae_uuid_parse env) (ae_ok env ProgressWrite) (ae_ok env ProgressRead)
    (ae_now env ProgressWrite) i ?w (ur_progress req) (ur_eta_seconds req)"
  have "\<not> active (f k)" for k using st(2) active_not_terminal [of "f k"] by (auto simp: res(5))
  then have none: "rows_affected (\<lambda>k. ?P ?w k \<and> j_progress_percent k \<le> ur_progress req) (jobs (a_db ?s2)) = 0"
    using s1(3) res(2) by (auto simp: rows_affected_0 upd_where_def owned_active_def to_hub_def)
  have "find_job i (a_db ?s2) = Some (f j)"
    using find_row_upd_where [of j_id f i "?P ?w"] job own s1(3) res(2,4) by (simp add: to_hub_def)
  moreover have "j_worker_id (f j) = Some ?w" "\<not> active (f j)" using own \<open>\<And>k. \<not> active (f k)\<close> by (simp_all add: res(6) owned_active_def)
  ultimately have "?prog (a_db ?s2) = (Inl ErrJobNotOwned, a_db ?s2)"
    using none calls by (simp add: UpdateJobProgressWithOwner_def Let_def)
  then have refused: "report_progress env i ?w req ?s2 = (Some (Failure 409 ErrCodeConflict), ?s2)"
    using more by (simp add: report_progress_def db_call_def Let_def)
  have "reporter_owns env ?w j" by (rule owned_precheck [OF up own])
  then have "UpdateJob cfg env i (Some req) s = (Failure 409 ErrCodeConflict, ?s2)"
    using st valid calls job s1(1) refused
    by (auto simp: UpdateJob_def Let_def GetJob_def report_status_def)
  then show ?thesis using s1 res(3) by (simp add: to_hub_def)
qed

subsection \<open>What a heartbeat recalls\<close>

text \<open>
  A heartbeat tells a worker to stop exactly the listed jobs it has lost: of the jobs that have not ended, those it does
  not hold, whether requeued, cancelled or given to another worker, and never one it holds; of those that have ended, the
  cancelled ones and those another worker is recorded for. A job the server does not know is left alone.
\<close>

theorem heartbeat_recalls_exactly:
  fixes req :: heartbeat_request
  assumes db: "db_ok (a_db s)" and calls: "\<And>call. ae_ok env call"
    and beat: "WorkerHeartbeat env (Some req) s = (Success ids, s')"
  defines "me \<equiv> NormalizeWorkerID (ae_uuid_parse env) (hr_worker_id req)"
  shows "ids = filter (\<lambda>i. case find_job i (a_db s) of
      None \<Rightarrow> False
    | Some j \<Rightarrow> if IsTerminalStatus (j_status j)
               then j_status j = JobStatusCancelled \<or> (case j_worker_id j of None \<Rightarrow> False | Some w \<Rightarrow> w \<noteq> me)
               else \<not> owned_active i me j) (hr_active_jobs req)"
proof -
  obtain u s1 where call: "db_call (UpdateWorkerHeartbeat (ae_uuid_parse env) (ae_ok env HeartbeatWrite) (ae_now env HeartbeatWrite)
      (hr_worker_id req) (hr_status req)) s = (Inr u, s1)"
    and ids: "ids = filter (recalled env (hr_worker_id req) (a_db (record_sample env req s1))) (hr_active_jobs req)"
    using beat by (auto simp: WorkerHeartbeat_def Let_def split: sum.splits prod.splits option.splits if_splits)
  have "jobs (a_db s1) = jobs (a_db s)"
    using arg_cong [OF call, of "\<lambda>p. jobs (a_db (snd p))"] by (simp add: worker_ops_jobs)
  moreover have "a_db (record_sample env req s1) = a_db s1"
    by (simp add: record_sample_def Let_def split: option.split prod.split)
  moreover have lost: "recalled env (hr_worker_id req) d i \<longleftrightarrow> (case find_job i (a_db s) of
      None \<Rightarrow> False
    | Some j \<Rightarrow> if IsTerminalStatus (j_status j)
               then j_status j = JobStatusCancelled \<or> (case j_worker_id j of None \<Rightarrow> False | Some w \<Rightarrow> w \<noteq> me)
               else \<not> owned_active i me j)" if "jobs d = jobs (a_db s)" for d i
  proof (cases "find_job i (a_db s)")
    case (Some j)
    then have "job_ok j" "j_id j = i" using db by (auto simp: db_ok_def dest: find_row_SomeD)
    then show ?thesis
      using Some that calls
      by (cases "j_status j") (auto simp: recalled_def GetJob_def me_def owned_active_def job_ok_def active_def
          split: option.splits)
  qed (use that calls in \<open>simp add: recalled_def GetJob_def\<close>)
  ultimately have "jobs (a_db (record_sample env req s1)) = jobs (a_db s)" by (simp only:)
  from lost [OF this] show ?thesis unfolding ids by (intro filter_cong refl)
qed

definition ex_beat :: heartbeat_request where
  "ex_beat = \<lparr>hr_worker_id = ''w1'', hr_status = WorkerStatusBusy, hr_active_jobs = [''a'', ''b''], hr_jobs_per_sec = 0,
     hr_completed_jobs = 0, hr_gpu_util_pct = 0, hr_gpu_mem_used_mb = 0, hr_gpu_metrics_valid = False\<rparr>"

theorem heartbeat_recalls_exactly_witness:
  "fst (WorkerHeartbeat ex_api_env (Some ex_beat) (ex_api\<lparr>a_db := ex_claimed\<rparr>)) = Success [''b'']"
proof -
  let ?s = "ex_api\<lparr>a_db := ex_claimed\<rparr>"
  have ok: "ae_ok ex_api_env call" for call by (simp add: ex_api_env_def)
  note rows = ex_claimed_rows
  have known: "w_id ex_worker = ''w1''" "w_status ex_worker = WorkerStatusIdle"
    by (simp_all add: ex_worker_def new_worker_row_def write_caps_def)
  have "\<exists>ids s'. WorkerHeartbeat ex_api_env (Some ex_beat) ?s = (Success ids, s')"
    using ex_worker_id ok rows(1) known
    by (simp add: WorkerHeartbeat_def db_call_def UpdateWorkerHeartbeat_def ex_beat_def rows_affected_def Let_def)
  then obtain ids s' where beat: "WorkerHeartbeat ex_api_env (Some ex_beat) ?s = (Success ids, s')" by blast
  have "ids = [''b'']"
    using heartbeat_recalls_exactly [OF _ ok beat] ex_claimed_ok rows ex_worker_id
    by (simp add: ex_beat_def owned_active_def claim_row_def new_job_row_def active_def)
  with beat show ?thesis by simp
qed

end
