(* ===== verification/QuotaGuarantees.thy ===== *)
theory QuotaGuarantees
  imports RateLimit
begin

section \<open>What the rate limiter guarantees\<close>

text \<open>
  The quota of a client counts exactly the requests and jobs that hold its slots, never passes the limit, and a
  refused or failed submission leaves it as it was.
\<close>

subsection \<open>Every run\<close>

abbreviation quota_run :: "int \<Rightarrow> counter quota \<Rightarrow> counter quota \<Rightarrow> bool" where
  "quota_run \<equiv> quota_step TryIncrement RegisterJob Decrement DecrementByJob"

definition quota_init :: "counter quota \<Rightarrow> bool" where
  "quota_init q \<longleftrightarrow> q = \<lparr>q_counter = NewInMemoryCounter, q_open = {#}, q_live = []\<rparr>"

lemma quota_init_slots: "quota_init q \<Longrightarrow> in_memory.slots_init q"
  by (simp add: quota_init_def in_memory.slots_init_def NewInMemoryCounter_def counter_ok_def Count_def
      client_of_job_def TotalActive_def)

lemma reach_slots: "reach quota_init (quota_run limit) q \<Longrightarrow> reach in_memory.slots_init (quota_run limit) q"
  by (induction rule: reach.induct) (auto intro: reach.intros quota_init_slots)

text \<open>
  In every run of admissions, refusals, acceptances, roll-backs and ends of jobs, in any interleaving, the
  count of a client is exactly its requests in flight plus its accepted jobs that have not ended, it never passes
  the limit, the total is the sum over all clients, and a new submission of the client is admitted exactly while it holds
  fewer slots than the limit.
\<close>

theorem quota_accounts_exactly:
  assumes "reach quota_init (quota_run limit) q"
  shows "Count (q_counter q) c = int (count (q_open q) c) + int (length (filter (\<lambda>e. snd e = c) (q_live q)))
    \<and> Count (q_counter q) c \<le> max 0 limit
    \<and> TotalActive (q_counter q) = int (size (q_open q)) + int (length (q_live q))
    \<and> (snd (fst (TryIncrement c limit (q_counter q))) \<longleftrightarrow>
         int (count (q_open q) c) + int (length (filter (\<lambda>e. snd e = c) (q_live q))) < limit)"
proof -
  have "in_memory.slots_within limit q"
    using reach_slots [OF assms] by (rule in_memory.slots.reach_inv)
  then have ok: "in_memory.slots_ok q" and le: "Count (q_counter q) c \<le> max 0 limit"
    by (simp_all add: in_memory.slots_within_def)
  have "counter_ok (q_counter q)"
    and n: "Count (q_counter q) c = int (count (q_open q) c) + int (length (filter (\<lambda>e. snd e = c) (q_live q)))"
    and t: "TotalActive (q_counter q) = int (size (q_open q)) + int (length (q_live q))"
    using ok by (simp_all add: in_memory.slots_ok_def)
  with in_memory.incr_allowed [of "q_counter q" c limit] le show ?thesis by simp
qed

theorem quota_accounts_exactly_witness:
  "\<exists>q :: counter quota. q_live q = [(''j1'', ''c'')] \<and> q_open q = {#''c''#} \<and> Count (q_counter q) ''c'' = 2
     \<and> \<not> snd (fst (TryIncrement ''c'' 2 (q_counter q)))"
proof -
  let ?s1 = "NewInMemoryCounter\<lparr>c_counts := [(''c'', 1)]\<rparr>"
  let ?s2 = "?s1\<lparr>c_job_client := [(''j1'', ''c'')]\<rparr>"
  let ?s3 = "?s2\<lparr>c_counts := [(''c'', 2)]\<rparr>"
  let ?q = "\<lambda>s m l. \<lparr>q_counter = s, q_open = m, q_live = l\<rparr>"
  have "reach quota_init (quota_run 2) (?q NewInMemoryCounter {#} [])"
    by (rule reach_init) (simp add: quota_init_def)
  moreover have "quota_run 2 (?q NewInMemoryCounter {#} []) (?q ?s1 {#''c''#} [])"
    using op_admit [of TryIncrement "''c''" 2 "?q NewInMemoryCounter {#} []" 1 ?s1]
    by (simp add: TryIncrement_def Count_def NewInMemoryCounter_def)
  moreover have "quota_run 2 (?q ?s1 {#''c''#} []) (?q ?s2 {#} [(''j1'', ''c'')])"
    using op_accept [of "''c''" "?q ?s1 {#''c''#} []" "''j1''" TryIncrement RegisterJob Decrement DecrementByJob 2] by (simp add: RegisterJob_def NewInMemoryCounter_def)
  moreover have "quota_run 2 (?q ?s2 {#} [(''j1'', ''c'')]) (?q ?s3 {#''c''#} [(''j1'', ''c'')])"
    using op_admit [of TryIncrement "''c''" 2 "?q ?s2 {#} [(''j1'', ''c'')]" 2 ?s3]
    by (simp add: TryIncrement_def Count_def NewInMemoryCounter_def)
  ultimately have r: "reach quota_init (quota_run 2) (?q ?s3 {#''c''#} [(''j1'', ''c'')])"
    by (blast intro: reach_step)
  from quota_accounts_exactly [OF r, of "''c''"] show ?thesis
    by (intro exI [of _ "?q ?s3 {#''c''#} [(''j1'', ''c'')]"]) simp
qed

subsection \<open>The middlewares\<close>

lemma rw_written: "fold (rw_step dec k) calls (True, s) = (True, s)"
  by (induction calls) (auto simp: rw_step_def split: rw_call.split)

definition first_fails :: "rw_call list \<Rightarrow> bool" where
  "first_fails calls = (case calls of WriteHeader st # _ \<Rightarrow> failure_status st | _ \<Rightarrow> False)"

lemma rw_fold:
  "snd (fold (rw_step dec k) calls (False, s)) = (if first_fails calls then snd (dec k s) else s)"
  by (cases calls) (auto simp: rw_step_def rw_written first_fails_def split: rw_call.split)

text \<open>
  A submission at the limit is refused with the current count and limit, without running the handler. An
  admitted one costs exactly one slot unless the first status the handler writes is a failure; then exactly one slot is given
  back, however many writer calls follow. A probe gives its slot back whatever it answers.
\<close>

theorem middleware_slot_accounting:
  assumes "counter_ok s" and "rc_enabled cfg" and "\<And>x. snd (h x) = x"
  shows "if rc_limit cfg \<le> Count s k
    then JobSubmitMiddleware TryIncrement Decrement cfg k h s =
           (RateLimited (Count s k) (rc_limit cfg), s\<lparr>c_rejected := c_rejected s + 1\<rparr>)
         \<and> ProbeMiddleware TryIncrement Decrement cfg k h s =
           (RateLimited (Count s k) (rc_limit cfg), s\<lparr>c_rejected := c_rejected s + 1\<rparr>)
    else (let s' = snd (TryIncrement k (rc_limit cfg) s) in
           Count (snd (JobSubmitMiddleware TryIncrement Decrement cfg k h s)) x =
             Count s x + (if x = k \<and> \<not> first_fails (fst (h s')) then 1 else 0)
         \<and> Count (snd (ProbeMiddleware TryIncrement Decrement cfg k h s)) x = Count s x)"
proof (cases "rc_limit cfg \<le> Count s k")
  case True
  then show ?thesis
    using assms(2) by (simp add: JobSubmitMiddleware_def ProbeMiddleware_def TryIncrement_def Let_def)
next
  case False
  obtain s1 where incr: "TryIncrement k (rc_limit cfg) s = ((Count s k + 1, True), s1)"
    using False by (simp add: TryIncrement_def Let_def)
  have ok: "counter_ok s1" using in_memory.wf_ops [OF assms(1), of k "rc_limit cfg"] incr by simp
  have inc: "Count s1 x = Count s x + (if x = k then 1 else 0)" for x
    using in_memory.incr_count [OF assms(1), of k "rc_limit cfg" x] False incr by (simp add: not_le)
  obtain calls where h: "h s1 = (calls, s1)" using assms(3) [of s1] by (cases "h s1") simp
  have undone: "Count (snd (Decrement k s1)) x = Count s x"
    using release_slot(2) [OF ok, of k x] inc Count_nonneg [OF assms(1), of k] by (auto simp: max_def)
  show ?thesis
    using False assms(2) undone inc [of x] inc [of k]
    by (simp add: JobSubmitMiddleware_def ProbeMiddleware_def Let_def incr h rw_fold)
qed

theorem middleware_slot_accounting_witness:
  "Count (snd (JobSubmitMiddleware TryIncrement Decrement DefaultRuntimeConfig ''c''
      (\<lambda>x. ([WriteHeader 503, WriteBody, WriteHeader 500], x)) NewInMemoryCounter)) ''c'' = 0"
proof -
  have "counter_ok NewInMemoryCounter" by (simp add: NewInMemoryCounter_def counter_ok_def)
  from middleware_slot_accounting [OF this, of DefaultRuntimeConfig "\<lambda>x. ([WriteHeader 503, WriteBody, WriteHeader 500], x)" "''c''" "''c''"]
  show ?thesis
    by (simp add: DefaultRuntimeConfig_def Count_def NewInMemoryCounter_def Let_def first_fails_def failure_status_def)
qed

end
