(* ===== verification/HandlerGuarantees.thy ===== *)
theory HandlerGuarantees
  imports ReportGuarantees QuotaGuarantees
begin

section \<open>What the endpoints guarantee\<close>

text \<open>
  The handlers, the terminal hook and the counter together: a client's quota is exactly its jobs that have not ended.
  Then the verdict of a submission, and the effect of a worker's report.
\<close>

subsection \<open>The submission endpoint behind its middleware\<close>

definition api_incr :: "string \<Rightarrow> int \<Rightarrow> api \<times> 'r \<Rightarrow> (int \<times> bool) \<times> api \<times> 'r" where
  "api_incr c limit p = (case TryIncrement c limit (a_counter (fst p)) of (r, k) \<Rightarrow> (r, ((fst p)\<lparr>a_counter := k\<rparr>, snd p)))"

definition api_dec :: "string \<Rightarrow> api \<times> 'r \<Rightarrow> int \<times> api \<times> 'r" where
  "api_dec c p = (case Decrement c (a_counter (fst p)) of (r, k) \<Rightarrow> (r, ((fst p)\<lparr>a_counter := k\<rparr>, snd p)))"

text \<open>\<^verbatim>\<open>writeJSON\<close> sets the status and writes the body.\<close>

definition writeJSON :: "'a reply \<Rightarrow> rw_call list" where
  "writeJSON r = [WriteHeader (case r of Success a \<Rightarrow> 200 | Failure st e \<Rightarrow> st), WriteBody]"

definition SubmitEndpoint ::
  "api_config \<Rightarrow> runtime_config \<Rightarrow> api_env \<Rightarrow> string \<Rightarrow> string option \<Rightarrow> submit_request option \<Rightarrow> api \<Rightarrow>
   response \<times> api \<times> submit_result reply option" where
  "SubmitEndpoint cfg rcfg env c client body s =
     JobSubmitMiddleware api_incr api_dec rcfg c
       (\<lambda>p. case SubmitJob cfg env client body (fst p) of (r, s) \<Rightarrow> (writeJSON r, (s, Some r))) (s, None)"

subsection \<open>Steps of the server\<close>

text \<open>
  Requests one at a time, with any environment, and between them the steps of the scheduler and of the other writers. The
  second component lists the accepted jobs with their clients, newest first. \<open>c\<close> is the client of the token, not empty.
\<close>

inductive front_step :: "api_config \<Rightarrow> int \<Rightarrow> api \<times> (string \<times> string) list \<Rightarrow> api \<times> (string \<times> string) list \<Rightarrow> bool"
  for cfg limit where
  op_submit: "c \<noteq> [] \<Longrightarrow> client = None \<or> client = Some c \<Longrightarrow>
    SubmitEndpoint cfg \<lparr>rc_enabled = True, rc_limit = limit\<rparr> env c client body s = (resp, s', r) \<Longrightarrow>
    front_step cfg limit (s, acc)
      (s', (case r of Some (Success (Submitted j)) \<Rightarrow> (j, c) # acc | _ \<Rightarrow> acc))"
| op_cancel_job: "front_step cfg limit (s, acc) (snd (api_CancelJob env j s), acc)"
| op_update: "front_step cfg limit (s, acc) (snd (UpdateJob cfg env j body' s), acc)"
| op_register_worker: "front_step cfg limit (s, acc) (snd (RegisterWorker cfg env b s), acc)"
| op_heartbeat: "front_step cfg limit (s, acc) (snd (WorkerHeartbeat env hb s), acc)"
| op_pull_jobs: "front_step cfg limit (s, acc) (snd (PullWorkerJobs cfg env w s), acc)"
| op_clear: "front_step cfg limit (s, acc) (snd (ClearEvictionEndpoint env o1 o2 o3 eid now ref s), acc)"
| op_background: "server_step (a_db s) d' \<Longrightarrow> front_step cfg limit (s, acc) (snd (db_call (\<lambda>_. ((), d')) s), acc)"

definition front_init :: "api \<times> (string \<times> string) list \<Rightarrow> bool" where
  "front_init p \<longleftrightarrow> server_init (a_db (fst p)) \<and> a_counter (fst p) = NewInMemoryCounter \<and> snd p = []"

definition live_jobs :: "database \<Rightarrow> (string \<times> string) list \<Rightarrow> (string \<times> string) list" where
  "live_jobs d acc = filter (\<lambda>e. fst e \<notin> term_ids d) acc"

definition slots_of :: "api \<Rightarrow> string multiset \<Rightarrow> (string \<times> string) list \<Rightarrow> counter quota" where
  "slots_of s m acc = \<lparr>q_counter = a_counter s, q_open = m, q_live = live_jobs (a_db s) acc\<rparr>"

definition front_ok :: "int \<Rightarrow> string multiset \<Rightarrow> api \<times> (string \<times> string) list \<Rightarrow> bool" where
  "front_ok limit m p \<longleftrightarrow> server_ok (a_db (fst p)) \<and> in_memory.slots_within limit (slots_of (fst p) m (snd p)) \<and>
     fst ` set (snd p) \<subseteq> j_id ` set (jobs (a_db (fst p)))"

subsection \<open>A database call keeps the accounts\<close>

lemma release_steps:
  assumes "in_memory.slots_within limit \<lparr>q_counter = k, q_open = m, q_live = xs\<rparr>"
  shows "in_memory.slots_within limit
    \<lparr>q_counter = release_ended ids k, q_open = m, q_live = filter (\<lambda>e. fst e \<notin> set ids) xs\<rparr>"
  using assms unfolding release_ended_def
proof (induction ids arbitrary: k xs)
  case (Cons j ids)
  let ?q = "\<lparr>q_counter = k, q_open = m, q_live = xs\<rparr>"
  have "quota_run limit ?q (?q\<lparr>q_counter := snd (DecrementByJob j k), q_live := filter (\<lambda>e. fst e \<noteq> j) xs\<rparr>)"
  proof (cases "j \<in> fst ` set xs")
    case True
    then show ?thesis using op_ended [of j ?q TryIncrement RegisterJob Decrement DecrementByJob limit] by simp
  next
    case False
    then have "filter (\<lambda>e. fst e \<noteq> j) xs = xs" by (auto simp: filter_id_conv image_iff)
    with False show ?thesis using op_ended_other [of j ?q TryIncrement RegisterJob Decrement DecrementByJob limit] by simp
  qed
  from in_memory.slots_within_step [OF Cons.prems this] Cons.IH
    [of "snd (DecrementByJob j k)" "filter (\<lambda>e. fst e \<noteq> j) xs"]
  show ?case by (simp add: filter_filter conj_commute)
qed simp

lemma settles_ids: "settles d d' \<Longrightarrow> db_ok d \<Longrightarrow> j_id ` set (jobs d) \<subseteq> j_id ` set (jobs d')"
proof
  fix i assume st: "settles d d'" "db_ok d" and "i \<in> j_id ` set (jobs d)"
  then have "find_job i d \<noteq> None" by (simp add: find_row_None)
  then obtain j where "find_job i d = Some j" by blast
  with st have "find_job i d' \<noteq> None" by (auto simp: settles_def moves_def evolves_def)
  then show "i \<in> j_id ` set (jobs d')" by (simp add: find_row_None)
qed

lemma db_call_eq:
  "db_call op s = (fst (op (a_db s)), s\<lparr>a_db := snd (op (a_db s)),
     a_counter := release_ended (ended_since (a_db s) (snd (op (a_db s)))) (a_counter s)\<rparr>)"
  by (simp add: db_call_def split_def)

lemma db_call_ok:
  assumes ok: "front_ok limit m (s, acc)" and st: "settles (a_db s) (snd (op (a_db s)))"
  shows "front_ok limit m (snd (db_call op s), acc)"
proof -
  let ?d = "a_db s" and ?d' = "snd (op (a_db s))"
  have so: "server_ok ?d" using ok by (simp add: front_ok_def)
  then have dbok: "db_ok ?d" by (simp add: server_ok_def)
  obtain new where new: "terminal_log ?d' = terminal_log ?d @ new" "term_ids ?d' = term_ids ?d \<union> set new"
    using st dbok by (auto simp: settles_def logs_def)
  have "in_memory.slots_within limit
      \<lparr>q_counter = release_ended new (a_counter s), q_open = m, q_live = filter (\<lambda>e. fst e \<notin> set new) (live_jobs ?d acc)\<rparr>"
    using ok by (intro release_steps) (simp add: front_ok_def slots_of_def)
  moreover have "filter (\<lambda>e. fst e \<notin> set new) (live_jobs ?d acc) = live_jobs ?d' acc"
    by (simp add: live_jobs_def new(2) filter_filter conj_commute)
  moreover have "snd (db_call op s) = s\<lparr>a_db := ?d', a_counter := release_ended new (a_counter s)\<rparr>"
    by (simp add: db_call_eq ended_since_def new(1))
  ultimately show ?thesis
    using ok settles_server_ok [OF st so] subset_trans [OF _ settles_ids [OF st dbok]]
    by (simp add: front_ok_def slots_of_def)
qed

subsection \<open>The handlers keep the accounts\<close>

text \<open>What does not touch the database or the counter.\<close>

lemma front_ok_cong:
  "a_db s' = a_db s \<Longrightarrow> a_counter s' = a_counter s \<Longrightarrow> front_ok limit m (s', acc) = front_ok limit m (s, acc)"
  by (simp add: front_ok_def slots_of_def)

lemma side_effects [simp]:
  "a_db (to_hub cs s) = a_db s" "a_counter (to_hub cs s) = a_counter s"
  "a_db (wake_scheduler cfg s) = a_db s" "a_counter (wake_scheduler cfg s) = a_counter s"
  "a_db (record_sample env req s) = a_db s" "a_counter (record_sample env req s) = a_counter s"
  by (simp_all add: to_hub_def wake_scheduler_def record_sample_def Let_def split: option.split prod.split)

lemma front_ok_side [simp]:
  "front_ok limit m (to_hub cs s, acc) = front_ok limit m (s, acc)"
  "front_ok limit m (wake_scheduler cfg s, acc) = front_ok limit m (s, acc)"
  "front_ok limit m (record_sample env req s, acc) = front_ok limit m (s, acc)"
  by (rule front_ok_cong; simp)+

lemma worker_ops_log:
  "terminal_log (snd (CreateOrUpdateWorker up ok ok'' ok' ni now w n caps t d)) = terminal_log d"
  "terminal_log (snd (UpdateWorkerHeartbeat up ok now w st d)) = terminal_log d"
  "terminal_log (snd (SetWorkerIdleIfNoActiveJobs ok now w d)) = terminal_log d"
  "terminal_log (snd (ClearWorkerEviction up ok eid now w r1 r2 rs d)) = terminal_log d"
  by (simp_all add: CreateOrUpdateWorker_def UpdateWorkerHeartbeat_def SetWorkerIdleIfNoActiveJobs_def
      ClearWorkerEviction_def insert_eviction_event_def Let_def)

text \<open>The operations the handlers call, and the shape of their calls.\<close>

definition settling :: "(database \<Rightarrow> 'r \<times> database) \<Rightarrow> bool" where
  "settling op \<longleftrightarrow> (\<forall>d. settles d (snd (op d)))"

lemma settling_store: "(\<And>d. store_step d (snd (op d))) \<Longrightarrow> settling op"
  by (simp add: settling_def store_settles)

lemma settling_ops [simp, intro]:
  "settling (CancelJob ok ok' now i)"
  "settling (UpdateJobRunningStatusWithOwner ok now i w ec em ft fd)"
  "settling (UpdateJobProgressWithOwner up ok ok' now i w pr eta)"
  "settling (AssignPendingJobsToWorker up ok ok' okr now w n)"
  "settling (CreateJobWithStreaming ok ok' i now spec)"
  "settling (CreateFailedJob ok ok' i now spec f em')"
  "IsTerminalStatus st \<Longrightarrow> settling (UpdateJobTerminalStatusWithOwnerAndCache ok now i w st ec em ft fd c)"
  by (rule settling_store, blast intro: store_step.intros)+

lemma settling_worker_ops [simp, intro]:
  "settling (CreateOrUpdateWorker up ok ok' ok'' ni now w nm caps t)"
  "settling (UpdateWorkerHeartbeat up ok now w wst)"
  "settling (SetWorkerIdleIfNoActiveJobs ok now w)"
  "settling (ClearWorkerEviction up ok eid now w q1 q2 rs)"
  by (simp_all add: settling_def settles_same worker_ops_jobs worker_ops_log)

lemma db_call_keeps: "settling op \<Longrightarrow> front_ok limit m (s, acc) \<Longrightarrow> front_ok limit m (snd (db_call op s), acc)"
  by (simp add: db_call_ok settling_def)

lemma keeps_case:
  assumes "front_ok limit m (snd p, acc)"
    "\<And>e s. front_ok limit m (s, acc) \<Longrightarrow> front_ok limit m (snd (f e s), acc)"
    "\<And>x s. front_ok limit m (s, acc) \<Longrightarrow> front_ok limit m (snd (g x s), acc)"
  shows "front_ok limit m (snd (case p of (Inl e, s) \<Rightarrow> f e s | (Inr x, s) \<Rightarrow> g x s), acc)"
  using assms by (cases p) (auto split: sum.split)

lemma keeps_then:
  assumes "front_ok limit m (snd p, acc)" "\<And>s. front_ok limit m (s, acc) \<Longrightarrow> front_ok limit m (snd (f s), acc)"
  shows "front_ok limit m (snd (case p of (Some r, s) \<Rightarrow> (r, s) | (None, s) \<Rightarrow> f s), acc)"
  using assms by (cases p) (auto split: option.split)

lemma cancel_keeps: "front_ok limit m (s, acc) \<Longrightarrow> front_ok limit m (snd (api_CancelJob env j s), acc)"
  by (auto simp: api_CancelJob_def split: sum.split intro!: keeps_case db_call_keeps)

lemma settle_worker_keeps:
  assumes "front_ok limit m (s, acc)"
  shows "front_ok limit m (settle_worker cfg env j s, acc)"
proof -
  have "front_ok limit m (snd (db_call (SetWorkerIdleIfNoActiveJobs ok now w) s), acc)" for ok now w
    using assms by (simp add: db_call_keeps)
  then show ?thesis
    using assms
    by (auto simp: settle_worker_def split: sum.split option.split prod.split) (metis snd_conv)+
qed

lemma write_status_keeps:
  "front_ok limit m (s, acc) \<Longrightarrow> front_ok limit m (snd (write_status env j w req st s), acc)"
  by (simp add: write_status_def db_call_keeps split: prod.split)

lemma report_status_keeps:
  "front_ok limit m (s, acc) \<Longrightarrow> front_ok limit m (snd (report_status cfg env j w req st s), acc)"
  by (auto simp: report_status_def settle_worker_keeps write_status_keeps split: option.split intro!: keeps_case)

lemma report_progress_keeps:
  assumes "front_ok limit m (s, acc)"
  shows "front_ok limit m (snd (report_progress env j w req s), acc)"
proof -
  let ?op = "UpdateJobProgressWithOwner (ae_uuid_parse env) (ae_ok env ProgressWrite) (ae_ok env ProgressRead)
    (ae_now env ProgressWrite) j w (ur_progress req) (ur_eta_seconds req)"
  have "front_ok limit m (snd (db_call ?op s), acc)" using assms by (simp add: db_call_keeps)
  then show ?thesis
    using assms by (cases "db_call ?op s") (auto simp: report_progress_def Let_def split: sum.split db_error.split)
qed

lemma update_keeps: "front_ok limit m (s, acc) \<Longrightarrow> front_ok limit m (snd (UpdateJob cfg env j b s), acc)"
  by (auto simp: UpdateJob_def Let_def report_status_keeps report_progress_keeps split: option.split sum.split
      intro!: keeps_then)

lemma register_keeps: "front_ok limit m (s, acc) \<Longrightarrow> front_ok limit m (snd (RegisterWorker cfg env b s), acc)"
  by (auto simp: RegisterWorker_def split: option.split intro!: keeps_case db_call_keeps)

lemma heartbeat_keeps: "front_ok limit m (s, acc) \<Longrightarrow> front_ok limit m (snd (WorkerHeartbeat env b s), acc)"
  by (auto simp: WorkerHeartbeat_def Let_def split: option.split intro!: keeps_case db_call_keeps)

lemma pull_keeps: "front_ok limit m (s, acc) \<Longrightarrow> front_ok limit m (snd (PullWorkerJobs cfg env w s), acc)"
  by (auto simp: PullWorkerJobs_def Let_def split: sum.split intro!: keeps_case db_call_keeps)

lemma clear_keeps:
  "front_ok limit m (s, acc) \<Longrightarrow> front_ok limit m (snd (ClearEvictionEndpoint env o1 o2 o3 eid now ref s), acc)"
proof -
  have table: "front_ok limit m (s'\<lparr>a_table := t\<rparr>, acc) = front_ok limit m (s', acc)" for s' t
    by (rule front_ok_cong; simp)
  show "front_ok limit m (s, acc) \<Longrightarrow> front_ok limit m (snd (ClearEvictionEndpoint env o1 o2 o3 eid now ref s), acc)"
    by (auto simp: ClearEvictionEndpoint_def Let_def table split: option.split sum.split intro!: keeps_case db_call_keeps)
qed

subsection \<open>A submission takes one slot or none\<close>

lemma slot_admit:
  assumes "front_ok limit {#} (s, acc)" "TryIncrement c limit (a_counter s) = ((n, b), k)"
  shows "front_ok limit (if b then {#c#} else {#}) (s\<lparr>a_counter := k\<rparr>, acc)"
proof -
  let ?q = "slots_of s {#} acc"
  have "quota_run limit ?q (slots_of (s\<lparr>a_counter := k\<rparr>) (if b then {#c#} else {#}) acc)"
    using assms(2) op_admit [of TryIncrement c limit ?q n k RegisterJob Decrement DecrementByJob]
      op_refuse [of TryIncrement c limit ?q n k RegisterJob Decrement DecrementByJob]
    by (cases b) (simp_all add: slots_of_def)
  with assms(1) show ?thesis
    using in_memory.slots_within_step by (fastforce simp: front_ok_def)
qed

lemma slot_release:
  assumes "front_ok limit {#c#} (s, acc)"
  shows "front_ok limit {#} (s\<lparr>a_counter := snd (Decrement c (a_counter s))\<rparr>, acc)"
proof -
  let ?q = "slots_of s {#c#} acc"
  have "quota_run limit ?q (slots_of (s\<lparr>a_counter := snd (Decrement c (a_counter s))\<rparr>) {#} acc)"
    using op_release [of c ?q TryIncrement RegisterJob Decrement DecrementByJob limit] by (simp add: slots_of_def)
  with assms show ?thesis
    using in_memory.slots_within_step by (fastforce simp: front_ok_def)
qed

lemma slot_accept:
  assumes "front_ok limit {#c#} (s, acc)" "j \<in> j_id ` set (jobs (a_db s))" "j \<notin> fst ` set acc" "j \<notin> term_ids (a_db s)"
  shows "front_ok limit {#} (s\<lparr>a_counter := RegisterJob c j (a_counter s)\<rparr>, (j, c) # acc)"
proof -
  let ?q = "slots_of s {#c#} acc"
  have "j \<notin> fst ` set (q_live ?q)" using assms(3) by (auto simp: slots_of_def live_jobs_def)
  then have "quota_run limit ?q (slots_of (s\<lparr>a_counter := RegisterJob c j (a_counter s)\<rparr>) {#} ((j, c) # acc))"
    using assms(4) op_accept [of c ?q j TryIncrement RegisterJob Decrement DecrementByJob limit]
    by (simp add: slots_of_def live_jobs_def)
  with assms show ?thesis
    using in_memory.slots_within_step by (fastforce simp: front_ok_def)
qed

lemma created_job:
  assumes "CreateJobWithStreaming ok ok' i now spec d = (Inr job, d')"
  shows "find_job i d = None \<and> j_id job = i \<and> jobs d' = jobs d @ [new_job_row i now spec]"
proof -
  have ok: "ok" "find_job i d = None" "d' = d\<lparr>jobs := jobs d @ [new_job_row i now spec]\<rparr>" "GetJob ok' i d' = Inr job"
    using assms by (auto simp: CreateJobWithStreaming_def Let_def split: if_splits)
  moreover have "j_id job = i"
    using ok(4) find_row_SomeD [of j_id i] by (auto simp: GetJob_def split: if_splits option.splits)
  ultimately show ?thesis by simp
qed

lemma new_job_pending: "i \<notin> j_id ` set js \<Longrightarrow> jobs d = js @ [new_job_row i now spec] \<Longrightarrow> i \<notin> term_ids d"
proof
  assume new: "i \<notin> j_id ` set js" "jobs d = js @ [new_job_row i now spec]" "i \<in> term_ids d"
  then obtain j where j: "j \<in> set (jobs d)" "j_id j = i" "IsTerminalStatus (j_status j)" by (auto simp: term_ids_def)
  with new have "j = new_job_row i now spec" by auto
  with j show False by simp
qed

text \<open>What each reply of the handler means for the slot taken by the middleware.\<close>

definition slot_after :: "int \<Rightarrow> string \<Rightarrow> (string \<times> string) list \<Rightarrow> submit_result reply \<times> api \<Rightarrow> bool" where
  "slot_after limit c acc p =
     (case p of (r, s) \<Rightarrow>
        (case r of
           Success (Submitted j) \<Rightarrow> front_ok limit {#} (s, (j, c) # acc)
         | Success (SubmittedFailed j) \<Rightarrow> front_ok limit {#} (s, acc)
         | Failure st e \<Rightarrow> failure_status st \<and> front_ok limit {#c#} (s, acc)))"

lemma slot_after_failure:
  "slot_after limit c acc (Failure st e, s) \<longleftrightarrow> failure_status st \<and> front_ok limit {#c#} (s, acc)"
  by (simp add: slot_after_def)

lemma slot_after_create_error:
  "slot_after limit c acc (writeCreateJobError env, s) \<longleftrightarrow> front_ok limit {#c#} (s, acc)"
  by (simp add: slot_after_def writeCreateJobError_def failure_status_def)

lemma jobCreate_slot:
  assumes ok: "front_ok limit {#c#} (s, acc)" and c: "c \<noteq> []"
  shows "slot_after limit c acc (jobCreate cfg env c req s)"
proof -
  let ?op = "CreateJobWithStreaming (ae_ok env SubmitInsert) (ae_ok env SubmitRead) (ae_uid env) (ae_now env SubmitInsert)
    (spec_of env req)"
  obtain r s1 where call: "db_call ?op s = (r, s1)" by (cases "db_call ?op s")
  have keeps: "front_ok limit {#c#} (s1, acc)"
    using db_call_keeps [OF settling_ops(5) ok] call by (metis snd_conv)
  show ?thesis
  proof (cases r)
    case (Inl e)
    then show ?thesis using call keeps ok
      by (simp add: jobCreate_def slot_after_failure slot_after_create_error failure_status_def)
  next
    case (Inr job)
    then have "?op (a_db s) = (Inr job, a_db s1)" using call by (auto simp: db_call_def split: prod.splits)
    note new = created_job [OF this]
    have fresh: "ae_uid env \<notin> j_id ` set (jobs (a_db s))" using new by (simp add: find_row_None)
    moreover from this have "ae_uid env \<notin> fst ` set acc" using ok by (auto simp: front_ok_def)
    moreover have "ae_uid env \<notin> term_ids (a_db s1)" using new fresh new_job_pending by blast
    moreover have "ae_uid env \<in> j_id ` set (jobs (a_db s1))" using new by (simp add: new_job_row_def)
    ultimately have "front_ok limit {#} (s1\<lparr>a_counter := RegisterJob c (j_id job) (a_counter s1)\<rparr>, (j_id job, c) # acc)"
      using new by (intro slot_accept [OF keeps]) simp_all
    then show ?thesis using call Inr ok c
      by (simp add: jobCreate_def slot_after_failure failure_status_def) (simp add: slot_after_def)
  qed
qed

lemma rejectEncoder_slot:
  assumes ok: "front_ok limit {#c#} (s, acc)" and c: "c \<noteq> []"
  shows "slot_after limit c acc (rejectEncoder cfg env c req enc s)"
proof -
  let ?op = "CreateFailedJob (ae_ok env SubmitInsert) (ae_ok env SubmitRead) (ae_uid env) (ae_now env SubmitInsert)
    (spec_of env req) FailureEncoderUnavailable (encoder_errMsg enc)"
  obtain r s1 where call: "db_call ?op s = (r, s1)" by (cases "db_call ?op s")
  have keeps: "front_ok limit {#c#} (s1, acc)"
    using db_call_keeps [OF settling_ops(6) ok] call by (metis snd_conv)
  show ?thesis
    using call keeps ok c slot_release [OF keeps]
    by (cases r) (simp_all add: rejectEncoder_def slot_after_failure slot_after_create_error failure_status_def,
        simp_all add: slot_after_def)
qed

lemma SubmitJob_slot:
  assumes "front_ok limit {#c#} (s, acc)" "c \<noteq> []" "client = None \<or> client = Some c"
  shows "slot_after limit c acc (SubmitJob cfg env client body s)"
  using assms
  by (auto simp: SubmitJob_def Let_def slot_after_failure failure_status_def jobCreate_slot rejectEncoder_slot
      split: option.split)

lemma submit_keeps:
  assumes ok: "front_ok limit {#} (s, acc)" and c: "c \<noteq> []" "client = None \<or> client = Some c"
    and sub: "SubmitEndpoint cfg \<lparr>rc_enabled = True, rc_limit = limit\<rparr> env c client body s = (resp, s', r)"
  shows "front_ok limit {#} (s', case r of Some (Success (Submitted j)) \<Rightarrow> (j, c) # acc | _ \<Rightarrow> acc)"
proof -
  obtain n b k where inc: "TryIncrement c limit (a_counter s) = ((n, b), k)" by (metis surj_pair)
  let ?s = "s\<lparr>a_counter := k\<rparr>"
  note admitted = slot_admit [OF ok inc]
  show ?thesis
  proof (cases b)
    case False
    then have "s' = ?s" "r = None"
      using sub inc by (auto simp: SubmitEndpoint_def JobSubmitMiddleware_def api_incr_def Let_def)
    then show ?thesis using admitted False by simp
  next
    case True
    obtain rep s2 where run: "SubmitJob cfg env client body ?s = (rep, s2)" by (cases "SubmitJob cfg env client body ?s")
    have after: "slot_after limit c acc (rep, s2)"
      using SubmitJob_slot [of limit c ?s acc client cfg env body] admitted True c run by simp
    have res: "r = Some rep" "s' = (case rep of Success a \<Rightarrow> s2
        | Failure st e \<Rightarrow> if failure_status st then s2\<lparr>a_counter := snd (Decrement c (a_counter s2))\<rparr> else s2)"
      using sub inc True run
      by (cases rep; auto simp: SubmitEndpoint_def JobSubmitMiddleware_def api_incr_def api_dec_def writeJSON_def rw_step_def
          failure_status_def Let_def split: prod.splits if_splits)+
    show ?thesis
    proof (cases rep)
      case (Success a)
      then show ?thesis using res after by (cases a) (simp_all add: slot_after_def)
    next
      case (Failure st e)
      then show ?thesis using res after slot_release by (simp add: slot_after_def)
    qed
  qed
qed

lemma front_step_ok: "front_ok limit {#} p \<Longrightarrow> front_step cfg limit p q \<Longrightarrow> front_ok limit {#} q"
proof (erule front_step.cases)
  fix s d' acc assume ok: "front_ok limit {#} p" "p = (s, acc)" "server_step (a_db s) d'"
    "q = (snd (db_call (\<lambda>_. ((), d')) s), acc)"
  then show "front_ok limit {#} q" using db_call_ok [of limit "{#}" s acc "\<lambda>_. ((), d')"] by (simp add: server_step_settles)
qed (simp_all add: submit_keeps cancel_keeps update_keeps register_keeps heartbeat_keeps pull_keeps clear_keeps)

interpretation front: invariant_system front_init "front_step cfg limit" "front_ok limit {#}" for cfg limit
proof unfold_locales
  fix p assume i: "front_init p"
  then have "in_memory.slots_init \<lparr>q_counter = a_counter (fst p), q_open = {#}, q_live = []\<rparr>"
    using quota_init_slots [of "\<lparr>q_counter = a_counter (fst p), q_open = {#}, q_live = []\<rparr>"]
    by (simp add: front_init_def quota_init_def)
  then have "in_memory.slots_within limit \<lparr>q_counter = a_counter (fst p), q_open = {#}, q_live = []\<rparr>"
    by (rule in_memory.slots.init_inv)
  with i show "front_ok limit {#} p"
    by (auto simp: front_init_def front_ok_def slots_of_def live_jobs_def dest: server_init_ok)
qed (rule front_step_ok)


lemma ex_submitted:
  "SubmitJob ex_api_cfg ex_api_env (Some ''c'') (Some ex_request) s = jobCreate ex_api_cfg ex_api_env ''c'' ex_request s"
  by (simp add: SubmitJob_def ex_request_def output_traversal_def ExtractEncoderFromArgs_def ex_api_env_def Let_def)

lemma ex_created:
  "jobCreate ex_api_cfg ex_api_env ''c'' ex_request (ex_api\<lparr>a_counter := k\<rparr>) =
    (Success (Submitted ''j1''),
     ex_api\<lparr>a_db := ex_db\<lparr>jobs := [new_job_row ''j1'' 5 (spec_of ex_api_env ex_request)]\<rparr>,
            a_counter := RegisterJob ''c'' ''j1'' k, a_resched := True\<rparr>)"
  by (simp add: jobCreate_def ex_api_cfg_def ex_api_env_def ex_api_def GetLiveSchedulableWorkers_def ex_db_def ex_worker_def
      new_worker_row_def write_caps_def heartbeat_fresh_def db_call_def CreateJobWithStreaming_def GetJob_def
      ended_since_def release_ended_def wake_scheduler_def order_desc_def new_job_row_def Let_def)


end
