(* ===== verification/HealthMonitor.thy ===== *)
theory HealthMonitor
  imports MigrationStore StateTable
begin

section \<open>The worker health monitor (pkg/server/workerhealth/monitor.go)\<close>

text \<open>
  One tick of the monitor: flip the workers whose heartbeat is stale, migrate their jobs, drop long-offline
  records from the database and the memory table, and keep the eviction marks of the two in step. As in the
  scheduler, every database call and every reading of the clock has a label, and the environment gives each
  label its outcome, instant and identifiers. \<open>mo_resched\<close> records \<^verbatim>\<open>TriggerReschedule\<close>, \<open>mo_released\<close> the calls of
  \<^verbatim>\<open>ReleaseJobStream\<close>; a monitor without a state table has \<open>mo_table = None\<close>. \<^verbatim>\<open>logOfflineDetection\<close> only writes to
  the log and is left out.
\<close>

datatype monitor_call =
    MarkOfflineCall
  | MigrateCall string
  | RestoreCall string
  | RemoveCall
  | TableClock
  | JudgeClock string
  | EvictCall string
  | EventCall string
  | ClearCall string

record monitor_env =
  m_ok :: "monitor_call \<Rightarrow> bool"
  m_now :: "monitor_call \<Rightarrow> time"
  m_uid :: "monitor_call \<Rightarrow> string"
  m_uids :: "monitor_call \<Rightarrow> string \<Rightarrow> string"
  m_uuid_parse :: "string \<Rightarrow> string option"

record monitor_config =
  HeartbeatTimeout :: duration
  OfflineThreshold :: duration
  HealthCheckInterval :: duration
  MaxRetryCount :: int
  has_scheduler :: bool  \<comment> \<open>whether \<open>SetScheduler\<close> was called\<close>
  has_releaser :: bool  \<comment> \<open>whether \<open>SetJobStreamReleaser\<close> was called\<close>

definition DefaultMonitorConfig :: monitor_config where
  "DefaultMonitorConfig =
     \<lparr>HeartbeatTimeout = 90000000000, OfflineThreshold = 600000000000, HealthCheckInterval = 30000000000,
      MaxRetryCount = 3, has_scheduler = False, has_releaser = False\<rparr>"

record monitor =
  mo_db :: database
  mo_table :: "state_table option"
  mo_resched :: bool
  mo_released :: "string list"

definition trigger :: "monitor_config \<Rightarrow> monitor \<Rightarrow> monitor" where
  "trigger cfg m = (if has_scheduler cfg then m\<lparr>mo_resched := True\<rparr> else m)"

definition on_table :: "(state_table \<Rightarrow> state_table) \<Rightarrow> monitor \<Rightarrow> monitor" where
  "on_table f m = m\<lparr>mo_table := map_option f (mo_table m)\<rparr>"

subsection \<open>Failover\<close>

definition migrateJobsFromWorker :: "monitor_env \<Rightarrow> monitor_config \<Rightarrow> string \<Rightarrow> monitor \<Rightarrow> monitor" where
  "migrateJobsFromWorker env cfg workerID m =
     (case MigrateJobsFromWorker (m_uuid_parse env) (m_ok env (MigrateCall workerID))
             (m_now env (MigrateCall workerID)) (m_uid env (MigrateCall workerID))
             (m_uids env (MigrateCall workerID)) workerID ReasonHeartbeatTimeout (MaxRetryCount cfg) (mo_db m) of
        (Inl e, d) \<Rightarrow>
          m\<lparr>mo_db := snd (RestoreWorkerStatusAfterFailedMigration (m_uuid_parse env)
                            (m_ok env (RestoreCall workerID)) workerID d)\<rparr>
      | (Inr result, d) \<Rightarrow>
          (let m = m\<lparr>mo_db := d\<rparr> in
           if mr_migrated result = [] \<and> mr_failed result = [] then m
           else (let m = (if mr_migrated result \<noteq> [] then trigger cfg m else m)
                 in if has_releaser cfg then m\<lparr>mo_released := mo_released m @ mr_failed result\<rparr> else m)))"

subsection \<open>Eviction marks\<close>

fun evict_loop :: "monitor_env \<Rightarrow> rat \<Rightarrow> string list \<Rightarrow> state_table \<Rightarrow> database \<Rightarrow> state_table \<times> database" where
  "evict_loop env median [] t d = (t, d)"
| "evict_loop env median (workerID # ws) t d =
     (case MarkWorkerEvicted (m_uuid_parse env) (m_ok env (EvictCall workerID))
             (m_now env (EvictCall workerID)) workerID d of
        (Inl e, d) \<Rightarrow> evict_loop env median ws (SetEviction (m_uuid_parse env) workerID False t) d
      | (Inr u, d) \<Rightarrow>
          (case Get (m_uuid_parse env) workerID t of
             None \<Rightarrow> evict_loop env median ws t d
           | Some state \<Rightarrow>
               evict_loop env median ws t
                 (snd (CreateEvictionEvent (m_ok env (EventCall workerID)) (m_uid env (EventCall workerID))
                         (m_now env (EventCall workerID)) workerID EvictionEventEvicted
                         (ws_ewma_jobs_per_sec state) median
                         ''worker EWMA throughput below cluster median threshold'' d))))"

fun recover_loop :: "monitor_env \<Rightarrow> rat \<Rightarrow> string list \<Rightarrow> state_table \<Rightarrow> database \<Rightarrow> state_table \<times> database" where
  "recover_loop env median [] t d = (t, d)"
| "recover_loop env median (workerID # ws) t d =
     (case Get (m_uuid_parse env) workerID t of
        None \<Rightarrow> recover_loop env median ws t d
      | Some state \<Rightarrow>
          (case ClearWorkerEviction (m_uuid_parse env) (m_ok env (ClearCall workerID))
                  (m_uid env (ClearCall workerID)) (m_now env (ClearCall workerID)) workerID
                  (ws_ewma_jobs_per_sec state) median EvictionReasonThroughputRecovered d of
             (Inl e, d) \<Rightarrow> recover_loop env median ws (SetEviction (m_uuid_parse env) workerID True t) d
           | (Inr cleared, d) \<Rightarrow> recover_loop env median ws t d))"

definition detectSlowWorkers :: "monitor_env \<Rightarrow> monitor_config \<Rightarrow> monitor \<Rightarrow> monitor" where
  "detectSlowWorkers env cfg m =
     (case mo_table m of
        None \<Rightarrow> m
      | Some t \<Rightarrow>
          (let (result, t) = DetectSlowWorkers (\<lambda>w. m_now env (JudgeClock w)) t;
               (t, d) = evict_loop env (det_median result) (det_newly_evicted result) t (mo_db m);
               (t, d) = recover_loop env (det_median result) (det_recovered result) t d;
               m = m\<lparr>mo_table := Some t, mo_db := d\<rparr>
           in if det_newly_evicted result \<noteq> [] \<or> det_recovered result \<noteq> [] then trigger cfg m else m))"

subsection \<open>The tick\<close>

definition migrate_all :: "monitor_env \<Rightarrow> monitor_config \<Rightarrow> string list \<Rightarrow> monitor \<Rightarrow> monitor" where
  "migrate_all env cfg ids m = fold (migrateJobsFromWorker env cfg) ids m"

definition remove_offline :: "monitor_env \<Rightarrow> monitor_config \<Rightarrow> monitor \<Rightarrow> monitor" where
  "remove_offline env cfg m =
     (case RemoveOfflineWorkers (m_ok env RemoveCall) (m_now env RemoveCall) (OfflineThreshold cfg) (mo_db m) of
        (Inl e, d) \<Rightarrow> m\<lparr>mo_db := d\<rparr>
      | (Inr removedIDs, d) \<Rightarrow> on_table (fold (RemoveWorker (m_uuid_parse env)) removedIDs) (m\<lparr>mo_db := d\<rparr>))"

definition checkWorkers :: "monitor_env \<Rightarrow> monitor_config \<Rightarrow> monitor \<Rightarrow> monitor" where
  "checkWorkers env cfg m =
     (case MarkOfflineWorkersWithMigration (m_ok env MarkOfflineCall) (m_now env MarkOfflineCall)
             (HeartbeatTimeout cfg) (mo_db m) of
        (Inl e, d) \<Rightarrow> m\<lparr>mo_db := d\<rparr>
      | (Inr offlineWorkerIDs, d) \<Rightarrow>
          (let m = migrate_all env cfg offlineWorkerIDs (m\<lparr>mo_db := d\<rparr>);
               m = remove_offline env cfg m;
               m = on_table (\<lambda>t. snd (ScanOffline (m_now env TableClock) t)) m
           in detectSlowWorkers env cfg m))"

subsection \<open>The audit views\<close>

definition monitor_GetMigrationEvents :: "bool \<Rightarrow> nat \<Rightarrow> nat \<Rightarrow> monitor \<Rightarrow> db_error + event_info list" where
  "monitor_GetMigrationEvents ok limit offset m =
     (case GetMigrationEvents ok limit offset (mo_db m) of
        Inl e \<Rightarrow> Inl e | Inr events \<Rightarrow> Inr (map FromDBEvent events))"

definition monitor_GetMigrationEventsByWorker ::
  "bool \<Rightarrow> string \<Rightarrow> nat \<Rightarrow> monitor \<Rightarrow> db_error + event_info list" where
  "monitor_GetMigrationEventsByWorker ok workerID limit m =
     (case GetMigrationEventsByWorker ok workerID limit (mo_db m) of
        Inl e \<Rightarrow> Inl e | Inr events \<Rightarrow> Inr (map FromDBEvent events))"

end
