(* ===== verification/StateTableGuarantees.thy ===== *)
theory StateTableGuarantees
  imports StateTable "HOL-Library.Multiset"
begin

section \<open>What slow-node detection guarantees\<close>

text \<open>
  The table keeps one entry per canonical identity; detection marks and releases exactly the workers its
  rule names, whatever the order of the map, spares at least half of the sampled pool, and judges nothing
  on fewer than two samples.
\<close>

subsection \<open>The map\<close>

lemma map_of_put [simp]: "map_of (put k s xs) = (map_of xs)(k \<mapsto> s)"
  by (induction k s xs rule: put.induct) auto

lemma keys_put: "fst ` set (put k s xs) = insert k (fst ` set xs)"
  by (induction k s xs rule: put.induct) auto

lemma distinct_put: "distinct (map fst xs) \<Longrightarrow> distinct (map fst (put k s xs))"
  by (induction k s xs rule: put.induct) (use keys_put in force)+

lemma set_put: "distinct (map fst xs) \<Longrightarrow> e \<in> set (put k s xs) \<Longrightarrow> e = (k, s) \<or> e \<in> set xs"
  by (induction k s xs rule: put.induct) (auto split: if_splits)

lemma entry_set_entry [simp]: "entry (set_entry k s t) x = (if x = k then Some s else entry t x)"
  by (simp add: entry_def set_entry_def)

lemma set_entry_frames [simp]:
  "st_alpha (set_entry k s t) = st_alpha t" "st_offline_timeout (set_entry k s t) = st_offline_timeout t"
  by (simp_all add: set_entry_def)

definition table_ok :: "state_table \<Rightarrow> bool" where
  "table_ok t \<longleftrightarrow> distinct (map fst (st_states t)) \<and> (\<forall>(k, s) \<in> set (st_states t). ws_worker_id s = k)"

lemma entry_mem: "table_ok t \<Longrightarrow> entry t k = Some s \<longleftrightarrow> (k, s) \<in> set (st_states t)"
  by (simp add: entry_def table_ok_def map_of_eq_Some_iff)

lemma set_entry_ok: "table_ok t \<Longrightarrow> ws_worker_id s = k \<Longrightarrow> table_ok (set_entry k s t)"
  by (auto simp: table_ok_def set_entry_def distinct_put dest: set_put [rotated])

subsection \<open>The judgement as one pass\<close>

definition newly :: "(string \<Rightarrow> time) \<Rightarrow> rat \<Rightarrow> state_table \<Rightarrow> worker_info \<Rightarrow> bool" where
  "newly nows m t w \<longleftrightarrow> \<not> exempt (nows (wi_id w)) t w \<and>
     (\<exists>s. entry t (wi_id w) = Some s \<and> \<not> ws_evicted s) \<and> too_slow m w"

definition released :: "(string \<Rightarrow> time) \<Rightarrow> rat \<Rightarrow> state_table \<Rightarrow> worker_info \<Rightarrow> bool" where
  "released nows m t w \<longleftrightarrow> \<not> exempt (nows (wi_id w)) t w \<and>
     (\<exists>s. entry t (wi_id w) = Some s \<and> ws_evicted s) \<and> recovers m w"

definition marked :: "bool \<Rightarrow> string set \<Rightarrow> string \<Rightarrow> worker_state option \<Rightarrow> worker_state option" where
  "marked b A k x = (if k \<in> A then map_option (\<lambda>s. s\<lparr>ws_evicted := b\<rparr>) x else x)"

lemma judged_other:
  assumes "wi_id w \<noteq> k"
  shows "newly nows m (set_entry k s t) w = newly nows m t w"
    and "released nows m (set_entry k s t) w = released nows m t w"
  using assms by (simp_all add: newly_def released_def exempt_def busyExempt_def)

lemma judge_loop_spec:
  "distinct (map wi_id ws) \<Longrightarrow>
   fst (judge_loop nows m ws t) = map wi_id (filter (newly nows m t) ws) \<and>
   fst (snd (judge_loop nows m ws t)) = map wi_id (filter (released nows m t) ws) \<and>
   (\<forall>k. entry (snd (snd (judge_loop nows m ws t))) k =
     marked True (wi_id ` {w \<in> set ws. newly nows m t w}) k
       (marked False (wi_id ` {w \<in> set ws. released nows m t w}) k (entry t k)))"
proof (induction ws arbitrary: t)
  case Nil
  then show ?case by (simp add: marked_def)
next
  case (Cons w ws)
  then have dist: "distinct (map wi_id ws)" and other: "\<forall>x \<in> set ws. wi_id x \<noteq> wi_id w"
    by (auto simp: image_iff)
  note IH = Cons.IH [OF dist]
  have same: "filter (newly nows m (set_entry (wi_id w) s t)) ws = filter (newly nows m t) ws"
      "filter (released nows m (set_entry (wi_id w) s t)) ws = filter (released nows m t) ws"
      "{x \<in> set ws. newly nows m (set_entry (wi_id w) s t) x} = {x \<in> set ws. newly nows m t x}"
      "{x \<in> set ws. released nows m (set_entry (wi_id w) s t) x} = {x \<in> set ws. released nows m t x}" for s
    using other by (auto simp: judged_other intro!: filter_cong)
  consider (skip) "judge_loop nows m (w # ws) t = judge_loop nows m ws t" "\<not> newly nows m t w" "\<not> released nows m t w"
    | (out) s where "entry t (wi_id w) = Some s" "newly nows m t w" "\<not> released nows m t w"
        "judge_loop nows m (w # ws) t = (let (ev, rec, t') = judge_loop nows m ws (set_entry (wi_id w) (s\<lparr>ws_evicted := True\<rparr>) t)
                in (wi_id w # ev, rec, t'))"
    | (freed) s where "entry t (wi_id w) = Some s" "\<not> newly nows m t w" "released nows m t w"
        "judge_loop nows m (w # ws) t = (let (ev, rec, t') = judge_loop nows m ws (set_entry (wi_id w) (s\<lparr>ws_evicted := False\<rparr>) t)
                in (ev, wi_id w # rec, t'))"
    by (cases "exempt (nows (wi_id w)) t w"; cases "entry t (wi_id w)";
        cases "ws_evicted (the (entry t (wi_id w)))"; cases "recovers m w"; cases "too_slow m w")
      (auto simp: newly_def released_def)
  then show ?case
  proof cases
    case skip
    have "{x \<in> set (w # ws). newly nows m t x} = {x \<in> set ws. newly nows m t x}"
      "{x \<in> set (w # ws). released nows m t x} = {x \<in> set ws. released nows m t x}"
      using skip by auto
    with skip IH [of t] show ?thesis by simp
  next
    case out
    have sets: "{x \<in> set (w # ws). newly nows m t x} = insert w {x \<in> set ws. newly nows m t x}"
      "{x \<in> set (w # ws). released nows m t x} = {x \<in> set ws. released nows m t x}"
      using out by auto
    have "wi_id w \<notin> wi_id ` {x \<in> set ws. newly nows m t x}" "wi_id w \<notin> wi_id ` {x \<in> set ws. released nows m t x}"
      using other by auto
    with out IH [of "set_entry (wi_id w) (s\<lparr>ws_evicted := True\<rparr>) t"] show ?thesis
      unfolding sets by (auto simp: same split_beta marked_def)
  next
    case freed
    have sets: "{x \<in> set (w # ws). newly nows m t x} = {x \<in> set ws. newly nows m t x}"
      "{x \<in> set (w # ws). released nows m t x} = insert w {x \<in> set ws. released nows m t x}"
      using freed by auto
    have "wi_id w \<notin> wi_id ` {x \<in> set ws. newly nows m t x}" "wi_id w \<notin> wi_id ` {x \<in> set ws. released nows m t x}"
      using other by auto
    with freed IH [of "set_entry (wi_id w) (s\<lparr>ws_evicted := False\<rparr>) t"] show ?thesis
      unfolding sets by (auto simp: same split_beta marked_def)
  qed
qed

subsection \<open>Exactness\<close>

definition pool :: "state_table \<Rightarrow> worker_info list" where
  "pool t = fst (medianSample (eligibleSlowNodeWorkersLocked t))"

definition pool_median :: "state_table \<Rightarrow> rat" where
  "pool_median t = computeMedian (sort (map wi_ewma (pool t)))"

lemma medianSample_pool: "medianSample (eligibleSlowNodeWorkersLocked t) = (pool t, map wi_ewma (pool t))"
  by (simp add: pool_def medianSample_def Let_def)

lemma pool_ids: "map wi_id (pool t) =
    map fst (filter (\<lambda>e. \<not> out_of_pool (info_of e)) (filter (\<lambda>(k, s). eligible s) (st_states t)))"
  by (simp add: pool_def medianSample_def eligibleSlowNodeWorkersLocked_def filter_map o_def info_of_def split_beta Let_def)

lemma pool_distinct: "table_ok t \<Longrightarrow> distinct (map wi_id (pool t))"
  by (simp add: pool_ids table_ok_def distinct_map_filter del: filter_filter)

lemma DetectSlowWorkers_spec:
  assumes "table_ok t" "2 \<le> length (pool t)"
  shows "det_newly_evicted (fst (DetectSlowWorkers nows t)) = map wi_id (filter (newly nows (pool_median t) t) (pool t))"
    and "det_recovered (fst (DetectSlowWorkers nows t)) = map wi_id (filter (released nows (pool_median t) t) (pool t))"
    and "det_median (fst (DetectSlowWorkers nows t)) = pool_median t"
    and "entry (snd (DetectSlowWorkers nows t)) k =
      marked True (set (det_newly_evicted (fst (DetectSlowWorkers nows t)))) k
        (marked False (set (det_recovered (fst (DetectSlowWorkers nows t)))) k (entry t k))"
  using judge_loop_spec [OF pool_distinct [OF assms(1)], of nows "pool_median t" t] assms(2)
  by (simp_all add: DetectSlowWorkers_def medianSample_pool pool_median_def split_beta Let_def)

lemma DetectSlowWorkers_frozen:
  "length (pool t) < 2 \<Longrightarrow> DetectSlowWorkers nows t = (\<lparr>det_newly_evicted = [], det_recovered = [], det_median = 0\<rparr>, t)"
  by (simp add: DetectSlowWorkers_def medianSample_pool)

lemma filter_length_mono: "(\<And>x. P x \<Longrightarrow> Q x) \<Longrightarrow> length (filter P xs) \<le> length (filter Q xs)"
  by (induction xs) (auto intro: le_SucI)

subsection \<open>At least half of the pool stays\<close>

lemma sorted_below_median:
  fixes xs :: "rat list"
  assumes sorted: "sorted xs" and pos: "0 < computeMedian xs"
  shows "2 * length (filter (\<lambda>x. x < computeMedian xs / 3) xs) \<le> length xs"
proof -
  let ?m = "computeMedian xs" let ?n = "length xs" let ?h = "(length xs) div 2"
  have n: "0 < ?n" using pos by (cases xs) (auto simp: computeMedian_def)
  have top: "?m \<le> xs ! ?h"
  proof (cases "?n mod 2 = 1")
    case True then show ?thesis using n by (auto simp: computeMedian_def Let_def)
  next
    case False
    then have "xs ! (?h - 1) \<le> xs ! ?h" using n by (intro sorted_nth_mono sorted) auto
    with False n show ?thesis by (simp add: computeMedian_def Let_def)
  qed
  have above: "filter (\<lambda>x. x < ?m / 3) (drop ?h xs) = []"
  proof (rule filter_False, rule ballI)
    fix x assume "x \<in> set (drop ?h xs)"
    then obtain i where "i < ?n - ?h" "x = xs ! (?h + i)"
      by (auto simp: in_set_conv_nth)
    then have "xs ! ?h \<le> x" using sorted_nth_mono [OF sorted, of ?h "?h + i"] by simp
    with top pos show "\<not> x < ?m / 3" by simp
  qed
  have "filter (\<lambda>x. x < ?m / 3) xs = filter (\<lambda>x. x < ?m / 3) (take ?h xs) @ filter (\<lambda>x. x < ?m / 3) (drop ?h xs)"
    by (metis append_take_drop_id filter_append)
  then have "length (filter (\<lambda>x. x < ?m / 3) xs) \<le> ?h"
    using above length_filter_le [of "\<lambda>x. x < ?m / 3" "take ?h xs"] by simp
  then show ?thesis by simp
qed

lemma slow_at_most_half: "2 * length (filter (too_slow (pool_median t)) (pool t)) \<le> length (pool t)"
proof (cases "0 < pool_median t")
  case True
  let ?xs = "map wi_ewma (pool t)" let ?m = "pool_median t"
  have "length (filter (\<lambda>x. x < ?m / 3) (sort ?xs)) = length (filter (\<lambda>x. x < ?m / 3) ?xs)"
    by (metis mset_filter mset_sort size_mset)
  also have "\<dots> = length (filter (too_slow ?m) (pool t))"
    using True by (simp add: filter_map o_def too_slow_def [abs_def] SlowNodeThreshold_def)
  finally show ?thesis
    using sorted_below_median [of "sort ?xs"] True by (simp add: pool_median_def)
next
  case False
  then show ?thesis by (simp add: too_slow_def [abs_def])
qed

subsection \<open>The rule on table entries\<close>

text \<open>
  The rule as the operator's manual states it: a worker is sampled when it is online, past its warm-up and
  not idle for two heartbeats; a sampled worker is judged unless the last interval gives no measurement; a
  judged worker falls behind under a third of the median and catches up from two thirds of it on.
\<close>

definition sampled :: "worker_state \<Rightarrow> bool" where
  "sampled s \<longleftrightarrow> ws_status s \<noteq> ''offline'' \<and> 5 \<le> ws_completed_jobs s \<and>
     (ws_active_jobs s \<noteq> [] \<or> ws_jobs_per_sec s \<noteq> 0 \<or> (ws_zero_sample_streak s < 2 \<and> ws_ewma_jobs_per_sec s \<noteq> 0))"

definition last_sample :: "worker_state \<Rightarrow> time" where
  "last_sample s = (if ws_last_throughput_at s = 0 then ws_started_at s else ws_last_throughput_at s)"

definition judged :: "time \<Rightarrow> worker_state \<Rightarrow> bool" where
  "judged now s \<longleftrightarrow> sampled s \<and>
     (ws_jobs_per_sec s \<noteq> 0 \<or> (ws_active_jobs s \<noteq> [] \<and> 600000000000 \<le> now - last_sample s))"

definition falls_behind :: "rat \<Rightarrow> time \<Rightarrow> worker_state \<Rightarrow> bool" where
  "falls_behind m now s \<longleftrightarrow> judged now s \<and> \<not> ws_evicted s \<and> 0 < m \<and> ws_ewma_jobs_per_sec s < m / 3"

definition catches_up :: "rat \<Rightarrow> time \<Rightarrow> worker_state \<Rightarrow> bool" where
  "catches_up m now s \<longleftrightarrow> judged now s \<and> ws_evicted s \<and> 0 < m \<and> m * 2 / 3 \<le> ws_ewma_jobs_per_sec s"

lemmas rule_defs = sampled_def judged_def last_sample_def falls_behind_def catches_up_def

lemmas threshold_defs = SlowNodeThreshold_def RecoveryThreshold_def MinJobsForEviction_def
  MinZeroSamplesForIdle_def busyExpiry_def

lemma sampled_iff: "sampled s \<longleftrightarrow> eligible s \<and> \<not> out_of_pool (info_of (k, s))"
  by (auto simp: eligible_def sampled_def out_of_pool_def info_of_def threshold_defs)

lemma pool_iff: "w \<in> set (pool t) \<longleftrightarrow> (\<exists>k s. (k, s) \<in> set (st_states t) \<and> sampled s \<and> w = info_of (k, s))"
  unfolding pool_def medianSample_def eligibleSlowNodeWorkersLocked_def Let_def
  using sampled_iff by auto

lemma info_id [simp]: "wi_id (info_of (k, s)) = k"
  by (simp add: info_of_def)

lemma newly_iff:
  "table_ok t \<Longrightarrow> (k, s) \<in> set (st_states t) \<Longrightarrow> sampled s \<Longrightarrow>
   newly nows m t (info_of (k, s)) \<longleftrightarrow> falls_behind m (nows k) s"
  by (auto simp: newly_def rule_defs info_of_def exempt_def busyExempt_def too_slow_def threshold_defs
      simp flip: entry_mem)

lemma released_iff:
  "table_ok t \<Longrightarrow> (k, s) \<in> set (st_states t) \<Longrightarrow> sampled s \<Longrightarrow>
   released nows m t (info_of (k, s)) \<longleftrightarrow> catches_up m (nows k) s"
  by (auto simp: released_def rule_defs info_of_def exempt_def busyExempt_def recovers_def threshold_defs field_simps
      simp flip: entry_mem)

lemma judged_pool:
  assumes "table_ok t" "\<And>s. (k, s) \<in> set (st_states t) \<Longrightarrow> sampled s \<Longrightarrow> P (info_of (k, s)) \<longleftrightarrow> Q s"
    and "\<And>s. Q s \<Longrightarrow> sampled s"
  shows "k \<in> set (map wi_id (filter P (pool t))) \<longleftrightarrow> (\<exists>s. entry t k = Some s \<and> Q s)"
proof
  assume "k \<in> set (map wi_id (filter P (pool t)))"
  then obtain s where "(k, s) \<in> set (st_states t)" "sampled s" "P (info_of (k, s))"
    by (auto simp: pool_iff)
  with assms(2) entry_mem [OF assms(1)] show "\<exists>s. entry t k = Some s \<and> Q s" by blast
next
  assume "\<exists>s. entry t k = Some s \<and> Q s"
  then obtain s where s: "(k, s) \<in> set (st_states t)" "Q s" using entry_mem [OF assms(1)] by blast
  with assms(2,3) have "info_of (k, s) \<in> set (filter P (pool t))" by (auto simp: pool_iff)
  then show "k \<in> set (map wi_id (filter P (pool t)))" by (metis image_eqI info_id set_map)
qed

lemma rules_sampled: "falls_behind m now s \<Longrightarrow> sampled s" "catches_up m now s \<Longrightarrow> sampled s"
  by (auto simp: falls_behind_def catches_up_def judged_def)

lemma detected_iff:
  assumes "table_ok t" "2 \<le> length (pool t)"
  shows "k \<in> set (det_newly_evicted (fst (DetectSlowWorkers nows t))) \<longleftrightarrow>
      (\<exists>s. entry t k = Some s \<and> falls_behind (pool_median t) (nows k) s)"
    and "k \<in> set (det_recovered (fst (DetectSlowWorkers nows t))) \<longleftrightarrow>
      (\<exists>s. entry t k = Some s \<and> catches_up (pool_median t) (nows k) s)"
  unfolding DetectSlowWorkers_spec(1,2) [OF assms]
  by (rule judged_pool [OF assms(1)]; use newly_iff released_iff assms(1) rules_sampled in blast)+

lemma detection_marks:
  assumes "table_ok t" "2 \<le> length (pool t)"
  shows "entry (snd (DetectSlowWorkers nows t)) k =
    map_option (\<lambda>s. s\<lparr>ws_evicted := (if ws_evicted s then \<not> catches_up (pool_median t) (nows k) s
                                    else falls_behind (pool_median t) (nows k) s)\<rparr>) (entry t k)"
  unfolding DetectSlowWorkers_spec(4) [OF assms] marked_def detected_iff [OF assms]
  by (cases "entry t k") (auto simp: falls_behind_def catches_up_def)

subsection \<open>An example cluster\<close>

definition ex_ws :: "string \<Rightarrow> rat \<Rightarrow> bool \<Rightarrow> worker_state" where
  "ex_ws k r ev = \<lparr>ws_worker_id = k, ws_status = ''online'', ws_gpu_mem_used_mb = 0, ws_gpu_metrics_valid = False,
     ws_gpu_util_pct = 0, ws_active_jobs = [''j''], ws_jobs_per_sec = r, ws_ewma_jobs_per_sec = r,
     ws_evicted = ev, ws_queue_depth = 0, ws_completed_jobs = 9, ws_last_seen = 5,
     ws_started_at = 1, ws_last_throughput_at = 5, ws_zero_sample_streak = 0\<rparr>"

definition ex_table :: state_table where
  "ex_table = \<lparr>st_states = [(''a'', ex_ws ''a'' 10 False), (''b'', ex_ws ''b'' 9 False),
      (''c'', ex_ws ''c'' 1 False), (''d'', ex_ws ''d'' 8 True)],
     st_offline_timeout = 30000000000, st_alpha = DefaultEWMAAlpha\<rparr>"

lemma ex_table_ok: "table_ok ex_table"
  by (simp add: table_ok_def ex_table_def ex_ws_def)

lemma ex_pool: "length (pool ex_table) = 4" "pool_median ex_table = 17 / 2"
  by code_simp+

definition samples :: "state_table \<Rightarrow> worker_state list" where
  "samples t = filter sampled (GetAll t)"

lemma pool_samples: "length (pool t) = length (samples t)"
    "map wi_ewma (pool t) = map ws_ewma_jobs_per_sec (samples t)"
proof -
  have "pool t = map info_of (filter (\<lambda>e. sampled (snd e)) (st_states t))"
    unfolding pool_def medianSample_def eligibleSlowNodeWorkersLocked_def Let_def
    by (auto simp: filter_map o_def split_beta intro!: arg_cong [where f = "map info_of"] filter_cong dest: sampled_iff [THEN iffD1] sampled_iff [THEN iffD2, OF conjI])
  then show "length (pool t) = length (samples t)"
    "map wi_ewma (pool t) = map ws_ewma_jobs_per_sec (samples t)"
    by (simp_all add: samples_def GetAll_def filter_map o_def info_of_def split_beta)
qed

lemma ClusterMedian_spec:
  "ClusterMedian t = (if length (samples t) < 2 then 0 else computeMedian (sort (map ws_ewma_jobs_per_sec (samples t))))"
  by (simp add: ClusterMedian_def medianSample_pool flip: pool_samples)

lemma pool_median_Cluster: "2 \<le> length (samples t) \<Longrightarrow> pool_median t = ClusterMedian t"
  by (simp add: pool_median_def ClusterMedian_spec flip: pool_samples)

subsection \<open>The guarantees\<close>

text \<open>
  Slow-node detection is exact. With fewer than two sampled workers it judges nobody and changes nothing.
  Otherwise it reports the cluster median, names as newly evicted exactly the judged unmarked workers under a
  third of it and as recovered exactly the judged marked workers at two thirds of it or more, changes the marks
  of those and of no other entry, and never evicts more than half of the sampled pool.
\<close>

theorem slow_detection_exact:
  assumes "table_ok t" and "DetectSlowWorkers nows t = (d, t')"
  shows "if length (samples t) < 2
    then d = \<lparr>det_newly_evicted = [], det_recovered = [], det_median = 0\<rparr> \<and> t' = t
    else det_median d = ClusterMedian t
       \<and> (k \<in> set (det_newly_evicted d) \<longleftrightarrow> (\<exists>s. entry t k = Some s \<and> falls_behind (ClusterMedian t) (nows k) s))
       \<and> (k \<in> set (det_recovered d) \<longleftrightarrow> (\<exists>s. entry t k = Some s \<and> catches_up (ClusterMedian t) (nows k) s))
       \<and> entry t' k = map_option (\<lambda>s. s\<lparr>ws_evicted :=
             (if ws_evicted s then \<not> catches_up (ClusterMedian t) (nows k) s
              else falls_behind (ClusterMedian t) (nows k) s)\<rparr>) (entry t k)
       \<and> distinct (det_newly_evicted d) \<and> 2 * length (det_newly_evicted d) \<le> length (samples t)"
proof (cases "length (samples t) < 2")
  case True
  then show ?thesis using assms(2) DetectSlowWorkers_frozen [of t nows] by (simp add: pool_samples)
next
  case False
  then have two: "2 \<le> length (pool t)" by (simp add: pool_samples)
  have m: "pool_median t = ClusterMedian t" using False by (simp add: pool_median_Cluster)
  have "length (filter (newly nows (pool_median t) t) (pool t)) \<le> length (filter (too_slow (pool_median t)) (pool t))"
    by (rule filter_length_mono) (simp add: newly_def)
  note half = le_trans [OF mult_le_mono2 [OF this, of 2] slow_at_most_half]
  have "distinct (map wi_id (filter (newly nows (pool_median t) t) (pool t)))"
    using pool_distinct [OF assms(1)] by (rule distinct_map_filter)
  with half show ?thesis
    using False DetectSlowWorkers_spec [OF assms(1) two, of nows] detected_iff [OF assms(1) two, of _ nows]
      detection_marks [OF assms(1) two, of nows, unfolded m] assms(2)
    by (simp add: m pool_samples)
qed

text \<open>In the example the slow worker is marked, the recovered one released, and the two others are left alone.\<close>

theorem slow_detection_exact_witness:
  "det_newly_evicted (fst (DetectSlowWorkers (\<lambda>_. 9) ex_table)) = [''c'']
   \<and> det_recovered (fst (DetectSlowWorkers (\<lambda>_. 9) ex_table)) = [''d'']
   \<and> 2 * length (det_newly_evicted (fst (DetectSlowWorkers (\<lambda>_. 9) ex_table))) \<le> length (samples ex_table)"
proof -
  have "det_newly_evicted (fst (DetectSlowWorkers (\<lambda>_. 9) ex_table)) = [''c'']"
    "det_recovered (fst (DetectSlowWorkers (\<lambda>_. 9) ex_table)) = [''d'']" "length (samples ex_table) = 4"
    by code_simp+
  with slow_detection_exact [OF ex_table_ok surjective_pairing, of "\<lambda>_. 9" "''c''"] show ?thesis by simp
qed

text \<open>
  The verdict does not depend on the order in which Go ranges over the map: two tables with the same entries
  have the same median, the same workers evicted and recovered, and the same entries afterwards.
\<close>

theorem detection_order_independent:
  assumes "table_ok t" and "mset (st_states u) = mset (st_states t)"
  shows "ClusterMedian u = ClusterMedian t
    \<and> set (det_newly_evicted (fst (DetectSlowWorkers nows u))) = set (det_newly_evicted (fst (DetectSlowWorkers nows t)))
    \<and> set (det_recovered (fst (DetectSlowWorkers nows u))) = set (det_recovered (fst (DetectSlowWorkers nows t)))
    \<and> entry (snd (DetectSlowWorkers nows u)) k = entry (snd (DetectSlowWorkers nows t)) k"
proof -
  have keys: "mset (map fst (st_states u)) = mset (map fst (st_states t))"
    by (simp only: mset_map assms(2))
  have "set (st_states u) = set (st_states t)" by (rule mset_eq_setD [OF assms(2)])
  with assms(1) mset_eq_imp_distinct_iff [OF keys] have u: "table_ok u" by (simp add: table_ok_def)
  have entry: "entry u x = entry t x" for x
    using entry_mem [OF u, of x] entry_mem [OF assms(1), of x] \<open>set (st_states u) = set (st_states t)\<close>
    by (metis not_Some_eq)
  have mset: "mset (samples u) = mset (samples t)"
    using assms(2) by (simp add: samples_def GetAll_def mset_filter)
  then have len: "length (samples u) = length (samples t)" by (rule mset_eq_length)
  have "sort (map ws_ewma_jobs_per_sec (samples u)) = sort (map ws_ewma_jobs_per_sec (samples t))"
    by (rule properties_for_sort) (simp_all add: mset)
  with len have med: "ClusterMedian u = ClusterMedian t" by (simp add: ClusterMedian_spec)
  show ?thesis
  proof (cases "length (samples t) < 2")
    case True
    then show ?thesis using DetectSlowWorkers_frozen [of u nows] DetectSlowWorkers_frozen [of t nows] med entry
      by (simp add: len pool_samples)
  next
    case False
    then have two: "2 \<le> length (pool t)" "2 \<le> length (pool u)" by (simp_all add: pool_samples len)
    have m: "pool_median u = pool_median t"
      using False len med by (simp add: pool_median_Cluster)
    show ?thesis
      unfolding set_eq_iff detected_iff [OF u two(2)] detected_iff [OF assms(1) two(1)]
        detection_marks [OF u two(2)] detection_marks [OF assms(1) two(1)] m entry
      by (simp add: med)
  qed
qed

theorem detection_order_independent_witness:
  "set (det_newly_evicted (fst (DetectSlowWorkers (\<lambda>_. 9) (ex_table\<lparr>st_states := rev (st_states ex_table)\<rparr>)))) = {''c''}"
proof -
  have "det_newly_evicted (fst (DetectSlowWorkers (\<lambda>_. 9) ex_table)) = [''c'']" by code_simp
  with detection_order_independent [OF ex_table_ok, of "ex_table\<lparr>st_states := rev (st_states ex_table)\<rparr>" "\<lambda>_. 9"]
  show ?thesis by simp
qed

subsection \<open>Reachable tables\<close>

text \<open>
  Every operation of the table as a step; a heartbeat reports a rate that is not negative.
\<close>

inductive table_step :: "(string \<Rightarrow> string option) \<Rightarrow> state_table \<Rightarrow> state_table \<Rightarrow> bool" for up where
  op_beat: "0 \<le> hb_jobs_per_sec p \<Longrightarrow> table_step up t (UpdateFromHeartbeat up p t)"
| op_mark: "table_step up t (SetEviction up w b t)"
| op_clear: "table_step up t (ClearEviction up w t)"
| op_scan: "table_step up t (snd (ScanOffline now t))"
| op_remove: "table_step up t (RemoveWorker up w t)"
| op_detect: "table_step up t (snd (DetectSlowWorkers nows t))"

definition table_init :: "state_table \<Rightarrow> bool" where
  "table_init t \<longleftrightarrow> (\<exists>timeout. t = NewWorkerStateTable timeout)"

definition state_ok :: "worker_state \<Rightarrow> bool" where
  "state_ok s \<longleftrightarrow> 0 \<le> ws_ewma_jobs_per_sec s \<and> 0 \<le> ws_jobs_per_sec s \<and>
     (ws_zero_sample_streak s = 0 \<longleftrightarrow> 0 < ws_jobs_per_sec s)"

definition table_inv :: "(string \<Rightarrow> string option) \<Rightarrow> state_table \<Rightarrow> bool" where
  "table_inv up t \<longleftrightarrow> table_ok t \<and> st_alpha t = DefaultEWMAAlpha \<and> 0 < st_offline_timeout t \<and>
     (\<forall>(k, s) \<in> set (st_states t). NormalizeWorkerID up k = k \<and> state_ok s)"

lemma table_inv_entry:
  "table_inv up t \<Longrightarrow> entry t k = Some s \<Longrightarrow> ws_worker_id s = k \<and> NormalizeWorkerID up k = k \<and> state_ok s"
  using entry_mem [of t k s] by (auto simp: table_inv_def table_ok_def)

lemma table_inv_set:
  assumes "table_inv up t" "ws_worker_id s = k" "NormalizeWorkerID up k = k" "state_ok s"
  shows "table_inv up (set_entry k s t)"
proof -
  have "distinct (map fst (st_states t))" using assms(1) by (simp add: table_inv_def table_ok_def)
  then have "e = (k, s) \<or> e \<in> set (st_states t)" if "e \<in> set (st_states (set_entry k s t))" for e
    using that set_put by (fastforce simp: set_entry_def)
  then have "\<forall>e \<in> set (st_states (set_entry k s t)). case e of (k, s) \<Rightarrow> NormalizeWorkerID up k = k \<and> state_ok s"
    using assms by (fastforce simp: table_inv_def)
  with assms set_entry_ok [of t s k] show ?thesis by (simp add: table_inv_def)
qed

lemma table_inv_mark:
  "table_inv up t \<Longrightarrow> entry t k = Some s \<Longrightarrow> table_inv up (set_entry k (s\<lparr>ws_evicted := b\<rparr>) t)"
  by (drule (1) table_inv_entry [rotated]) (rule table_inv_set; simp add: state_ok_def)

lemma judge_loop_inv: "table_inv up t \<Longrightarrow> table_inv up (snd (snd (judge_loop nows m ws t)))"
  by (induction nows m ws t rule: judge_loop.induct)
    (auto split: option.splits simp: split_beta Let_def table_inv_mark)

lemma DetectSlowWorkers_inv: "table_inv up t \<Longrightarrow> table_inv up (snd (DetectSlowWorkers nows t))"
  using judge_loop_inv by (auto simp: DetectSlowWorkers_def medianSample_pool split_beta Let_def)

lemma heartbeat_entry:
  "entry (UpdateFromHeartbeat up p t) k =
     (if k = NormalizeWorkerID up (hb_worker_id p)
      then Some (smooth (st_alpha t) (entry t k \<noteq> None) p
                   (apply_payload p (coalesce (entry t k) (fresh_state k (hb_timestamp p)))))
      else entry t k)"
  by (simp add: UpdateFromHeartbeat_def Let_def)

lemma payload_ok:
  assumes "0 \<le> hb_jobs_per_sec p" and "0 \<le> ws_ewma_jobs_per_sec s"
  shows "state_ok (smooth DefaultEWMAAlpha b p (apply_payload p s))"
  using assms by (auto simp: DefaultEWMAAlpha_def state_ok_def smooth_def apply_payload_def Let_def)

lemma smooth_id [simp]: "ws_worker_id (smooth a b p (apply_payload p s)) = ws_worker_id s"
  by (simp add: smooth_def apply_payload_def Let_def)

lemma heartbeat_inv:
  assumes "uuid_canonical up" "table_inv up t" "0 \<le> hb_jobs_per_sec p"
  shows "table_inv up (UpdateFromHeartbeat up p t)"
proof (cases "entry t (NormalizeWorkerID up (hb_worker_id p))")
  case None
  show ?thesis
    using assms payload_ok [OF assms(3), of "fresh_state (NormalizeWorkerID up (hb_worker_id p)) (hb_timestamp p)" False] None
    by (auto simp: UpdateFromHeartbeat_def Let_def NormalizeWorkerID_idem table_inv_def [of up t] fresh_state_def
        intro!: table_inv_set)
next
  case (Some s)
  note table_inv_entry [OF assms(2) Some]
  with assms payload_ok [OF assms(3), of s True] Some show ?thesis
    by (auto simp: UpdateFromHeartbeat_def Let_def table_inv_def [of up t] state_ok_def [of s] intro!: table_inv_set)
qed

lemma table_inv_map:
  assumes "table_inv up t" "\<And>k s. ws_worker_id (g k s) = ws_worker_id s" "\<And>k s. state_ok s \<Longrightarrow> state_ok (g k s)"
  shows "table_inv up (t\<lparr>st_states := map (\<lambda>(k, s). (k, g k s)) (st_states t)\<rparr>)"
proof -
  have eq: "map fst (map (\<lambda>(k, s). (k, g k s)) (st_states t)) = map fst (st_states t)"
    by (simp add: split_beta)
  have "distinct (map fst (map (\<lambda>(k, s). (k, g k s)) (st_states t)))"
    unfolding eq using assms(1) by (simp add: table_inv_def table_ok_def)
  with assms show ?thesis by (auto simp: table_inv_def table_ok_def simp del: map_map)
qed

lemma ScanOffline_inv: "table_inv up t \<Longrightarrow> table_inv up (snd (ScanOffline now t))"
  unfolding ScanOffline_def snd_conv by (rule table_inv_map) (simp_all add: state_ok_def)

lemma RemoveWorker_inv: "table_inv up t \<Longrightarrow> table_inv up (RemoveWorker up w t)"
  by (auto simp: table_inv_def table_ok_def RemoveWorker_def distinct_map_filter)

lemma SetEviction_inv: "table_inv up t \<Longrightarrow> table_inv up (SetEviction up w b t)"
  by (auto simp: SetEviction_def table_inv_mark split: option.splits)

text \<open>Where the UUID parser does what its documentation says; nothing is claimed of another.\<close>

interpretation table: invariant_system table_init "table_step up" "\<lambda>t. uuid_canonical up \<longrightarrow> table_inv up t"
proof unfold_locales
  fix t assume "table_init t"
  then show "uuid_canonical up \<longrightarrow> table_inv up t"
    by (auto simp: table_init_def NewWorkerStateTable_def table_inv_def table_ok_def DefaultEWMAAlpha_def)
next
  fix t t' assume "uuid_canonical up \<longrightarrow> table_inv up t" and step: "table_step up t t'"
  from step this(1) show "uuid_canonical up \<longrightarrow> table_inv up t'"
    by (cases rule: table_step.cases)
      (auto simp: ClearEviction_def heartbeat_inv SetEviction_inv ScanOffline_inv RemoveWorker_inv DetectSlowWorkers_inv)
qed

text \<open>
  In every table that heartbeats, marks, scans, removals and detection build, in any order, each worker
  has one entry, under its canonical identity; its smoothed throughput is not negative, and its run of zero
  samples is positive exactly when the latest sample is zero.
\<close>

theorem worker_table_reachable:
  assumes "uuid_canonical up" and "reach table_init (table_step up) t" and "entry t k = Some s"
  shows "distinct (map fst (st_states t)) \<and> ws_worker_id s = k \<and> NormalizeWorkerID up k = k
    \<and> 0 \<le> ws_ewma_jobs_per_sec s \<and> (0 < ws_zero_sample_streak s \<longleftrightarrow> ws_jobs_per_sec s = 0)"
proof -
  have inv: "table_inv up t" using table.reach_inv [OF assms(2)] assms(1) by simp
  with table_inv_entry [OF inv assms(3)] show ?thesis
    by (auto simp: table_inv_def table_ok_def state_ok_def)
qed

definition ex_beat :: "string \<Rightarrow> rat \<Rightarrow> time \<Rightarrow> heartbeat_payload" where
  "ex_beat w r ts = \<lparr>hb_worker_id = w, hb_status = ''online'', hb_gpu_util_pct = 0, hb_gpu_mem_used_mb = 0,
     hb_gpu_metrics_valid = False, hb_active_jobs = [], hb_jobs_per_sec = r, hb_queue_depth = 0,
     hb_completed_jobs = 9, hb_timestamp = ts\<rparr>"

text \<open>An upper-case spelling and its canonical form reach the same entry.\<close>

theorem worker_table_reachable_witness:
  "\<exists>up t s. entry t ''w1'' = Some s \<and> ws_worker_id s = ''w1'' \<and> ws_ewma_jobs_per_sec s = 7
     \<and> distinct (map fst (st_states t)) \<and> length (st_states t) = 1 \<and> NormalizeWorkerID up ''W1'' = ''w1''"
proof -
  define up :: "string \<Rightarrow> string option" where
    "up = (\<lambda>s. if s = ''W1'' \<or> s = ''w1'' then Some ''w1'' else None)"
  define t where "t = UpdateFromHeartbeat up (ex_beat ''w1'' 10 2)
      (UpdateFromHeartbeat up (ex_beat ''W1'' 5 1) (NewWorkerStateTable 0))"
  have norm: "NormalizeWorkerID up ''W1'' = ''w1''" "NormalizeWorkerID up ''w1'' = ''w1''"
    by (simp_all add: NormalizeWorkerID_def up_def) (code_simp)+
  have "uuid_canonical up" unfolding uuid_canonical_def up_def by (auto simp: TrimSpace_def) (code_simp)+
  moreover have "reach table_init (table_step up) t"
  proof -
    have "reach table_init (table_step up) (NewWorkerStateTable 0)" by (rule reach_init) (auto simp: table_init_def)
    moreover have beat: "table_step up x (UpdateFromHeartbeat up (ex_beat w r n) x)" if "0 \<le> r" for x w r n
      using that by (intro op_beat) (simp add: ex_beat_def)
    ultimately show ?thesis unfolding t_def by (blast intro: reach_step beat [of 5] beat [of 10] zero_le_numeral)
  qed
  moreover obtain s where "entry t ''w1'' = Some s" "ws_ewma_jobs_per_sec s = 7" "length (st_states t) = 1"
    by (simp add: t_def UpdateFromHeartbeat_def Let_def norm ex_beat_def NewWorkerStateTable_def entry_def
        set_entry_def smooth_def apply_payload_def DefaultEWMAAlpha_def fresh_state_def)
  ultimately show ?thesis using worker_table_reachable [of up t "''w1''" s] norm by blast
qed

text \<open>
  An idle gap costs nothing and a long one ends participation. Along a run of heartbeats without jobs and
  without throughput the smoothed rate decays by 3/5 each time, the mark never moves and the worker is never
  judged; two in a row take it out of the sampled pool, while after only one a warmed-up producer is still in.
\<close>

theorem idle_gap_spares_worker:
  assumes "entry t k = Some s" and "st_alpha t = DefaultEWMAAlpha"
    and "\<forall>p \<in> set ps. NormalizeWorkerID up (hb_worker_id p) = k \<and> hb_jobs_per_sec p = 0 \<and> hb_active_jobs p = []"
    and "ps \<noteq> []"
  shows "\<exists>s'. entry (fold (UpdateFromHeartbeat up) ps t) k = Some s'
     \<and> ws_ewma_jobs_per_sec s' = (3 / 5) ^ length ps * ws_ewma_jobs_per_sec s
     \<and> ws_evicted s' = ws_evicted s \<and> \<not> judged now s'
     \<and> (2 \<le> length ps \<longrightarrow> \<not> sampled s')
     \<and> (sampled s' \<or> length ps \<noteq> 1 \<or> ws_zero_sample_streak s \<noteq> 0 \<or> ws_ewma_jobs_per_sec s = 0 \<or> \<not> eligible s')"
proof -
  have "\<exists>s'. entry (fold (UpdateFromHeartbeat up) ps t) k = Some s'
     \<and> ws_ewma_jobs_per_sec s' = (3 / 5) ^ length ps * ws_ewma_jobs_per_sec s
     \<and> ws_evicted s' = ws_evicted s \<and> ws_zero_sample_streak s' = ws_zero_sample_streak s + length ps
     \<and> (ps = [] \<or> ws_jobs_per_sec s' = 0 \<and> ws_active_jobs s' = [])"
    using assms(1-3)
  proof (induction ps arbitrary: t s)
    case (Cons p ps)
    let ?s = "smooth DefaultEWMAAlpha True p (apply_payload p s)"
    have e: "entry (UpdateFromHeartbeat up p t) k = Some ?s"
      using Cons.prems by (simp add: heartbeat_entry)
    have a: "st_alpha (UpdateFromHeartbeat up p t) = DefaultEWMAAlpha"
      using Cons.prems by (simp add: UpdateFromHeartbeat_def Let_def)
    have "ws_ewma_jobs_per_sec ?s = 3 / 5 * ws_ewma_jobs_per_sec s" "ws_evicted ?s = ws_evicted s"
      "ws_zero_sample_streak ?s = ws_zero_sample_streak s + 1" "ws_jobs_per_sec ?s = 0" "ws_active_jobs ?s = []"
      using Cons.prems by (simp_all add: smooth_def apply_payload_def Let_def DefaultEWMAAlpha_def)
    note s = this
    show ?case
    proof (cases "ps = []")
      case True
      then have "entry (fold (UpdateFromHeartbeat up) (p # ps) t) k = Some ?s" using e by simp
      with s True show ?thesis by (intro exI [of _ ?s]) simp
    next
      case False
      with s Cons.IH [OF e a] Cons.prems(3) show ?thesis by auto
    qed
  qed simp
  with assms(4) show ?thesis
    by (auto simp: judged_def sampled_def eligible_def MinJobsForEviction_def)
qed

theorem idle_gap_spares_worker_witness:
  "\<exists>s'. entry (UpdateFromHeartbeat (\<lambda>_. None) (ex_beat ''c'' 0 6) ex_table) ''c'' = Some s'
     \<and> ws_ewma_jobs_per_sec s' = 3 / 5 \<and> \<not> judged 9 s' \<and> sampled s'"
proof -
  have e: "entry ex_table ''c'' = Some (ex_ws ''c'' 1 False)" by (simp add: ex_table_def entry_def)
  have a: "st_alpha ex_table = DefaultEWMAAlpha" by (simp add: ex_table_def)
  have n: "NormalizeWorkerID (\<lambda>_. None) ''c'' = ''c''" by code_simp
  have el: "eligible s'" if "entry (UpdateFromHeartbeat (\<lambda>_. None) (ex_beat ''c'' 0 6) ex_table) ''c'' = Some s'" for s'
    using that by (simp add: heartbeat_entry ex_beat_def n e smooth_def apply_payload_def Let_def eligible_def
        MinJobsForEviction_def) (auto simp: eligible_def MinJobsForEviction_def)
  from idle_gap_spares_worker [OF e a, of "[ex_beat ''c'' 0 6]" "\<lambda>_. None" 9]
  show ?thesis using el by (auto simp: ex_beat_def n ex_ws_def)
qed

end
