(* ===== verification/MonitorGuarantees.thy ===== *)
theory MonitorGuarantees
  imports HealthMonitor StateTableGuarantees SchedulerGuarantees
begin

section \<open>What the health monitor guarantees\<close>

text \<open>
  The eviction marks of the database and the memory table agree after every tick, whatever calls fail; a tick
  settles every job of the workers it flips offline and touches no other job; a failed migration is retried.
\<close>

subsection \<open>The marks\<close>

text \<open>A database and a memory table whose marks differ exactly on the workers of \<open>P\<close> that both know.\<close>

definition differ_on :: "string set \<Rightarrow> state_table \<Rightarrow> database \<Rightarrow> bool" where
  "differ_on P t d \<longleftrightarrow> (\<forall>w \<in> set (workers d). \<forall>s. entry t (w_id w) = Some s \<longrightarrow>
     (w_evicted w = ws_evicted s) = (w_id w \<notin> P))"

definition marks_agree :: "database \<Rightarrow> state_table \<Rightarrow> bool" where
  "marks_agree d t \<longleftrightarrow> (\<forall>w \<in> set (workers d). \<forall>s. entry t (w_id w) = Some s \<longrightarrow> w_evicted w = ws_evicted s)"

lemma differ_on_none: "differ_on {} t d \<longleftrightarrow> marks_agree d t"
  by (simp add: differ_on_def marks_agree_def)

lemma entry_SetEviction:
  "entry (SetEviction up k b t) x =
     (if x = NormalizeWorkerID up k then map_option (\<lambda>s. s\<lparr>ws_evicted := b\<rparr>) (entry t x) else entry t x)"
  by (auto simp: SetEviction_def split: option.splits)

lemma differ_workers_cong: "workers d' = workers d \<Longrightarrow> differ_on P t d' = differ_on P t d"
  by (simp add: differ_on_def)

lemma CreateEvictionEvent_workers [simp]: "workers (snd (CreateEvictionEvent ok e n w ty a b r d)) = workers d"
  by (simp add: CreateEvictionEvent_def insert_eviction_event_def Let_def)

lemma mark_written:
  assumes "MarkWorkerEvicted up ok now k d = (Inr u, d')" "NormalizeWorkerID up k = k"
    and "differ_on (insert k P) t d" "k \<notin> P" "\<And>s. entry t k = Some s \<Longrightarrow> ws_evicted s"
  shows "differ_on P t d'"
proof -
  have "workers d' = upd_where (\<lambda>w. w_id w = k) (\<lambda>w. w\<lparr>w_evicted := True, w_evicted_at := Some now\<rparr>) (workers d)"
    using assms(1,2) by (auto simp: MarkWorkerEvicted_def Let_def split: if_splits)
  with assms show ?thesis by (fastforce simp: differ_on_def elim!: set_upd_whereE)
qed

lemma clear_written:
  assumes "ClearWorkerEviction up ok eid now k a b r d = (Inr c, d')" "NormalizeWorkerID up k = k"
    and "differ_on (insert k P) t d" "k \<notin> P" "\<And>s. entry t k = Some s \<Longrightarrow> \<not> ws_evicted s"
  shows "differ_on P t d'"
proof -
  have "workers d' = upd_where (\<lambda>w. w_id w = k \<and> w_evicted w) (\<lambda>w. w\<lparr>w_evicted := False, w_evicted_at := None\<rparr>) (workers d)"
    using assms(1,2)
    by (auto simp: ClearWorkerEviction_def Let_def insert_eviction_event_def upd_where_none split: if_splits)
  with assms show ?thesis by (fastforce simp: differ_on_def elim!: set_upd_whereE)
qed

lemma mark_reverted:
  assumes "NormalizeWorkerID up k = k" "differ_on (insert k P) t d" "k \<notin> P" "\<And>s. entry t k = Some s \<Longrightarrow> ws_evicted s \<noteq> b"
  shows "differ_on P (SetEviction up k b t) d"
  using assms by (fastforce simp: differ_on_def entry_SetEviction split: if_splits)

lemma failed_writes:
  "MarkWorkerEvicted up ok now k d = (Inl e, d') \<Longrightarrow> d' = d"
  "ClearWorkerEviction up ok eid now k a b r d = (Inl e, d') \<Longrightarrow> d' = d"
  by (auto simp: MarkWorkerEvicted_def ClearWorkerEviction_def Let_def split: if_splits)

lemma evict_loop_agrees:
  assumes "distinct ws" "\<forall>k \<in> set ws. NormalizeWorkerID (m_uuid_parse env) k = k"
    and "\<forall>k \<in> set ws. \<forall>s. entry t k = Some s \<longrightarrow> ws_evicted s"
    and "differ_on (set ws \<union> R) t d" "set ws \<inter> R = {}" "table_inv (m_uuid_parse env) t"
  shows "differ_on R (fst (evict_loop env m ws t d)) (snd (evict_loop env m ws t d)) \<and>
    table_inv (m_uuid_parse env) (fst (evict_loop env m ws t d)) \<and>
    (\<forall>k. k \<notin> set ws \<longrightarrow> entry (fst (evict_loop env m ws t d)) k = entry t k)"
  using assms
proof (induction ws arbitrary: t d)
  case (Cons k ws)
  let ?up = "m_uuid_parse env"
  have P: "differ_on (insert k (set ws \<union> R)) t d" "k \<notin> set ws \<union> R" "NormalizeWorkerID ?up k = k"
    "\<And>s. entry t k = Some s \<Longrightarrow> ws_evicted s" using Cons.prems by auto
  obtain res d1 where call: "MarkWorkerEvicted ?up (m_ok env (EvictCall k)) (m_now env (EvictCall k)) k d = (res, d1)"
    by (cases "MarkWorkerEvicted ?up (m_ok env (EvictCall k)) (m_now env (EvictCall k)) k d")
  show ?case
  proof (cases res)
    case (Inl e)
    let ?t = "SetEviction ?up k False t"
    have d1: "d1 = d" using call Inl by (auto dest: failed_writes)
    have "differ_on (set ws \<union> R) ?t d" by (rule mark_reverted [OF P(3,1,2)]) (use P(4) in auto)
    moreover have "\<forall>x \<in> set ws. \<forall>s. entry ?t x = Some s \<longrightarrow> ws_evicted s"
      using Cons.prems(1,3) P by (auto simp: entry_SetEviction)
    ultimately show ?thesis
      using Cons.IH [of ?t d] Cons.prems call Inl d1 P(3) SetEviction_inv [OF Cons.prems(6), of k False]
      by (auto simp: entry_SetEviction)
  next
    case (Inr u)
    have written: "differ_on (set ws \<union> R) t d1" by (rule mark_written [OF call [unfolded Inr] P(3,1,2,4)])
    show ?thesis
    proof (cases "Get ?up k t")
      case None
      with written Cons.IH [of t d1] Cons.prems call Inr show ?thesis by simp
    next
      case (Some s)
      let ?d = "snd (CreateEvictionEvent (m_ok env (EventCall k)) (m_uid env (EventCall k)) (m_now env (EventCall k)) k
          EvictionEventEvicted (ws_ewma_jobs_per_sec s) m ''worker EWMA throughput below cluster median threshold'' d1)"
      have "differ_on (set ws \<union> R) t ?d" using written by (simp add: differ_on_def)
      with Cons.IH [of t ?d] Cons.prems call Inr Some show ?thesis by simp
    qed
  qed
qed simp

lemma recover_loop_agrees:
  assumes "distinct ws" "\<forall>k \<in> set ws. NormalizeWorkerID (m_uuid_parse env) k = k"
    and "\<forall>k \<in> set ws. \<exists>s. entry t k = Some s \<and> \<not> ws_evicted s"
    and "differ_on (set ws) t d" "table_inv (m_uuid_parse env) t"
  shows "differ_on {} (fst (recover_loop env m ws t d)) (snd (recover_loop env m ws t d)) \<and>
    table_inv (m_uuid_parse env) (fst (recover_loop env m ws t d))"
  using assms
proof (induction ws arbitrary: t d)
  case (Cons k ws)
  let ?up = "m_uuid_parse env"
  have P: "differ_on (insert k (set ws)) t d" "k \<notin> set ws" "NormalizeWorkerID ?up k = k"
    "\<And>s. entry t k = Some s \<Longrightarrow> \<not> ws_evicted s" using Cons.prems by auto
  from Cons.prems obtain s where s: "Get ?up k t = Some s" by (auto simp: Get_def)
  obtain res d1 where call: "ClearWorkerEviction ?up (m_ok env (ClearCall k)) (m_uid env (ClearCall k))
      (m_now env (ClearCall k)) k (ws_ewma_jobs_per_sec s) m EvictionReasonThroughputRecovered d = (res, d1)"
    by (cases "ClearWorkerEviction ?up (m_ok env (ClearCall k)) (m_uid env (ClearCall k))
      (m_now env (ClearCall k)) k (ws_ewma_jobs_per_sec s) m EvictionReasonThroughputRecovered d")
  show ?case
  proof (cases res)
    case (Inl e)
    let ?t = "SetEviction ?up k True t"
    have d1: "d1 = d" using call Inl by (auto dest: failed_writes)
    have "differ_on (set ws) ?t d" by (rule mark_reverted [OF P(3,1,2)]) (use P(4) in auto)
    moreover have "\<forall>x \<in> set ws. \<exists>s. entry ?t x = Some s \<and> \<not> ws_evicted s"
      using Cons.prems(1,3) P by (auto simp: entry_SetEviction)
    ultimately show ?thesis
      using Cons.IH [of ?t d] Cons.prems call Inl d1 s SetEviction_inv [OF Cons.prems(5), of k True] by simp
  next
    case (Inr c)
    have "differ_on (set ws) t d1" by (rule clear_written [OF call [unfolded Inr] P(3,1,2,4)])
    with Cons.IH [of t d1] Cons.prems call Inr s show ?thesis by simp
  qed
qed simp

text \<open>Detection makes the two differ exactly on the workers it names.\<close>

lemma detection_differs:
  fixes nows :: "string \<Rightarrow> time"
  assumes "table_inv up t" "marks_agree d t"
  defines "det \<equiv> fst (DetectSlowWorkers nows t)" and "t' \<equiv> snd (DetectSlowWorkers nows t)"
  shows "differ_on (set (det_newly_evicted det) \<union> set (det_recovered det)) t' d"
    and "distinct (det_newly_evicted det)" and "distinct (det_recovered det)"
    and "set (det_newly_evicted det) \<inter> set (det_recovered det) = {}"
    and "\<forall>k \<in> set (det_newly_evicted det). \<exists>s. entry t' k = Some s \<and> ws_evicted s \<and> NormalizeWorkerID up k = k"
    and "\<forall>k \<in> set (det_recovered det). \<exists>s. entry t' k = Some s \<and> \<not> ws_evicted s \<and> NormalizeWorkerID up k = k"
proof -
  let ?R = "\<lambda>k s. (k \<in> set (det_newly_evicted det) \<longleftrightarrow> \<not> ws_evicted s \<and> falls_behind (pool_median t) (nows k) s) \<and>
    (k \<in> set (det_recovered det) \<longleftrightarrow> ws_evicted s \<and> catches_up (pool_median t) (nows k) s) \<and>
    entry t' k = Some (s\<lparr>ws_evicted := (if ws_evicted s then \<not> catches_up (pool_median t) (nows k) s
                                    else falls_behind (pool_median t) (nows k) s)\<rparr>)"
  have ok: "table_ok t" using assms(1) by (simp add: table_inv_def)
  have all: "distinct (det_newly_evicted det) \<and> distinct (det_recovered det) \<and>
      (\<forall>k. entry t k = None \<longrightarrow> k \<notin> set (det_newly_evicted det) \<union> set (det_recovered det) \<and> entry t' k = None) \<and>
      ((\<forall>k s. entry t k = Some s \<longrightarrow> ?R k s) \<or> (t' = t \<and> det_newly_evicted det = [] \<and> det_recovered det = []))"
  proof (cases "length (pool t) < 2")
    case True
    then show ?thesis using DetectSlowWorkers_frozen [OF True, of nows] by (simp add: det_def t'_def)
  next
    case False
    then have two: "2 \<le> length (pool t)" by simp
    have ?thesis if "\<And>k s. entry t k = Some s \<Longrightarrow> ?R k s"
      using that DetectSlowWorkers_spec(1,2) [OF ok two, of nows] pool_distinct [OF ok]
        detected_iff [OF ok two, of _ nows] detection_marks [OF ok two, of nows]
      by (simp add: det_def t'_def distinct_map_filter)
    moreover have "?R k s" if "entry t k = Some s" for k s
      using that detected_iff [OF ok two, of k nows] detection_marks [OF ok two, of nows k]
      unfolding det_def t'_def by (auto simp: falls_behind_def catches_up_def)
    ultimately show ?thesis by blast
  qed
  show "distinct (det_newly_evicted det)" "distinct (det_recovered det)" using all by auto
  have gone: "k \<notin> set (det_newly_evicted det) \<and> k \<notin> set (det_recovered det) \<and> entry t' k = None"
    if "entry t k = None" for k using all that by simp
  have rules: "?R k s \<or> (t' = t \<and> det_newly_evicted det = [] \<and> det_recovered det = [])" if "entry t k = Some s" for k s
    using all that by blast
  show "set (det_newly_evicted det) \<inter> set (det_recovered det) = {}"
  proof (rule equals0I)
    fix k assume k: "k \<in> set (det_newly_evicted det) \<inter> set (det_recovered det)"
    then obtain s where "entry t k = Some s" using gone by (cases "entry t k") auto
    from rules [OF this] k show False by auto
  qed
  have named: "\<exists>s. entry t k = Some s \<and> ?R k s \<and> NormalizeWorkerID up k = k"
    if "k \<in> set (det_newly_evicted det) \<union> set (det_recovered det)" for k
  proof -
    from that gone obtain s where s: "entry t k = Some s" by (cases "entry t k") auto
    moreover from rules [OF s] that have "?R k s" by auto
    ultimately show ?thesis using table_inv_entry [OF assms(1)] by blast
  qed
  show "\<forall>k \<in> set (det_newly_evicted det). \<exists>s. entry t' k = Some s \<and> ws_evicted s \<and> NormalizeWorkerID up k = k"
    using named by fastforce
  show "\<forall>k \<in> set (det_recovered det). \<exists>s. entry t' k = Some s \<and> \<not> ws_evicted s \<and> NormalizeWorkerID up k = k"
    using named by fastforce
  show "differ_on (set (det_newly_evicted det) \<union> set (det_recovered det)) t' d"
    unfolding differ_on_def
  proof (intro ballI allI impI)
    fix w s' assume w: "w \<in> set (workers d)" "entry t' (w_id w) = Some s'"
    with gone obtain s where s: "entry t (w_id w) = Some s" by (cases "entry t (w_id w)") auto
    then have "w_evicted w = ws_evicted s" using assms(2) w by (simp add: marks_agree_def)
    with rules [OF s] s w(2) show "(w_evicted w = ws_evicted s') = (w_id w \<notin> set (det_newly_evicted det) \<union> set (det_recovered det))"
      by auto
  qed
qed

lemma detectSlowWorkers_agrees:
  assumes "mo_table m = Some t" "table_inv (m_uuid_parse env) t" "marks_agree (mo_db m) t"
  shows "\<exists>t'. mo_table (detectSlowWorkers env cfg m) = Some t' \<and> table_inv (m_uuid_parse env) t'
    \<and> marks_agree (mo_db (detectSlowWorkers env cfg m)) t'"
proof -
  let ?nows = "\<lambda>w. m_now env (JudgeClock w)"
  define det t1 where "det = fst (DetectSlowWorkers ?nows t)" and "t1 = snd (DetectSlowWorkers ?nows t)"
  note D = detection_differs [OF assms(2,3), of ?nows, folded det_def t1_def]
  have inv: "table_inv (m_uuid_parse env) t1" unfolding t1_def by (rule DetectSlowWorkers_inv [OF assms(2)])
  have names: "\<forall>k \<in> set (det_newly_evicted det). NormalizeWorkerID (m_uuid_parse env) k = k"
    and marked: "\<forall>k \<in> set (det_newly_evicted det). \<forall>s. entry t1 k = Some s \<longrightarrow> ws_evicted s"
    and names': "\<forall>k \<in> set (det_recovered det). NormalizeWorkerID (m_uuid_parse env) k = k"
    using D(5,6) by auto
  define t2 d2 where "t2 = fst (evict_loop env (det_median det) (det_newly_evicted det) t1 (mo_db m))"
    and "d2 = snd (evict_loop env (det_median det) (det_newly_evicted det) t1 (mo_db m))"
  have E: "differ_on (set (det_recovered det)) t2 d2" "table_inv (m_uuid_parse env) t2"
    "\<forall>k. k \<notin> set (det_newly_evicted det) \<longrightarrow> entry t2 k = entry t1 k"
    using evict_loop_agrees [OF D(2) names marked D(1,4) inv, of "det_median det"] unfolding t2_def d2_def by auto
  have "\<forall>k \<in> set (det_recovered det). \<exists>s. entry t2 k = Some s \<and> \<not> ws_evicted s"
    using E(3) D(4,6) unfolding disjoint_iff by metis
  note R = recover_loop_agrees [OF D(3) names' this E(1,2), of "det_median det"]
  have "detectSlowWorkers env cfg m =
    (let m = m\<lparr>mo_table := Some (fst (recover_loop env (det_median det) (det_recovered det) t2 d2)),
                mo_db := snd (recover_loop env (det_median det) (det_recovered det) t2 d2)\<rparr>
     in if det_newly_evicted det \<noteq> [] \<or> det_recovered det \<noteq> [] then trigger cfg m else m)"
    by (simp only: detectSlowWorkers_def assms(1) option.case split_beta Let_def det_def t1_def t2_def d2_def)
  with R show ?thesis by (auto simp: Let_def trigger_def differ_on_none)
qed

lemma MigrateJobsFromWorker_workers [simp]:
  "workers (snd (MigrateJobsFromWorker up ok now eid uids w reason mx d)) = workers d"
  by (simp add: MigrateJobsFromWorker_def Let_def split_beta split: option.split)

definition mark_cols :: "database \<Rightarrow> (string \<times> bool) list" where
  "mark_cols d = map (\<lambda>w. (w_id w, w_evicted w)) (workers d)"

lemma mark_cols_upd:
  "(\<And>w. w_id (f w) = w_id w \<and> w_evicted (f w) = w_evicted w) \<Longrightarrow> mark_cols (upd_workers P f d) = mark_cols d"
  by (simp add: mark_cols_def upd_where_def)

lemma marks_agree_cols:
  "marks_agree d t \<longleftrightarrow> (\<forall>(k, b) \<in> set (mark_cols d). \<forall>s. entry t k = Some s \<longrightarrow> b = ws_evicted s)"
  by (auto simp: marks_agree_def mark_cols_def)

lemma migrate_cols:
  "mark_cols (mo_db (migrateJobsFromWorker env cfg k m)) = mark_cols (mo_db m)"
  "mo_table (migrateJobsFromWorker env cfg k m) = mo_table m"
proof -
  have frame: "mark_cols (snd (RestoreWorkerStatusAfterFailedMigration up ok w d)) = mark_cols d" for up ok w d
    by (simp add: RestoreWorkerStatusAfterFailedMigration_def mark_cols_upd)
  obtain res d where call: "MigrateJobsFromWorker (m_uuid_parse env) (m_ok env (MigrateCall k)) (m_now env (MigrateCall k))
      (m_uid env (MigrateCall k)) (m_uids env (MigrateCall k)) k ReasonHeartbeatTimeout (MaxRetryCount cfg) (mo_db m) = (res, d)"
    by fastforce
  have "mark_cols d = mark_cols (mo_db m)"
    using arg_cong [OF call, where f = "\<lambda>x. workers (snd x)"] by (simp add: mark_cols_def)
  then show "mark_cols (mo_db (migrateJobsFromWorker env cfg k m)) = mark_cols (mo_db m)"
    "mo_table (migrateJobsFromWorker env cfg k m) = mo_table m"
    by (simp_all add: migrateJobsFromWorker_def call frame trigger_def Let_def split: sum.split)
qed

lemma migrate_all_cols:
  "mark_cols (mo_db (migrate_all env cfg ks m)) = mark_cols (mo_db m) \<and> mo_table (migrate_all env cfg ks m) = mo_table m"
  by (induction ks arbitrary: m) (simp_all add: migrate_all_def migrate_cols)

lemma entry_RemoveWorker:
  "entry (RemoveWorker up w t) k = (if k = NormalizeWorkerID up w then None else entry t k)"
proof -
  have "map_of (filter (\<lambda>(k, s). k \<noteq> a) xs) k = (if k = a then None else map_of xs k)" for a and xs :: "(string \<times> worker_state) list"
    by (induction xs) auto
  then show ?thesis by (simp add: entry_def RemoveWorker_def)
qed

lemma removals:
  "table_inv up t \<Longrightarrow> table_inv up (fold (RemoveWorker up) ks t) \<and>
   (\<forall>k. entry (fold (RemoveWorker up) ks t) k = None \<or> entry (fold (RemoveWorker up) ks t) k = entry t k)"
proof (induction ks arbitrary: t)
  case (Cons a ks)
  from Cons.IH [OF RemoveWorker_inv [OF Cons.prems, of a]] show ?case
    unfolding entry_RemoveWorker fold_simps comp_def by metis
qed simp

lemma remove_offline_agrees:
  assumes "mo_table m = Some t" "table_inv (m_uuid_parse env) t" "marks_agree (mo_db m) t"
  shows "\<exists>t'. mo_table (remove_offline env cfg m) = Some t' \<and> table_inv (m_uuid_parse env) t'
    \<and> marks_agree (mo_db (remove_offline env cfg m)) t'"
proof (cases "m_ok env RemoveCall")
  case True
  have "marks_agree (mo_db m) (fold (RemoveWorker (m_uuid_parse env)) ks t)" for ks
    unfolding marks_agree_def
  proof (intro ballI allI impI)
    fix w s assume "w \<in> set (workers (mo_db m))" "entry (fold (RemoveWorker (m_uuid_parse env)) ks t) (w_id w) = Some s"
    moreover from this(2) removals [OF assms(2), of ks] have "entry t (w_id w) = Some s" by (metis option.distinct(1))
    ultimately show "w_evicted w = ws_evicted s" using assms(3) by (simp add: marks_agree_def)
  qed
  then have "marks_agree (mo_db m\<lparr>workers := filter P (workers (mo_db m))\<rparr>) (fold (RemoveWorker (m_uuid_parse env)) ks t)"
    for P ks by (simp add: marks_agree_def)
  moreover
  define gone where "gone = removable (m_now env RemoveCall) (OfflineThreshold cfg)"
  have "remove_offline env cfg m = m\<lparr>
      mo_db := mo_db m\<lparr>workers := filter (\<lambda>w. \<not> gone w) (workers (mo_db m))\<rparr>,
      mo_table := Some (fold (RemoveWorker (m_uuid_parse env)) (map w_id (filter gone (workers (mo_db m)))) t)\<rparr>"
    using True assms(1) by (simp add: remove_offline_def RemoveOfflineWorkers_def on_table_def gone_def)
  then have "mo_table (remove_offline env cfg m) =
      Some (fold (RemoveWorker (m_uuid_parse env)) (map w_id (filter gone (workers (mo_db m)))) t)"
    "mo_db (remove_offline env cfg m) = mo_db m\<lparr>workers := filter (\<lambda>w. \<not> gone w) (workers (mo_db m))\<rparr>"
    by simp_all
  ultimately show ?thesis
    using removals [OF assms(2), THEN conjunct1] by metis
next
  case False
  with assms show ?thesis by (simp add: remove_offline_def RemoveOfflineWorkers_def)
qed

lemma entry_ScanOffline:
  "map_option ws_evicted (entry (snd (ScanOffline now t)) k) = map_option ws_evicted (entry t k)"
proof -
  have "entry (snd (ScanOffline now t)) k =
      map_option (\<lambda>s. if went_offline now t s then s\<lparr>ws_status := worker_status_string WorkerStatusOffline\<rparr> else s) (entry t k)"
    by (simp add: ScanOffline_def entry_def map_of_map)
  then show ?thesis by (cases "entry t k") simp_all
qed

lemma scan_agrees: "marks_agree d t \<Longrightarrow> marks_agree d (snd (ScanOffline now t))"
  unfolding marks_agree_def using entry_ScanOffline [of now t]
  by (metis (no_types, lifting) map_option_eq_Some)

subsection \<open>Example monitors\<close>

text \<open>A clock at 200 seconds; the calls in \<open>fails\<close> fail.\<close>

definition ex_menv :: "monitor_call list \<Rightarrow> monitor_env" where
  "ex_menv fails = \<lparr>m_ok = (\<lambda>c. c \<notin> set fails), m_now = (\<lambda>_. 200000000000), m_uid = (\<lambda>_. ''e''),
     m_uids = (\<lambda>_ j. j), m_uuid_parse = (\<lambda>_. None)\<rparr>"

definition ex_marked_db :: database where
  "ex_marked_db = ex_db\<lparr>jobs := [], workers :=
     [new_worker_row ''c'' ''c'' ex_caps 190000000000,
      (new_worker_row ''d'' ''d'' ex_caps 190000000000)\<lparr>w_evicted := True, w_evicted_at := Some 1\<rparr>]\<rparr>"

definition ex_monitor :: "database \<Rightarrow> monitor" where
  "ex_monitor d = \<lparr>mo_db = d, mo_table = Some ex_table, mo_resched = False, mo_released = []\<rparr>"

lemma ex_plain_names: "NormalizeWorkerID (\<lambda>_. None) w = w" if "w \<in> {''a'', ''b'', ''c'', ''d'', ''w1''}"
  using that by (auto simp: NormalizeWorkerID_def TrimSpace_def TrimLeftSpace_def is_space_def)

lemma ex_table_inv: "table_inv (\<lambda>_. None) ex_table"
  using ex_table_ok by (simp add: table_inv_def ex_table_def ex_ws_def state_ok_def ex_plain_names)

text \<open>
  C11: a tick of the health monitor keeps the eviction marks of the database and of the memory table in
  agreement, whichever database calls fail on the way: no failed write or clear leaves a worker marked in
  one and unmarked in the other. The table keeps its invariant.
\<close>

theorem eviction_marks_agree:
  assumes "mo_table m = Some t" and "table_inv (m_uuid_parse env) t" and "marks_agree (mo_db m) t"
  shows "\<exists>t'. mo_table (checkWorkers env cfg m) = Some t' \<and> table_inv (m_uuid_parse env) t'
    \<and> marks_agree (mo_db (checkWorkers env cfg m)) t'"
proof (cases "m_ok env MarkOfflineCall")
  case False
  then show ?thesis using assms by (simp add: checkWorkers_def MarkOfflineWorkersWithMigration_def)
next
  case True
  let ?d = "upd_workers (heartbeat_stale (m_now env MarkOfflineCall) (HeartbeatTimeout cfg))
      (\<lambda>w. w\<lparr>w_status := WorkerStatusOffline\<rparr>) (mo_db m)"
  let ?m1 = "migrate_all env cfg (map w_id (filter (heartbeat_stale (m_now env MarkOfflineCall) (HeartbeatTimeout cfg))
      (workers (mo_db m)))) (m\<lparr>mo_db := ?d\<rparr>)"
  have "mo_table ?m1 = Some t" "mark_cols (mo_db ?m1) = mark_cols (mo_db m)"
    using assms(1) by (simp_all add: migrate_all_cols mark_cols_upd)
  with assms have "marks_agree (mo_db ?m1) t" by (simp add: marks_agree_cols)
  from remove_offline_agrees [OF \<open>mo_table ?m1 = Some t\<close> assms(2) this, of cfg]
  obtain t2 where t2: "mo_table (remove_offline env cfg ?m1) = Some t2" "table_inv (m_uuid_parse env) t2"
    "marks_agree (mo_db (remove_offline env cfg ?m1)) t2" by blast
  let ?m3 = "on_table (\<lambda>t. snd (ScanOffline (m_now env TableClock) t)) (remove_offline env cfg ?m1)"
  have "mo_table ?m3 = Some (snd (ScanOffline (m_now env TableClock) t2))" "mo_db ?m3 = mo_db (remove_offline env cfg ?m1)"
    using t2(1) by (simp_all add: on_table_def)
  with detectSlowWorkers_agrees [OF this(1) ScanOffline_inv [OF t2(2)], of cfg] scan_agrees [OF t2(3)]
  show ?thesis by (simp add: checkWorkers_def MarkOfflineWorkersWithMigration_def True Let_def)
qed

text \<open>The write of the mark of the slow worker fails; the monitor takes the memory mark back.\<close>

theorem eviction_marks_agree_witness:
  "\<exists>t'. mo_table (checkWorkers (ex_menv [EvictCall ''c'']) DefaultMonitorConfig (ex_monitor ex_marked_db)) = Some t'
    \<and> marks_agree (mo_db (checkWorkers (ex_menv [EvictCall ''c'']) DefaultMonitorConfig (ex_monitor ex_marked_db))) t'"
proof -
  have t: "mo_table (ex_monitor ex_marked_db) = Some ex_table" by (simp add: ex_monitor_def)
  have i: "table_inv (m_uuid_parse (ex_menv [EvictCall ''c''])) ex_table" by (simp add: ex_menv_def ex_table_inv)
  have "marks_agree (mo_db (ex_monitor ex_marked_db)) ex_table"
    by (simp add: marks_agree_def ex_monitor_def ex_marked_db_def ex_table_def ex_ws_def entry_def ex_defs)
  from eviction_marks_agree [OF t i this] show ?thesis by blast
qed

subsection \<open>Failover\<close>

text \<open>
  What the failover of the workers \<open>K\<close> makes of a row: an active job of one of them whose migration call
  succeeds is failed when its migrations have used up the budget and goes back to pending otherwise.
\<close>

definition settled :: "monitor_env \<Rightarrow> monitor_config \<Rightarrow> database \<Rightarrow> string set \<Rightarrow> job_row \<Rightarrow> job_row" where
  "settled env cfg d K j =
     (case j_worker_id j of
        None \<Rightarrow> j
      | Some k \<Rightarrow>
          if k \<in> K \<and> active j \<and> m_ok env (MigrateCall k)
          then (if MaxRetryCount cfg \<le> int (migration_count d (j_id j))
                then budget_row (m_now env (MigrateCall k)) j
                else reset_row (m_now env (MigrateCall k)) j)
          else j)"

lemma migrate_step_failed:
  assumes "\<not> m_ok env (MigrateCall k)"
  shows "mo_db (migrateJobsFromWorker env cfg k m) =
    snd (RestoreWorkerStatusAfterFailedMigration (m_uuid_parse env) (m_ok env (RestoreCall k)) k (mo_db m))"
  using assms by (simp add: migrateJobsFromWorker_def MigrateJobsFromWorker_def Let_def)

lemma migrate_step_ok:
  assumes "m_ok env (MigrateCall k)"
  shows "mo_db (migrateJobsFromWorker env cfg k m) =
    snd (MigrateJobsFromWorker (m_uuid_parse env) True (m_now env (MigrateCall k)) (m_uid env (MigrateCall k))
      (m_uids env (MigrateCall k)) k ReasonHeartbeatTimeout (MaxRetryCount cfg) (mo_db m))"
  using assms by (auto simp: migrateJobsFromWorker_def trigger_def Let_def split: prod.split sum.split)
    (auto simp: MigrateJobsFromWorker_def Let_def split_beta split: option.splits if_splits)

lemma Restore_frame:
  "jobs (snd (RestoreWorkerStatusAfterFailedMigration up ok w d)) = jobs d"
  "migration_events (snd (RestoreWorkerStatusAfterFailedMigration up ok w d)) = migration_events d"
  by (simp_all add: RestoreWorkerStatusAfterFailedMigration_def)

lemma find_worker_Restore:
  "k' \<noteq> NormalizeWorkerID up k \<Longrightarrow>
   find_worker k' (snd (RestoreWorkerStatusAfterFailedMigration up ok k d)) = find_worker k' d"
  by (cases "find_worker k' d")
    (auto simp: RestoreWorkerStatusAfterFailedMigration_def find_row_upd_where dest: find_row_SomeD)

lemma migrate_step:
  fixes cfg :: monitor_config
  assumes ok: "db_ok (mo_db m)" and k: "NormalizeWorkerID (m_uuid_parse env) k = k"
    and r: "find_worker k (mo_db m) = Some r" "w_status r = WorkerStatusOffline"
  defines "d' \<equiv> mo_db (migrateJobsFromWorker env cfg k m)"
  shows "jobs d' = map (settled env cfg (mo_db m) {k}) (jobs (mo_db m))" and "db_ok d'"
    and "j \<in> set (jobs (mo_db m)) \<Longrightarrow> j_worker_id j \<noteq> Some k \<Longrightarrow> migration_count d' (j_id j) = migration_count (mo_db m) (j_id j)"
    and "k' \<noteq> k \<Longrightarrow> find_worker k' d' = find_worker k' (mo_db m)"
proof -
  let ?d = "mo_db m"
  have all: "jobs d' = map (settled env cfg ?d {k}) (jobs ?d) \<and> db_ok d' \<and>
    (j \<in> set (jobs ?d) \<longrightarrow> j_worker_id j \<noteq> Some k \<longrightarrow> migration_count d' (j_id j) = migration_count ?d (j_id j)) \<and>
    (k' \<noteq> k \<longrightarrow> find_worker k' d' = find_worker k' ?d)"
  proof (cases "m_ok env (MigrateCall k)")
    case False
    have "settled env cfg ?d {k} j = j" for j using False by (auto simp: settled_def split: option.split)
    then show ?thesis
      using ok unfolding d'_def migrate_step_failed [OF False]
      by (simp add: Restore_frame find_worker_Restore k db_ok_def map_idI counts_cong [OF Restore_frame(2)])
  next
    case True
    let ?M = "MigrateJobsFromWorker (m_uuid_parse env) True (m_now env (MigrateCall k)) (m_uid env (MigrateCall k))
      (m_uids env (MigrateCall k)) k ReasonHeartbeatTimeout (MaxRetryCount cfg) ?d"
    have d': "d' = snd ?M" unfolding d'_def by (rule migrate_step_ok [OF True])
    obtain res where res: "?M = (Inr res, d')"
      unfolding d' using migrate_offline_eq [OF ok, of "m_uuid_parse env" k r] k r by (auto simp: Let_def)
    have reason: "ReasonHeartbeatTimeout \<noteq> ReasonJobTimeout"
      by (simp add: ReasonHeartbeatTimeout_def ReasonJobTimeout_def)
    note spec = migrate_offline_spec [OF ok _ r(2) reason res, unfolded k Let_def, OF r(1)]
    have "jobs d' = map (settled env cfg ?d {k}) (jobs ?d)"
      unfolding spec [THEN conjunct1] using True
      by (auto simp: settled_def held_def over_budget_def split: option.split)
    moreover have "j_id j \<notin> set (mr_migrated res)" if "j \<in> set (jobs ?d)" "j_worker_id j \<noteq> Some k"
      using spec that(2) in_ids_iff [OF ok that(1), of "\<lambda>j. held k j \<and> \<not> over_budget (MaxRetryCount cfg) ?d j"]
      by (simp add: held_def)
    moreover have "db_ok d'" unfolding d' by (rule moves_ok [OF moves_migrate [OF ok]])
    moreover have "workers d' = workers ?d" unfolding d' by simp
    ultimately show ?thesis using spec by simp
  qed
  from all show "jobs d' = map (settled env cfg ?d {k}) (jobs ?d)" "db_ok d'"
    "j \<in> set (jobs ?d) \<Longrightarrow> j_worker_id j \<noteq> Some k \<Longrightarrow> migration_count d' (j_id j) = migration_count ?d (j_id j)"
    "k' \<noteq> k \<Longrightarrow> find_worker k' d' = find_worker k' ?d" by blast+
qed

lemma settled_other: "j_worker_id j \<noteq> Some k \<Longrightarrow> settled env cfg d (insert k K) j = settled env cfg d K j"
  by (auto simp: settled_def split: option.split)

lemma settled_cong: "migration_count d' (j_id j) = migration_count d (j_id j) \<Longrightarrow> settled env cfg d' K j = settled env cfg d K j"
  by (simp add: settled_def split: option.split)

lemma settled_done:
  assumes "j_worker_id j = Some k" "k \<notin> K"
  shows "settled env cfg d' K (settled env cfg d {k} j) = settled env cfg d (insert k K) j"
  using assms by (auto simp: settled_def budget_row_def reset_row_def requeue_row_def)

lemma migrate_all_jobs:
  assumes "db_ok (mo_db m)" and "distinct ks" and "\<forall>k \<in> set ks. NormalizeWorkerID (m_uuid_parse env) k = k"
    and "\<forall>k \<in> set ks. \<exists>r. find_worker k (mo_db m) = Some r \<and> w_status r = WorkerStatusOffline"
  shows "jobs (mo_db (migrate_all env cfg ks m)) = map (settled env cfg (mo_db m) (set ks)) (jobs (mo_db m))"
  using assms
proof (induction ks arbitrary: m)
  case Nil
  have "settled env cfg (mo_db m) {} j = j" for j by (auto simp: settled_def split: option.split)
  then show ?case by (simp add: migrate_all_def)
next
  case (Cons k ks)
  from Cons.prems obtain r where r: "find_worker k (mo_db m) = Some r" "w_status r = WorkerStatusOffline"
    and k: "NormalizeWorkerID (m_uuid_parse env) k = k" by auto
  note S = migrate_step [OF Cons.prems(1) k r, where cfg = cfg]
  let ?m = "migrateJobsFromWorker env cfg k m"
  have "\<forall>k' \<in> set ks. find_worker k' (mo_db ?m) = find_worker k' (mo_db m)"
    using Cons.prems(2) S(4) by (metis distinct.simps(2))
  with Cons.prems S(2) have "jobs (mo_db (migrate_all env cfg ks ?m)) = map (settled env cfg (mo_db ?m) (set ks)) (jobs (mo_db ?m))"
    by (intro Cons.IH) auto
  moreover have "settled env cfg (mo_db ?m) (set ks) (settled env cfg (mo_db m) {k} j) = settled env cfg (mo_db m) (insert k (set ks)) j"
    if "j \<in> set (jobs (mo_db m))" for j
  proof (cases "j_worker_id j = Some k")
    case True
    with Cons.prems(2) show ?thesis by (simp add: settled_done)
  next
    case False
    then have "settled env cfg (mo_db m) {k} j = j" by (auto simp: settled_def split: option.split)
    then show ?thesis
      by (simp only: settled_cong [OF S(3) [OF that False]] settled_other [OF False])
  qed
  ultimately show ?case by (simp add: S(1) migrate_all_def)
qed

subsection \<open>The rest of a tick leaves the jobs alone\<close>

lemma CreateEvictionEvent_jobs [simp]: "jobs (snd (CreateEvictionEvent ok e n w ty a b r d)) = jobs d"
  by (simp add: CreateEvictionEvent_def insert_eviction_event_def Let_def)

lemma evict_loop_jobs: "jobs (snd (evict_loop env md ws t d)) = jobs d"
proof (induction ws arbitrary: t d)
  case (Cons k ws)
  have "jobs d1 = jobs d" if "MarkWorkerEvicted up ok now w d = (res, d1)" for up ok now w res d1
    using worker_ops_jobs(12) [of up ok now w d] that by simp
  with Cons show ?case by (fastforce split: prod.split sum.split option.split)
qed simp

lemma recover_loop_jobs: "jobs (snd (recover_loop env md ws t d)) = jobs d"
proof (induction ws arbitrary: t d)
  case (Cons k ws)
  have "jobs d1 = jobs d" if "ClearWorkerEviction up ok eid now w r1 r2 rs d = (res, d1)" for up ok eid now w r1 r2 rs res d1
    using worker_ops_jobs(13) [of up ok eid now w r1 r2 rs d] that by simp
  with Cons show ?case by (fastforce split: prod.split sum.split option.split)
qed simp

lemma tick_tail_jobs:
  "jobs (mo_db (detectSlowWorkers env cfg m)) = jobs (mo_db m)"
  "jobs (mo_db (remove_offline env cfg m)) = jobs (mo_db m)"
  "jobs (mo_db (on_table f m)) = jobs (mo_db m)"
  by (simp_all add: detectSlowWorkers_def split_beta Let_def trigger_def evict_loop_jobs recover_loop_jobs
      remove_offline_def RemoveOfflineWorkers_def on_table_def split: option.split)

definition flipped :: "monitor_env \<Rightarrow> monitor_config \<Rightarrow> database \<Rightarrow> string list" where
  "flipped env cfg d = (if m_ok env MarkOfflineCall
     then map w_id (filter (heartbeat_stale (m_now env MarkOfflineCall) (HeartbeatTimeout cfg)) (workers d)) else [])"

text \<open>
  C10: failover is exact. Whatever calls fail, a tick changes only active jobs of workers it has just flipped
  offline, those online with a stale heartbeat; for each flipped worker whose migration call succeeds it takes
  every active job away: back to pending, or failed with WORKER_CRASH once its migrations have used up the budget
  that the tick started with. The jobs of live workers, of workers offline before, and finished jobs are untouched.
\<close>

theorem failover_exact:
  assumes "db_ok (mo_db m)" and "distinct (map w_id (workers (mo_db m)))"
    and "\<forall>k \<in> set (flipped env cfg (mo_db m)). NormalizeWorkerID (m_uuid_parse env) k = k"
  shows "jobs (mo_db (checkWorkers env cfg m)) =
    map (settled env cfg (mo_db m) (set (flipped env cfg (mo_db m)))) (jobs (mo_db m))"
proof (cases "m_ok env MarkOfflineCall")
  case False
  have "settled env cfg (mo_db m) {} j = j" for j by (auto simp: settled_def split: option.split)
  with False show ?thesis by (simp add: checkWorkers_def MarkOfflineWorkersWithMigration_def flipped_def map_idI)
next
  case True
  let ?stale = "heartbeat_stale (m_now env MarkOfflineCall) (HeartbeatTimeout cfg)"
  let ?ks = "map w_id (filter ?stale (workers (mo_db m)))"
  let ?d = "upd_workers ?stale (\<lambda>w. w\<lparr>w_status := WorkerStatusOffline\<rparr>) (mo_db m)"
  let ?m = "m\<lparr>mo_db := ?d\<rparr>"
  have ks: "flipped env cfg (mo_db m) = ?ks" using True by (simp add: flipped_def)
  have settled_d: "settled env cfg ?d K = settled env cfg (mo_db m) K" for K
    by (rule ext, rule settled_cong, rule counts_cong) simp
  have "\<exists>r. find_worker k ?d = Some r \<and> w_status r = WorkerStatusOffline" if "k \<in> set ?ks" for k
  proof -
    from that obtain w where "w \<in> set (workers (mo_db m))" "?stale w" "w_id w = k" by auto
    moreover from this find_row_iff [OF assms(2)] have "find_worker k (mo_db m) = Some w" by blast
    ultimately show ?thesis by (simp add: find_row_upd_where)
  qed
  moreover have "distinct ?ks" using assms(2) by (rule distinct_map_filter)
  moreover have "db_ok ?d" using assms(1) by (simp add: db_ok_def)
  ultimately have "jobs (mo_db (migrate_all env cfg ?ks ?m)) = map (settled env cfg ?d (set ?ks)) (jobs ?d)"
    using assms(3) migrate_all_jobs [of ?m ?ks env cfg] unfolding ks by simp
  then show ?thesis
    unfolding ks settled_d
    by (simp add: checkWorkers_def MarkOfflineWorkersWithMigration_def True Let_def tick_tail_jobs)
qed

theorem failover_exact_witness:
  "map j_status (jobs (mo_db (checkWorkers (ex_menv []) DefaultMonitorConfig (ex_monitor ex_claimed)))) =
     [JobStatusPending, JobStatusPending, JobStatusPending]
   \<and> map j_status (jobs ex_claimed) = [JobStatusQueued, JobStatusPending, JobStatusPending]"
proof -
  have claimed: "jobs ex_claimed = upd_where (\<lambda>j. j_id j = ''a'') (claim_row 5 ''w1'' (Some ''node'')) (jobs ex_db)"
    "workers ex_claimed = [ex_worker]" "migration_events ex_claimed = []"
    by (simp_all add: ex_claimed_def AssignJobToWorker_def ex_defs worker_name_of_def claimable_def rows_affected_def Let_def)
  have fl: "flipped (ex_menv []) DefaultMonitorConfig (mo_db (ex_monitor ex_claimed)) = [''w1'']"
    by (simp add: flipped_def ex_menv_def ex_monitor_def claimed heartbeat_stale_def DefaultMonitorConfig_def ex_defs)
  have ok: "db_ok (mo_db (ex_monitor ex_claimed))" by (simp add: ex_monitor_def ex_claimed_ok)
  have dist: "distinct (map w_id (workers (mo_db (ex_monitor ex_claimed))))" by (simp add: ex_monitor_def claimed)
  have names: "\<forall>k \<in> set (flipped (ex_menv []) DefaultMonitorConfig (mo_db (ex_monitor ex_claimed))).
      NormalizeWorkerID (m_uuid_parse (ex_menv [])) k = k"
    unfolding fl by (simp add: ex_menv_def ex_plain_names)
  show ?thesis
    unfolding failover_exact [OF ok dist names] fl
    by (simp add: ex_monitor_def claimed ex_defs claim_row_def settled_def active_def ex_menv_def migration_count_def
        DefaultMonitorConfig_def reset_row_def requeue_row_def)
qed

text \<open>
  A worker whose migration failed is not lost. When its migration call fails, none of its jobs changes and
  the row is put back online with its old heartbeat, so the next offline scan flips and migrates it again.
\<close>

theorem failed_migration_is_retried:
  assumes "r \<in> set (workers (mo_db m))" and "w_id r = NormalizeWorkerID (m_uuid_parse env) k"
    and "w_status r = WorkerStatusOffline" and "w_last_heartbeat r < later - timeout"
    and "\<not> m_ok env (MigrateCall k)" and "m_ok env (RestoreCall k)"
  shows "jobs (mo_db (migrateJobsFromWorker env cfg k m)) = jobs (mo_db m)
    \<and> (\<exists>ids d. MarkOfflineWorkersWithMigration True later timeout (mo_db (migrateJobsFromWorker env cfg k m)) = (Inr ids, d)
         \<and> w_id r \<in> set ids)"
proof -
  let ?s = "if has_active_job (mo_db m) (w_id r) then WorkerStatusBusy else WorkerStatusIdle"
  have "r\<lparr>w_status := ?s\<rparr> \<in> set (workers (mo_db (migrateJobsFromWorker env cfg k m)))"
    unfolding migrate_step_failed [OF assms(5)] using assms(1-3,6)
    by (force simp: RestoreWorkerStatusAfterFailedMigration_def upd_where_def)
  moreover have "heartbeat_stale later timeout (r\<lparr>w_status := ?s\<rparr>)"
    using assms(4) by (simp add: heartbeat_stale_def)
  ultimately have "w_id r \<in> w_id ` {w \<in> set (workers (mo_db (migrateJobsFromWorker env cfg k m))). heartbeat_stale later timeout w}"
    by (force simp: image_iff)
  then show ?thesis
    using migrate_step_failed [OF assms(5), of cfg m] by (simp add: MarkOfflineWorkersWithMigration_def Restore_frame)
qed

theorem failed_migration_is_retried_witness:
  "\<exists>ids d. MarkOfflineWorkersWithMigration True 300000000000 90000000000
      (mo_db (migrateJobsFromWorker (ex_menv [MigrateCall ''w1'']) DefaultMonitorConfig ''w1'' (ex_monitor ex_off))) = (Inr ids, d)
    \<and> ''w1'' \<in> set ids"
proof -
  let ?r = "ex_worker\<lparr>w_status := WorkerStatusOffline\<rparr>"
  have r: "?r \<in> set (workers (mo_db (ex_monitor ex_off)))"
    by (simp add: ex_monitor_def ex_off_def ex_claimed_def AssignJobToWorker_def ex_defs Let_def)
  have i: "w_id ?r = NormalizeWorkerID (m_uuid_parse (ex_menv [MigrateCall ''w1''])) ''w1''"
    by (simp add: ex_menv_def ex_plain_names ex_defs)
  have h: "w_status ?r = WorkerStatusOffline" "w_last_heartbeat ?r < 300000000000 - 90000000000"
    by (simp_all add: ex_defs)
  have f: "\<not> m_ok (ex_menv [MigrateCall ''w1'']) (MigrateCall ''w1'')" "m_ok (ex_menv [MigrateCall ''w1'']) (RestoreCall ''w1'')"
    by (simp_all add: ex_menv_def)
  have "w_id ?r = ''w1''" by (simp add: ex_defs)
  with failed_migration_is_retried [OF r i h f, of DefaultMonitorConfig] show ?thesis by simp
qed

end
