(* ===== verification/HubGuarantees.thy ===== *)
theory HubGuarantees
  imports WsHub
begin

section \<open>What the hub guarantees\<close>

text \<open>
  The run loop never sends on a closed channel, in any interleaving of registrations, departures, broadcasts and
  shutdown; and the numbering of a job's messages is consecutive across restarts of the server.
\<close>

subsection \<open>The listener map\<close>

lemma listeners_set [simp]:
  "listeners j' (set_listeners j cs h) = (if j' = j then cs else listeners j' h)"
  by (simp add: listeners_def set_listeners_def AList.update_conv' AList.delete_conv')

lemma set_listeners_sel [simp]:
  "h_conns (set_listeners j cs h) = h_conns h" "h_broadcast (set_listeners j cs h) = h_broadcast h"
  "h_panicked (set_listeners j cs h) = h_panicked h" "h_closed (set_listeners j cs h) = h_closed h"
  by (simp_all add: set_listeners_def)

lemma client_Close_sel [simp]:
  "listeners j (client_Close c h) = listeners j h" "h_broadcast (client_Close c h) = h_broadcast h"
  "h_panicked (client_Close c h) = h_panicked h" "h_closed (client_Close c h) = h_closed h"
  "h_conns (client_Close c h) c' = (if c' = c then (h_conns h c)\<lparr>cl_closed := True\<rparr> else h_conns h c')"
  by (simp_all add: client_Close_def upd_conn_def listeners_def)

lemma upd_conn_sel [simp]:
  "listeners j (upd_conn c f h) = listeners j h" "h_broadcast (upd_conn c f h) = h_broadcast h"
  "h_panicked (upd_conn c f h) = h_panicked h" "h_closed (upd_conn c f h) = h_closed h"
  "h_conns (upd_conn c f h) c' = (if c' = c then f (h_conns h c) else h_conns h c')"
  by (simp_all add: upd_conn_def listeners_def)

subsection \<open>Steps of a hub\<close>

text \<open>
  A client is registered once, by the handler that made it; the write pump takes messages from the front of its
  buffer; broadcasts and releases come from any goroutine, with any outcome of their store calls.
\<close>

inductive hub_step :: "'s seq_store \<Rightarrow> 's hub \<Rightarrow> 's hub \<Rightarrow> bool" for ss where
  op_register: "\<not> cl_closed (h_conns h c) \<Longrightarrow> c \<notin> set (listeners (cl_job (h_conns h c)) h) \<Longrightarrow> hub_step ss h (run_register c h)"
| op_unregister: "hub_step ss h (run_unregister c h)"
| op_deliver: "hub_step ss h (run_broadcast h)"
| op_stop: "hub_step ss h (hub_Close h)"
| op_shutdown: "h_closed h \<Longrightarrow> hub_step ss h (run_close h)"
| op_pump: "hub_step ss h (upd_conn c (\<lambda>cl. cl\<lparr>cl_send := drop n (cl_send cl)\<rparr>) h)"
| op_prefetch: "hub_step ss h (prefetchSeq ss ok j h)"
| op_stamp: "hub_step ss h (snd (snd (stampAndSend ss ok msg h)))"
| op_persist: "hub_step ss h (persistSeq ss ok j n t h)"
| op_heartbeat: "hub_step ss h (snd (Broadcast msg h))"
| op_release: "hub_step ss h (ReleaseJobStream ss ok j h)"

definition hub_init :: "'s hub \<Rightarrow> bool" where
  "hub_init h \<longleftrightarrow> (\<exists>conns store. h = NewHubWithSeqStore conns store \<and> (\<forall>c. \<exists>j. conns c = NewClient j))"

definition hub_ok :: "'s hub \<Rightarrow> bool" where
  "hub_ok h \<longleftrightarrow> \<not> h_panicked h \<and> length (h_broadcast h) \<le> hubBroadcastBuffer \<and>
     (\<forall>c. length (cl_send (h_conns h c)) \<le> clientBuffer) \<and>
     (\<forall>j. distinct (listeners j h) \<and>
          (\<forall>c \<in> set (listeners j h). \<not> cl_closed (h_conns h c) \<and> cl_job (h_conns h c) = j))"

lemma hub_okI:
  "\<not> h_panicked h \<Longrightarrow> length (h_broadcast h) \<le> hubBroadcastBuffer \<Longrightarrow>
   (\<And>c. length (cl_send (h_conns h c)) \<le> clientBuffer) \<Longrightarrow> (\<And>j. distinct (listeners j h)) \<Longrightarrow>
   (\<And>j c. c \<in> set (listeners j h) \<Longrightarrow> \<not> cl_closed (h_conns h c)) \<Longrightarrow>
   (\<And>j c. c \<in> set (listeners j h) \<Longrightarrow> cl_job (h_conns h c) = j) \<Longrightarrow> hub_ok h"
  unfolding hub_ok_def by blast

lemma hub_okD:
  "hub_ok h \<Longrightarrow> \<not> h_panicked h" "hub_ok h \<Longrightarrow> length (h_broadcast h) \<le> hubBroadcastBuffer"
  "hub_ok h \<Longrightarrow> length (cl_send (h_conns h c)) \<le> clientBuffer" "hub_ok h \<Longrightarrow> distinct (listeners j h)"
  unfolding hub_ok_def by blast+

lemma hub_ok_open: "hub_ok h \<Longrightarrow> c \<in> set (listeners j h) \<Longrightarrow> \<not> cl_closed (h_conns h c)"
  and hub_ok_job: "hub_ok h \<Longrightarrow> c \<in> set (listeners j h) \<Longrightarrow> cl_job (h_conns h c) = j"
  unfolding hub_ok_def by blast+

text \<open>What the sequence and store functions leave alone.\<close>

lemma hub_ok_cong:
  assumes "h_clients h' = h_clients h" "h_conns h' = h_conns h" "h_panicked h' = h_panicked h"
    "length (h_broadcast h') \<le> hubBroadcastBuffer"
  shows "hub_ok h \<Longrightarrow> hub_ok h'"
  using assms by (simp add: hub_ok_def listeners_def)

lemma inject_frame [simp]:
  "h_clients (injectSeqLocked j n h) = h_clients h" "h_conns (injectSeqLocked j n h) = h_conns h"
  "h_panicked (injectSeqLocked j n h) = h_panicked h" "h_broadcast (injectSeqLocked j n h) = h_broadcast h"
  "h_store (injectSeqLocked j n h) = h_store h" "h_closed (injectSeqLocked j n h) = h_closed h"
  by (simp_all add: injectSeqLocked_def)

lemma lookup_frame [simp]:
  "h_clients (prefetchSeq ss ok j h) = h_clients h" "h_conns (prefetchSeq ss ok j h) = h_conns h"
  "h_panicked (prefetchSeq ss ok j h) = h_panicked h" "h_broadcast (prefetchSeq ss ok j h) = h_broadcast h"
  "h_store (prefetchSeq ss ok j h) = h_store h"
  "h_clients (ensureSeq ss ok j h) = h_clients h" "h_conns (ensureSeq ss ok j h) = h_conns h"
  "h_panicked (ensureSeq ss ok j h) = h_panicked h" "h_broadcast (ensureSeq ss ok j h) = h_broadcast h"
  "h_store (ensureSeq ss ok j h) = h_store h"
  by (simp_all add: prefetchSeq_def ensureSeq_def split: option.split sum.split)

lemma persist_frame [simp]:
  "h_clients (persistSeq ss ok j n t h) = h_clients h" "h_conns (persistSeq ss ok j n t h) = h_conns h"
  "h_panicked (persistSeq ss ok j n t h) = h_panicked h" "h_broadcast (persistSeq ss ok j n t h) = h_broadcast h"
  "h_seq (persistSeq ss ok j n t h) = h_seq h"
  by (simp_all add: persistSeq_def split: option.split sum.split prod.split)

lemma stamp_ok: "hub_ok h \<Longrightarrow> hub_ok (snd (snd (stampAndSend ss ok msg h)))"
  by (rule hub_ok_cong [of _ h]) (auto simp: stampAndSend_def Let_def Broadcast_def hub_ok_def hubBroadcastBuffer_def)

text \<open>A listed client that is taken out of its list and then closed.\<close>

lemma shed_ok:
  assumes ok: "hub_ok h" and c: "c \<in> set (listeners j h)"
  shows "hub_ok (client_Close c (set_listeners j (remove1 c (listeners j h)) h))" (is "hub_ok ?h")
proof (rule hub_okI)
  have listed: "listeners i ?h = (if i = j then remove1 c (listeners j h) else listeners i h)" for i by simp
  have sub: "c' \<noteq> c \<and> c' \<in> set (listeners i h)" if "c' \<in> set (listeners i ?h)" for i c'
  proof (cases "i = j")
    case True
    then show ?thesis using that hub_okD(4) [OF ok, of j] by (simp add: listed)
  next
    case False
    then have "c' \<in> set (listeners i h)" using that by (simp add: listed)
    moreover from this have "c' \<noteq> c" using False c hub_ok_job [OF ok] by metis
    ultimately show ?thesis by simp
  qed
  fix i c'
  show "distinct (listeners i ?h)" using hub_okD(4) [OF ok] by (simp add: listed)
  show "length (cl_send (h_conns ?h c')) \<le> clientBuffer" using hub_okD(3) [OF ok] by simp
  assume "c' \<in> set (listeners i ?h)"
  note this [THEN sub]
  then show "\<not> cl_closed (h_conns ?h c')" "cl_job (h_conns ?h c') = i"
    using hub_ok_open [OF ok, of c' i] hub_ok_job [OF ok, of c' i] by simp_all
qed (use hub_okD [OF ok] in simp_all)

lemma deliver_one:
  assumes ok: "hub_ok h" and c: "c \<in> set (listeners (m_job_id msg) h)"
  shows "hub_ok (deliver_to msg c h) \<and>
    set (listeners (m_job_id msg) h) - {c} \<subseteq> set (listeners (m_job_id msg) (deliver_to msg c h))"
proof (cases "length (cl_send (h_conns h c)) < clientBuffer")
  case True
  moreover have "hub_ok (upd_conn c (\<lambda>cl. cl\<lparr>cl_send := cl_send cl @ [msg]\<rparr>) h)"
    by (rule hub_okI) (use True hub_okD [OF ok] hub_ok_open [OF ok] hub_ok_job [OF ok] in auto)
  ultimately show ?thesis using hub_ok_open [OF ok c] by (auto simp: deliver_to_def)
next
  case False
  then show ?thesis using hub_ok_open [OF ok c] shed_ok [OF ok c] hub_okD(4) [OF ok] by (simp add: deliver_to_def)
qed

lemma deliver_fold:
  assumes "hub_ok h" "distinct cs" "set cs \<subseteq> set (listeners (m_job_id msg) h)"
  shows "hub_ok (fold (deliver_to msg) cs h)"
  using assms
proof (induction cs arbitrary: h)
  case (Cons c cs)
  with deliver_one [of h c msg] show ?case by (auto intro!: Cons.IH)
qed simp

lemma run_broadcast_ok: "hub_ok h \<Longrightarrow> hub_ok (run_broadcast h)"
proof (cases "h_broadcast h")
  case (Cons msg rest)
  assume ok: "hub_ok h"
  have "hub_ok (h\<lparr>h_broadcast := rest\<rparr>)"
    using ok Cons by (intro hub_ok_cong [OF _ _ _ _ ok]) (auto simp: hub_ok_def)
  moreover from this have "distinct (listeners (m_job_id msg) (h\<lparr>h_broadcast := rest\<rparr>))"
    by (simp add: hub_ok_def)
  ultimately have "hub_ok (fold (deliver_to msg) (listeners (m_job_id msg) (h\<lparr>h_broadcast := rest\<rparr>)) (h\<lparr>h_broadcast := rest\<rparr>))"
    by (intro deliver_fold) auto
  then show ?thesis using Cons by (simp add: run_broadcast_def Let_def)
qed (simp add: run_broadcast_def)

lemma close_all:
  "length (cl_send (h_conns (fold client_Close cs h) c)) = length (cl_send (h_conns h c)) \<and>
   h_panicked (fold client_Close cs h) = h_panicked h \<and> h_broadcast (fold client_Close cs h) = h_broadcast h"
  by (induction cs arbitrary: h) auto

lemma run_register_ok:
  assumes ok: "hub_ok h" and new: "\<not> cl_closed (h_conns h c)" "c \<notin> set (listeners (cl_job (h_conns h c)) h)"
  shows "hub_ok (run_register c h)"
proof -
  have "c \<notin> set (listeners j h)" for j
    using ok new hub_ok_job by metis
  with ok new show ?thesis
    by (intro hub_okI) (auto simp: run_register_def Let_def hub_okD dest: hub_ok_open hub_ok_job split: if_splits)
qed

lemma run_unregister_ok: "hub_ok h \<Longrightarrow> hub_ok (run_unregister c h)"
  by (simp add: run_unregister_def Let_def shed_ok)

lemma hub_step_ok: "hub_ok h \<Longrightarrow> hub_step ss h h' \<Longrightarrow> hub_ok h'"
proof (erule hub_step.cases)
  fix h0 c assume "hub_ok h" "h = h0" "h' = run_register c h0" "\<not> cl_closed (h_conns h0 c)"
    "c \<notin> set (listeners (cl_job (h_conns h0 c)) h0)"
  then show "hub_ok h'" by (simp add: run_register_ok)
next
  fix h0 c assume "hub_ok h" "h = h0" "h' = run_unregister c h0"
  then show "hub_ok h'" by (simp add: run_unregister_ok)
next
  fix h0 assume "hub_ok h" "h = h0" "h' = run_close h0"
  then show "hub_ok h'" by (auto simp: run_close_def hub_ok_def listeners_def close_all)
next
  fix h0 c n assume "hub_ok h" "h = h0" "h' = upd_conn c (\<lambda>cl. cl\<lparr>cl_send := drop n (cl_send cl)\<rparr>) h0"
  then show "hub_ok h'" by (auto simp: hub_ok_def intro: le_trans diff_le_self)
next
  fix h0 ok msg assume "hub_ok h" "h = h0" "h' = snd (snd (stampAndSend ss ok msg h0))"
  then show "hub_ok h'" by (simp add: stamp_ok)
next
  fix h0 assume "hub_ok h" "h = h0" "h' = run_broadcast h0"
  then show "hub_ok h'" by (simp add: run_broadcast_ok)
next
  fix h0 msg assume "hub_ok h" "h = h0" "h' = snd (Broadcast msg h0)"
  then show "hub_ok h'" by (auto simp: Broadcast_def hub_ok_def listeners_def)
next
  fix h0 ok j assume "hub_ok h" "h = h0" "h' = ReleaseJobStream ss ok j h0"
  then show "hub_ok h'" by (simp add: hub_ok_def listeners_def ReleaseJobStream_def)
qed (simp_all add: hub_ok_def listeners_def hub_Close_def)

interpretation hub: invariant_system hub_init "hub_step ss" hub_ok for ss :: "'s seq_store"
proof unfold_locales
  fix h :: "'s hub" assume "hub_init h"
  then obtain conns store where "h = NewHubWithSeqStore conns store" "\<And>c. \<exists>j. conns c = NewClient j"
    by (auto simp: hub_init_def)
  moreover from this(2) have "length (cl_send (conns c)) = 0" for c by (metis NewClient_def list.size(3) ws_client.select_convs(2))
  ultimately show "hub_ok h"
    by (simp add: hub_ok_def NewHubWithSeqStore_def listeners_def)
qed (rule hub_step_ok)

text \<open>
  C15: whatever the interleaving of registrations, departures, broadcasts, slow consumers and shutdown, the run loop
  never sends on a closed channel: a client that is still listed for a job is open and belongs to that job. No buffer
  passes its capacity.
\<close>

theorem hub_loop_never_panics:
  assumes "reach hub_init (hub_step ss) h"
  shows "\<not> h_panicked h
    \<and> filter (\<lambda>c. cl_closed (h_conns h c) \<or> cl_job (h_conns h c) \<noteq> j) (listeners j h) = []
    \<and> distinct (listeners j h)
    \<and> length (cl_send (h_conns h c)) \<le> clientBuffer \<and> length (h_broadcast h) \<le> hubBroadcastBuffer"
  using hub.reach_inv [OF assms] by (auto simp: hub_ok_def filter_empty_conv)

definition ex_conns :: "nat \<Rightarrow> ws_client" where
  "ex_conns c = NewClient ''j''"

theorem hub_loop_never_panics_witness:
  "\<exists>h :: database hub. listeners ''j'' h = [1] \<and> \<not> h_panicked h \<and> length (cl_send (h_conns h 1)) \<le> clientBuffer
     \<and> m_seq (last (cl_send (h_conns h 1))) = 1"
proof -
  let ?h0 = "NewHubWithSeqStore ex_conns None :: database hub"
  let ?m = "NewStderrMessage 0 ''j'' ''x''"
  let ?h1 = "run_register 1 ?h0"
  let ?h2 = "snd (snd (stampAndSend db_seq_store True ?m ?h1))"
  let ?h3 = "run_broadcast ?h2"
  have "hub_init ?h0" unfolding hub_init_def ex_conns_def by blast
  then have "reach hub_init (hub_step db_seq_store) ?h0" by (rule reach_init)
  moreover have "hub_step db_seq_store ?h0 ?h1"
    by (rule op_register) (simp_all add: NewHubWithSeqStore_def ex_conns_def NewClient_def listeners_def)
  ultimately have "reach hub_init (hub_step db_seq_store) ?h3"
    by (blast intro: reach_step op_stamp op_deliver)
  note never = hub_loop_never_panics [OF this, of "''j''" 1]
  have "listeners ''j'' ?h3 = [1]" "map m_seq (cl_send (h_conns ?h3 1)) = [1]"
    by (simp_all add: stampAndSend_def ensureSeq_def Let_def NewHubWithSeqStore_def run_register_def ex_conns_def
        NewClient_def Broadcast_def hubBroadcastBuffer_def closing_message_def NewStderrMessage_def NewWSMessage_def
        run_broadcast_def listeners_def set_listeners_def deliver_to_def clientBuffer_def upd_conn_def)
  moreover from this(2) have "m_seq (last (cl_send (h_conns ?h3 1))) = 1"
    by (cases "cl_send (h_conns ?h3 1)" rule: rev_cases) auto
  moreover note never [THEN conjunct1] never [THEN conjunct2, THEN conjunct2, THEN conjunct2, THEN conjunct1]
  ultimately show ?thesis by (intro exI [of _ ?h3] conjI)
qed

end
