(* ===== verification/GoBase64.thy ===== *)
theory GoBase64
  imports RffPrelude
begin

section \<open>Standard base64 as the wire uses it (pkg/protocol/types.go, Go's encoding/base64)\<close>

text \<open>
  Stdout chunks travel as base64 text. A byte is a \<open>char\<close>. The decoder is that of \<^verbatim>\<open>base64.StdEncoding\<close>: it skips
  CR and LF, wants padding at the end only, and does not look at the unused bits of the last symbol.
\<close>

definition b64_alphabet :: string where
  "b64_alphabet = ''ABCDEFGHIJKLMNOPQRSTUVWXYZabcdefghijklmnopqrstuvwxyz0123456789+/''"

definition b64_char :: "nat \<Rightarrow> char" where
  "b64_char n = b64_alphabet ! n"

definition b64_value :: "char \<Rightarrow> nat option" where
  "b64_value c =
     (let n = of_char c in
      if 65 \<le> n \<and> n \<le> 90 then Some (n - 65)
      else if 97 \<le> n \<and> n \<le> 122 then Some (n - 71)
      else if 48 \<le> n \<and> n \<le> 57 then Some (n + 4)
      else if n = 43 then Some 62
      else if n = 47 then Some 63
      else None)"

fun EncodeStdoutChunk :: "string \<Rightarrow> string" where
  "EncodeStdoutChunk [] = []"
| "EncodeStdoutChunk [a] =
     [b64_char (of_char a div 4), b64_char (of_char a mod 4 * 16), CHR ''='', CHR ''='']"
| "EncodeStdoutChunk [a, b] =
     [b64_char (of_char a div 4), b64_char (of_char a mod 4 * 16 + of_char b div 16),
      b64_char (of_char b mod 16 * 4), CHR ''='']"
| "EncodeStdoutChunk (a # b # c # rest) =
     b64_char (of_char a div 4) # b64_char (of_char a mod 4 * 16 + of_char b div 16) #
     b64_char (of_char b mod 16 * 4 + of_char c div 64) # b64_char (of_char c mod 64) # EncodeStdoutChunk rest"

definition byte1 :: "nat \<Rightarrow> nat \<Rightarrow> char" where "byte1 v1 v2 = char_of (v1 * 4 + v2 div 16)"
definition byte2 :: "nat \<Rightarrow> nat \<Rightarrow> char" where "byte2 v2 v3 = char_of (v2 mod 16 * 16 + v3 div 4)"
definition byte3 :: "nat \<Rightarrow> nat \<Rightarrow> char" where "byte3 v3 v4 = char_of (v3 mod 4 * 64 + v4)"

fun b64_quads :: "string \<Rightarrow> string option" where
  "b64_quads [] = Some []"
| "b64_quads (c1 # c2 # c3 # c4 # rest) =
     (case (b64_value c1, b64_value c2) of
        (Some v1, Some v2) \<Rightarrow>
          if c3 = CHR ''='' then (if c4 = CHR ''='' \<and> rest = [] then Some [byte1 v1 v2] else None)
          else (case b64_value c3 of
                  None \<Rightarrow> None
                | Some v3 \<Rightarrow>
                    if c4 = CHR ''='' then (if rest = [] then Some [byte1 v1 v2, byte2 v2 v3] else None)
                    else (case (b64_value c4, b64_quads rest) of
                            (Some v4, Some bs) \<Rightarrow> Some (byte1 v1 v2 # byte2 v2 v3 # byte3 v3 v4 # bs)
                          | _ \<Rightarrow> None))
      | _ \<Rightarrow> None)"
| "b64_quads _ = None"

definition StdoutChunkBase64 :: "string \<Rightarrow> string option" where
  "StdoutChunkBase64 encoded = b64_quads (filter (\<lambda>c. c \<noteq> CHR 0x0D \<and> c \<noteq> CHR 0x0A) encoded)"

subsection \<open>Facts\<close>

text \<open>The 64 symbols, checked one by one: each has its value, and none is padding or a line break.\<close>

lemma b64_alphabet_values: "map b64_value b64_alphabet = map Some [0..<64]"
  by (simp add: b64_alphabet_def b64_value_def upt_rec)

lemma b64_alphabet_length: "length b64_alphabet = 64"
  by (simp add: b64_alphabet_def)

lemma b64_alphabet_plain: "CHR ''='' \<notin> set b64_alphabet" "CHR 0x0D \<notin> set b64_alphabet" "CHR 0x0A \<notin> set b64_alphabet"
  by (simp_all add: b64_alphabet_def)

lemma b64_symbol [simp]:
  assumes "n < 64"
  shows "b64_value (b64_char n) = Some n" "b64_char n \<noteq> CHR ''=''" "b64_char n \<noteq> CHR 0x0D" "b64_char n \<noteq> CHR 0x0A"
proof -
  have "map b64_value b64_alphabet ! n = Some n" using assms by (simp add: b64_alphabet_values)
  then show "b64_value (b64_char n) = Some n" using assms by (simp add: b64_char_def b64_alphabet_length)
  have "b64_char n \<in> set b64_alphabet" using assms by (simp add: b64_char_def b64_alphabet_length)
  with b64_alphabet_plain show "b64_char n \<noteq> CHR ''=''" "b64_char n \<noteq> CHR 0x0D" "b64_char n \<noteq> CHR 0x0A" by auto
qed

lemma byte_lt: "of_char (c :: char) < (256 :: nat)"
  by simp

lemma byte_div: "of_char (c :: char) div 4 < (64 :: nat)" "of_char (c :: char) div 16 < (16 :: nat)"
    "of_char (c :: char) div 64 < (4 :: nat)"
  using byte_lt [of c] by (simp_all add: less_mult_imp_div_less)

lemma digit_split: "d < l \<Longrightarrow> (m * l + d) div l = m" "d < l \<Longrightarrow> (m * l + d) mod l = (d :: nat)"
  by (simp_all add: div_mult_self3 mod_mult_self3)

lemma mod_bound: "x mod 4 \<le> (3 :: nat)" "x mod 16 \<le> (15 :: nat)" "x mod 64 < (64 :: nat)"
  using mod_less_divisor [of 4 x] mod_less_divisor [of 16 x] by linarith+

lemma b64_parts [simp]:
  fixes a b c :: char
  shows "of_char a div 4 < (64 :: nat)" "of_char a mod 4 * 16 < (64 :: nat)"
    "of_char a mod 4 * 16 + of_char b div 16 < (64 :: nat)" "of_char b mod 16 * 4 < (64 :: nat)"
    "of_char b mod 16 * 4 + of_char c div 64 < (64 :: nat)" "of_char c mod 64 < (64 :: nat)"
  using byte_div [of a] byte_div [of b] byte_div [of c] mod_bound [of "of_char a"] mod_bound [of "of_char b"]
    mod_bound [of "of_char c"] by linarith+

lemma b64_bytes [simp]:
  "byte1 (of_char a div 4) (of_char a mod 4 * 16) = a"
  "byte1 (of_char a div 4) (of_char a mod 4 * 16 + of_char b div 16) = a"
  "byte2 (of_char a mod 4 * 16 + of_char b div 16) (of_char b mod 16 * 4) = b"
  "byte2 (of_char a mod 4 * 16 + of_char b div 16) (of_char b mod 16 * 4 + of_char c div 64) = b"
  "byte3 (of_char b mod 16 * 4 + of_char c div 64) (of_char c mod 64) = c"
  by (simp_all only: byte1_def byte2_def byte3_def digit_split [OF byte_div(2)] digit_split [OF byte_div(3)]
      nonzero_mult_div_cancel_right zero_neq_numeral not_False_eq_True div_mult_mod_eq char_of_char)

lemma encoded_clean: "c \<in> set (EncodeStdoutChunk bs) \<Longrightarrow> c \<noteq> CHR 0x0D \<and> c \<noteq> CHR 0x0A"
  by (induction bs rule: EncodeStdoutChunk.induct) auto

lemma quads_encode: "b64_quads (EncodeStdoutChunk bs) = Some bs"
  by (induction bs rule: EncodeStdoutChunk.induct) simp_all

lemma StdoutChunk_roundtrip: "StdoutChunkBase64 (EncodeStdoutChunk bs) = Some bs"
proof -
  have "filter (\<lambda>c. c \<noteq> CHR 0x0D \<and> c \<noteq> CHR 0x0A) (EncodeStdoutChunk bs) = EncodeStdoutChunk bs"
    using encoded_clean by (auto simp: filter_id_conv)
  then show ?thesis by (simp add: StdoutChunkBase64_def quads_encode)
qed

lemma length_EncodeStdoutChunk: "length (EncodeStdoutChunk bs) = (length bs + 2) div 3 * 4"
proof (induction bs rule: EncodeStdoutChunk.induct)
  case (4 a b c rest)
  have "(length rest + 2 + 3) div 3 = (length rest + 2) div 3 + 1" by simp
  with 4 show ?case by simp
qed simp_all

end
