(* ===== verification/WsClient.thy ===== *)
theory WsClient
  imports WsHub GoBase64
begin

section \<open>The streaming client of the CLI (pkg/cli/client/wsclient.go)\<close>

text \<open>
  Reconnecting within its budgets, splitting frames into messages, and the sequence check that turns lost messages
  into an error. The wire is the record \<open>ws_message\<close>; a callback is an entry of the output list.
\<close>

subsection \<open>Budgets\<close>

definition WSReconnectDelay :: duration where "WSReconnectDelay = 1000000000"
definition WSMaxReconnectDelay :: duration where "WSMaxReconnectDelay = 30000000000"
definition wsNotFoundRetries :: nat where "wsNotFoundRetries = 2"
definition wsMaxFrameLineBytes :: nat where "wsMaxFrameLineBytes = WSClientReadLimit"
definition DefaultMaxRetries :: nat where "DefaultMaxRetries = 14"
definition DefaultServerLossTimeout :: duration where "DefaultServerLossTimeout = 30000000000"

definition next_delay :: "duration \<Rightarrow> duration" where
  "next_delay delay = (if delay * 2 > WSMaxReconnectDelay then WSMaxReconnectDelay else delay * 2)"

fun retry_sum :: "nat \<Rightarrow> duration \<Rightarrow> duration \<Rightarrow> duration" where
  "retry_sum 0 delay tot = tot"
| "retry_sum (Suc n) delay tot = retry_sum n (next_delay delay) (tot + delay)"

definition retryBudget :: "int \<Rightarrow> duration" where
  "retryBudget maxRetries = (if maxRetries \<le> 0 then 0 else retry_sum (nat maxRetries) WSReconnectDelay 0)"

definition serverLossBudget :: "int \<Rightarrow> duration \<Rightarrow> duration" where
  "serverLossBudget maxRetries lossTimeout =
     (let retry = retryBudget maxRetries in
      if lossTimeout \<le> 0 \<or> retry \<le> 0 then retry else if lossTimeout < retry then lossTimeout else retry)"

subsection \<open>Reconnecting\<close>

text \<open>
  What one handshake gives: a connection, an answer with an HTTP status, or no answer. The environment of the loop
  gives, for each round, whether the context or the client is done, the clock when the silence is checked, the
  outcome, the clock after a failure, and whether the wait is cut short.
\<close>

datatype handshake = Connected | HandshakeError int | NoAnswer

datatype interrupt = Proceed | ContextDone | ClientDone

record reconnect_env =
  re_top :: "nat \<Rightarrow> interrupt"
  re_check :: "nat \<Rightarrow> time"
  re_dial :: "nat \<Rightarrow> handshake"
  re_failed :: "nat \<Rightarrow> time"
  re_wait :: "nat \<Rightarrow> interrupt"

datatype reconnect_result =
    Established          \<comment> \<open>a nil error with a connection\<close>
  | Stopped              \<comment> \<open>a nil error after \<open>Close\<close>\<close>
  | ContextErr
  | Rejected int         \<comment> \<open>the handshake error is returned\<close>
  | NoContact duration   \<comment> \<open>\<open>ErrRetriesExhausted\<close>: silence for the whole budget\<close>
  | RetriesExhausted nat \<comment> \<open>\<open>ErrRetriesExhausted\<close>: after so many retries\<close>

text \<open>
  The retry decision after a failed round: the error to return, or the counters to go on with.
\<close>

definition retry_decision :: "nat \<Rightarrow> handshake \<Rightarrow> nat \<Rightarrow> nat \<Rightarrow> reconnect_result + (nat \<times> nat)" where
  "retry_decision maxRetries err retries notFoundRetries =
     (case err of
        HandshakeError status \<Rightarrow>
          if status \<ge> 400 \<and> status < 500
          then (if status \<noteq> 404 \<or> notFoundRetries \<ge> wsNotFoundRetries then Inl (Rejected status)
                else Inr (retries, notFoundRetries + 1))
          else if retries \<ge> maxRetries then Inl (RetriesExhausted retries) else Inr (retries + 1, notFoundRetries)
      | _ \<Rightarrow> if retries \<ge> maxRetries then Inl (RetriesExhausted retries) else Inr (retries + 1, notFoundRetries))"

definition silence_after :: "duration \<Rightarrow> handshake \<Rightarrow> time \<Rightarrow> time option \<Rightarrow> time option" where
  "silence_after lossBudget err failed silenceStart =
     (case err of
        HandshakeError status \<Rightarrow> None
      | _ \<Rightarrow> if lossBudget > 0 \<and> silenceStart = None then Some failed else silenceStart)"

definition wait_of :: "duration \<Rightarrow> duration \<Rightarrow> time \<Rightarrow> time option \<Rightarrow> duration" where
  "wait_of lossBudget delay failed silenceStart =
     (case silenceStart of
        None \<Rightarrow> delay
      | Some start \<Rightarrow> if start + lossBudget - failed < delay then start + lossBudget - failed else delay)"

definition silence_spent :: "duration \<Rightarrow> time \<Rightarrow> time option \<Rightarrow> bool" where
  "silence_spent lossBudget now silenceStart =
     (case silenceStart of None \<Rightarrow> False | Some start \<Rightarrow> now - start \<ge> lossBudget)"

lemma retry_decision_measure:
  "retry_decision mx err r n = Inr (r', n') \<Longrightarrow> n \<le> wsNotFoundRetries \<Longrightarrow>
   (mx - r') + (wsNotFoundRetries - n') < (mx - r) + (wsNotFoundRetries - n)"
  by (auto simp: retry_decision_def split: handshake.splits if_splits)

text \<open>The loop returns its result and the waits between its rounds, in order.\<close>

function reconnect_loop ::
  "reconnect_env \<Rightarrow> nat \<Rightarrow> duration \<Rightarrow> nat \<Rightarrow> duration \<Rightarrow> time option \<Rightarrow> nat \<Rightarrow> nat \<Rightarrow> reconnect_result \<times> duration list" where
  "reconnect_loop env maxRetries lossBudget k delay silenceStart retries notFoundRetries =
     (if re_top env k = ContextDone then (ContextErr, [])
      else if re_top env k = ClientDone then (Stopped, [])
      else if silence_spent lossBudget (re_check env k) silenceStart then (NoContact lossBudget, [])
      else if re_dial env k = Connected then (Established, [])
      else (let silenceStart = silence_after lossBudget (re_dial env k) (re_failed env k) silenceStart in
            case retry_decision maxRetries (re_dial env k) retries notFoundRetries of
              Inl e \<Rightarrow> (e, [])
            | Inr (retries, notFoundRetries) \<Rightarrow>
                (let wait = wait_of lossBudget delay (re_failed env k) silenceStart in
                 if re_wait env k = ContextDone then (ContextErr, [wait])
                 else if re_wait env k = ClientDone then (Stopped, [wait])
                 else (case reconnect_loop env maxRetries lossBudget (k + 1) (next_delay delay) silenceStart
                              retries notFoundRetries of
                         (r, waits) \<Rightarrow> (r, wait # waits)))))"
  by pat_completeness auto

termination
  by (relation "measure (\<lambda>(env, mx, lb, k, d, s, r, n). (mx - r) + (wsNotFoundRetries - n))")
    (auto simp: retry_decision_def split: handshake.splits if_splits)

declare reconnect_loop.simps [simp del]

definition ConnectWithReconnect :: "reconnect_env \<Rightarrow> nat \<Rightarrow> duration \<Rightarrow> reconnect_result \<times> duration list" where
  "ConnectWithReconnect env maxRetries serverLossTimeout =
     (let lossBudget = (if serverLossTimeout > 0 then serverLossBudget (int maxRetries) serverLossTimeout
                        else serverLossTimeout)
      in reconnect_loop env maxRetries lossBudget 0 WSReconnectDelay None 0 0)"

subsection \<open>Frames\<close>

text \<open>
  \<^verbatim>\<open>bufio.Scanner\<close> on a frame: lines without their line feed and one trailing carriage return. A line must be shorter
  than the buffer limit; the first that is not stops the scan with \<^verbatim>\<open>ErrTooLong\<close>, the second component.
\<close>

definition drop_cr :: "string \<Rightarrow> string" where
  "drop_cr line = (if line \<noteq> [] \<and> last line = CHR 0x0D then butlast line else line)"

function scan_lines :: "nat \<Rightarrow> string \<Rightarrow> string list \<times> bool" where
  "scan_lines limit data =
     (if data = [] then ([], False)
      else (let line = takeWhile (\<lambda>c. c \<noteq> CHR ''\<newline>'') data in
            if length line \<ge> limit then ([], True)
            else (case scan_lines limit (drop (length line + 1) data) of
                    (lines, tooLong) \<Rightarrow> (drop_cr line # lines, tooLong))))"
  by pat_completeness auto
termination
  by (relation "measure (\<lambda>(_, data). length data)") auto

declare scan_lines.simps [simp del]

text \<open>The lines of a frame that are handed to the JSON decoder.\<close>

definition frame_lines :: "nat \<Rightarrow> string \<Rightarrow> string list" where
  "frame_lines limit data = filter (\<lambda>line. line \<noteq> []) (fst (scan_lines limit data))"

subsection \<open>Messages\<close>

datatype callback =
    OnStderr string
  | OnStdout string
  | OnStatus string int string
  | OnProgress rat rat int
  | OnComplete int
  | OnError string

record ws_session =
  lastSeq :: int
  sawMessage :: bool
  gapFound :: bool
  sawDataAfterRestart :: bool
  terminalSeen :: bool
  callbacks :: "callback list"

definition NewWSClient :: ws_session where
  "NewWSClient = \<lparr>lastSeq = 0, sawMessage = False, gapFound = False, sawDataAfterRestart = False,
     terminalSeen = False, callbacks = []\<rparr>"

text \<open>A successful (re)connect opens a new observation window.\<close>

definition connected :: "ws_session \<Rightarrow> ws_session" where
  "connected c = c\<lparr>sawDataAfterRestart := False\<rparr>"

definition status_data :: "ws_data \<Rightarrow> string \<times> int \<times> string" where
  "status_data dat = (case dat of WSStatusPayload st ec e \<Rightarrow> (job_status_string st, ec, e) | _ \<Rightarrow> ([], 0, []))"

definition progress_data :: "ws_data \<Rightarrow> rat \<times> rat \<times> int" where
  "progress_data dat = (case dat of WSProgressPayload p t d sp eta \<Rightarrow> (p, sp, eta) | _ \<Rightarrow> (0, 0, 0))"

definition note_terminal :: "ws_message \<Rightarrow> ws_session \<Rightarrow> ws_session" where
  "note_terminal msg c = (if terminal_status_message msg then c\<lparr>terminalSeen := True\<rparr> else c)"

definition check_seq :: "int \<Rightarrow> ws_session \<Rightarrow> ws_session" where
  "check_seq seq c =
     (if \<not> sawMessage c then c\<lparr>sawMessage := True, lastSeq := seq\<rparr>
      else if terminalSeen c then c\<lparr>lastSeq := seq\<rparr>
      else if seq = 1 \<and> lastSeq c > 1 \<and> sawDataAfterRestart c then c\<lparr>lastSeq := seq, gapFound := True\<rparr>
      else if seq = 1 \<and> lastSeq c > 1 then c\<lparr>lastSeq := seq\<rparr>
      else if seq > lastSeq c + 1 then c\<lparr>lastSeq := seq, gapFound := True\<rparr>
      else if seq > lastSeq c then c\<lparr>lastSeq := seq\<rparr>
      else c)"

definition dispatch :: "ws_message \<Rightarrow> callback list" where
  "dispatch msg =
     (case m_type msg of
        WSMsgStderr \<Rightarrow> (if m_payload msg \<noteq> [] then [OnStderr (m_payload msg)] else [])
      | WSMsgStdout \<Rightarrow>
          (if m_payload msg \<noteq> []
           then (case StdoutChunkBase64 (m_payload msg) of None \<Rightarrow> [] | Some raw \<Rightarrow> [OnStdout raw]) else [])
      | WSMsgStatus \<Rightarrow> (case status_data (m_data msg) of (st, ec, e) \<Rightarrow> [OnStatus st ec e])
      | WSMsgProgress \<Rightarrow> (case progress_data (m_data msg) of (p, sp, eta) \<Rightarrow> [OnProgress p sp eta])
      | WSMsgComplete \<Rightarrow> (case status_data (m_data msg) of (st, ec, e) \<Rightarrow> [OnComplete ec])
      | WSMsgError \<Rightarrow> (if m_payload msg \<noteq> [] then [OnError (m_payload msg)] else [])
      | WSMsgHeartbeat \<Rightarrow> [])"

definition is_data :: "ws_message \<Rightarrow> bool" where
  "is_data msg \<longleftrightarrow> m_type msg = WSMsgStderr \<or> m_type msg = WSMsgStdout"

definition handleMessage :: "ws_message \<Rightarrow> ws_session \<Rightarrow> ws_session" where
  "handleMessage msg c =
     (let c = (if m_type msg \<noteq> WSMsgHeartbeat then check_seq (m_seq msg) (note_terminal msg c) else c);
          c = (if is_data msg then c\<lparr>sawDataAfterRestart := True\<rparr> else c)
      in c\<lparr>callbacks := callbacks c @ dispatch msg\<rparr>)"

definition HasGap :: "ws_session \<Rightarrow> bool" where
  "HasGap c = gapFound c"

text \<open>The verdict on a stream that ended well.\<close>

definition checkGap :: "ws_session \<Rightarrow> string option" where
  "checkGap c = (if HasGap c
     then Some ''streaming output incomplete: sequence gap detected (data lost during reconnect)'' else None)"

end
