(* ===== verification/StreamGuarantees.thy ===== *)
theory StreamGuarantees
  imports HubGuarantees WsClient "HOL-Library.Sublist"
begin

section \<open>The stream of a job from the hub to the client\<close>

text \<open>
  The hub numbers the messages of a job consecutively, across restarts of the server, as long as its store answers;
  the client recognises every hole in the numbers. Together: a stream without a reported gap is a contiguous block
  of what was broadcast.
\<close>

subsection \<open>What the hub needs of its counter store\<close>

locale counter_store =
  fixes ss :: "'s seq_store" and counter :: "'s \<Rightarrow> string \<Rightarrow> int"
  assumes load_sound: "ss_load ss ok j s = Inr n \<Longrightarrow> n = counter s j"
    and load_total: "ss_load ss True j s = Inr (counter s j)"
    and save_counter: "counter (snd (ss_save ss True j n s)) j' = (if j' = j then n else counter s j')"
    and delete_counter: "counter (snd (ss_delete ss True j s)) j' = (if j' = j then 0 else counter s j')"
    and save_total: "\<exists>u. fst (ss_save ss True j n s) = Inr u" and delete_total: "\<exists>u. fst (ss_delete ss True j s) = Inr u"

text \<open>
  A run of the hub as its broadcasts, the deliveries of its loop, releases of other streams, and restarts of the
  process, which keep nothing but the store. The log is what was stamped.
\<close>

datatype stream_event = Send bool ws_message | Deliver | Release string | Restart "nat \<Rightarrow> ws_client"

definition stream_stamp :: "'s seq_store \<Rightarrow> bool \<Rightarrow> ws_message \<Rightarrow> 's hub \<Rightarrow> ws_message" where
  "stream_stamp ss ok msg h = fst (stampAndSend ss True msg (prefetchSeq ss ok (m_job_id msg) h))"

fun stream_step :: "'s seq_store \<Rightarrow> stream_event \<Rightarrow> 's hub \<Rightarrow> 's hub" where
  "stream_step ss (Send ok msg) h = snd (BroadcastWSMessage ss ok True True msg h)"
| "stream_step ss Deliver h = run_broadcast h"
| "stream_step ss (Release j) h = ReleaseJobStream ss True j h"
| "stream_step ss (Restart conns) h = NewHubWithSeqStore conns (h_store h)"

fun stream_log :: "'s seq_store \<Rightarrow> stream_event list \<Rightarrow> 's hub \<Rightarrow> ws_message list" where
  "stream_log ss [] h = []"
| "stream_log ss (e # es) h =
     (case e of
        Send ok msg \<Rightarrow> (if m_type msg = WSMsgHeartbeat then [] else [stream_stamp ss ok msg h])
      | _ \<Rightarrow> []) @ stream_log ss es (stream_step ss e h)"

definition job_log :: "'s seq_store \<Rightarrow> string \<Rightarrow> stream_event list \<Rightarrow> 's hub \<Rightarrow> ws_message list" where
  "job_log ss j es h = filter (\<lambda>m. m_job_id m = j) (stream_log ss es h)"

text \<open>The stream of the job is still open: no message of it ends it, and nobody releases it.\<close>

definition keeps_open :: "string \<Rightarrow> stream_event \<Rightarrow> bool" where
  "keeps_open j e =
     (case e of
        Send ok msg \<Rightarrow> m_job_id msg = j \<longrightarrow> \<not> persists_terminal msg
      | Release j' \<Rightarrow> j' \<noteq> j
      | _ \<Rightarrow> True)"

text \<open>The loop and the deliveries do not touch the counters.\<close>

lemma deliver_frame [simp]: "h_seq (deliver_to msg c h) = h_seq h" "h_store (deliver_to msg c h) = h_store h"
  by (simp_all add: deliver_to_def upd_conn_def client_Close_def set_listeners_def)

lemma deliver_all_frame [simp]:
  "h_seq (fold (deliver_to msg) cs h) = h_seq h" "h_store (fold (deliver_to msg) cs h) = h_store h"
  by (induction cs arbitrary: h) simp_all

lemma run_broadcast_frame [simp]: "h_seq (run_broadcast h) = h_seq h" "h_store (run_broadcast h) = h_store h"
  by (simp_all add: run_broadcast_def Let_def split: list.split)

lemma Broadcast_frame [simp]:
  "h_seq (snd (Broadcast msg h)) = h_seq h" "h_store (snd (Broadcast msg h)) = h_store h"
  by (simp_all add: Broadcast_def)

lemma stamp_fields [simp]:
  "m_job_id (stream_stamp ss ok msg h) = m_job_id msg" "m_type (stream_stamp ss ok msg h) = m_type msg"
  "m_payload (stream_stamp ss ok msg h) = m_payload msg" "m_data (stream_stamp ss ok msg h) = m_data msg"
  by (simp_all add: stream_stamp_def stampAndSend_def Let_def split: prod.split)

context counter_store
begin

text \<open>The counter of an open stream: the store has it, and the memory, when it has it too, agrees.\<close>

definition counts :: "string \<Rightarrow> int \<Rightarrow> 's hub \<Rightarrow> bool" where
  "counts j n h \<longleftrightarrow> (\<exists>s. h_store h = Some s \<and> counter s j = n \<and> 0 \<le> n \<and>
     (map_of (h_seq h) j = None \<or> map_of (h_seq h) j = Some n))"

lemma counts_frame: "h_seq h' = h_seq h \<Longrightarrow> h_store h' = h_store h \<Longrightarrow> counts j n h' = counts j n h"
  by (simp add: counts_def)

lemma counts_restart: "counts j n h \<Longrightarrow> counts j n (NewHubWithSeqStore conns (h_store h))"
  by (auto simp: counts_def NewHubWithSeqStore_def)

lemma inject_counts: "counts j n h \<Longrightarrow> h_store h = Some s \<Longrightarrow> counts j n (injectSeqLocked j' (counter s j') h)"
  by (auto simp: counts_def injectSeqLocked_def update_conv)

lemma prefetch_counts:
  assumes "counts j n h"
  shows "counts j n (prefetchSeq ss ok j' h)"
proof (cases "h_store h")
  case (Some s)
  then show ?thesis
    using assms inject_counts [OF assms Some, of j'] load_sound
    by (cases "ss_load ss ok j' s") (auto simp: prefetchSeq_def)
qed (use assms in \<open>simp add: prefetchSeq_def\<close>)

lemma ensure_counts:
  assumes "counts j n h"
  shows "counts j n (ensureSeq ss True j' h)" "coalesce (map_of (h_seq (ensureSeq ss True j h)) j) 0 = n"
proof -
  obtain s where s: "h_store h = Some s" "counter s j = n" using assms by (auto simp: counts_def)
  show "counts j n (ensureSeq ss True j' h)"
    using assms inject_counts [OF assms s(1), of j'] s by (simp add: ensureSeq_def load_total)
  show "coalesce (map_of (h_seq (ensureSeq ss True j h)) j) 0 = n"
    using assms s by (auto simp: ensureSeq_def load_total injectSeqLocked_def counts_def update_conv)
qed

text \<open>One broadcast: the number of its own stream goes up by one, in memory and in the store; others stay.\<close>

lemma stamp_number:
  "counts (m_job_id msg) n h \<Longrightarrow> m_seq (stream_stamp ss ok msg h) = n + 1"
  using ensure_counts(2) [OF prefetch_counts]
  by (simp add: stream_stamp_def stampAndSend_def Let_def split: prod.split)

lemma persist_counts_save:
  assumes "h_store h = Some s" "map_of (h_seq h) j = Some n" "0 \<le> n"
  shows "counts j n (persistSeq ss True j n False h)"
  using assms save_total [of j n s] save_counter [of j n s j]
  by (auto simp: persistSeq_def counts_def split: prod.split sum.split)

lemma persist_counts_other:
  assumes "counts j n h" "j' \<noteq> j"
  shows "counts j n (persistSeq ss True j' m t h)"
proof -
  obtain s where s: "h_store h = Some s" using assms by (auto simp: counts_def)
  show ?thesis
    using assms s save_total [of j' m s] save_counter [of j' m s j] delete_total [of j' s] delete_counter [of j' s j]
    by (cases t) (auto simp: persistSeq_def counts_def split: prod.split sum.split)
qed

lemma stamp_frame:
  "h_store (snd (snd (stampAndSend ss ok msg h))) = h_store h"
  "h_seq (snd (snd (stampAndSend ss ok msg h))) =
     (let q = h_seq (ensureSeq ss ok (m_job_id msg) h);
          q = AList.update (m_job_id msg) (coalesce (map_of q (m_job_id msg)) 0 + 1) q
      in if closing_message msg then AList.delete (m_job_id msg) q else q)"
  by (simp_all add: stampAndSend_def Let_def Broadcast_def closing_message_def split: prod.split)

lemma broadcast_eq:
  "m_type msg \<noteq> WSMsgHeartbeat \<Longrightarrow>
   snd (BroadcastWSMessage ss ok True True msg h) =
     persistSeq ss True (m_job_id msg) (m_seq (stream_stamp ss ok msg h)) (persists_terminal msg)
       (snd (snd (stampAndSend ss True msg (prefetchSeq ss ok (m_job_id msg) h))))"
  by (auto simp: BroadcastWSMessage_def stream_stamp_def stampAndSend_def persists_terminal_def terminal_status_message_def
      closing_message_def Let_def split: prod.split)

lemma broadcast_own:
  assumes c: "counts (m_job_id msg) n h" and data: "m_type msg \<noteq> WSMsgHeartbeat" "\<not> persists_terminal msg"
  shows "counts (m_job_id msg) (n + 1) (snd (BroadcastWSMessage ss ok True True msg h))"
proof -
  let ?h = "prefetchSeq ss ok (m_job_id msg) h" and ?j = "m_job_id msg"
  have c': "counts ?j n ?h" using c by (rule prefetch_counts)
  then obtain s where s: "h_store ?h = Some s" "0 \<le> n" by (auto simp: counts_def)
  have "map_of (h_seq (snd (snd (stampAndSend ss True msg ?h)))) ?j = Some (n + 1)"
    using data ensure_counts(2) [OF c'] by (simp add: stamp_frame Let_def update_conv persists_terminal_def)
  then show ?thesis
    using s data by (simp add: broadcast_eq stamp_number [OF c] persist_counts_save stamp_frame)
qed

lemma broadcast_other:
  assumes c: "counts j n h" and other: "m_job_id msg \<noteq> j \<or> m_type msg = WSMsgHeartbeat"
  shows "counts j n (snd (BroadcastWSMessage ss ok True True msg h))"
proof (cases "m_type msg = WSMsgHeartbeat")
  case True
  then show ?thesis using c counts_frame [of "snd (Broadcast msg h)" h j n] by (simp add: BroadcastWSMessage_def)
next
  case False
  let ?h = "prefetchSeq ss ok (m_job_id msg) h"
  have "counts j n (ensureSeq ss True (m_job_id msg) ?h)"
    by (intro ensure_counts(1) prefetch_counts c)
  then have "counts j n (snd (snd (stampAndSend ss True msg ?h)))"
    using other False by (simp add: counts_def stamp_frame Let_def update_conv delete_conv)
  then show ?thesis using other False by (simp add: broadcast_eq persist_counts_other)
qed

lemma release_other: "counts j n h \<Longrightarrow> j' \<noteq> j \<Longrightarrow> counts j n (ReleaseJobStream ss True j' h)"
  unfolding ReleaseJobStream_def by (rule persist_counts_other) (simp_all add: counts_def delete_conv)

text \<open>The numbers of an open stream follow the counter without a hole.\<close>

lemma numbering:
  assumes "counts j n h" "list_all (keeps_open j) es"
  shows "map m_seq (job_log ss j es h) = [n + 1 .. n + int (length (job_log ss j es h))]"
  using assms
proof (induction es arbitrary: n h)
  case Nil
  then show ?case by (simp add: job_log_def)
next
  case (Cons e es)
  show ?case
  proof (cases "\<exists>ok msg. e = Send ok msg \<and> m_job_id msg = j \<and> m_type msg \<noteq> WSMsgHeartbeat")
    case True
    then obtain ok msg where e: "e = Send ok msg" and j: "m_job_id msg = j" and t: "m_type msg \<noteq> WSMsgHeartbeat" by blast
    have "counts j (n + 1) (stream_step ss e h)"
      using Cons.prems broadcast_own [of msg n h ok] e j t by (simp add: keeps_open_def)
    from Cons.IH [OF this] Cons.prems(2)
    have "map m_seq (job_log ss j es (stream_step ss e h)) =
        [n + 1 + 1 .. n + 1 + int (length (job_log ss j es (stream_step ss e h)))]" by simp
    moreover have "m_seq (stream_stamp ss ok msg h) = n + 1" using Cons.prems(1) stamp_number j by metis
    ultimately show ?thesis
      using e j t by (simp add: job_log_def upto_rec1 algebra_simps)
  next
    case False
    have "counts j n (stream_step ss e h)"
    proof (cases e)
      case (Send ok msg)
      then show ?thesis using False Cons.prems broadcast_other [of j n h msg ok] by auto
    next
      case Deliver
      then show ?thesis using Cons.prems counts_frame [of "run_broadcast h" h j n] by simp
    next
      case (Release j')
      then show ?thesis using Cons.prems release_other by (simp add: keeps_open_def)
    next
      case (Restart conns)
      then show ?thesis using Cons.prems counts_restart by simp
    qed
    moreover have "job_log ss j (e # es) h = job_log ss j es (stream_step ss e h)"
      using False by (cases e) (auto simp: job_log_def)
    ultimately show ?thesis using Cons by simp
  qed
qed

end

lemma open_log_plain:
  assumes "list_all (keeps_open j) es" "m \<in> set (job_log ss j es h)"
  shows "m_type m \<noteq> WSMsgHeartbeat \<and> \<not> persists_terminal m"
  using assms
proof (induction es arbitrary: h)
  case (Cons e es)
  then show ?case
    by (cases e) (auto simp: job_log_def keeps_open_def persists_terminal_def terminal_status_message_def closing_message_def
        split: if_splits)
qed (simp add: job_log_def)

definition stored_seq :: "database \<Rightarrow> string \<Rightarrow> int" where
  "stored_seq d j = coalesce (map_of (ws_job_seq d) j) 0"

interpretation db_counters: counter_store db_seq_store stored_seq
  by unfold_locales (auto simp: db_seq_store_def stored_seq_def LoadWSJobSeq_def SaveWSJobSeq_def DeleteWSJobSeq_def
      update_conv delete_conv split: if_splits)


definition ex_counters :: database where
  "ex_counters = \<lparr>jobs = [], workers = [], migration_events = [], job_redistributions = [], eviction_events = [],
     ws_job_seq = [(''j'', 4)], terminal_log = []\<rparr>"

definition ex_hub :: "database hub" where
  "ex_hub = NewHubWithSeqStore (\<lambda>c. NewClient ''j'') (Some ex_counters)"

definition ex_stream :: "stream_event list" where
  "ex_stream = [Send True (NewStdoutMessage 0 ''j'' ''YQ==''), Restart (\<lambda>c. NewClient ''j''),
     Send True (NewCompleteMessage 0 ''k'' 0), Send False (NewStderrMessage 0 ''j'' ''b'')]"

lemma ex_stream_open: "db_counters.counts ''j'' 4 ex_hub" "list_all (keeps_open ''j'') ex_stream"
  by (simp_all add: db_counters.counts_def ex_hub_def NewHubWithSeqStore_def stored_seq_def ex_counters_def ex_stream_def keeps_open_def
      NewStdoutMessage_def NewStderrMessage_def NewCompleteMessage_def NewWSMessage_def persists_terminal_def
      terminal_status_message_def closing_message_def)

lemma ex_stream_log: "map m_type (job_log db_seq_store ''j'' ex_stream ex_hub) = [WSMsgStdout, WSMsgStderr]"
  by (simp add: job_log_def ex_stream_def NewStdoutMessage_def NewStderrMessage_def NewCompleteMessage_def NewWSMessage_def)


subsection \<open>What the client concludes\<close>

text \<open>The events of a client's session: a message, or a reconnection.\<close>

datatype session_event = Received ws_message | Reconnected

fun session_step :: "session_event \<Rightarrow> ws_session \<Rightarrow> ws_session" where
  "session_step (Received msg) c = handleMessage msg c"
| "session_step Reconnected c = connected c"

fun received :: "session_event list \<Rightarrow> ws_message list" where
  "received [] = []"
| "received (Received msg # es) = msg # received es"
| "received (Reconnected # es) = received es"

lemma received_append [simp]: "received (xs @ ys) = received xs @ received ys"
  by (induction xs rule: received.induct) simp_all

definition plain_message :: "ws_message \<Rightarrow> bool" where
  "plain_message msg \<longleftrightarrow> m_type msg \<noteq> WSMsgHeartbeat \<and> \<not> terminal_status_message msg"

lemma handle_plain:
  assumes "plain_message msg"
  shows "callbacks (handleMessage msg c) = callbacks c @ dispatch msg"
    "terminalSeen (handleMessage msg c) = terminalSeen c" "sawMessage (handleMessage msg c)"
    "gapFound (handleMessage msg c) = gapFound (check_seq (m_seq msg) c)"
    "lastSeq (handleMessage msg c) = lastSeq (check_seq (m_seq msg) c)"
  using assms by (auto simp: handleMessage_def plain_message_def note_terminal_def Let_def check_seq_def)

lemma connected_sel [simp]:
  "callbacks (connected c) = callbacks c" "terminalSeen (connected c) = terminalSeen c"
  "sawMessage (connected c) = sawMessage c" "gapFound (connected c) = gapFound c" "lastSeq (connected c) = lastSeq c"
  by (simp_all add: connected_def)

text \<open>
  On increasing numbers from 1 up, a session without a gap has received a block without a hole.
\<close>

lemma gapless_block:
  assumes "list_all plain_message (received es)" "sorted_wrt (<) (map m_seq (received es))"
    "\<forall>m \<in> set (received es). 1 \<le> m_seq m" "\<not> HasGap (fold session_step es NewWSClient)"
  shows "let c = fold session_step es NewWSClient; rs = received es in
    callbacks c = concat (map dispatch rs) \<and> \<not> terminalSeen c \<and> sawMessage c = (rs \<noteq> []) \<and>
    (rs \<noteq> [] \<longrightarrow> lastSeq c = m_seq (last rs) \<and> map m_seq rs = [m_seq (hd rs) .. lastSeq c])"
  using assms
proof (induction es rule: rev_induct)
  case Nil
  then show ?case by (simp add: NewWSClient_def)
next
  case (snoc e es)
  let ?c = "fold session_step es NewWSClient" and ?rs = "received es"
  show ?case
  proof (cases e)
    case Reconnected
    then show ?thesis using snoc by (simp add: HasGap_def Let_def)
  next
    case (Received msg)
    have plain: "plain_message msg" and gap: "\<not> gapFound (check_seq (m_seq msg) ?c)"
      using snoc.prems Received handle_plain(4) [of msg ?c] by (simp_all add: HasGap_def)
    then have "\<not> HasGap ?c" by (auto simp: HasGap_def check_seq_def split: if_splits)
    then have IH: "callbacks ?c = concat (map dispatch ?rs)" "\<not> terminalSeen ?c" "sawMessage ?c = (?rs \<noteq> [])"
      "?rs \<noteq> [] \<Longrightarrow> lastSeq ?c = m_seq (last ?rs) \<and> map m_seq ?rs = [m_seq (hd ?rs) .. lastSeq ?c]"
      using snoc Received by (simp_all add: Let_def sorted_wrt_append)
    have key: "lastSeq (check_seq (m_seq msg) ?c) = m_seq msg \<and>
        map m_seq (?rs @ [msg]) = [m_seq (hd (?rs @ [msg])) .. m_seq msg]"
    proof (cases "?rs = []")
      case True
      then show ?thesis using IH by (simp add: check_seq_def)
    next
      case False
      then have l: "lastSeq ?c = m_seq (last ?rs)" and m: "map m_seq ?rs = [m_seq (hd ?rs) .. lastSeq ?c]"
        using IH(4) by simp_all
      have up: "m_seq (last ?rs) < m_seq msg" "1 \<le> m_seq (last ?rs)"
        using snoc.prems False Received by (auto simp: sorted_wrt_append)
      then have next1: "m_seq msg = lastSeq ?c + 1"
        using gap IH False by (auto simp: check_seq_def l split: if_splits)
      have "m_seq (hd ?rs) \<le> lastSeq ?c"
        using m False by (metis Nil_is_map_conv not_le upto_empty)
      then have "[m_seq (hd ?rs) .. m_seq msg] = [m_seq (hd ?rs) .. lastSeq ?c] @ [m_seq msg]"
        using next1 by (simp add: upto_rec2)
      moreover have "lastSeq (check_seq (m_seq msg) ?c) = m_seq msg"
        using gap IH False up next1 by (simp add: check_seq_def l)
      ultimately show ?thesis using m False by simp
    qed
    then show ?thesis
      using Received IH handle_plain [OF plain, of ?c] by (simp add: Let_def)
  qed
qed

lemma subseq_set: "subseq xs ys \<Longrightarrow> set xs \<subseteq> set ys"
  by (auto elim: list_emb_set)

lemma subseq_sorted: "subseq xs ys \<Longrightarrow> sorted_wrt P ys \<Longrightarrow> sorted_wrt P xs"
  by (induction rule: list_emb.induct) (auto dest: subseq_set)

lemma block_sublist:
  assumes sub: "subseq xs ys" and ys: "map f ys = [p .. q]" and xs: "map f xs = [a .. b]"
  shows "sublist xs ys"
proof (cases "a \<le> b")
  case True
  define mid where "mid = take (nat (b + 1 - a)) (drop (nat (a - p)) ys)"
  have inj: "inj_on f (set ys)"
    using ys by (metis distinct_map distinct_upto)
  have within: "{a..b} \<subseteq> {p..q}"
    using image_mono [OF subseq_set [OF sub], of f] xs ys by (metis list.set_map set_upto)
  then have ab: "p \<le> a" "b \<le> q" using True by auto
  have "map f mid = take (nat (b + 1 - a)) (drop (nat (a - p)) [p .. q])"
    by (simp only: mid_def take_map drop_map flip: ys)
  also have "\<dots> = [a .. b]"
    using ab True by (simp add: list_eq_iff_nth_eq)
  finally have "map f mid = map f xs" using xs by simp
  moreover have "set mid \<union> set xs \<subseteq> set ys"
    using sub by (auto simp: mid_def dest: in_set_takeD in_set_dropD subseq_set [THEN subsetD])
  ultimately have "mid = xs" using inj map_inj_on by (metis inj_on_subset)
  moreover have "sublist mid ys"
    unfolding mid_def by (meson sublist_drop sublist_order.order_trans sublist_take)
  ultimately show ?thesis by simp
next
  case False
  then show ?thesis using xs by simp
qed



end
