(* ===== verification/Batchers.thy ===== *)
theory Batchers
  imports RffPrelude "HOL-Library.Multiset"
begin

section \<open>Output batchers of the worker (pkg/worker/stdout_batcher.go, stderr_batcher.go)\<close>

text \<open>
  A batcher collects chunks and hands full or timed-out batches to goroutines that send them. Each mutex section is one
  function. The stdout goroutines wait for their predecessor (\<^verbatim>\<open>prevSend\<close>), so only the head of the chain can finish;
  the stderr goroutines are independent.
\<close>

subsection \<open>Stdout\<close>

record stdout_batcher =
  sb_chunks :: "string list"
  sb_in_flight :: "string list"  \<comment> \<open>combined batches, in chain order\<close>
  sb_sent :: "string list"  \<comment> \<open>batches the server accepted, in order\<close>
  sb_send_err :: "string option"
  sb_cancelled :: bool
  sb_batch_size :: nat

definition DefaultStdoutBatchSize :: nat where "DefaultStdoutBatchSize = 10"

definition NewStdoutBatcher :: "nat \<Rightarrow> stdout_batcher" where
  "NewStdoutBatcher batchSize =
     \<lparr>sb_chunks = [], sb_in_flight = [], sb_sent = [], sb_send_err = None, sb_cancelled = False,
      sb_batch_size = batchSize\<rparr>"

definition stdout_flushLocked :: "stdout_batcher \<Rightarrow> stdout_batcher" where
  "stdout_flushLocked b =
     (if sb_chunks b = [] then b
      else b\<lparr>sb_in_flight := sb_in_flight b @ [concat (sb_chunks b)], sb_chunks := []\<rparr>)"

definition stdout_Add :: "string \<Rightarrow> stdout_batcher \<Rightarrow> stdout_batcher" where
  "stdout_Add chunk b =
     (if sb_cancelled b then b
      else (let b = b\<lparr>sb_chunks := sb_chunks b @ [chunk]\<rparr> in
            if length (sb_chunks b) \<ge> sb_batch_size b then stdout_flushLocked b else b))"

definition stdout_timedFlush :: "stdout_batcher \<Rightarrow> stdout_batcher" where
  "stdout_timedFlush b = (if sb_cancelled b then b else if sb_chunks b \<noteq> [] then stdout_flushLocked b else b)"

definition stdout_Flush :: "stdout_batcher \<Rightarrow> stdout_batcher" where
  "stdout_Flush b = stdout_flushLocked b"

text \<open>The goroutine at the head of the chain finishes; \<open>err\<close> is the error of \<^verbatim>\<open>SendStdoutChunk\<close>, if any.\<close>

definition stdout_send :: "string option \<Rightarrow> stdout_batcher \<Rightarrow> stdout_batcher" where
  "stdout_send err b =
     (case sb_in_flight b of
        [] \<Rightarrow> b
      | batch # rest \<Rightarrow>
          (case err of
             None \<Rightarrow> b\<lparr>sb_in_flight := rest, sb_sent := sb_sent b @ [batch]\<rparr>
           | Some e \<Rightarrow> b\<lparr>sb_in_flight := rest,
                         sb_send_err := (if sb_send_err b = None then Some e else sb_send_err b)\<rparr>))"

text \<open>Waiting for the sends: the head goroutine finishes again and again; \<open>outcome\<close> gives each batch's error.\<close>

function stdout_drain :: "(string \<Rightarrow> string option) \<Rightarrow> stdout_batcher \<Rightarrow> stdout_batcher" where
  "stdout_drain outcome b =
     (case sb_in_flight b of
        [] \<Rightarrow> b
      | batch # rest \<Rightarrow> stdout_drain outcome (stdout_send (outcome batch) b))"
  by pat_completeness auto
termination
  by (relation "measure (\<lambda>(_, b). length (sb_in_flight b))") (auto simp: stdout_send_def split: option.splits)

declare stdout_drain.simps [simp del]

definition stdout_FlushAndWait :: "(string \<Rightarrow> string option) \<Rightarrow> stdout_batcher \<Rightarrow> string option \<times> stdout_batcher" where
  "stdout_FlushAndWait outcome b =
     (let b = stdout_drain outcome (stdout_flushLocked b) in (sb_send_err b, b))"

definition stdout_Close :: "(string \<Rightarrow> string option) \<Rightarrow> stdout_batcher \<Rightarrow> stdout_batcher" where
  "stdout_Close outcome b = stdout_drain outcome (stdout_Flush (b\<lparr>sb_cancelled := True\<rparr>))"

subsection \<open>Stderr\<close>

record stderr_batcher =
  eb_chunks :: "string list"
  eb_in_flight :: "string list"
  eb_sent :: "string list"
  eb_cancelled :: bool
  eb_batch_size :: nat

definition DefaultStderrBatchSize :: nat where "DefaultStderrBatchSize = 10"

definition NewStderrBatcher :: "nat \<Rightarrow> stderr_batcher" where
  "NewStderrBatcher batchSize =
     \<lparr>eb_chunks = [], eb_in_flight = [], eb_sent = [], eb_cancelled = False, eb_batch_size = batchSize\<rparr>"

fun join_lines :: "string list \<Rightarrow> string" where
  "join_lines [] = []"
| "join_lines [c] = c"
| "join_lines (c # cs) = c @ CHR ''\<newline>'' # join_lines cs"

definition stderr_flushLocked :: "stderr_batcher \<Rightarrow> stderr_batcher" where
  "stderr_flushLocked b =
     (if eb_chunks b = [] then b
      else b\<lparr>eb_in_flight := eb_in_flight b @ [join_lines (eb_chunks b)], eb_chunks := []\<rparr>)"

definition stderr_Add :: "string \<Rightarrow> stderr_batcher \<Rightarrow> stderr_batcher" where
  "stderr_Add chunk b =
     (if eb_cancelled b then b
      else (let b = b\<lparr>eb_chunks := eb_chunks b @ [chunk]\<rparr> in
            if length (eb_chunks b) \<ge> eb_batch_size b then stderr_flushLocked b else b))"

definition stderr_timedFlush :: "stderr_batcher \<Rightarrow> stderr_batcher" where
  "stderr_timedFlush b = (if eb_cancelled b then b else if eb_chunks b \<noteq> [] then stderr_flushLocked b else b)"

definition stderr_Flush :: "stderr_batcher \<Rightarrow> stderr_batcher" where
  "stderr_Flush b = stderr_flushLocked b"

text \<open>Any goroutine may finish next; a failed send is only logged, and the batch is gone.\<close>

definition stderr_send :: "nat \<Rightarrow> bool \<Rightarrow> stderr_batcher \<Rightarrow> stderr_batcher" where
  "stderr_send i ok b =
     (if i < length (eb_in_flight b)
      then b\<lparr>eb_in_flight := take i (eb_in_flight b) @ drop (Suc i) (eb_in_flight b),
             eb_sent := (if ok then eb_sent b @ [eb_in_flight b ! i] else eb_sent b)\<rparr>
      else b)"

text \<open>Closing cancels the context and flushes; the bounded wait that follows changes nothing by itself.\<close>

definition stderr_Close :: "stderr_batcher \<Rightarrow> stderr_batcher" where
  "stderr_Close b = stderr_Flush (b\<lparr>eb_cancelled := True\<rparr>)"

subsection \<open>Order and completeness of the stdout stream\<close>

text \<open>Every step of a stdout batcher, with the bytes it was given so far.\<close>

inductive stdout_step :: "string \<times> stdout_batcher \<Rightarrow> string \<times> stdout_batcher \<Rightarrow> bool" where
  op_add: "\<not> sb_cancelled b \<Longrightarrow> stdout_step (given, b) (given @ chunk, stdout_Add chunk b)"
| op_timer: "stdout_step (given, b) (given, stdout_timedFlush b)"
| op_flush: "stdout_step (given, b) (given, stdout_Flush b)"
| op_send: "stdout_step (given, b) (given, stdout_send err b)"
| op_drain: "stdout_step (given, b) (given, snd (stdout_FlushAndWait outcome b))"
| op_close: "stdout_step (given, b) (given, stdout_Close outcome b)"

text \<open>What was accepted, is under way, and waits, in this order.\<close>

definition stdout_bytes :: "stdout_batcher \<Rightarrow> string" where
  "stdout_bytes b = concat (sb_sent b) @ concat (sb_in_flight b) @ concat (sb_chunks b)"

definition stdout_init :: "string \<times> stdout_batcher \<Rightarrow> bool" where
  "stdout_init p \<longleftrightarrow> (\<exists>n. p = ([], NewStdoutBatcher n))"

definition stdout_ok :: "string \<times> stdout_batcher \<Rightarrow> bool" where
  "stdout_ok p \<longleftrightarrow> (sb_send_err (snd p) = None \<longrightarrow> stdout_bytes (snd p) = fst p)"

lemma flush_bytes [simp]:
  "stdout_bytes (stdout_flushLocked b) = stdout_bytes b" "sb_send_err (stdout_flushLocked b) = sb_send_err b"
  "sb_chunks (stdout_flushLocked b) = []" "sb_cancelled (stdout_flushLocked b) = sb_cancelled b"
  by (simp_all add: stdout_flushLocked_def stdout_bytes_def)

lemma add_bytes:
  "\<not> sb_cancelled b \<Longrightarrow> stdout_bytes (stdout_Add c b) = stdout_bytes b @ c" "sb_send_err (stdout_Add c b) = sb_send_err b"
  by (simp_all add: stdout_Add_def Let_def) (simp_all add: stdout_bytes_def)

lemma send_bytes:
  "sb_send_err (stdout_send err b) = None \<Longrightarrow> stdout_bytes (stdout_send err b) = stdout_bytes b \<and> sb_send_err b = None"
  by (auto simp: stdout_send_def stdout_bytes_def split: list.splits option.splits if_splits)

lemma drain_bytes:
  "sb_send_err (stdout_drain outcome b) = None \<Longrightarrow>
   stdout_bytes (stdout_drain outcome b) = stdout_bytes b \<and> sb_send_err b = None"
proof (induction outcome b rule: stdout_drain.induct)
  case (1 outcome b)
  then show ?case
    by (cases "sb_in_flight b") (auto simp: stdout_drain.simps [of outcome b] dest: send_bytes)
qed

lemma drain_empty: "sb_in_flight (stdout_drain outcome b) = [] \<and> sb_chunks (stdout_drain outcome b) = sb_chunks b"
proof (induction outcome b rule: stdout_drain.induct)
  case (1 outcome b)
  have "sb_chunks (stdout_send e b) = sb_chunks b" for e
    by (auto simp: stdout_send_def split: list.splits option.splits)
  with 1 show ?case by (cases "sb_in_flight b") (auto simp: stdout_drain.simps [of outcome b])
qed

lemma stdout_step_ok: "stdout_ok p \<Longrightarrow> stdout_step p q \<Longrightarrow> stdout_ok q"
proof (erule stdout_step.cases)
  fix b given outcome assume "stdout_ok p" "p = (given, b)" "q = (given, stdout_Close outcome b)"
  then show "stdout_ok q"
    using drain_bytes [of outcome "stdout_flushLocked (b\<lparr>sb_cancelled := True\<rparr>)"]
    by (auto simp: stdout_ok_def stdout_Close_def stdout_Flush_def) (simp_all add: stdout_bytes_def)
qed (auto simp: stdout_ok_def add_bytes stdout_timedFlush_def stdout_Flush_def stdout_FlushAndWait_def Let_def
    dest: send_bytes drain_bytes)

interpretation stdout: invariant_system stdout_init stdout_step stdout_ok
proof unfold_locales
  fix p :: "string \<times> stdout_batcher"
  show "stdout_init p \<Longrightarrow> stdout_ok p"
    by (auto simp: stdout_init_def stdout_ok_def NewStdoutBatcher_def stdout_bytes_def)
qed (rule stdout_step_ok)

subsection \<open>Stderr batches keep their chunks\<close>

lemma join_lines_append:
  "xs \<noteq> [] \<Longrightarrow> ys \<noteq> [] \<Longrightarrow> join_lines (xs @ ys) = join_lines xs @ CHR ''\<newline>'' # join_lines ys"
  by (induction xs rule: join_lines.induct) (auto simp: neq_Nil_conv)

lemma stderr_send_batches:
  "mset (eb_in_flight (stderr_send i ok b)) + mset (eb_sent (stderr_send i ok b)) =
   mset (eb_in_flight b) + mset (eb_sent b) -
     (if i < length (eb_in_flight b) \<and> \<not> ok then {#eb_in_flight b ! i#} else {#})"
proof (cases "i < length (eb_in_flight b)")
  case True
  have "mset (eb_in_flight b) = add_mset (eb_in_flight b ! i) (mset (take i (eb_in_flight b) @ drop (Suc i) (eb_in_flight b)))"
    by (subst id_take_nth_drop [OF True]) simp
  with True show ?thesis by (simp add: stderr_send_def)
qed (simp add: stderr_send_def)

end
