(* ===== verification/WireGuarantees.thy ===== *)
theory WireGuarantees
  imports StreamGuarantees Batchers
begin

section \<open>Bytes on the wire\<close>

text \<open>
  Standard output from the worker's pipe to the client's callback; messages packed into frames and split again; and
  the budgets of a client that reconnects.
\<close>

subsection \<open>Standard output\<close>

fun stdout_of :: "callback \<Rightarrow> string" where
  "stdout_of (OnStdout raw) = raw"
| "stdout_of c = []"

text \<open>A broadcast carries the batches when its messages are stdout messages of their encodings, in order.\<close>

definition carries :: "ws_message list \<Rightarrow> string list \<Rightarrow> bool" where
  "carries rs batches \<longleftrightarrow>
     map (\<lambda>m. (m_type m, m_payload m)) rs = map (\<lambda>batch. (WSMsgStdout, EncodeStdoutChunk batch)) batches"

lemma dispatch_batch:
  "m_type m = WSMsgStdout \<Longrightarrow> m_payload m = EncodeStdoutChunk batch \<Longrightarrow> concat (map stdout_of (dispatch m)) = batch"
  using length_EncodeStdoutChunk [of batch] by (cases batch) (auto simp: dispatch_def StdoutChunk_roundtrip)

lemma dispatch_batches:
  "carries rs batches \<Longrightarrow> concat (map stdout_of (concat (map dispatch rs))) = concat batches"
  unfolding carries_def
proof (induction rs arbitrary: batches)
  case (Cons m rs)
  then obtain batch rest where "batches = batch # rest" by (cases batches) auto
  with Cons show ?case using dispatch_batch [of m batch] by simp
qed simp

text \<open>
  C14: standard output arrives byte for byte. After any run of a batcher, when the final flush reports no error, a client
  that receives messages carrying what the server accepted writes exactly the bytes the worker was given, in order:
  no failure in the middle of the chain goes unreported, whatever the batch sizes, timers and encodings.
\<close>

theorem stdout_arrives_intact:
  assumes "reach stdout_init stdout_step (given, b)" "stdout_FlushAndWait outcome b = (None, b')" "carries rs (sb_sent b')"
  shows "concat (map stdout_of (concat (map dispatch rs))) = given"
proof -
  have drained: "b' = stdout_drain outcome (stdout_flushLocked b)" "sb_send_err b' = None"
    using assms(2) by (auto simp: stdout_FlushAndWait_def Let_def)
  then have "stdout_bytes b' = stdout_bytes b" "sb_send_err b = None"
    using drain_bytes [of outcome "stdout_flushLocked b"] by simp_all
  moreover have "stdout_bytes b' = concat (sb_sent b')"
    using drained drain_empty [of outcome "stdout_flushLocked b"] by (simp add: stdout_bytes_def)
  ultimately have "concat (sb_sent b') = given"
    using stdout.reach_inv [OF assms(1)] by (simp add: stdout_ok_def)
  then show ?thesis using dispatch_batches [OF assms(3)] by simp
qed

theorem stdout_arrives_intact_witness:
  "\<exists>b'. stdout_FlushAndWait (\<lambda>_. None) (stdout_Add ''bc'' (stdout_Add ''a'' (NewStdoutBatcher 5))) = (None, b') \<and>
    concat (map stdout_of (concat (map dispatch [NewStdoutMessage 0 ''j'' (EncodeStdoutChunk ''abc'')]))) = ''abc''"
proof -
  let ?new = "NewStdoutBatcher 5" and ?ok = "\<lambda>_ :: string. None :: string option"
  let ?b = "stdout_Add ''bc'' (stdout_Add ''a'' ?new)"
  have plain: "\<not> sb_cancelled ?new" "\<not> sb_cancelled (stdout_Add ''a'' ?new)"
    by (simp_all add: NewStdoutBatcher_def stdout_Add_def)
  have "reach stdout_init stdout_step ([], ?new)" by (rule reach_init) (auto simp: stdout_init_def)
  moreover have "stdout_step ([], ?new) ([] @ ''a'', stdout_Add ''a'' ?new)" using plain(1) by (rule op_add)
  ultimately have "reach stdout_init stdout_step ([] @ ''a'', stdout_Add ''a'' ?new)" by (rule reach_step)
  moreover have "stdout_step ([] @ ''a'', stdout_Add ''a'' ?new) (([] @ ''a'') @ ''bc'', ?b)" using plain(2) by (rule op_add)
  ultimately have "reach stdout_init stdout_step (([] @ ''a'') @ ''bc'', ?b)" by (rule reach_step)
  then have run: "reach stdout_init stdout_step (''abc'', ?b)" by simp
  obtain b' where b': "stdout_FlushAndWait ?ok ?b = (None, b')" "sb_sent b' = [''abc'']"
    by (simp add: stdout_FlushAndWait_def NewStdoutBatcher_def stdout_Add_def stdout_flushLocked_def stdout_drain.simps
        stdout_send_def Let_def)
  have "carries [NewStdoutMessage 0 ''j'' (EncodeStdoutChunk ''abc'')] (sb_sent b')"
    by (simp add: b'(2) carries_def NewStdoutMessage_def NewWSMessage_def)
  from stdout_arrives_intact [OF run b'(1) this] b'(1) show ?thesis by blast
qed

subsection \<open>Frames\<close>

text \<open>A message that survives the line scanner: the JSON encoder puts neither line feeds nor a final carriage return.\<close>

definition line_safe :: "nat \<Rightarrow> string \<Rightarrow> bool" where
  "line_safe limit m \<longleftrightarrow> m \<noteq> [] \<and> CHR ''\<newline>'' \<notin> set m \<and> last m \<noteq> CHR 0x0D \<and> length m < limit"

fun frame_of :: "string list \<Rightarrow> string" where
  "frame_of [] = []"
| "frame_of (m # ms) = m @ concat (map (\<lambda>x. CHR ''\<newline>'' # x) ms)"

lemma scan_frame:
  "list_all (line_safe limit) ms \<Longrightarrow> scan_lines limit (frame_of ms) = (ms, False)"
proof (induction ms)
  case Nil
  then show ?case by (simp add: scan_lines.simps)
next
  case (Cons m ms)
  then have m: "line_safe limit m" by simp
  then have line: "takeWhile (\<lambda>c. c \<noteq> CHR ''\<newline>'') (frame_of (m # ms)) = m"
    by (cases ms) (auto simp: line_safe_def takeWhile_tail takeWhile_eq_all_conv)
  have rest: "drop (length m + 1) (frame_of (m # ms)) = frame_of ms"
    by (cases ms) simp_all
  have "frame_of (m # ms) \<noteq> []" using m by (simp add: line_safe_def)
  then show ?case
    using m Cons.IH Cons.prems
    by (subst scan_lines.simps, simp only: Let_def line rest) (simp add: line_safe_def drop_cr_def)
qed

lemma frame_lines_frame: "list_all (line_safe limit) ms \<Longrightarrow> frame_lines limit (frame_of ms) = ms"
  by (auto simp: frame_lines_def scan_frame filter_id_conv list_all_iff line_safe_def)

definition pending_list :: "string option \<Rightarrow> string list" where
  "pending_list p = (case p of None \<Rightarrow> [] | Some m \<Rightarrow> [m])"

lemma pack_spec:
  "pack budget sofar queue = (bytes, p, rest) \<Longrightarrow>
   \<exists>taken. queue = taken @ pending_list p @ rest \<and> bytes = concat (map (\<lambda>x. CHR ''\<newline>'' # x) taken) \<and>
     sofar + length bytes \<le> max sofar (budget + 1)"
proof (induction budget sofar queue arbitrary: bytes p rest rule: pack.induct)
  case (2 budget sofar m queue)
  show ?case
  proof (cases "sofar < budget \<and> sofar + length m \<le> budget")
    case True
    with "2.prems" obtain more where more: "pack budget (sofar + 1 + length m) queue = (more, p, rest)"
      "bytes = CHR ''\<newline>'' # m @ more"
      by (auto split: prod.splits)
    from "2.IH" [OF _ _ more(1)] True obtain taken where
      "queue = taken @ pending_list p @ rest" "more = concat (map (\<lambda>x. CHR ''\<newline>'' # x) taken)"
      "sofar + 1 + length m + length more \<le> max (sofar + 1 + length m) (budget + 1)" by auto
    with True more(2) show ?thesis by (intro exI [of _ "m # taken"]) auto
  next
    case False
    with "2.prems" show ?thesis by (intro exI [of _ "[]"]) (auto simp: pending_list_def split: if_splits)
  qed
qed (simp add: pending_list_def)

lemma writeFrame_spec:
  assumes "writeFrame budget message queue = (frame, p, rest)"
  shows "\<exists>taken. queue = taken @ pending_list p @ rest \<and> frame = frame_of (message # taken) \<and>
    length frame \<le> max (length message) (budget + 1)"
  using assms pack_spec [of budget "length message" queue] by (auto simp: writeFrame_def split: prod.splits)

lemma write_pump_frames:
  "\<exists>parts. write_pump budget p queue = map frame_of parts \<and> concat parts = pending_list p @ queue \<and>
    (\<forall>part \<in> set parts. part \<noteq> [] \<and> length (frame_of part) \<le> max (length (hd part)) (budget + 1))"
proof (induction budget p queue rule: write_pump.induct)
  case (1 budget message queue)
  obtain frame p' rest where f: "writeFrame budget message queue = (frame, p', rest)" by (metis prod_cases3)
  from writeFrame_spec [OF f] obtain taken where
    "queue = taken @ pending_list p' @ rest" "frame = frame_of (message # taken)"
    "length frame \<le> max (length message) (budget + 1)" by blast
  moreover from "1.IH" [OF f [symmetric]] obtain parts where "write_pump budget p' rest = map frame_of parts"
    "concat parts = pending_list p' @ rest"
    "\<forall>part \<in> set parts. part \<noteq> [] \<and> length (frame_of part) \<le> max (length (hd part)) (budget + 1)" by auto
  ultimately show ?case
    using f by (intro exI [of _ "(message # taken) # parts"]) (simp add: pending_list_def)
next
  case (3 budget message queue)
  obtain frame p' rest where f: "writeFrame budget message queue = (frame, p', rest)" by (metis prod_cases3)
  from writeFrame_spec [OF f] obtain taken where
    "queue = taken @ pending_list p' @ rest" "frame = frame_of (message # taken)"
    "length frame \<le> max (length message) (budget + 1)" by blast
  moreover from "3.IH" [OF f [symmetric]] obtain parts where "write_pump budget p' rest = map frame_of parts"
    "concat parts = pending_list p' @ rest"
    "\<forall>part \<in> set parts. part \<noteq> [] \<and> length (frame_of part) \<le> max (length (hd part)) (budget + 1)" by auto
  ultimately show ?case
    using f by (intro exI [of _ "(message # taken) # parts"]) (simp add: pending_list_def)
qed (simp add: pending_list_def)

text \<open>
  The frames of the write pump carry its messages: splitting them again gives every message once and in order, a
  held-back one first; and no frame is longer than the byte budget plus one, unless its first message alone is, so a
  pump whose messages respect the read limit never trips the client's limit.
\<close>

theorem frames_roundtrip:
  assumes "list_all (line_safe WSClientReadLimit) (pending_list p @ queue)"
  shows "concat (map (frame_lines WSClientReadLimit) (write_pump WSFrameByteBudget p queue)) = pending_list p @ queue
    \<and> list_all (\<lambda>frame. length frame \<le> WSClientReadLimit) (write_pump WSFrameByteBudget p queue)"
proof -
  obtain parts where parts: "write_pump WSFrameByteBudget p queue = map frame_of parts" "concat parts = pending_list p @ queue"
    "\<And>part. part \<in> set parts \<Longrightarrow> part \<noteq> [] \<and> length (frame_of part) \<le> max (length (hd part)) (WSFrameByteBudget + 1)"
    using write_pump_frames [of WSFrameByteBudget p queue] by blast
  have safe: "list_all (line_safe WSClientReadLimit) part" if "part \<in> set parts" for part
    using assms that by (auto simp: list_all_iff simp flip: parts(2))
  then have "map (frame_lines WSClientReadLimit) (map frame_of parts) = parts"
    by (auto simp: frame_lines_frame intro!: map_idI)
  moreover have "length (frame_of part) \<le> WSClientReadLimit" if "part \<in> set parts" for part
  proof -
    have "length (hd part) < WSClientReadLimit"
      using safe [OF that] parts(3) [OF that] by (cases part) (simp_all add: line_safe_def)
    then show ?thesis using parts(3) [OF that] by (auto simp: WSFrameByteBudget_def WSClientReadLimit_def)
  qed
  ultimately show ?thesis
    by (simp only: parts(1)) (simp add: parts(2) list_all_iff)
qed

theorem frames_roundtrip_witness:
  "concat (map (frame_lines WSClientReadLimit) (write_pump WSFrameByteBudget (Some ''{a}'') [''{b}'', ''{c}'']))
    = [''{a}'', ''{b}'', ''{c}'']"
  using frames_roundtrip [of "Some ''{a}''" "[''{b}'', ''{c}'']"]
  by (simp add: line_safe_def pending_list_def WSClientReadLimit_def)

subsection \<open>Reconnecting\<close>

lemma next_delay_mono: "0 \<le> d \<Longrightarrow> 0 \<le> next_delay d"
  by (simp add: next_delay_def WSMaxReconnectDelay_def)

lemma retry_sum_acc: "retry_sum n d t = t + retry_sum n d 0"
  by (induction n arbitrary: d t) (simp, metis (no_types, lifting) add.assoc add.commute retry_sum.simps(2) add_0)

lemma retry_sum_Suc: "retry_sum (Suc n) d 0 = d + retry_sum n (next_delay d) 0"
  using retry_sum_acc [of n "next_delay d" d] by simp

lemma retry_sum_nonneg: "0 \<le> d \<Longrightarrow> 0 \<le> retry_sum n d 0"
  by (induction n arbitrary: d) (simp_all only: retry_sum_Suc retry_sum.simps(1) add_nonneg_nonneg next_delay_mono)

lemma retry_sum_mono: "0 \<le> d \<Longrightarrow> m \<le> n \<Longrightarrow> retry_sum m d 0 \<le> retry_sum n d 0"
proof (induction m arbitrary: d n)
  case 0
  then show ?case using retry_sum_nonneg by simp
next
  case (Suc m)
  then obtain n' where "n = Suc n'" "m \<le> n'" by (cases n) auto
  then show ?case using Suc next_delay_mono [of d] by (simp only: retry_sum_Suc) simp
qed

lemma wait_le: "wait_of lossBudget delay failed silence \<le> delay"
  by (simp add: wait_of_def split: option.split)

text \<open>The rounds that are left bound the waits that are left.\<close>

definition rounds_left :: "nat \<Rightarrow> nat \<Rightarrow> nat \<Rightarrow> nat" where
  "rounds_left maxRetries retries notFound = (maxRetries - retries) + (wsNotFoundRetries - notFound)"

lemma reconnect_waits:
  assumes "reconnect_loop env mx lb k d s r n = (res, waits)" "0 \<le> d" "n \<le> wsNotFoundRetries"
  shows "length waits \<le> rounds_left mx r n \<and> sum_list waits \<le> retry_sum (rounds_left mx r n) d 0"
  using assms
proof (induction env mx lb k d s r n arbitrary: res waits rule: reconnect_loop.induct)
  case (1 env mx lb k d s r n)
  let ?s = "silence_after lb (re_dial env k) (re_failed env k) s"
  let ?wait = "wait_of lb d (re_failed env k) ?s"
  have none: ?case if "waits = []"
    using that retry_sum_nonneg [OF "1.prems"(2)] by simp
  show ?case
  proof (cases "re_top env k = Proceed \<and> \<not> silence_spent lb (re_check env k) s \<and> re_dial env k \<noteq> Connected")
    case False
    then show ?thesis
      using "1.prems"(1) by (intro none) (cases "re_top env k"; auto simp: reconnect_loop.simps [of env mx lb k d s r n] split: if_splits)
  next
    case True
    show ?thesis
    proof (cases "retry_decision mx (re_dial env k) r n")
      case (Inl e)
      then show ?thesis using True "1.prems"(1)
        by (intro none) (simp add: reconnect_loop.simps [of env mx lb k d s r n] Let_def)
    next
      case (Inr p)
      obtain r' n' where p: "p = (r', n')" by (cases p)
      have less: "rounds_left mx r' n' < rounds_left mx r n"
        using retry_decision_measure Inr p "1.prems"(3) unfolding rounds_left_def by blast
      then obtain left where left: "rounds_left mx r n = Suc left" "rounds_left mx r' n' \<le> left"
        by (cases "rounds_left mx r n") auto
      have n': "n' \<le> wsNotFoundRetries"
        using Inr p "1.prems"(3) by (auto simp: retry_decision_def split: handshake.splits if_splits)
      show ?thesis
      proof (cases "re_wait env k = Proceed")
        case False
        then have "waits = [?wait]" using True Inr p "1.prems"(1)
          by (cases "re_wait env k") (auto simp: reconnect_loop.simps [of env mx lb k d s r n] Let_def)
        then show ?thesis
          using wait_le [of lb d "re_failed env k" ?s] retry_sum_nonneg [OF next_delay_mono [OF "1.prems"(2)], of left] left
          by (simp add: retry_sum_Suc del: retry_sum.simps)
      next
        case go: True
        obtain res' more where more: "reconnect_loop env mx lb (k + 1) (next_delay d) ?s r' n' = (res', more)"
          by (cases "reconnect_loop env mx lb (k + 1) (next_delay d) ?s r' n'")
        then have w: "waits = ?wait # more" using True Inr p "1.prems"(1) go
          by (simp add: reconnect_loop.simps [of env mx lb k d s r n] Let_def)
        have "length more \<le> rounds_left mx r' n' \<and> sum_list more \<le> retry_sum (rounds_left mx r' n') (next_delay d) 0"
          using "1.IH" [OF _ _ _ _ refl Inr p [symmetric] refl _ _ more] True go n' next_delay_mono [OF "1.prems"(2)] p by auto
        moreover have "retry_sum (rounds_left mx r' n') (next_delay d) 0 \<le> retry_sum left (next_delay d) 0"
          using left retry_sum_mono next_delay_mono "1.prems"(2) by blast
        ultimately show ?thesis
          using w left wait_le [of lb d "re_failed env k" ?s] by (simp add: retry_sum_Suc del: retry_sum.simps)
      qed
    qed
  qed
qed

text \<open>What the result of the loop stands for.\<close>

definition silent_rounds :: "reconnect_env \<Rightarrow> nat \<Rightarrow> nat \<Rightarrow> bool" where
  "silent_rounds env i k \<longleftrightarrow> i < k \<and> list_all (\<lambda>m. re_dial env m = NoAnswer) [i..<k]"

definition justified :: "reconnect_env \<Rightarrow> nat \<Rightarrow> duration \<Rightarrow> reconnect_result \<Rightarrow> bool" where
  "justified env mx lb res =
     (case res of
        NoContact b \<Rightarrow> b = lb \<and> 0 < lb \<and> (\<exists>i k. silent_rounds env i k \<and> lb \<le> re_check env k - re_failed env i)
      | RetriesExhausted m \<Rightarrow> m = mx
      | Rejected status \<Rightarrow> 400 \<le> status \<and> status < 500
      | _ \<Rightarrow> True)"

definition silence_since :: "reconnect_env \<Rightarrow> duration \<Rightarrow> nat \<Rightarrow> time option \<Rightarrow> bool" where
  "silence_since env lb k s =
     (case s of None \<Rightarrow> True | Some start \<Rightarrow> 0 < lb \<and> (\<exists>i. silent_rounds env i k \<and> start = re_failed env i))"

lemma silence_since_step:
  assumes "silence_since env lb k s" "re_dial env k \<noteq> Connected"
  shows "silence_since env lb (Suc k) (silence_after lb (re_dial env k) (re_failed env k) s)"
proof (cases "re_dial env k = NoAnswer")
  case True
  have "silent_rounds env i (Suc k)" if "silent_rounds env i k" for i
    using that True by (simp add: silent_rounds_def)
  moreover have "silent_rounds env k (Suc k)" using True by (simp add: silent_rounds_def)
  ultimately show ?thesis
    using assms True by (auto simp: silence_since_def silence_after_def split: option.splits)
next
  case False
  then show ?thesis using assms(2) by (cases "re_dial env k") (simp_all add: silence_since_def silence_after_def)
qed

lemma reconnect_result:
  assumes "silence_since env lb k s" "r \<le> mx"
  shows "justified env mx lb (fst (reconnect_loop env mx lb k d s r n))"
  using assms
proof (induction env mx lb k d s r n rule: reconnect_loop.induct)
  case (1 env mx lb k d s r n)
  let ?s = "silence_after lb (re_dial env k) (re_failed env k) s"
  have spent: "justified env mx lb (NoContact lb)" if "silence_spent lb (re_check env k) s"
    using that "1.prems"(1) by (auto simp: silence_spent_def silence_since_def justified_def split: option.splits)
  show ?case
  proof (cases "re_top env k = Proceed \<and> \<not> silence_spent lb (re_check env k) s \<and> re_dial env k \<noteq> Connected")
    case False
    then show ?thesis using spent
      by (cases "re_top env k"; auto simp: reconnect_loop.simps [of env mx lb k d s r n] justified_def)
  next
    case True
    show ?thesis
    proof (cases "retry_decision mx (re_dial env k) r n")
      case (Inl e)
      then have "justified env mx lb e"
        using "1.prems"(2) by (auto simp: retry_decision_def justified_def split: handshake.splits if_splits)
      then show ?thesis using True Inl by (simp add: reconnect_loop.simps [of env mx lb k d s r n] Let_def)
    next
      case (Inr p)
      obtain r' n' where p: "p = (r', n')" by (cases p)
      have r': "r' \<le> mx"
        using Inr p "1.prems"(2) by (auto simp: retry_decision_def split: handshake.splits if_splits)
      show ?thesis
      proof (cases "re_wait env k = Proceed")
        case False
        then show ?thesis using True Inr p
          by (cases "re_wait env k") (auto simp: reconnect_loop.simps [of env mx lb k d s r n] Let_def justified_def)
      next
        case go: True
        have "justified env mx lb (fst (reconnect_loop env mx lb (k + 1) (next_delay d) ?s r' n'))"
          using "1.IH" [OF _ _ _ _ refl Inr p [symmetric] refl] True go r' silence_since_step [OF "1.prems"(1)] by simp
        then show ?thesis using True Inr p go
          by (cases "reconnect_loop env mx lb (k + 1) (next_delay d) ?s r' n'")
            (simp add: reconnect_loop.simps [of env mx lb k d s r n] Let_def)
      qed
    qed
  qed
qed

text \<open>
  C16: reconnecting ends, and its verdict means what it says. The loop waits at most as often as its retries and its two
  extra lookups of an unknown job allow, and no longer in all than the back-off schedule of that many rounds. It reports
  the loss of the server only after a run of unanswered handshakes that lasted the whole budget, exhaustion only
  after exactly its retries, and a rejection only with a client error of the server.
\<close>

theorem reconnect_bounded:
  assumes "ConnectWithReconnect env maxRetries serverLossTimeout = (res, waits)"
  shows "length waits \<le> maxRetries + wsNotFoundRetries
    \<and> sum_list waits \<le> retryBudget (int maxRetries + int wsNotFoundRetries)
    \<and> justified env maxRetries
        (if serverLossTimeout > 0 then serverLossBudget (int maxRetries) serverLossTimeout else serverLossTimeout) res"
proof -
  let ?lb = "if serverLossTimeout > 0 then serverLossBudget (int maxRetries) serverLossTimeout else serverLossTimeout"
  have loop: "reconnect_loop env maxRetries ?lb 0 WSReconnectDelay None 0 0 = (res, waits)"
    using assms by (simp add: ConnectWithReconnect_def Let_def)
  have "justified env maxRetries ?lb res"
    using reconnect_result [of env ?lb 0 None 0 maxRetries WSReconnectDelay 0] loop by (simp add: silence_since_def)
  moreover have "length waits \<le> rounds_left maxRetries 0 0 \<and> sum_list waits \<le> retry_sum (rounds_left maxRetries 0 0) WSReconnectDelay 0"
    using reconnect_waits [OF loop] by (simp add: WSReconnectDelay_def)
  moreover have "nat (int maxRetries + int wsNotFoundRetries) = rounds_left maxRetries 0 0"
    by (simp add: rounds_left_def nat_add_distrib)
  ultimately show ?thesis
    by (simp add: rounds_left_def retryBudget_def wsNotFoundRetries_def)
qed

text \<open>A server that never answers, at one handshake in forty seconds.\<close>

definition ex_silence :: reconnect_env where
  "ex_silence = \<lparr>re_top = (\<lambda>_. Proceed), re_check = (\<lambda>k. 40000000000 * int k), re_dial = (\<lambda>_. NoAnswer),
     re_failed = (\<lambda>k. 40000000000 * int k), re_wait = (\<lambda>_. Proceed)\<rparr>"

theorem reconnect_bounded_witness:
  "length (snd (ConnectWithReconnect ex_silence 14 DefaultServerLossTimeout)) \<le> 16
    \<and> justified ex_silence 14 30000000000 (NoContact 30000000000)"
proof -
  have budget: "serverLossBudget 14 DefaultServerLossTimeout = 30000000000"
    by (simp add: serverLossBudget_def retryBudget_def DefaultServerLossTimeout_def WSReconnectDelay_def next_delay_def
        WSMaxReconnectDelay_def eval_nat_numeral Let_def)
  have "ConnectWithReconnect ex_silence 14 DefaultServerLossTimeout = (NoContact 30000000000, [1000000000])"
    using budget by (simp add: ConnectWithReconnect_def DefaultServerLossTimeout_def Let_def reconnect_loop.simps [of _ 14]
        ex_silence_def silence_spent_def silence_after_def retry_decision_def wait_of_def WSReconnectDelay_def)
  then show ?thesis
    using reconnect_bounded [of ex_silence 14 DefaultServerLossTimeout] budget
    by (simp add: wsNotFoundRetries_def DefaultServerLossTimeout_def)
qed

end
