(* ===== verification/UploadStore.thy ===== *)
theory UploadStore
  imports GoStrings
begin

section \<open>Upload sessions, chunks and file records (pkg/server/db/chunk_upload.go, files.go)\<close>

text \<open>
  The three tables behind the chunked upload, with one definition per statement. The JSON column of the recorded chunks is
  the list it encodes. \<open>ok\<close> tells whether the statement runs, which includes that a random
  identifier is new to the chunk and file records; the errors keep only what callers tell apart.
\<close>

datatype upload_status = UploadInProgress | UploadAssembling | UploadCompleted | UploadExpired | UploadCancelled

record upload_session =
  us_id :: string
  us_filename :: string
  us_file_size :: int
  us_chunk_size :: int
  us_total_chunks :: int
  us_uploaded :: "int list"
  us_file_checksum :: "string option"
  us_file_id :: "string option"
  us_status :: upload_status
  us_created_at :: time
  us_updated_at :: time
  us_expires_at :: "time option"

record upload_chunk =
  uc_id :: string
  uc_upload_id :: string
  uc_chunk_index :: int
  uc_chunk_size :: int
  uc_checksum :: string
  uc_path :: string
  uc_created_at :: time

record file_row =
  fi_id :: string
  fi_filename :: string
  fi_path :: string
  fi_size :: int
  fi_checksum :: "string option"
  fi_created_at :: time

record upload_db =
  sessions :: "upload_session list"
  chunk_rows :: "upload_chunk list"
  file_rows :: "file_row list"

datatype upload_error = SessionNotFound | ChunkNotFound | InvalidFile | ConcurrentModification | NotAssembling | UploadDriverError

type_synonym 'a upload_result = "(upload_error + 'a) \<times> upload_db"

abbreviation find_session :: "string \<Rightarrow> upload_db \<Rightarrow> upload_session option" where
  "find_session i d \<equiv> find_row us_id i (sessions d)"

definition upd_sessions :: "(upload_session \<Rightarrow> bool) \<Rightarrow> (upload_session \<Rightarrow> upload_session) \<Rightarrow> upload_db \<Rightarrow> upload_db" where
  "upd_sessions P f d = d\<lparr>sessions := upd_where P f (sessions d)\<rparr>"

subsection \<open>Sessions\<close>

definition GetUploadSession :: "bool \<Rightarrow> string \<Rightarrow> upload_db \<Rightarrow> upload_error + upload_session" where
  "GetUploadSession ok i d =
     (if \<not> ok then Inl UploadDriverError
      else case find_session i d of None \<Rightarrow> Inl SessionNotFound | Some s \<Rightarrow> Inr s)"

definition new_session :: "string \<Rightarrow> time \<Rightarrow> string \<Rightarrow> int \<Rightarrow> int \<Rightarrow> int \<Rightarrow> string option \<Rightarrow> upload_session" where
  "new_session i now filename fileSize chunkSize totalChunks checksum =
     \<lparr>us_id = i, us_filename = filename, us_file_size = fileSize, us_chunk_size = chunkSize,
      us_total_chunks = totalChunks, us_uploaded = [], us_file_checksum = checksum, us_file_id = None,
      us_status = UploadInProgress, us_created_at = now, us_updated_at = now,
      us_expires_at = Some (now + 24 * 3600000000000)\<rparr>"

definition CreateUploadSession ::
  "bool \<Rightarrow> bool \<Rightarrow> string \<Rightarrow> time \<Rightarrow> string \<Rightarrow> int \<Rightarrow> int \<Rightarrow> int \<Rightarrow> string option \<Rightarrow> upload_db \<Rightarrow> upload_session upload_result" where
  "CreateUploadSession ok ok' i now filename fileSize chunkSize totalChunks checksum d =
     (if \<not> ok \<or> find_session i d \<noteq> None then (Inl UploadDriverError, d)
      else (let d' = d\<lparr>sessions := sessions d @ [new_session i now filename fileSize chunkSize totalChunks checksum]\<rparr>
            in (GetUploadSession ok' i d', d')))"

text \<open>
  One round of the optimistic append: \<open>add_chunk_read\<close> takes the list the session has (\<open>None\<close> where the index is already
  in it), \<open>add_chunk_swap\<close> writes the longer list if the session still has the one that was read.
\<close>

definition add_chunk_read :: "bool \<Rightarrow> string \<Rightarrow> int \<Rightarrow> upload_db \<Rightarrow> upload_error + int list option" where
  "add_chunk_read ok i k d =
     (case GetUploadSession ok i d of
        Inl e \<Rightarrow> Inl e
      | Inr s \<Rightarrow> if k \<in> set (us_uploaded s) then Inr None else Inr (Some (us_uploaded s)))"

definition add_chunk_swap :: "bool \<Rightarrow> time \<Rightarrow> string \<Rightarrow> int \<Rightarrow> int list \<Rightarrow> upload_db \<Rightarrow> bool upload_result" where
  "add_chunk_swap ok now i k old d =
     (let P = (\<lambda>s. us_id s = i \<and> us_uploaded s = old)
      in if \<not> ok then (Inl UploadDriverError, d)
         else (Inr (rows_affected P (sessions d) > 0),
               upd_sessions P (\<lambda>s. s\<lparr>us_uploaded := old @ [k], us_updated_at := now\<rparr>) d))"

definition maxChunkUpdateRetries :: nat where "maxChunkUpdateRetries = 3"

text \<open>\<open>others\<close> is what other writers do to the tables between the read and the write of each round.\<close>

fun add_chunk_rounds ::
  "(nat \<Rightarrow> upload_db \<Rightarrow> upload_db) \<Rightarrow> (nat \<Rightarrow> bool) \<Rightarrow> (nat \<Rightarrow> bool) \<Rightarrow> time \<Rightarrow> string \<Rightarrow> int \<Rightarrow> nat \<Rightarrow> upload_db \<Rightarrow> unit upload_result" where
  "add_chunk_rounds others okr okw now i k 0 d = (Inl ConcurrentModification, d)"
| "add_chunk_rounds others okr okw now i k (Suc n) d =
     (case add_chunk_read (okr n) i k d of
        Inl e \<Rightarrow> (Inl e, d)
      | Inr None \<Rightarrow> (Inr (), d)
      | Inr (Some old) \<Rightarrow>
          (case add_chunk_swap (okw n) now i k old (others n d) of
             (Inl e, d) \<Rightarrow> (Inl e, d)
           | (Inr True, d) \<Rightarrow> (Inr (), d)
           | (Inr False, d) \<Rightarrow> add_chunk_rounds others okr okw now i k n d))"

definition UpdateUploadSessionChunks ::
  "(nat \<Rightarrow> upload_db \<Rightarrow> upload_db) \<Rightarrow> (nat \<Rightarrow> bool) \<Rightarrow> (nat \<Rightarrow> bool) \<Rightarrow> time \<Rightarrow> string \<Rightarrow> int \<Rightarrow> upload_db \<Rightarrow> unit upload_result" where
  "UpdateUploadSessionChunks others okr okw now i k d = add_chunk_rounds others okr okw now i k maxChunkUpdateRetries d"

definition ClaimUploadSessionAssembly :: "bool \<Rightarrow> time \<Rightarrow> string \<Rightarrow> upload_db \<Rightarrow> bool upload_result" where
  "ClaimUploadSessionAssembly ok now i d =
     (let P = (\<lambda>s. us_id s = i \<and> us_status s = UploadInProgress)
      in if \<not> ok then (Inl UploadDriverError, d)
         else (Inr (rows_affected P (sessions d) > 0),
               upd_sessions P (\<lambda>s. s\<lparr>us_status := UploadAssembling, us_updated_at := now\<rparr>) d))"

definition ReopenUploadSession :: "bool \<Rightarrow> time \<Rightarrow> string \<Rightarrow> upload_db \<Rightarrow> unit upload_result" where
  "ReopenUploadSession ok now i d =
     (if \<not> ok then (Inl UploadDriverError, d)
      else (Inr (), upd_sessions (\<lambda>s. us_id s = i \<and> us_status s = UploadAssembling)
                      (\<lambda>s. s\<lparr>us_status := UploadInProgress, us_updated_at := now\<rparr>) d))"

definition CompleteUploadSession :: "bool \<Rightarrow> time \<Rightarrow> string \<Rightarrow> string \<Rightarrow> upload_db \<Rightarrow> unit upload_result" where
  "CompleteUploadSession ok now i fileID d =
     (let P = (\<lambda>s. us_id s = i \<and> us_status s = UploadAssembling)
      in if \<not> ok then (Inl UploadDriverError, d)
         else if rows_affected P (sessions d) = 0 then (Inl NotAssembling, d)
         else (Inr (), upd_sessions P (\<lambda>s. s\<lparr>us_status := UploadCompleted, us_file_id := Some fileID, us_updated_at := now\<rparr>) d))"

definition CancelUploadSession :: "bool \<Rightarrow> time \<Rightarrow> string \<Rightarrow> upload_db \<Rightarrow> unit upload_result" where
  "CancelUploadSession ok now i d =
     (if \<not> ok then (Inl UploadDriverError, d)
      else (Inr (), upd_sessions (\<lambda>s. us_id s = i) (\<lambda>s. s\<lparr>us_status := UploadCancelled, us_updated_at := now\<rparr>) d))"

definition expirable :: "time \<Rightarrow> upload_session \<Rightarrow> bool" where
  "expirable now s \<longleftrightarrow> us_status s \<in> {UploadInProgress, UploadAssembling} \<and>
     (case us_expires_at s of None \<Rightarrow> False | Some t \<Rightarrow> t < now)"

definition ExpireUploadSessions :: "bool \<Rightarrow> time \<Rightarrow> upload_db \<Rightarrow> nat upload_result" where
  "ExpireUploadSessions ok now d =
     (if \<not> ok then (Inl UploadDriverError, d)
      else (Inr (rows_affected (expirable now) (sessions d)), upd_sessions (expirable now) (\<lambda>s. s\<lparr>us_status := UploadExpired\<rparr>) d))"

definition GetExpiredUploadSessionIDs :: "bool \<Rightarrow> upload_db \<Rightarrow> upload_error + string list" where
  "GetExpiredUploadSessionIDs ok d =
     (if \<not> ok then Inl UploadDriverError else Inr (map us_id (filter (\<lambda>s. us_status s = UploadExpired) (sessions d))))"

text \<open>Foreign keys are enforced: the chunk rows of a deleted session go with it.\<close>

definition DeleteUploadSession :: "bool \<Rightarrow> string \<Rightarrow> upload_db \<Rightarrow> unit upload_result" where
  "DeleteUploadSession ok i d =
     (if \<not> ok then (Inl UploadDriverError, d)
      else (Inr (), d\<lparr>sessions := filter (\<lambda>s. us_id s \<noteq> i) (sessions d),
                      chunk_rows := filter (\<lambda>c. uc_upload_id c \<noteq> i \<or> find_session i d = None) (chunk_rows d)\<rparr>))"

subsection \<open>Chunk records\<close>

definition same_chunk :: "string \<Rightarrow> int \<Rightarrow> upload_chunk \<Rightarrow> bool" where
  "same_chunk u k c \<longleftrightarrow> uc_upload_id c = u \<and> uc_chunk_index c = k"

definition GetUploadChunk :: "bool \<Rightarrow> string \<Rightarrow> int \<Rightarrow> upload_db \<Rightarrow> upload_error + upload_chunk" where
  "GetUploadChunk ok u k d =
     (if \<not> ok then Inl UploadDriverError
      else case List.find (same_chunk u k) (chunk_rows d) of None \<Rightarrow> Inl ChunkNotFound | Some c \<Rightarrow> Inr c)"

text \<open>The row must have its session, and a pair that is already recorded is left as it is.\<close>

definition CreateUploadChunk ::
  "bool \<Rightarrow> bool \<Rightarrow> string \<Rightarrow> time \<Rightarrow> string \<Rightarrow> int \<Rightarrow> int \<Rightarrow> string \<Rightarrow> string \<Rightarrow> upload_db \<Rightarrow> upload_chunk upload_result" where
  "CreateUploadChunk ok ok' i now u k sz checksum path d =
     (if \<not> ok \<or> find_session u d = None then (Inl UploadDriverError, d)
      else (let d' = (if list_ex (same_chunk u k) (chunk_rows d) then d
                      else d\<lparr>chunk_rows := chunk_rows d @
                        [\<lparr>uc_id = i, uc_upload_id = u, uc_chunk_index = k, uc_chunk_size = sz, uc_checksum = checksum,
                          uc_path = path, uc_created_at = now\<rparr>]\<rparr>)
            in (GetUploadChunk ok' u k d', d')))"

definition GetUploadChunks :: "bool \<Rightarrow> string \<Rightarrow> upload_db \<Rightarrow> upload_error + upload_chunk list" where
  "GetUploadChunks ok u d =
     (if \<not> ok then Inl UploadDriverError
      else Inr (order_asc uc_chunk_index (filter (\<lambda>c. uc_upload_id c = u) (chunk_rows d))))"

definition DeleteUploadChunks :: "bool \<Rightarrow> string \<Rightarrow> upload_db \<Rightarrow> unit upload_result" where
  "DeleteUploadChunks ok u d =
     (if \<not> ok then (Inl UploadDriverError, d)
      else (Inr (), d\<lparr>chunk_rows := filter (\<lambda>c. uc_upload_id c \<noteq> u) (chunk_rows d)\<rparr>))"

definition db_ChunkExists :: "bool \<Rightarrow> string \<Rightarrow> int \<Rightarrow> upload_db \<Rightarrow> upload_error + bool" where
  "db_ChunkExists ok u k d = (if \<not> ok then Inl UploadDriverError else Inr (length (filter (same_chunk u k) (chunk_rows d)) > 0))"

subsection \<open>File records\<close>

definition GetFile :: "bool \<Rightarrow> string \<Rightarrow> upload_db \<Rightarrow> upload_error + file_row" where
  "GetFile ok i d =
     (if \<not> ok then Inl UploadDriverError
      else case find_row fi_id i (file_rows d) of None \<Rightarrow> Inl InvalidFile | Some f \<Rightarrow> Inr f)"

definition CreateFile ::
  "bool \<Rightarrow> bool \<Rightarrow> string \<Rightarrow> time \<Rightarrow> string \<Rightarrow> string \<Rightarrow> int \<Rightarrow> string option \<Rightarrow> upload_db \<Rightarrow> file_row upload_result" where
  "CreateFile ok ok' i now filename path sz checksum d =
     (if \<not> ok then (Inl UploadDriverError, d)
      else (let d' = d\<lparr>file_rows := file_rows d @
                 [\<lparr>fi_id = i, fi_filename = filename, fi_path = path, fi_size = sz, fi_checksum = checksum, fi_created_at = now\<rparr>]\<rparr>
            in (GetFile ok' i d', d')))"

end
