(* ===== verification/BlobStore.thy ===== *)
theory BlobStore
  imports GoStrings
begin

section \<open>Files on disk (pkg/server/storage)\<close>

text \<open>
  The directories the server writes: the chunk files of each upload session, the content-addressed input files with their
  modification times, the temporary files beside them, and the outputs of jobs. Every operation is atomic, as the locks of
  \<^verbatim>\<open>Storage\<close> make it: \<open>lockUpload\<close> for a session's chunks, \<open>mu\<close> for the shared directory. \<open>digest\<close> is the
  hexadecimal SHA-256 of the standard library. File contents are strings of bytes, and only the server writes below its
  base directory, so what it finds under a chunk's name is a regular file.
\<close>

record blob =
  b_name :: string
  b_content :: string
  b_mtime :: time

record output_file =
  o_job :: string
  o_id :: string
  o_content :: string

record storage =
  base_dir :: string
  chunk_files :: "string \<times> int \<Rightarrow> string option"
  temp_files :: "string \<Rightarrow> (string \<times> time) option"
  blobs :: "blob list"
  outputs :: "output_file list"

abbreviation find_blob :: "string \<Rightarrow> storage \<Rightarrow> blob option" where
  "find_blob i st \<equiv> find_row b_name i (blobs st)"

text \<open>How a write ends: it succeeds, fails before the rename, or fails after it (the directory sync).\<close>

datatype io_fault = IODone | IOFailed bool | IOFailedLate bool  \<comment> \<open>the flag: no space left\<close>

subsection \<open>Names\<close>

definition hex_char :: "char \<Rightarrow> bool" where
  "hex_char c \<longleftrightarrow> (let n = of_char c :: nat in (48 \<le> n \<and> n \<le> 57) \<or> (97 \<le> n \<and> n \<le> 102))"

definition ValidateFileID :: "string \<Rightarrow> bool" where
  "ValidateFileID s \<longleftrightarrow> length s = 64 \<and> list_all hex_char s"

definition ValidateOutputFileID :: "string \<Rightarrow> bool" where
  "ValidateOutputFileID s \<longleftrightarrow> map length (Split (CHR ''-'') s) = [8, 4, 4, 4, 12] \<and> list_all (list_all hex_char) (Split (CHR ''-'') s)"

definition GetFilePath :: "storage \<Rightarrow> string \<Rightarrow> string" where
  "GetFilePath st fileID = base_dir st @ ''/files/'' @ fileID"

definition GetOutputPath :: "storage \<Rightarrow> string \<Rightarrow> string \<Rightarrow> string" where
  "GetOutputPath st jobID fileID = base_dir st @ ''/output/'' @ jobID @ ''/'' @ fileID"

subsection \<open>Chunks (chunk_storage.go)\<close>

definition ChunkPath :: "(int \<Rightarrow> string) \<Rightarrow> storage \<Rightarrow> string \<Rightarrow> int \<Rightarrow> string" where
  "ChunkPath itoa st u k = base_dir st @ ''/chunks/'' @ u @ ''/chunk_'' @ itoa k"

text \<open>\<open>body\<close> is what the reader delivers. The error tells whether the disk was full.\<close>

definition SaveChunk ::
  "(string \<Rightarrow> string) \<Rightarrow> (int \<Rightarrow> string) \<Rightarrow> io_fault \<Rightarrow> string \<Rightarrow> int \<Rightarrow> string \<Rightarrow> storage \<Rightarrow> (bool + string \<times> int \<times> string) \<times> storage" where
  "SaveChunk digest itoa fault u k body st =
     (let st' = st\<lparr>chunk_files := (chunk_files st)((u, k) := Some body)\<rparr>
      in case fault of
           IOFailed full \<Rightarrow> (Inl full, st)
         | IOFailedLate full \<Rightarrow> (Inl full, st')
         | IODone \<Rightarrow> (Inr (ChunkPath itoa st u k, int (length body), digest body), st'))"

definition OpenChunk :: "string \<Rightarrow> int \<Rightarrow> storage \<Rightarrow> string option" where
  "OpenChunk u k st = chunk_files st (u, k)"

definition DeleteChunk :: "bool \<Rightarrow> string \<Rightarrow> int \<Rightarrow> storage \<Rightarrow> storage" where
  "DeleteChunk ok u k st = (if ok then st\<lparr>chunk_files := (chunk_files st)((u, k) := None)\<rparr> else st)"

definition DeleteChunkDirectory :: "bool \<Rightarrow> string \<Rightarrow> storage \<Rightarrow> storage" where
  "DeleteChunkDirectory ok u st =
     (if ok then st\<lparr>chunk_files := (\<lambda>(v, k). if v = u then None else chunk_files st (v, k))\<rparr> else st)"

definition ChunkExists :: "string \<Rightarrow> int \<Rightarrow> int \<Rightarrow> storage \<Rightarrow> bool" where
  "ChunkExists u k expectedSize st \<longleftrightarrow>
     (case chunk_files st (u, k) of None \<Rightarrow> False | Some c \<Rightarrow> int (length c) = expectedSize)"

definition CalculateChunkChecksum :: "(string \<Rightarrow> string) \<Rightarrow> string \<Rightarrow> int \<Rightarrow> storage \<Rightarrow> string option" where
  "CalculateChunkChecksum digest u k st = map_option digest (OpenChunk u k st)"

subsection \<open>Assembly\<close>

datatype assemble_error = ErrChunkMissing | ErrChunkSizeMismatch | ErrAssembledSizeMismatch | AssembleIO bool

text \<open>The checks of every chunk before anything is copied; \<open>stat_ok\<close> are the outcomes of the system calls.\<close>

fun collect_sources ::
  "(int \<Rightarrow> bool) \<Rightarrow> string \<Rightarrow> int \<Rightarrow> int \<Rightarrow> int \<Rightarrow> storage \<Rightarrow> int list \<Rightarrow> assemble_error + (int \<times> int) list" where
  "collect_sources stat_ok u totalChunks chunkSize lastChunkSize st [] = Inr []"
| "collect_sources stat_ok u totalChunks chunkSize lastChunkSize st (i # is) =
     (let expected = (if i = totalChunks - 1 then lastChunkSize else chunkSize)
      in if \<not> stat_ok i then Inl (AssembleIO False)
         else case chunk_files st (u, i) of
                None \<Rightarrow> Inl ErrChunkMissing
              | Some c \<Rightarrow>
                  if int (length c) \<noteq> expected then Inl ErrChunkSizeMismatch
                  else (case collect_sources stat_ok u totalChunks chunkSize lastChunkSize st is of
                          Inl e \<Rightarrow> Inl e
                        | Inr srcs \<Rightarrow> Inr ((i, expected) # srcs)))"

text \<open>The copy, with the count of each chunk checked again; the outcome is the bytes written.\<close>

fun assembleChunksInto :: "string \<Rightarrow> storage \<Rightarrow> (int \<times> int) list \<Rightarrow> string \<Rightarrow> assemble_error + string" where
  "assembleChunksInto u st [] dst = Inr dst"
| "assembleChunksInto u st ((i, n) # srcs) dst =
     (case chunk_files st (u, i) of
        None \<Rightarrow> Inl (AssembleIO False)
      | Some c \<Rightarrow>
          if int (length c) \<noteq> n then Inl ErrChunkSizeMismatch
          else assembleChunksInto u st srcs (dst @ c))"

definition chunk_indices :: "int \<Rightarrow> int list" where
  "chunk_indices n = map int [0..<nat n]"

text \<open>\<open>tmp\<close> is the name \<^verbatim>\<open>CreateTemp\<close> picks, \<open>now\<close> the time of the writes. A failed assembly removes its temporary file.\<close>

definition AssembleChunks ::
  "(string \<Rightarrow> string) \<Rightarrow> (int \<Rightarrow> bool) \<Rightarrow> io_fault \<Rightarrow> time \<Rightarrow> string \<Rightarrow> string \<Rightarrow> int \<Rightarrow> int \<Rightarrow> int \<Rightarrow> storage \<Rightarrow>
   (assemble_error + string \<times> int \<times> string) \<times> storage" where
  "AssembleChunks digest stat_ok fault now tmp u totalChunks chunkSize fileSize st =
     (if totalChunks \<le> 0 \<or> chunkSize \<le> 0 \<or> fileSize \<le> 0 then (Inl ErrAssembledSizeMismatch, st)
      else if totalChunks - 1 > (fileSize - 1) div chunkSize then (Inl ErrAssembledSizeMismatch, st)
      else
        (let lastChunkSize = fileSize - chunkSize * (totalChunks - 1)
         in if lastChunkSize \<le> 0 \<or> lastChunkSize > chunkSize then (Inl ErrAssembledSizeMismatch, st)
            else case collect_sources stat_ok u totalChunks chunkSize lastChunkSize st (chunk_indices totalChunks) of
                   Inl e \<Rightarrow> (Inl e, st)
                 | Inr srcs \<Rightarrow>
                     if sum_list (map snd srcs) \<noteq> fileSize then (Inl ErrAssembledSizeMismatch, st)
                     else (case fault of
                             IOFailed full \<Rightarrow> (Inl (AssembleIO full), st)
                           | IOFailedLate full \<Rightarrow> (Inl (AssembleIO full), st)
                           | IODone \<Rightarrow>
                               (case assembleChunksInto u st srcs [] of
                                  Inl e \<Rightarrow> (Inl e, st)
                                | Inr content \<Rightarrow>
                                    if int (length content) \<noteq> fileSize then (Inl ErrAssembledSizeMismatch, st)
                                    else (Inr (tmp, int (length content), digest content),
                                          st\<lparr>temp_files := (temp_files st)(tmp := Some (content, now))\<rparr>)))))"

definition CleanupExpiredChunks :: "(string \<Rightarrow> bool) \<Rightarrow> string list \<Rightarrow> storage \<Rightarrow> storage" where
  "CleanupExpiredChunks ok uploadIDs st = fold (\<lambda>u. DeleteChunkDirectory (ok u) u) uploadIDs st"

subsection \<open>The content-addressed files (storage.go)\<close>

definition touch :: "bool \<Rightarrow> time \<Rightarrow> string \<Rightarrow> storage \<Rightarrow> storage" where
  "touch ok now i st = (if ok then st\<lparr>blobs := upd_where (\<lambda>b. b_name b = i) (\<lambda>b. b\<lparr>b_mtime := now\<rparr>) (blobs st)\<rparr> else st)"

text \<open>Renaming onto a name in \<^verbatim>\<open>files/\<close>: the file is replaced, and the time of the last write stays.\<close>

definition put_blob :: "string \<Rightarrow> string \<Rightarrow> time \<Rightarrow> storage \<Rightarrow> storage" where
  "put_blob i content mtime st =
     st\<lparr>blobs := filter (\<lambda>b. b_name b \<noteq> i) (blobs st) @ [\<lparr>b_name = i, b_content = content, b_mtime = mtime\<rparr>]\<rparr>"

definition FileExists :: "string \<Rightarrow> storage \<Rightarrow> bool" where
  "FileExists i st \<longleftrightarrow> find_blob i st \<noteq> None"

definition SaveFileByContent ::
  "(string \<Rightarrow> string) \<Rightarrow> io_fault \<Rightarrow> bool \<Rightarrow> time \<Rightarrow> string \<Rightarrow> storage \<Rightarrow> (bool + string \<times> int \<times> string) \<times> storage" where
  "SaveFileByContent digest fault touch_ok now body st =
     (let checksum = digest body; res = (GetFilePath st checksum, int (length body), checksum)
      in case fault of
           IOFailed full \<Rightarrow> (Inl full, st)
         | _ \<Rightarrow>
           if FileExists checksum st then (Inr res, touch touch_ok now checksum st)
           else (case fault of IOFailedLate full \<Rightarrow> (Inl full, st) | _ \<Rightarrow> (Inr res, put_blob checksum body now st)))"

definition OpenFile :: "bool \<Rightarrow> time \<Rightarrow> string \<Rightarrow> storage \<Rightarrow> string option \<times> storage" where
  "OpenFile touch_ok now i st =
     (case find_blob i st of
        None \<Rightarrow> (None, st)
      | Some b \<Rightarrow> (Some (b_content b), touch touch_ok now i st))"

text \<open>The outcome: an error (\<open>None\<close>), or whether the file is there.\<close>

definition TouchFile :: "bool \<Rightarrow> bool \<Rightarrow> time \<Rightarrow> string \<Rightarrow> storage \<Rightarrow> bool option \<times> storage" where
  "TouchFile stat_ok touch_ok now i st =
     (if \<not> ValidateFileID i then (Some False, st)
      else if \<not> stat_ok then (None, st)
      else if \<not> FileExists i st then (Some False, st)
      else if touch_ok then (Some True, touch True now i st)
      else (None, st))"

definition DeleteFile :: "bool \<Rightarrow> string \<Rightarrow> storage \<Rightarrow> storage" where
  "DeleteFile ok i st = (if ok then st\<lparr>blobs := filter (\<lambda>b. b_name b \<noteq> i) (blobs st)\<rparr> else st)"

subsection \<open>The sweep of old inputs\<close>

definition sweep_candidates :: "string set \<Rightarrow> storage \<Rightarrow> string list" where
  "sweep_candidates inUse st = filter (\<lambda>i. ValidateFileID i \<and> i \<notin> inUse) (map b_name (blobs st))"

text \<open>One candidate, looked at again under the write lock.\<close>

definition sweep_one :: "(string \<Rightarrow> bool) \<Rightarrow> time \<Rightarrow> string \<Rightarrow> storage \<Rightarrow> nat \<times> storage" where
  "sweep_one ok cutoff i st =
     (case find_blob i st of
        None \<Rightarrow> (0, st)
      | Some b \<Rightarrow> if b_mtime b \<le> cutoff \<and> ok i then (1, DeleteFile True i st) else (0, st))"

definition CleanupExpiredInputFiles :: "bool \<Rightarrow> (string \<Rightarrow> bool) \<Rightarrow> time \<Rightarrow> string set \<Rightarrow> storage \<Rightarrow> nat option \<times> storage" where
  "CleanupExpiredInputFiles read_ok ok cutoff inUse st =
     (if \<not> read_ok then (None, st)
      else (case fold (\<lambda>i (n, st). case sweep_one ok cutoff i st of (m, st) \<Rightarrow> (n + m, st)) (sweep_candidates inUse st) (0, st) of
              (n, st) \<Rightarrow> (Some n, st)))"

text \<open>The cleaner (input_cleaner.go): \<open>inUse\<close> is \<open>None\<close> when the set of inputs in use could not be read.\<close>

definition CleanupOnce :: "duration \<Rightarrow> string set option \<Rightarrow> bool \<Rightarrow> (string \<Rightarrow> bool) \<Rightarrow> time \<Rightarrow> storage \<Rightarrow> storage" where
  "CleanupOnce ttl inUse read_ok ok now st =
     (if ttl \<le> 0 then st
      else case inUse of
             None \<Rightarrow> st
           | Some ids \<Rightarrow> snd (CleanupExpiredInputFiles read_ok ok (now - ttl) ids st))"

subsection \<open>Outputs\<close>

definition SaveOutput :: "io_fault \<Rightarrow> string \<Rightarrow> string \<Rightarrow> string \<Rightarrow> storage \<Rightarrow> (bool + string \<times> int) \<times> storage" where
  "SaveOutput fault jobID fileID body st =
     (let others = filter (\<lambda>x. \<not> (o_job x = jobID \<and> o_id x = fileID)) (outputs st)
      in case fault of
           IODone \<Rightarrow> (Inr (GetOutputPath st jobID fileID, int (length body)),
             st\<lparr>outputs := others @ [\<lparr>o_job = jobID, o_id = fileID, o_content = body\<rparr>]\<rparr>)
         | IOFailed full \<Rightarrow> (Inl full, st)
         | IOFailedLate full \<Rightarrow> (Inl full, st\<lparr>outputs := others\<rparr>))"

definition remove_output :: "string \<Rightarrow> string \<Rightarrow> storage \<Rightarrow> storage" where
  "remove_output jobID fileID st = st\<lparr>outputs := filter (\<lambda>x. \<not> (o_job x = jobID \<and> o_id x = fileID)) (outputs st)\<rparr>"

text \<open>The walk visits the job directories in some order; output identifiers are fresh, so at most one matches.\<close>

definition OpenOutput :: "string \<Rightarrow> storage \<Rightarrow> string option" where
  "OpenOutput fileID st = map_option o_content (find_row o_id fileID (outputs st))"

end
