(* ===== verification/ChunkUpload.thy ===== *)
theory ChunkUpload
  imports JobHandlers UploadStore BlobStore
begin

section \<open>The chunked upload (pkg/server/handlers/chunk_upload.go)\<close>

text \<open>
  The handlers over the upload tables and the storage. Chunk uploads and completions run as machines whose phases are the
  single calls on the tables and on the disk, so that they can interleave; the whole handler is the machine run to its
  reply. The bearer check in front is that of \<^verbatim>\<open>Access\<close>.
\<close>

definition MaxChunkSize :: int where "MaxChunkSize = 64 * 1024 * 1024"
definition MaxTotalChunks :: int where "MaxTotalChunks = 1048576"
definition DefaultChunkSize :: int where "DefaultChunkSize = 10 * 1024 * 1024"

record upload_server =
  up_db :: upload_db
  up_st :: storage

text \<open>
  What the surroundings decide for one call: whether a statement runs, the clock, fresh names, how the disk behaves.
  \<open>ue_cancelled\<close> tells that the client left the queue for an upload slot.
\<close>

record upload_env =
  ue_ok :: bool
  ue_read_ok :: bool
  ue_now :: time
  ue_uid :: string
  ue_tmp :: string
  ue_fault :: io_fault
  ue_stat_ok :: "int \<Rightarrow> bool"
  ue_cancelled :: bool

text \<open>\<open>digest\<close> is SHA-256 in hexadecimal, \<open>itoa\<close> the decimal form of an index, both of the standard library.\<close>

record upload_lib =
  lib_digest :: "string \<Rightarrow> string"
  lib_itoa :: "int \<Rightarrow> string"

subsection \<open>File types (uploads.go)\<close>

definition allowedFileTypes :: "string list" where
  "allowedFileTypes =
    [''.mp4'', ''.mkv'', ''.avi'', ''.mov'', ''.wmv'', ''.flv'', ''.webm'', ''.m4v'', ''.mpeg'', ''.mpg'',
     ''.mp3'', ''.wav'', ''.flac'', ''.aac'', ''.ogg'', ''.m4a'', ''.wma'',
     ''.jpg'', ''.jpeg'', ''.png'', ''.gif'', ''.bmp'', ''.webp'', ''.tiff'', ''.tif'',
     ''.srt'', ''.ass'', ''.vtt'', ''.ts'', ''.m2ts'', ''.mts'']"

text \<open>The extension from the last dot on, nothing where there is no dot.\<close>

definition file_extension :: "string \<Rightarrow> string" where
  "file_extension filename =
     (if CHR ''.'' \<in> set filename then CHR ''.'' # rev (takeWhile (\<lambda>c. c \<noteq> CHR ''.'') (rev filename)) else [])"

definition validateFileType :: "string \<Rightarrow> bool" where
  "validateFileType filename \<longleftrightarrow>
     (let ext = file_extension filename in ext \<noteq> [] \<and> ToLower ext \<in> set allowedFileTypes)"

subsection \<open>Opening a session\<close>

record init_request =
  ir_filename :: string
  ir_file_size :: int
  ir_chunk_size :: int
  ir_total_chunks :: int
  ir_checksum :: string

definition total_chunks_of :: "int \<Rightarrow> int \<Rightarrow> int" where
  "total_chunks_of fileSize chunkSize = fileSize div chunkSize + (if fileSize mod chunkSize > 0 then 1 else 0)"

text \<open>\<open>serverChunkSize\<close> is the handler's default, positive by \<^verbatim>\<open>NewChunkUploadHandler\<close>.\<close>

definition handler_chunk_size :: "int \<Rightarrow> int" where
  "handler_chunk_size chunkSize = (if chunkSize \<le> 0 then DefaultChunkSize else chunkSize)"

definition InitChunkUpload ::
  "upload_env \<Rightarrow> int \<Rightarrow> init_request option \<Rightarrow> upload_server \<Rightarrow> (string \<times> int \<times> int) reply \<times> upload_server" where
  "InitChunkUpload env serverChunkSize body s =
     (case body of
        None \<Rightarrow> (Failure 400 ErrCodeInvalidRequest, s)
      | Some req \<Rightarrow>
          if ir_filename req = [] \<or> ir_file_size req \<le> 0 then (Failure 400 ErrCodeInvalidRequest, s)
          else if \<not> validateFileType (ir_filename req) then (Failure 400 ErrCodeInvalidRequest, s)
          else if ir_chunk_size req > MaxChunkSize then (Failure 400 ErrCodeInvalidRequest, s)
          else
            (let chunkSize = (if ir_chunk_size req > 0 then ir_chunk_size req else serverChunkSize);
                 chunkSize = (if chunkSize \<le> 0 then DefaultChunkSize else chunkSize);
                 totalChunks = total_chunks_of (ir_file_size req) chunkSize
             in if totalChunks > MaxTotalChunks then (Failure 400 ErrCodeInvalidRequest, s)
                else if ir_total_chunks req > 0 \<and> ir_total_chunks req \<noteq> totalChunks then (Failure 400 ErrCodeInvalidRequest, s)
                else (case CreateUploadSession (ue_ok env) (ue_read_ok env) (ue_uid env) (ue_now env) (ir_filename req)
                             (ir_file_size req) chunkSize totalChunks
                             (if ir_checksum req = [] then None else Some (ir_checksum req)) (up_db s) of
                        (Inl e, d) \<Rightarrow> (Failure 500 ErrCodeInternalError, s\<lparr>up_db := d\<rparr>)
                      | (Inr session, d) \<Rightarrow>
                          (Success (us_id session, us_chunk_size session, us_total_chunks session), s\<lparr>up_db := d\<rparr>))))"

subsection \<open>Sizes, error classes\<close>

definition expectedChunkSize :: "upload_session \<Rightarrow> int \<Rightarrow> int option" where
  "expectedChunkSize session chunkIndex =
     (if us_chunk_size session \<le> 0 \<or> us_total_chunks session \<le> 0 \<or> us_file_size session \<le> 0 then None
      else if chunkIndex = us_total_chunks session - 1
           then (let n = us_file_size session - us_chunk_size session * (us_total_chunks session - 1)
                 in if n \<le> 0 then None else Some n)
           else Some (us_chunk_size session))"

definition chunkSaveErrorStatus :: "bool \<Rightarrow> 'a reply" where
  "chunkSaveErrorStatus full = (if full then Failure 507 ErrCodeInsufficientStorage else Failure 500 ErrCodeUploadFailed)"

definition isChunkSetError :: "assemble_error \<Rightarrow> bool" where
  "isChunkSetError e \<longleftrightarrow> e = ErrChunkMissing \<or> e = ErrChunkSizeMismatch \<or> e = ErrAssembledSizeMismatch"

definition assembleErrorStatus :: "assemble_error \<Rightarrow> 'a reply" where
  "assembleErrorStatus e =
     (if e = AssembleIO True then Failure 507 ErrCodeInsufficientStorage else Failure 500 ErrCodeUploadFailed)"

definition EqualFold :: "string \<Rightarrow> string \<Rightarrow> bool" where
  "EqualFold a b \<longleftrightarrow> ToLower a = ToLower b"

definition declaredChecksumMismatch :: "string option \<Rightarrow> string \<Rightarrow> string \<Rightarrow> bool" where
  "declaredChecksumMismatch initChecksum completeChecksum actualChecksum \<longleftrightarrow>
     (case initChecksum of None \<Rightarrow> False | Some c \<Rightarrow> c \<noteq> [] \<and> \<not> EqualFold c actualChecksum) \<or>
     (completeChecksum \<noteq> [] \<and> \<not> EqualFold completeChecksum actualChecksum)"

subsection \<open>UploadChunk\<close>

text \<open>
  The request: the session, the index (\<open>None\<close> where it is no number), and the form with its chunk and declared checksum
  (\<open>None\<close> where the form cannot be parsed within the size limit, or has no chunk).
\<close>

record chunk_request =
  kr_upload :: string
  kr_index :: "int option"
  kr_form :: "(string \<times> string) option"

text \<open>The bound on the body of the form: the session's chunk size, within the server's maximum, and some room for the headers.\<close>

definition form_limit :: "int \<Rightarrow> int" where
  "form_limit chunkSize = (if chunkSize \<le> 0 \<or> chunkSize > MaxChunkSize then MaxChunkSize else chunkSize) + 1024"

text \<open>
  The phases between two calls. The reply \<open>Success True\<close> is that of a chunk already stored; \<open>KDone None\<close> is a client that
  left. \<open>KTrackRead\<close> and \<open>KTrackSwap\<close> are a round of the optimistic append with the rounds left; their first argument tells
  that the chunk was already stored, so a failure only warns.
\<close>

datatype chunk_phase =
    KLookup
  | KExists upload_session int int
  | KSave int int
  | KDrop int "bool reply"
  | KRecord int string int string
  | KTrackRead bool int nat
  | KTrackSwap bool int nat "int list"
  | KDone "bool reply option"

definition track_failed :: "bool \<Rightarrow> chunk_phase" where
  "track_failed already = KDone (Some (if already then Success True else Failure 500 ErrCodeInternalError))"

fun chunk_step :: "upload_lib \<Rightarrow> upload_env \<Rightarrow> chunk_request \<Rightarrow> chunk_phase \<Rightarrow> upload_server \<Rightarrow> chunk_phase \<times> upload_server" where
  "chunk_step lib env req KLookup s =
     (case kr_index req of
        None \<Rightarrow> (KDone (Some (Failure 400 ErrCodeInvalidRequest)), s)
      | Some k \<Rightarrow>
          (case GetUploadSession (ue_ok env) (kr_upload req) (up_db s) of
             Inl e \<Rightarrow> (KDone (Some (Failure 404 ErrCodeNotFound)), s)
           | Inr session \<Rightarrow>
               if us_status session \<noteq> UploadInProgress then (KDone (Some (Failure 400 ErrCodeInvalidRequest)), s)
               else if k < 0 \<or> k \<ge> us_total_chunks session then (KDone (Some (Failure 400 ErrCodeInvalidRequest)), s)
               else (case expectedChunkSize session k of
                       None \<Rightarrow> (KDone (Some (Failure 400 ErrCodeInvalidRequest)), s)
                     | Some n \<Rightarrow> (KExists session k n, s))))"
| "chunk_step lib env req (KExists session k n) s =
     (if ChunkExists (kr_upload req) k n (up_st s) then (KTrackRead True k maxChunkUpdateRetries, s)
      else if ue_cancelled env then (KDone None, s)
      else if kr_form req = None then (KDone (Some (Failure 400 ErrCodeInvalidRequest)), s)
      else (KSave k n, s))"
| "chunk_step lib env req (KSave k n) s =
     (case kr_form req of
        None \<Rightarrow> (KDone (Some (Failure 400 ErrCodeInvalidRequest)), s)
      | Some (body, expectedChecksum) \<Rightarrow>
          (case SaveChunk (lib_digest lib) (lib_itoa lib) (ue_fault env) (kr_upload req) k body (up_st s) of
             (Inl full, st) \<Rightarrow> (KDone (Some (chunkSaveErrorStatus full)), s\<lparr>up_st := st\<rparr>)
           | (Inr (path, sz, actualChecksum), st) \<Rightarrow>
               (if sz \<noteq> n then KDrop k (Failure 400 ErrCodeInvalidRequest)
                else if expectedChecksum \<noteq> [] \<and> \<not> EqualFold expectedChecksum actualChecksum
                then KDrop k (Failure 400 ErrCodeInvalidRequest)
                else KRecord k path sz actualChecksum, s\<lparr>up_st := st\<rparr>)))"
| "chunk_step lib env req (KDrop k reply) s =
     (KDone (Some reply), s\<lparr>up_st := DeleteChunk (ue_ok env) (kr_upload req) k (up_st s)\<rparr>)"
| "chunk_step lib env req (KRecord k path sz checksum) s =
     (case CreateUploadChunk (ue_ok env) (ue_read_ok env) (ue_uid env) (ue_now env) (kr_upload req) k sz checksum path (up_db s) of
        (Inl e, d) \<Rightarrow> (KDrop k (Failure 500 ErrCodeInternalError), s\<lparr>up_db := d\<rparr>)
      | (Inr c, d) \<Rightarrow> (KTrackRead False k maxChunkUpdateRetries, s\<lparr>up_db := d\<rparr>))"
| "chunk_step lib env req (KTrackRead already k rounds) s =
     (case rounds of
        0 \<Rightarrow> (track_failed already, s)
      | Suc n \<Rightarrow>
          (case add_chunk_read (ue_ok env) (kr_upload req) k (up_db s) of
             Inl e \<Rightarrow> (track_failed already, s)
           | Inr None \<Rightarrow> (KDone (Some (Success already)), s)
           | Inr (Some old) \<Rightarrow> (KTrackSwap already k n old, s)))"
| "chunk_step lib env req (KTrackSwap already k rounds old) s =
     (case add_chunk_swap (ue_ok env) (ue_now env) (kr_upload req) k old (up_db s) of
        (Inl e, d) \<Rightarrow> (track_failed already, s\<lparr>up_db := d\<rparr>)
      | (Inr won, d) \<Rightarrow> (if won then KDone (Some (Success already)) else KTrackRead already k rounds, s\<lparr>up_db := d\<rparr>))"
| "chunk_step lib env req (KDone reply) s = (KDone reply, s)"

text \<open>How many calls are left at most.\<close>

fun chunk_rank :: "chunk_phase \<Rightarrow> nat" where
  "chunk_rank KLookup = 2 * maxChunkUpdateRetries + 6"
| "chunk_rank (KExists ss k n) = 2 * maxChunkUpdateRetries + 5"
| "chunk_rank (KSave k n) = 2 * maxChunkUpdateRetries + 4"
| "chunk_rank (KRecord k p n c) = 2 * maxChunkUpdateRetries + 3"
| "chunk_rank (KTrackRead b k n) = 2 * n + 2"
| "chunk_rank (KTrackSwap b k n old) = 2 * n + 3"
| "chunk_rank (KDrop k r) = 1"
| "chunk_rank (KDone r) = 0"

lemma chunk_step_rank: "chunk_rank p \<noteq> 0 \<Longrightarrow> chunk_rank (fst (chunk_step lib env req p s)) < chunk_rank p"
  by (induction lib env req p s rule: chunk_step.induct)
    (auto simp: track_failed_def split: option.splits sum.splits prod.splits nat.splits)

fun chunk_reply :: "chunk_phase \<Rightarrow> bool reply option" where
  "chunk_reply (KDone r) = r"
| "chunk_reply p = None"

text \<open>The handler alone: the machine run to its reply, with the surroundings of the n-th call.\<close>

function UploadChunk_run ::
  "upload_lib \<Rightarrow> (nat \<Rightarrow> upload_env) \<Rightarrow> chunk_request \<Rightarrow> chunk_phase \<Rightarrow> upload_server \<Rightarrow> bool reply option \<times> upload_server" where
  "UploadChunk_run lib env req p s =
     (if chunk_rank p = 0 then (chunk_reply p, s)
      else UploadChunk_run lib env req (fst (chunk_step lib (env (chunk_rank p)) req p s))
             (snd (chunk_step lib (env (chunk_rank p)) req p s)))"
  by pat_completeness auto
termination
  by (relation "measure (\<lambda>(lib, env, req, p, s). chunk_rank p)") (simp_all add: chunk_step_rank split_def)

declare UploadChunk_run.simps [simp del]

definition UploadChunk ::
  "upload_lib \<Rightarrow> (nat \<Rightarrow> upload_env) \<Rightarrow> chunk_request \<Rightarrow> upload_server \<Rightarrow> bool reply option \<times> upload_server" where
  "UploadChunk lib env req s = UploadChunk_run lib env req KLookup s"

subsection \<open>Progress and resumption\<close>

definition uploaded_size :: "upload_session \<Rightarrow> int" where
  "uploaded_size session =
     (let done = us_uploaded session; n = int (length done)
      in if n = us_total_chunks session then us_file_size session
         else if n > 0 \<and> us_total_chunks session - 1 \<in> set done
         then (if us_file_size session mod us_chunk_size session = 0 then us_file_size session
               else (n - 1) * us_chunk_size session + us_file_size session mod us_chunk_size session)
         else n * us_chunk_size session)"

definition GetUploadProgress :: "upload_env \<Rightarrow> string \<Rightarrow> upload_server \<Rightarrow> (upload_session \<times> int list \<times> int) reply" where
  "GetUploadProgress env u s =
     (case GetUploadSession (ue_ok env) u (up_db s) of
        Inl e \<Rightarrow> Failure 404 ErrCodeNotFound
      | Inr session \<Rightarrow> Success (session, us_uploaded session, uploaded_size session))"

definition ResumeChunkUpload :: "upload_env \<Rightarrow> string \<Rightarrow> upload_server \<Rightarrow> (upload_session \<times> int list \<times> int list) reply" where
  "ResumeChunkUpload env u s =
     (case GetUploadSession (ue_ok env) u (up_db s) of
        Inl e \<Rightarrow> Failure 404 ErrCodeNotFound
      | Inr session \<Rightarrow> Success (session, us_uploaded session,
          filter (\<lambda>i. i \<notin> set (us_uploaded session)) (chunk_indices (us_total_chunks session))))"

subsection \<open>CompleteChunkUpload\<close>

record complete_request =
  cr_upload :: string
  cr_checksum :: string

text \<open>
  The phases of a completion. \<open>CUndo\<close> reopens the session and gives the reply of the failure; \<open>CStat\<close> and \<open>CRename\<close> carry
  the temporary file with the size and checksum measured on it; \<open>CRecord\<close> tells whether this request published the file.
\<close>

datatype complete_phase =
    CLookup
  | CReclaim upload_session
  | CClaim upload_session
  | CRecheck
  | CAssemble upload_session
  | CStat upload_session string int string
  | CRename upload_session string int string
  | CRecord upload_session int string bool
  | CRemove string
  | CFinish string
  | CUndo "string reply"
  | CDone "string reply"

definition drop_temp :: "string \<Rightarrow> upload_server \<Rightarrow> upload_server" where
  "drop_temp tmp s = s\<lparr>up_st := (up_st s)\<lparr>temp_files := (temp_files (up_st s))(tmp := None)\<rparr>\<rparr>"

fun complete_step :: "upload_lib \<Rightarrow> upload_env \<Rightarrow> complete_request \<Rightarrow> complete_phase \<Rightarrow> upload_server \<Rightarrow> complete_phase \<times> upload_server" where
  "complete_step lib env req CLookup s =
     (case GetUploadSession (ue_ok env) (cr_upload req) (up_db s) of
        Inl e \<Rightarrow> (CDone (Failure 404 ErrCodeNotFound), s)
      | Inr session \<Rightarrow>
          (case us_status session of
             UploadCompleted \<Rightarrow>
               (case us_file_id session of
                  Some f \<Rightarrow> if f \<noteq> [] then (CDone (Success f), s) else (CDone (Failure 400 ErrCodeInvalidRequest), s)
                | None \<Rightarrow> (CDone (Failure 400 ErrCodeInvalidRequest), s))
           | UploadAssembling \<Rightarrow> (CReclaim session, s)
           | UploadInProgress \<Rightarrow> (CClaim session, s)
           | _ \<Rightarrow> (CDone (Failure 400 ErrCodeInvalidRequest), s)))"
| "complete_step lib env req (CReclaim session) s =
     (case ReopenUploadSession (ue_ok env) (ue_now env) (cr_upload req) (up_db s) of
        (Inl e, d) \<Rightarrow> (CDone (Failure 500 ErrCodeInternalError), s\<lparr>up_db := d\<rparr>)
      | (Inr u, d) \<Rightarrow> (CClaim session, s\<lparr>up_db := d\<rparr>))"
| "complete_step lib env req (CClaim session) s =
     (case ClaimUploadSessionAssembly (ue_ok env) (ue_now env) (cr_upload req) (up_db s) of
        (Inl e, d) \<Rightarrow> (CDone (Failure 500 ErrCodeInternalError), s\<lparr>up_db := d\<rparr>)
      | (Inr claimed, d) \<Rightarrow> (if claimed then CAssemble session else CRecheck, s\<lparr>up_db := d\<rparr>))"
| "complete_step lib env req CRecheck s =
     (case GetUploadSession (ue_ok env) (cr_upload req) (up_db s) of
        Inl e \<Rightarrow> (CDone (Failure 400 ErrCodeInvalidRequest), s)
      | Inr current \<Rightarrow>
          (case us_file_id current of
             Some f \<Rightarrow> if us_status current = UploadCompleted then (CDone (Success f), s)
                        else (CDone (Failure 400 ErrCodeInvalidRequest), s)
           | None \<Rightarrow> (CDone (Failure 400 ErrCodeInvalidRequest), s)))"
| "complete_step lib env req (CAssemble session) s =
     (case AssembleChunks (lib_digest lib) (ue_stat_ok env) (ue_fault env) (ue_now env) (ue_tmp env) (cr_upload req)
             (us_total_chunks session) (us_chunk_size session) (us_file_size session) (up_st s) of
        (Inl e, st) \<Rightarrow>
          (CUndo (if isChunkSetError e then Failure 400 ErrCodeInvalidRequest else assembleErrorStatus e), s\<lparr>up_st := st\<rparr>)
      | (Inr (tmp, totalSize, actualChecksum), st) \<Rightarrow>
          if declaredChecksumMismatch (us_file_checksum session) (cr_checksum req) actualChecksum
          then (CUndo (Failure 400 ErrCodeInvalidRequest), drop_temp tmp (s\<lparr>up_st := st\<rparr>))
          else (CStat session tmp totalSize actualChecksum, s\<lparr>up_st := st\<rparr>))"
| "complete_step lib env req (CStat session tmp totalSize fileID) s =
     (if \<not> ue_ok env then (CUndo (Failure 500 ErrCodeInternalError), drop_temp tmp s)
      else if FileExists fileID (up_st s) then (CRecord session totalSize fileID False, drop_temp tmp s)
      else (CRename session tmp totalSize fileID, s))"
| "complete_step lib env req (CRename session tmp totalSize fileID) s =
     (case temp_files (up_st s) tmp of
        Some (content, mtime) \<Rightarrow>
          if ue_ok env
          then (CRecord session totalSize fileID True, drop_temp tmp (s\<lparr>up_st := put_blob fileID content mtime (up_st s)\<rparr>))
          else (CUndo (Failure 500 ErrCodeInternalError), drop_temp tmp s)
      | None \<Rightarrow> (CUndo (Failure 500 ErrCodeInternalError), s))"
| "complete_step lib env req (CRecord session totalSize fileID published) s =
     (case CreateFile (ue_ok env) (ue_read_ok env) (ue_uid env) (ue_now env) (us_filename session)
             (GetFilePath (up_st s) fileID) totalSize (Some fileID) (up_db s) of
        (Inl e, d) \<Rightarrow> (if published then CRemove fileID else CUndo (Failure 500 ErrCodeInternalError), s\<lparr>up_db := d\<rparr>)
      | (Inr f, d) \<Rightarrow> (CFinish fileID, s\<lparr>up_db := d\<rparr>))"
| "complete_step lib env req (CRemove fileID) s =
     (CUndo (Failure 500 ErrCodeInternalError), s\<lparr>up_st := DeleteFile (ue_ok env) fileID (up_st s)\<rparr>)"
| "complete_step lib env req (CFinish fileID) s =
     (case CompleteUploadSession (ue_ok env) (ue_now env) (cr_upload req) fileID (up_db s) of
        (Inl e, d) \<Rightarrow> (CUndo (Failure 500 ErrCodeInternalError), s\<lparr>up_db := d\<rparr>)
      | (Inr u, d) \<Rightarrow> (CDone (Success fileID), s\<lparr>up_db := d\<rparr>))"
| "complete_step lib env req (CUndo reply) s =
     (CDone reply, s\<lparr>up_db := snd (ReopenUploadSession (ue_ok env) (ue_now env) (cr_upload req) (up_db s))\<rparr>)"
| "complete_step lib env req (CDone reply) s = (CDone reply, s)"

fun complete_rank :: "complete_phase \<Rightarrow> nat" where
  "complete_rank CLookup = 10"
| "complete_rank (CReclaim ss) = 9"
| "complete_rank (CClaim ss) = 8"
| "complete_rank CRecheck = 7"
| "complete_rank (CAssemble ss) = 7"
| "complete_rank (CStat ss tmp n c) = 6"
| "complete_rank (CRename ss tmp n c) = 5"
| "complete_rank (CRecord ss n f p) = 4"
| "complete_rank (CRemove f) = 3"
| "complete_rank (CFinish f) = 2"
| "complete_rank (CUndo r) = 1"
| "complete_rank (CDone r) = 0"

lemma complete_step_rank: "complete_rank p \<noteq> 0 \<Longrightarrow> complete_rank (fst (complete_step lib env req p s)) < complete_rank p"
  by (induction lib env req p s rule: complete_step.induct)
    (auto split: option.splits sum.splits prod.splits upload_status.splits)

fun complete_reply :: "complete_phase \<Rightarrow> string reply option" where
  "complete_reply (CDone r) = Some r"
| "complete_reply p = None"

function CompleteChunkUpload_run ::
  "upload_lib \<Rightarrow> (nat \<Rightarrow> upload_env) \<Rightarrow> complete_request \<Rightarrow> complete_phase \<Rightarrow> upload_server \<Rightarrow> string reply option \<times> upload_server" where
  "CompleteChunkUpload_run lib env req p s =
     (if complete_rank p = 0 then (complete_reply p, s)
      else CompleteChunkUpload_run lib env req (fst (complete_step lib (env (complete_rank p)) req p s))
             (snd (complete_step lib (env (complete_rank p)) req p s)))"
  by pat_completeness auto
termination
  by (relation "measure (\<lambda>(lib, env, req, p, s). complete_rank p)") (simp_all add: complete_step_rank split_def)

declare CompleteChunkUpload_run.simps [simp del]

text \<open>The handler holds the session's completion lock from its lookup to its reply; a body that does not decode is \<open>None\<close>.\<close>

definition CompleteChunkUpload ::
  "upload_lib \<Rightarrow> (nat \<Rightarrow> upload_env) \<Rightarrow> complete_request option \<Rightarrow> upload_server \<Rightarrow> string reply option \<times> upload_server" where
  "CompleteChunkUpload lib env body s =
     (case body of
        None \<Rightarrow> (Some (Failure 400 ErrCodeInvalidRequest), s)
      | Some req \<Rightarrow> CompleteChunkUpload_run lib env req CLookup s)"

text \<open>The clean-up after a completed or cancelled session, in a goroutine of its own.\<close>

definition chunk_cleanup :: "bool \<Rightarrow> bool \<Rightarrow> string \<Rightarrow> upload_server \<Rightarrow> upload_server" where
  "chunk_cleanup disk_ok db_ok u s =
     s\<lparr>up_st := DeleteChunkDirectory disk_ok u (up_st s), up_db := snd (DeleteUploadChunks db_ok u (up_db s))\<rparr>"

subsection \<open>Cancelling and expiring\<close>

text \<open>The check of a cancellation (\<open>Inr\<close>: go on), and its write, which does not look at the status again.\<close>

definition cancel_check :: "upload_env \<Rightarrow> string \<Rightarrow> upload_server \<Rightarrow> unit reply + unit" where
  "cancel_check env u s =
     (case GetUploadSession (ue_ok env) u (up_db s) of
        Inl e \<Rightarrow> Inl (Failure 404 ErrCodeNotFound)
      | Inr session \<Rightarrow> if us_status session \<noteq> UploadInProgress then Inl (Failure 400 ErrCodeInvalidRequest) else Inr ())"

definition cancel_write :: "upload_env \<Rightarrow> string \<Rightarrow> upload_server \<Rightarrow> unit reply \<times> upload_server" where
  "cancel_write env u s =
     (case CancelUploadSession (ue_ok env) (ue_now env) u (up_db s) of
        (Inl e, d) \<Rightarrow> (Failure 500 ErrCodeInternalError, s\<lparr>up_db := d\<rparr>)
      | (Inr r, d) \<Rightarrow> (Success (), s\<lparr>up_db := d\<rparr>))"

definition CancelChunkUpload :: "upload_env \<Rightarrow> upload_env \<Rightarrow> string \<Rightarrow> upload_server \<Rightarrow> unit reply \<times> upload_server" where
  "CancelChunkUpload env env' u s =
     (case cancel_check env u s of Inl r \<Rightarrow> (r, s) | Inr () \<Rightarrow> cancel_write env' u s)"

text \<open>
  One round of the hourly clean-up. \<open>disk_ok\<close> and \<open>row_ok\<close> are the outcomes per session; a session whose files stay
  keeps its row, and is tried again by the next round.
\<close>

definition expire_one :: "(string \<Rightarrow> bool) \<Rightarrow> (string \<Rightarrow> bool) \<Rightarrow> string \<Rightarrow> upload_server \<Rightarrow> upload_server" where
  "expire_one disk_ok row_ok u s =
     (if \<not> disk_ok u then s
      else s\<lparr>up_st := DeleteChunkDirectory True u (up_st s), up_db := snd (DeleteUploadSession (row_ok u) u (up_db s))\<rparr>)"

definition cleanupExpiredSessionsOnce ::
  "bool \<Rightarrow> bool \<Rightarrow> time \<Rightarrow> (string \<Rightarrow> bool) \<Rightarrow> (string \<Rightarrow> bool) \<Rightarrow> upload_server \<Rightarrow> upload_server" where
  "cleanupExpiredSessionsOnce ok list_ok now disk_ok row_ok s =
     (case ExpireUploadSessions ok now (up_db s) of
        (Inl e, d) \<Rightarrow> s\<lparr>up_db := d\<rparr>
      | (Inr n, d) \<Rightarrow>
          (case GetExpiredUploadSessionIDs list_ok d of
             Inl e \<Rightarrow> s\<lparr>up_db := d\<rparr>
           | Inr ids \<Rightarrow> fold (expire_one disk_ok row_ok) ids (s\<lparr>up_db := d\<rparr>)))"

end
