(* ===== verification/UploadClient.thy ===== *)
theory UploadClient
  imports ChunkUpload
begin

section \<open>Uploading from the command line (pkg/cli/client/upload.go)\<close>

text \<open>
  The chunked upload of the client, run against the handlers of the server. A request is answered, is lost on its way, or
  its answer is lost; a lost request gives an error with its text, and tells whether it was a timeout. Error texts of the
  server are those of its replies, given by \<open>msg\<close>.
\<close>

definition client_DefaultChunkSize :: int where "client_DefaultChunkSize = 10 * 1024 * 1024"
definition LargeFileThreshold :: int where "LargeFileThreshold = 100 * 1024 * 1024"
definition MaxChunkRetries :: nat where "MaxChunkRetries = 3"
definition InitialRetryDelay :: duration where "InitialRetryDelay = 1000000000"
definition MaxRetryDelay :: duration where "MaxRetryDelay = 30 * 1000000000"
definition UploadTimeout :: duration where "UploadTimeout = 600 * 1000000000"

subsection \<open>Sizes and times\<close>

definition crlf :: string where "crlf = [CHR 0x0D, CHR 0x0A]"

definition escapeMultipartQuotes :: "string \<Rightarrow> string" where
  "escapeMultipartQuotes s =
     concat (map (\<lambda>c. if c = CHR 0x22 then [CHR 0x5C, CHR 0x22] else [c])
       (concat (map (\<lambda>c. if c = CHR 0x5C then [CHR 0x5C, CHR 0x5C] else [c]) s)))"

definition quoted :: "string \<Rightarrow> string" where "quoted s = [CHR 0x22] @ s @ [CHR 0x22]"

definition calculateMultipartSize :: "string \<Rightarrow> int \<Rightarrow> string \<Rightarrow> int" where
  "calculateMultipartSize boundary fileSize filename =
     int (length (''--'' @ boundary @ crlf) +
          length (''Content-Disposition: form-data; name='' @ quoted ''file'' @ ''; filename='' @ quoted (escapeMultipartQuotes filename) @ crlf) +
          length (''Content-Type: application/octet-stream'' @ crlf) + length crlf) + fileSize +
     int (length (crlf @ ''--'' @ boundary @ ''--'' @ crlf))"

definition calculateChunkMultipartSize :: "string \<Rightarrow> int \<Rightarrow> string \<Rightarrow> int" where
  "calculateChunkMultipartSize boundary chunkSize checksum =
     int (length (''--'' @ boundary @ crlf) +
          length (''Content-Disposition: form-data; name='' @ quoted ''chunk'' @ ''; filename='' @ quoted ''chunk'' @ crlf) +
          length (''Content-Type: application/octet-stream'' @ crlf) + length crlf) + chunkSize +
     int (length (crlf @ ''--'' @ boundary @ crlf @ ''Content-Disposition: form-data; name='' @ quoted ''checksum'' @ crlf @ crlf) +
          length checksum + length (crlf @ ''--'' @ boundary @ ''--'' @ crlf))"

definition calculateChunkTimeout :: "int \<Rightarrow> duration" where
  "calculateChunkTimeout chunkSize =
     (let timeout = 30 * 1000000000 + (chunkSize div (3 * 1024 * 1024)) * 1000000000
      in if timeout > UploadTimeout then UploadTimeout else timeout)"

text \<open>The pause before a retry; the first attempt has none.\<close>

definition retry_delay :: "nat \<Rightarrow> duration" where
  "retry_delay attempt =
     (if attempt = 0 then 0 else (let delay = InitialRetryDelay * 2 ^ (attempt - 1) in if delay > MaxRetryDelay then MaxRetryDelay else delay))"

definition isRetryableError :: "bool \<Rightarrow> string \<Rightarrow> bool" where
  "isRetryableError net_timeout txt \<longleftrightarrow> net_timeout \<or>
     list_ex (Contains txt) [''timeout'', ''connection reset'', ''temporary'', ''unavailable'', ''5xx'', ''502'', ''503'', ''504'']"

subsection \<open>One chunk\<close>

datatype transport = Answered | RequestLost bool string | AnswerLost bool string

text \<open>The bytes the client reads for chunk \<open>i\<close>: seek, then read up to the chunk size or the end.\<close>

definition file_slice :: "string \<Rightarrow> int \<Rightarrow> int \<Rightarrow> string" where
  "file_slice data cs i =
     (let offset = i * cs;
          current = (if offset + cs > int (length data) then int (length data) - offset else cs)
      in take (nat current) (drop (nat offset) data))"

definition chunk_form :: "upload_lib \<Rightarrow> string \<Rightarrow> int \<Rightarrow> string \<Rightarrow> (string \<times> string) option" where
  "chunk_form lib boundary cs chunkData =
     (if calculateChunkMultipartSize boundary (int (length chunkData)) (lib_digest lib chunkData) \<le> form_limit cs
      then Some (chunkData, lib_digest lib chunkData) else None)"

definition uploadSingleChunk ::
  "upload_lib \<Rightarrow> (int \<Rightarrow> error_code \<Rightarrow> string) \<Rightarrow> string \<Rightarrow> transport \<Rightarrow> (nat \<Rightarrow> upload_env) \<Rightarrow> string \<Rightarrow> string \<Rightarrow> int \<Rightarrow> int \<Rightarrow>
   upload_server \<Rightarrow> (bool \<times> string) option \<times> upload_server" where
  "uploadSingleChunk lib msg boundary net env data u cs i s =
     (case net of
        RequestLost t txt \<Rightarrow> (Some (t, ''chunk request failed: '' @ txt), s)
      | _ \<Rightarrow>
        (case UploadChunk lib env \<lparr>kr_upload = u, kr_index = Some i, kr_form = chunk_form lib boundary cs (file_slice data cs i)\<rparr> s of
           (r, s) \<Rightarrow>
             (case net of
                AnswerLost t txt \<Rightarrow> (Some (t, ''chunk request failed: '' @ txt), s)
              | _ \<Rightarrow>
                (case r of
                   None \<Rightarrow> (Some (False, ''chunk request failed: ''), s)
                 | Some (Failure st c) \<Rightarrow> (Some (False, ''chunk upload failed: '' @ msg st c), s)
                 | Some (Success already) \<Rightarrow> (None, s)))))"

text \<open>\<open>net a\<close> and \<open>env a\<close> are those of attempt \<open>a\<close>; \<open>left\<close> attempts remain.\<close>

fun chunk_attempts ::
  "upload_lib \<Rightarrow> (int \<Rightarrow> error_code \<Rightarrow> string) \<Rightarrow> string \<Rightarrow> (nat \<Rightarrow> transport) \<Rightarrow> (nat \<Rightarrow> nat \<Rightarrow> upload_env) \<Rightarrow> string \<Rightarrow> string \<Rightarrow> int \<Rightarrow> int \<Rightarrow>
   nat \<Rightarrow> bool \<times> string \<Rightarrow> upload_server \<Rightarrow> (bool \<times> string) option \<times> upload_server" where
  "chunk_attempts lib msg boundary net env data u cs i 0 lastErr s = (Some lastErr, s)"
| "chunk_attempts lib msg boundary net env data u cs i (Suc left) lastErr s =
     (let a = MaxChunkRetries - Suc left in
      case uploadSingleChunk lib msg boundary (net a) (env a) data u cs i s of
        (None, s) \<Rightarrow> (None, s)
      | (Some err, s) \<Rightarrow>
          if isRetryableError (fst err) (snd err) then chunk_attempts lib msg boundary net env data u cs i left err s
          else (Some err, s))"

definition uploadChunkWithRetry ::
  "upload_lib \<Rightarrow> (int \<Rightarrow> error_code \<Rightarrow> string) \<Rightarrow> string \<Rightarrow> (nat \<Rightarrow> transport) \<Rightarrow> (nat \<Rightarrow> nat \<Rightarrow> upload_env) \<Rightarrow> string \<Rightarrow> string \<Rightarrow> int \<Rightarrow> int \<Rightarrow>
   upload_server \<Rightarrow> (bool \<times> string) option \<times> upload_server" where
  "uploadChunkWithRetry lib msg boundary net env data u cs i s =
     chunk_attempts lib msg boundary net env data u cs i MaxChunkRetries (False, []) s"

fun upload_chunks ::
  "upload_lib \<Rightarrow> (int \<Rightarrow> error_code \<Rightarrow> string) \<Rightarrow> string \<Rightarrow> (int \<Rightarrow> nat \<Rightarrow> transport) \<Rightarrow> (int \<Rightarrow> nat \<Rightarrow> nat \<Rightarrow> upload_env) \<Rightarrow> string \<Rightarrow> string \<Rightarrow> int \<Rightarrow>
   int list \<Rightarrow> upload_server \<Rightarrow> string option \<times> upload_server" where
  "upload_chunks lib msg boundary net env data u cs [] s = (None, s)"
| "upload_chunks lib msg boundary net env data u cs (i # is) s =
     (case uploadChunkWithRetry lib msg boundary (net i) (env i) data u cs i s of
        (Some err, s) \<Rightarrow> (Some (''chunk '' @ lib_itoa lib i @ '' upload failed after retries: '' @ snd err), s)
      | (None, s) \<Rightarrow> upload_chunks lib msg boundary net env data u cs is s)"

subsection \<open>The whole file\<close>

text \<open>
  The surroundings of one upload: how each request travels, and what the server meets in each call. \<open>cw_limit\<close> is the
  server's default chunk size.
\<close>

record client_world =
  cw_msg :: "int \<Rightarrow> error_code \<Rightarrow> string"
  cw_boundary :: string
  cw_server_size :: int
  cw_init_net :: transport
  cw_init_env :: upload_env
  cw_chunk_net :: "int \<Rightarrow> nat \<Rightarrow> transport"
  cw_chunk_env :: "int \<Rightarrow> nat \<Rightarrow> nat \<Rightarrow> upload_env"
  cw_complete_net :: transport
  cw_complete_env :: "nat \<Rightarrow> upload_env"

definition UploadFileChunked ::
  "upload_lib \<Rightarrow> client_world \<Rightarrow> string \<Rightarrow> string \<Rightarrow> int \<Rightarrow> upload_server \<Rightarrow> (string + string) \<times> upload_server" where
  "UploadFileChunked lib w name data chunkSize s =
     (let chunkSize = (if chunkSize \<le> 0 then client_DefaultChunkSize else chunkSize);
          fileChecksum = lib_digest lib data
      in case cw_init_net w of
           RequestLost t txt \<Rightarrow> (Inl (''init request failed: '' @ txt), s)
         | _ \<Rightarrow>
           (case InitChunkUpload (cw_init_env w) (cw_server_size w)
                   (Some \<lparr>ir_filename = name, ir_file_size = int (length data), ir_chunk_size = chunkSize, ir_total_chunks = 0,
                          ir_checksum = fileChecksum\<rparr>) s of
              (r, s) \<Rightarrow>
                (case cw_init_net w of
                   AnswerLost t txt \<Rightarrow> (Inl (''init request failed: '' @ txt), s)
                 | _ \<Rightarrow>
                   (case r of
                      Failure st c \<Rightarrow> (Inl (''init failed: '' @ cw_msg w st c), s)
                    | Success (uploadID, actualChunkSize, totalChunks) \<Rightarrow>
                        (case upload_chunks lib (cw_msg w) (cw_boundary w) (cw_chunk_net w) (cw_chunk_env w) data uploadID
                                actualChunkSize (chunk_indices totalChunks) s of
                           (Some err, s) \<Rightarrow> (Inl err, s)
                         | (None, s) \<Rightarrow>
                             (case cw_complete_net w of
                                RequestLost t txt \<Rightarrow> (Inl (''complete request failed: '' @ txt), s)
                              | _ \<Rightarrow>
                                (case CompleteChunkUpload lib (cw_complete_env w)
                                        (Some \<lparr>cr_upload = uploadID, cr_checksum = fileChecksum\<rparr>) s of
                                   (r, s) \<Rightarrow>
                                     (case cw_complete_net w of
                                        AnswerLost t txt \<Rightarrow> (Inl (''complete request failed: '' @ txt), s)
                                      | _ \<Rightarrow>
                                        (case r of
                                           Some (Success f) \<Rightarrow> (Inr f, s)
                                         | Some (Failure st c) \<Rightarrow> (Inl (''complete failed: '' @ cw_msg w st c), s)
                                         | None \<Rightarrow> (Inl (''complete request failed: ''), s))))))))))"

end
