(* ===== verification/UploadGuarantees.thy ===== *)
theory UploadGuarantees
  imports ChunkUpload
begin

section \<open>What the upload guarantees\<close>

text \<open>
  Assembly against its declarative meaning, the interleaving of every upload operation, and the integrity of what it stores.
\<close>

subsection \<open>Assembly\<close>

text \<open>The size of chunk \<open>i\<close> of a file: all of one size, the last with the remainder.\<close>

definition chunk_len :: "int \<Rightarrow> int \<Rightarrow> int \<Rightarrow> int \<Rightarrow> int" where
  "chunk_len n cs fs i = (if i = n - 1 then fs - cs * (n - 1) else cs)"

text \<open>\<open>n\<close> chunks of size \<open>cs\<close> cover a file of size \<open>fs\<close>, the last one not empty.\<close>

definition chunking :: "int \<Rightarrow> int \<Rightarrow> int \<Rightarrow> bool" where
  "chunking n cs fs \<longleftrightarrow> n > 0 \<and> cs > 0 \<and> fs > 0 \<and> cs * (n - 1) < fs \<and> fs \<le> cs * n"

lemma total_chunks_chunking:
  assumes "0 < fs" "0 < cs"
  shows "chunking (total_chunks_of fs cs) cs fs"
proof -
  define q r where "q = fs div cs" and "r = fs mod cs"
  have f: "fs = cs * q + r" "0 \<le> r" "r < cs" "0 \<le> q"
    using assms by (simp_all add: q_def r_def pos_imp_zdiv_nonneg_iff)
  show ?thesis
  proof (cases "r = 0")
    case True
    then have "q \<noteq> 0" using f assms by auto
    then show ?thesis using f assms True
      by (simp add: chunking_def total_chunks_of_def right_diff_distrib flip: q_def r_def)
  next
    case False
    then show ?thesis using f assms
      by (simp add: chunking_def total_chunks_of_def distrib_left flip: q_def r_def)
  qed
qed

text \<open>The test of the code, written with a division because the product may not fit into 64 bits.\<close>

lemma chunking_test:
  assumes "n > 0" "cs > 0" "fs > 0"
  shows "(\<not> n - 1 > (fs - 1) div cs \<and> \<not> (fs - cs * (n - 1) \<le> 0 \<or> fs - cs * (n - 1) > cs)) \<longleftrightarrow> chunking n cs fs"
proof -
  have "n - 1 \<le> (fs - 1) div cs \<longleftrightarrow> (n - 1) * cs \<le> fs - 1"
  proof
    assume "n - 1 \<le> (fs - 1) div cs"
    then have "(n - 1) * cs \<le> (fs - 1) div cs * cs" using assms(2) by (intro mult_right_mono) simp_all
    also have "\<dots> \<le> fs - 1" using assms(2) div_mult_mod_eq [of "fs - 1" cs] pos_mod_sign [of cs "fs - 1"] by linarith
    finally show "(n - 1) * cs \<le> fs - 1" .
  next
    assume "(n - 1) * cs \<le> fs - 1"
    from zdiv_mono1 [OF this assms(2)] assms(2) show "n - 1 \<le> (fs - 1) div cs" by simp
  qed
  then show ?thesis using assms by (auto simp: chunking_def right_diff_distrib mult.commute)
qed

text \<open>So the product in \<^verbatim>\<open>AssembleChunks\<close> is below the file size, and a 64-bit size keeps it from wrapping.\<close>

lemma chunking_no_overflow: "chunking n cs fs \<Longrightarrow> fs < 2 ^ 63 \<Longrightarrow> 0 \<le> cs * (n - 1) \<and> cs * (n - 1) < 2 ^ 63"
  by (auto simp: chunking_def)

lemma sum_chunk_len:
  assumes "chunking n cs fs"
  shows "sum_list (map (chunk_len n cs fs) (chunk_indices n)) = fs"
proof -
  have n: "n = int (nat (n - 1)) + 1" and "nat n = Suc (nat (n - 1))" using assms by (auto simp: chunking_def Suc_nat_eq_nat_zadd1)
  then have idx: "chunk_indices n = map int [0..<nat (n - 1)] @ [n - 1]" by (simp add: chunk_indices_def)
  have "map (chunk_len n cs fs) (map int [0..<nat (n - 1)]) = map (\<lambda>_. cs) [0..<nat (n - 1)]"
    using n by (auto simp: chunk_len_def)
  then have "sum_list (map (chunk_len n cs fs) (chunk_indices n)) = int (nat (n - 1)) * cs + (fs - cs * (n - 1))"
    by (simp only: idx map_append sum_list.append) (simp add: chunk_len_def sum_list_triv)
  also have "\<dots> = fs" using n by (simp add: mult.commute)
  finally show ?thesis .
qed

text \<open>The stored chunks, all there and each of its size.\<close>

definition chunk_at :: "storage \<Rightarrow> string \<Rightarrow> int \<Rightarrow> string" where
  "chunk_at st u i = (case chunk_files st (u, i) of None \<Rightarrow> [] | Some c \<Rightarrow> c)"

definition chunk_complete :: "storage \<Rightarrow> string \<Rightarrow> int \<Rightarrow> int \<Rightarrow> int \<Rightarrow> bool" where
  "chunk_complete st u n cs fs \<longleftrightarrow> list_all (\<lambda>i. ChunkExists u i (chunk_len n cs fs i) st) (chunk_indices n)"

lemma ChunkExists_iff: "ChunkExists u i m st \<longleftrightarrow> (\<exists>c. chunk_files st (u, i) = Some c \<and> int (length c) = m)"
  by (auto simp: ChunkExists_def split: option.splits)

lemma collect_sources_spec:
  assumes "\<And>i. stat_ok i"
  shows "list_all (\<lambda>i. ChunkExists u i (chunk_len n cs fs i) st) is \<Longrightarrow>
      collect_sources stat_ok u n cs (fs - cs * (n - 1)) st is = Inr (map (\<lambda>i. (i, chunk_len n cs fs i)) is)"
    and "\<not> list_all (\<lambda>i. ChunkExists u i (chunk_len n cs fs i) st) is \<Longrightarrow>
      collect_sources stat_ok u n cs (fs - cs * (n - 1)) st is \<in> {Inl ErrChunkMissing, Inl ErrChunkSizeMismatch}"
  using assms
  by (induction "is") (auto simp: Let_def ChunkExists_iff simp flip: chunk_len_def split: option.splits sum.splits)

lemma assembleChunksInto_spec:
  "list_all (\<lambda>i. ChunkExists u i (chunk_len n cs fs i) st) is \<Longrightarrow>
   assembleChunksInto u st (map (\<lambda>i. (i, chunk_len n cs fs i)) is) dst = Inr (dst @ concat (map (chunk_at st u) is))"
  by (induction "is" arbitrary: dst) (auto simp: ChunkExists_iff chunk_at_def)

lemma length_chunks:
  "list_all (\<lambda>i. ChunkExists u i (l i) st) is \<Longrightarrow> int (length (concat (map (chunk_at st u) is))) = sum_list (map l is)"
  by (induction "is") (auto simp: ChunkExists_iff chunk_at_def)

lemma collect_sources_Inr:
  "collect_sources stat_ok u n cs (fs - cs * (n - 1)) st is = Inr srcs \<Longrightarrow>
   list_all (\<lambda>i. ChunkExists u i (chunk_len n cs fs i) st) is \<and> srcs = map (\<lambda>i. (i, chunk_len n cs fs i)) is"
  by (induction "is" arbitrary: srcs)
    (auto simp: Let_def ChunkExists_iff simp flip: chunk_len_def split: if_splits option.splits sum.splits)

definition file_of :: "storage \<Rightarrow> string \<Rightarrow> int \<Rightarrow> string" where
  "file_of st u n = concat (map (chunk_at st u) (chunk_indices n))"

lemma assembleChunksInto_file:
  assumes "chunking n cs fs" "chunk_complete st u n cs fs"
  shows "assembleChunksInto u st (map (\<lambda>i. (i, chunk_len n cs fs i)) (chunk_indices n)) [] = Inr (file_of st u n)"
    "int (length (file_of st u n)) = fs"
    "sum_list (map snd (map (\<lambda>i. (i, chunk_len n cs fs i)) (chunk_indices n))) = fs"
proof -
  have all: "list_all (\<lambda>i. ChunkExists u i (chunk_len n cs fs i) st) (chunk_indices n)"
    using assms(2) by (simp add: chunk_complete_def)
  show "assembleChunksInto u st (map (\<lambda>i. (i, chunk_len n cs fs i)) (chunk_indices n)) [] = Inr (file_of st u n)"
    using assembleChunksInto_spec [OF all, of "[]"] by (simp add: file_of_def)
  show "int (length (file_of st u n)) = fs"
    using length_chunks [OF all] sum_chunk_len [OF assms(1)] by (simp add: file_of_def)
  show "sum_list (map snd (map (\<lambda>i. (i, chunk_len n cs fs i)) (chunk_indices n))) = fs"
    using sum_chunk_len [OF assms(1)] by (simp add: comp_def)
qed

text \<open>The assembly with its arithmetic read declaratively.\<close>

lemma AssembleChunks_eq:
  "AssembleChunks digest stat_ok fault now tmp u n cs fs st =
    (if \<not> chunking n cs fs then (Inl ErrAssembledSizeMismatch, st)
     else case collect_sources stat_ok u n cs (fs - cs * (n - 1)) st (chunk_indices n) of
            Inl e \<Rightarrow> (Inl e, st)
          | Inr srcs \<Rightarrow>
              (case fault of
                 IOFailed full \<Rightarrow> (Inl (AssembleIO full), st)
               | IOFailedLate full \<Rightarrow> (Inl (AssembleIO full), st)
               | IODone \<Rightarrow> (Inr (tmp, fs, digest (file_of st u n)),
                            st\<lparr>temp_files := (temp_files st)(tmp := Some (file_of st u n, now))\<rparr>)))"
proof (cases "n \<le> 0 \<or> cs \<le> 0 \<or> fs \<le> 0")
  case True
  then show ?thesis by (auto simp: AssembleChunks_def chunking_def)
next
  case False
  then have pos: "0 < n" "0 < cs" "0 < fs" by auto
  show ?thesis
  proof (cases "chunking n cs fs")
    case False
    with chunking_test [OF pos] have "(fs - 1) div cs < n - 1 \<or> fs - cs * (n - 1) \<le> 0 \<or> fs - cs * (n - 1) > cs" by auto
    then show ?thesis using False by (auto simp: AssembleChunks_def Let_def)
  next
    case True
    note ch = True
    with chunking_test [OF pos] have ok: "\<not> n - 1 > (fs - 1) div cs" "\<not> (fs - cs * (n - 1) \<le> 0 \<or> fs - cs * (n - 1) > cs)"
      by auto
    show ?thesis
    proof (cases "collect_sources stat_ok u n cs (fs - cs * (n - 1)) st (chunk_indices n)")
      case (Inl e)
      then show ?thesis using pos ok ch by (simp add: AssembleChunks_def Let_def)
    next
      case (Inr srcs)
      with collect_sources_Inr have "chunk_complete st u n cs fs" "srcs = map (\<lambda>i. (i, chunk_len n cs fs i)) (chunk_indices n)"
        by (auto simp: chunk_complete_def)
      with assembleChunksInto_file [OF ch this(1)] have "assembleChunksInto u st srcs [] = Inr (file_of st u n)"
          "int (length (file_of st u n)) = fs" "sum_list (map snd srcs) = fs"
        by (simp_all only:)
      then show ?thesis using pos ok ch Inr by (simp add: AssembleChunks_def Let_def split: io_fault.split)
    qed
  qed
qed

lemma AssembleChunks_Inr:
  assumes "AssembleChunks digest stat_ok fault now tmp u n cs fs st = (Inr (tmp', k, c), st')"
  shows "chunk_complete st u n cs fs \<and> chunking n cs fs \<and> tmp' = tmp \<and> k = fs \<and> int (length (file_of st u n)) = fs
    \<and> c = digest (file_of st u n) \<and> st' = st\<lparr>temp_files := (temp_files st)(tmp := Some (file_of st u n, now))\<rparr>"
proof -
  obtain srcs where "chunking n cs fs" "collect_sources stat_ok u n cs (fs - cs * (n - 1)) st (chunk_indices n) = Inr srcs"
    using assms by (auto simp: AssembleChunks_eq split: if_splits sum.splits)
  moreover from this collect_sources_Inr have "chunk_complete st u n cs fs" by (auto simp: chunk_complete_def)
  ultimately show ?thesis
    using assms assembleChunksInto_file(2) by (auto simp: AssembleChunks_eq split: io_fault.splits)
qed

text \<open>
  C21: assembly is exact. On a working disk it succeeds exactly when the declared numbers are a chunking of the file and every
  chunk is stored with its size, and then its result is the concatenation of the chunks in order, of exactly the declared size,
  with their checksum, in a file of its own. Otherwise it reports a set of chunks the client can repair, and nothing changes.
\<close>

theorem assembly_exact:
  assumes "\<And>i. stat_ok i"
  shows "case AssembleChunks digest stat_ok IODone now tmp u n cs fs st of (r, st') \<Rightarrow>
    if chunking n cs fs \<and> chunk_complete st u n cs fs
    then r = Inr (tmp, fs, digest (file_of st u n)) \<and> int (length (file_of st u n)) = fs \<and>
      st' = st\<lparr>temp_files := (temp_files st)(tmp := Some (file_of st u n, now))\<rparr>
    else (\<exists>e. r = Inl e \<and> isChunkSetError e) \<and> st' = st"
proof (cases "chunking n cs fs \<and> chunk_complete st u n cs fs")
  case True
  then show ?thesis
    using collect_sources_spec(1) [of stat_ok u n cs fs st "chunk_indices n"] assms assembleChunksInto_file(2) [of n cs fs st u]
    by (simp add: AssembleChunks_eq chunk_complete_def)
next
  case False
  then show ?thesis
    using collect_sources_spec(2) [of stat_ok u n cs fs st "chunk_indices n"] assms
    by (auto simp: AssembleChunks_eq chunk_complete_def isChunkSetError_def)
qed

definition ex_lib :: upload_lib where
  "ex_lib = \<lparr>lib_digest = (\<lambda>s. ''sum:'' @ s), lib_itoa = (\<lambda>i. [])\<rparr>"

definition ex_chunks :: storage where
  "ex_chunks = \<lparr>base_dir = ''/d'', chunk_files = (\<lambda>_. None)((''u'', 0) := Some ''abc'', (''u'', 1) := Some ''de''),
     temp_files = (\<lambda>_. None), blobs = [], outputs = []\<rparr>"

theorem assembly_exact_witness:
  "fst (AssembleChunks (lib_digest ex_lib) (\<lambda>_. True) IODone 9 ''t'' ''u'' 2 3 5 ex_chunks) = Inr (''t'', 5, ''sum:abcde'')"
proof -
  have idx: "chunk_indices 2 = [0, 1]" by (simp add: chunk_indices_def upt_rec)
  have "chunking 2 3 5 \<and> chunk_complete ex_chunks ''u'' 2 3 5"
    by (simp add: chunking_def chunk_complete_def idx ChunkExists_iff chunk_len_def ex_chunks_def)
  moreover have "file_of ex_chunks ''u'' 2 = ''abcde''" by (simp add: file_of_def idx chunk_at_def ex_chunks_def)
  ultimately show ?thesis
    using assembly_exact [where stat_ok = "\<lambda>_. True" and digest = "lib_digest ex_lib" and now = 9 and tmp = "''t''"
        and u = "''u''" and n = 2 and cs = 3 and fs = 5 and st = ex_chunks]
    by (simp add: split_def ex_lib_def)
qed

subsection \<open>Steps of the upload endpoints\<close>

text \<open>
  The server with the requests in flight, each a machine between two calls, and the cancellations that have passed their check.
  \<open>sy_used\<close> are the session identifiers drawn so far: they are random UUIDs, so a new one is not among them.
\<close>

record upload_system =
  sy_server :: upload_server
  sy_chunks :: "nat \<Rightarrow> (chunk_request \<times> chunk_phase) option"
  sy_completes :: "nat \<Rightarrow> (complete_request \<times> complete_phase) option"
  sy_cancels :: "string set"
  sy_used :: "string set"

abbreviation sy_db :: "upload_system \<Rightarrow> upload_db" where "sy_db y \<equiv> up_db (sy_server y)"
abbreviation sy_st :: "upload_system \<Rightarrow> storage" where "sy_st y \<equiv> up_st (sy_server y)"

text \<open>
  Requests begin and advance one call at a time, in any order; a completion begins only when no other of its session runs, as
  the session lock has it. Temporary names are new. The clean-ups, each deletion of the hourly expiry and of the sweep of old
  files, and the plain upload run between any two calls.
\<close>

inductive upload_step :: "upload_lib \<Rightarrow> upload_system \<Rightarrow> upload_system \<Rightarrow> bool" for lib where
  op_init: "ue_uid env \<notin> sy_used y \<Longrightarrow> InitChunkUpload env n body (sy_server y) = (r, srv) \<Longrightarrow>
    upload_step lib y (y\<lparr>sy_server := srv, sy_used := insert (ue_uid env) (sy_used y)\<rparr>)"
| op_chunk_begin: "sy_chunks y i = None \<Longrightarrow> upload_step lib y (y\<lparr>sy_chunks := (sy_chunks y)(i := Some (req, KLookup))\<rparr>)"
| op_chunk: "sy_chunks y i = Some (req, p) \<Longrightarrow> chunk_step lib env req p (sy_server y) = (p', srv) \<Longrightarrow>
    upload_step lib y (y\<lparr>sy_server := srv, sy_chunks := (sy_chunks y)(i := Some (req, p'))\<rparr>)"
| op_complete_begin: "sy_completes y i = None \<Longrightarrow>
    (\<And>j r p. sy_completes y j = Some (r, p) \<Longrightarrow> cr_upload r = cr_upload req \<Longrightarrow> complete_rank p = 0) \<Longrightarrow>
    upload_step lib y (y\<lparr>sy_completes := (sy_completes y)(i := Some (req, CLookup))\<rparr>)"
| op_complete: "sy_completes y i = Some (req, p) \<Longrightarrow> temp_files (sy_st y) (ue_tmp env) = None \<Longrightarrow>
    complete_step lib env req p (sy_server y) = (p', srv) \<Longrightarrow>
    upload_step lib y (y\<lparr>sy_server := srv, sy_completes := (sy_completes y)(i := Some (req, p'))\<rparr>)"
| op_cancel_check: "cancel_check env u (sy_server y) = Inr () \<Longrightarrow>
    upload_step lib y (y\<lparr>sy_cancels := insert u (sy_cancels y)\<rparr>)"
| op_cancel: "u \<in> sy_cancels y \<Longrightarrow> cancel_write env u (sy_server y) = (r, srv) \<Longrightarrow>
    upload_step lib y (y\<lparr>sy_server := srv, sy_cancels := sy_cancels y - {u}\<rparr>)"
| op_cleanup: "upload_step lib y (y\<lparr>sy_server := chunk_cleanup disk_ok db_ok u (sy_server y)\<rparr>)"
| op_expire_mark: "ExpireUploadSessions ok now (sy_db y) = (r, d) \<Longrightarrow>
    upload_step lib y (y\<lparr>sy_server := (sy_server y)\<lparr>up_db := d\<rparr>\<rparr>)"
| op_expire_one: "(\<And>s. find_session u (sy_db y) = Some s \<Longrightarrow> us_status s \<in> {UploadExpired, UploadCancelled}) \<Longrightarrow>
    upload_step lib y (y\<lparr>sy_server := expire_one disk_ok row_ok u (sy_server y)\<rparr>)"
| op_upload: "SaveFileByContent (lib_digest lib) fault touch_ok now body (sy_st y) = (r, st) \<Longrightarrow>
    upload_step lib y (y\<lparr>sy_server := (sy_server y)\<lparr>up_st := st\<rparr>\<rparr>)"
| op_sweep: "sweep_one rm_ok cutoff i (sy_st y) = (m, st) \<Longrightarrow>
    upload_step lib y (y\<lparr>sy_server := (sy_server y)\<lparr>up_st := st\<rparr>\<rparr>)"
| op_touch: "upload_step lib y (y\<lparr>sy_server := (sy_server y)\<lparr>up_st := touch True now i (sy_st y)\<rparr>\<rparr>)"

definition upload_init :: "upload_system \<Rightarrow> bool" where
  "upload_init y \<longleftrightarrow> sessions (sy_db y) = [] \<and> chunk_rows (sy_db y) = [] \<and> file_rows (sy_db y) = [] \<and> blobs (sy_st y) = [] \<and>
     temp_files (sy_st y) = (\<lambda>_. None) \<and> sy_chunks y = (\<lambda>_. None) \<and> sy_completes y = (\<lambda>_. None) \<and> sy_cancels y = {}"

subsection \<open>The invariant\<close>

text \<open>What an upload never changes of its session.\<close>

definition same_upload :: "upload_session \<Rightarrow> upload_session \<Rightarrow> bool" where
  "same_upload a b \<longleftrightarrow> us_id a = us_id b \<and> us_filename a = us_filename b \<and> us_file_size a = us_file_size b \<and>
     us_chunk_size a = us_chunk_size b \<and> us_total_chunks a = us_total_chunks b \<and> us_file_checksum a = us_file_checksum b"

text \<open>\<open>f\<close> is the checksum of some content of the declared size, and agrees with the checksum declared at the start.\<close>

definition good_file :: "upload_lib \<Rightarrow> upload_session \<Rightarrow> string \<Rightarrow> bool" where
  "good_file lib s f \<longleftrightarrow> (\<exists>content. lib_digest lib content = f \<and> int (length content) = us_file_size s) \<and>
     (case us_file_checksum s of None \<Rightarrow> True | Some c \<Rightarrow> c = [] \<or> EqualFold c f)"

definition session_ok :: "upload_lib \<Rightarrow> upload_session \<Rightarrow> bool" where
  "session_ok lib s \<longleftrightarrow> chunking (us_total_chunks s) (us_chunk_size s) (us_file_size s) \<and>
     us_total_chunks s \<le> MaxTotalChunks \<and> distinct (us_uploaded s) \<and> set (us_uploaded s) \<subseteq> {0..<us_total_chunks s} \<and>
     (case us_file_id s of
        None \<Rightarrow> us_status s \<noteq> UploadCompleted
      | Some f \<Rightarrow> us_status s \<in> {UploadCompleted, UploadCancelled} \<and> good_file lib s f)"

definition db_sound :: "upload_lib \<Rightarrow> upload_db \<Rightarrow> bool" where
  "db_sound lib d \<longleftrightarrow> distinct (map us_id (sessions d)) \<and> (\<forall>s \<in> set (sessions d). session_ok lib s)"

definition store_sound :: "upload_lib \<Rightarrow> storage \<Rightarrow> bool" where
  "store_sound lib st \<longleftrightarrow> distinct (map b_name (blobs st)) \<and> (\<forall>b \<in> set (blobs st). lib_digest lib (b_content b) = b_name b)"

text \<open>From one state of the tables to a later one: sessions are new or continue one, and a file id stays.\<close>

definition sessions_evolve :: "string set \<Rightarrow> upload_db \<Rightarrow> upload_db \<Rightarrow> bool" where
  "sessions_evolve used d d' \<longleftrightarrow> (\<forall>s' \<in> set (sessions d'). us_id s' \<notin> used \<or>
     (\<exists>s \<in> set (sessions d). same_upload s s' \<and> (us_file_id s = None \<or> us_file_id s' = us_file_id s)))"

text \<open>A request works on a snapshot of its session; it agrees with the row as long as that exists.\<close>

definition snapshot :: "string set \<Rightarrow> upload_db \<Rightarrow> string \<Rightarrow> upload_session \<Rightarrow> bool" where
  "snapshot used d u ss \<longleftrightarrow> us_id ss = u \<and> u \<in> used \<and> (\<forall>s \<in> set (sessions d). us_id s = u \<longrightarrow> same_upload ss s)"

definition for_session :: "string set \<Rightarrow> upload_db \<Rightarrow> string \<Rightarrow> (upload_session \<Rightarrow> bool) \<Rightarrow> bool" where
  "for_session used d u P \<longleftrightarrow> u \<in> used \<and> (\<forall>s \<in> set (sessions d). us_id s = u \<longrightarrow> P s)"

fun complete_ok :: "upload_lib \<Rightarrow> string set \<Rightarrow> upload_server \<Rightarrow> string \<Rightarrow> complete_phase \<Rightarrow> bool" where
  "complete_ok lib used srv u (CReclaim ss) \<longleftrightarrow> snapshot used (up_db srv) u ss"
| "complete_ok lib used srv u (CClaim ss) \<longleftrightarrow> snapshot used (up_db srv) u ss"
| "complete_ok lib used srv u (CAssemble ss) \<longleftrightarrow> snapshot used (up_db srv) u ss"
| "complete_ok lib used srv u (CStat ss tmp n f) \<longleftrightarrow> snapshot used (up_db srv) u ss \<and> good_file lib ss f \<and> n = us_file_size ss \<and>
     (\<exists>content m. temp_files (up_st srv) tmp = Some (content, m) \<and> lib_digest lib content = f)"
| "complete_ok lib used srv u (CRename ss tmp n f) \<longleftrightarrow> snapshot used (up_db srv) u ss \<and> good_file lib ss f \<and> n = us_file_size ss \<and>
     (\<exists>content m. temp_files (up_st srv) tmp = Some (content, m) \<and> lib_digest lib content = f)"
| "complete_ok lib used srv u (CRecord ss n f p) \<longleftrightarrow> snapshot used (up_db srv) u ss \<and> good_file lib ss f \<and> n = us_file_size ss"
| "complete_ok lib used srv u (CFinish f) \<longleftrightarrow> for_session used (up_db srv) u (\<lambda>s. good_file lib s f)"
| "complete_ok lib used srv u (CUndo r) \<longleftrightarrow> (\<forall>f. r \<noteq> Success f)"
| "complete_ok lib used srv u (CDone r) \<longleftrightarrow>
     (case r of Success f \<Rightarrow> for_session used (up_db srv) u (\<lambda>s. us_file_id s = Some f) | Failure st e \<Rightarrow> True)"
| "complete_ok lib used srv u p \<longleftrightarrow> True"

fun temp_of :: "complete_phase \<Rightarrow> string option" where
  "temp_of (CStat ss tmp n f) = Some tmp"
| "temp_of (CRename ss tmp n f) = Some tmp"
| "temp_of p = None"

fun chunk_ok :: "string set \<Rightarrow> upload_db \<Rightarrow> string \<Rightarrow> chunk_phase \<Rightarrow> bool" where
  "chunk_ok used d u (KExists ss k n) \<longleftrightarrow> for_session used d u (\<lambda>s. 0 \<le> k \<and> k < us_total_chunks s)"
| "chunk_ok used d u (KSave k n) \<longleftrightarrow> for_session used d u (\<lambda>s. 0 \<le> k \<and> k < us_total_chunks s)"
| "chunk_ok used d u (KRecord k p n c) \<longleftrightarrow> for_session used d u (\<lambda>s. 0 \<le> k \<and> k < us_total_chunks s)"
| "chunk_ok used d u (KTrackRead b k n) \<longleftrightarrow> for_session used d u (\<lambda>s. 0 \<le> k \<and> k < us_total_chunks s)"
| "chunk_ok used d u (KTrackSwap b k n old) \<longleftrightarrow> k \<notin> set old \<and> for_session used d u (\<lambda>s. 0 \<le> k \<and> k < us_total_chunks s)"
| "chunk_ok used d u p \<longleftrightarrow> True"

definition system_ok :: "upload_lib \<Rightarrow> upload_system \<Rightarrow> bool" where
  "system_ok lib y \<longleftrightarrow> db_sound lib (sy_db y) \<and> store_sound lib (sy_st y) \<and> us_id ` set (sessions (sy_db y)) \<subseteq> sy_used y \<and>
     (\<forall>i req p. sy_completes y i = Some (req, p) \<longrightarrow> complete_ok lib (sy_used y) (sy_server y) (cr_upload req) p) \<and>
     (\<forall>i req p. sy_chunks y i = Some (req, p) \<longrightarrow> chunk_ok (sy_used y) (sy_db y) (kr_upload req) p) \<and>
     (\<forall>i j req p req' p' t. sy_completes y i = Some (req, p) \<longrightarrow> sy_completes y j = Some (req', p') \<longrightarrow>
        temp_of p = Some t \<longrightarrow> temp_of p' = Some t \<longrightarrow> i = j)"

subsection \<open>What evolves\<close>

lemma same_upload_refl [simp]: "same_upload s s" by (simp add: same_upload_def)

lemma same_upload_trans: "same_upload a b \<Longrightarrow> same_upload b c \<Longrightarrow> same_upload a c" by (simp add: same_upload_def)

lemma good_file_same: "same_upload s s' \<Longrightarrow> good_file lib s' f = good_file lib s f"
  by (simp add: same_upload_def good_file_def)

lemma evolve_refl [simp]: "sessions d' = sessions d \<Longrightarrow> sessions_evolve used d d'"
  unfolding sessions_evolve_def using same_upload_refl by metis

lemma snapshot_evolve:
  assumes "sessions_evolve used d d'" "snapshot used d u ss" "used \<subseteq> used'"
  shows "snapshot used' d' u ss"
  unfolding snapshot_def
proof (intro conjI ballI impI)
  show "us_id ss = u" "u \<in> used'" using assms by (auto simp: snapshot_def)
  fix s' assume s': "s' \<in> set (sessions d')" "us_id s' = u"
  with assms obtain s where "s \<in> set (sessions d)" "same_upload s s'"
    by (auto simp: sessions_evolve_def snapshot_def)
  with assms(2) s'(2) show "same_upload ss s'" by (auto simp: snapshot_def same_upload_def)
qed

lemma for_session_evolve:
  assumes "sessions_evolve used d d'" "for_session used d u P" "used \<subseteq> used'"
    and stable: "\<And>s s'. same_upload s s' \<Longrightarrow> us_file_id s = None \<or> us_file_id s' = us_file_id s \<Longrightarrow> P s \<Longrightarrow> P s'"
  shows "for_session used' d' u P"
  unfolding for_session_def
proof (intro conjI ballI impI)
  show "u \<in> used'" using assms by (auto simp: for_session_def)
  fix s' assume s': "s' \<in> set (sessions d')" "us_id s' = u"
  with assms(1,2) obtain s where "s \<in> set (sessions d)" "same_upload s s'" "us_file_id s = None \<or> us_file_id s' = us_file_id s"
    by (fastforce simp: sessions_evolve_def for_session_def)
  with assms(2) s' stable show "P s'" by (fastforce simp: for_session_def same_upload_def)
qed

lemma chunk_ok_evolve:
  assumes "sessions_evolve used d d'" "used \<subseteq> used'" "chunk_ok used d u p"
  shows "chunk_ok used' d' u p"
proof -
  have "for_session used' d' u (\<lambda>s. 0 \<le> k \<and> k < us_total_chunks s)"
    if "for_session used d u (\<lambda>s. 0 \<le> k \<and> k < us_total_chunks s)" for k
    using that by (rule for_session_evolve [OF assms(1) _ assms(2)]) (auto simp: same_upload_def)
  with assms(3) show ?thesis by (cases p) auto
qed

lemma complete_ok_evolve:
  assumes ev: "sessions_evolve used (up_db srv) (up_db srv')" "used \<subseteq> used'"
    and temps: "\<And>t. temp_of p = Some t \<Longrightarrow> temp_files (up_st srv') t = temp_files (up_st srv) t"
    and ok: "complete_ok lib used srv u p"
  shows "complete_ok lib used' srv' u p"
proof -
  note snap = snapshot_evolve [OF ev(1) _ ev(2)]
  have fin: "for_session used' (up_db srv') u (\<lambda>s. good_file lib s f)" if "for_session used (up_db srv) u (\<lambda>s. good_file lib s f)" for f
    using that by (rule for_session_evolve [OF ev(1) _ ev(2)]) (simp add: good_file_same)
  have closed: "for_session used' (up_db srv') u (\<lambda>s. us_file_id s = Some f)" if "for_session used (up_db srv) u (\<lambda>s. us_file_id s = Some f)" for f
    using that by (rule for_session_evolve [OF ev(1) _ ev(2)]) auto
  show ?thesis using ok temps snap fin closed by (cases p) (auto split: reply.splits)
qed

lemma upd_sessions_sound:
  assumes "db_sound lib d"
    and "\<And>s. s \<in> set (sessions d) \<Longrightarrow> P s \<Longrightarrow> session_ok lib s \<Longrightarrow>
      session_ok lib (f s) \<and> same_upload s (f s) \<and> (us_file_id s = None \<or> us_file_id (f s) = us_file_id s)"
  shows "db_sound lib (upd_sessions P f d)" "sessions_evolve used d (upd_sessions P f d)"
    "us_id ` set (sessions (upd_sessions P f d)) = us_id ` set (sessions d)"
proof -
  have step: "session_ok lib (if P s then f s else s)" "same_upload s (if P s then f s else s)"
    "us_file_id s = None \<or> us_file_id (if P s then f s else s) = us_file_id s" if "s \<in> set (sessions d)" for s
    using assms(2) [OF that] assms(1) that by (auto simp: db_sound_def)
  have ids: "map us_id (upd_where P f (sessions d)) = map us_id (sessions d)"
    using step(2) by (auto simp: upd_where_def same_upload_def)
  show "us_id ` set (sessions (upd_sessions P f d)) = us_id ` set (sessions d)"
    using arg_cong [OF ids, of set] by (simp add: upd_sessions_def)
  show "db_sound lib (upd_sessions P f d)"
  proof -
    have "session_ok lib s'" if "s' \<in> set (upd_where P f (sessions d))" for s'
    proof -
      from that obtain s where "s' = (if P s then f s else s)" "s \<in> set (sessions d)"
        unfolding upd_where_def set_map by (rule imageE)
      with step(1) show ?thesis by (simp only:)
    qed
    with assms(1) ids show ?thesis by (simp add: db_sound_def upd_sessions_def)
  qed
  show "sessions_evolve used d (upd_sessions P f d)"
    unfolding sessions_evolve_def
  proof
    fix s' assume "s' \<in> set (sessions (upd_sessions P f d))"
    then obtain s where "s \<in> set (sessions d)" "s' = (if P s then f s else s)" by (auto simp: upd_sessions_def upd_where_def)
    with step show "us_id s' \<notin> used \<or> (\<exists>s \<in> set (sessions d). same_upload s s' \<and> (us_file_id s = None \<or> us_file_id s' = us_file_id s))"
      by blast
  qed
qed

text \<open>Everything a database call must keep.\<close>

definition keeps_db :: "upload_lib \<Rightarrow> string set \<Rightarrow> upload_db \<Rightarrow> upload_db \<Rightarrow> bool" where
  "keeps_db lib used d d' \<longleftrightarrow> db_sound lib d' \<and> sessions_evolve used d d' \<and> us_id ` set (sessions d') \<subseteq> us_id ` set (sessions d)"

lemma keeps_db_same: "db_sound lib d \<Longrightarrow> sessions d' = sessions d \<Longrightarrow> keeps_db lib used d d'"
  by (simp add: keeps_db_def db_sound_def)

lemma keeps_db_upd:
  assumes "db_sound lib d"
    and "\<And>s. s \<in> set (sessions d) \<Longrightarrow> P s \<Longrightarrow> session_ok lib s \<Longrightarrow>
      session_ok lib (f s) \<and> same_upload s (f s) \<and> (us_file_id s = None \<or> us_file_id (f s) = us_file_id s)"
  shows "keeps_db lib used d (upd_sessions P f d)"
  using upd_sessions_sound [OF assms] by (simp add: keeps_db_def)

lemma simple_ops_keep:
  assumes "db_sound lib d"
  shows "keeps_db lib used d (snd (ClaimUploadSessionAssembly ok now u d))"
    "keeps_db lib used d (snd (ReopenUploadSession ok now u d))"
    "keeps_db lib used d (snd (CancelUploadSession ok now u d))"
    "keeps_db lib used d (snd (ExpireUploadSessions ok now d))"
proof -
  have upd: "keeps_db lib used d (if b then upd_sessions P (\<lambda>s. s\<lparr>us_status := v, us_updated_at := t\<rparr>) d else d)"
    if "v \<noteq> UploadCompleted" "\<And>s. P s \<Longrightarrow> us_status s \<in> {UploadInProgress, UploadAssembling} \<or> v = UploadCancelled" for b P v t
  proof (cases b)
    case True
    have "keeps_db lib used d (upd_sessions P (\<lambda>s. s\<lparr>us_status := v, us_updated_at := t\<rparr>) d)"
    proof (rule keeps_db_upd [OF assms])
      fix s assume "P s" "session_ok lib s"
      moreover from this that(2) have "v = UploadCancelled \<or> us_file_id s = None"
        by (fastforce simp: session_ok_def split: option.splits)
      ultimately show "session_ok lib (s\<lparr>us_status := v, us_updated_at := t\<rparr>)
          \<and> same_upload s (s\<lparr>us_status := v, us_updated_at := t\<rparr>)
          \<and> (us_file_id s = None \<or> us_file_id (s\<lparr>us_status := v, us_updated_at := t\<rparr>) = us_file_id s)"
        using that(1) by (auto simp: session_ok_def same_upload_def good_file_def split: option.splits)
    qed
    with True show ?thesis by simp
  qed (use assms in \<open>simp add: keeps_db_same\<close>)
  show "keeps_db lib used d (snd (ClaimUploadSessionAssembly ok now u d))"
    "keeps_db lib used d (snd (ReopenUploadSession ok now u d))"
    "keeps_db lib used d (snd (CancelUploadSession ok now u d))"
    using upd [of UploadAssembling "\<lambda>s. us_id s = u \<and> us_status s = UploadInProgress" ok now]
      upd [of UploadInProgress "\<lambda>s. us_id s = u \<and> us_status s = UploadAssembling" ok now]
      upd [of UploadCancelled "\<lambda>s. us_id s = u" ok now]
    by (auto simp: ClaimUploadSessionAssembly_def ReopenUploadSession_def CancelUploadSession_def Let_def split: if_splits)
  have "keeps_db lib used d (upd_sessions (expirable now) (\<lambda>s. s\<lparr>us_status := UploadExpired\<rparr>) d)"
    by (rule keeps_db_upd [OF assms])
      (auto simp: expirable_def same_upload_def session_ok_def good_file_def split: option.splits)
  then show "keeps_db lib used d (snd (ExpireUploadSessions ok now d))"
    using assms by (simp add: ExpireUploadSessions_def keeps_db_same)
qed

lemma row_ops_keep:
  assumes "db_sound lib d"
  shows "keeps_db lib used d (snd (CreateUploadChunk ok ok' i now u k sz c pth d))"
    "keeps_db lib used d (snd (DeleteUploadChunks ok u d))"
    "keeps_db lib used d (snd (CreateFile ok ok' i now fname pth sz cs d))"
  using assms by (auto simp: CreateUploadChunk_def DeleteUploadChunks_def CreateFile_def Let_def intro!: keeps_db_same)

lemma delete_keeps:
  assumes "db_sound lib d"
  shows "keeps_db lib used d (snd (DeleteUploadSession ok u d))"
  using assms
  by (auto simp: DeleteUploadSession_def keeps_db_def db_sound_def sessions_evolve_def distinct_map inj_on_def
      intro: same_upload_refl)

lemma swap_keeps:
  assumes "db_sound lib d" "k \<notin> set old" "for_session used d u (\<lambda>s. 0 \<le> k \<and> k < us_total_chunks s)"
  shows "keeps_db lib used d (snd (add_chunk_swap ok now u k old d))"
proof (cases ok)
  case True
  then show ?thesis
    using assms unfolding add_chunk_swap_def Let_def
    by (auto simp: for_session_def same_upload_def session_ok_def good_file_def split: option.splits intro!: keeps_db_upd)
qed (use assms(1) in \<open>simp add: add_chunk_swap_def keeps_db_same\<close>)

lemma complete_keeps:
  assumes "db_sound lib d" "for_session used d u (\<lambda>s. good_file lib s f)"
  shows "keeps_db lib used d (snd (CompleteUploadSession ok now u f d))"
proof -
  have "keeps_db lib used d (upd_sessions (\<lambda>s. us_id s = u \<and> us_status s = UploadAssembling)
      (\<lambda>s. s\<lparr>us_status := UploadCompleted, us_file_id := Some f, us_updated_at := now\<rparr>) d)"
    using assms
    by (intro keeps_db_upd) (auto simp: for_session_def same_upload_def session_ok_def good_file_def split: option.splits)
  with assms(1) show ?thesis by (auto simp: CompleteUploadSession_def Let_def keeps_db_same)
qed

lemma keeps_snapshot: "keeps_db lib used d d' \<Longrightarrow> snapshot used d u ss \<Longrightarrow> snapshot used d' u ss"
  by (auto simp: keeps_db_def elim: snapshot_evolve)

definition server_sound :: "upload_lib \<Rightarrow> string set \<Rightarrow> upload_server \<Rightarrow> bool" where
  "server_sound lib used srv \<longleftrightarrow>
     db_sound lib (up_db srv) \<and> store_sound lib (up_st srv) \<and> us_id ` set (sessions (up_db srv)) \<subseteq> used"

lemma found_session:
  assumes "server_sound lib used srv" "find_session u (up_db srv) = Some ss"
  shows "snapshot used (up_db srv) u ss" "for_session used (up_db srv) u (\<lambda>s. s = ss)" "session_ok lib ss" "us_id ss = u"
proof -
  have ss: "ss \<in> set (sessions (up_db srv))" "us_id ss = u" using find_row_SomeD [OF assms(2)] by simp_all
  moreover have "s = ss" if "s \<in> set (sessions (up_db srv))" "us_id s = u" for s
    using that ss assms(1) by (metis db_sound_def distinct_map inj_onD server_sound_def)
  moreover have "u \<in> used" using ss assms(1) by (auto simp: server_sound_def)
  ultimately show "snapshot used (up_db srv) u ss" "for_session used (up_db srv) u (\<lambda>s. s = ss)" "us_id ss = u"
    unfolding snapshot_def for_session_def using same_upload_refl by metis+
  show "session_ok lib ss" using ss(1) assms(1) by (simp add: server_sound_def db_sound_def)
qed

lemma for_session_mono: "for_session used d u P \<Longrightarrow> (\<And>s. P s \<Longrightarrow> Q s) \<Longrightarrow> for_session used d u Q"
  by (simp add: for_session_def)

subsection \<open>The disk keeps its names\<close>

lemma store_sound_blobs: "blobs st' = blobs st \<Longrightarrow> store_sound lib st' = store_sound lib st"
  by (simp add: store_sound_def)

lemma put_blob_sound: "store_sound lib st \<Longrightarrow> lib_digest lib content = i \<Longrightarrow> store_sound lib (put_blob i content m st)"
  by (auto simp: store_sound_def put_blob_def distinct_map inj_on_def)

lemma touch_sound: "store_sound lib st \<Longrightarrow> store_sound lib (touch ok now i st)"
  by (auto simp: store_sound_def touch_def map_key_upd_where) (auto simp: upd_where_def)

lemma delete_sound: "store_sound lib st \<Longrightarrow> store_sound lib (DeleteFile ok i st)"
  by (auto simp: store_sound_def DeleteFile_def distinct_map inj_on_def)

lemma save_sound:
  "store_sound lib st \<Longrightarrow> store_sound lib (snd (SaveFileByContent (lib_digest lib) fault tok now body st))"
  by (auto simp: SaveFileByContent_def Let_def put_blob_sound touch_sound split: io_fault.split)

lemma sweep_sound: "store_sound lib st \<Longrightarrow> store_sound lib (snd (sweep_one ok cutoff i st))"
  by (auto simp: sweep_one_def delete_sound split: option.split)

subsection \<open>A step of a completion\<close>

definition step_keeps :: "upload_lib \<Rightarrow> string set \<Rightarrow> upload_env \<Rightarrow> complete_request \<Rightarrow> complete_phase \<Rightarrow> upload_server \<Rightarrow>
    complete_phase \<times> upload_server \<Rightarrow> bool" where
  "step_keeps lib used env req p srv q \<longleftrightarrow>
     keeps_db lib used (up_db srv) (up_db (snd q)) \<and> store_sound lib (up_st (snd q)) \<and>
     complete_ok lib used (snd q) (cr_upload req) (fst q) \<and>
     (\<forall>t. temp_of (fst q) = Some t \<longrightarrow> temp_of p = Some t \<or> t = ue_tmp env) \<and>
     (\<forall>t. temp_of p \<noteq> Some t \<longrightarrow> t \<noteq> ue_tmp env \<longrightarrow> temp_files (up_st (snd q)) t = temp_files (up_st srv) t)"

lemma lookup_keeps:
  assumes "server_sound lib used srv"
  shows "step_keeps lib used env req CLookup srv (complete_step lib env req CLookup srv)"
    "step_keeps lib used env req CRecheck srv (complete_step lib env req CRecheck srv)"
proof -
  have same: "keeps_db lib used (up_db srv) (up_db srv)" "store_sound lib (up_st srv)"
    using assms by (simp_all add: server_sound_def keeps_db_same)
  have "step_keeps lib used env req CLookup srv (complete_step lib env req CLookup srv) \<and>
    step_keeps lib used env req CRecheck srv (complete_step lib env req CRecheck srv)"
  proof (cases "find_session (cr_upload req) (up_db srv)")
    case (Some ss)
    note found = found_session [OF assms Some]
    have "for_session used (up_db srv) (cr_upload req) (\<lambda>s. us_file_id s = Some f)" if "us_file_id ss = Some f" for f
      using found(2) by (rule for_session_mono) (simp add: that)
    with Some found same show ?thesis
      by (auto simp: step_keeps_def GetUploadSession_def split: upload_status.split option.split)
  qed (use same in \<open>simp add: step_keeps_def GetUploadSession_def\<close>)
  then show "step_keeps lib used env req CLookup srv (complete_step lib env req CLookup srv)"
    "step_keeps lib used env req CRecheck srv (complete_step lib env req CRecheck srv)" by simp_all
qed

lemma keeps_upd_db [simp]:
  "store_sound lib (up_st (srv\<lparr>up_db := d\<rparr>)) = store_sound lib (up_st srv)" by simp

lemma claim_keeps:
  assumes "server_sound lib used srv" "snapshot used (up_db srv) (cr_upload req) ss"
  shows "step_keeps lib used env req (CReclaim ss) srv (complete_step lib env req (CReclaim ss) srv)"
    "step_keeps lib used env req (CClaim ss) srv (complete_step lib env req (CClaim ss) srv)"
proof -
  have s: "db_sound lib (up_db srv)" "store_sound lib (up_st srv)" using assms(1) by (simp_all add: server_sound_def)
  note ops = simple_ops_keep(1-3) [OF s(1), where used = used and ok = "ue_ok env" and now = "ue_now env" and u = "cr_upload req"]
  show "step_keeps lib used env req (CReclaim ss) srv (complete_step lib env req (CReclaim ss) srv)"
    using ops(2) s(2) keeps_snapshot [OF ops(2) assms(2)]
    by (auto simp: step_keeps_def split: prod.split sum.split)
  show "step_keeps lib used env req (CClaim ss) srv (complete_step lib env req (CClaim ss) srv)"
    using ops(1) s(2) keeps_snapshot [OF ops(1) assms(2)]
    by (auto simp: step_keeps_def split: prod.split sum.split)
qed

lemma assemble_keeps:
  assumes srv: "server_sound lib used srv" and snap: "snapshot used (up_db srv) (cr_upload req) ss"
  shows "step_keeps lib used env req (CAssemble ss) srv (complete_step lib env req (CAssemble ss) srv)"
proof -
  have s: "db_sound lib (up_db srv)" "store_sound lib (up_st srv)" using srv by (simp_all add: server_sound_def)
  obtain r st where a: "AssembleChunks (lib_digest lib) (ue_stat_ok env) (ue_fault env) (ue_now env) (ue_tmp env) (cr_upload req)
      (us_total_chunks ss) (us_chunk_size ss) (us_file_size ss) (up_st srv) = (r, st)" by fastforce
  show ?thesis
  proof (cases r)
    case (Inl e)
    with a have "st = up_st srv" by (auto simp: AssembleChunks_eq split: if_splits sum.splits io_fault.splits)
    with a Inl s show ?thesis
      by (simp add: step_keeps_def keeps_db_same assembleErrorStatus_def)
  next
    case (Inr v)
    obtain tmp k c where v: "v = (tmp, k, c)" by (cases v)
    note ok = AssembleChunks_Inr [OF a [unfolded Inr v]]
    let ?file = "file_of (up_st srv) (cr_upload req) (us_total_chunks ss)"
    have good: "good_file lib ss c" if "\<not> declaredChecksumMismatch (us_file_checksum ss) (cr_checksum req) c"
      using ok that by (auto simp: good_file_def declaredChecksumMismatch_def split: option.splits)
    show ?thesis
      using a Inr v ok good s snap
      by (auto simp: step_keeps_def keeps_db_same drop_temp_def store_sound_def)
  qed
qed

lemma publish_keeps:
  assumes srv: "server_sound lib used srv" and ok: "complete_ok lib used srv (cr_upload req) (CStat ss tmp n f)"
  shows "step_keeps lib used env req (CStat ss tmp n f) srv (complete_step lib env req (CStat ss tmp n f) srv)"
    "step_keeps lib used env req (CRename ss tmp n f) srv (complete_step lib env req (CRename ss tmp n f) srv)"
proof -
  have s: "db_sound lib (up_db srv)" "store_sound lib (up_st srv)" using srv by (simp_all add: server_sound_def)
  show "step_keeps lib used env req (CStat ss tmp n f) srv (complete_step lib env req (CStat ss tmp n f) srv)"
    using s ok by (auto simp: step_keeps_def keeps_db_same drop_temp_def store_sound_def)
  obtain content m where t: "temp_files (up_st srv) tmp = Some (content, m)" "lib_digest lib content = f" using ok by auto
  then show "step_keeps lib used env req (CRename ss tmp n f) srv (complete_step lib env req (CRename ss tmp n f) srv)"
    using s ok put_blob_sound [OF s(2) t(2), of m]
    by (auto simp: step_keeps_def keeps_db_same drop_temp_def store_sound_def put_blob_def)
qed

lemma record_keeps:
  assumes srv: "server_sound lib used srv" and ok: "complete_ok lib used srv (cr_upload req) (CRecord ss n f p)"
  shows "step_keeps lib used env req (CRecord ss n f p) srv (complete_step lib env req (CRecord ss n f p) srv)"
proof -
  have s: "db_sound lib (up_db srv)" "store_sound lib (up_st srv)" using srv by (simp_all add: server_sound_def)
  let ?op = "CreateFile (ue_ok env) (ue_read_ok env) (ue_uid env) (ue_now env) (us_filename ss) (GetFilePath (up_st srv) f) n (Some f) (up_db srv)"
  note kept = row_ops_keep(3) [OF s(1), of used "ue_ok env" "ue_read_ok env" "ue_uid env" "ue_now env" "us_filename ss"
      "GetFilePath (up_st srv) f" n "Some f"]
  have "snapshot used (snd ?op) (cr_upload req) ss" using kept ok by (simp add: keeps_snapshot)
  then have "for_session used (snd ?op) (cr_upload req) (\<lambda>s. good_file lib s f)"
    using ok good_file_same by (auto simp: snapshot_def for_session_def)
  with kept s show ?thesis by (auto simp: step_keeps_def split: prod.split sum.split)
qed

lemma finish_keeps:
  assumes srv: "server_sound lib used srv" and ok: "complete_ok lib used srv (cr_upload req) (CFinish f)"
  shows "step_keeps lib used env req (CFinish f) srv (complete_step lib env req (CFinish f) srv)"
proof -
  have s: "db_sound lib (up_db srv)" "store_sound lib (up_st srv)" using srv by (simp_all add: server_sound_def)
  let ?u = "cr_upload req"
  let ?op = "CompleteUploadSession (ue_ok env) (ue_now env) ?u f (up_db srv)"
  have kept: "keeps_db lib used (up_db srv) (snd ?op)" using s ok by (simp add: complete_keeps)
  have "for_session used (snd ?op) ?u (\<lambda>s. us_file_id s = Some f)" if won: "fst ?op = Inr ()"
  proof -
    from won have eq: "ue_ok env" "\<exists>s \<in> set (sessions (up_db srv)). us_id s = ?u \<and> us_status s = UploadAssembling"
      by (auto simp: CompleteUploadSession_def Let_def rows_affected_0 split: if_splits)
    then obtain s0 where s0: "s0 \<in> set (sessions (up_db srv))" "us_id s0 = ?u" "us_status s0 = UploadAssembling" by blast
    then have "find_session ?u (up_db srv) = Some s0" using s(1) by (auto simp: db_sound_def dest: find_row_distinct)
    from found_session(2) [OF srv this] have only: "\<forall>s \<in> set (sessions (up_db srv)). us_id s = ?u \<longrightarrow> us_status s = UploadAssembling"
      using s0(3) by (auto simp: for_session_def)
    show ?thesis
      using won ok only by (auto simp: CompleteUploadSession_def Let_def for_session_def upd_sessions_def upd_where_def split: if_splits)
  qed
  with kept s show ?thesis by (auto simp: step_keeps_def split: prod.split sum.split)
qed

lemma complete_step_keeps:
  assumes srv: "server_sound lib used srv" and ok: "complete_ok lib used srv (cr_upload req) p"
  shows "step_keeps lib used env req p srv (complete_step lib env req p srv)"
proof -
  have s: "db_sound lib (up_db srv)" "store_sound lib (up_st srv)" using srv by (simp_all add: server_sound_def)
  show ?thesis
  proof (cases p)
    case (CUndo r)
    then show ?thesis
      using simple_ops_keep(2) [OF s(1), of used "ue_ok env" "ue_now env" "cr_upload req"] s ok
      by (cases r) (auto simp: step_keeps_def)
  next
    case (CRemove f)
    then show ?thesis using s by (auto simp: step_keeps_def keeps_db_same delete_sound) (auto simp: DeleteFile_def)
  next
    case (CDone r)
    then show ?thesis using s ok by (auto simp: step_keeps_def keeps_db_same split: reply.splits)
  next
    case (CRename ss tmp n f)
    then show ?thesis using publish_keeps(2) [OF srv, of req ss tmp n f] ok by simp
  qed (use ok srv in \<open>simp_all add: lookup_keeps claim_keeps assemble_keeps publish_keeps(1) record_keeps finish_keeps
      del: complete_step.simps\<close>)
qed

subsection \<open>A step of a chunk upload\<close>

definition chunk_keeps :: "upload_lib \<Rightarrow> string set \<Rightarrow> chunk_request \<Rightarrow> upload_server \<Rightarrow> chunk_phase \<times> upload_server \<Rightarrow> bool" where
  "chunk_keeps lib used req srv q \<longleftrightarrow>
     keeps_db lib used (up_db srv) (up_db (snd q)) \<and> blobs (up_st (snd q)) = blobs (up_st srv) \<and>
     temp_files (up_st (snd q)) = temp_files (up_st srv) \<and> chunk_ok used (up_db (snd q)) (kr_upload req) (fst q)"

lemma chunk_files_only:
  "blobs (snd (SaveChunk dg it fault u k body st)) = blobs st" "temp_files (snd (SaveChunk dg it fault u k body st)) = temp_files st"
  "blobs (DeleteChunk ok u k st) = blobs st" "temp_files (DeleteChunk ok u k st) = temp_files st"
  "blobs (DeleteChunkDirectory ok u st) = blobs st" "temp_files (DeleteChunkDirectory ok u st) = temp_files st"
  by (auto simp: SaveChunk_def DeleteChunk_def DeleteChunkDirectory_def Let_def split: io_fault.split)

lemma chunk_step_keeps:
  assumes srv: "server_sound lib used srv" and ok: "chunk_ok used (up_db srv) (kr_upload req) p"
  shows "chunk_keeps lib used req srv (chunk_step lib env req p srv)"
proof -
  have s: "db_sound lib (up_db srv)" using srv by (simp add: server_sound_def)
  note same = keeps_db_same [OF s refl]
  show ?thesis
  proof (cases p)
    case KLookup
    show ?thesis
    proof (cases "find_session (kr_upload req) (up_db srv)")
      case (Some ss)
      have "for_session used (up_db srv) (kr_upload req) (\<lambda>s. 0 \<le> k \<and> k < us_total_chunks s)"
        if "0 \<le> k" "k < us_total_chunks ss" for k
        using found_session(2) [OF srv Some] by (rule for_session_mono) (simp add: that)
      with Some KLookup same show ?thesis by (auto simp: chunk_keeps_def GetUploadSession_def split: option.split)
    qed (use KLookup same in \<open>auto simp: chunk_keeps_def GetUploadSession_def split: option.split\<close>)
  next
    case (KSave k n)
    with same ok show ?thesis
      using chunk_files_only(1,2) [of "lib_digest lib" "lib_itoa lib" "ue_fault env" "kr_upload req" k]
      by (auto simp: chunk_keeps_def split: option.split prod.split sum.split) (metis snd_conv)+
  next
    case (KRecord k pth n c)
    let ?op = "CreateUploadChunk (ue_ok env) (ue_read_ok env) (ue_uid env) (ue_now env) (kr_upload req) k n c pth (up_db srv)"
    have kept: "keeps_db lib used (up_db srv) (snd ?op)" by (rule row_ops_keep [OF s])
    have "chunk_ok used (snd ?op) (kr_upload req) p"
      by (rule chunk_ok_evolve [OF _ _ ok]) (use kept in \<open>auto simp: keeps_db_def\<close>)
    with KRecord kept show ?thesis by (auto simp: chunk_keeps_def split: prod.split sum.split)
  next
    case (KTrackRead b k n)
    with same ok show ?thesis
      by (auto simp: chunk_keeps_def track_failed_def add_chunk_read_def split: nat.split sum.split option.split if_splits)
  next
    case (KTrackSwap b k n old)
    let ?op = "add_chunk_swap (ue_ok env) (ue_now env) (kr_upload req) k old (up_db srv)"
    have kept: "keeps_db lib used (up_db srv) (snd ?op)" using swap_keeps [OF s] ok KTrackSwap by simp
    have "chunk_ok used (snd ?op) (kr_upload req) p"
      by (rule chunk_ok_evolve [OF _ _ ok]) (use kept in \<open>auto simp: keeps_db_def\<close>)
    with KTrackSwap kept show ?thesis by (auto simp: chunk_keeps_def track_failed_def split: prod.split sum.split)
  qed (use same ok in \<open>auto simp: chunk_keeps_def chunk_files_only\<close>)
qed

lemma init_keeps:
  assumes srv: "server_sound lib used srv" and new: "ue_uid env \<notin> used"
    and init: "InitChunkUpload env n body srv = (r, srv')"
  shows "server_sound lib (insert (ue_uid env) used) srv' \<and> sessions_evolve used (up_db srv) (up_db srv') \<and> up_st srv' = up_st srv"
proof (cases "up_db srv' = up_db srv \<and> up_st srv' = up_st srv")
  case True
  then show ?thesis using srv by (auto simp: server_sound_def)
next
  case False
  obtain req where req: "body = Some req" "0 < ir_file_size req" "\<not> ir_chunk_size req > MaxChunkSize"
    using init False by (auto simp: InitChunkUpload_def split: option.splits if_splits)
  define cs where "cs = (let c = (if ir_chunk_size req > 0 then ir_chunk_size req else n) in if c \<le> 0 then DefaultChunkSize else c)"
  have cs: "0 < cs" by (simp add: cs_def Let_def DefaultChunkSize_def)
  let ?tot = "total_chunks_of (ir_file_size req) cs" and ?sum = "if ir_checksum req = [] then None else Some (ir_checksum req)"
  let ?new = "new_session (ue_uid env) (ue_now env) (ir_filename req) (ir_file_size req) cs ?tot ?sum"
  have run: "?tot \<le> MaxTotalChunks" "up_db srv' = snd (CreateUploadSession (ue_ok env) (ue_read_ok env) (ue_uid env) (ue_now env)
      (ir_filename req) (ir_file_size req) cs ?tot ?sum (up_db srv)) \<and> up_st srv' = up_st srv"
    using init False req by (auto simp: InitChunkUpload_def Let_def cs_def split: if_splits prod.splits sum.splits)
  then have d: "sessions (up_db srv') = sessions (up_db srv) @ [?new]"
    using False by (auto simp: CreateUploadSession_def Let_def split: if_splits)
  have "session_ok lib ?new"
    using run(1) total_chunks_chunking [OF req(2) cs] by (simp add: session_ok_def new_session_def)
  moreover have "us_id ?new = ue_uid env" by (simp add: new_session_def)
  moreover from this have "sessions_evolve used (up_db srv) (up_db srv')"
    unfolding sessions_evolve_def
  proof (intro ballI)
    fix s' assume "s' \<in> set (sessions (up_db srv'))"
    then consider "s' \<in> set (sessions (up_db srv))" | "us_id s' \<notin> used"
      using d new \<open>us_id ?new = ue_uid env\<close> by auto
    then show "us_id s' \<notin> used \<or> (\<exists>s \<in> set (sessions (up_db srv)). same_upload s s' \<and> (us_file_id s = None \<or> us_file_id s' = us_file_id s))"
      using same_upload_refl by cases blast+
  qed
  ultimately show ?thesis
    using srv new run(2) d by (auto simp: server_sound_def db_sound_def)
qed

subsection \<open>Every step keeps the invariant\<close>

lemma expire_one_keeps:
  assumes "db_sound lib (up_db srv)"
  shows "keeps_db lib used (up_db srv) (up_db (expire_one disk_ok row_ok u srv))"
  using delete_keeps [OF assms] keeps_db_same [OF assms refl] by (simp add: expire_one_def)

text \<open>A step of the surroundings: the tables evolve and the temporary files stay.\<close>

lemma system_ok_server:
  assumes ok: "system_ok lib y" and srv: "server_sound lib used' srv'" "sy_used y \<subseteq> used'"
    and ev: "sessions_evolve (sy_used y) (sy_db y) (up_db srv')" and temps: "temp_files (up_st srv') = temp_files (sy_st y)"
  shows "system_ok lib (y\<lparr>sy_server := srv', sy_used := used'\<rparr>)"
proof -
  have "complete_ok lib used' srv' u p" if "complete_ok lib (sy_used y) (sy_server y) u p" for u p
    by (rule complete_ok_evolve [OF ev srv(2) _ that]) (simp add: temps)
  moreover have "chunk_ok used' (up_db srv') u p" if "chunk_ok (sy_used y) (sy_db y) u p" for u p
    by (rule chunk_ok_evolve [OF ev srv(2) that])
  ultimately show ?thesis using ok srv(1) by (simp add: system_ok_def server_sound_def)
qed

lemma system_ok_keeps:
  assumes ok: "system_ok lib y" and kept: "keeps_db lib (sy_used y) (sy_db y) (up_db srv')"
    and st: "store_sound lib (up_st srv')" "temp_files (up_st srv') = temp_files (sy_st y)"
  shows "system_ok lib (y\<lparr>sy_server := srv'\<rparr>)"
proof -
  have "server_sound lib (sy_used y) srv'"
    using ok kept st(1) by (auto simp: system_ok_def keeps_db_def server_sound_def)
  from system_ok_server [OF ok this subset_refl _ st(2)] kept show ?thesis by (simp add: keeps_db_def)
qed

lemma system_sound: "system_ok lib y \<Longrightarrow> server_sound lib (sy_used y) (sy_server y)"
  by (simp add: system_ok_def server_sound_def)

lemma system_ok_chunk:
  assumes ok: "system_ok lib y" and i: "sy_chunks y i = Some (req, p)"
    and run: "chunk_step lib env req p (sy_server y) = (p', srv)"
  shows "system_ok lib (y\<lparr>sy_server := srv, sy_chunks := (sy_chunks y)(i := Some (req, p'))\<rparr>)"
proof -
  have "chunk_ok (sy_used y) (sy_db y) (kr_upload req) p" using ok i by (simp add: system_ok_def)
  from chunk_step_keeps [OF system_sound [OF ok] this, of env] run
  have kept: "chunk_keeps lib (sy_used y) req (sy_server y) (p', srv)" by simp
  then have "system_ok lib (y\<lparr>sy_server := srv\<rparr>)"
    using ok by (intro system_ok_keeps) (auto simp: chunk_keeps_def system_ok_def store_sound_def)
  with kept show ?thesis by (auto simp: system_ok_def chunk_keeps_def)
qed

lemma system_ok_complete:
  assumes ok: "system_ok lib y" and i: "sy_completes y i = Some (req, p)" and tmp: "temp_files (sy_st y) (ue_tmp env) = None"
    and run: "complete_step lib env req p (sy_server y) = (p', srv)"
  shows "system_ok lib (y\<lparr>sy_server := srv, sy_completes := (sy_completes y)(i := Some (req, p'))\<rparr>)"
proof -
  have all: "\<And>j r q. sy_completes y j = Some (r, q) \<Longrightarrow> complete_ok lib (sy_used y) (sy_server y) (cr_upload r) q"
    and temps: "\<And>i j req p req' p' t. sy_completes y i = Some (req, p) \<Longrightarrow> sy_completes y j = Some (req', p') \<Longrightarrow>
        temp_of p = Some t \<Longrightarrow> temp_of p' = Some t \<Longrightarrow> i = j"
    using ok by (auto simp: system_ok_def)
  from complete_step_keeps [OF system_sound [OF ok] all [OF i], of env] run
  have kept: "step_keeps lib (sy_used y) env req p (sy_server y) (p', srv)" by simp
  then have ev: "sessions_evolve (sy_used y) (sy_db y) (up_db srv)" and snd: "server_sound lib (sy_used y) srv"
    using ok by (auto simp: step_keeps_def keeps_db_def server_sound_def system_ok_def)
  have named: "t \<noteq> ue_tmp env" if "sy_completes y j = Some (r, q)" "temp_of q = Some t" for j r q t
    using all [OF that(1)] that(2) tmp by (cases q) auto
  have others: "complete_ok lib (sy_used y) srv (cr_upload r) q" if j: "sy_completes y j = Some (r, q)" "j \<noteq> i" for j r q
  proof (rule complete_ok_evolve [OF ev subset_refl _ all [OF j(1)]])
    fix t assume t: "temp_of q = Some t"
    then have "temp_of p \<noteq> Some t" using temps [OF i j(1)] j(2) by blast
    with kept named [OF j(1) t] show "temp_files (up_st srv) t = temp_files (sy_st y) t" by (auto simp: step_keeps_def)
  qed
  have fresh: "temp_of p = Some t \<or> (\<forall>j r q. sy_completes y j = Some (r, q) \<longrightarrow> temp_of q \<noteq> Some t)" if "temp_of p' = Some t" for t
    using kept that named by (fastforce simp: step_keeps_def)
  have chunks: "\<And>j r q. sy_chunks y j = Some (r, q) \<Longrightarrow> chunk_ok (sy_used y) (up_db srv) (kr_upload r) q"
    using ok chunk_ok_evolve [OF ev subset_refl] by (fastforce simp: system_ok_def)
  have distinct: "j = k" if "((sy_completes y)(i := Some (req, p'))) j = Some (r, q)" "((sy_completes y)(i := Some (req, p'))) k = Some (r', q')"
      "temp_of q = Some t" "temp_of q' = Some t" for j k r q r' q' t
  proof -
    consider "j = i" "k = i" | "j = i" "k \<noteq> i" | "j \<noteq> i" "k = i" | "j \<noteq> i" "k \<noteq> i" by blast
    then show ?thesis
    proof cases
      case 2
      with that have "temp_of p' = Some t" "sy_completes y k = Some (r', q')" by auto
      with fresh that(4) have "temp_of p = Some t" by blast
      with temps [OF i \<open>sy_completes y k = _\<close>] that(4) 2 show ?thesis by blast
    next
      case 3
      with that have "temp_of p' = Some t" "sy_completes y j = Some (r, q)" by auto
      with fresh that(3) have "temp_of p = Some t" by blast
      with temps [OF i \<open>sy_completes y j = _\<close>] that(3) 3 show ?thesis by blast
    next
      case 4
      with that temps show ?thesis by simp
    qed simp
  qed
  have here: "complete_ok lib (sy_used y) srv (cr_upload req) p'" using kept by (simp add: step_keeps_def)
  show ?thesis
    unfolding system_ok_def
  proof (intro conjI allI impI)
    fix j r q assume "sy_completes (y\<lparr>sy_server := srv, sy_completes := (sy_completes y)(i \<mapsto> (req, p'))\<rparr>) j = Some (r, q)"
    then show "complete_ok lib (sy_used (y\<lparr>sy_server := srv, sy_completes := (sy_completes y)(i \<mapsto> (req, p'))\<rparr>))
        (sy_server (y\<lparr>sy_server := srv, sy_completes := (sy_completes y)(i \<mapsto> (req, p'))\<rparr>)) (cr_upload r) q"
      using here others by (cases "j = i") simp_all
  next
    fix j k r q r' q' t
    assume "sy_completes (y\<lparr>sy_server := srv, sy_completes := (sy_completes y)(i \<mapsto> (req, p'))\<rparr>) j = Some (r, q)"
      "sy_completes (y\<lparr>sy_server := srv, sy_completes := (sy_completes y)(i \<mapsto> (req, p'))\<rparr>) k = Some (r', q')"
      "temp_of q = Some t" "temp_of q' = Some t"
    then show "j = k" using distinct [of j r q k r' q' t] by simp
  qed (use snd chunks in \<open>simp_all add: server_sound_def\<close>)
qed

lemma system_ok_store:
  assumes "system_ok lib y" "store_sound lib st" "temp_files st = temp_files (sy_st y)"
  shows "system_ok lib (y\<lparr>sy_server := (sy_server y)\<lparr>up_st := st\<rparr>\<rparr>)"
  using assms by (intro system_ok_keeps) (auto simp: system_ok_def keeps_db_same)

lemma blob_ops_temps:
  "temp_files (snd (SaveFileByContent dg fault tok now body st)) = temp_files st"
  "temp_files (snd (sweep_one ok cutoff i st)) = temp_files st" "temp_files (touch tok now i st) = temp_files st"
  by (auto simp: SaveFileByContent_def Let_def put_blob_def touch_def sweep_one_def DeleteFile_def split: io_fault.split option.split)

lemma upload_step_ok:
  assumes "upload_step lib y y'" "system_ok lib y"
  shows "system_ok lib y'"
  using assms
proof cases
  case (op_init env n body r srv)
  then show ?thesis
    using init_keeps [OF system_sound [OF assms(2)]] by (simp add: system_ok_server [OF assms(2)] subset_insertI)
next
  case (op_chunk i req p env p' srv)
  then show ?thesis using system_ok_chunk [OF assms(2)] by simp
next
  case (op_complete i req p env p' srv)
  then show ?thesis using system_ok_complete [OF assms(2)] by simp
next
  case (op_cancel u env r srv)
  then have "keeps_db lib (sy_used y) (sy_db y) (up_db srv)" "up_st srv = sy_st y"
    using simple_ops_keep(3) [of lib "sy_db y" "sy_used y" "ue_ok env" "ue_now env" u] assms(2)
    by (auto simp: cancel_write_def system_ok_def split: prod.splits sum.splits)
  then have "system_ok lib (y\<lparr>sy_server := srv\<rparr>)" using assms(2) by (intro system_ok_keeps) (auto simp: system_ok_def)
  then show ?thesis using op_cancel by (simp add: system_ok_def)
next
  case (op_cleanup disk_ok db_ok u)
  then show ?thesis
    using row_ops_keep(2) [of lib "sy_db y" "sy_used y" db_ok u] assms(2) chunk_files_only(5,6) [of disk_ok u "sy_st y"]
    by (simp add: chunk_cleanup_def) (intro system_ok_keeps; auto simp: system_ok_def store_sound_def)
next
  case (op_expire_mark ok now r d)
  then show ?thesis
    using simple_ops_keep(4) [of lib "sy_db y" "sy_used y" ok now] assms(2)
    by simp (intro system_ok_keeps; auto simp: system_ok_def)
next
  case (op_expire_one u disk_ok row_ok)
  then show ?thesis
    using expire_one_keeps [of lib "sy_server y"] assms(2) chunk_files_only(5,6) [of True u "sy_st y"]
    by simp (intro system_ok_keeps; auto simp: system_ok_def store_sound_def expire_one_def)
next
  case (op_upload fault touch_ok now body r st)
  then show ?thesis
    using save_sound [of lib "sy_st y" fault touch_ok now body] blob_ops_temps(1) [of "lib_digest lib" fault touch_ok now body "sy_st y"]
      assms(2) by simp (intro system_ok_store; simp add: system_ok_def)
next
  case (op_sweep rm_ok cutoff i m st)
  then show ?thesis
    using sweep_sound [of lib "sy_st y" rm_ok cutoff i] blob_ops_temps(2) [of rm_ok cutoff i "sy_st y"] assms(2)
    by simp (intro system_ok_store; simp add: system_ok_def)
next
  case (op_touch now i)
  then show ?thesis
    using touch_sound [of lib "sy_st y" True now i] blob_ops_temps(3) [of True now i "sy_st y"] assms(2)
    by simp (intro system_ok_store; simp add: system_ok_def)
qed (use assms(2) in \<open>auto simp: system_ok_def\<close>)

lemma upload_init_ok: "upload_init y \<Longrightarrow> system_ok lib y"
  by (simp add: upload_init_def system_ok_def db_sound_def store_sound_def)

interpretation uploads: invariant_system upload_init "upload_step lib" "system_ok lib" for lib
  by unfold_locales (auto intro: upload_init_ok upload_step_ok)

text \<open>
  C20: uploads keep their integrity. Whatever requests run at once and whatever calls fail, every stored file is named by its
  own checksum; a session that has a file id has been completed once, with content of exactly the declared size that
  agrees with the declared checksum; and every completion that was answered with a file id got the one its session records.
\<close>

theorem uploads_keep_integrity:
  assumes "reach upload_init (upload_step lib) y"
  shows "(\<forall>b \<in> set (blobs (sy_st y)). lib_digest lib (b_content b) = b_name b) \<and>
    (\<forall>s \<in> set (sessions (sy_db y)). \<forall>f. us_file_id s = Some f \<longrightarrow>
       us_status s \<in> {UploadCompleted, UploadCancelled} \<and>
       (\<exists>content. lib_digest lib content = f \<and> int (length content) = us_file_size s) \<and>
       (\<forall>c. us_file_checksum s = Some c \<longrightarrow> c = [] \<or> EqualFold c f)) \<and>
    (\<forall>i req f. sy_completes y i = Some (req, CDone (Success f)) \<longrightarrow>
       (\<forall>s \<in> set (sessions (sy_db y)). us_id s = cr_upload req \<longrightarrow> us_file_id s = Some f))"
proof -
  have ok: "system_ok lib y" using uploads.reach_inv [OF assms] .
  have "complete_ok lib (sy_used y) (sy_server y) (cr_upload req) (CDone (Success f))"
    if "sy_completes y i = Some (req, CDone (Success f))" for i req f
    using ok that unfolding system_ok_def by blast
  moreover have "session_ok lib s" if "s \<in> set (sessions (sy_db y))" for s
    using ok that by (simp add: system_ok_def db_sound_def)
  ultimately show ?thesis
    using ok by (fastforce simp: system_ok_def store_sound_def session_ok_def good_file_def for_session_def split: option.splits)
qed

definition ex_server :: upload_server where
  "ex_server = \<lparr>up_db = \<lparr>sessions = [], chunk_rows = [], file_rows = []\<rparr>,
     up_st = \<lparr>base_dir = ''/d'', chunk_files = (\<lambda>_. None), temp_files = (\<lambda>_. None), blobs = [], outputs = []\<rparr>\<rparr>"

definition ex_system :: upload_system where
  "ex_system = \<lparr>sy_server = ex_server, sy_chunks = (\<lambda>_. None), sy_completes = (\<lambda>_. None), sy_cancels = {}, sy_used = {}\<rparr>"

theorem uploads_keep_integrity_witness:
  "\<exists>y. reach upload_init (upload_step ex_lib) y \<and> blobs (sy_st y) \<noteq> [] \<and> lib_digest ex_lib (b_content (hd (blobs (sy_st y)))) = b_name (hd (blobs (sy_st y)))"
proof -
  let ?r = "SaveFileByContent (lib_digest ex_lib) IODone True 7 ''abc'' (sy_st ex_system)"
  let ?y = "ex_system\<lparr>sy_server := (sy_server ex_system)\<lparr>up_st := snd ?r\<rparr>\<rparr>"
  have "reach upload_init (upload_step ex_lib) ex_system"
    by (rule reach_init) (simp add: upload_init_def ex_system_def ex_server_def)
  then have r: "reach upload_init (upload_step ex_lib) ?y"
    by (rule reach_step) (rule op_upload [of ex_lib IODone True 7 "''abc''" ex_system "fst ?r" "snd ?r"], simp)
  moreover have "blobs (sy_st ?y) \<noteq> []"
    by (simp add: SaveFileByContent_def put_blob_def FileExists_def Let_def ex_system_def ex_server_def)
  ultimately show ?thesis
    using uploads_keep_integrity [OF r] by (meson hd_in_set)
qed

subsection \<open>Progress and resumption\<close>

lemma sum_uploaded:
  assumes "distinct ks" "n > 0"
  shows "sum_list (map (chunk_len n cs fs) ks) =
    (if n - 1 \<in> set ks then (int (length ks) - 1) * cs + (fs - cs * (n - 1)) else int (length ks) * cs)"
  using assms by (induction ks) (auto simp: chunk_len_def algebra_simps)

lemma last_chunk_len:
  assumes "chunking n cs fs"
  shows "fs - cs * (n - 1) = (if fs mod cs = 0 then cs else fs mod cs)"
proof -
  define r where "r = fs - cs * (n - 1)"
  have r: "0 < r" "r \<le> cs" "0 < cs" using assms by (auto simp: chunking_def r_def right_diff_distrib)
  have "fs mod cs = (cs * (n - 1) + r) mod cs" by (simp add: r_def)
  then have m: "fs mod cs = r mod cs" by simp
  show ?thesis
  proof (cases "r = cs")
    case True
    with m show ?thesis by (simp flip: r_def)
  next
    case False
    with m r show ?thesis by (simp flip: r_def)
  qed
qed

text \<open>
  Progress and resumption. The uploaded size is the sum of the sizes of the recorded chunks, but for one case: with the last
  chunk recorded, others missing, and a file of whole chunks, it is the size of the whole file. The missing chunks of a resumption
  are exactly the others, in order.
\<close>

theorem progress_and_missing:
  assumes "session_ok lib s"
  defines "n \<equiv> us_total_chunks s" and "cs \<equiv> us_chunk_size s" and "fs \<equiv> us_file_size s" and "ks \<equiv> us_uploaded s"
  shows "uploaded_size s =
      (if n - 1 \<in> set ks \<and> int (length ks) < n \<and> fs mod cs = 0 then fs else sum_list (map (chunk_len n cs fs) ks)) \<and>
    (\<exists>missing. ResumeChunkUpload env u \<lparr>up_db = \<lparr>sessions = [s\<lparr>us_id := u\<rparr>], chunk_rows = cr, file_rows = fr\<rparr>, up_st = st\<rparr> =
        (if ue_ok env then Success (s\<lparr>us_id := u\<rparr>, ks, missing) else Failure 404 ErrCodeNotFound) \<and>
      sorted_wrt (<) missing \<and> set missing = {0..<n} - set ks)"
proof
  have ch: "chunking n cs fs" and ks: "distinct ks" "set ks \<subseteq> {0..<n}" using assms by (simp_all add: session_ok_def)
  have n: "0 < n" "0 < cs" using ch by (simp_all add: chunking_def)
  have le: "int (length ks) \<le> n"
    using card_mono [OF _ ks(2)] ks(1) n by (simp add: distinct_card)
  have all: "sum_list (map (chunk_len n cs fs) ks) = fs" if full: "int (length ks) = n"
  proof -
    have "card (set ks) = card {0..<n}" using full ks(1) n by (simp add: distinct_card)
    then have "set ks = {0..<n}" using card_subset_eq [OF _ ks(2)] by simp
    then have "n - 1 \<in> set ks" using n by simp
    with sum_uploaded [OF ks(1) n(1), of cs fs] full show ?thesis by (simp add: algebra_simps)
  qed
  show "uploaded_size s =
      (if n - 1 \<in> set ks \<and> int (length ks) < n \<and> fs mod cs = 0 then fs else sum_list (map (chunk_len n cs fs) ks))"
  proof (cases "int (length ks) = n")
    case True
    then show ?thesis using all unfolding uploaded_size_def n_def cs_def fs_def ks_def Let_def by simp
  next
    case False
    then have lt: "int (length ks) < n" using le by simp
    have some: "n - 1 \<in> set ks \<Longrightarrow> 0 < int (length ks)" by (cases ks) simp_all
    have "uploaded_size s = (if 0 < int (length ks) \<and> n - 1 \<in> set ks
        then (if fs mod cs = 0 then fs else (int (length ks) - 1) * cs + fs mod cs) else int (length ks) * cs)"
      using False by (simp only: uploaded_size_def Let_def n_def cs_def fs_def ks_def if_False)
    then show ?thesis
      using sum_uploaded [OF ks(1) n(1), of cs fs] last_chunk_len [OF ch] lt some by simp
  qed
  let ?missing = "filter (\<lambda>i. i \<notin> set ks) (chunk_indices n)"
  have "sorted_wrt (<) (chunk_indices n)" by (simp add: chunk_indices_def sorted_wrt_map)
  then have "sorted_wrt (<) ?missing" by (rule sorted_wrt_filter)
  moreover have "set ?missing = {0..<n} - set ks" using n(1) by (auto simp: chunk_indices_def image_int_atLeastLessThan)
  moreover have "ResumeChunkUpload env u \<lparr>up_db = \<lparr>sessions = [s\<lparr>us_id := u\<rparr>], chunk_rows = cr, file_rows = fr\<rparr>, up_st = st\<rparr> =
      (if ue_ok env then Success (s\<lparr>us_id := u\<rparr>, ks, ?missing) else Failure 404 ErrCodeNotFound)"
    by (simp add: ResumeChunkUpload_def GetUploadSession_def ks_def n_def)
  ultimately show "\<exists>missing. ResumeChunkUpload env u \<lparr>up_db = \<lparr>sessions = [s\<lparr>us_id := u\<rparr>], chunk_rows = cr, file_rows = fr\<rparr>, up_st = st\<rparr> =
        (if ue_ok env then Success (s\<lparr>us_id := u\<rparr>, ks, missing) else Failure 404 ErrCodeNotFound) \<and>
      sorted_wrt (<) missing \<and> set missing = {0..<n} - set ks"
    by (intro exI [of _ ?missing] conjI)
qed

definition ex_session :: upload_session where
  "ex_session = (new_session ''u'' 0 ''f.mp4'' 6 2 3 None)\<lparr>us_uploaded := [2]\<rparr>"

text \<open>Two of three chunks are missing, and the progress is that of the complete file.\<close>

theorem progress_and_missing_witness: "uploaded_size ex_session = 6 \<and> us_uploaded ex_session = [2]"
proof -
  have "session_ok ex_lib ex_session"
    by (simp add: session_ok_def ex_session_def new_session_def chunking_def MaxTotalChunks_def)
  from progress_and_missing [OF this, THEN conjunct1] show ?thesis by (simp add: ex_session_def new_session_def)
qed

end
