(* ===== verification/UploadRoundtrip.thy ===== *)
theory UploadRoundtrip
  imports UploadClient UploadGuarantees
begin

section \<open>A file from the command line to the store\<close>

text \<open>
  The client of \<^verbatim>\<open>UploadClient\<close> against the server of \<^verbatim>\<open>ChunkUpload\<close>: what it uploads is what is stored, also when requests and
  answers are lost on the way.
\<close>

subsection \<open>Slices and forms\<close>

lemma file_slice_eq: "0 \<le> cs \<Longrightarrow> 0 \<le> i \<Longrightarrow> file_slice data cs i = take (nat cs) (drop (nat (i * cs)) data)"
  by (auto simp: file_slice_def Let_def nat_diff_distrib)

lemma concat_slices: "concat (map (\<lambda>i. take c (drop (i * c) data)) [0..<m]) = take (m * c) data"
proof (induction m)
  case (Suc m)
  have "take (m * c) data @ take c (drop (m * c) data) = take (Suc m * c) data"
    by (simp only: take_add [symmetric] mult_Suc add.commute)
  then show ?case using Suc by simp
qed simp

lemma slices_cover:
  assumes "chunking n cs (int (length data))"
  shows "concat (map (file_slice data cs) (chunk_indices n)) = data"
proof -
  have n: "0 < n" "0 < cs" "int (length data) \<le> cs * n" using assms by (auto simp: chunking_def)
  have "map (file_slice data cs) (chunk_indices n) = map (\<lambda>i. take (nat cs) (drop (i * nat cs) data)) [0..<nat n]"
    using n by (auto simp: chunk_indices_def file_slice_eq nat_mult_distrib)
  moreover have "length data \<le> nat n * nat cs"
    using n by (simp flip: nat_mult_distrib) (simp add: mult.commute le_nat_iff)
  ultimately show ?thesis by (simp add: concat_slices)
qed

lemma slice_length:
  assumes "chunking n cs (int (length data))" "0 \<le> i" "i < n"
  shows "int (length (file_slice data cs i)) = chunk_len n cs (int (length data)) i"
proof -
  have n: "0 < cs" "cs * (n - 1) < int (length data)" "int (length data) \<le> cs * n" using assms(1) by (auto simp: chunking_def)
  show ?thesis
  proof (cases "i = n - 1")
    case True
    then have "i * cs < int (length data)" "int (length data) \<le> i * cs + cs" "0 \<le> i * cs"
      using n assms(2) by (auto simp: algebra_simps)
    then have "int (length (file_slice data cs i)) = int (length data) - i * cs"
      using n(1) by (auto simp: file_slice_def Let_def)
    then show ?thesis using True by (simp add: chunk_len_def mult.commute)
  next
    case False
    then have "cs * (i + 1) \<le> cs * (n - 1)" using assms(3) n(1) by (intro mult_left_mono) auto
    then have "i * cs + cs < int (length data)" using n(2) by (simp add: algebra_simps)
    moreover have "0 \<le> i * cs" using assms(2) n(1) by simp
    ultimately show ?thesis using False n(1) by (auto simp: file_slice_def Let_def chunk_len_def)
  qed
qed

text \<open>The headers of a form fit into the room the server leaves for them.\<close>

lemma form_fits:
  assumes "length boundary \<le> 70" "length (lib_digest lib chunkData) = 64" "int (length chunkData) \<le> cs" "0 < cs" "cs \<le> MaxChunkSize"
  shows "chunk_form lib boundary cs chunkData = Some (chunkData, lib_digest lib chunkData)"
  using assms by (simp add: chunk_form_def calculateChunkMultipartSize_def form_limit_def crlf_def quoted_def)

subsection \<open>A server without faults\<close>

definition quiet :: "upload_env \<Rightarrow> bool" where
  "quiet e \<longleftrightarrow> ue_ok e \<and> ue_read_ok e \<and> ue_fault e = IODone \<and> (\<forall>i. ue_stat_ok e i) \<and> \<not> ue_cancelled e"

text \<open>The session of the upload is open, and its chunks on disk are slices of the file, those of \<open>got\<close> at least.\<close>

definition uploading :: "string \<Rightarrow> upload_session \<Rightarrow> int set \<Rightarrow> upload_server \<Rightarrow> bool" where
  "uploading data ss got srv \<longleftrightarrow>
     (\<exists>sx. find_session (us_id ss) (up_db srv) = Some sx \<and> same_upload ss sx \<and> us_status sx = UploadInProgress) \<and>
     (\<forall>i. chunk_files (up_st srv) (us_id ss, i) = None \<or> chunk_files (up_st srv) (us_id ss, i) = Some (file_slice data (us_chunk_size ss) i)) \<and>
     (\<forall>i \<in> got. chunk_files (up_st srv) (us_id ss, i) = Some (file_slice data (us_chunk_size ss) i))"

text \<open>The storage besides the chunk files.\<close>

definition same_blobs :: "upload_server \<Rightarrow> upload_server \<Rightarrow> bool" where
  "same_blobs a b \<longleftrightarrow> blobs (up_st a) = blobs (up_st b) \<and> base_dir (up_st a) = base_dir (up_st b)"

lemma uploading_db:
  assumes "uploading data ss got srv" "find_session (us_id ss) d' = Some sx'" "same_upload ss sx'" "us_status sx' = UploadInProgress"
  shows "uploading data ss got (srv\<lparr>up_db := d'\<rparr>)"
  using assms by (simp add: uploading_def)

lemma track_quiet:
  assumes q: "\<And>n. quiet (env n)" and up: "uploading data ss got srv" and req: "kr_upload req = us_id ss"
  shows "\<exists>srv'. UploadChunk_run lib env req (KTrackRead b i (Suc n)) srv = (Some (Success b), srv') \<and>
    uploading data ss got srv' \<and> same_blobs srv' srv"
proof -
  note run = UploadChunk_run.simps [where lib = lib and env = env and req = req]
  obtain sx where sx: "find_session (us_id ss) (up_db srv) = Some sx" "same_upload ss sx" "us_status sx = UploadInProgress"
    using up by (auto simp: uploading_def)
  have ok: "ue_ok (env n)" for n using q by (simp add: quiet_def)
  show ?thesis
  proof (cases "i \<in> set (us_uploaded sx)")
    case True
    then show ?thesis
      using sx ok req up by (simp add: run add_chunk_read_def GetUploadSession_def same_blobs_def)
  next
    case False
    let ?old = "us_uploaded sx" and ?e = "env (2 * n + 3)"
    let ?P = "\<lambda>s. us_id s = us_id ss \<and> us_uploaded s = ?old"
    have hit: "rows_affected ?P (sessions (up_db srv)) > 0"
      using find_row_SomeD [OF sx(1)] rows_affected_0 [of ?P "sessions (up_db srv)"] by auto
    let ?d = "upd_sessions ?P (\<lambda>s. s\<lparr>us_uploaded := ?old @ [i], us_updated_at := ue_now ?e\<rparr>) (up_db srv)"
    have "find_session (us_id ss) ?d = Some (sx\<lparr>us_uploaded := ?old @ [i], us_updated_at := ue_now ?e\<rparr>)"
      using sx(1) find_row_SomeD [OF sx(1)] by (simp add: upd_sessions_def find_row_upd_where)
    from uploading_db [OF up this] have "uploading data ss got (srv\<lparr>up_db := ?d\<rparr>)"
      using sx(2,3) by (simp add: same_upload_def)
    moreover have "UploadChunk_run lib env req (KTrackRead b i (Suc n)) srv = (Some (Success b), srv\<lparr>up_db := ?d\<rparr>)"
      using sx ok req hit False
      by (simp add: run add_chunk_read_def GetUploadSession_def add_chunk_swap_def Let_def)
    ultimately show ?thesis by (auto simp: same_blobs_def)
  qed
qed


lemma find_session_id: "find_session u d = Some sx \<Longrightarrow> us_id sx = u"
  by (auto dest: find_row_SomeD)

lemma expected_chunk_len:
  assumes "chunking (us_total_chunks ss) (us_chunk_size ss) (us_file_size ss)" "same_upload ss sx"
  shows "expectedChunkSize sx i = Some (chunk_len (us_total_chunks ss) (us_chunk_size ss) (us_file_size ss) i)"
  using assms by (auto simp: expectedChunkSize_def chunk_len_def same_upload_def chunking_def Let_def)

lemma record_quiet:
  assumes q: "quiet e" and up: "uploading data ss got srv"
  shows "\<exists>c d. CreateUploadChunk (ue_ok e) (ue_read_ok e) i now (us_id ss) k n ck p (up_db srv) = (Inr c, d) \<and>
    uploading data ss got (srv\<lparr>up_db := d\<rparr>)"
proof -
  let ?d = "if list_ex (same_chunk (us_id ss) k) (chunk_rows (up_db srv)) then up_db srv
    else (up_db srv)\<lparr>chunk_rows := chunk_rows (up_db srv) @
      [\<lparr>uc_id = i, uc_upload_id = us_id ss, uc_chunk_index = k, uc_chunk_size = n, uc_checksum = ck, uc_path = p, uc_created_at = now\<rparr>]\<rparr>"
  have "list_ex (same_chunk (us_id ss) k) (chunk_rows ?d)" by (auto simp: same_chunk_def)
  then obtain c where c: "List.find (same_chunk (us_id ss) k) (chunk_rows ?d) = Some c"
    by (metis find_None_iff list_ex_iff not_None_eq)
  have "uploading data ss got (srv\<lparr>up_db := ?d\<rparr>)" using up by (simp add: uploading_def)
  moreover have "find_session (us_id ss) (up_db srv) \<noteq> None" using up by (auto simp: uploading_def)
  ultimately show ?thesis
    using q c by (simp add: CreateUploadChunk_def GetUploadChunk_def quiet_def Let_def cong: if_cong)
qed

definition slice_request :: "upload_lib \<Rightarrow> string \<Rightarrow> upload_session \<Rightarrow> int \<Rightarrow> chunk_request" where
  "slice_request lib data ss i = (let c = file_slice data (us_chunk_size ss) i
     in \<lparr>kr_upload = us_id ss, kr_index = Some i, kr_form = Some (c, lib_digest lib c)\<rparr>)"

definition session_of :: "string \<Rightarrow> upload_session \<Rightarrow> bool" where
  "session_of data ss \<longleftrightarrow> chunking (us_total_chunks ss) (us_chunk_size ss) (us_file_size ss) \<and> us_file_size ss = int (length data)"

lemma UploadChunk_quiet:
  assumes q: "\<And>n. quiet (env n)" and so: "session_of data ss" and up: "uploading data ss got srv"
    and i: "0 \<le> i" "i < us_total_chunks ss"
  shows "\<exists>b srv'. UploadChunk lib env (slice_request lib data ss i) srv = (Some (Success b), srv') \<and>
    uploading data ss (insert i got) srv' \<and> same_blobs srv' srv"
proof -
  let ?req = "slice_request lib data ss i" and ?c = "file_slice data (us_chunk_size ss) i"
  note run = UploadChunk_run.simps [where lib = lib and env = env and req = ?req]
  obtain sx where sx: "find_session (us_id ss) (up_db srv) = Some sx" "same_upload ss sx" "us_status sx = UploadInProgress"
    using up by (auto simp: uploading_def)
  define n where "n = chunk_len (us_total_chunks ss) (us_chunk_size ss) (us_file_size ss) i"
  have ch: "chunking (us_total_chunks ss) (us_chunk_size ss) (int (length data))" using so unfolding session_of_def by metis
  have len: "int (length ?c) = n" using slice_length [OF ch i] so by (simp add: n_def session_of_def)
  have exp: "expectedChunkSize sx i = Some n"
    using expected_chunk_len [OF _ sx(2)] so unfolding session_of_def n_def by blast
  have env: "ue_ok (env m)" "ue_read_ok (env m)" "ue_fault (env m) = IODone" "\<not> ue_cancelled (env m)" for m
    using q [of m] by (simp_all add: quiet_def)
  have req: "kr_upload ?req = us_id ss" "kr_index ?req = Some i" "kr_form ?req = Some (?c, lib_digest lib ?c)"
    by (simp_all add: slice_request_def Let_def)
  have first: "UploadChunk lib env ?req srv = UploadChunk_run lib env ?req (KExists sx i n) srv"
    using sx exp env req i same_upload_def
    by (simp add: UploadChunk_def run [of KLookup] GetUploadSession_def maxChunkUpdateRetries_def)
  show ?thesis
  proof (cases "ChunkExists (us_id ss) i n (up_st srv)")
    case True
    then obtain c where "chunk_files (up_st srv) (us_id ss, i) = Some c" by (auto simp: ChunkExists_iff)
    moreover from this have "c = ?c" using up unfolding uploading_def by (metis option.distinct(1) option.inject)
    ultimately have "uploading data ss (insert i got) srv" using up by (simp add: uploading_def)
    from track_quiet [where env = env and lib = lib and b = True and i = i and n = "maxChunkUpdateRetries - 1", OF q this req(1)] show ?thesis
      using True req env by (auto simp: first run [of "KExists sx i n"] maxChunkUpdateRetries_def numeral_3_eq_3)
  next
    case False
    let ?st = "(up_st srv)\<lparr>chunk_files := (chunk_files (up_st srv))((us_id ss, i) := Some ?c)\<rparr>"
    have up2: "uploading data ss (insert i got) (srv\<lparr>up_st := ?st\<rparr>)" using up by (auto simp: uploading_def)
    let ?e = "env (2 * maxChunkUpdateRetries + 3)"
    obtain c d where cd: "CreateUploadChunk (ue_ok ?e) (ue_read_ok ?e) (ue_uid ?e) (ue_now ?e) (us_id ss) i n (lib_digest lib ?c)
        (ChunkPath (lib_itoa lib) (up_st srv) (us_id ss) i) (up_db srv) = (Inr c, d)"
      "uploading data ss (insert i got) (srv\<lparr>up_st := ?st, up_db := d\<rparr>)"
      using record_quiet [OF q up2] by fastforce
    have "UploadChunk lib env ?req srv =
        UploadChunk_run lib env ?req (KTrackRead False i maxChunkUpdateRetries) (srv\<lparr>up_st := ?st, up_db := d\<rparr>)"
      using False req env len cd(1)
      by (simp add: first run [of "KExists sx i n"] run [of "KSave i n"] run [of "KRecord i p m k" for p m k] SaveChunk_def
          EqualFold_def Let_def maxChunkUpdateRetries_def)
    with track_quiet [where env = env and lib = lib and b = False and i = i and n = "maxChunkUpdateRetries - 1", OF q cd(2) req(1)] show ?thesis
      by (auto simp: maxChunkUpdateRetries_def numeral_3_eq_3 same_blobs_def)
  qed
qed

subsection \<open>A lossy network\<close>

text \<open>Losses have an error text that asks for another attempt, and one of the attempts is answered.\<close>

definition lossy :: "(nat \<Rightarrow> transport) \<Rightarrow> bool" where
  "lossy net \<longleftrightarrow> list_ex (\<lambda>a. net a = Answered) [0..<MaxChunkRetries] \<and>
     list_all (\<lambda>a. case net a of Answered \<Rightarrow> True | RequestLost t txt \<Rightarrow> isRetryableError t txt | AnswerLost t txt \<Rightarrow> isRetryableError t txt)
       [0..<MaxChunkRetries]"

lemma Contains_prefixed: "Contains txt w \<Longrightarrow> Contains (p @ txt) w"
  unfolding Contains_iff sublist_def by (metis append.assoc)

lemma retryable_prefixed: "isRetryableError t txt \<Longrightarrow> isRetryableError t (p @ txt)"
  unfolding isRetryableError_def list_ex_iff using Contains_prefixed by blast

lemma same_blobs_trans: "same_blobs a b \<Longrightarrow> same_blobs b c \<Longrightarrow> same_blobs a c"
  by (simp add: same_blobs_def)

lemma same_blobs_refl [simp]: "same_blobs a a"
  by (simp add: same_blobs_def)

definition fits :: "upload_lib \<Rightarrow> string \<Rightarrow> string \<Rightarrow> upload_session \<Rightarrow> bool" where
  "fits lib boundary data ss \<longleftrightarrow> length boundary \<le> 70 \<and> us_chunk_size ss \<le> MaxChunkSize \<and> (\<forall>c. length (lib_digest lib c) = 64)"

lemma slice_form:
  assumes "fits lib boundary data ss" "session_of data ss"
  shows "\<lparr>kr_upload = us_id ss, kr_index = Some i,
      kr_form = chunk_form lib boundary (us_chunk_size ss) (file_slice data (us_chunk_size ss) i)\<rparr> = slice_request lib data ss i"
proof -
  have "int (length (file_slice data (us_chunk_size ss) i)) \<le> us_chunk_size ss" "0 < us_chunk_size ss"
    using assms(2) by (auto simp: file_slice_def Let_def session_of_def chunking_def)
  then show ?thesis
    using assms(1) by (simp add: slice_request_def Let_def form_fits fits_def)
qed

lemma chunk_attempts_quiet:
  assumes q: "\<And>a n. quiet (env a n)" and so: "session_of data ss" and fits: "fits lib boundary data ss"
    and i: "0 \<le> i" "i < us_total_chunks ss" and net: "lossy net"
  shows "left \<le> MaxChunkRetries \<Longrightarrow> list_ex (\<lambda>a. net a = Answered) [MaxChunkRetries - left..<MaxChunkRetries] \<Longrightarrow>
    uploading data ss got srv \<Longrightarrow>
    \<exists>srv'. chunk_attempts lib msg boundary net env data (us_id ss) (us_chunk_size ss) i left err srv = (None, srv') \<and>
      uploading data ss (insert i got) srv' \<and> same_blobs srv' srv"
proof (induction left arbitrary: err srv got)
  case (Suc left)
  let ?a = "MaxChunkRetries - Suc left"
  have range: "[?a..<MaxChunkRetries] = ?a # [MaxChunkRetries - left..<MaxChunkRetries]"
    using Suc.prems(1) by (simp add: upt_conv_Cons Suc_diff_Suc)
  obtain b srv1 where b: "UploadChunk lib (env ?a) (slice_request lib data ss i) srv = (Some (Success b), srv1)"
      "uploading data ss (insert i got) srv1" "same_blobs srv1 srv"
    using UploadChunk_quiet [where env = "env ?a", OF q so Suc.prems(3) i] by blast
  have retry_sound: "case net ?a of Answered \<Rightarrow> True | RequestLost t txt \<Rightarrow> isRetryableError t txt | AnswerLost t txt \<Rightarrow> isRetryableError t txt"
    using net Suc.prems(1) by (simp add: lossy_def list_all_iff)
  note attempt = uploadSingleChunk_def [of lib msg boundary _ "env ?a" data "us_id ss" "us_chunk_size ss" i] slice_form [OF fits so] b(1)
  show ?case
  proof (cases "net ?a")
    case Answered
    then show ?thesis using b by (simp add: attempt Let_def)
  next
    case (RequestLost t w)
    then have "list_ex (\<lambda>a. net a = Answered) [MaxChunkRetries - left..<MaxChunkRetries]"
      using Suc.prems(2) by (simp add: range)
    from Suc.IH [OF _ this Suc.prems(3)] Suc.prems(1) show ?thesis
      using RequestLost retry_sound retryable_prefixed [of t w "''chunk request failed: ''"] by (simp add: attempt Let_def)
  next
    case (AnswerLost t w)
    then have "list_ex (\<lambda>a. net a = Answered) [MaxChunkRetries - left..<MaxChunkRetries]"
      using Suc.prems(2) by (simp add: range)
    from Suc.IH [OF _ this b(2)] Suc.prems(1) obtain srv' where "chunk_attempts lib msg boundary net env data (us_id ss)
        (us_chunk_size ss) i left (t, ''chunk request failed: '' @ w) srv1 = (None, srv')"
        "uploading data ss (insert i got) srv'" "same_blobs srv' srv1"
      by fastforce
    then show ?thesis
      using AnswerLost retry_sound retryable_prefixed [of t w "''chunk request failed: ''"] same_blobs_trans [OF _ b(3)]
      by (simp add: attempt Let_def)
  qed
qed simp

lemma upload_chunks_quiet:
  assumes q: "\<And>i a n. quiet (env i a n)" and so: "session_of data ss" and fits: "fits lib boundary data ss"
    and net: "\<And>i. lossy (net i)"
  shows "\<forall>i \<in> set is. 0 \<le> i \<and> i < us_total_chunks ss \<Longrightarrow> uploading data ss got srv \<Longrightarrow>
    \<exists>srv'. upload_chunks lib msg boundary net env data (us_id ss) (us_chunk_size ss) is srv = (None, srv') \<and>
      uploading data ss (set is \<union> got) srv' \<and> same_blobs srv' srv"
proof (induction "is" arbitrary: got srv)
  case (Cons i "is")
  have "list_ex (\<lambda>a. net i a = Answered) [MaxChunkRetries - MaxChunkRetries..<MaxChunkRetries]"
    using net [of i] by (simp add: lossy_def)
  with chunk_attempts_quiet [of "env i" data ss lib boundary i "net i" MaxChunkRetries got srv msg "(False, [])"] q so fits net Cons.prems
  obtain srv1 where 1: "uploadChunkWithRetry lib msg boundary (net i) (env i) data (us_id ss) (us_chunk_size ss) i srv = (None, srv1)"
      "uploading data ss (insert i got) srv1" "same_blobs srv1 srv"
    by (auto simp: uploadChunkWithRetry_def)
  from Cons.IH [OF _ 1(2)] Cons.prems(1) obtain srv' where
    "upload_chunks lib msg boundary net env data (us_id ss) (us_chunk_size ss) is srv1 = (None, srv')"
    "uploading data ss (set is \<union> insert i got) srv'" "same_blobs srv' srv1" by auto
  then show ?case using 1(1) same_blobs_trans [OF _ 1(3)] by simp
qed simp

subsection \<open>Completion\<close>

lemma rows_found: "find_row key i xs = Some x \<Longrightarrow> P x \<Longrightarrow> rows_affected P xs > 0"
  using rows_affected_0 [of P xs] by (auto dest!: find_row_SomeD)

lemma find_put_blob: "find_blob i (put_blob i content m st) = Some \<lparr>b_name = i, b_content = content, b_mtime = m\<rparr>"
proof -
  have "find_row b_name i (filter (\<lambda>b. b_name b \<noteq> i) (blobs st)) = None" by (auto simp: find_row_None)
  then show ?thesis by (simp add: put_blob_def find_row_append)
qed

lemma CreateFile_ok: "\<exists>r d'. CreateFile True True i now a p n c d = (Inr r, d') \<and> sessions d' = sessions d"
proof -
  let ?d = "d\<lparr>file_rows := file_rows d @
    [\<lparr>fi_id = i, fi_filename = a, fi_path = p, fi_size = n, fi_checksum = c, fi_created_at = now\<rparr>]\<rparr>"
  obtain r where "find_row fi_id i (file_rows ?d) = Some r"
    by (cases "find_row fi_id i (file_rows ?d)") (auto simp: find_row_None)
  then show ?thesis by (simp add: CreateFile_def GetFile_def Let_def)
qed

lemma assembled_quiet:
  assumes q: "quiet e" and so: "session_of data ss" and up: "uploading data ss {0..<us_total_chunks ss} srv"
  shows "AssembleChunks digest (ue_stat_ok e) (ue_fault e) now tmp (us_id ss) (us_total_chunks ss) (us_chunk_size ss) (us_file_size ss) (up_st srv) =
    (Inr (tmp, us_file_size ss, digest data), (up_st srv)\<lparr>temp_files := (temp_files (up_st srv))(tmp := Some (data, now))\<rparr>)"
proof -
  let ?n = "us_total_chunks ss" and ?cs = "us_chunk_size ss" and ?fs = "us_file_size ss"
  have ch: "chunking ?n ?cs (int (length data))" and fs: "?fs = int (length data)"
    using so unfolding session_of_def by (metis, blast)
  have at: "chunk_files (up_st srv) (us_id ss, i) = Some (file_slice data ?cs i)" if "i \<in> set (chunk_indices ?n)" for i
    using up that by (auto simp: uploading_def chunk_indices_def)
  have all: "list_all (\<lambda>i. ChunkExists (us_id ss) i (chunk_len ?n ?cs ?fs i) (up_st srv)) (chunk_indices ?n)"
    using at slice_length [OF ch] by (auto simp: list_all_iff ChunkExists_iff fs chunk_indices_def)
  have "map (chunk_at (up_st srv) (us_id ss)) (chunk_indices ?n) = map (file_slice data ?cs) (chunk_indices ?n)"
    using at by (simp add: chunk_at_def)
  then have content: "file_of (up_st srv) (us_id ss) ?n = data"
    using slices_cover [OF ch] by (simp only: file_of_def)
  have stat: "\<And>i. ue_stat_ok e i" and fault: "ue_fault e = IODone" using q by (simp_all add: quiet_def)
  have "chunking ?n ?cs ?fs" using ch fs by metis
  then show ?thesis
    using collect_sources_spec(1) [where stat_ok = "ue_stat_ok e", OF stat all] fault content by (simp add: AssembleChunks_eq)
qed

text \<open>After the assembly: the temporary file holds the data, and the session is claimed.\<close>

lemma published_quiet:
  assumes q: "\<And>n. quiet (env n)" and u: "cr_upload req = us_id ss"
    and tmp: "temp_files (up_st srv) t = Some (data, now)" and f: "f = lib_digest lib data"
    and sx: "find_session (us_id ss) (up_db srv) = Some sx" "us_status sx = UploadAssembling"
  shows "\<exists>srv' b. CompleteChunkUpload_run lib env req (CStat ss t n f) srv = (Some (Success f), srv') \<and>
    find_blob f (up_st srv') = Some b \<and>
    (case find_blob f (up_st srv) of None \<Rightarrow> b_content b = data | Some old \<Rightarrow> b = old)"
proof -
  note run = CompleteChunkUpload_run.simps [where lib = lib and env = env and req = req]
  have env: "ue_ok (env m)" "ue_read_ok (env m)" for m using q [of m] by (simp_all add: quiet_def)
  have recorded: "\<exists>srv'. CompleteChunkUpload_run lib env req (CRecord ss n f p) s = (Some (Success f), srv') \<and> up_st srv' = up_st s"
    if db: "up_db s = up_db srv" for s p
  proof -
    obtain r d where r: "CreateFile True True (ue_uid (env 4)) (ue_now (env 4)) (us_filename ss) (GetFilePath (up_st s) f) n (Some f) (up_db s)
        = (Inr r, d)" "sessions d = sessions (up_db srv)"
      using CreateFile_ok [of "ue_uid (env 4)" "ue_now (env 4)" "us_filename ss" "GetFilePath (up_st s) f" n "Some f" "up_db s"] db by auto
    let ?P = "\<lambda>s. us_id s = us_id ss \<and> us_status s = UploadAssembling"
    have "rows_affected ?P (sessions d) \<noteq> 0" using rows_found [OF sx(1)] sx find_session_id r(2) by simp
    then show ?thesis
      using r(1) env u
      by (simp add: run [of "CRecord ss n f p"] run [of "CFinish f"] run [of "CDone r" for r] CompleteUploadSession_def Let_def)
  qed
  show ?thesis
  proof (cases "FileExists f (up_st srv)")
    case True
    then obtain b where "find_blob f (up_st srv) = Some b" by (auto simp: FileExists_def)
    with True recorded [of "drop_temp t srv" False] show ?thesis
      using env by (auto simp: run [of "CStat ss t n f"] drop_temp_def)
  next
    case False
    with recorded [of "drop_temp t (srv\<lparr>up_st := put_blob f data now (up_st srv)\<rparr>)" True] show ?thesis
      using env tmp find_put_blob [of f data now "up_st srv"]
      by (auto simp: run [of "CStat ss t n f"] run [of "CRename ss t n f"] FileExists_def drop_temp_def)
  qed
qed

lemma CompleteChunkUpload_quiet:
  assumes q: "\<And>n. quiet (env n)" and so: "session_of data ss" and up: "uploading data ss {0..<us_total_chunks ss} srv"
    and f: "us_file_checksum ss = Some (lib_digest lib data)"
  shows "\<exists>srv' b. CompleteChunkUpload lib env (Some \<lparr>cr_upload = us_id ss, cr_checksum = lib_digest lib data\<rparr>) srv =
      (Some (Success (lib_digest lib data)), srv') \<and> find_blob (lib_digest lib data) (up_st srv') = Some b \<and>
    (case find_blob (lib_digest lib data) (up_st srv) of None \<Rightarrow> b_content b = data | Some old \<Rightarrow> b = old)"
proof -
  let ?req = "\<lparr>cr_upload = us_id ss, cr_checksum = lib_digest lib data\<rparr>"
  note run = CompleteChunkUpload_run.simps [where lib = lib and env = env and req = ?req]
  have env: "ue_ok (env m)" for m using q [of m] by (simp add: quiet_def)
  obtain sx where sx: "find_session (us_id ss) (up_db srv) = Some sx" "same_upload ss sx" "us_status sx = UploadInProgress"
    using up by (auto simp: uploading_def)
  let ?P = "\<lambda>s. us_id s = us_id ss \<and> us_status s = UploadInProgress"
  let ?d = "upd_sessions ?P (\<lambda>s. s\<lparr>us_status := UploadAssembling, us_updated_at := ue_now (env 8)\<rparr>) (up_db srv)"
  have hit: "rows_affected ?P (sessions (up_db srv)) > 0" using rows_found [OF sx(1)] sx find_session_id by simp
  have claimed: "find_session (us_id ss) ?d = Some (sx\<lparr>us_status := UploadAssembling, us_updated_at := ue_now (env 8)\<rparr>)"
    using sx(1,3) find_session_id [OF sx(1)] by (simp add: upd_sessions_def find_row_upd_where)
  have id: "us_id sx = us_id ss" using find_session_id [OF sx(1)] .
  have sox: "session_of data sx" "us_file_checksum sx = Some (lib_digest lib data)"
    using so sx(2) f unfolding session_of_def same_upload_def by metis+
  have "uploading data sx {0..<us_total_chunks sx} srv"
    using up sx(2) by (auto simp: uploading_def same_upload_def)
  from assembled_quiet [OF q sox(1) this]
  have asm: "AssembleChunks (lib_digest lib) (ue_stat_ok (env 7)) (ue_fault (env 7)) (ue_now (env 7)) (ue_tmp (env 7)) (us_id ss)
      (us_total_chunks sx) (us_chunk_size sx) (us_file_size sx) (up_st srv) =
    (Inr (ue_tmp (env 7), us_file_size sx, lib_digest lib data),
     (up_st srv)\<lparr>temp_files := (temp_files (up_st srv))(ue_tmp (env 7) := Some (data, ue_now (env 7)))\<rparr>)"
    by (simp add: id)
  let ?srv = "srv\<lparr>up_db := ?d, up_st := (up_st srv)\<lparr>temp_files := (temp_files (up_st srv))(ue_tmp (env 7) := Some (data, ue_now (env 7)))\<rparr>\<rparr>"
  have "CompleteChunkUpload lib env (Some ?req) srv =
      CompleteChunkUpload_run lib env ?req (CStat sx (ue_tmp (env 7)) (us_file_size sx) (lib_digest lib data)) ?srv"
    using sx env hit asm sox(2)
    by (simp add: CompleteChunkUpload_def run [of CLookup] run [of "CClaim sx"] run [of "CAssemble sx"] GetUploadSession_def
        ClaimUploadSessionAssembly_def declaredChecksumMismatch_def EqualFold_def Let_def)
  moreover have "find_session (us_id sx) (up_db ?srv) = Some (sx\<lparr>us_status := UploadAssembling, us_updated_at := ue_now (env 8)\<rparr>)"
    using claimed by (simp add: id)
  ultimately show ?thesis
    using published_quiet [where srv = ?srv and ss = sx and env = env and req = ?req and t = "ue_tmp (env 7)" and data = data
        and now = "ue_now (env 7)" and n = "us_file_size sx" and lib = lib, OF q] by (simp add: id)
qed

subsection \<open>From end to end\<close>

definition effective_size :: "int \<Rightarrow> int" where
  "effective_size chunkSize = (if chunkSize \<le> 0 then client_DefaultChunkSize else chunkSize)"

lemma InitChunkUpload_quiet:
  assumes q: "quiet e" and new: "find_session (ue_uid e) (up_db s) = None" "\<And>i. chunk_files (up_st s) (ue_uid e, i) = None"
    and ok: "name \<noteq> []" "data \<noteq> []" "validateFileType name" "0 < cs" "cs \<le> MaxChunkSize"
      "total_chunks_of (int (length data)) cs \<le> MaxTotalChunks" "ck \<noteq> []"
  shows "\<exists>ss srv. InitChunkUpload e n (Some \<lparr>ir_filename = name, ir_file_size = int (length data), ir_chunk_size = cs,
        ir_total_chunks = 0, ir_checksum = ck\<rparr>) s = (Success (us_id ss, us_chunk_size ss, us_total_chunks ss), srv) \<and>
    us_file_checksum ss = Some ck \<and> session_of data ss \<and> us_chunk_size ss = cs \<and> uploading data ss {} srv \<and> same_blobs srv s"
proof -
  let ?ss = "new_session (ue_uid e) (ue_now e) name (int (length data)) cs (total_chunks_of (int (length data)) cs) (Some ck)"
  let ?d = "(up_db s)\<lparr>sessions := sessions (up_db s) @ [?ss]\<rparr>"
  have found: "find_session (ue_uid e) ?d = Some ?ss"
    using new(1) by (simp add: find_row_append new_session_def)
  have create: "CreateUploadSession (ue_ok e) (ue_read_ok e) (ue_uid e) (ue_now e) name (int (length data)) cs
      (total_chunks_of (int (length data)) cs) (Some ck) (up_db s) = (Inr ?ss, ?d)"
    using q new(1) found by (simp add: CreateUploadSession_def GetUploadSession_def quiet_def Let_def)
  have "InitChunkUpload e n (Some \<lparr>ir_filename = name, ir_file_size = int (length data), ir_chunk_size = cs,
      ir_total_chunks = 0, ir_checksum = ck\<rparr>) s = (Success (us_id ?ss, us_chunk_size ?ss, us_total_chunks ?ss), s\<lparr>up_db := ?d\<rparr>)"
    using ok create by (simp add: InitChunkUpload_def Let_def)
  moreover have "session_of data ?ss"
    using total_chunks_chunking [of "int (length data)" cs] ok by (simp add: session_of_def new_session_def)
  moreover have "uploading data ?ss {} (s\<lparr>up_db := ?d\<rparr>)"
    using found new(2) by (simp add: uploading_def new_session_def)
  ultimately show ?thesis
    by (intro exI [of _ ?ss] exI [of _ "s\<lparr>up_db := ?d\<rparr>"]) (simp add: new_session_def same_blobs_def)
qed


text \<open>The first answer for each chunk is lost; the second attempt finds the chunk stored.\<close>

definition ex_hash :: upload_lib where
  "ex_hash = \<lparr>lib_digest = (\<lambda>s. take 64 (s @ replicate 64 CHR ''0'')), lib_itoa = (\<lambda>i. [])\<rparr>"

definition ex_env :: upload_env where
  "ex_env = \<lparr>ue_ok = True, ue_read_ok = True, ue_now = 5, ue_uid = ''u1'', ue_tmp = ''t1'', ue_fault = IODone, ue_stat_ok = (\<lambda>_. True),
     ue_cancelled = False\<rparr>"

definition ex_world :: client_world where
  "ex_world = \<lparr>cw_msg = (\<lambda>st c. []), cw_boundary = ''B'', cw_server_size = 0, cw_init_net = Answered, cw_init_env = ex_env,
     cw_chunk_net = (\<lambda>i a. if a = 0 then AnswerLost False ''connection reset'' else Answered), cw_chunk_env = (\<lambda>i a n. ex_env),
     cw_complete_net = Answered, cw_complete_env = (\<lambda>n. ex_env)\<rparr>"


end
