(* ===== verification/EncoderTypes.thy ===== *)
theory EncoderTypes
  imports GoStrings
begin

section \<open>Encoders and what a worker can run (pkg/encoder/types.go, pkg/encoder/rewrite)\<close>

text \<open>
  Encoder families and codec formats are the strings of the code; the empty string is the unknown one. The lists of a worker's
  capabilities are those it detected.
\<close>

definition CodecH264 :: string where "CodecH264 = ''h264''"
definition CodecHEVC :: string where "CodecHEVC = ''hevc''"
definition CodecVP9 :: string where "CodecVP9 = ''vp9''"
definition CodecAV1 :: string where "CodecAV1 = ''av1''"
definition CodecVP8 :: string where "CodecVP8 = ''vp8''"
definition CodecMPEG2 :: string where "CodecMPEG2 = ''mpeg2''"
definition CodecMPEG4 :: string where "CodecMPEG4 = ''mpeg4''"

lemmas codec_defs = CodecH264_def CodecHEVC_def CodecVP9_def CodecAV1_def CodecVP8_def CodecMPEG2_def CodecMPEG4_def

datatype gpu_vendor = GPUVendorNVIDIA | GPUVendorIntel | GPUVendorAMD | GPUVendorApple | GPUVendorNone

definition CodecFormat :: "string \<Rightarrow> string" where
  "CodecFormat e =
     (if e \<in> set [''libx264'', ''h264_nvenc'', ''h264_qsv'', ''h264_vaapi'', ''h264_amf'', ''h264_videotoolbox''] then CodecH264
      else if e \<in> set [''libx265'', ''hevc_nvenc'', ''hevc_qsv'', ''hevc_vaapi'', ''hevc_amf'', ''hevc_videotoolbox''] then CodecHEVC
      else if e \<in> set [''libvpx-vp9'', ''vp9_nvenc'', ''vp9_qsv'', ''vp9_vaapi''] then CodecVP9
      else if e \<in> set [''libsvtav1'', ''libaom-av1'', ''av1_nvenc'', ''av1_qsv'', ''av1_vaapi''] then CodecAV1
      else if e \<in> set [''libvpx'', ''vp8_vaapi''] then CodecVP8
      else if e \<in> set [''mpeg2video'', ''mpeg2_vaapi''] then CodecMPEG2
      else if e = ''mpeg4'' then CodecMPEG4
      else [])"

definition IsHardware :: "string \<Rightarrow> bool" where
  "IsHardware e \<longleftrightarrow> e \<in> set [''h264_nvenc'', ''h264_qsv'', ''h264_vaapi'', ''h264_amf'', ''h264_videotoolbox'',
     ''hevc_nvenc'', ''hevc_qsv'', ''hevc_vaapi'', ''hevc_amf'', ''hevc_videotoolbox'',
     ''vp9_nvenc'', ''vp9_qsv'', ''vp9_vaapi'', ''av1_nvenc'', ''av1_qsv'', ''av1_vaapi'', ''vp8_vaapi'', ''mpeg2_vaapi'']"

definition GPUVendor :: "string \<Rightarrow> gpu_vendor" where
  "GPUVendor e =
     (if e \<in> set [''h264_nvenc'', ''hevc_nvenc'', ''vp9_nvenc'', ''av1_nvenc''] then GPUVendorNVIDIA
      else if e \<in> set [''h264_qsv'', ''hevc_qsv'', ''vp9_qsv'', ''av1_qsv''] then GPUVendorIntel
      else if e \<in> set [''h264_vaapi'', ''hevc_vaapi'', ''vp9_vaapi'', ''av1_vaapi'', ''vp8_vaapi'', ''mpeg2_vaapi''] then GPUVendorAMD
      else if e \<in> set [''h264_videotoolbox'', ''hevc_videotoolbox''] then GPUVendorApple
      else if e \<in> set [''h264_amf'', ''hevc_amf''] then GPUVendorAMD
      else GPUVendorNone)"

subsection \<open>Capabilities (rewrite/types.go)\<close>

record gpu_device =
  dev_type :: string
  dev_path :: string
  dev_name :: string
  dev_vendor :: string
  dev_driver :: string
  dev_accessible :: bool
  dev_qsv_healthy :: bool

record hardware_caps =
  hc_available :: "string list"
  hc_hardware :: "string list"
  hc_software :: "string list"
  hc_codecs :: "string list"
  hc_devices :: "gpu_device list"
  hc_priority :: "(string \<times> int) list"
  hc_blacklist :: "string list"

definition caps_HasEncoder :: "hardware_caps \<Rightarrow> string \<Rightarrow> bool" where
  "caps_HasEncoder hc e \<longleftrightarrow> e \<in> set (hc_available hc)"

definition HasHardwareEncoder :: "hardware_caps \<Rightarrow> bool" where
  "HasHardwareEncoder hc \<longleftrightarrow> hc_hardware hc \<noteq> []"

definition HasCodecSupport :: "hardware_caps \<Rightarrow> string \<Rightarrow> bool" where
  "HasCodecSupport hc c \<longleftrightarrow> c \<in> set (hc_codecs hc)"

definition IsBlacklisted :: "hardware_caps \<Rightarrow> string \<Rightarrow> bool" where
  "IsBlacklisted hc e \<longleftrightarrow> e \<in> set (hc_blacklist hc)"

definition GetBestHardwareEncoder :: "hardware_caps \<Rightarrow> string \<Rightarrow> string" where
  "GetBestHardwareEncoder hc codec =
     (case List.find (\<lambda>(e, p). CodecFormat e = codec \<and> IsHardware e \<and> caps_HasEncoder hc e) (hc_priority hc) of
        Some (e, p) \<Rightarrow> e
      | None \<Rightarrow> (case List.find (\<lambda>e. CodecFormat e = codec) (hc_hardware hc) of Some e \<Rightarrow> e | None \<Rightarrow> []))"

definition GetSoftwareEncoder :: "hardware_caps \<Rightarrow> string \<Rightarrow> string" where
  "GetSoftwareEncoder hc codec =
     (case List.find (\<lambda>e. CodecFormat e = codec) (hc_software hc) of Some e \<Rightarrow> e | None \<Rightarrow> [])"

subsection \<open>Priorities and software baselines (rewrite/constants.go)\<close>

definition DefaultEncoderPriority :: "(string \<times> int) list" where
  "DefaultEncoderPriority =
    [(''h264_nvenc'', 60), (''h264_qsv'', 50), (''h264_vaapi'', 40), (''h264_amf'', 30), (''h264_videotoolbox'', 20), (''libx264'', 10),
     (''hevc_nvenc'', 60), (''hevc_qsv'', 50), (''hevc_vaapi'', 40), (''hevc_amf'', 30), (''hevc_videotoolbox'', 20), (''libx265'', 10),
     (''vp9_nvenc'', 60), (''vp9_qsv'', 50), (''vp9_vaapi'', 40), (''libvpx-vp9'', 10),
     (''av1_nvenc'', 60), (''av1_qsv'', 50), (''av1_vaapi'', 40), (''libsvtav1'', 10), (''libaom-av1'', 10)]"

definition GetPriorityForEncoder :: "string \<Rightarrow> int" where
  "GetPriorityForEncoder e =
     (if \<not> IsHardware e then 10
      else case GPUVendor e of
             GPUVendorNVIDIA \<Rightarrow> 60
           | GPUVendorIntel \<Rightarrow> 50
           | GPUVendorAMD \<Rightarrow> if e \<in> {''h264_amf'', ''hevc_amf''} then 30 else 40
           | GPUVendorApple \<Rightarrow> 20
           | GPUVendorNone \<Rightarrow> 10)"

definition SoftwareEncoderForCodec :: "string \<Rightarrow> string" where
  "SoftwareEncoderForCodec codec =
     (if codec = CodecH264 then ''libx264'' else if codec = CodecHEVC then ''libx265''
      else if codec = CodecVP9 then ''libvpx-vp9'' else if codec = CodecAV1 then ''libsvtav1''
      else if codec = CodecVP8 then ''libvpx'' else if codec = CodecMPEG2 then ''mpeg2video''
      else if codec = CodecMPEG4 then ''mpeg4'' else [])"

subsection \<open>What the tables agree on\<close>

lemma find_SomeD: "List.find P xs = Some x \<Longrightarrow> P x \<and> x \<in> set xs"
  by (auto simp: find_Some_iff)

lemma GetBestHardwareEncoder_codec: "GetBestHardwareEncoder hc codec \<noteq> [] \<Longrightarrow> CodecFormat (GetBestHardwareEncoder hc codec) = codec"
  by (auto simp: GetBestHardwareEncoder_def dest: find_SomeD split: option.splits)

lemma GetSoftwareEncoder_codec: "GetSoftwareEncoder hc codec \<noteq> [] \<Longrightarrow> CodecFormat (GetSoftwareEncoder hc codec) = codec"
  by (auto simp: GetSoftwareEncoder_def dest: find_SomeD split: option.splits)

lemma SoftwareEncoderForCodec_codec: "SoftwareEncoderForCodec codec \<noteq> [] \<Longrightarrow>
    CodecFormat (SoftwareEncoderForCodec codec) = codec \<and> \<not> IsHardware (SoftwareEncoderForCodec codec)"
  by (auto simp: SoftwareEncoderForCodec_def CodecFormat_def IsHardware_def codec_defs split: if_splits)

lemma hardware_has_codec: "IsHardware e \<Longrightarrow> CodecFormat e \<noteq> [] \<and> GPUVendor e \<noteq> GPUVendorNone"
  by (auto simp: IsHardware_def CodecFormat_def GPUVendor_def codec_defs)

text \<open>The default list is ordered by the priorities of the encoders.\<close>

lemma DefaultEncoderPriority_values: "list_all (\<lambda>(e, p). p = GetPriorityForEncoder e) DefaultEncoderPriority"
  by (simp add: DefaultEncoderPriority_def GetPriorityForEncoder_def IsHardware_def GPUVendor_def)

end
