(* ===== verification/VideoFlags.thy ===== *)
theory VideoFlags
  imports EncoderTypes
begin

section \<open>Video encoder options of a command line (pkg/encoder/rewrite/videoencoder.go)\<close>

text \<open>Which option selects the video encoder of an ffmpeg command, and its replacement in place.\<close>

record video_flag =
  vf_index :: nat
  vf_name :: string
  vf_specifier :: string
  vf_value :: string
  vf_generic :: bool

text \<open>The outcome: general form and stream specifier, nothing where the name is no encoder option.\<close>

definition videoEncoderFlagName :: "string \<Rightarrow> (bool \<times> string) option" where
  "videoEncoderFlagName name =
     (if name = ''vcodec'' then Some (False, [])
      else if HasPrefix name ''c:v:'' then Some (False, drop 4 name)
      else if name = ''c:v'' then Some (False, [])
      else if HasPrefix name ''codec:v:'' then Some (False, drop 8 name)
      else if name = ''codec:v'' then Some (False, [])
      else if name = ''c'' \<or> name = ''codec'' then Some (True, [])
      else None)"

definition knownVideoEncoder :: "string \<Rightarrow> hardware_caps option \<Rightarrow> bool" where
  "knownVideoEncoder name hwCaps \<longleftrightarrow>
     CodecFormat name \<noteq> [] \<or> (case hwCaps of None \<Rightarrow> False | Some hc \<Rightarrow> name \<in> set (hc_available hc))"

text \<open>One round of the loop: the option at index \<open>i\<close>, with the arguments after it.\<close>

definition flag_here :: "hardware_caps option \<Rightarrow> nat \<Rightarrow> string \<Rightarrow> string list \<Rightarrow> video_flag option" where
  "flag_here hwCaps i arg rest =
     (if length arg < 2 \<or> hd arg \<noteq> CHR ''-'' then None
      else let name = tl arg in
        if CHR ''='' \<in> set name then None
        else case videoEncoderFlagName name of
               None \<Rightarrow> None
             | Some (generic, specifier) \<Rightarrow>
                 (case rest of
                    [] \<Rightarrow> None
                  | val # others \<Rightarrow>
                      if val = [] \<or> val = ''-'' \<or> HasPrefix val ''-'' then None
                      else if generic \<and> val \<noteq> ''copy'' \<and> \<not> knownVideoEncoder val hwCaps then None
                      else Some \<lparr>vf_index = i, vf_name = name, vf_specifier = specifier, vf_value = val, vf_generic = generic\<rparr>))"

fun parse_flags :: "hardware_caps option \<Rightarrow> nat \<Rightarrow> string list \<Rightarrow> video_flag list" where
  "parse_flags hwCaps i [] = []"
| "parse_flags hwCaps i (arg # rest) =
     (if arg = ''--'' then []
      else (case flag_here hwCaps i arg rest of
              None \<Rightarrow> parse_flags hwCaps (Suc i) rest
            | Some f \<Rightarrow> f # parse_flags hwCaps (Suc i) rest))"

definition ParseVideoEncoderFlags :: "string list \<Rightarrow> hardware_caps option \<Rightarrow> video_flag list" where
  "ParseVideoEncoderFlags args hwCaps = parse_flags hwCaps 0 args"

definition PrimaryVideoEncoderFlag :: "video_flag list \<Rightarrow> video_flag option" where
  "PrimaryVideoEncoderFlag flags =
     (case List.find (\<lambda>f. \<not> vf_generic f) (rev flags) of
        Some f \<Rightarrow> Some f
      | None \<Rightarrow> if flags \<noteq> [] then Some (last flags) else None)"

definition RewrittenTokens :: "video_flag \<Rightarrow> string \<Rightarrow> string list" where
  "RewrittenTokens f target = (if vf_generic f then [''-c:v'', target] else [CHR ''-'' # vf_name f, target])"

fun HasInlineVideoEncoderSyntax :: "string list \<Rightarrow> bool" where
  "HasInlineVideoEncoderSyntax [] \<longleftrightarrow> False"
| "HasInlineVideoEncoderSyntax (arg # rest) \<longleftrightarrow>
     (if arg = ''--'' then False
      else if length arg < 2 \<or> hd arg \<noteq> CHR ''-'' then HasInlineVideoEncoderSyntax rest
      else case Cut (CHR ''='') (tl arg) of
             (name, None) \<Rightarrow> HasInlineVideoEncoderSyntax rest
           | (name, Some v) \<Rightarrow> videoEncoderFlagName name \<noteq> None \<or> HasInlineVideoEncoderSyntax rest)"

text \<open>The copying loop: \<open>flags\<close> by index, \<open>p\<close> the index of the primary one; what follows \<^verbatim>\<open>--\<close> passes through.\<close>

fun replace_tokens :: "video_flag list \<Rightarrow> nat \<Rightarrow> string \<Rightarrow> nat \<Rightarrow> string list \<Rightarrow> string list" where
  "replace_tokens flags p enc i [] = []"
| "replace_tokens flags p enc i (arg # rest) =
     (if arg = ''--'' then arg # rest
      else (case List.find (\<lambda>f. vf_index f = i) flags of
              None \<Rightarrow> arg # replace_tokens flags p enc (Suc i) rest
            | Some f \<Rightarrow>
                (case rest of
                   [] \<Rightarrow> [arg]
                 | val # others \<Rightarrow>
                     (if i = p then RewrittenTokens f enc else [arg, val]) @ replace_tokens flags p enc (Suc (Suc i)) others)))"

definition ReplacePrimaryVideoEncoder :: "string list \<Rightarrow> string \<Rightarrow> hardware_caps option \<Rightarrow> string list" where
  "ReplacePrimaryVideoEncoder args enc hwCaps =
     (let flags = ParseVideoEncoderFlags args hwCaps
      in case PrimaryVideoEncoderFlag flags of
           None \<Rightarrow> args
         | Some primary \<Rightarrow>
             if vf_value primary = ''copy'' then args
             else replace_tokens flags (vf_index primary) enc 0 args)"

definition extractEncoderFromArgsWithCaps :: "string list \<Rightarrow> hardware_caps option \<Rightarrow> string" where
  "extractEncoderFromArgsWithCaps args hwCaps =
     (case PrimaryVideoEncoderFlag (ParseVideoEncoderFlags args hwCaps) of None \<Rightarrow> [] | Some f \<Rightarrow> vf_value f)"

definition extractEncoderFromArgs :: "string list \<Rightarrow> string" where
  "extractEncoderFromArgs args = extractEncoderFromArgsWithCaps args None"

subsection \<open>Where the options stand\<close>

lemma flag_hereD:
  assumes "flag_here hwCaps i arg rest = Some f"
  shows "arg = CHR ''-'' # vf_name f \<and> arg \<noteq> ''--'' \<and> vf_index f = i \<and> vf_name f \<noteq> [] \<and>
    videoEncoderFlagName (vf_name f) = Some (vf_generic f, vf_specifier f) \<and> CHR ''='' \<notin> set (vf_name f) \<and>
    (\<exists>others. rest = vf_value f # others) \<and> vf_value f \<noteq> [] \<and> hd (vf_value f) \<noteq> CHR ''-'' \<and>
    (vf_generic f \<longrightarrow> vf_value f = ''copy'' \<or> knownVideoEncoder (vf_value f) hwCaps)"
proof -
  have a: "length arg \<ge> 2" "hd arg = CHR ''-''" using assms by (auto simp: flag_here_def split: if_splits)
  then obtain n where n: "arg = CHR ''-'' # n" "n \<noteq> []" by (cases arg; cases "tl arg") auto
  have "videoEncoderFlagName ''-'' = None" by (simp add: videoEncoderFlagName_def HasPrefix_def)
  then have "n \<noteq> ''-''" using assms n by (auto simp: flag_here_def)
  then show ?thesis using assms n
    by (auto simp: flag_here_def Let_def HasPrefix_def neq_Nil_conv split: if_splits option.splits list.splits)
qed

lemma value_no_flag: "v \<noteq> [] \<Longrightarrow> hd v \<noteq> CHR ''-'' \<Longrightarrow> flag_here hwCaps i v rest = None \<and> v \<noteq> ''--''"
  by (auto simp: flag_here_def)

lemma parse_flags_Some:
  assumes "flag_here hwCaps i arg rest = Some f" "rest = v # others"
  shows "parse_flags hwCaps i (arg # rest) = f # parse_flags hwCaps (Suc (Suc i)) others"
proof -
  have "arg \<noteq> ''--''" "v = vf_value f" "v \<noteq> []" "hd v \<noteq> CHR ''-''" using flag_hereD [OF assms(1)] assms(2) by auto
  with value_no_flag [of v hwCaps "Suc i" others] assms show ?thesis by simp
qed

lemma parse_flags_index: "f \<in> set (parse_flags hwCaps i args) \<Longrightarrow> i \<le> vf_index f"
  by (induction hwCaps i args rule: parse_flags.induct) (auto split: if_splits option.splits dest: flag_hereD)

lemma find_flag_head:
  "arg \<noteq> ''--'' \<Longrightarrow> List.find (\<lambda>f. vf_index f = i) (parse_flags hwCaps i (arg # rest)) = flag_here hwCaps i arg rest"
  using parse_flags_index [of _ hwCaps "Suc i" rest]
  by (fastforce simp: find_None_iff split: option.split dest: flag_hereD)

subsection \<open>The replacement is an update in place\<close>

definition kept_name :: "video_flag \<Rightarrow> string" where
  "kept_name f = (if vf_generic f then ''c:v'' else vf_name f)"

definition put_flag :: "video_flag \<Rightarrow> string \<Rightarrow> nat \<Rightarrow> string list \<Rightarrow> string list" where
  "put_flag f enc k args = args[k := CHR ''-'' # kept_name f, Suc k := enc]"

lemma RewrittenTokens_eq: "RewrittenTokens f enc = [CHR ''-'' # kept_name f, enc]"
  by (simp add: RewrittenTokens_def kept_name_def)

lemma replace_tokens_eq:
  assumes "\<And>j. i \<le> j \<Longrightarrow> List.find (\<lambda>f. vf_index f = j) flags = List.find (\<lambda>f. vf_index f = j) (parse_flags hwCaps i args)"
  shows "replace_tokens flags p enc i args =
    (case List.find (\<lambda>f. vf_index f = p) (parse_flags hwCaps i args) of None \<Rightarrow> args | Some f \<Rightarrow> put_flag f enc (p - i) args)"
  using assms
proof (induction flags p enc i args rule: replace_tokens.induct)
  case (2 flags p enc i arg rest)
  show ?case
  proof (cases "arg = ''--''")
    case False
    have here: "List.find (\<lambda>f. vf_index f = i) flags = flag_here hwCaps i arg rest"
      using 2(3) [of i] find_flag_head [OF False] by (simp del: parse_flags.simps)
    show ?thesis
    proof (cases "flag_here hwCaps i arg rest")
      case None
      then have P: "parse_flags hwCaps i (arg # rest) = parse_flags hwCaps (Suc i) rest" using False by simp
      have "List.find (\<lambda>f. vf_index f = p) (parse_flags hwCaps (Suc i) rest) = Some f \<Longrightarrow> p - i = Suc (p - Suc i)" for f
        using parse_flags_index [of f hwCaps "Suc i" rest] by (auto dest!: find_SomeD)
      then show ?thesis
        using 2(1) [OF False] 2(3) None here False P
        by (auto simp: put_flag_def simp del: parse_flags.simps split: option.splits)
    next
      case (Some f)
      obtain v others where rest: "rest = v # others" using flag_hereD [OF Some] by auto
      note P = parse_flags_Some [OF Some rest]
      have idx: "vf_index f = i" using flag_hereD [OF Some] by simp
      have IH: "replace_tokens flags p enc (Suc (Suc i)) others =
        (case List.find (\<lambda>f. vf_index f = p) (parse_flags hwCaps (Suc (Suc i)) others) of None \<Rightarrow> others
         | Some f \<Rightarrow> put_flag f enc (p - Suc (Suc i)) others)"
        using 2(2) [OF False, of f v others] 2(3) Some here rest P idx by (simp del: parse_flags.simps)
      have "List.find (\<lambda>f. vf_index f = p) (parse_flags hwCaps (Suc (Suc i)) others) = Some g \<Longrightarrow> p - i = Suc (Suc (p - Suc (Suc i)))" for g
        using parse_flags_index [of g hwCaps "Suc (Suc i)" others] by (auto dest!: find_SomeD)
      moreover have "List.find (\<lambda>f. vf_index f = i) (parse_flags hwCaps (Suc (Suc i)) others) = None"
        using parse_flags_index [of _ hwCaps "Suc (Suc i)" others] by (fastforce simp: find_None_iff)
      ultimately show ?thesis
        using False Some here rest P idx IH
        by (auto simp: put_flag_def RewrittenTokens_eq simp del: parse_flags.simps split: option.splits)
    qed
  qed simp
qed simp

lemma find_index:
  "distinct (map vf_index fs) \<Longrightarrow> f \<in> set fs \<Longrightarrow> List.find (\<lambda>g. vf_index g = vf_index f) fs = Some f"
  by (induction fs) auto

lemma parse_flags_distinct: "distinct (map vf_index (parse_flags hwCaps i args))"
proof (induction hwCaps i args rule: parse_flags.induct)
  case (2 hwCaps i arg rest)
  then show ?case
    using parse_flags_index [of _ hwCaps "Suc i" rest] by (fastforce split: option.split dest: flag_hereD)
qed simp

lemma Primary_in: "PrimaryVideoEncoderFlag fs = Some f \<Longrightarrow> f \<in> set fs"
  by (auto simp: PrimaryVideoEncoderFlag_def dest!: find_SomeD split: option.splits if_splits)

lemma Replace_eq:
  "ReplacePrimaryVideoEncoder args enc hwCaps =
    (case PrimaryVideoEncoderFlag (ParseVideoEncoderFlags args hwCaps) of
       None \<Rightarrow> args
     | Some f \<Rightarrow> if vf_value f = ''copy'' then args else put_flag f enc (vf_index f) args)"
proof (cases "PrimaryVideoEncoderFlag (ParseVideoEncoderFlags args hwCaps)")
  case (Some f)
  have "f \<in> set (parse_flags hwCaps 0 args)" using Primary_in [OF Some] by (simp add: ParseVideoEncoderFlags_def)
  from find_index [OF parse_flags_distinct this] replace_tokens_eq [of 0 "parse_flags hwCaps 0 args" hwCaps args "vf_index f" enc]
  show ?thesis using Some by (simp add: ReplacePrimaryVideoEncoder_def ParseVideoEncoderFlags_def)
qed (simp add: ReplacePrimaryVideoEncoder_def)

subsection \<open>Reading the options of a replaced command\<close>

definition set_flag :: "video_flag \<Rightarrow> string \<Rightarrow> video_flag \<Rightarrow> video_flag" where
  "set_flag f enc g = (if vf_index g = vf_index f then f\<lparr>vf_name := kept_name f, vf_value := enc, vf_generic := False\<rparr> else g)"

lemma generic_name: "videoEncoderFlagName n = Some (True, sp) \<Longrightarrow> sp = []"
  by (auto simp: videoEncoderFlagName_def split: if_splits)

lemma flag_here_put:
  assumes "flag_here hwCaps i arg rest = Some f" "enc \<noteq> []" "hd enc \<noteq> CHR ''-''"
  shows "flag_here hwCaps i (CHR ''-'' # kept_name f) (enc # others) = Some (set_flag f enc f)"
proof -
  have "videoEncoderFlagName ''c:v'' = Some (False, [])" by (simp add: videoEncoderFlagName_def HasPrefix_def)
  then have "videoEncoderFlagName (kept_name f) = Some (False, vf_specifier f)" "CHR ''='' \<notin> set (kept_name f)" "kept_name f \<noteq> []"
    using flag_hereD [OF assms(1)] generic_name [of "vf_name f" "vf_specifier f"] by (auto simp: kept_name_def)
  moreover have "vf_index f = i" using flag_hereD [OF assms(1)] by simp
  ultimately show ?thesis
    using assms(2,3) by (auto simp: flag_here_def Let_def HasPrefix_def set_flag_def neq_Nil_conv)
qed

text \<open>An argument is read with the one after it, and is no option where that one begins with a dash.\<close>

lemma flag_here_next: "flag_here hwCaps i arg (v # xs) = flag_here hwCaps i arg (v # ys)"
  by (simp only: flag_here_def list.case)

lemma flag_here_dash: "flag_here hwCaps i arg ((CHR ''-'' # v) # xs) = None"
  by (auto simp: flag_here_def Let_def HasPrefix_def split: option.splits)

lemma put_flag_Suc: "put_flag f enc (Suc k) (a # args) = a # put_flag f enc k args"
  by (simp add: put_flag_def)

lemma flag_here_stable:
  assumes "f \<in> set (parse_flags hwCaps (Suc i) rest)"
  shows "flag_here hwCaps i arg (put_flag f enc (vf_index f - Suc i) rest) = flag_here hwCaps i arg rest"
proof (cases rest)
  case (Cons v others)
  show ?thesis
  proof (cases "vf_index f = Suc i")
    case True
    then have "flag_here hwCaps (Suc i) v others = Some f"
      using assms find_index [OF parse_flags_distinct assms] find_flag_head [of v "Suc i" hwCaps others] Cons by (cases "v = ''--''") auto
    then have "v = CHR ''-'' # vf_name f" using flag_hereD by blast
    then show ?thesis using Cons True by (simp add: put_flag_def flag_here_dash)
  next
    case False
    then have "vf_index f - Suc i = Suc (vf_index f - Suc (Suc i))" using parse_flags_index [OF assms] by simp
    then show ?thesis using Cons by (simp add: put_flag_Suc flag_here_next)
  qed
qed (use assms in simp)

lemma parse_put_flag:
  assumes "enc \<noteq> []" "hd enc \<noteq> CHR ''-''"
  shows "f \<in> set (parse_flags hwCaps i args) \<Longrightarrow>
    parse_flags hwCaps i (put_flag f enc (vf_index f - i) args) = map (set_flag f enc) (parse_flags hwCaps i args)"
proof (induction hwCaps i args rule: parse_flags.induct)
  case (2 hwCaps i arg rest)
  have ne: "arg \<noteq> ''--''" using 2(3) by (auto split: if_splits)
  show ?case
  proof (cases "vf_index f = i")
    case True
    then have here: "flag_here hwCaps i arg rest = Some f"
      using find_index [OF parse_flags_distinct 2(3)] find_flag_head [OF ne] by (simp del: parse_flags.simps)
    obtain v others where rest: "rest = v # others" using flag_hereD [OF here] by auto
    have "map (set_flag f enc) (parse_flags hwCaps (Suc (Suc i)) others) = parse_flags hwCaps (Suc (Suc i)) others"
      using parse_flags_index [of _ hwCaps "Suc (Suc i)" others] True by (intro map_idI) (fastforce simp: set_flag_def)
    then show ?thesis
      using True parse_flags_Some [OF here rest] parse_flags_Some [OF flag_here_put [OF here assms, of others] refl]
      by (simp add: put_flag_def rest del: parse_flags.simps)
  next
    case False
    then have later: "f \<in> set (parse_flags hwCaps (Suc i) rest)" and "i < vf_index f"
      using 2(3) ne parse_flags_index [OF 2(3)] by (auto split: option.splits dest: flag_hereD)
    then have k: "vf_index f - i = Suc (vf_index f - Suc i)" by simp
    have "set_flag f enc g = g" if "flag_here hwCaps i arg rest = Some g" for g
      using flag_hereD [OF that] False by (simp add: set_flag_def)
    then show ?thesis
      using 2(1) [OF ne _ later] 2(2) [OF ne _ later] ne flag_here_stable [OF later]
      by (auto simp: k put_flag_Suc split: option.splits)
  qed
qed simp

lemma find_map_one:
  "List.find P fs = Some f \<Longrightarrow> distinct (map vf_index fs) \<Longrightarrow> P (set_flag f enc f) \<Longrightarrow>
   List.find P (map (set_flag f enc) fs) = Some (set_flag f enc f)"
proof (induction fs)
  case (Cons g fs)
  then show ?case by (cases "P g") (auto simp: set_flag_def dest!: find_SomeD)
qed simp

lemma Primary_set:
  assumes "PrimaryVideoEncoderFlag fs = Some f" "distinct (map vf_index fs)"
  shows "PrimaryVideoEncoderFlag (map (set_flag f enc) fs) = Some (set_flag f enc f)"
proof (cases "List.find (\<lambda>f. \<not> vf_generic f) (rev fs)")
  case None
  then obtain gs where "rev fs = f # gs" using assms(1) by (cases fs rule: rev_cases) (auto simp: PrimaryVideoEncoderFlag_def)
  then have "rev (map (set_flag f enc) fs) = set_flag f enc f # map (set_flag f enc) gs" by (simp add: rev_map)
  then show ?thesis by (simp add: PrimaryVideoEncoderFlag_def set_flag_def)
next
  case (Some g)
  then have "g = f" using assms(1) by (simp add: PrimaryVideoEncoderFlag_def)
  moreover have "distinct (map vf_index (rev fs))" using assms(2) by (simp add: rev_map [symmetric])
  ultimately show ?thesis
    using find_map_one [OF Some, of enc] by (simp add: PrimaryVideoEncoderFlag_def rev_map set_flag_def)
qed

text \<open>
  C27: the replacement of the video encoder is exact. It changes two tokens, the primary option and its value, the general form
  narrowed to video; reading the result finds the same options with the new encoder selected, and a later replacement overrides
  an earlier one.
\<close>

theorem replacement_roundtrip:
  assumes "PrimaryVideoEncoderFlag (ParseVideoEncoderFlags args hwCaps) = Some f" "vf_value f \<noteq> ''copy''"
    and enc: "enc \<noteq> []" "hd enc \<noteq> CHR ''-''" "enc \<noteq> ''copy''"
  shows "let args' = ReplacePrimaryVideoEncoder args enc hwCaps; i = vf_index f in
    args' = args[i := ''-'' @ (if vf_generic f then ''c:v'' else vf_name f), Suc i := enc] \<and>
    ParseVideoEncoderFlags args' hwCaps = map (\<lambda>g. if vf_index g = i then
      f\<lparr>vf_name := if vf_generic f then ''c:v'' else vf_name f, vf_value := enc, vf_generic := False\<rparr> else g)
      (ParseVideoEncoderFlags args hwCaps) \<and>
    extractEncoderFromArgsWithCaps args' hwCaps = enc \<and>
    (\<forall>enc'. ReplacePrimaryVideoEncoder args' enc' hwCaps = ReplacePrimaryVideoEncoder args enc' hwCaps)"
proof -
  let ?args = "put_flag f enc (vf_index f) args"
  have eq: "ReplacePrimaryVideoEncoder args e hwCaps = put_flag f e (vf_index f) args" for e
    using assms(1,2) by (simp add: Replace_eq)
  have "f \<in> set (parse_flags hwCaps 0 args)" using Primary_in [OF assms(1)] by (simp add: ParseVideoEncoderFlags_def)
  with parse_put_flag [OF enc(1,2) this]
  have parse: "ParseVideoEncoderFlags ?args hwCaps = map (set_flag f enc) (ParseVideoEncoderFlags args hwCaps)"
    by (simp add: ParseVideoEncoderFlags_def)
  have primary: "PrimaryVideoEncoderFlag (ParseVideoEncoderFlags ?args hwCaps) = Some (set_flag f enc f)"
    unfolding parse using Primary_set [OF assms(1)] parse_flags_distinct by (simp add: ParseVideoEncoderFlags_def)
  have "ReplacePrimaryVideoEncoder ?args e hwCaps = put_flag f e (vf_index f) args" for e
    using primary enc(3) by (simp add: Replace_eq set_flag_def put_flag_def kept_name_def list_update_swap)
  then show ?thesis
    using parse primary
    by (simp add: eq Let_def put_flag_def kept_name_def set_flag_def [abs_def] extractEncoderFromArgsWithCaps_def)
qed

theorem replacement_roundtrip_witness:
  "ReplacePrimaryVideoEncoder [''-i'', ''a.mp4'', ''-c'', ''libx264'', ''-c:a'', ''aac'', ''b.mp4''] ''h264_qsv'' None =
   [''-i'', ''a.mp4'', ''-c:v'', ''h264_qsv'', ''-c:a'', ''aac'', ''b.mp4'']"
proof -
  let ?f = "\<lparr>vf_index = 2, vf_name = ''c'', vf_specifier = [], vf_value = ''libx264'', vf_generic = True\<rparr>"
  have "PrimaryVideoEncoderFlag (ParseVideoEncoderFlags [''-i'', ''a.mp4'', ''-c'', ''libx264'', ''-c:a'', ''aac'', ''b.mp4''] None) = Some ?f"
    by (simp add: PrimaryVideoEncoderFlag_def ParseVideoEncoderFlags_def flag_here_def videoEncoderFlagName_def HasPrefix_def
        knownVideoEncoder_def CodecFormat_def codec_defs)
  from replacement_roundtrip [OF this, of "''h264_qsv''"] show ?thesis by (simp add: Let_def)
qed

end
