(* ===== verification/FailureAnalysis.thy ===== *)
theory FailureAnalysis
  imports Protocol Access GoFormat
begin

section \<open>What went wrong: error types and failure classes (pkg/worker/error_interceptor.go, error_analyzer.go, failure_classify.go)\<close>

text \<open>
  Two readings of a failed ffmpeg run. The analyzer gives the error type that steers the retries on the worker, the classifier the
  failure type of the report to the server. Patterns are compared as the code compares them: \<open>(?i)\<close> of a quoted text is a
  search in lower case. Times of errors are left out.
\<close>

subsection \<open>Error types\<close>

datatype FFmpegErrorType = ErrorTypeUnknown | ErrorTypeInvalidArgument | ErrorTypeEncoderNotFound | ErrorTypeDeviceNotFound
  | ErrorTypeUnsupportedCodec | ErrorTypeMemoryAllocation | ErrorTypeHWAccelFailed | ErrorTypeInputOutput | ErrorTypePermissionDenied
  | ErrorTypeOutputEmpty | ErrorTypeOutputOpen | ErrorTypeProcessCrash

fun errortype_String :: "FFmpegErrorType \<Rightarrow> string" where
  "errortype_String ErrorTypeInvalidArgument = ''invalid_argument''"
| "errortype_String ErrorTypeEncoderNotFound = ''encoder_not_found''"
| "errortype_String ErrorTypeOutputOpen = ''output_open_failure''"
| "errortype_String ErrorTypeDeviceNotFound = ''device_not_found''"
| "errortype_String ErrorTypeUnsupportedCodec = ''unsupported_codec''"
| "errortype_String ErrorTypeMemoryAllocation = ''memory_allocation''"
| "errortype_String ErrorTypeHWAccelFailed = ''hwaccel_failed''"
| "errortype_String ErrorTypeOutputEmpty = ''output_empty''"
| "errortype_String ErrorTypeProcessCrash = ''process_crash''"
| "errortype_String ErrorTypeInputOutput = ''input_output''"
| "errortype_String ErrorTypePermissionDenied = ''permission_denied''"
| "errortype_String ErrorTypeUnknown = ''unknown''"

record ffmpeg_error =
  fe_type :: FFmpegErrorType
  fe_message :: string
  fe_exit :: int
  fe_stderr :: string
  fe_patterns :: "string list"
  fe_context :: "string list"

fun retryable_type :: "FFmpegErrorType \<Rightarrow> bool" where
  "retryable_type ErrorTypeInvalidArgument = True"
| "retryable_type ErrorTypeEncoderNotFound = True"
| "retryable_type ErrorTypeDeviceNotFound = True"
| "retryable_type ErrorTypeUnsupportedCodec = True"
| "retryable_type ErrorTypeHWAccelFailed = True"
| "retryable_type ErrorTypeOutputEmpty = True"
| "retryable_type ErrorTypeProcessCrash = True"
| "retryable_type t = False"

definition IsRetryable :: "ffmpeg_error \<Rightarrow> bool" where
  "IsRetryable e = retryable_type (fe_type e)"

type_synonym error_patterns = "(FFmpegErrorType \<times> string list) list"

definition DefaultErrorPatterns :: error_patterns where
  "DefaultErrorPatterns = [
     (ErrorTypeOutputOpen,
      [''Error opening output file'', ''Error opening output files'', ''Error initializing the muxer'',
       ''Could not open file'', ''could not open output'', ''Unable to choose an output format'']),
     (ErrorTypeInvalidArgument,
      [''Invalid argument'', ''Option not found'', ''Invalid option'', ''Unrecognized option'', ''error parsing option'',
       ''Invalid value'', ''Expected a value for option'']),
     (ErrorTypeEncoderNotFound,
      [''No such encoder'', ''Unknown encoder'', ''Encoder not found'', ''not found in encoder list'',
       ''Requested encoder'', ''Selected encoder not available'']),
     (ErrorTypeDeviceNotFound,
      [''Device not found'', ''Cannot open device'', ''device not found'', ''Failed to open device'', ''DRM device'',
       ''VA device'', ''CUDA device'', ''cannot open device'']),
     (ErrorTypeUnsupportedCodec,
      [''Unsupported codec'', ''Codec not supported'', ''Unsupported feature'', ''codec not supported'',
       ''not supported by this encoder'', ''does not support'']),
     (ErrorTypeMemoryAllocation,
      [''Cannot allocate memory'', ''Out of memory'', ''memory allocation failed'', ''failed to allocate'',
       ''Allocation failed'']),
     (ErrorTypeHWAccelFailed,
      [''Hardware acceleration error'', ''hwaccel'', ''hardware device'', ''GPU'', ''CUDA error'', ''NVENC error'',
       ''VAAPI error'', ''QSV error'', ''[QSV'', ''Error creating a MFX session'', ''Device creation failed'',
       ''qsv_device'', ''vaapi_device'', ''AMF error'', ''VideoToolbox error'', ''failed to init hwdevice'',
       ''failed to init hwaccel'', ''MFX session'', ''Impossible to convert between the formats'',
       ''Failed to process frame'', ''Encode failed'']),
     (ErrorTypeInputOutput,
      [''Input/output error'', ''No such file'', ''No such device'', ''I/O error'', ''read error'', ''write error'',
       ''end of file'']),
     (ErrorTypePermissionDenied,
      [''Permission denied'', ''Access denied'', ''Access is denied'', ''permission denied'']),
     (ErrorTypeOutputEmpty,
      [''Output file is empty'', ''output file is empty'', ''output file not found'', ''Output file not found'',
       ''Empty output'']),
     (ErrorTypeProcessCrash,
      [''Aborted'', ''Killed signal 6'', ''Killed signal 11''])]"

definition matches_text :: "string \<Rightarrow> string \<Rightarrow> bool" where
  "matches_text pat s \<longleftrightarrow> Contains (ToLower s) (ToLower pat)"

subsection \<open>Lines of the error output\<close>

definition text_lines :: "string \<Rightarrow> string list" where
  "text_lines s = Split (CHR ''\<newline>'') s"

definition errorIndicators :: "string list" where
  "errorIndicators = [''error'', ''fail'', ''invalid'', ''cannot'', ''unable'', ''not found'']"

definition trimmed_lines :: "string list \<Rightarrow> string list" where
  "trimmed_lines lines = filter (\<lambda>l. l \<noteq> []) (map TrimSpace lines)"

definition extractFirstErrorLine :: "string \<Rightarrow> string" where
  "extractFirstErrorLine stderr =
     (let lines = trimmed_lines (text_lines stderr)
      in case List.find (\<lambda>l. list_ex (Contains (ToLower l)) errorIndicators) lines of
           Some l \<Rightarrow> l
         | None \<Rightarrow> (case lines of l # others \<Rightarrow> l | [] \<Rightarrow> stderr))"

definition extractErrorMessage :: "string \<Rightarrow> string \<Rightarrow> string" where
  "extractErrorMessage stderr pat =
     (case List.find (matches_text pat) (trimmed_lines (text_lines stderr)) of
        Some l \<Rightarrow> l
      | None \<Rightarrow> extractFirstErrorLine stderr)"

text \<open>The index of the first line that matches, among those that are not blank.\<close>

fun matching_line :: "string \<Rightarrow> nat \<Rightarrow> string list \<Rightarrow> nat option" where
  "matching_line pat i [] = None"
| "matching_line pat i (l # ls) =
     (if TrimSpace l \<noteq> [] \<and> matches_text pat (TrimSpace l) then Some i else matching_line pat (Suc i) ls)"

definition extractContextLines :: "string list \<Rightarrow> string \<Rightarrow> string list" where
  "extractContextLines lines pat =
     (let contextLines = (case matching_line pat 0 lines of
                            None \<Rightarrow> []
                          | Some i \<Rightarrow> trimmed_lines (take (i + 3 - (i - 2)) (drop (i - 2) lines)))
      in if contextLines = [] then take 5 (trimmed_lines lines) else contextLines)"

subsection \<open>The analyzer\<close>

definition signalExitCodes :: "(int \<times> string) list" where
  "signalExitCodes = [(134, ''SIGABRT''), (135, ''SIGBUS''), (136, ''SIGFPE''), (137, ''SIGKILL''), (139, ''SIGSEGV'')]"

definition isSignalDeath :: "int \<Rightarrow> bool" where
  "isSignalDeath exitCode \<longleftrightarrow> map_of signalExitCodes exitCode \<noteq> None"

definition signalDeathMessage :: "int \<Rightarrow> string \<Rightarrow> string" where
  "signalDeathMessage exitCode stderr =
     (let sig = (case map_of signalExitCodes exitCode of None \<Rightarrow> [] | Some s \<Rightarrow> s);
          msg = ''ffmpeg killed by OS signal '' @ sig @ '' (exit '' @ Itoa exitCode @ '')'';
          first = extractFirstErrorLine stderr
      in if first \<noteq> [] then msg @ '': '' @ first else msg)"

fun first_match :: "error_patterns \<Rightarrow> string \<Rightarrow> (FFmpegErrorType \<times> string) option" where
  "first_match [] stderr = None"
| "first_match ((t, ps) # pats) stderr =
     (case List.find (\<lambda>p. matches_text p stderr) ps of Some p \<Rightarrow> Some (t, p) | None \<Rightarrow> first_match pats stderr)"

definition Analyze :: "error_patterns \<Rightarrow> string \<Rightarrow> int \<Rightarrow> ffmpeg_error option" where
  "Analyze patterns stderr exitCode =
     (if stderr = [] \<and> exitCode = 0 then None
      else if isSignalDeath exitCode
      then Some \<lparr>fe_type = ErrorTypeProcessCrash, fe_message = signalDeathMessage exitCode stderr, fe_exit = exitCode, fe_stderr = stderr,
                 fe_patterns = [], fe_context = []\<rparr>
      else case first_match patterns stderr of
             Some (t, p) \<Rightarrow>
               Some \<lparr>fe_type = t, fe_message = extractErrorMessage stderr p, fe_exit = exitCode, fe_stderr = stderr,
                     fe_patterns = [p], fe_context = extractContextLines (text_lines stderr) p\<rparr>
           | None \<Rightarrow>
               if exitCode \<noteq> 0
               then Some \<lparr>fe_type = ErrorTypeUnknown, fe_message = extractFirstErrorLine stderr, fe_exit = exitCode, fe_stderr = stderr,
                          fe_patterns = [], fe_context = text_lines stderr\<rparr>
               else None)"

definition ClassifyErrorType :: "string \<Rightarrow> FFmpegErrorType" where
  "ClassifyErrorType stderr = (case Analyze DefaultErrorPatterns stderr 1 of None \<Rightarrow> ErrorTypeUnknown | Some e \<Rightarrow> fe_type e)"

text \<open>\<open>encoder\<close> is the video encoder the arguments select.\<close>

definition enhanceErrorMessage :: "string \<Rightarrow> string \<Rightarrow> string list \<Rightarrow> FFmpegErrorType \<Rightarrow> string" where
  "enhanceErrorMessage encoder message args errorType =
     (if errorType = ErrorTypeInvalidArgument then
        (case List.find (\<lambda>a. Contains (ToLower message) (ToLower a)) args of
           Some a \<Rightarrow> message @ '' (related to argument: '' @ a @ '')''
         | None \<Rightarrow> message)
      else if errorType = ErrorTypeEncoderNotFound then
        (if encoder \<noteq> [] then message @ '' (requested encoder: '' @ encoder @ '')'' else message)
      else if errorType = ErrorTypeDeviceNotFound then
        (case List.find (\<lambda>a. HasPrefix a ''/dev/'' \<or> HasPrefix a ''hw:'') args of
           Some a \<Rightarrow> message @ '' (device: '' @ a @ '')''
         | None \<Rightarrow> message)
      else message)"

definition AnalyzeWithArgs :: "error_patterns \<Rightarrow> string \<Rightarrow> string \<Rightarrow> int \<Rightarrow> string list \<Rightarrow> ffmpeg_error option" where
  "AnalyzeWithArgs patterns encoder stderr exitCode args =
     map_option (\<lambda>e. e\<lparr>fe_message := enhanceErrorMessage encoder (fe_message e) args (fe_type e)\<rparr>) (Analyze patterns stderr exitCode)"

subsection \<open>The classifier\<close>

definition diskFullPatterns :: "string list" where
  "diskFullPatterns = [''no space left on device'', ''enospc'', ''disk full'', ''not enough space'']"

definition isDiskFull :: "string \<Rightarrow> bool" where
  "isDiskFull stderr \<longleftrightarrow> list_ex (Contains (ToLower stderr)) diskFullPatterns"

definition isOOMKill :: "string \<Rightarrow> bool" where
  "isOOMKill stderr \<longleftrightarrow> list_ex (Contains stderr)
     [''out of memory'', ''Out of memory'', ''OOM'', ''Cannot allocate memory'', ''Killed signal'']"

definition isInputUnreachable :: "string \<Rightarrow> bool" where
  "isInputUnreachable stderr \<longleftrightarrow> list_ex (Contains stderr)
     [''No such file'', ''No such device'', ''Connection refused'', ''Connection timed out'',
     ''Name or service not known'', ''No route to host'', ''Network is unreachable'', ''connection refused'',
     ''i/o timeout'', ''no such host'', ''network is unreachable'', ''Protocol not found'', ''HTTP error 404'',
     ''HTTP error 403'', ''HTTP error 401'', ''Server returned'', ''end of file'']"

definition isOutputOpenFailure :: "string \<Rightarrow> bool" where
  "isOutputOpenFailure stderr \<longleftrightarrow> list_ex (Contains (ToLower stderr))
     [''error opening output file'', ''error opening output files'', ''error initializing the muxer'',
     ''unable to choose an output format'', ''could not open file'', ''could not open output'']"

definition isEncoderUnsupported :: "string \<Rightarrow> bool" where
  "isEncoderUnsupported stderr \<longleftrightarrow> list_ex (Contains stderr)
     [''No such encoder'', ''Unknown encoder'', ''Encoder not found'', ''Encoder not recognized'', ''is not recognized'',
     ''not found in encoder list'', ''Requested encoder'', ''Selected encoder not available'', ''Device not found'',
     ''Cannot open device'', ''device not found'', ''Unsupported codec'', ''Codec not supported'']"

text \<open>The first runes of a UTF-8 text: continuation bytes belong to the rune before them.\<close>

definition continuation_byte :: "char \<Rightarrow> bool" where
  "continuation_byte c \<longleftrightarrow> 128 \<le> (of_char c :: nat) \<and> (of_char c :: nat) < 192"

fun take_runes :: "nat \<Rightarrow> string \<Rightarrow> string" where
  "take_runes n [] = []"
| "take_runes n (c # s) =
     (if continuation_byte c then c # take_runes n s else case n of 0 \<Rightarrow> [] | Suc m \<Rightarrow> c # take_runes m s)"

definition truncate_runes :: "string \<Rightarrow> string" where
  "truncate_runes s =
     (if length s \<le> 200 then s
      else if length (filter (\<lambda>c. \<not> continuation_byte c) s) \<le> 200 then s
      else take_runes 200 s @ ''...'')"

definition extractFFmpegSummary :: "string \<Rightarrow> string" where
  "extractFFmpegSummary stderr =
     (case List.find (\<lambda>l. l \<noteq> [] \<and> \<not> HasPrefix l ''frame='' \<and> \<not> HasPrefix l ''size='')
             (map TrimSpace (rev (text_lines (TrimSpace stderr)))) of
        Some l \<Rightarrow> truncate_runes l
      | None \<Rightarrow> if stderr \<noteq> [] then truncate_runes stderr else ''ffmpeg exited with non-zero status'')"

definition em_dash :: string where "em_dash = [CHR 0xE2, CHR 0x80, CHR 0x94]"

definition ClassifyFailure :: "int \<Rightarrow> string \<Rightarrow> string \<Rightarrow> bool \<Rightarrow> bool \<Rightarrow> string \<times> string" where
  "ClassifyFailure exitCode stderr errorMessage isTimeout isWorkerCrash =
     (if isWorkerCrash then (FailureWorkerCrash, ''Worker process terminated unexpectedly'')
      else if isSignalDeath exitCode \<or> isOOMKill stderr then
        (FailureWorkerCrash,
         if exitCode = 137 then ''Process killed by the OS out-of-memory killer (SIGKILL)''
         else if exitCode = 134 then ''ffmpeg aborted (SIGABRT, exit 134) '' @ em_dash @ '' transient crash under load''
         else if exitCode = 139 then ''ffmpeg segfaulted (SIGSEGV, exit 139) '' @ em_dash @ '' transient crash under load''
         else ''ffmpeg killed by OS signal (exit '' @ Itoa exitCode @ '')'')
      else if isTimeout then (FailureTimeout, ''Job execution timed out'')
      else if isDiskFull stderr then (FailureDiskFull, ''No space left on device'')
      else if isOutputOpenFailure stderr then (FailureFFmpegError, ''ffmpeg could not open or initialize the output file'')
      else if isInputUnreachable stderr then (FailureInputUnreachable, ''Input file or stream cannot be reached'')
      else if isEncoderUnsupported stderr then (FailureEncoderUnsupported, ''Requested encoder is not supported or not found'')
      else (FailureFFmpegError, extractFFmpegSummary stderr))"

text \<open>A download error: whether it unwraps to a full disk, and its text.\<close>

definition isDiskFullError :: "(bool \<times> string) option \<Rightarrow> bool" where
  "isDiskFullError err \<longleftrightarrow> (case err of None \<Rightarrow> False | Some (enospc, msg) \<Rightarrow> enospc \<or> isDiskFull msg)"

definition ClassifyInputDownloadFailure :: "string \<Rightarrow> (bool \<times> string) option \<Rightarrow> string" where
  "ClassifyInputDownloadFailure fileID downloadErr =
     (if isDiskFullError downloadErr then FailureDiskFull
      else if IsRemoteURL fileID then FailureInputUnreachable
      else FailureInfra)"

subsection \<open>Names of downloaded inputs\<close>

definition maxInputBaseName :: nat where "maxInputBaseName = 128"
definition allowedExtraChars :: string where "allowedExtraChars = '' ()[]''"

text \<open>One character per rune of the name, any one above 127 for a rune that is not ASCII; \<open>uuid\<close> is a fresh identifier.\<close>

definition safe_char :: "char \<Rightarrow> bool" where
  "safe_char c \<longleftrightarrow> (let n = (of_char c :: nat) in
     (97 \<le> n \<and> n \<le> 122) \<or> (65 \<le> n \<and> n \<le> 90) \<or> (48 \<le> n \<and> n \<le> 57) \<or> c \<in> {CHR ''.'', CHR ''-'', CHR ''_''} \<or> c \<in> set allowedExtraChars)"

definition sanitizeInputBaseName :: "string \<Rightarrow> string \<Rightarrow> string" where
  "sanitizeInputBaseName uuid rawBase =
     (let base = (if rawBase = ''.'' \<or> rawBase = ''/'' \<or> rawBase = ''..'' then [] else rawBase);
          result = take maxInputBaseName (map (\<lambda>c. if safe_char c then c else CHR ''_'') base)
      in if result = [] \<or> result = ''.'' \<or> result = ''..'' then uuid else result)"

end
