(* ===== verification/FfmpegArgs.thy ===== *)
theory FfmpegArgs
  imports GoFormat
begin

section \<open>ffmpeg command lines on the worker (pkg/ffmpegopts/ffmpegopts.go, pkg/worker/executor.go, streaming_format.go)\<close>

text \<open>Which options take a value, how a job's arguments become a command, and how the lines of ffmpeg's stderr are cut.\<close>

subsection \<open>Strings\<close>

definition TrimPrefix :: "string \<Rightarrow> string \<Rightarrow> string" where
  "TrimPrefix s p = (if HasPrefix s p then drop (length p) s else s)"

definition TrimSuffix :: "string \<Rightarrow> string \<Rightarrow> string" where
  "TrimSuffix s p = (if HasSuffix s p then take (length s - length p) s else s)"

text \<open>The text before the first \<open>c\<close>, all of it where there is none.\<close>

definition before :: "char \<Rightarrow> string \<Rightarrow> string" where
  "before c s = takeWhile (\<lambda>x. x \<noteq> c) s"

text \<open>\<^verbatim>\<open>strconv.Atoi\<close> on a 64-bit platform.\<close>

definition Atoi :: "string \<Rightarrow> int option" where
  "Atoi s =
     (let neg = HasPrefix s ''-''; ds = (if neg \<or> HasPrefix s ''+'' then tl s else s)
      in if ds = [] then None
         else case read_digits 0 ds of
                None \<Rightarrow> None
              | Some n \<Rightarrow> let v = (if neg then - n else n) in if v < - (2 ^ 63) \<or> v \<ge> 2 ^ 63 then None else Some v)"

subsection \<open>Option arity and overwriting (ffmpegopts.go)\<close>

text \<open>The options the table marks as taking no value; those marked otherwise are looked up like absent ones.\<close>

definition booleanFlags :: "string list" where
  "booleanFlags = [
    ''re'', ''xerror'', ''noautorotate'', ''hide_banner'', ''accurate_seek'', ''an'', ''auto_conversion_filters'',
    ''autorotate'', ''autoscale'', ''benchmark'', ''benchmark_all'', ''bitexact'', ''bsfs'', ''buildconf'',
    ''codecs'', ''colors'', ''copy_unknown'', ''copyinkf'', ''copyts'', ''debug_ts'', ''decoders'', ''demuxers'',
    ''devices'', ''display_hflip'', ''display_vflip'', ''dispositions'', ''dn'', ''dump'', ''encoders'', ''filters'',
    ''find_stream_info'', ''fix_sub_duration'', ''fix_sub_duration_heartbeat'', ''force_fps'', ''formats'', ''hex'',
    ''hwaccels'', ''ignore_unknown'', ''layouts'', ''license'', ''muxers'', ''n'', ''pix_fmts'', ''print_graphs'',
    ''protocols'', ''recast_media'', ''report'', ''sample_fmts'', ''shortest'', ''sn'', ''start_at_zero'', ''stats'',
    ''stdin'', ''version'', ''vn'', ''vstats'', ''y'']"

definition IsBoolean :: "string \<Rightarrow> bool" where
  "IsBoolean flag \<longleftrightarrow>
     (let name = TrimPrefix flag ''-''
      in if CHR ''='' \<in> set name then True
         else let name = before (CHR '':'') name
              in if name \<in> set booleanFlags then True
                 else if HasPrefix name ''no'' \<and> drop 2 name \<noteq> [] \<and> \<not> HasPrefix (drop 2 name) ''no''
                      then drop 2 name \<in> set booleanFlags
                      else False)"

datatype OverwriteMode = OverwriteAsk | OverwriteForce | OverwriteNever | OverwriteConflict

definition OverwritePolicy :: "string list \<Rightarrow> OverwriteMode" where
  "OverwritePolicy args =
     (let opts = takeWhile (\<lambda>a. a \<noteq> ''--'') args; force = (''-y'' \<in> set opts); never = (''-n'' \<in> set opts)
      in if force \<and> never then OverwriteConflict else if force then OverwriteForce
         else if never then OverwriteNever else OverwriteAsk)"

subsection \<open>The command of a job (executor.go)\<close>

definition isFlagWithValue :: "string \<Rightarrow> bool" where
  "isFlagWithValue flag \<longleftrightarrow> CHR ''='' \<notin> set flag \<and> \<not> IsBoolean flag"

text \<open>The two variables of the loop: whether a value is expected, whether the inputs are over.\<close>

fun output_loop :: "bool \<Rightarrow> bool \<Rightarrow> string list \<Rightarrow> bool" where
  "output_loop expectingValue seenInput [] \<longleftrightarrow> False"
| "output_loop expectingValue seenInput (arg # args) \<longleftrightarrow>
     (if expectingValue then output_loop False seenInput args
      else if arg = ''-i'' \<or> arg = ''--input'' then output_loop True True args
      else if \<not> seenInput then
        (if \<not> HasPrefix arg ''-'' then output_loop False True args else output_loop (isFlagWithValue arg) seenInput args)
      else if arg = ''-'' \<or> \<not> HasPrefix arg ''-'' then True
      else output_loop (isFlagWithValue arg) seenInput args)"

definition hasOutputArg :: "string list \<Rightarrow> bool" where
  "hasOutputArg args \<longleftrightarrow> output_loop False False args"

fun findSeparator :: "nat \<Rightarrow> string list \<Rightarrow> int" where
  "findSeparator i [] = -1"
| "findSeparator i (arg # args) = (if arg = ''--'' then int i else findSeparator (Suc i) args)"

definition findSeparatorIndex :: "string list \<Rightarrow> int" where
  "findSeparatorIndex args = findSeparator 0 args"

fun fill_inputs :: "string list \<Rightarrow> string list \<Rightarrow> string list" where
  "fill_inputs [] inputs = []"
| "fill_inputs (arg # args) inputs =
     (if arg = ''<INPUT_FILE>''
      then (case inputs of [] \<Rightarrow> arg # fill_inputs args [] | p # ps \<Rightarrow> p # fill_inputs args ps)
      else arg # fill_inputs args inputs)"

definition BuildArgs :: "string list \<Rightarrow> string list \<Rightarrow> string \<Rightarrow> string list" where
  "BuildArgs jobArgs inputPaths outputPath =
     (let args = fill_inputs jobArgs inputPaths; separatorIdx = findSeparatorIndex args
      in if separatorIdx \<ge> 0
         then (if separatorIdx = int (length args) - 1 then args @ [outputPath] else args)
         else if \<not> hasOutputArg args then args @ [outputPath] else args)"

definition networkPrefixes :: "string list" where
  "networkPrefixes = [''rtmp://'', ''rtmps://'', ''rtmpe://'', ''rtmpt://'', ''rtmpts://'', ''rtmpte://'', ''rtsp://'', ''rtsps://'',
     ''udp://'', ''tcp://'', ''srt://'', ''rtp://'', ''rist://'', ''icecast://'', ''http://'', ''https://'']"

definition isNetworkOutput :: "string \<Rightarrow> string list \<Rightarrow> bool" where
  "isNetworkOutput outputPath args \<longleftrightarrow>
     list_ex (HasPrefix outputPath) networkPrefixes \<or>
     list_ex (\<lambda>arg. list_ex (HasPrefix arg) networkPrefixes) (filter (\<lambda>a. a \<noteq> ''--'') (dropWhile (\<lambda>a. a \<noteq> ''--'') args)) \<or>
     list_ex (\<lambda>arg. list_ex (HasPrefix arg) networkPrefixes) args"

definition isQuietLogLevel :: "string \<Rightarrow> bool" where
  "isQuietLogLevel level \<longleftrightarrow>
     ToLower level \<in> set [''quiet'', ''panic'', ''fatal'', ''error'', ''warning''] \<or>
     (case Atoi level of None \<Rightarrow> False | Some n \<Rightarrow> n \<le> 24)"

fun suppresses_loop :: "bool \<Rightarrow> string list \<Rightarrow> bool" where
  "suppresses_loop suppressed [] \<longleftrightarrow> suppressed"
| "suppresses_loop suppressed (arg # args) \<longleftrightarrow>
     suppresses_loop
       (suppressed \<or>
        (if arg = ''-nostats'' then True
         else if arg = ''-loglevel'' \<or> arg = ''-v'' then (case args of [] \<Rightarrow> False | v # others \<Rightarrow> isQuietLogLevel v)
         else if HasPrefix arg ''-loglevel='' then isQuietLogLevel (TrimPrefix arg ''-loglevel='')
         else if HasPrefix arg ''-v='' then isQuietLogLevel (TrimPrefix arg ''-v='')
         else False)) args"

definition ffmpegSuppressesProgressOutput :: "string list \<Rightarrow> bool" where
  "ffmpegSuppressesProgressOutput args = suppresses_loop False args"

subsection \<open>Cutting stderr into lines\<close>

definition CR :: char where "CR = CHR 0x0D"
definition LF :: char where "LF = CHR 0x0A"

text \<open>The split function: how far to advance and the token, nothing where it needs more data.\<close>

definition splitProgressLines :: "string \<Rightarrow> bool \<Rightarrow> (nat \<times> string) option" where
  "splitProgressLines data atEOF =
     (if atEOF \<and> data = [] then None
      else (let tok = takeWhile (\<lambda>b. b \<noteq> CR \<and> b \<noteq> LF) data
            in case drop (length tok) data of
                 [] \<Rightarrow> if atEOF then Some (length data, data) else None
               | b # rest \<Rightarrow>
                   if b = CR \<and> rest \<noteq> [] \<and> hd rest = LF then Some (length tok + 2, tok) else Some (length tok + 1, tok)))"

text \<open>
  The scanner of the standard library around it: \<open>chunks\<close> are what the reads deliver, no more of them is the end of the file. A
  buffer of \<open>limit\<close> bytes without a token ends the scan with an error.
\<close>

definition MaxScanTokenSize :: nat where "MaxScanTokenSize = 64 * 1024"

lemma splitProgressLines_advance: "splitProgressLines data atEOF = Some (n, tok) \<Longrightarrow> 0 < n \<and> data \<noteq> []"
  by (auto simp: splitProgressLines_def Let_def split: if_splits list.splits)

function scan_stderr :: "nat \<Rightarrow> string \<Rightarrow> string list \<Rightarrow> string list" where
  "scan_stderr limit buf chunks =
     (case splitProgressLines buf (chunks = []) of
        Some (n, tok) \<Rightarrow> tok # scan_stderr limit (drop n buf) chunks
      | None \<Rightarrow>
          (case chunks of
             [] \<Rightarrow> []
           | c # cs \<Rightarrow> if length buf \<ge> limit then [] else scan_stderr limit (buf @ c) cs))"
  by pat_completeness auto
termination
  by (relation "measure (\<lambda>(limit, buf, chunks). length buf + (\<Sum>c\<leftarrow>chunks. length c + 1))")
    (auto dest!: splitProgressLines_advance)

declare scan_stderr.simps [simp del]

text \<open>What the handler gets: every line that is not empty, with a line feed.\<close>

definition stderr_lines :: "string list \<Rightarrow> string list" where
  "stderr_lines chunks = map (\<lambda>l. l @ [LF]) (filter (\<lambda>l. l \<noteq> []) (scan_stderr MaxScanTokenSize [] chunks))"

subsection \<open>Streaming output (streaming_format.go)\<close>

definition streamableMuxerFlags :: "string \<Rightarrow> string list option" where
  "streamableMuxerFlags format =
     (if format = ''mp4'' \<or> format = ''mov'' then Some [''-movflags'', ''+empty_moov+frag_keyframe+default_base_moof''] else None)"

text \<open>The index of the value of the last \<^verbatim>\<open>-i\<close>, or -1.\<close>

fun last_input_value :: "nat \<Rightarrow> int \<Rightarrow> string list \<Rightarrow> int" where
  "last_input_value i found (arg # nxt # args) =
     last_input_value (Suc i) (if arg = ''-i'' then int i + 1 else found) (nxt # args)"
| "last_input_value i found args = found"

text \<open>The loop downwards: the index of the last \<^verbatim>\<open>-f\<close> from \<open>i\<close> down to above \<open>bound\<close>.\<close>

fun format_index :: "string list \<Rightarrow> int \<Rightarrow> nat \<Rightarrow> nat option" where
  "format_index args bound i =
     (if int i \<le> bound then None
      else if args ! i = ''-f'' then Some i
      else case i of 0 \<Rightarrow> None | Suc j \<Rightarrow> format_index args bound j)"

declare format_index.simps [simp del]

definition applyStreamableFormat :: "string list \<Rightarrow> string \<Rightarrow> string list \<times> string" where
  "applyStreamableFormat args outputPath =
     (if outputPath \<noteq> ''-'' \<or> length args < 2 then (args, [])
      else (case format_index args (last_input_value 0 (- 1) args) (length args - 2) of
              None \<Rightarrow> (args, [])
            | Some i \<Rightarrow>
                let format = ToLower (args ! (i + 1))
                in case streamableMuxerFlags format of
                     None \<Rightarrow> (args, [])
                   | Some flags \<Rightarrow>
                       if ''-movflags'' \<in> set args then (args, [])
                       else (take (i + 2) args @ flags @ drop (i + 2) args,
                             ''streaming output: '' @ format @
                             '' muxer requires seekable output; auto-enabled fragmented output (-movflags '' @
                             TrimPrefix (flags ! 1) ''+'' @ '')'')))"

subsection \<open>The lines do not depend on the reads\<close>

lemma Split_ne [simp]: "Split sep s \<noteq> []"
  by (cases s) (auto split: list.split)

lemma Split_plain: "sep \<notin> set a \<Longrightarrow> Split sep (a @ x) = (a @ hd (Split sep x)) # tl (Split sep x)"
  by (induction a) (auto split: list.split)

definition norm_lines :: "string \<Rightarrow> string list" where
  "norm_lines s = Split LF (map (\<lambda>c. if c = CR then LF else c) s)"

definition plain :: "string \<Rightarrow> bool" where
  "plain t \<longleftrightarrow> CR \<notin> set t \<and> LF \<notin> set t"

lemma norm_plain: "plain t \<Longrightarrow> map (\<lambda>c. if c = CR then LF else c) t = t"
  by (intro map_idI) (auto simp: plain_def)

lemma norm_lines_plain: "plain t \<Longrightarrow> norm_lines (t @ x) = (t @ hd (norm_lines x)) # tl (norm_lines x)"
  using Split_plain [of LF t] by (simp add: norm_lines_def norm_plain) (simp add: plain_def)

lemma norm_lines_sep: "plain t \<Longrightarrow> b = CR \<or> b = LF \<Longrightarrow> norm_lines (t @ b # x) = t # norm_lines x"
  using norm_lines_plain [of t "b # x"] by (auto simp: norm_lines_def)

lemma norm_lines_Nil [simp]: "norm_lines [] = [[]]"
  by (simp add: norm_lines_def)

text \<open>One token: the text before the next separator, in a buffer that holds one.\<close>

lemma token_cases:
  obtains (token) n tok b rest where "splitProgressLines buf atEOF = Some (n, tok)" "plain tok" "b = CR \<or> b = LF" "buf = tok @ b # rest"
      "drop n buf = rest \<or> (b = CR \<and> (\<exists>r. rest = LF # r \<and> drop n buf = r))"
    | (ending) "splitProgressLines buf atEOF = Some (length buf, buf)" "plain buf" "atEOF" "buf \<noteq> []"
    | (wait) "splitProgressLines buf atEOF = None" "plain buf" "atEOF \<longrightarrow> buf = []"
proof -
  define tok where "tok = takeWhile (\<lambda>b. b \<noteq> CR \<and> b \<noteq> LF) buf"
  have plain: "plain tok" by (auto simp: plain_def tok_def dest: set_takeWhileD)
  have buf: "buf = tok @ drop (length tok) buf" by (metis append_take_drop_id takeWhile_eq_take tok_def)
  show ?thesis
  proof (cases "drop (length tok) buf")
    case Nil
    then have "buf = tok" using buf by simp
    then show ?thesis using plain ending wait Nil unfolding splitProgressLines_def tok_def [symmetric] Let_def
      by (cases atEOF; cases "buf = []") auto
  next
    case (Cons b rest)
    then have b: "buf = tok @ b # rest" using buf by simp
    then have ne: "buf \<noteq> []" by simp
    then have "b = CR \<or> b = LF"
      by (metis (mono_tags, lifting) Cons dropWhile_eq_Cons_conv dropWhile_eq_drop tok_def)
    moreover have "splitProgressLines buf atEOF =
      (if b = CR \<and> rest \<noteq> [] \<and> hd rest = LF then Some (length tok + 2, tok) else Some (length tok + 1, tok))"
      using ne by (simp add: splitProgressLines_def Let_def Cons flip: tok_def)
    ultimately show ?thesis using token plain b by (cases rest) (auto split: if_splits)
  qed
qed

lemma scan_stderr_Nil: "scan_stderr limit [] [] = []"
  by (simp add: scan_stderr.simps splitProgressLines_def)

lemma scan_stderr_lines:
  "list_all (\<lambda>l. length l < limit) (norm_lines (buf @ concat chunks)) \<Longrightarrow>
   filter (\<lambda>l. l \<noteq> []) (scan_stderr limit buf chunks) = filter (\<lambda>l. l \<noteq> []) (norm_lines (buf @ concat chunks))"
proof (induction limit buf chunks rule: scan_stderr.induct)
  case (1 limit buf chunks)
  show ?case
  proof (cases rule: token_cases [of buf "chunks = []"])
    case (token n tok b rest)
    have "norm_lines (LF # r @ x) = [] # norm_lines (r @ x)" for r x using norm_lines_sep [of "[]" LF "r @ x"] by (simp add: plain_def)
    then have "filter (\<lambda>l. l \<noteq> []) (norm_lines (rest @ concat chunks)) = filter (\<lambda>l. l \<noteq> []) (norm_lines (drop n buf @ concat chunks)) \<and>
      set (norm_lines (drop n buf @ concat chunks)) \<subseteq> set (norm_lines (rest @ concat chunks))"
      using token(5) by auto
    moreover have "norm_lines (buf @ concat chunks) = tok # norm_lines (rest @ concat chunks)"
      using norm_lines_sep [OF token(2,3)] token(4) by simp
    ultimately show ?thesis
      using 1(2) [OF token(1) refl] 1(3) token(1) by (auto simp: scan_stderr.simps [of limit buf] list_all_iff)
  next
    case ending
    then show ?thesis
      using norm_lines_plain [of buf "[]"] by (simp add: scan_stderr.simps [of limit buf] scan_stderr_Nil)
  next
    case wait
    show ?thesis
    proof (cases chunks)
      case Nil
      then show ?thesis using wait by (simp add: scan_stderr.simps)
    next
      case (Cons c cs)
      have "length buf < limit" using norm_lines_plain [OF wait(2)] 1(3) by auto
      then show ?thesis
        using 1(1) [OF wait(1) Cons] 1(3) wait Cons by (simp add: scan_stderr.simps [of limit buf])
    qed
  qed
qed

text \<open>
  C28: cutting stderr into lines does not depend on how the reads fall. As long as no line reaches the buffer limit, the handler
  gets exactly the non-empty lines of the output in order, carriage returns counting as line ends, whatever pieces it
  arrives in.
\<close>

theorem stderr_lines_exact:
  assumes "list_all (\<lambda>l. length l < MaxScanTokenSize) (Split LF (map (\<lambda>c. if c = CR then LF else c) (concat chunks)))"
  shows "stderr_lines chunks =
    map (\<lambda>l. l @ [LF]) (filter (\<lambda>l. l \<noteq> []) (Split LF (map (\<lambda>c. if c = CR then LF else c) (concat chunks))))"
  using scan_stderr_lines [of MaxScanTokenSize "[]" chunks] assms by (simp add: stderr_lines_def norm_lines_def)

theorem stderr_lines_exact_witness: "stderr_lines [''a'', [CR], [LF] @ ''b'', [CR] @ ''c'', [LF]] = [''a'' @ [LF], ''b'' @ [LF], ''c'' @ [LF]]"
  using stderr_lines_exact [of "[''a'', [CR], [LF] @ ''b'', [CR] @ ''c'', [LF]]"]
  by (simp add: CR_def LF_def MaxScanTokenSize_def)

end
