(* ===== verification/ParamPrune.thy ===== *)
theory ParamPrune
  imports FailureAnalysis FfmpegArgs
begin

section \<open>Removing options (pkg/worker/param_prune.go)\<close>

text \<open>
  Which options a failed command is retried without. The pattern of a rule is plain text here as in the table, looked for without
  regard to case. A recommendation is a set in the code, a Go map; its list stands for any order.
\<close>

record prune_rule =
  pr_type :: FFmpegErrorType
  pr_params :: "string list"
  pr_patterns :: "(string \<times> string list) list"

definition DefaultPruneRules :: "prune_rule list" where
  "DefaultPruneRules = [
     \<lparr>pr_type = ErrorTypeInvalidArgument, pr_params = [],
       pr_patterns = [
         (''hwaccel'', [''-hwaccel'', ''-hwaccel_device'', ''-hwaccel_output_format'']),
         (''profile'', [''-profile'', ''-profile:v'']),
         (''level'', [''-level'', ''-level:v'']),
         (''tune'', [''-tune'']),
         (''preset'', [''-preset'']),
         (''rc'', [''-rc'', ''-rc_lookahead''])]\<rparr>,
     \<lparr>pr_type = ErrorTypeEncoderNotFound, pr_params = [],
       pr_patterns = [
         (''nvenc'', [''-gpu'', ''-surfaces'', ''-delay'', ''-2pass'', ''-_multipass'', ''-rc'', ''-cq'', ''-b:v'', ''-maxrate'',
           ''-bufsize'', ''-profile:v'', ''-level:v'', ''-tier'', ''-preset'', ''-tune'', ''-rc-lookahead'',
           ''-spatial-aq'', ''-temporal-aq'', ''-aq-strength'']),
         (''qsv'', [''-qsv_device'', ''-load_plugin'', ''-async_depth'', ''-max_frame_size'', ''-max_frame_size_i'',
           ''-max_frame_size_p'', ''-gpb'', ''-low_delay_brc'', ''-bb'', ''-gmc'', ''-idr_interval'',
           ''-pic_timing_sei'', ''-vcm'', ''-profile:v'', ''-level:v'', ''-tier'', ''-preset'', ''-tune'']),
         (''vaapi'', [''-vaapi_device'', ''-low_power'', ''-idr_interval'', ''-b_depth'', ''-async_depth'', ''-profile:v'',
           ''-level:v'', ''-tier'', ''-preset'']),
         (''amf'', [''-gpu'', ''-rc'', ''-enforce_hrd'', ''-filler_data'', ''-frame_skipping'', ''-max_au_size'',
           ''-header_spacing'', ''-b_ref_delta'', ''-intra_refresh_mb'', ''-cq'', ''-vbr'', ''-profile:v'', ''-level:v'',
           ''-tier'', ''-preset'', ''-tune'']),
         (''videotoolbox'', [''-profile:v'', ''-level:v'', ''-tier'', ''-preset'', ''-allow_sw'', ''-require_sw'', ''-realtime'',
           ''-frames_before'', ''-frames_after''])]\<rparr>,
     \<lparr>pr_type = ErrorTypeDeviceNotFound, pr_params = [''-hwaccel_device'', ''-vaapi_device'', ''-qsv_device'', ''-gpu''],
       pr_patterns = [
         (''/dev/dri'', [''-vaapi_device'', ''-hwaccel_device'']),
         (''CUDA'', [''-gpu'', ''-hwaccel_device'']),
         (''QSV'', [''-qsv_device'', ''-hwaccel_device''])]\<rparr>,
     \<lparr>pr_type = ErrorTypeUnsupportedCodec, pr_params = [''-profile'', ''-profile:v'', ''-level'', ''-level:v'', ''-tier''],
       pr_patterns = [
         (''profile'', [''-profile'', ''-profile:v'']),
         (''level'', [''-level'', ''-level:v'']),
         (''tier'', [''-tier''])]\<rparr>,
     \<lparr>pr_type = ErrorTypeHWAccelFailed, pr_params = [''-hwaccel'', ''-hwaccel_device'', ''-hwaccel_output_format'', ''-init_hw_device''],
       pr_patterns = [
         (''hwaccel'', [''-hwaccel'', ''-hwaccel_device'', ''-hwaccel_output_format'']),
         (''init_hw_device'', [''-init_hw_device'']),
         (''nvenc'', [''-gpu'', ''-surfaces'', ''-delay'', ''-2pass'', ''-multipass'', ''-rc'', ''-cq'', ''-b:v'', ''-maxrate'',
           ''-bufsize'', ''-profile:v'', ''-level:v'', ''-tier'', ''-preset'', ''-tune'', ''-rc-lookahead'',
           ''-spatial-aq'', ''-temporal-aq'', ''-aq-strength'']),
         (''qsv'', [''-qsv_device'', ''-load_plugin'', ''-async_depth'', ''-max_frame_size'', ''-profile:v'', ''-level:v'',
           ''-tier'', ''-preset'', ''-tune'']),
         (''vaapi'', [''-vaapi_device'', ''-low_power'', ''-idr_interval'', ''-b_depth'', ''-async_depth'', ''-profile:v'',
           ''-level:v'', ''-tier'', ''-preset'']),
         (''amf'', [''-gpu'', ''-rc'', ''-enforce_hrd'', ''-filler_data'', ''-frame_skipping'', ''-profile:v'', ''-level:v'',
           ''-tier'', ''-preset'', ''-tune'']),
         (''videotoolbox'', [''-profile:v'', ''-level:v'', ''-tier'', ''-preset'', ''-allow_sw'', ''-require_sw''])]\<rparr>,
     \<lparr>pr_type = ErrorTypeMemoryAllocation, pr_params = [],
       pr_patterns = []\<rparr>,
     \<lparr>pr_type = ErrorTypeInputOutput, pr_params = [],
       pr_patterns = []\<rparr>,
     \<lparr>pr_type = ErrorTypePermissionDenied, pr_params = [],
       pr_patterns = []\<rparr>]"

text \<open>The pattern rules with the error type of their rule.\<close>

definition compiled_rules :: "prune_rule list \<Rightarrow> (FFmpegErrorType \<times> string \<times> string list) list" where
  "compiled_rules rules = concat (map (\<lambda>r. map (\<lambda>(p, ps). (pr_type r, p, ps)) (pr_patterns r)) rules)"

definition GetPruneRecommendations :: "prune_rule list \<Rightarrow> FFmpegErrorType \<Rightarrow> string \<Rightarrow> string list" where
  "GetPruneRecommendations rules errorType stderr =
     remdups (concat (map pr_params (filter (\<lambda>r. pr_type r = errorType) rules)) @
       concat (map (\<lambda>(t, p, ps). if (t = errorType \<or> t = ErrorTypeUnknown) \<and> matches_text p stderr then ps else [])
         (compiled_rules rules)))"

text \<open>
  Dropping options from a command: \<open>drop\<close> tells the options that go with their value, unless the next argument begins with a
  dash, \<open>joined\<close> the arguments that carry their value.
\<close>

fun drop_options :: "(string \<Rightarrow> bool) \<Rightarrow> (string \<Rightarrow> bool) \<Rightarrow> string list \<Rightarrow> string list" where
  "drop_options dropped joined [] = []"
| "drop_options dropped joined (arg # args) =
     (if dropped arg
      then (case args of
              [] \<Rightarrow> []
            | v # others \<Rightarrow> if \<not> HasPrefix v ''-'' then drop_options dropped joined others else drop_options dropped joined args)
      else if joined arg then drop_options dropped joined args
      else arg # drop_options dropped joined args)"

definition PruneParams :: "string list \<Rightarrow> string list \<Rightarrow> string list" where
  "PruneParams args paramsToRemove =
     (if paramsToRemove = [] then args
      else drop_options (\<lambda>a. a \<in> set paramsToRemove)
             (\<lambda>a. CHR ''='' \<in> set a \<and> before (CHR ''='') a \<in> set paramsToRemove) args)"

definition PruneParamsFromError :: "prune_rule list \<Rightarrow> string list \<Rightarrow> ffmpeg_error option \<Rightarrow> string list" where
  "PruneParamsFromError rules args err =
     (case err of None \<Rightarrow> args | Some e \<Rightarrow> PruneParams args (GetPruneRecommendations rules (fe_type e) (fe_stderr e)))"

definition pruner_hwParams :: "string list" where
  "pruner_hwParams = [''-hwaccel'', ''-hwaccel_device'', ''-hwaccel_output_format'', ''-init_hw_device'', ''-vaapi_device'',
    ''-qsv_device'', ''-gpu'', ''-surfaces'', ''-delay'', ''-2pass'', ''-multipass'', ''-rc'', ''-rc_lookahead'',
    ''-rc-lookahead'', ''-spatial_aq'', ''-spatial-aq'', ''-temporal_aq'', ''-temporal-aq'', ''-aq_strength'',
    ''-aq-strength'', ''-low_power'', ''-low-power'', ''-async_depth'', ''-async-depth'', ''-load_plugin'',
    ''-load-plugin'', ''-enforce_hrd'', ''-enforce-hrd'', ''-filler_data'', ''-filler-data'', ''-frame_skipping'',
    ''-frame-skipping'', ''-allow_sw'', ''-allow-sw'', ''-require_sw'', ''-require-sw'']"

definition PruneHardwareParams :: "string list \<Rightarrow> string list" where
  "PruneHardwareParams args = PruneParams args pruner_hwParams"

definition PruneProfileLevelParams :: "string list \<Rightarrow> string list" where
  "PruneProfileLevelParams args = PruneParams args [''-profile'', ''-profile:v'', ''-level'', ''-level:v'', ''-tier'']"

definition PruneAdvancedParams :: "string list \<Rightarrow> string list" where
  "PruneAdvancedParams args = PruneParams args [''-preset'', ''-tune'', ''-x264-params'', ''-x265-params'', ''-crf'', ''-cq'', ''-qp'', ''-q:v'', ''-b:v'',
    ''-maxrate'', ''-bufsize'', ''-minrate'', ''-g'', ''-keyint_min'', ''-sc_threshold'', ''-bf'', ''-b_strategy'',
    ''-refs'']"

subsection \<open>What is left\<close>

lemma drop_options_rules:
  "\<not> d a \<Longrightarrow> \<not> j a \<Longrightarrow> drop_options d j (a # args) = a # drop_options d j args"
  "\<not> d a \<Longrightarrow> j a \<Longrightarrow> drop_options d j (a # args) = drop_options d j args"
  "d a \<Longrightarrow> drop_options d j [a] = []"
  "d a \<Longrightarrow> \<not> HasPrefix v ''-'' \<Longrightarrow> drop_options d j (a # v # args) = drop_options d j args"
  "d a \<Longrightarrow> HasPrefix v ''-'' \<Longrightarrow> drop_options d j (a # v # args) = drop_options d j (v # args)"
  by simp_all

text \<open>Induction along the loop, one rule for each way an argument goes.\<close>

lemma drop_options_induct [case_names Nil kept joined final withval flag]:
  assumes "P []"
    and "\<And>a args. \<not> d a \<Longrightarrow> \<not> j a \<Longrightarrow> P args \<Longrightarrow> P (a # args)"
    and "\<And>a args. \<not> d a \<Longrightarrow> j a \<Longrightarrow> P args \<Longrightarrow> P (a # args)"
    and "\<And>a. d a \<Longrightarrow> P [a]"
    and "\<And>a v args. d a \<Longrightarrow> \<not> HasPrefix v ''-'' \<Longrightarrow> P args \<Longrightarrow> P (a # v # args)"
    and "\<And>a v args. d a \<Longrightarrow> HasPrefix v ''-'' \<Longrightarrow> P (v # args) \<Longrightarrow> P (a # v # args)"
  shows "P args"
proof (induction args rule: length_induct)
  case (1 xs)
  show ?case
  proof (cases xs)
    case (Cons a ys)
    then have "P ys" using 1 by simp
    show ?thesis
    proof (cases "d a")
      case True
      show ?thesis
      proof (cases ys)
        case (Cons v zs)
        then have "P zs" using 1 \<open>xs = a # ys\<close> by simp
        then show ?thesis using assms(5,6) True \<open>P ys\<close> \<open>xs = a # ys\<close> Cons by (cases "HasPrefix v ''-''") auto
      qed (use assms(4) True Cons in simp)
    qed (use assms(2,3) \<open>P ys\<close> Cons in \<open>cases "j a"; simp\<close>)
  qed (use assms(1) in simp)
qed

declare drop_options.simps(2) [simp del]

lemma drop_options_left: "set (drop_options d j args) \<subseteq> {a \<in> set args. \<not> d a \<and> \<not> j a}"
  by (induction args rule: drop_options_induct [of _ d j]) (auto simp: drop_options_rules)

lemma drop_options_id: "\<forall>a \<in> set args. \<not> d a \<and> \<not> j a \<Longrightarrow> drop_options d j args = args"
  by (induction args) (auto simp: drop_options_rules)

lemma drop_options_idem: "drop_options d j (drop_options d j args) = drop_options d j args"
  by (rule drop_options_id) (use drop_options_left [of d j args] in auto)

end
