(* ===== verification/EncoderFallback.thy ===== *)
theory EncoderFallback
  imports VideoFlags ParamPrune "HOL-Library.AList" "HOL-Library.List_Lexorder" "HOL-Library.Char_ord"
begin

section \<open>Falling back to a software encoder (pkg/worker/encoder_fallback.go)\<close>

text \<open>
  The tables are Go maps, association lists with distinct keys here; nothing depends on their order. \<open>hwCaps\<close> are the encoders the
  worker reported, as the parser of the command takes them.
\<close>

record encoder_fallback =
  hardwareToSoftware :: "(string \<times> string) list"
  formatEncoders :: "(string \<times> string list) list"
  softwareFallbackChain :: "(string \<times> string) list"

definition defaultHardwareToSoftwareMap :: "(string \<times> string) list" where
  "defaultHardwareToSoftwareMap = [
     (''h264_nvenc'', ''libx264''), (''h264_qsv'', ''libx264''), (''h264_vaapi'', ''libx264''),
     (''h264_amf'', ''libx264''), (''h264_videotoolbox'', ''libx264''), (''hevc_nvenc'', ''libx265''),
     (''hevc_qsv'', ''libx265''), (''hevc_vaapi'', ''libx265''), (''hevc_amf'', ''libx265''),
     (''hevc_videotoolbox'', ''libx265''), (''vp9_vaapi'', ''libvpx-vp9''), (''vp9_qsv'', ''libvpx-vp9''),
     (''vp9_videotoolbox'', ''libvpx-vp9''), (''av1_nvenc'', ''libaom-av1''), (''av1_qsv'', ''libaom-av1''),
     (''av1_vaapi'', ''libaom-av1''), (''av1_amf'', ''libaom-av1''), (''vp8_vaapi'', ''libvpx''),
     (''mpeg2_vaapi'', ''mpeg2video'')]"

definition defaultFormatEncodersMap :: "(string \<times> string list) list" where
  "defaultFormatEncodersMap = [
     (''h264'', [''libx264'', ''libx264rgb'']), (''avc'', [''libx264'', ''libx264rgb'']), (''h264nv'', [''libx264'']),
     (''hevc'', [''libx265'']), (''h265'', [''libx265'']), (''hevcnv'', [''libx265'']), (''vp9'', [''libvpx-vp9'']),
     (''av1'', [''libaom-av1'', ''libsvtav1'']), (''vp8'', [''libvpx'']), (''mpeg2video'', [''mpeg2video'']),
     (''mpeg4'', [''mpeg4'']), (''mjpeg'', [''mjpeg''])]"

definition defaultSoftwareFallbackChain :: "(string \<times> string) list" where
  "defaultSoftwareFallbackChain = [(''libaom-av1'', ''libsvtav1''), (''libx264rgb'', ''libx264'')]"

definition NewEncoderFallback :: encoder_fallback where
  "NewEncoderFallback =
     \<lparr>hardwareToSoftware = defaultHardwareToSoftwareMap, formatEncoders = defaultFormatEncodersMap,
      softwareFallbackChain = defaultSoftwareFallbackChain\<rparr>"

subsection \<open>Kinds of encoders\<close>

definition encoder_suffixes :: "string list" where
  "encoder_suffixes = [''_nvenc'', ''_qsv'', ''_vaapi'', ''_amf'', ''_videotoolbox'', ''_cuvid'', ''_vdpau'', ''_nvdec'']"

definition fb_IsHardwareEncoder :: "string \<Rightarrow> bool" where
  "fb_IsHardwareEncoder encoder \<longleftrightarrow> list_ex (HasSuffix encoder) encoder_suffixes"

definition IsKnownSoftwareEncoder :: "encoder_fallback \<Rightarrow> string \<Rightarrow> bool" where
  "IsKnownSoftwareEncoder f encoder \<longleftrightarrow>
     list_ex (\<lambda>(fmt, es). encoder \<in> set es) (formatEncoders f) \<or> list_ex (\<lambda>(hw, sw). sw = encoder) (hardwareToSoftware f)"

definition inferSoftwareEncoder :: "string \<Rightarrow> string" where
  "inferSoftwareEncoder encoder =
     (let e = ToLower encoder
      in if Contains e ''h264'' \<or> Contains e ''avc'' then ''libx264''
         else if Contains e ''hevc'' \<or> Contains e ''h265'' then ''libx265''
         else if Contains e ''vp9'' then ''libvpx-vp9''
         else if Contains e ''av1'' then ''libaom-av1''
         else if Contains e ''vp8'' then ''libvpx''
         else [])"

definition fb_GetSoftwareEncoder :: "encoder_fallback \<Rightarrow> string \<Rightarrow> string" where
  "fb_GetSoftwareEncoder f encoder =
     (case map_of (hardwareToSoftware f) encoder of
        Some sw \<Rightarrow> sw
      | None \<Rightarrow> if \<not> fb_IsHardwareEncoder encoder then encoder else inferSoftwareEncoder encoder)"

text \<open>\<^verbatim>\<open>filepath.Ext\<close>: from the last dot of the last path element on.\<close>

definition path_ext :: "string \<Rightarrow> string" where
  "path_ext path =
     (let lst = rev (takeWhile (\<lambda>c. c \<noteq> CHR ''/'') (rev path))
      in if CHR ''.'' \<in> set lst then CHR ''.'' # rev (takeWhile (\<lambda>c. c \<noteq> CHR ''.'') (rev lst)) else [])"

fun infer_from_format :: "string list \<Rightarrow> string" where
  "infer_from_format (arg # nxt # args) =
     (if arg = ''-f'' \<and> ToLower nxt \<in> {''mp4'', ''mov'', ''matroska'', ''flv''} then ''libx264''
      else if arg = ''-f'' \<and> ToLower nxt = ''webm'' then ''libvpx-vp9''
      else infer_from_format (nxt # args))"
| "infer_from_format args = []"

definition inferSoftwareEncoderFromContext :: "string list \<Rightarrow> string \<Rightarrow> string" where
  "inferSoftwareEncoderFromContext args outputPath =
     (let ext = ToLower (path_ext outputPath)
      in if ext \<in> {''.mkv'', ''.mp4'', ''.mov'', ''.avi'', ''.flv'', ''.ts'', ''.m2ts''} then ''libx264''
         else if ext = ''.webm'' then ''libvpx-vp9''
         else if ext = ''.ivf'' then ''libvpx''
         else infer_from_format args)"

subsection \<open>Codec families\<close>

definition GetEncoderFormat :: "string \<Rightarrow> string" where
  "GetEncoderFormat encoder =
     (let has = Contains (ToLower encoder)
      in if has ''svt'' \<and> has ''av1'' then ''av1''
         else if has ''svt'' \<and> has ''hevc'' then ''hevc''
         else if has ''h264'' \<or> has ''avc'' \<or> has ''x264'' then ''h264''
         else if has ''hevc'' \<or> has ''h265'' \<or> has ''x265'' then ''hevc''
         else if has ''vp9'' then ''vp9''
         else if has ''vpx'' then ''vp8''
         else if has ''av1'' then ''av1''
         else if has ''vp8'' then ''vp8''
         else if has ''mpeg2'' then ''mpeg2video''
         else if has ''mpeg4'' then ''mpeg4''
         else if has ''mjpeg'' then ''mjpeg''
         else if has ''opus'' then ''opus''
         else if has ''mp3'' \<or> has ''lame'' then ''mp3''
         else if has ''aac'' then ''aac''
         else if has ''vorbis'' then ''vorbis''
         else if has ''flac'' then ''flac''
         else if has ''wav'' then ''wav''
         else if has ''pcm'' \<or> has ''s16le'' \<or> has ''s24le'' \<or> has ''s32le'' then ''pcm''
         else [])"

definition GetEncoderFamily :: "string \<Rightarrow> string" where
  "GetEncoderFamily encoder =
     (let format = GetEncoderFormat encoder in if format = ''vp8'' \<or> format = ''vp9'' then ''vpx'' else format)"

definition GetAvailableSoftwareEncoders :: "encoder_fallback \<Rightarrow> string \<Rightarrow> string list" where
  "GetAvailableSoftwareEncoders f format = (case map_of (formatEncoders f) format of None \<Rightarrow> [] | Some es \<Rightarrow> es)"

definition GetAlternativeSoftwareEncoder :: "encoder_fallback \<Rightarrow> string \<Rightarrow> string" where
  "GetAlternativeSoftwareEncoder f encoder =
     (case map_of (softwareFallbackChain f) encoder of
        None \<Rightarrow> []
      | Some nxt \<Rightarrow>
          if nxt = encoder then []
          else if GetEncoderFamily encoder = [] \<or> GetEncoderFamily nxt = [] then []
          else if GetEncoderFamily encoder \<noteq> GetEncoderFamily nxt then []
          else nxt)"

definition IsCrossFormatFallback :: "string \<Rightarrow> string \<Rightarrow> bool" where
  "IsCrossFormatFallback a b \<longleftrightarrow>
     GetEncoderFamily a = [] \<or> GetEncoderFamily b = [] \<or> GetEncoderFamily a \<noteq> GetEncoderFamily b"

definition ValidateEncoder :: "encoder_fallback \<Rightarrow> string \<Rightarrow> bool" where
  "ValidateEncoder f encoder \<longleftrightarrow>
     map_of (hardwareToSoftware f) encoder \<noteq> None \<or> list_ex (\<lambda>(fmt, es). encoder \<in> set es) (formatEncoders f) \<or> GetEncoderFormat encoder \<noteq> []"

definition AddSoftwareFallbackChain :: "string \<Rightarrow> string \<Rightarrow> encoder_fallback \<Rightarrow> encoder_fallback" where
  "AddSoftwareFallbackChain a b f = f\<lparr>softwareFallbackChain := AList.update a b (softwareFallbackChain f)\<rparr>"

definition AddEncoderMapping :: "string \<Rightarrow> string \<Rightarrow> encoder_fallback \<Rightarrow> encoder_fallback" where
  "AddEncoderMapping hardware software f = f\<lparr>hardwareToSoftware := AList.update hardware software (hardwareToSoftware f)\<rparr>"

definition AddFormatEncoder :: "string \<Rightarrow> string \<Rightarrow> encoder_fallback \<Rightarrow> encoder_fallback" where
  "AddFormatEncoder format encoder f =
     (let es = GetAvailableSoftwareEncoders f format
      in if encoder \<in> set es then f
         else f\<lparr>formatEncoders := AList.update format (sort (es @ [encoder])) (formatEncoders f)\<rparr>)"

subsection \<open>Fallback arguments\<close>

definition isHardwareSpecificParam :: "string \<Rightarrow> bool" where
  "isHardwareSpecificParam param \<longleftrightarrow> param \<in> set [
     ''-hwaccel'', ''-hwaccel_device'', ''-hwaccel_output_format'', ''-init_hw_device'', ''-vaapi_device'',
     ''-qsv_device'', ''-gpu'', ''-surfaces'', ''-delay'', ''-2pass'', ''-multipass'', ''-rc'', ''-rc_lookahead'',
     ''-rc-lookahead'', ''-spatial_aq'', ''-spatial-aq'', ''-temporal_aq'', ''-temporal-aq'', ''-aq_strength'',
     ''-aq-strength'', ''-low_power'', ''-low-power'', ''-async_depth'', ''-async-depth'', ''-load_plugin'',
     ''-load-plugin'', ''-enforce_hrd'', ''-enforce-hrd'', ''-filler_data'', ''-filler-data'', ''-frame_skipping'',
     ''-frame-skipping'', ''-allow_sw'', ''-allow-sw'', ''-require_sw'', ''-require-sw'']"

definition buildFallbackArgs :: "hardware_caps option \<Rightarrow> string list \<Rightarrow> string \<Rightarrow> string \<Rightarrow> string list" where
  "buildFallbackArgs hwCaps args swEncoder outputPath =
     (let hasPrimary = PrimaryVideoEncoderFlag (ParseVideoEncoderFlags args hwCaps) \<noteq> None;
          args = ReplacePrimaryVideoEncoder args swEncoder hwCaps;
          result = drop_options isHardwareSpecificParam (\<lambda>a. False) args;
          result = (if \<not> hasPrimary then result @ [''-c:v'', swEncoder] else result)
      in if outputPath \<noteq> [] \<and> \<not> hasOutputArg result then result @ [outputPath] else result)"

text \<open>\<open>isFallback\<close>: the current encoder was chosen by an earlier fallback. Nothing is returned where there is no fallback.\<close>

definition prepareFallbackArgsWithSource ::
  "encoder_fallback \<Rightarrow> hardware_caps option \<Rightarrow> string list \<Rightarrow> string \<Rightarrow> bool \<Rightarrow> string list option" where
  "prepareFallbackArgsWithSource f hwCaps args outputPath isFallback =
     (let currentEncoder = extractEncoderFromArgsWithCaps args hwCaps
      in if currentEncoder = [] \<or> currentEncoder = ''copy'' then None
         else
           (let swEncoder = fb_GetSoftwareEncoder f currentEncoder
            in if swEncoder = [] \<or> swEncoder = currentEncoder then
                 (if IsKnownSoftwareEncoder f currentEncoder then
                    (let altEncoder = GetAlternativeSoftwareEncoder f currentEncoder
                     in if isFallback \<and> altEncoder \<noteq> [] \<and> altEncoder \<noteq> currentEncoder
                        then Some (buildFallbackArgs hwCaps args altEncoder outputPath)
                        else None)
                  else
                    (let sw = inferSoftwareEncoderFromContext args outputPath
                     in Some (buildFallbackArgs hwCaps args (if sw = [] then ''libx264'' else sw) outputPath)))
               else Some (buildFallbackArgs hwCaps args swEncoder outputPath)))"

definition PrepareFallbackArgs ::
  "encoder_fallback \<Rightarrow> hardware_caps option \<Rightarrow> string list \<Rightarrow> string \<Rightarrow> bool \<Rightarrow> string list option" where
  "PrepareFallbackArgs f hwCaps args outputPath isUserSelected =
     prepareFallbackArgsWithSource f hwCaps args outputPath (\<not> isUserSelected)"

definition PrepareFallbackArgsWithSource ::
  "encoder_fallback \<Rightarrow> hardware_caps option \<Rightarrow> string list \<Rightarrow> string \<Rightarrow> bool \<Rightarrow> string list option" where
  "PrepareFallbackArgsWithSource f hwCaps args outputPath isUserSelected =
     prepareFallbackArgsWithSource f hwCaps args outputPath (\<not> isUserSelected)"

subsection \<open>Dropping options keeps the encoder\<close>

definition is_flag_name :: "string \<Rightarrow> bool" where
  "is_flag_name arg \<longleftrightarrow> length arg \<ge> 2 \<and> hd arg = CHR ''-'' \<and> CHR ''='' \<notin> set arg \<and> videoEncoderFlagName (tl arg) \<noteq> None"

definition is_value :: "string \<Rightarrow> bool" where
  "is_value v \<longleftrightarrow> v \<noteq> [] \<and> hd v \<noteq> CHR ''-''"

text \<open>Every encoder option of the command has its value.\<close>

fun proper_flags :: "string list \<Rightarrow> bool" where
  "proper_flags [] \<longleftrightarrow> True"
| "proper_flags (arg # args) \<longleftrightarrow> arg = ''--'' \<or>
     (is_flag_name arg \<longrightarrow> args \<noteq> [] \<and> is_value (hd args)) \<and> proper_flags args"

definition strip :: "video_flag \<Rightarrow> video_flag" where
  "strip f = f\<lparr>vf_index := 0\<rparr>"

lemma strip_simps [simp]: "vf_value (strip f) = vf_value f" "vf_generic (strip f) = vf_generic f"
  by (simp_all add: strip_def)

lemma Primary_strip:
  assumes "map strip fs = map strip gs"
  shows "map_option vf_value (PrimaryVideoEncoderFlag fs) = map_option vf_value (PrimaryVideoEncoderFlag gs)"
proof -
  have find: "map_option strip (List.find (\<lambda>f. \<not> vf_generic f) hs) = List.find (\<lambda>f. \<not> vf_generic f) (map strip hs)" for hs
    by (induction hs) auto
  have "map_option strip (PrimaryVideoEncoderFlag hs) = PrimaryVideoEncoderFlag (map strip hs)" for hs
    using find [of "rev hs"] by (auto simp: PrimaryVideoEncoderFlag_def rev_map last_map split: option.splits)
  from this [of fs] this [of gs] assms have "map_option strip (PrimaryVideoEncoderFlag fs) = map_option strip (PrimaryVideoEncoderFlag gs)"
    by simp
  then have "map_option vf_value (map_option strip (PrimaryVideoEncoderFlag fs)) =
      map_option vf_value (map_option strip (PrimaryVideoEncoderFlag gs))" by simp
  then show ?thesis by (simp add: option.map_comp comp_def)
qed

lemma flag_here_name: "\<not> is_flag_name arg \<Longrightarrow> flag_here hwCaps i arg rest = None"
  by (cases arg) (auto simp: flag_here_def is_flag_name_def Let_def Suc_le_eq split: option.split)

lemma flag_here_strip: "map_option strip (flag_here hwCaps i arg (v # xs)) = map_option strip (flag_here hwCaps k arg (v # ys))"
  by (auto simp: flag_here_def Let_def strip_def split: option.split)

lemma parse_step:
  assumes "a \<noteq> ''--''" "map_option strip (flag_here hwCaps i a xs) = map_option strip (flag_here hwCaps k a ys)"
    "map strip (parse_flags hwCaps (Suc i) xs) = map strip (parse_flags hwCaps (Suc k) ys)"
  shows "map strip (parse_flags hwCaps i (a # xs)) = map strip (parse_flags hwCaps k (a # ys))"
  using assms by (cases "flag_here hwCaps i a xs"; cases "flag_here hwCaps k a ys") auto

lemma is_value_flag: "is_value v \<Longrightarrow> \<not> is_flag_name v \<and> v \<noteq> ''--'' \<and> \<not> HasPrefix v ''-''"
  by (cases v) (auto simp: is_value_def is_flag_name_def HasPrefix_def)

text \<open>What may be dropped: options that select no encoder.\<close>

definition plain_option :: "string \<Rightarrow> bool" where
  "plain_option a \<longleftrightarrow> HasPrefix a ''-'' \<and> a \<noteq> ''--'' \<and> \<not> is_flag_name a"

lemma drop_options_flags:
  assumes drop: "\<And>a. d a \<or> j a \<Longrightarrow> plain_option a"
  shows "proper_flags args \<Longrightarrow> proper_flags (drop_options d j args) \<and>
    map strip (parse_flags hwCaps i (drop_options d j args)) = map strip (parse_flags hwCaps k args)"
proof (induction args arbitrary: i k rule: drop_options_induct [of _ d j])
  case (kept a args)
  show ?case
  proof (cases "a = ''--''")
    case False
    then have IH: "proper_flags (drop_options d j args)"
        "map strip (parse_flags hwCaps (Suc i) (drop_options d j args)) = map strip (parse_flags hwCaps (Suc k) args)"
      using kept by auto
    show ?thesis
    proof (cases "is_flag_name a")
      case True
      then obtain v others where v: "args = v # others" "is_value v" using kept.prems False by (cases args) auto
      then have "\<not> d v" "\<not> j v" using drop is_value_flag by (auto simp: plain_option_def)
      then have d: "drop_options d j args = v # drop_options d j others" using v by (simp add: drop_options_rules)
      then have out: "drop_options d j (a # args) = a # v # drop_options d j others" using kept(1,2) by (simp add: drop_options_rules)
      have "proper_flags (a # v # drop_options d j others)" using IH(1) v(2) by (simp only: d) simp
      moreover have "map strip (parse_flags hwCaps i (a # v # drop_options d j others)) = map strip (parse_flags hwCaps k (a # args))"
        unfolding v(1) by (rule parse_step [OF False flag_here_strip IH(2) [unfolded d, unfolded v(1)]])
      ultimately show ?thesis by (simp only: out)
    qed (use IH False kept in \<open>simp add: drop_options_rules flag_here_name\<close>)
  qed (use kept in \<open>simp add: drop_options_rules\<close>)
next
  case (joined a args)
  then have "plain_option a" using drop by blast
  then show ?case using joined by (simp add: plain_option_def drop_options_rules flag_here_name)
next
  case (final a)
  then have "plain_option a" using drop by blast
  then show ?case using final by (simp add: plain_option_def drop_options_rules flag_here_name)
next
  case (withval a v args)
  then have "plain_option a" using drop by blast
  moreover have v: "\<not> is_flag_name v" "v \<noteq> ''--''" using withval(2) by (cases v; auto simp: is_flag_name_def HasPrefix_def)+
  ultimately show ?case using withval by (simp add: plain_option_def drop_options_rules flag_here_name)
next
  case (flag a v args)
  then have "plain_option a" using drop by blast
  then show ?case using flag by (simp add: plain_option_def drop_options_rules flag_here_name)
qed simp

lemma drop_options_encoder:
  assumes "\<And>a. d a \<or> j a \<Longrightarrow> plain_option a" "proper_flags args"
  shows "proper_flags (drop_options d j args)"
    "extractEncoderFromArgsWithCaps (drop_options d j args) hwCaps = extractEncoderFromArgsWithCaps args hwCaps"
proof -
  have "map strip (ParseVideoEncoderFlags (drop_options d j args) hwCaps) = map strip (ParseVideoEncoderFlags args hwCaps)"
    using drop_options_flags [OF assms, of d j] by (simp add: ParseVideoEncoderFlags_def)
  from Primary_strip [OF this]
  show "extractEncoderFromArgsWithCaps (drop_options d j args) hwCaps = extractEncoderFromArgsWithCaps args hwCaps"
    by (auto simp: extractEncoderFromArgsWithCaps_def split: option.splits)
  show "proper_flags (drop_options d j args)" using drop_options_flags [OF assms, of d j] by simp
qed

subsection \<open>The fallback selects its encoder\<close>

lemma put_flag_proper:
  assumes "is_value enc"
  shows "proper_flags args \<Longrightarrow> f \<in> set (parse_flags hwCaps i args) \<Longrightarrow> proper_flags (put_flag f enc (vf_index f - i) args)"
proof (induction hwCaps i args rule: parse_flags.induct)
  case (2 hwCaps i arg rest)
  have ne: "arg \<noteq> ''--''" using 2(4) by (auto split: if_splits)
  show ?case
  proof (cases "vf_index f = i")
    case True
    then have here: "flag_here hwCaps i arg rest = Some f"
      using find_index [OF parse_flags_distinct 2(4)] find_flag_head [OF ne] by (simp del: parse_flags.simps)
    obtain others where rest: "rest = vf_value f # others" using flag_hereD [OF here] by auto
    have "is_value (vf_value f)" using flag_hereD [OF here] by (simp add: is_value_def)
    then have "proper_flags others" using 2(3) ne rest is_value_flag by auto
    moreover have "\<not> is_flag_name enc" using is_value_flag [OF assms] by simp
    ultimately show ?thesis using True assms rest by (simp add: put_flag_def)
  next
    case False
    then have later: "f \<in> set (parse_flags hwCaps (Suc i) rest)" and "i < vf_index f"
      using 2(4) ne parse_flags_index [OF 2(4)] by (auto split: option.splits dest: flag_hereD)
    then have k: "vf_index f - i = Suc (vf_index f - Suc i)" by simp
    have "proper_flags rest" using 2(3) ne by simp
    with 2(1,2) ne later have IH: "proper_flags (put_flag f enc (vf_index f - Suc i) rest)"
      by (cases "flag_here hwCaps i arg rest") auto
    have "\<exists>v others. put_flag f enc (vf_index f - Suc i) rest = v # others \<and> is_value v" if flag: "is_flag_name arg"
    proof -
      obtain v others where v: "rest = v # others" "is_value v" using 2(3) ne flag by (cases rest) auto
      then have "flag_here hwCaps (Suc i) v others = None" "v \<noteq> ''--''" using is_value_flag flag_here_name by auto
      then have "f \<in> set (parse_flags hwCaps (Suc (Suc i)) others)" using later v by simp
      then have "vf_index f - Suc i = Suc (vf_index f - Suc (Suc i))" using parse_flags_index by fastforce
      then show ?thesis using v by (simp add: put_flag_Suc)
    qed
    then show ?thesis using IH ne by (auto simp: k put_flag_Suc)
  qed
qed simp

lemma Replace_encoder:
  assumes "proper_flags args" "is_value enc" "extractEncoderFromArgsWithCaps args hwCaps \<notin> {[], ''copy''}"
  shows "proper_flags (ReplacePrimaryVideoEncoder args enc hwCaps)"
    "extractEncoderFromArgsWithCaps (ReplacePrimaryVideoEncoder args enc hwCaps) hwCaps = enc"
proof -
  obtain f where f: "PrimaryVideoEncoderFlag (ParseVideoEncoderFlags args hwCaps) = Some f" "vf_value f \<noteq> ''copy''"
    using assms(3) by (auto simp: extractEncoderFromArgsWithCaps_def split: option.splits)
  then have eq: "ReplacePrimaryVideoEncoder args enc hwCaps = put_flag f enc (vf_index f) args" by (simp add: Replace_eq)
  have mem: "f \<in> set (parse_flags hwCaps 0 args)" using Primary_in [OF f(1)] by (simp add: ParseVideoEncoderFlags_def)
  show "proper_flags (ReplacePrimaryVideoEncoder args enc hwCaps)" using put_flag_proper [OF assms(2,1) mem] by (simp add: eq)
  have "parse_flags hwCaps 0 (put_flag f enc (vf_index f) args) = map (set_flag f enc) (parse_flags hwCaps 0 args)"
    using parse_put_flag [of enc f hwCaps 0 args] mem assms(2) by (simp add: is_value_def)
  then have "PrimaryVideoEncoderFlag (ParseVideoEncoderFlags (put_flag f enc (vf_index f) args) hwCaps) = Some (set_flag f enc f)"
    using Primary_set [OF f(1)] parse_flags_distinct by (simp add: ParseVideoEncoderFlags_def)
  then show "extractEncoderFromArgsWithCaps (ReplacePrimaryVideoEncoder args enc hwCaps) hwCaps = enc"
    by (simp add: eq extractEncoderFromArgsWithCaps_def set_flag_def)
qed

text \<open>An argument at the end of a proper command changes none of its encoder options.\<close>

lemma parse_append:
  "proper_flags args \<Longrightarrow> \<not> is_flag_name x \<Longrightarrow> proper_flags (args @ [x])" "proper_flags args \<Longrightarrow> parse_flags hwCaps i (args @ [x]) = parse_flags hwCaps i args"
proof -
  show "proper_flags args \<Longrightarrow> \<not> is_flag_name x \<Longrightarrow> proper_flags (args @ [x])"
    by (induction args) (auto simp: hd_append)
  have none: "flag_here hwCaps i x [] = None" for hwCaps i by (auto simp: flag_here_def Let_def split: option.split)
  show "proper_flags args \<Longrightarrow> parse_flags hwCaps i (args @ [x]) = parse_flags hwCaps i args"
  proof (induction hwCaps i args rule: parse_flags.induct)
    case (2 hwCaps i arg rest)
    have "flag_here hwCaps i arg (rest @ [x]) = flag_here hwCaps i arg rest" if ne: "arg \<noteq> ''--''"
    proof (cases rest)
      case Nil
      then have "\<not> is_flag_name arg" using 2(3) ne by auto
      then show ?thesis by (simp add: flag_here_name)
    next
      case (Cons v others)
      then show ?thesis by (simp only: append.simps flag_here_next [of hwCaps i arg v "others @ [x]" others])
    qed
    then show ?case using 2 by (auto split: option.split)
  qed (simp add: none)
qed

lemma hardware_params_plain: "isHardwareSpecificParam a \<Longrightarrow> plain_option a"
  unfolding isHardwareSpecificParam_def set_simps
  by (elim insertE emptyE) (simp_all add: plain_option_def is_flag_name_def videoEncoderFlagName_def HasPrefix_def)

lemma buildFallbackArgs_encoder:
  assumes "proper_flags args" "is_value sw" "extractEncoderFromArgsWithCaps args hwCaps \<notin> {[], ''copy''}" "\<not> is_flag_name out"
  shows "proper_flags (buildFallbackArgs hwCaps args sw out)"
    "extractEncoderFromArgsWithCaps (buildFallbackArgs hwCaps args sw out) hwCaps = sw"
proof -
  let ?r = "drop_options isHardwareSpecificParam (\<lambda>a. False) (ReplacePrimaryVideoEncoder args sw hwCaps)"
  have primary: "PrimaryVideoEncoderFlag (ParseVideoEncoderFlags args hwCaps) \<noteq> None"
    using assms(3) by (auto simp: extractEncoderFromArgsWithCaps_def split: option.splits)
  have r: "proper_flags ?r" "extractEncoderFromArgsWithCaps ?r hwCaps = sw"
    using drop_options_encoder [where d = isHardwareSpecificParam and j = "\<lambda>a. False", OF _ Replace_encoder(1) [OF assms(1-3)]]
      Replace_encoder(2) [OF assms(1-3)] hardware_params_plain by simp_all
  have eq: "buildFallbackArgs hwCaps args sw out = (if out \<noteq> [] \<and> \<not> hasOutputArg ?r then ?r @ [out] else ?r)"
    using primary by (simp add: buildFallbackArgs_def Let_def)
  show "proper_flags (buildFallbackArgs hwCaps args sw out)"
    unfolding eq using r(1) parse_append(1) [of ?r out] assms(4) by auto
  show "extractEncoderFromArgsWithCaps (buildFallbackArgs hwCaps args sw out) hwCaps = sw"
    unfolding eq using r(2) parse_append(2) [OF r(1), of hwCaps 0 out]
    by (simp add: extractEncoderFromArgsWithCaps_def ParseVideoEncoderFlags_def)
qed

subsection \<open>The default tables stay within a codec family\<close>

definition known_encoder :: "encoder_fallback \<Rightarrow> string \<Rightarrow> bool" where
  "known_encoder f e \<longleftrightarrow> map_of (hardwareToSoftware f) e \<noteq> None \<or> IsKnownSoftwareEncoder f e"

text \<open>What the tables have to satisfy, as a check that computes.\<close>

definition tables_ok :: "encoder_fallback \<Rightarrow> bool" where
  "tables_ok f \<longleftrightarrow>
     list_all (\<lambda>(hw, sw). sw \<noteq> hw \<and> is_value sw \<and> sw \<noteq> ''copy'' \<and> GetEncoderFamily hw = GetEncoderFamily sw \<and> GetEncoderFamily hw \<noteq> [])
       (hardwareToSoftware f) \<and>
     list_all (\<lambda>(fmt, es). list_all (\<lambda>e. \<not> fb_IsHardwareEncoder e \<and> map_of (hardwareToSoftware f) e = None) es) (formatEncoders f) \<and>
     list_all (\<lambda>(hw, sw). \<not> fb_IsHardwareEncoder sw \<and> map_of (hardwareToSoftware f) sw = None) (hardwareToSoftware f) \<and>
     list_all (\<lambda>(a, b). is_value b \<and> b \<noteq> ''copy'' \<and> IsKnownSoftwareEncoder f b) (softwareFallbackChain f)"

lemma NewEncoderFallback_ok: "tables_ok NewEncoderFallback"
  by code_simp

lemma tables_okD:
  assumes "tables_ok f"
  shows "(hw, sw) \<in> set (hardwareToSoftware f) \<Longrightarrow> sw \<noteq> hw \<and> is_value sw \<and> sw \<noteq> ''copy'' \<and> GetEncoderFamily sw = GetEncoderFamily hw"
    "(hw, sw) \<in> set (hardwareToSoftware f) \<Longrightarrow> \<not> fb_IsHardwareEncoder sw \<and> map_of (hardwareToSoftware f) sw = None"
    "(fmt, es) \<in> set (formatEncoders f) \<Longrightarrow> e \<in> set es \<Longrightarrow> \<not> fb_IsHardwareEncoder e \<and> map_of (hardwareToSoftware f) e = None"
    "(a, b) \<in> set (softwareFallbackChain f) \<Longrightarrow> is_value b \<and> b \<noteq> ''copy'' \<and> IsKnownSoftwareEncoder f b"
proof -
  note t = assms [unfolded tables_ok_def list_all_iff]
  show "(hw, sw) \<in> set (hardwareToSoftware f) \<Longrightarrow> sw \<noteq> hw \<and> is_value sw \<and> sw \<noteq> ''copy'' \<and> GetEncoderFamily sw = GetEncoderFamily hw"
    using bspec [OF t [THEN conjunct1], of "(hw, sw)"] by simp
  show "(hw, sw) \<in> set (hardwareToSoftware f) \<Longrightarrow> \<not> fb_IsHardwareEncoder sw \<and> map_of (hardwareToSoftware f) sw = None"
    using bspec [OF t [THEN conjunct2, THEN conjunct2, THEN conjunct1], of "(hw, sw)"] by simp
  show "(fmt, es) \<in> set (formatEncoders f) \<Longrightarrow> e \<in> set es \<Longrightarrow> \<not> fb_IsHardwareEncoder e \<and> map_of (hardwareToSoftware f) e = None"
    using bspec [OF t [THEN conjunct2, THEN conjunct1], of "(fmt, es)"] by simp
  show "(a, b) \<in> set (softwareFallbackChain f) \<Longrightarrow> is_value b \<and> b \<noteq> ''copy'' \<and> IsKnownSoftwareEncoder f b"
    using bspec [OF t [THEN conjunct2, THEN conjunct2, THEN conjunct2], of "(a, b)"] by simp
qed

lemma known_software:
  assumes "tables_ok f" "IsKnownSoftwareEncoder f e"
  shows "fb_GetSoftwareEncoder f e = e"
proof -
  from assms(2) consider fmt es where "(fmt, es) \<in> set (formatEncoders f)" "e \<in> set es" | hw where "(hw, e) \<in> set (hardwareToSoftware f)"
    unfolding IsKnownSoftwareEncoder_def list_ex_iff by auto
  then have "\<not> fb_IsHardwareEncoder e \<and> map_of (hardwareToSoftware f) e = None"
    by cases (use tables_okD [OF assms(1)] in blast)+
  then show ?thesis by (simp add: fb_GetSoftwareEncoder_def)
qed

lemma Alternative_ok:
  assumes "GetAlternativeSoftwareEncoder f e \<noteq> []"
  shows "map_of (softwareFallbackChain f) e = Some (GetAlternativeSoftwareEncoder f e) \<and>
    GetEncoderFamily (GetAlternativeSoftwareEncoder f e) = GetEncoderFamily e"
proof (cases "map_of (softwareFallbackChain f) e")
  case (Some a)
  have "x \<noteq> [] \<Longrightarrow> x = (if a = e then [] else if g e = [] \<or> g a = [] then [] else if g e \<noteq> g a then [] else a) \<Longrightarrow> x = a \<and> g a = g e"
    for x :: string and g :: "string \<Rightarrow> string" by (metis (full_types))
  from this [OF assms, of GetEncoderFamily] Some show ?thesis by (simp add: GetAlternativeSoftwareEncoder_def)
qed (use assms in \<open>simp add: GetAlternativeSoftwareEncoder_def\<close>)

lemma prepareFallback_family:
  assumes "tables_ok f" "known_encoder f (extractEncoderFromArgsWithCaps args hwCaps)"
    "prepareFallbackArgsWithSource f hwCaps args out isFallback = Some args'"
  obtains sw where "args' = buildFallbackArgs hwCaps args sw out" "is_value sw" "known_encoder f sw"
    "GetEncoderFamily sw = GetEncoderFamily (extractEncoderFromArgsWithCaps args hwCaps)"
    "extractEncoderFromArgsWithCaps args hwCaps \<notin> {[], ''copy''}"
proof -
  let ?e = "extractEncoderFromArgsWithCaps args hwCaps"
  have e: "?e \<notin> {[], ''copy''}" using assms(3) by (auto simp: prepareFallbackArgsWithSource_def Let_def split: if_splits)
  show ?thesis
  proof (cases "IsKnownSoftwareEncoder f ?e")
    case True
    let ?alt = "GetAlternativeSoftwareEncoder f ?e"
    have alt: "?alt \<noteq> []" "args' = buildFallbackArgs hwCaps args ?alt out"
      using assms(3) True known_software [OF assms(1) True] e
      by (auto simp: prepareFallbackArgsWithSource_def Let_def split: if_splits)
    note ok = Alternative_ok [OF alt(1)]
    have "is_value ?alt \<and> IsKnownSoftwareEncoder f ?alt"
      using tables_okD(4) [OF assms(1)] ok map_of_SomeD [of "softwareFallbackChain f" ?e ?alt] by blast
    then show ?thesis using that alt(2) e ok by (simp add: known_encoder_def)
  next
    case False
    then obtain sw where sw: "map_of (hardwareToSoftware f) ?e = Some sw" using assms(2) by (auto simp: known_encoder_def)
    then have in_table: "(?e, sw) \<in> set (hardwareToSoftware f)" by (rule map_of_SomeD)
    then have ok: "sw \<noteq> ?e" "is_value sw" "GetEncoderFamily sw = GetEncoderFamily ?e"
      using tables_okD(1) [OF assms(1) in_table] by simp_all
    have "args' = buildFallbackArgs hwCaps args sw out"
      using assms(3) sw ok e by (auto simp: prepareFallbackArgsWithSource_def fb_GetSoftwareEncoder_def Let_def is_value_def split: if_splits)
    moreover have "known_encoder f sw" using in_table by (auto simp: known_encoder_def IsKnownSoftwareEncoder_def list_ex_iff)
    ultimately show ?thesis using that ok(2,3) e by blast
  qed
qed

end
