(* ===== verification/RetryExecution.thy ===== *)
theory RetryExecution
  imports EncoderFallback
begin

section \<open>Running ffmpeg with retries (pkg/worker/retry_executor.go, error_interceptor.go)\<close>

text \<open>
  A job is run again with fewer options or another encoder until it succeeds or the retries are used up. What an ffmpeg process
  does, what the file system holds after it and when the job is cancelled are the environment: functions of how many processes ran
  before. The calls with a visible effect are recorded in order: the announcement of an attempt, the removal of an old output, the
  process and the pause. Durations are nanoseconds.
\<close>

subsection \<open>Reading a result\<close>

record exec_result =
  ex_exit :: int
  ex_stdout :: string
  ex_stderr :: string
  ex_error :: "string option"
  ex_timeout :: bool

record intercepted =
  ic_exec :: exec_result
  ic_error :: "ffmpeg_error option"
  ic_success :: bool
  ic_prune :: "string list"

record interceptor =
  in_patterns :: error_patterns
  in_rules :: "prune_rule list"

definition NewErrorInterceptor :: interceptor where
  "NewErrorInterceptor = \<lparr>in_patterns = DefaultErrorPatterns, in_rules = DefaultPruneRules\<rparr>"

definition AddPattern :: "FFmpegErrorType \<times> string list \<Rightarrow> interceptor \<Rightarrow> interceptor" where
  "AddPattern pat i = i\<lparr>in_patterns := in_patterns i @ [pat]\<rparr>"

definition isHardwareEncoderByName :: "string \<Rightarrow> bool" where
  "isHardwareEncoderByName encoder \<longleftrightarrow> list_ex (HasSuffix encoder)
     [''_nvenc'', ''_qsv'', ''_vaapi'', ''_amf'', ''_videotoolbox'', ''_cuvid'', ''_vdpau'', ''_nvdec'']"

definition detectSoftwareEncoderInStderr :: "string \<Rightarrow> string" where
  "detectSoftwareEncoderInStderr stderr =
     (case List.find (\<lambda>enc. Contains stderr (''['' @ enc @ '' @''))
        [''libx264'', ''libx265'', ''libvpx-vp9'', ''libvpx'', ''libaom-av1'', ''libsvtav1'', ''mpeg2video'', ''mjpeg''] of
        Some enc \<Rightarrow> enc
      | None \<Rightarrow> [])"

definition plain_error :: "FFmpegErrorType \<Rightarrow> string \<Rightarrow> exec_result \<Rightarrow> ffmpeg_error" where
  "plain_error t msg res =
     \<lparr>fe_type = t, fe_message = msg, fe_exit = ex_exit res, fe_stderr = ex_stderr res, fe_patterns = [], fe_context = []\<rparr>"

definition InterceptWithEncoder :: "interceptor \<Rightarrow> exec_result \<Rightarrow> string \<Rightarrow> intercepted" where
  "InterceptWithEncoder i res requestedEncoder =
     (let ic = \<lparr>ic_exec = res, ic_error = None, ic_success = (ex_exit res = 0 \<and> ex_error res = None), ic_prune = []\<rparr>;
          ic = (case Analyze (in_patterns i) (ex_stderr res) (ex_exit res) of
                  None \<Rightarrow> ic
                | Some e \<Rightarrow> ic\<lparr>ic_error := Some e, ic_success := False,
                    ic_prune := GetPruneRecommendations (in_rules i) (fe_type e) (ex_stderr res)\<rparr>);
          swEnc = detectSoftwareEncoderInStderr (ex_stderr res)
      in if ic_success ic \<and> requestedEncoder \<noteq> [] \<and> isHardwareEncoderByName requestedEncoder \<and> swEnc \<noteq> [] \<and> swEnc \<noteq> requestedEncoder
         then ic\<lparr>ic_success := False,
                 ic_error := Some (plain_error ErrorTypeHWAccelFailed
                   (''Hardware encoder '' @ requestedEncoder @ '' silently fell back to software encoder '' @ swEnc) res)\<rparr>
         else ic)"

definition Intercept :: "interceptor \<Rightarrow> exec_result \<Rightarrow> intercepted" where
  "Intercept i res = InterceptWithEncoder i res []"

text \<open>The error a caller of the interceptor gets: its parsed error, or its own for a failure that was not recognized.\<close>

definition InterceptAndAnalyze :: "interceptor \<Rightarrow> exec_result \<Rightarrow> intercepted \<times> string option" where
  "InterceptAndAnalyze i res =
     (let ic = Intercept i res
      in (ic, case ic_error ic of
                Some e \<Rightarrow> Some (''ffmpeg error (type='' @ errortype_String (fe_type e) @ '', exit_code='' @ Itoa (fe_exit e) @ ''): '' @ fe_message e)
              | None \<Rightarrow> if \<not> ic_success ic then Some (''ffmpeg failed with exit code '' @ Itoa (ex_exit res) @ '': '' @ ex_stderr res) else None))"

subsection \<open>Stages, configuration and results\<close>

datatype retry_stage = RetryStageInitial | RetryStageHardwarePruned | RetryStageAdvancedPruned | RetryStageSoftwareFallback
  | RetryStageExhausted

fun stage_String :: "retry_stage \<Rightarrow> string" where
  "stage_String RetryStageInitial = ''initial''"
| "stage_String RetryStageHardwarePruned = ''hardware_pruned''"
| "stage_String RetryStageAdvancedPruned = ''advanced_pruned''"
| "stage_String RetryStageSoftwareFallback = ''software_fallback''"
| "stage_String RetryStageExhausted = ''exhausted''"

record retry_config =
  MaxRetries :: int
  InitialInterval :: int
  UseExponentialBackoff :: bool
  MaxInterval :: int
  EnableSoftwareFallback :: bool

definition DefaultRetryConfig :: retry_config where
  "DefaultRetryConfig =
     \<lparr>MaxRetries = 3, InitialInterval = 1000000000, UseExponentialBackoff = False, MaxInterval = 30 * 1000000000, EnableSoftwareFallback = True\<rparr>"

record audit_entry =
  ae_stage :: retry_stage
  ae_attempt :: int
  ae_args :: "string list"
  ae_errorType :: string
  ae_errorMessage :: string
  ae_exit :: int
  ae_pruned :: "string list"
  ae_encoder :: string
  ae_success :: bool
  ae_exec :: exec_result

datatype retry_event = Announce | RemoveFile string | RunFFmpeg "string list" | Pause int

text \<open>The result with the calls made so far; \<open>rr_args\<close> and \<open>rr_userSelected\<close> are the variables of the loop.\<close>

record retry_result =
  rr_final :: exec_result
  rr_intercepted :: "intercepted option"
  rr_audit :: "audit_entry list"
  rr_attempts :: int
  rr_stage :: retry_stage
  rr_success :: bool
  rr_usedSoftware :: bool
  rr_originalEncoder :: string
  rr_finalEncoder :: string
  rr_args :: "string list"
  rr_encoder :: string
  rr_userSelected :: bool
  rr_events :: "retry_event list"

record retry_executor =
  rx_config :: retry_config
  rx_interceptor :: interceptor
  rx_rules :: "prune_rule list"
  rx_fallback :: encoder_fallback
  rx_hwCaps :: "hardware_caps option"

definition NewRetryExecutor :: "retry_config option \<Rightarrow> retry_executor" where
  "NewRetryExecutor config =
     \<lparr>rx_config = (case config of None \<Rightarrow> DefaultRetryConfig | Some c \<Rightarrow> c), rx_interceptor = NewErrorInterceptor,
      rx_rules = DefaultPruneRules, rx_fallback = NewEncoderFallback, rx_hwCaps = None\<rparr>"

definition NewRetryExecutorWithFallback :: "retry_config option \<Rightarrow> encoder_fallback option \<Rightarrow> retry_executor" where
  "NewRetryExecutorWithFallback config fb =
     (NewRetryExecutor config)\<lparr>rx_fallback := (case fb of None \<Rightarrow> NewEncoderFallback | Some f \<Rightarrow> f)\<rparr>"

definition rx_SetHardwareCapabilities :: "hardware_caps option \<Rightarrow> retry_executor \<Rightarrow> retry_executor" where
  "rx_SetHardwareCapabilities caps x = x\<lparr>rx_hwCaps := caps\<rparr>"

text \<open>The environment: the result of the next process, the size of the output after it, none when it is not there, and whether the job is cancelled.\<close>

record retry_world =
  rw_exec :: "nat \<Rightarrow> string list \<Rightarrow> exec_result"
  rw_stat :: "nat \<Rightarrow> string \<Rightarrow> int option"
  rw_cancelled :: "nat \<Rightarrow> bool"

record retry_job =
  rj_args :: "string list"
  rj_output :: string
  rj_network :: bool

definition extractEncoder :: "retry_executor \<Rightarrow> string list \<Rightarrow> string" where
  "extractEncoder x args = extractEncoderFromArgsWithCaps args (rx_hwCaps x)"

subsection \<open>One process\<close>

definition local_output :: "retry_job \<Rightarrow> bool" where
  "local_output j \<longleftrightarrow> \<not> rj_network j \<and> rj_output j \<noteq> [] \<and> rj_output j \<noteq> ''-''"

definition clearStaleOutput :: "retry_job \<Rightarrow> retry_event list" where
  "clearStaleOutput j = (if \<not> local_output j then [] else [RemoveFile (rj_output j)])"

definition validate_output :: "retry_world \<Rightarrow> retry_job \<Rightarrow> nat \<Rightarrow> intercepted \<Rightarrow> intercepted" where
  "validate_output w j n ic =
     (if \<not> (ic_success ic \<and> local_output j) then ic
      else case rw_stat w n (rj_output j) of
             None \<Rightarrow> ic\<lparr>ic_success := False,
               ic_error := Some (plain_error ErrorTypeOutputEmpty (''output file not found: '' @ rj_output j) (ic_exec ic))\<rparr>
           | Some sz \<Rightarrow>
               if sz = 0 then ic\<lparr>ic_success := False,
                 ic_error := Some (plain_error ErrorTypeOutputEmpty (''output file is empty (0 bytes): '' @ rj_output j) (ic_exec ic))\<rparr>
               else ic)"

definition run_process :: "retry_executor \<Rightarrow> retry_world \<Rightarrow> retry_job \<Rightarrow> nat \<Rightarrow> string list \<Rightarrow> string \<Rightarrow> intercepted" where
  "run_process x w j n args encoder = validate_output w j n (InterceptWithEncoder (rx_interceptor x) (rw_exec w n args) encoder)"

definition launch :: "retry_job \<Rightarrow> string list \<Rightarrow> retry_event list" where
  "launch j args = Announce # clearStaleOutput j @ [RunFFmpeg args]"

definition audit_of :: "retry_stage \<Rightarrow> int \<Rightarrow> string list \<Rightarrow> string \<Rightarrow> intercepted \<Rightarrow> audit_entry" where
  "audit_of stage attempt args encoder ic =
     \<lparr>ae_stage = stage, ae_attempt = attempt, ae_args = args,
      ae_errorType = (if ic_success ic then [] else case ic_error ic of None \<Rightarrow> [] | Some e \<Rightarrow> errortype_String (fe_type e)),
      ae_errorMessage = (if ic_success ic then [] else case ic_error ic of None \<Rightarrow> [] | Some e \<Rightarrow> fe_message e),
      ae_exit = ex_exit (ic_exec ic), ae_pruned = [], ae_encoder = encoder, ae_success = ic_success ic, ae_exec = ic_exec ic\<rparr>"

subsection \<open>What to change for the next attempt\<close>

definition determineStage :: "int \<Rightarrow> retry_stage" where
  "determineStage attempt =
     (if attempt = 1 then RetryStageInitial else if attempt = 2 then RetryStageHardwarePruned
      else if attempt = 3 then RetryStageAdvancedPruned else RetryStageSoftwareFallback)"

text \<open>The options to drop are a Go map in the code, whose order its list leaves open; only their set matters.\<close>

definition hardware_removals :: "retry_executor \<Rightarrow> string list" where
  "hardware_removals x =
     remdups (GetPruneRecommendations (rx_rules x) ErrorTypeHWAccelFailed ''hwaccel'' @
       [''-hwaccel_device'', ''-vaapi_device'', ''-qsv_device'', ''-gpu''])"

definition pruneHardwareParams :: "retry_executor \<Rightarrow> string list \<Rightarrow> string list \<times> string list" where
  "pruneHardwareParams x args =
     (let prunedParams = hardware_removals x;
          prunedArgs = PruneParams args prunedParams;
          currentEncoder = extractEncoder x prunedArgs
      in if currentEncoder \<noteq> [] \<and> fb_IsHardwareEncoder currentEncoder then
           (case PrepareFallbackArgs (rx_fallback x) (rx_hwCaps x) prunedArgs [] True of
              None \<Rightarrow> (prunedArgs, prunedParams)
            | Some fallbackArgs \<Rightarrow>
                let swEncoder = extractEncoder x fallbackArgs
                in if swEncoder \<noteq> [] \<and> swEncoder \<noteq> currentEncoder
                   then (fallbackArgs, prunedParams @ [''encoder:'' @ currentEncoder @ ''->'' @ swEncoder])
                   else (prunedArgs, prunedParams))
         else (prunedArgs, prunedParams))"

definition advanced_removals :: "string list" where
  "advanced_removals = [''-profile'', ''-profile:v'', ''-level'', ''-level:v'', ''-tier'', ''-preset'', ''-tune'']"

definition pruneAdvancedParams :: "retry_executor \<Rightarrow> string list \<Rightarrow> string list \<times> string list" where
  "pruneAdvancedParams x args =
     (let (prunedArgs, hwPruned) = pruneHardwareParams x args;
          newPruned = filter (\<lambda>p. p \<notin> set hwPruned) advanced_removals
      in (PruneParams prunedArgs newPruned, hwPruned @ newPruned))"

definition retry_fallback :: "retry_executor \<Rightarrow> retry_job \<Rightarrow> string list \<Rightarrow> bool \<Rightarrow> string list option" where
  "retry_fallback x j args isUserSelected =
     PrepareFallbackArgsWithSource (rx_fallback x) (rx_hwCaps x) args (rj_output j) isUserSelected"

definition applyRetryStrategy ::
  "retry_executor \<Rightarrow> retry_job \<Rightarrow> string list \<Rightarrow> intercepted \<Rightarrow> int \<Rightarrow> bool \<Rightarrow> string list \<times> retry_stage \<times> string list" where
  "applyRetryStrategy x j args ic attempt isUserSelected =
     (let errorType = map_option fe_type (ic_error ic);
          fallback = retry_fallback x j args isUserSelected;
          emptyOutput = (\<not> rj_network j \<and> errorType = Some ErrorTypeOutputEmpty \<and>
            (case fallback of None \<Rightarrow> False
             | Some fargs \<Rightarrow> extractEncoder x fargs \<noteq> [] \<and> extractEncoder x fargs \<noteq> extractEncoder x args))
      in if emptyOutput then (the fallback, RetryStageSoftwareFallback, [''fallback_to_software_output_empty''])
         else if errorType = Some ErrorTypeEncoderNotFound then
           (case fallback of
              Some fargs \<Rightarrow> (fargs, RetryStageSoftwareFallback, [''fallback_to_software''])
            | None \<Rightarrow> (args, RetryStageExhausted, []))
         else if attempt = 1 then
           (let (prunedArgs, prunedParams) = pruneHardwareParams x args in (prunedArgs, RetryStageHardwarePruned, prunedParams))
         else if attempt = 2 then
           (let (prunedArgs, prunedParams) = pruneAdvancedParams x args in (prunedArgs, RetryStageAdvancedPruned, prunedParams))
         else
           (case fallback of
              Some fargs \<Rightarrow> (fargs, RetryStageSoftwareFallback, [''fallback_to_software''])
            | None \<Rightarrow> (args, RetryStageAdvancedPruned, [])))"

text \<open>The doublings of the interval before attempt \<open>n + 1\<close>.\<close>

fun backoff :: "int \<Rightarrow> nat \<Rightarrow> int \<Rightarrow> int" where
  "backoff maxInterval 0 interval = interval"
| "backoff maxInterval (Suc n) interval =
     (if interval * 2 > maxInterval then maxInterval else backoff maxInterval n (interval * 2))"

definition retry_interval :: "retry_config \<Rightarrow> int \<Rightarrow> int" where
  "retry_interval c attempt =
     (if UseExponentialBackoff c then backoff (MaxInterval c) (nat (attempt - 1)) (InitialInterval c) else InitialInterval c)"

subsection \<open>The loop\<close>

definition zero_exec :: exec_result where
  "zero_exec = \<lparr>ex_exit = 0, ex_stdout = [], ex_stderr = [], ex_error = None, ex_timeout = False\<rparr>"

definition retry_start :: "retry_executor \<Rightarrow> retry_job \<Rightarrow> retry_result" where
  "retry_start x j =
     \<lparr>rr_final = zero_exec, rr_intercepted = None, rr_audit = [], rr_attempts = 0, rr_stage = RetryStageInitial, rr_success = False,
      rr_usedSoftware = False, rr_originalEncoder = extractEncoder x (rj_args j), rr_finalEncoder = [], rr_args = rj_args j,
      rr_encoder = extractEncoder x (rj_args j), rr_userSelected = True, rr_events = []\<rparr>"

text \<open>A process of the job: launched, read and recorded, with the verdict taken over when it succeeded.\<close>

definition attempt_with ::
  "retry_executor \<Rightarrow> retry_world \<Rightarrow> retry_job \<Rightarrow> retry_stage \<Rightarrow> string list \<Rightarrow> string \<Rightarrow> retry_result \<Rightarrow> intercepted \<times> retry_result" where
  "attempt_with x w j stage args encoder r =
     (let n = nat (rr_attempts r);
          ic = run_process x w j n args encoder;
          r = r\<lparr>rr_attempts := rr_attempts r + 1, rr_events := rr_events r @ launch j args,
                rr_audit := rr_audit r @ [audit_of stage (rr_attempts r + 1) args encoder ic]\<rparr>
      in (ic, if ic_success ic
              then r\<lparr>rr_final := ic_exec ic, rr_intercepted := Some ic, rr_success := True, rr_stage := stage, rr_finalEncoder := encoder\<rparr>
              else r))"

definition set_pruned :: "string list \<Rightarrow> audit_entry list \<Rightarrow> audit_entry list" where
  "set_pruned pruned es = (if es = [] then es else butlast es @ [(last es)\<lparr>ae_pruned := pruned\<rparr>])"

definition next_attempt :: "retry_executor \<Rightarrow> retry_job \<Rightarrow> int \<Rightarrow> intercepted \<Rightarrow> retry_result \<Rightarrow> retry_result option" where
  "next_attempt x j attempt ic r =
     (if (case ic_error ic of None \<Rightarrow> False | Some e \<Rightarrow> \<not> IsRetryable e) then None
      else if attempt < MaxRetries (rx_config x) then
        (let (nextArgs, nextStage, pruned) = applyRetryStrategy x j (rr_args r) ic attempt (rr_userSelected r);
             newEncoder = extractEncoder x nextArgs;
             r1 = r\<lparr>rr_audit := set_pruned pruned (rr_audit r)\<rparr>;
             r2 = (if newEncoder \<noteq> rr_encoder r
                   then r1\<lparr>rr_encoder := newEncoder, rr_userSelected := False,
                           rr_usedSoftware := (rr_usedSoftware r \<or> \<not> fb_IsHardwareEncoder newEncoder)\<rparr>
                   else r1)
         in if nextStage = RetryStageExhausted then None
            else Some (r2\<lparr>rr_args := nextArgs, rr_events := rr_events r @ [Pause (retry_interval (rx_config x) attempt)]\<rparr>))
      else Some r)"

function retry_loop :: "retry_executor \<Rightarrow> retry_world \<Rightarrow> retry_job \<Rightarrow> int \<Rightarrow> retry_result \<Rightarrow> retry_result" where
  "retry_loop x w j attempt r =
     (if attempt > MaxRetries (rx_config x) then r
      else if rw_cancelled w (nat (rr_attempts r)) then r
      else case attempt_with x w j (determineStage attempt) (rr_args r) (rr_encoder r) r of
             (ic, r1) \<Rightarrow>
               if ic_success ic then r1
               else case next_attempt x j attempt ic r1 of
                      None \<Rightarrow> r1
                    | Some r2 \<Rightarrow> retry_loop x w j (attempt + 1) r2)"
  by pat_completeness auto

termination retry_loop
  by (relation "measure (\<lambda>(x, w, j, attempt, r). nat (MaxRetries (rx_config x) + 1 - attempt))") auto

declare retry_loop.simps [simp del]

definition final_fallback :: "retry_executor \<Rightarrow> retry_world \<Rightarrow> retry_job \<Rightarrow> retry_result \<Rightarrow> retry_result" where
  "final_fallback x w j r =
     (if rw_cancelled w (nat (rr_attempts r)) then r
      else if EnableSoftwareFallback (rx_config x) \<and> \<not> rr_usedSoftware r then
        (case retry_fallback x j (rr_args r) (rr_userSelected r) of
           None \<Rightarrow> r
         | Some fallbackArgs \<Rightarrow>
             let encoder = extractEncoder x fallbackArgs
             in snd (attempt_with x w j RetryStageSoftwareFallback fallbackArgs encoder
                  (r\<lparr>rr_usedSoftware := True, rr_finalEncoder := encoder\<rparr>)))
      else r)"

definition ExecuteWithRetry :: "retry_executor \<Rightarrow> retry_world \<Rightarrow> retry_job \<Rightarrow> retry_result" where
  "ExecuteWithRetry x w j =
     (let r = retry_loop x w j 1 (retry_start x j)
      in if rr_success r then r
         else
           (let r = final_fallback x w j (r\<lparr>rr_stage := RetryStageExhausted, rr_finalEncoder := rr_encoder r\<rparr>)
            in if rr_success r \<or> rr_audit r = [] then r
               else r\<lparr>rr_final := ae_exec (last (rr_audit r)),
                      rr_intercepted := Some (Intercept (rx_interceptor x) (ae_exec (last (rr_audit r))))\<rparr>))"

lemma retry_loop_rule:
  assumes start: "P attempt r"
    and step: "\<And>attempt r ic r1 r2. P attempt r \<Longrightarrow> attempt \<le> MaxRetries (rx_config x) \<Longrightarrow> \<not> rw_cancelled w (nat (rr_attempts r)) \<Longrightarrow>
      attempt_with x w j (determineStage attempt) (rr_args r) (rr_encoder r) r = (ic, r1) \<Longrightarrow> \<not> ic_success ic \<Longrightarrow>
      next_attempt x j attempt ic r1 = Some r2 \<Longrightarrow> P (attempt + 1) r2"
    and over: "\<And>attempt r. P attempt r \<Longrightarrow> Q r"
    and last: "\<And>attempt r ic r1. P attempt r \<Longrightarrow> attempt \<le> MaxRetries (rx_config x) \<Longrightarrow> \<not> rw_cancelled w (nat (rr_attempts r)) \<Longrightarrow>
      attempt_with x w j (determineStage attempt) (rr_args r) (rr_encoder r) r = (ic, r1) \<Longrightarrow>
      ic_success ic \<or> next_attempt x j attempt ic r1 = None \<Longrightarrow> Q r1"
  shows "Q (retry_loop x w j attempt r)"
  using start
proof (induction "nat (MaxRetries (rx_config x) + 1 - attempt)" arbitrary: attempt r rule: less_induct)
  case less
  obtain ic r1 where a: "attempt_with x w j (determineStage attempt) (rr_args r) (rr_encoder r) r = (ic, r1)" by fastforce
  show ?case
  proof (cases "attempt > MaxRetries (rx_config x) \<or> rw_cancelled w (nat (rr_attempts r))")
    case False
    then have guards: "attempt \<le> MaxRetries (rx_config x)" "\<not> rw_cancelled w (nat (rr_attempts r))" by auto
    show ?thesis
    proof (cases "\<not> ic_success ic \<and> next_attempt x j attempt ic r1 \<noteq> None")
      case True
      then obtain r2 where r2: "next_attempt x j attempt ic r1 = Some r2" by blast
      then have "Q (retry_loop x w j (attempt + 1) r2)"
        using less.hyps [of "attempt + 1" r2] step [OF less.prems guards a _ r2] True guards by auto
      then show ?thesis using guards a r2 True by (simp add: retry_loop.simps [of _ _ _ attempt])
    next
      case no: False
      then have "Q r1" using last [OF less.prems guards a] by blast
      then show ?thesis using guards a no by (auto simp: retry_loop.simps [of _ _ _ attempt])
    qed
  qed (use over [OF less.prems] in \<open>auto simp: retry_loop.simps [of _ _ _ attempt]\<close>)
qed

subsection \<open>Bookkeeping\<close>

definition is_pause :: "retry_event \<Rightarrow> bool" where
  "is_pause e \<longleftrightarrow> (case e of Pause i \<Rightarrow> True | _ \<Rightarrow> False)"

text \<open>Every process is announced, starts without the old output, is recorded under its number, and only the last may have succeeded.\<close>

definition retry_books :: "retry_executor \<Rightarrow> retry_world \<Rightarrow> retry_job \<Rightarrow> retry_result \<Rightarrow> bool" where
  "retry_books x w j r \<longleftrightarrow>
     rr_attempts r = int (length (rr_audit r)) \<and>
     map ae_attempt (rr_audit r) = map int [1..<Suc (length (rr_audit r))] \<and>
     filter (\<lambda>e. \<not> is_pause e) (rr_events r) = concat (map (\<lambda>e. launch j (ae_args e)) (rr_audit r)) \<and>
     list_all (\<lambda>n. \<not> rw_cancelled w n) [0..<length (rr_audit r)] \<and>
     list_all Not (butlast (map ae_success (rr_audit r))) \<and>
     (rr_success r \<longleftrightarrow> rr_audit r \<noteq> [] \<and> last (map ae_success (rr_audit r)))"

lemma launch_no_pause [simp]: "filter (\<lambda>e. \<not> is_pause e) (launch j args) = launch j args"
  by (simp add: launch_def is_pause_def clearStaleOutput_def)

lemma attempt_withD:
  assumes "attempt_with x w j stage args encoder r = (ic, r1)"
  shows "ic = run_process x w j (nat (rr_attempts r)) args encoder" "rr_attempts r1 = rr_attempts r + 1"
    "rr_events r1 = rr_events r @ launch j args" "rr_audit r1 = rr_audit r @ [audit_of stage (rr_attempts r + 1) args encoder ic]"
    "rr_success r1 \<longleftrightarrow> ic_success ic \<or> rr_success r" "rr_args r1 = rr_args r" "rr_encoder r1 = rr_encoder r"
    "rr_userSelected r1 = rr_userSelected r" "rr_originalEncoder r1 = rr_originalEncoder r"
  using assms by (auto simp: attempt_with_def Let_def split: if_splits)

lemma audit_of_simps [simp]:
  "ae_attempt (audit_of stage n args encoder ic) = n" "ae_args (audit_of stage n args encoder ic) = args"
  "ae_success (audit_of stage n args encoder ic) = ic_success ic" "ae_encoder (audit_of stage n args encoder ic) = encoder"
  "ae_exec (audit_of stage n args encoder ic) = ic_exec ic"
  by (simp_all add: audit_of_def)

lemma attempt_with_books:
  assumes "retry_books x w j r" "\<not> rr_success r" "\<not> rw_cancelled w (nat (rr_attempts r))"
    "attempt_with x w j stage args encoder r = (ic, r1)"
  shows "retry_books x w j r1"
proof -
  note new = attempt_withD [OF assms(4)]
  have "list_all Not (map ae_success (rr_audit r))"
  proof (cases "map ae_success (rr_audit r)" rule: rev_cases)
    case (snoc bs b)
    then show ?thesis using assms(1,2) by (auto simp: retry_books_def)
  qed simp
  then show ?thesis
    using assms(1-3) unfolding retry_books_def new by (simp add: butlast_append)
qed

lemma set_pruned_books [simp]:
  "length (set_pruned p es) = length es" "map ae_attempt (set_pruned p es) = map ae_attempt es"
  "map ae_args (set_pruned p es) = map ae_args es" "map ae_success (set_pruned p es) = map ae_success es"
  "map ae_encoder (set_pruned p es) = map ae_encoder es" "map ae_exec (set_pruned p es) = map ae_exec es"
  by (induction es rule: rev_induct; simp add: set_pruned_def)+

lemma next_attempt_frame:
  assumes "next_attempt x j attempt ic r = Some r2"
  shows "map ae_attempt (rr_audit r2) = map ae_attempt (rr_audit r)" "map ae_args (rr_audit r2) = map ae_args (rr_audit r)"
    "map ae_success (rr_audit r2) = map ae_success (rr_audit r)" "map ae_encoder (rr_audit r2) = map ae_encoder (rr_audit r)"
    "map ae_exec (rr_audit r2) = map ae_exec (rr_audit r)" "rr_attempts r2 = rr_attempts r" "rr_success r2 = rr_success r"
    "filter (\<lambda>e. \<not> is_pause e) (rr_events r2) = filter (\<lambda>e. \<not> is_pause e) (rr_events r)"
    "rr_originalEncoder r2 = rr_originalEncoder r" "length (rr_audit r2) = length (rr_audit r)"
  using assms by (auto simp: next_attempt_def Let_def is_pause_def split: if_splits prod.splits)

lemma next_attempt_books:
  assumes "retry_books x w j r1" "\<not> rr_success r1" "next_attempt x j attempt ic r1 = Some r2"
  shows "retry_books x w j r2" "\<not> rr_success r2"
proof -
  note frame = next_attempt_frame [OF assms(3)]
  have launches: "map (\<lambda>e. launch j (ae_args e)) (rr_audit r2) = map (\<lambda>e. launch j (ae_args e)) (rr_audit r1)"
    using arg_cong [OF frame(2), of "map (launch j)"] by (simp add: comp_def)
  have empty: "rr_audit r2 = [] \<longleftrightarrow> rr_audit r1 = []" using frame(10) by (metis length_0_conv)
  show "\<not> rr_success r2" using frame(7) assms(2) by simp
  show "retry_books x w j r2"
    using assms(1) unfolding retry_books_def frame(1,3,6,7,8,10) launches empty by blast
qed

lemma retry_loop_books:
  "retry_books x w j (retry_loop x w j 1 (retry_start x j)) \<and>
     rr_attempts (retry_loop x w j 1 (retry_start x j)) \<le> max 0 (MaxRetries (rx_config x))"
proof (rule retry_loop_rule [where P = "\<lambda>attempt r. retry_books x w j r \<and> \<not> rr_success r \<and> rr_attempts r = attempt - 1 \<and>
    attempt - 1 \<le> max 0 (MaxRetries (rx_config x))"])
  show "retry_books x w j (retry_start x j) \<and> \<not> rr_success (retry_start x j) \<and> rr_attempts (retry_start x j) = 1 - 1 \<and>
      1 - 1 \<le> max 0 (MaxRetries (rx_config x))"
    by (simp add: retry_start_def retry_books_def)
next
  fix attempt r ic r1 r2
  assume P: "retry_books x w j r \<and> \<not> rr_success r \<and> rr_attempts r = attempt - 1 \<and> attempt - 1 \<le> max 0 (MaxRetries (rx_config x))"
    and a: "attempt \<le> MaxRetries (rx_config x)" "\<not> rw_cancelled w (nat (rr_attempts r))"
      "attempt_with x w j (determineStage attempt) (rr_args r) (rr_encoder r) r = (ic, r1)" "\<not> ic_success ic"
    and n: "next_attempt x j attempt ic r1 = Some r2"
  have r1: "retry_books x w j r1" "\<not> rr_success r1"
    using attempt_with_books [OF _ _ a(2,3)] P a(4) attempt_withD(5) [OF a(3)] by auto
  then have "retry_books x w j r2" "\<not> rr_success r2" using next_attempt_books n by blast+
  moreover have "rr_attempts r2 = attempt"
    using next_attempt_frame(6) [OF n] attempt_withD(2) [OF a(3)] P by simp
  ultimately show "retry_books x w j r2 \<and> \<not> rr_success r2 \<and> rr_attempts r2 = attempt + 1 - 1 \<and>
      attempt + 1 - 1 \<le> max 0 (MaxRetries (rx_config x))" using a(1) by simp
next
  fix attempt r ic r1
  assume P: "retry_books x w j r \<and> \<not> rr_success r \<and> rr_attempts r = attempt - 1 \<and> attempt - 1 \<le> max 0 (MaxRetries (rx_config x))"
    and a: "attempt \<le> MaxRetries (rx_config x)" "\<not> rw_cancelled w (nat (rr_attempts r))"
      "attempt_with x w j (determineStage attempt) (rr_args r) (rr_encoder r) r = (ic, r1)"
  have "retry_books x w j r1" using attempt_with_books [OF _ _ a(2,3)] P by auto
  moreover have "rr_attempts r1 = attempt" using attempt_withD(2) [OF a(3)] P by simp
  ultimately show "retry_books x w j r1 \<and> rr_attempts r1 \<le> max 0 (MaxRetries (rx_config x))" using a(1) by simp
qed auto

lemma final_fallback_books:
  assumes "retry_books x w j r" "\<not> rr_success r"
  shows "retry_books x w j (final_fallback x w j r) \<and> rr_attempts (final_fallback x w j r) \<le> rr_attempts r + 1"
proof -
  let ?r = "\<lambda>e. r\<lparr>rr_usedSoftware := True, rr_finalEncoder := e\<rparr>"
  have same: "retry_books x w j (?r e)" "\<not> rr_success (?r e)" for e using assms by (simp_all add: retry_books_def)
  have new: "retry_books x w j (snd (attempt_with x w j st args e (?r e))) \<and>
      rr_attempts (snd (attempt_with x w j st args e (?r e))) \<le> rr_attempts r + 1" if "\<not> rw_cancelled w (nat (rr_attempts r))" for st args e
  proof -
    obtain ic r1 where a: "attempt_with x w j st args e (?r e) = (ic, r1)" by fastforce
    show ?thesis using attempt_with_books [OF same _ a] attempt_withD(2) [OF a] that unfolding a by simp
  qed
  then show ?thesis using assms(1) by (simp add: final_fallback_def Let_def split: option.split)
qed
end
