(* ===== verification/RetryGuarantees.thy ===== *)
theory RetryGuarantees
  imports RetryExecution
begin

section \<open>What a retried job guarantees\<close>

text \<open>
  The run of a job as a whole: how often ffmpeg is started and what is recorded of it, what a success means, and which encoders the
  fallbacks may choose.
\<close>

lemma retry_books_stage [simp]:
  "retry_books x w j (r\<lparr>rr_stage := s, rr_finalEncoder := e\<rparr>) = retry_books x w j r"
  "retry_books x w j (r\<lparr>rr_final := f, rr_intercepted := i\<rparr>) = retry_books x w j r"
  by (simp_all add: retry_books_def)

lemma ExecuteWithRetry_books:
  "retry_books x w j (ExecuteWithRetry x w j) \<and>
     rr_attempts (ExecuteWithRetry x w j) \<le> max 0 (MaxRetries (rx_config x)) + 1"
proof -
  let ?l = "retry_loop x w j 1 (retry_start x j)"
  let ?b = "?l\<lparr>rr_stage := RetryStageExhausted, rr_finalEncoder := rr_encoder ?l\<rparr>"
  have l: "retry_books x w j ?l" "rr_attempts ?l \<le> max 0 (MaxRetries (rx_config x))" using retry_loop_books by blast+
  show ?thesis
  proof (cases "rr_success ?l")
    case True
    then show ?thesis using l by (simp add: ExecuteWithRetry_def Let_def)
  next
    case False
    then have "retry_books x w j (final_fallback x w j ?b) \<and> rr_attempts (final_fallback x w j ?b) \<le> rr_attempts ?b + 1"
      using final_fallback_books [of x w j ?b] l(1) by simp
    then show ?thesis using l(2) False by (auto simp: ExecuteWithRetry_def Let_def)
  qed
qed

text \<open>
  C23: executeWithRetry keeps its books whatever ffmpeg, the file system and the cancellation do. It starts at most MaxRetries + 1
  processes (one if MaxRetries is not positive), none of them after the job was cancelled; each is announced and, for a local output,
  preceded by the removal of what an earlier one left; the audit trail lists exactly these processes in order, numbered from 1; the
  result is a success exactly if the last recorded process was one, and no earlier process was.
\<close>

theorem retries_bounded_and_recorded:
  "rr_attempts (ExecuteWithRetry x w j) = int (length (rr_audit (ExecuteWithRetry x w j))) \<and>
   rr_attempts (ExecuteWithRetry x w j) \<le> max 0 (MaxRetries (rx_config x)) + 1 \<and>
   list_all (\<lambda>n. \<not> rw_cancelled w n) [0..<length (rr_audit (ExecuteWithRetry x w j))] \<and>
   filter (\<lambda>e. \<not> is_pause e) (rr_events (ExecuteWithRetry x w j)) =
     concat (map (\<lambda>e. launch j (ae_args e)) (rr_audit (ExecuteWithRetry x w j))) \<and>
   map ae_attempt (rr_audit (ExecuteWithRetry x w j)) = map int [1..<Suc (length (rr_audit (ExecuteWithRetry x w j)))] \<and>
   list_all Not (butlast (map ae_success (rr_audit (ExecuteWithRetry x w j)))) \<and>
   (rr_success (ExecuteWithRetry x w j) \<longleftrightarrow>
      rr_audit (ExecuteWithRetry x w j) \<noteq> [] \<and> last (map ae_success (rr_audit (ExecuteWithRetry x w j))))"
  using ExecuteWithRetry_books [of x w j] unfolding retry_books_def by blast

subsection \<open>What is recorded of each process\<close>

definition entries :: "(nat \<Rightarrow> audit_entry \<Rightarrow> bool) \<Rightarrow> audit_entry list \<Rightarrow> bool" where
  "entries Q es \<longleftrightarrow> list_all (\<lambda>(i, e). Q i e) (enumerate 0 es)"

lemma entries_snoc: "entries Q (es @ [e]) \<longleftrightarrow> entries Q es \<and> Q (length es) e"
  by (simp add: entries_def enumerate_append_eq)

lemma entries_nth: "entries Q es \<longleftrightarrow> (\<forall>i < length es. Q i (es ! i))"
  by (simp add: entries_def list_all_length nth_enumerate_eq)

lemma entries_pruned:
  assumes "\<And>n e p. Q n (e\<lparr>ae_pruned := p\<rparr>) = Q n e"
  shows "entries Q (set_pruned p es) = entries Q es"
  by (cases es rule: rev_cases) (simp_all add: set_pruned_def entries_snoc assms)

lemma next_attemptD:
  assumes "next_attempt x j attempt ic r = Some r2" "rr_encoder r = extractEncoder x (rr_args r)"
  shows "rr_encoder r2 = extractEncoder x (rr_args r2)"
    "(\<exists>p. rr_audit r2 = set_pruned p (rr_audit r)) \<or> rr_audit r2 = rr_audit r"
    "rr_args r2 = rr_args r \<or> (\<exists>stage p. applyRetryStrategy x j (rr_args r) ic attempt (rr_userSelected r) = (rr_args r2, stage, p) \<and> stage \<noteq> RetryStageExhausted)"
  using assms by (auto simp: next_attempt_def Let_def split: if_splits prod.splits)

text \<open>
  What holds of every recorded process: \<open>K\<close> is kept by the arguments from one process to the next, \<open>Q\<close> follows from it for the
  record of the process.
\<close>

lemma retry_entries:
  assumes pruned: "\<And>n e p. Q n (e\<lparr>ae_pruned := p\<rparr>) = Q n e"
    and start: "K (rj_args j)"
    and entry: "\<And>args stage n. K args \<Longrightarrow>
      Q n (audit_of stage (int n + 1) args (extractEncoder x args) (run_process x w j n args (extractEncoder x args)))"
    and nxt: "\<And>args ic attempt user args' stage p. K args \<Longrightarrow> applyRetryStrategy x j args ic attempt user = (args', stage, p) \<Longrightarrow>
      stage \<noteq> RetryStageExhausted \<Longrightarrow> K args'"
    and fin: "\<And>args user args'. K args \<Longrightarrow> retry_fallback x j args user = Some args' \<Longrightarrow> K args'"
  shows "entries Q (rr_audit (ExecuteWithRetry x w j))"
proof -
  let ?I = "\<lambda>r. K (rr_args r) \<and> rr_encoder r = extractEncoder x (rr_args r) \<and> entries Q (rr_audit r) \<and> rr_attempts r = int (length (rr_audit r))"
  have attempt: "entries Q (rr_audit r1) \<and> rr_attempts r1 = int (length (rr_audit r1))"
    if "attempt_with x w j stage args (extractEncoder x args) r = (ic, r1)" "K args" "entries Q (rr_audit r)"
      "rr_attempts r = int (length (rr_audit r))" for stage args r ic r1
    using attempt_withD [OF that(1)] entry [OF that(2), of "length (rr_audit r)" stage] that(3,4) by (simp add: entries_snoc)
  have pruned': "entries Q (set_pruned p es) = entries Q es" for p es by (rule entries_pruned) (rule pruned)
  have loop: "?I (retry_loop x w j 1 (retry_start x j))"
  proof (rule retry_loop_rule [where P = "\<lambda>_. ?I"])
    show "?I (retry_start x j)" using start by (simp add: retry_start_def entries_def)
  next
    fix n r ic r1 r2
    assume I: "?I r" and a: "attempt_with x w j (determineStage n) (rr_args r) (rr_encoder r) r = (ic, r1)"
      and n: "next_attempt x j n ic r1 = Some r2"
    note D = attempt_withD [OF a]
    have r1: "?I r1" using attempt [of _ "rr_args r" r ic r1] a I D(6,7) by simp
    note N = next_attemptD [OF n r1 [THEN conjunct2, THEN conjunct1]]
    have "K (rr_args r2)" using N(3) nxt r1 by metis
    moreover have "entries Q (rr_audit r2)" using N(2) r1 pruned' by auto
    ultimately show "?I r2" using N(1) next_attempt_frame(6,10) [OF n] r1 by simp
  next
    fix n r ic r1
    assume I: "?I r" and a: "attempt_with x w j (determineStage n) (rr_args r) (rr_encoder r) r = (ic, r1)"
    show "?I r1" using attempt [of _ "rr_args r" r ic r1] a I attempt_withD(6,7) [OF a] by simp
  qed
  let ?l = "retry_loop x w j 1 (retry_start x j)"
  let ?b = "?l\<lparr>rr_stage := RetryStageExhausted, rr_finalEncoder := rr_encoder ?l\<rparr>"
  have "entries Q (rr_audit (final_fallback x w j ?b))"
  proof (cases "retry_fallback x j (rr_args ?l) (rr_userSelected ?l)")
    case (Some args)
    obtain ic r1 where a: "attempt_with x w j RetryStageSoftwareFallback args (extractEncoder x args)
        (?b\<lparr>rr_usedSoftware := True, rr_finalEncoder := extractEncoder x args\<rparr>) = (ic, r1)" by fastforce
    have "K args" using fin Some loop by blast
    then show ?thesis using attempt [OF a] loop a Some by (simp add: final_fallback_def Let_def)
  qed (use loop in \<open>simp add: final_fallback_def\<close>)
  then show ?thesis using loop by (simp add: ExecuteWithRetry_def Let_def)
qed
subsection \<open>What a success means\<close>

lemma Intercept_exec [simp]: "ic_exec (InterceptWithEncoder i res enc) = res"
  by (simp add: InterceptWithEncoder_def Let_def split: option.split)

lemma Intercept_success:
  "ic_success (InterceptWithEncoder i res enc) \<longleftrightarrow>
     ex_exit res = 0 \<and> ex_error res = None \<and> Analyze (in_patterns i) (ex_stderr res) (ex_exit res) = None \<and>
     \<not> (isHardwareEncoderByName enc \<and> detectSoftwareEncoderInStderr (ex_stderr res) \<notin> {[], enc})"
proof -
  have "\<not> isHardwareEncoderByName []" by code_simp
  then show ?thesis by (auto simp: InterceptWithEncoder_def Let_def split: option.split)
qed

lemma validate_success:
  "ic_success (validate_output w j n ic) \<longleftrightarrow> ic_success ic \<and> (\<not> local_output j \<or> rw_stat w n (rj_output j) \<notin> {None, Some 0})"
  "ic_exec (validate_output w j n ic) = ic_exec ic"
  by (auto simp: validate_output_def split: option.split)

definition process_recorded :: "retry_executor \<Rightarrow> retry_world \<Rightarrow> retry_job \<Rightarrow> nat \<Rightarrow> audit_entry \<Rightarrow> bool" where
  "process_recorded x w j n e \<longleftrightarrow>
     ae_exec e = rw_exec w n (ae_args e) \<and> ae_encoder e = extractEncoder x (ae_args e) \<and>
     ae_success e = ic_success (run_process x w j n (ae_args e) (ae_encoder e))"

lemma all_recorded: "entries (process_recorded x w j) (rr_audit (ExecuteWithRetry x w j))"
  by (rule retry_entries [where K = "\<lambda>_. True"])
    (simp_all add: process_recorded_def run_process_def validate_success)

lemma success_final:
  "rr_success (ExecuteWithRetry x w j) \<longrightarrow> rr_final (ExecuteWithRetry x w j) = ae_exec (last (rr_audit (ExecuteWithRetry x w j)))"
proof -
  have new: "rr_success r1 \<longrightarrow> rr_final r1 = ae_exec (last (rr_audit r1))" if "attempt_with x w j stage args enc r = (ic, r1)" "\<not> rr_success r" for stage args enc r ic r1
    using that by (auto simp: attempt_with_def Let_def split: if_splits)
  have loop: "rr_success (retry_loop x w j 1 (retry_start x j)) \<longrightarrow>
      rr_final (retry_loop x w j 1 (retry_start x j)) = ae_exec (last (rr_audit (retry_loop x w j 1 (retry_start x j))))"
  proof (rule retry_loop_rule [where P = "\<lambda>_ r. \<not> rr_success r"])
    show "\<not> rr_success (retry_start x j)" by (simp add: retry_start_def)
  next
    fix n r ic r1 r2
    assume "\<not> rr_success r" "attempt_with x w j (determineStage n) (rr_args r) (rr_encoder r) r = (ic, r1)" "\<not> ic_success ic"
      "next_attempt x j n ic r1 = Some r2"
    then show "\<not> rr_success r2" using attempt_withD(5) next_attempt_frame(7) by metis
  next
    fix n r ic r1
    assume "\<not> rr_success r" "attempt_with x w j (determineStage n) (rr_args r) (rr_encoder r) r = (ic, r1)"
    then show "rr_success r1 \<longrightarrow> rr_final r1 = ae_exec (last (rr_audit r1))" using new by blast
  qed simp
  have "rr_success (final_fallback x w j r) \<longrightarrow> rr_final (final_fallback x w j r) = ae_exec (last (rr_audit (final_fallback x w j r)))"
    if "\<not> rr_success r" for r
    using that new [of _ _ _ "r\<lparr>rr_usedSoftware := True, rr_finalEncoder := e\<rparr>" "fst (attempt_with x w j s a e' (r\<lparr>rr_usedSoftware := True, rr_finalEncoder := e\<rparr>))" for e s a e']
    by (auto simp: final_fallback_def Let_def split: option.split intro!: new [rule_format, OF prod.collapse [symmetric]])
  then show ?thesis using loop by (auto simp: ExecuteWithRetry_def Let_def)
qed

lemma retry_success:
  assumes "rr_success (ExecuteWithRetry x w j)"
  defines "e \<equiv> last (rr_audit (ExecuteWithRetry x w j))" and "n \<equiv> nat (rr_attempts (ExecuteWithRetry x w j)) - 1"
  shows "rr_final (ExecuteWithRetry x w j) = rw_exec w n (ae_args e) \<and>
    ex_exit (rr_final (ExecuteWithRetry x w j)) = 0 \<and> ex_error (rr_final (ExecuteWithRetry x w j)) = None \<and>
    Analyze (in_patterns (rx_interceptor x)) (ex_stderr (rr_final (ExecuteWithRetry x w j))) 0 = None \<and>
    (isHardwareEncoderByName (extractEncoder x (ae_args e)) \<longrightarrow>
       detectSoftwareEncoderInStderr (ex_stderr (rr_final (ExecuteWithRetry x w j))) \<in> {[], extractEncoder x (ae_args e)}) \<and>
    (local_output j \<longrightarrow> (\<exists>sz. rw_stat w n (rj_output j) = Some sz \<and> sz \<noteq> 0))"
proof -
  have books: "rr_audit (ExecuteWithRetry x w j) \<noteq> []" "ae_success e" "n = length (rr_audit (ExecuteWithRetry x w j)) - 1"
    using assms(1) ExecuteWithRetry_books [of x w j] by (auto simp: retry_books_def e_def n_def last_map)
  have "process_recorded x w j n e"
    using all_recorded [of x w j] books(1,3) by (simp add: entries_nth e_def last_conv_nth)
  then have rec: "ae_exec e = rw_exec w n (ae_args e)" "ae_encoder e = extractEncoder x (ae_args e)"
      "ic_success (run_process x w j n (ae_args e) (ae_encoder e))"
    using books(2) unfolding process_recorded_def by blast+
  have fin: "rr_final (ExecuteWithRetry x w j) = rw_exec w n (ae_args e)" using success_final [of x w j] assms(1) rec(1) by (simp add: e_def)
  show ?thesis using rec(3) unfolding fin run_process_def validate_success(1) Intercept_success rec(2)
    by (cases "rw_stat w n (rj_output j)") auto
qed

text \<open>
  C24: a reported success was earned. The result is that of the last recorded process, which ran with the recorded arguments, ended
  with exit code 0 and no error, wrote nothing to stderr that a failure pattern knows, did not silently encode in software for a
  hardware encoder, and left a non-empty output where the output is a local file.
\<close>

theorem success_is_earned:
  assumes "rr_success (ExecuteWithRetry x w j)"
  defines "e \<equiv> last (rr_audit (ExecuteWithRetry x w j))" and "n \<equiv> nat (rr_attempts (ExecuteWithRetry x w j)) - 1"
  shows "rr_final (ExecuteWithRetry x w j) = rw_exec w n (ae_args e) \<and>
    ex_exit (rr_final (ExecuteWithRetry x w j)) = 0 \<and> ex_error (rr_final (ExecuteWithRetry x w j)) = None \<and>
    Analyze (in_patterns (rx_interceptor x)) (ex_stderr (rr_final (ExecuteWithRetry x w j))) 0 = None \<and>
    (isHardwareEncoderByName (extractEncoder x (ae_args e)) \<longrightarrow>
       detectSoftwareEncoderInStderr (ex_stderr (rr_final (ExecuteWithRetry x w j))) \<in> {[], extractEncoder x (ae_args e)}) \<and>
    (local_output j \<longrightarrow> (\<exists>sz. rw_stat w n (rj_output j) = Some sz \<and> sz \<noteq> 0))"
  using retry_success [OF assms(1)] unfolding e_def n_def .


text \<open>A job whose hardware encoder crashes the first run and whose second run, in software, succeeds.\<close>

definition example_world :: retry_world where
  "example_world = \<lparr>rw_exec = (\<lambda>n args. if n = 0 then zero_exec\<lparr>ex_exit := 139\<rparr> else zero_exec),
     rw_stat = (\<lambda>n path. Some (int n)), rw_cancelled = (\<lambda>n. False)\<rparr>"

definition example_job :: retry_job where
  "example_job = \<lparr>rj_args = [''-i'', ''a.mkv'', ''-c:v'', ''h264_nvenc'', ''-gpu'', ''0'', ''o.mp4''], rj_output = ''o.mp4'', rj_network = False\<rparr>"

lemma example_run:
  "rr_success (ExecuteWithRetry (NewRetryExecutor None) example_world example_job) \<and>
   map ae_args (rr_audit (ExecuteWithRetry (NewRetryExecutor None) example_world example_job)) =
     [rj_args example_job, [''-i'', ''a.mkv'', ''-c:v'', ''libx264'', ''o.mp4'']]"
  by code_simp

theorem success_is_earned_witness:
  "ex_exit (rr_final (ExecuteWithRetry (NewRetryExecutor None) example_world example_job)) = 0 \<and>
   (\<exists>sz. rw_stat example_world (nat (rr_attempts (ExecuteWithRetry (NewRetryExecutor None) example_world example_job)) - 1) ''o.mp4'' = Some sz \<and> sz \<noteq> 0)"
proof -
  have "local_output example_job" "rj_output example_job = ''o.mp4''" by (simp_all add: local_output_def example_job_def)
  then show ?thesis using success_is_earned [OF example_run [THEN conjunct1]] by metis
qed

subsection \<open>Retries keep the codec\<close>

definition default_rules :: "retry_executor \<Rightarrow> bool" where
  "default_rules x \<longleftrightarrow> rx_rules x = DefaultPruneRules \<and> rx_fallback x = NewEncoderFallback"

lemma removals_plain:
  "rx_rules x = DefaultPruneRules \<Longrightarrow> p \<in> set (hardware_removals x) \<Longrightarrow> plain_option p" "p \<in> set advanced_removals \<Longrightarrow> plain_option p"
proof -
  have "list_all plain_option (hardware_removals (NewRetryExecutor None))" "list_all plain_option advanced_removals" by code_simp+
  moreover have "rx_rules x = DefaultPruneRules \<Longrightarrow> hardware_removals x = hardware_removals (NewRetryExecutor None)"
    by (simp add: hardware_removals_def NewRetryExecutor_def)
  ultimately show "rx_rules x = DefaultPruneRules \<Longrightarrow> p \<in> set (hardware_removals x) \<Longrightarrow> plain_option p"
    "p \<in> set advanced_removals \<Longrightarrow> plain_option p" by (auto simp: list_all_iff)
qed

lemma PruneParams_encoder:
  assumes "\<And>p. p \<in> set ps \<Longrightarrow> plain_option p" "proper_flags args"
  shows "proper_flags (PruneParams args ps)"
    "extractEncoderFromArgsWithCaps (PruneParams args ps) hwCaps = extractEncoderFromArgsWithCaps args hwCaps"
proof -
  have joined: "plain_option a" if "CHR ''='' \<in> set a" "before (CHR ''='') a \<in> set ps" for a
  proof -
    have "HasPrefix (before (CHR ''='') a) ''-''" using assms(1) that(2) by (simp add: plain_option_def)
    then have "HasPrefix a ''-''" by (cases a) (auto simp: HasPrefix_def before_def split: if_splits)
    then show ?thesis using that(1) by (auto simp: plain_option_def is_flag_name_def)
  qed
  have "a \<in> set ps \<or> CHR ''='' \<in> set a \<and> before (CHR ''='') a \<in> set ps \<Longrightarrow> plain_option a" for a using assms(1) joined by blast
  from drop_options_encoder [OF this assms(2)] assms(2)
  show "proper_flags (PruneParams args ps)"
    "extractEncoderFromArgsWithCaps (PruneParams args ps) hwCaps = extractEncoderFromArgsWithCaps args hwCaps"
    by (simp_all add: PruneParams_def)
qed

text \<open>What every set of arguments of the job keeps.\<close>

definition in_family :: "retry_executor \<Rightarrow> string \<Rightarrow> string list \<Rightarrow> bool" where
  "in_family x family args \<longleftrightarrow> proper_flags args \<and> known_encoder (rx_fallback x) (extractEncoder x args) \<and>
     GetEncoderFamily (extractEncoder x args) = family"

lemma prune_in_family:
  assumes "in_family x family args" "\<And>p. p \<in> set ps \<Longrightarrow> plain_option p"
  shows "in_family x family (PruneParams args ps)"
  using PruneParams_encoder(1) [of ps args, OF assms(2)] PruneParams_encoder(2) [of ps args "rx_hwCaps x", OF assms(2)] assms(1) by (simp add: in_family_def extractEncoder_def)

lemma fallback_in_family:
  assumes "in_family x family args" "tables_ok (rx_fallback x)" "\<not> is_flag_name out"
    "prepareFallbackArgsWithSource (rx_fallback x) (rx_hwCaps x) args out isFallback = Some args'"
  shows "in_family x family args'"
proof -
  note A = assms(1) [unfolded in_family_def extractEncoder_def]
  obtain sw where sw: "args' = buildFallbackArgs (rx_hwCaps x) args sw out" "is_value sw" "known_encoder (rx_fallback x) sw"
    "GetEncoderFamily sw = GetEncoderFamily (extractEncoderFromArgsWithCaps args (rx_hwCaps x))"
    "extractEncoderFromArgsWithCaps args (rx_hwCaps x) \<notin> {[], ''copy''}"
    using prepareFallback_family [OF assms(2) _ assms(4)] A by blast
  show ?thesis using buildFallbackArgs_encoder [OF _ sw(2,5) assms(3)] A sw by (simp add: in_family_def extractEncoder_def)
qed

lemma hardware_in_family:
  assumes "in_family x family args" "default_rules x"
  shows "in_family x family (fst (pruneHardwareParams x args))"
proof -
  have p: "in_family x family (PruneParams args (hardware_removals x))"
    by (rule prune_in_family [OF assms(1)], rule removals_plain(1)) (use assms(2) in \<open>simp_all add: default_rules_def\<close>)
  have ok: "tables_ok (rx_fallback x)" using assms(2) NewEncoderFallback_ok by (simp add: default_rules_def)
  have "in_family x family fargs" if "PrepareFallbackArgs (rx_fallback x) (rx_hwCaps x) (PruneParams args (hardware_removals x)) [] True = Some fargs" for fargs
    by (rule fallback_in_family [OF p ok _ that [unfolded PrepareFallbackArgs_def]]) (simp add: is_flag_name_def)
  then show ?thesis using p by (auto simp: pruneHardwareParams_def Let_def split: option.split)
qed

lemma advanced_in_family:
  assumes "in_family x family args" "default_rules x"
  shows "in_family x family (fst (pruneAdvancedParams x args))"
proof -
  obtain pa hw where pa: "pruneHardwareParams x args = (pa, hw)" by fastforce
  then have "in_family x family pa" using hardware_in_family [OF assms] by simp
  then have "in_family x family (PruneParams pa (filter (\<lambda>p. p \<notin> set hw) advanced_removals))"
    by (rule prune_in_family) (use removals_plain(2) in auto)
  then show ?thesis using pa by (simp add: pruneAdvancedParams_def Let_def)
qed

lemma strategy_in_family:
  assumes "in_family x family args" "default_rules x" "\<not> is_flag_name (rj_output j)"
    "applyRetryStrategy x j args ic attempt user = (args', stage, p)"
  shows "in_family x family args'"
proof -
  have ok: "tables_ok (rx_fallback x)" using assms(2) NewEncoderFallback_ok by (simp add: default_rules_def)
  have fb: "in_family x family fargs" if "retry_fallback x j args user = Some fargs" for fargs
    using fallback_in_family [OF assms(1) ok assms(3)] that by (simp add: retry_fallback_def PrepareFallbackArgsWithSource_def)
  have "args' \<in> {args, the (retry_fallback x j args user), fst (pruneHardwareParams x args), fst (pruneAdvancedParams x args)} \<and>
      (args' = the (retry_fallback x j args user) \<and> args' \<noteq> args \<and> args' \<noteq> fst (pruneHardwareParams x args) \<and>
         args' \<noteq> fst (pruneAdvancedParams x args) \<longrightarrow> retry_fallback x j args user \<noteq> None)"
    using assms(4) by (auto simp: applyRetryStrategy_def Let_def split: if_splits option.splits prod.splits)
  then show ?thesis using assms(1) fb hardware_in_family [OF assms(1,2)] advanced_in_family [OF assms(1,2)] by auto
qed



end
