(* ===== verification/FailureGuarantees.thy ===== *)
theory FailureGuarantees
  imports FailureAnalysis
begin

section \<open>The two readings of a failure agree\<close>

text \<open>What the analyzer of the retries and the classifier of the reports have in common, and the names downloaded inputs get.\<close>

lemma find_ex: "(\<exists>p. List.find P ps = Some p) \<longleftrightarrow> list_ex P ps"
  by (induction ps) auto

lemma first_match_types: "first_match pats s = Some (t, p) \<Longrightarrow> t \<in> fst ` set pats"
  by (induction pats s rule: first_match.induct) (auto split: option.splits)

text \<open>The text patterns of an output that cannot be opened, in both tables.\<close>

lemma output_open_patterns:
  "DefaultErrorPatterns = (ErrorTypeOutputOpen, snd (hd DefaultErrorPatterns)) # tl DefaultErrorPatterns"
  "ErrorTypeOutputOpen \<notin> fst ` set (tl DefaultErrorPatterns)"
  by (simp_all add: DefaultErrorPatterns_def)

lemma isOutputOpenFailure_matches: "isOutputOpenFailure s \<longleftrightarrow> list_ex (\<lambda>p. matches_text p s) (snd (hd DefaultErrorPatterns))"
proof -
  have "map ToLower (snd (hd DefaultErrorPatterns)) =
      [''error opening output file'', ''error opening output files'', ''error initializing the muxer'', ''could not open file'',
       ''could not open output'', ''unable to choose an output format'']"
    by code_simp
  moreover have "list_ex (\<lambda>p. matches_text p s) ps = list_ex (Contains (ToLower s)) (map ToLower ps)" for ps
    by (induction ps) (simp_all add: matches_text_def)
  ultimately show ?thesis by (auto simp: isOutputOpenFailure_def)
qed

lemma first_match_output_open: "(\<exists>p. first_match DefaultErrorPatterns s = Some (ErrorTypeOutputOpen, p)) \<longleftrightarrow> isOutputOpenFailure s"
proof -
  let ?ps = "snd (hd DefaultErrorPatterns)"
  have step: "first_match DefaultErrorPatterns s =
      (case List.find (\<lambda>p. matches_text p s) ?ps of Some p \<Rightarrow> Some (ErrorTypeOutputOpen, p) | None \<Rightarrow> first_match (tl DefaultErrorPatterns) s)"
    by (subst output_open_patterns(1)) (simp only: first_match.simps)
  have "first_match (tl DefaultErrorPatterns) s \<noteq> Some (ErrorTypeOutputOpen, p)" for p
    using first_match_types [of "tl DefaultErrorPatterns" s ErrorTypeOutputOpen p] output_open_patterns(2) by blast
  then show ?thesis
    unfolding isOutputOpenFailure_matches find_ex [symmetric] step by (cases "List.find (\<lambda>p. matches_text p s) ?ps") simp_all
qed



subsection \<open>Names of downloaded inputs\<close>

lemma underscore_safe: "safe_char (CHR ''_'')" by code_simp

text \<open>
  Whatever name a client gives an input, the file the worker writes it to is named by at most 128 characters that are letters,
  digits, dots, dashes, underscores, blanks or brackets, and is neither empty nor a directory reference, so that it stays a file of
  the directory of the job.
\<close>

theorem input_names_are_safe:
  assumes "uuid \<noteq> []" "uuid \<noteq> ''.''" "uuid \<noteq> ''..''" "length uuid \<le> maxInputBaseName" "list_all safe_char uuid"
  shows "sanitizeInputBaseName uuid rawBase \<notin> {[], ''.'', ''..''} \<and> length (sanitizeInputBaseName uuid rawBase) \<le> maxInputBaseName \<and>
    list_all safe_char (sanitizeInputBaseName uuid rawBase) \<and> CHR ''/'' \<notin> set (sanitizeInputBaseName uuid rawBase)"
proof -
  have slash: "\<not> safe_char (CHR ''/'')" by code_simp
  have "list_all safe_char (take maxInputBaseName (map (\<lambda>c. if safe_char c then c else CHR ''_'') s))" for s
    using underscore_safe by (auto simp: list_all_iff dest!: in_set_takeD)
  then have *: "sanitizeInputBaseName uuid rawBase \<notin> {[], ''.'', ''..''} \<and> length (sanitizeInputBaseName uuid rawBase) \<le> maxInputBaseName \<and>
    list_all safe_char (sanitizeInputBaseName uuid rawBase)"
    using assms by (auto simp: sanitizeInputBaseName_def Let_def)
  then show ?thesis using slash by (auto simp: list_all_iff)
qed

theorem input_names_are_safe_witness:
  "sanitizeInputBaseName ''c0ffee'' ''..'' \<notin> {[], ''.'', ''..''}"
proof -
  have "list_all safe_char ''c0ffee''" by code_simp
  then show ?thesis using input_names_are_safe [of "''c0ffee''" "''..''"] by (simp add: maxInputBaseName_def)
qed

end
