(* ===== verification/RewriteEngine.thy ===== *)
theory RewriteEngine
  imports EncoderFallback
begin

section \<open>Rewriting the encoder of a command (pkg/encoder/rewrite/outputformat.go, classifier.go, injector.go, engine.go)\<close>

text \<open>
  The engine decides which video encoder a command runs with on this worker and rewrites the command for it. Parameter sets are Go
  maps, association lists with distinct keys here whose order stands for any order of iteration. The muxer tables generated from
  ffmpeg and the parameter translator are parameters, as are the identifiers and times of the records, which are left out.
\<close>

type_synonym params = "(string \<times> string) list"

subsection \<open>The output of a command (outputformat.go)\<close>

definition outputSectionStart :: "string list \<Rightarrow> int" where
  "outputSectionStart args = (let lst = last_input_value 0 (- 1) args in if lst < 0 then -1 else lst + 1)"

fun format_flag :: "string \<Rightarrow> string list \<Rightarrow> string" where
  "format_flag format (arg # nxt # args) = format_flag (if arg = ''-f'' then ToLower nxt else format) (nxt # args)"
| "format_flag format args = format"

definition outputFormatFlag :: "string list \<Rightarrow> int \<Rightarrow> string" where
  "outputFormatFlag args start = format_flag [] (drop (nat start) args)"

fun last_positional :: "string \<Rightarrow> string list \<Rightarrow> string" where
  "last_positional positional [] = positional"
| "last_positional positional (arg # args) =
     (if arg = ''--'' then last_positional positional args
      else if length arg > 1 \<and> hd arg = CHR ''-'' then
        (if CHR ''='' \<in> set (tl arg) \<or> IsBoolean (tl arg) then last_positional positional args
         else last_positional positional (tl args))
      else last_positional arg args)"

definition lastPositional :: "string list \<Rightarrow> int \<Rightarrow> string" where
  "lastPositional args start = last_positional [] (drop (nat start) args)"

text \<open>\<open>mux\<close>: the muxer of an extension; \<open>dvc\<close>: the default video codec of a muxer, none where it carries no video.\<close>

definition OutputFormat :: "(string \<Rightarrow> string) \<Rightarrow> string list \<Rightarrow> string" where
  "OutputFormat mux args =
     (let start = outputSectionStart args
      in if start < 0 then []
         else if outputFormatFlag args start \<noteq> [] then outputFormatFlag args start
         else let out = lastPositional args start in if out = [] \<or> out = ''-'' then [] else mux (path_ext out))"

definition ContainerCodecFamily :: "string \<Rightarrow> string" where
  "ContainerCodecFamily codec =
     (if codec = ''h264'' then CodecH264 else if codec = ''hevc'' then CodecHEVC else if codec = ''vp9'' then CodecVP9
      else if codec = ''av1'' then CodecAV1 else if codec = ''vp8'' then CodecVP8 else if codec = ''mpeg2video'' then CodecMPEG2
      else if codec = ''mpeg4'' then CodecMPEG4 else [])"

definition hasUsableEncoder :: "hardware_caps \<Rightarrow> string \<Rightarrow> bool" where
  "hasUsableEncoder hc family \<longleftrightarrow>
     GetBestHardwareEncoder hc family \<noteq> [] \<or> GetSoftwareEncoder hc family \<noteq> [] \<or>
     (SoftwareEncoderForCodec family \<noteq> [] \<and> caps_HasEncoder hc (SoftwareEncoderForCodec family))"

definition containerTargetCodec ::
  "(string \<Rightarrow> string) \<Rightarrow> (string \<Rightarrow> string option) \<Rightarrow> string list \<Rightarrow> hardware_caps \<Rightarrow> (string \<times> string) option" where
  "containerTargetCodec mux dvc args hc =
     (let format = OutputFormat mux args
      in if format = [] then None
         else case dvc format of
                None \<Rightarrow> None
              | Some codecName \<Rightarrow>
                  let family = ContainerCodecFamily codecName
                  in if family = [] then None else if hasUsableEncoder hc family then Some (format, family) else None)"

definition mapMaySelectVideo :: "string \<Rightarrow> bool" where
  "mapMaySelectVideo spec \<longleftrightarrow>
     (case Cut (CHR '':'') (TrimSuffix spec ''?'') of
        (a, Some (c # s)) \<Rightarrow> c \<notin> set ''asdt''
      | _ \<Rightarrow> True)"

fun map_excludes :: "bool \<Rightarrow> string list \<Rightarrow> bool" where
  "map_excludes hasMap (arg # spec # args) \<longleftrightarrow>
     (if arg = ''--'' then hasMap
      else if arg \<noteq> ''-map'' \<or> spec = [] \<or> HasPrefix spec ''-'' then map_excludes hasMap (spec # args)
      else if mapMaySelectVideo spec then False
      else map_excludes True (spec # args))"
| "map_excludes hasMap args \<longleftrightarrow> hasMap"

definition mapExcludesVideo :: "string list \<Rightarrow> bool" where
  "mapExcludesVideo args \<longleftrightarrow> map_excludes False args"

definition HasNoVideoOutput :: "string list \<Rightarrow> bool" where
  "HasNoVideoOutput args \<longleftrightarrow> ''-vn'' \<in> set (takeWhile (\<lambda>a. a \<noteq> ''--'') args) \<or> mapExcludesVideo args"

subsection \<open>Scenarios (classifier.go)\<close>

datatype ScenarioType = ScenarioUnspecifiedEncoderWithHW | ScenarioUnspecifiedEncoderNoHW | ScenarioSpecifiedEncoderSupported
  | ScenarioSpecifiedEncoderUnsupportedWithAlternative | ScenarioSpecifiedEncoderUnsupportedFallbackSoftware
  | ScenarioFormatNotAvailable | ScenarioEncoderUnsupported

fun scenario_String :: "ScenarioType \<Rightarrow> string" where
  "scenario_String ScenarioUnspecifiedEncoderWithHW = ''unspecified_encoder_with_hw''"
| "scenario_String ScenarioUnspecifiedEncoderNoHW = ''unspecified_encoder_no_hw''"
| "scenario_String ScenarioSpecifiedEncoderSupported = ''specified_encoder_supported''"
| "scenario_String ScenarioSpecifiedEncoderUnsupportedWithAlternative = ''specified_encoder_unsupported_with_alternative''"
| "scenario_String ScenarioSpecifiedEncoderUnsupportedFallbackSoftware = ''specified_encoder_unsupported_fallback_software''"
| "scenario_String ScenarioFormatNotAvailable = ''format_not_available''"
| "scenario_String ScenarioEncoderUnsupported = ''encoder_unsupported''"

record rewrite_request =
  erq_args :: "string list"
  erq_specified :: string
  erq_target_codec :: string
  erq_caps :: hardware_caps
  erq_params :: params
  erq_auto_hw :: bool

definition Classify :: "rewrite_request \<Rightarrow> ScenarioType" where
  "Classify req =
     (let hc = erq_caps req; enc = erq_specified req; codec = CodecFormat enc
      in if enc = [] then
           (if erq_target_codec req \<noteq> [] \<and> GetBestHardwareEncoder hc (erq_target_codec req) \<noteq> []
            then ScenarioUnspecifiedEncoderWithHW else ScenarioUnspecifiedEncoderNoHW)
         else if IsBlacklisted hc enc then
           (if codec = [] then ScenarioEncoderUnsupported
            else if GetBestHardwareEncoder hc codec \<noteq> [] then ScenarioSpecifiedEncoderUnsupportedWithAlternative
            else if GetSoftwareEncoder hc codec \<noteq> [] then ScenarioSpecifiedEncoderUnsupportedFallbackSoftware
            else ScenarioFormatNotAvailable)
         else if caps_HasEncoder hc enc then
           (if erq_auto_hw req \<and> IsHardware enc then ScenarioSpecifiedEncoderSupported
            else if erq_auto_hw req \<and> \<not> IsHardware enc \<and> GetBestHardwareEncoder hc codec \<noteq> []
            then ScenarioSpecifiedEncoderUnsupportedWithAlternative
            else ScenarioSpecifiedEncoderSupported)
         else if codec = [] then ScenarioEncoderUnsupported
         else if \<not> HasCodecSupport hc codec then ScenarioFormatNotAvailable
         else if GetBestHardwareEncoder hc codec \<noteq> [] then ScenarioSpecifiedEncoderUnsupportedWithAlternative
         else if GetSoftwareEncoder hc codec \<noteq> [] then ScenarioSpecifiedEncoderUnsupportedFallbackSoftware
         else ScenarioFormatNotAvailable)"

text \<open>What a scenario needs: translation, hardware parameters, an error, and its description.\<close>

record scenario_info =
  si_translation :: bool
  si_injection :: bool
  si_error :: bool
  si_description :: string

fun GetScenarioInfo :: "ScenarioType \<Rightarrow> scenario_info" where
  "GetScenarioInfo ScenarioUnspecifiedEncoderWithHW =
     \<lparr>si_translation = True, si_injection = True, si_error = False, si_description = ''Auto-upgrade to best hardware encoder''\<rparr>"
| "GetScenarioInfo ScenarioUnspecifiedEncoderNoHW =
     \<lparr>si_translation = False, si_injection = False, si_error = False, si_description = ''Use the container family's software encoder''\<rparr>"
| "GetScenarioInfo ScenarioSpecifiedEncoderSupported =
     \<lparr>si_translation = False, si_injection = False, si_error = False, si_description = ''Pass through unchanged''\<rparr>"
| "GetScenarioInfo ScenarioSpecifiedEncoderUnsupportedWithAlternative =
     \<lparr>si_translation = True, si_injection = True, si_error = False, si_description = ''Translate to local hardware encoder''\<rparr>"
| "GetScenarioInfo ScenarioSpecifiedEncoderUnsupportedFallbackSoftware =
     \<lparr>si_translation = True, si_injection = False, si_error = False, si_description = ''Fallback to software encoder''\<rparr>"
| "GetScenarioInfo ScenarioEncoderUnsupported =
     \<lparr>si_translation = False, si_injection = False, si_error = True, si_description = ''Encoder not recognized (error)''\<rparr>"
| "GetScenarioInfo ScenarioFormatNotAvailable =
     \<lparr>si_translation = False, si_injection = False, si_error = True, si_description = ''Format not available (error)''\<rparr>"

definition softwareTarget :: "hardware_caps \<Rightarrow> string \<Rightarrow> string" where
  "softwareTarget hc codec =
     (if codec = [] then [] else if GetSoftwareEncoder hc codec \<noteq> [] then GetSoftwareEncoder hc codec else SoftwareEncoderForCodec codec)"

fun SelectTargetEncoder :: "ScenarioType \<Rightarrow> rewrite_request \<Rightarrow> string" where
  "SelectTargetEncoder ScenarioUnspecifiedEncoderWithHW req =
     (if GetBestHardwareEncoder (erq_caps req) (erq_target_codec req) \<noteq> []
      then GetBestHardwareEncoder (erq_caps req) (erq_target_codec req)
      else softwareTarget (erq_caps req) (erq_target_codec req))"
| "SelectTargetEncoder ScenarioUnspecifiedEncoderNoHW req = softwareTarget (erq_caps req) (erq_target_codec req)"
| "SelectTargetEncoder ScenarioSpecifiedEncoderSupported req = erq_specified req"
| "SelectTargetEncoder ScenarioSpecifiedEncoderUnsupportedWithAlternative req =
     GetBestHardwareEncoder (erq_caps req) (CodecFormat (erq_specified req))"
| "SelectTargetEncoder ScenarioSpecifiedEncoderUnsupportedFallbackSoftware req =
     GetSoftwareEncoder (erq_caps req) (CodecFormat (erq_specified req))"
| "SelectTargetEncoder ScenarioFormatNotAvailable req = []"
| "SelectTargetEncoder ScenarioEncoderUnsupported req = []"

subsection \<open>Hardware parameters (injector.go)\<close>

definition device_matches :: "gpu_vendor \<Rightarrow> gpu_device \<Rightarrow> bool" where
  "device_matches vendor d \<longleftrightarrow> dev_accessible d \<and>
     (case vendor of
        GPUVendorNVIDIA \<Rightarrow> dev_type d = ''nvenc'' \<or> dev_vendor d = ''NVIDIA''
      | GPUVendorIntel \<Rightarrow> (dev_type d = ''qsv'' \<or> dev_vendor d = ''Intel'') \<and> dev_qsv_healthy d
      | GPUVendorAMD \<Rightarrow> dev_type d = ''vaapi'' \<or> dev_type d = ''amf'' \<or> dev_vendor d = ''AMD''
      | GPUVendorApple \<Rightarrow> dev_type d = ''videotoolbox'' \<or> dev_vendor d = ''Apple''
      | GPUVendorNone \<Rightarrow> False)"

definition SelectDevice :: "string \<Rightarrow> hardware_caps \<Rightarrow> gpu_device option" where
  "SelectDevice enc hc =
     (case List.find (device_matches (GPUVendor enc)) (hc_devices hc) of
        Some d \<Rightarrow> Some d
      | None \<Rightarrow> List.find dev_accessible (hc_devices hc))"

definition vaapi_encoder :: "string \<Rightarrow> bool" where
  "vaapi_encoder enc \<longleftrightarrow> enc \<in> set [''h264_vaapi'', ''hevc_vaapi'', ''vp9_vaapi'', ''av1_vaapi'', ''vp8_vaapi'', ''mpeg2_vaapi'']"

definition device_param :: "string \<Rightarrow> string \<Rightarrow> gpu_device option \<Rightarrow> params" where
  "device_param name pre d = (case d of None \<Rightarrow> [] | Some d \<Rightarrow> if dev_path d \<noteq> [] then [(name, pre @ dev_path d)] else [])"

definition getHardwareParamsForEncoder :: "string \<Rightarrow> gpu_device option \<Rightarrow> params" where
  "getHardwareParamsForEncoder enc d =
     (case GPUVendor enc of
        GPUVendorNVIDIA \<Rightarrow> device_param ''gpu'' [] d @ [(''delay'', ''0''), (''zerolatency'', ''1'')]
      | GPUVendorIntel \<Rightarrow>
          device_param ''init_hw_device'' ''qsv=hw,child_device='' d @ device_param ''qsv_device'' [] d @ [(''async_depth'', ''1'')]
      | GPUVendorAMD \<Rightarrow>
          if vaapi_encoder enc then device_param ''vaapi_device'' [] d @ [(''pix_fmt'', ''vaapi'')]
          else [(''rc'', ''cqp''), (''quality'', ''balanced'')]
      | GPUVendorApple \<Rightarrow> []
      | GPUVendorNone \<Rightarrow> [])"

definition GetRequiredParams :: "string \<Rightarrow> string list" where
  "GetRequiredParams enc =
     (case GPUVendor enc of
        GPUVendorNVIDIA \<Rightarrow> [''gpu'', ''delay'', ''zerolatency'']
      | GPUVendorIntel \<Rightarrow> [''qsv_device'', ''async_depth'']
      | GPUVendorAMD \<Rightarrow> if vaapi_encoder enc then [''vaapi_device''] else [''rc'', ''quality'']
      | GPUVendorApple \<Rightarrow> []
      | GPUVendorNone \<Rightarrow> [])"

definition SupportsEncoder :: "string \<Rightarrow> bool" where
  "SupportsEncoder enc \<longleftrightarrow> IsHardware enc"

datatype AuditOperation = AuditOpScenarioClassify | AuditOpEncoderSelect | AuditOpParamTranslate | AuditOpHWParamInject | AuditOpFallback

record rewrite_audit =
  ra_operation :: AuditOperation
  ra_source_encoder :: string
  ra_target_encoder :: string
  ra_source_param :: string
  ra_target_param :: string
  ra_source_value :: string
  ra_target_value :: string
  ra_reason :: string
  ra_success :: bool

text \<open>The injected parameters and their records.\<close>

definition Inject :: "string \<Rightarrow> params \<Rightarrow> hardware_caps \<Rightarrow> params \<times> rewrite_audit list" where
  "Inject enc ps hc =
     (if \<not> IsHardware enc then ([], [])
      else let injected = filter (\<lambda>(k, v). map_of ps k = None) (getHardwareParamsForEncoder enc (SelectDevice enc hc))
           in (injected, map (\<lambda>(k, v).
                \<lparr>ra_operation = AuditOpHWParamInject, ra_source_encoder = [], ra_target_encoder = [], ra_source_param = [],
                 ra_target_param = k, ra_source_value = [], ra_target_value = v, ra_reason = ''Injected hardware parameter for '' @ enc,
                 ra_success = True\<rparr>) injected))"

subsection \<open>The rewritten command (engine.go)\<close>

definition globalInitParamNames :: "string list" where
  "globalInitParamNames = [''init_hw_device'', ''hwaccel'', ''hwaccel_output_format'']"

definition isGlobalInitParam :: "string \<Rightarrow> bool" where
  "isGlobalInitParam p \<longleftrightarrow> p \<in> set globalInitParamNames"

fun hasGlobalParam :: "string list \<Rightarrow> string \<Rightarrow> bool" where
  "hasGlobalParam [] p \<longleftrightarrow> False"
| "hasGlobalParam (arg # args) p \<longleftrightarrow>
     (let clean = TrimPrefix arg ''-''
      in if CHR ''='' \<in> set clean then before (CHR ''='') clean = p else clean = p \<and> args \<noteq> []) \<or>
     hasGlobalParam args p"

definition isBooleanFlagArg :: "string \<Rightarrow> bool" where
  "isBooleanFlagArg arg \<longleftrightarrow> IsBoolean arg"

fun output_pos :: "bool \<Rightarrow> nat \<Rightarrow> int \<Rightarrow> string list \<Rightarrow> int" where
  "output_pos expectValue i outputPos [] = outputPos"
| "output_pos expectValue i outputPos (arg # args) =
     (if expectValue then output_pos False (Suc i) outputPos args
      else if HasPrefix arg ''-'' \<and> arg \<noteq> ''-'' \<and> \<not> isBooleanFlagArg arg then output_pos (args \<noteq> []) (Suc i) outputPos args
      else output_pos False (Suc i) (int i) args)"

definition findOutputFilePos :: "string list \<Rightarrow> int" where
  "findOutputFilePos args = output_pos False 0 (- 1) args"

definition insertBeforeOutputPath :: "string list \<Rightarrow> string list \<Rightarrow> string list" where
  "insertBeforeOutputPath args toInsert =
     (let insertPos = findOutputFilePos args
      in if insertPos < 0 \<or> insertPos \<ge> int (length args) then args @ toInsert
         else take (nat insertPos) args @ toInsert @ drop (nat insertPos) args)"

text \<open>
  The loop over the original arguments. \<open>flags\<close> are the encoder options found, \<open>primary\<close> the one that counts; \<open>seen\<close> are the names
  of the parameters met so far. A parameter is looked up by its full name, then by the name before the stream specifier. A flag
  always has its value, so the case without is never reached.
\<close>

definition lookup_param :: "params \<Rightarrow> string \<Rightarrow> string \<Rightarrow> string option" where
  "lookup_param m fullName baseName = (case map_of m fullName of Some v \<Rightarrow> Some v | None \<Rightarrow> map_of m baseName)"

definition rewrite_primary :: "video_flag option \<Rightarrow> string \<Rightarrow> video_flag \<Rightarrow> bool" where
  "rewrite_primary primary target f \<longleftrightarrow>
     (case primary of
        None \<Rightarrow> False
      | Some p \<Rightarrow> vf_index f = vf_index p \<and> vf_value p \<noteq> target \<and> vf_value p \<noteq> ''copy'')"

fun rewrite_loop ::
  "video_flag list \<Rightarrow> video_flag option \<Rightarrow> string \<Rightarrow> params \<Rightarrow> params \<Rightarrow> params \<Rightarrow> nat \<Rightarrow> string list \<Rightarrow> string list \<Rightarrow> string list \<times> string list" where
  "rewrite_loop flags primary target ps toFilter same i seen [] = ([], seen)"
| "rewrite_loop flags primary target ps toFilter same i seen (arg # args) =
     (if arg = ''--'' then (arg # args, seen)
      else if \<not> HasPrefix arg ''-'' then apfst ((#) arg) (rewrite_loop flags primary target ps toFilter same (Suc i) seen args)
      else case List.find (\<lambda>f. vf_index f = i) flags of
             Some f \<Rightarrow>
               (case args of
                  [] \<Rightarrow> ([arg], seen)
                | v # others \<Rightarrow>
                    apfst ((@) (if rewrite_primary primary target f then RewrittenTokens f target else [arg, v]))
                      (rewrite_loop flags primary target ps toFilter same (Suc (Suc i)) seen others))
           | None \<Rightarrow>
               if ps = [] \<and> toFilter = [] \<and> same = []
               then apfst ((#) arg) (rewrite_loop flags primary target ps toFilter same (Suc i) seen args)
               else
                 (let paramName = TrimPrefix arg ''-'';
                      inlineForm = (CHR ''='' \<in> set paramName);
                      fullName = before (CHR ''='') paramName;
                      baseName = before (CHR '':'') fullName;
                      marked = fullName # baseName # seen
                  in if lookup_param toFilter fullName baseName \<noteq> None then
                       (case args of
                          v # others \<Rightarrow>
                            if \<not> inlineForm then rewrite_loop flags primary target ps toFilter same (Suc (Suc i)) marked others
                            else rewrite_loop flags primary target ps toFilter same (Suc i) marked args
                        | [] \<Rightarrow> ([], marked))
                     else case lookup_param same fullName baseName of
                            Some converted \<Rightarrow>
                              if inlineForm then apfst ((#) arg) (rewrite_loop flags primary target ps toFilter same (Suc i) marked args)
                              else (case args of
                                      [] \<Rightarrow> ([arg], marked)
                                    | v # others \<Rightarrow>
                                        apfst ((@) [arg, converted])
                                          (rewrite_loop flags primary target ps toFilter same (Suc (Suc i)) marked others))
                          | None \<Rightarrow>
                              apfst ((#) arg) (rewrite_loop flags primary target ps toFilter same (Suc i)
                                (if lookup_param ps fullName baseName \<noteq> None then marked else seen) args)))"

declare rewrite_loop.simps(2) [simp del]

definition codec_names :: "string \<Rightarrow> string list" where
  "codec_names name = [name, before (CHR '':'') name]"

definition buildRewrittenArgs ::
  "string list \<Rightarrow> string \<Rightarrow> params \<Rightarrow> params \<Rightarrow> params \<Rightarrow> hardware_caps \<Rightarrow> string list" where
  "buildRewrittenArgs args target ps toFilter same hc =
     (if HasNoVideoOutput args \<or> HasInlineVideoEncoderSyntax args then args
      else
        (let globalInitArgs = concat (map (\<lambda>p. case map_of ps p of
               Some v \<Rightarrow> if \<not> hasGlobalParam args p then [CHR ''-'' # p, v] else []
             | None \<Rightarrow> []) globalInitParamNames);
             flags = ParseVideoEncoderFlags args (Some hc);
             primary = PrimaryVideoEncoderFlag flags;
             seen = filter isGlobalInitParam (map fst ps) @ filter (hasGlobalParam args) globalInitParamNames @
               concat (map codec_names ([''c'', ''codec'', ''c:v'', ''codec:v'', ''vcodec''] @ map vf_name flags));
             (copied, seen) = rewrite_loop flags primary target ps toFilter same 0 seen args;
             result = globalInitArgs @ copied;
             result = (if primary = None then insertBeforeOutputPath result [''-c:v'', target] else result);
             newParams = concat (map (\<lambda>(p, v). [CHR ''-'' # p, v]) (filter (\<lambda>(p, v). p \<notin> set seen \<and> v \<noteq> []) ps))
         in if newParams \<noteq> [] then insertBeforeOutputPath result newParams else result))"

subsection \<open>Parameters of a command (engine.go)\<close>

text \<open>\<open>skip\<close> tells the indices that belong to encoder options.\<close>

definition encoder_index :: "video_flag list \<Rightarrow> nat \<Rightarrow> bool" where
  "encoder_index flags i \<longleftrightarrow> list_ex (\<lambda>f. i = vf_index f \<or> i = Suc (vf_index f)) flags"

fun engine_params :: "(nat \<Rightarrow> bool) \<Rightarrow> nat \<Rightarrow> params \<Rightarrow> string list \<Rightarrow> params" where
  "engine_params skip i ps [] = ps"
| "engine_params skip i ps (arg # args) =
     (if arg = ''--'' then ps
      else if skip i \<or> HasInlineVideoEncoderSyntax [arg] \<or> \<not> HasPrefix arg ''-'' then engine_params skip (Suc i) ps args
      else case Cut (CHR ''='') (TrimPrefix arg ''-'') of
             (name, Some v) \<Rightarrow> engine_params skip (Suc i) (AList.update name v ps) args
           | (name, None) \<Rightarrow>
               if IsBoolean name then engine_params skip (Suc i) ps args
               else (case args of
                       [] \<Rightarrow> ps
                     | v # others \<Rightarrow> engine_params skip (Suc (Suc i)) (AList.update name v ps) others))"

definition engine_parseEncoderFromArgs :: "string list \<Rightarrow> hardware_caps \<Rightarrow> string" where
  "engine_parseEncoderFromArgs args hc = extractEncoderFromArgsWithCaps args (Some hc)"

definition engine_parseEncoderParamsFromArgs :: "string list \<Rightarrow> hardware_caps \<Rightarrow> params" where
  "engine_parseEncoderParamsFromArgs args hc = engine_params (encoder_index (ParseVideoEncoderFlags args (Some hc))) 0 [] args"

subsection \<open>The engine (engine.go)\<close>

record translation_result =
  tr_params :: params
  tr_hardware :: params
  tr_audit :: "rewrite_audit list"

text \<open>The translator returns a result, an error, or both.\<close>

type_synonym translator = "string \<Rightarrow> string \<Rightarrow> params \<Rightarrow> translation_result option \<times> string option"

datatype NotificationLevel = NotificationLevelInfo | NotificationLevelWarning | NotificationLevelError

datatype ErrorCode = ErrFormatNotMatch | ErrHardwareNotSupported | ErrEncoderNotAvailable | ErrTranslationFailed | ErrInvalidRequest
  | ErrNoSuitableEncoder | ErrHardwareInjectionFailed | ErrBlacklistedEncoder | ErrEncoderUnsupported

record rewrite_response =
  ers_args :: "string list"
  ers_original :: string
  ers_target :: string
  ers_container :: string
  ers_scenario :: "ScenarioType option"
  ers_translated :: bool
  ers_audit :: "rewrite_audit list"
  ers_notes :: "(NotificationLevel \<times> string) list"
  ers_errors :: "(ErrorCode \<times> string) list"
  ers_warnings :: "string list"

definition ConverterUsedHardwareInjection :: string where
  "ConverterUsedHardwareInjection = ''hardware_injection''"

definition formatEncoder :: "string \<Rightarrow> string" where
  "formatEncoder enc = (if enc = [] then ''(none)'' else enc)"

definition arrow :: string where "arrow = [CHR '' '', CHR 0xE2, CHR 0x86, CHR 0x92, CHR '' '']"

definition formatParamToken :: "string \<Rightarrow> string \<Rightarrow> string" where
  "formatParamToken name val = (if val = [] then CHR ''-'' # name else CHR ''-'' # name @ '' '' @ val)"

definition param_fate :: "params \<Rightarrow> string \<Rightarrow> rewrite_audit \<Rightarrow> string option" where
  "param_fate translated target r =
     (let source = formatParamToken (ra_source_param r) (ra_source_value r)
      in if ra_source_param r = [] \<or> ra_reason r = ConverterUsedHardwareInjection \<or> \<not> ra_success r then None
         else if ra_target_param r \<noteq> [] \<and> ra_target_value r \<noteq> [] then
           Some (if ra_target_param r = ra_source_param r \<and> ra_target_value r = ra_source_value r then source
                 else source @ arrow @ formatParamToken (ra_target_param r) (ra_target_value r))
         else if ra_target_param r = [] \<and> map_of translated (ra_source_param r) \<in> {None, Some []}
         then Some (source @ '' (not supported by '' @ target @ '')'')
         else None)"

definition formatParamFateReport :: "rewrite_audit list \<Rightarrow> params \<Rightarrow> string \<Rightarrow> string" where
  "formatParamFateReport records translated target =
     (let parts = List.map_filter (param_fate translated target) records
      in if parts = [] then [] else ''[rffmpeg] '' @ target @ '' params: '' @ join_strings '', '' parts)"

definition engine_audit :: "AuditOperation \<Rightarrow> string \<Rightarrow> string \<Rightarrow> string \<Rightarrow> rewrite_audit" where
  "engine_audit op source target reason =
     \<lparr>ra_operation = op, ra_source_encoder = source, ra_target_encoder = target, ra_source_param = [], ra_target_param = [],
      ra_source_value = [], ra_target_value = [], ra_reason = reason, ra_success = True\<rparr>"

definition empty_response :: rewrite_response where
  "empty_response =
     \<lparr>ers_args = [], ers_original = [], ers_target = [], ers_container = [], ers_scenario = None, ers_translated = False, ers_audit = [],
      ers_notes = [], ers_errors = [], ers_warnings = []\<rparr>"

definition merge_params :: "params \<Rightarrow> params \<Rightarrow> params" where
  "merge_params new ps = foldl (\<lambda>ps (k, v). AList.update k v ps) ps new"

text \<open>Step 3, the parameters: translated ones, those to drop, those whose value changes in place, and the report on them.\<close>

definition translate_step ::
  "translator option \<Rightarrow> scenario_info \<Rightarrow> rewrite_request \<Rightarrow> string \<Rightarrow> rewrite_response \<Rightarrow> rewrite_response \<times> params \<times> params \<times> params \<times> string" where
  "translate_step tr info req target resp =
     (let source = (if erq_specified req = [] then SoftwareEncoderForCodec (CodecFormat target) else erq_specified req)
      in case (if si_translation info \<and> source \<noteq> [] then tr else None) of
           None \<Rightarrow> (resp, erq_params req, [], [], [])
         | Some translate \<Rightarrow>
             (case translate source target (erq_params req) of
                (res, err) \<Rightarrow>
                  let resp = resp\<lparr>ers_warnings := ers_warnings resp @ (case err of None \<Rightarrow> [] | Some e \<Rightarrow> [''Translation warning: '' @ e])\<rparr>
                  in case res of
                       None \<Rightarrow> (resp, erq_params req, [], [], [])
                     | Some r \<Rightarrow>
                         (let translated = merge_params (tr_hardware r) (tr_params r);
                              resp = resp\<lparr>ers_translated := True, ers_audit := ers_audit resp @
                                [engine_audit AuditOpParamTranslate (erq_specified req) target
                                  (''Translated '' @ Itoa (int (length (tr_params r))) @ '' parameters'')]\<rparr>;
                              toFilter = merge_params (map (\<lambda>a. (ra_source_param a, ra_source_value a)) (filter (\<lambda>a. ra_success a \<and>
                                ra_source_param a \<noteq> [] \<and> ra_source_param a \<noteq> ra_target_param a \<and> ra_target_param a \<noteq> []) (tr_audit r))) [];
                              same = merge_params (map (\<lambda>a. (ra_source_param a, ra_target_value a)) (filter (\<lambda>a. ra_success a \<and>
                                ra_source_param a \<noteq> [] \<and> ra_source_param a = ra_target_param a \<and> ra_reason a \<noteq> [] \<and>
                                ra_reason a \<noteq> ConverterUsedHardwareInjection) (tr_audit r))) []
                          in (resp, translated, toFilter, same, formatParamFateReport (tr_audit r) translated target))))"

definition rewrite_notice :: "rewrite_request \<Rightarrow> ScenarioType \<Rightarrow> string \<Rightarrow> string \<Rightarrow> string" where
  "rewrite_notice req scenario target containerFormat =
     (if scenario = ScenarioSpecifiedEncoderUnsupportedWithAlternative \<or> scenario = ScenarioSpecifiedEncoderUnsupportedFallbackSoftware then
        (if erq_auto_hw req \<and> caps_HasEncoder (erq_caps req) (erq_specified req) \<and> \<not> IsBlacklisted (erq_caps req) (erq_specified req) \<and>
            \<not> IsHardware (erq_specified req)
         then ''[rffmpeg] upgraded '' @ formatEncoder (erq_specified req) @ arrow @ target
         else ''[rffmpeg] '' @ formatEncoder (erq_specified req) @ '' unavailable, fallback to '' @ target)
      else if scenario = ScenarioUnspecifiedEncoderWithHW \<or> scenario = ScenarioUnspecifiedEncoderNoHW then
        ''[rffmpeg] auto-selected '' @ target @ '' (container '' @ containerFormat @ '')''
      else ''[rffmpeg] '' @ formatEncoder (erq_specified req) @ '' -> '' @ target @ '' ('' @ si_description (GetScenarioInfo scenario) @ '')'')"

text \<open>Steps 3 to 6, once the target is known.\<close>

definition apply_target :: "translator option \<Rightarrow> rewrite_request \<Rightarrow> ScenarioType \<Rightarrow> string \<Rightarrow> string \<Rightarrow> rewrite_response \<Rightarrow> rewrite_response" where
  "apply_target tr req scenario target containerFormat resp =
     (let info = GetScenarioInfo scenario;
          resp = resp\<lparr>ers_audit := ers_audit resp @ [engine_audit AuditOpEncoderSelect (erq_specified req) target
                   (''Selected encoder for scenario: '' @ scenario_String scenario)],
                   ers_original := erq_specified req, ers_target := target, ers_container := containerFormat\<rparr>;
          (resp, ps, toFilter, same, report) = translate_step tr info req target resp;
          (ps, resp) = (if si_injection info
                        then (case Inject target ps (erq_caps req) of
                                (injected, records) \<Rightarrow> (ps @ filter (\<lambda>(k, v). map_of ps k = None) injected, resp\<lparr>ers_audit := ers_audit resp @ records\<rparr>))
                        else (ps, resp))
      in resp\<lparr>ers_args := buildRewrittenArgs (erq_args req) target ps toFilter same (erq_caps req),
              ers_notes := ers_notes resp @ [(NotificationLevelInfo, rewrite_notice req scenario target containerFormat)] @
                (if report \<noteq> [] then [(NotificationLevelInfo, report)] else [])\<rparr>)"

definition Rewrite :: "(string \<Rightarrow> string) \<Rightarrow> (string \<Rightarrow> string option) \<Rightarrow> translator option \<Rightarrow> rewrite_request \<Rightarrow> rewrite_response" where
  "Rewrite mux dvc tr req0 =
     (let untouched = empty_response\<lparr>ers_args := erq_args req0\<rparr>;
          container = (if erq_specified req0 = [] then containerTargetCodec mux dvc (erq_args req0) (erq_caps req0) else Some ([], erq_target_codec req0))
      in if HasNoVideoOutput (erq_args req0) \<or> HasInlineVideoEncoderSyntax (erq_args req0) then untouched
         else case container of
                None \<Rightarrow> untouched
              | Some (containerFormat, codec) \<Rightarrow>
                  (let req = req0\<lparr>erq_target_codec := codec\<rparr>;
                       scenario = Classify req;
                       info = GetScenarioInfo scenario;
                       target = SelectTargetEncoder scenario req;
                       resp = empty_response\<lparr>ers_scenario := Some scenario, ers_audit :=
                         [engine_audit AuditOpScenarioClassify [] [] (''Classified as scenario: '' @ scenario_String scenario)]\<rparr>
                   in if si_error info then
                        resp\<lparr>ers_errors := [(if scenario = ScenarioEncoderUnsupported then ErrEncoderUnsupported else ErrFormatNotMatch, si_description info)],
                             ers_notes := [(NotificationLevelError, ''[rffmpeg] '' @ formatEncoder (erq_specified req) @ '' -> (unavailable) ('' @
                               si_description info @ '')'')]\<rparr>
                      else if erq_specified req = [] \<and> (target = [] \<or> \<not> caps_HasEncoder (erq_caps req) target) then resp\<lparr>ers_args := erq_args req\<rparr>
                      else if target = [] then
                        resp\<lparr>ers_errors := [(ErrNoSuitableEncoder, ''No suitable encoder found'')],
                             ers_notes := [(NotificationLevelError, ''[rffmpeg] '' @ formatEncoder (erq_specified req) @
                               '' -> (none) (No suitable encoder found)'')]\<rparr>
                      else apply_target tr req scenario target containerFormat resp))"

text \<open>The synchronous entry: the arguments, or the first error.\<close>

definition RewriteSync ::
  "(string \<Rightarrow> string) \<Rightarrow> (string \<Rightarrow> string option) \<Rightarrow> translator option \<Rightarrow> string list \<Rightarrow> hardware_caps \<Rightarrow> (ErrorCode \<times> string) + string list" where
  "RewriteSync mux dvc tr args hc =
     (let resp = Rewrite mux dvc tr \<lparr>erq_args = args, erq_specified = engine_parseEncoderFromArgs args hc, erq_target_codec = [], erq_caps = hc,
                   erq_params = engine_parseEncoderParamsFromArgs args hc, erq_auto_hw = False\<rparr>
      in case ers_errors resp of e # es \<Rightarrow> Inl e | [] \<Rightarrow> Inr (ers_args resp))"

end
