(* ===== verification/RewriteAdapter.thy ===== *)
theory RewriteAdapter
  imports RewriteEngine
begin

section \<open>Rewriting on the worker (pkg/worker/rewrite_adapter.go)\<close>

text \<open>
  The adapter turns the capabilities a worker reported into those the engine works with, runs the engine on the arguments of a job
  and falls back to a software encoder when the engine reports an error. Capabilities and configuration are arguments: a rewrite
  reads them once at its start. Log output is left out.
\<close>

record adapter_config =
  ac_enabled :: bool
  ac_silent :: bool
  ac_fallback :: bool

definition DefaultRewriteAdapterConfig :: adapter_config where
  "DefaultRewriteAdapterConfig = \<lparr>ac_enabled = True, ac_silent = False, ac_fallback = True\<rparr>"

subsection \<open>Capabilities\<close>

text \<open>The detector drops the blacklisted encoders before it reports (\<^verbatim>\<open>filterBlacklisted\<close> of capabilities/detector.go).\<close>

definition filterBlacklisted :: "encoder_info list \<Rightarrow> string list \<Rightarrow> encoder_info list" where
  "filterBlacklisted encoders blacklist = filter (\<lambda>e. ei_name e \<notin> set blacklist) encoders"

definition add_codec :: "string list \<Rightarrow> string \<Rightarrow> string list" where
  "add_codec codecs enc =
     (let codec = CodecFormat enc in if codec \<noteq> [] \<and> codec \<notin> set codecs then codecs @ [codec] else codecs)"

definition convert_device :: "gpu_device_info \<Rightarrow> gpu_device" where
  "convert_device d =
     \<lparr>dev_type = gd_type d, dev_path = gd_path d, dev_name = gd_name d, dev_vendor = gd_vendor d, dev_driver = gd_driver_version d,
      dev_accessible = gd_accessible d, dev_qsv_healthy = gd_qsv_healthy d\<rparr>"

definition empty_caps :: hardware_caps where
  "empty_caps = \<lparr>hc_available = [], hc_hardware = [], hc_software = [], hc_codecs = [], hc_devices = [], hc_priority = [], hc_blacklist = []\<rparr>"

definition convertCapabilities :: "worker_capabilities option \<Rightarrow> hardware_caps" where
  "convertCapabilities caps =
     (case caps of
        None \<Rightarrow> empty_caps
      | Some c \<Rightarrow>
          let encs = wc_video_encoders c; n = int (length (wc_encoder_priority c))
          in \<lparr>hc_available = map ei_name encs,
              hc_hardware = map ei_name (filter ei_is_hw encs),
              hc_software = map ei_name (filter (\<lambda>e. \<not> ei_is_hw e) encs),
              hc_codecs = foldl add_codec [] (map ei_name encs),
              hc_devices = map convert_device (wc_gpu_devices c),
              hc_priority = (if wc_encoder_priority c \<noteq> []
                             then map (\<lambda>(i, name). (name, n - int i)) (enumerate 0 (wc_encoder_priority c))
                             else DefaultEncoderPriority),
              hc_blacklist = wc_encoder_blacklist c\<rparr>)"

subsection \<open>Arguments\<close>

definition adapter_parseEncoderFromArgs :: "string list \<Rightarrow> hardware_caps \<Rightarrow> string" where
  "adapter_parseEncoderFromArgs args hc = extractEncoderFromArgsWithCaps args (Some hc)"

definition isPassthroughEncoder :: "string \<Rightarrow> bool" where
  "isPassthroughEncoder enc \<longleftrightarrow> enc = ''copy''"

definition skipFlags :: "string list" where
  "skipFlags = [''i'', ''o'', ''f'', ''c'', ''c:v'', ''c:a'', ''c:s'', ''c:d'', ''codec'', ''codec:v'', ''codec:a'', ''codec:s'', ''codec:d'',
     ''acodec'', ''scodec'', ''vcodec'', ''bsf:v'', ''bsf:a'', ''filter:v'', ''filter:a'', ''vf'', ''af'', ''map'', ''metadata'', ''t'', ''ss'',
     ''to'', ''fs'', ''timestamp'', ''rt'', ''threads'']"

fun adapter_params :: "(nat \<Rightarrow> bool) \<Rightarrow> nat \<Rightarrow> params \<Rightarrow> string list \<Rightarrow> params" where
  "adapter_params skip i ps [] = ps"
| "adapter_params skip i ps (arg # args) =
     (if arg = ''--'' then ps
      else if skip i \<or> arg = [] \<or> hd arg \<noteq> CHR ''-'' then adapter_params skip (Suc i) ps args
      else case Cut (CHR ''='') (tl arg) of
             (name, Some v) \<Rightarrow> adapter_params skip (Suc i) (if name \<in> set skipFlags then ps else AList.update name v ps) args
           | (name, None) \<Rightarrow>
               if name \<in> set skipFlags then
                 (case args of [] \<Rightarrow> ps | v # others \<Rightarrow> adapter_params skip (Suc (Suc i)) ps others)
               else if IsBoolean name then adapter_params skip (Suc i) ps args
               else (case args of
                       [] \<Rightarrow> ps
                     | v # others \<Rightarrow> adapter_params skip (Suc (Suc i)) (AList.update name v ps) others))"

definition adapter_parseEncoderParamsFromArgs :: "string list \<Rightarrow> hardware_caps \<Rightarrow> params" where
  "adapter_parseEncoderParamsFromArgs args hc = adapter_params (encoder_index (ParseVideoEncoderFlags args (Some hc))) 0 [] args"

subsection \<open>The software fallback\<close>

definition fallbackToSoftware :: "string list \<Rightarrow> hardware_caps \<Rightarrow> string + string list" where
  "fallbackToSoftware args hc =
     (if HasNoVideoOutput args \<or> HasInlineVideoEncoderSyntax args then Inr args
      else
        (let originalEncoder = adapter_parseEncoderFromArgs args hc;
             codec = (if originalEncoder \<noteq> [] then CodecFormat originalEncoder else CodecH264);
             swEncoder = (if GetSoftwareEncoder hc codec \<noteq> [] then GetSoftwareEncoder hc codec else SoftwareEncoderForCodec codec);
             hasPrimary = (PrimaryVideoEncoderFlag (ParseVideoEncoderFlags args (Some hc)) \<noteq> None);
             result = ReplacePrimaryVideoEncoder args swEncoder (Some hc)
         in if codec = [] then Inl (''encoder '' @ [CHR 0x27] @ originalEncoder @ [CHR 0x27] @ '' is not recognized'')
            else if swEncoder = [] then Inl (''no software encoder available for codec '' @ codec)
            else Inr (if \<not> hasPrimary then result @ [''-c:v'', swEncoder] else result)))"

subsection \<open>The result of a rewrite\<close>

record rewrite_result =
  rz_performed :: bool
  rz_original :: string
  rz_target :: string
  rz_scenario :: string
  rz_notes :: "string list"
  rz_audit :: "rewrite_audit list"
  rz_capabilities :: string
  rz_reason :: string
  rz_error :: string
  rz_fallback :: bool

definition not_performed :: rewrite_result where
  "not_performed =
     \<lparr>rz_performed = False, rz_original = [], rz_target = [], rz_scenario = [], rz_notes = [], rz_audit = [], rz_capabilities = [],
      rz_reason = [], rz_error = [], rz_fallback = False\<rparr>"

definition HardwareEncoderMarker :: string where "HardwareEncoderMarker = ''[HW]''"

definition buildCapabilitiesSummary :: "hardware_caps \<Rightarrow> string" where
  "buildCapabilitiesSummary hc =
     (let encoders = map (\<lambda>e. if e \<in> set (hc_hardware hc) then e @ HardwareEncoderMarker else e) (hc_available hc)
      in if encoders = [] then ''none'' else join_strings '','' encoders)"

text \<open>The zero scenario, of a command the engine did not classify, prints as unknown.\<close>

definition scenario_text :: "ScenarioType option \<Rightarrow> string" where
  "scenario_text s = (case s of None \<Rightarrow> ''unknown'' | Some s \<Rightarrow> scenario_String s)"

definition buildDecisionReason :: "rewrite_response \<Rightarrow> string" where
  "buildDecisionReason resp =
     (let scenarioInfo = scenario_text (ers_scenario resp)
      in if ers_original resp = [] \<and> ers_container resp \<noteq> [] then
           ''auto-selected '' @ ers_target resp @ '' (container '' @ ers_container resp @ '')''
         else if ers_original resp \<noteq> ers_target resp then
           (if IsHardware (ers_target resp) \<and> \<not> IsHardware (ers_original resp)
            then ''auto-upgrade to hardware encoder '' @ ers_target resp @ '' ('' @ scenarioInfo @ '')''
            else ers_original resp @ '' -> '' @ ers_target resp @ '' ('' @ scenarioInfo @ '')'')
         else if ers_translated resp then ''parameters translated for '' @ ers_target resp @ '' ('' @ scenarioInfo @ '')''
         else scenarioInfo)"

definition adapter_request :: "string list \<Rightarrow> hardware_caps \<Rightarrow> bool \<Rightarrow> rewrite_request" where
  "adapter_request args hc autoHW =
     \<lparr>erq_args = args, erq_specified = adapter_parseEncoderFromArgs args hc, erq_target_codec = [], erq_caps = hc,
      erq_params = adapter_parseEncoderParamsFromArgs args hc, erq_auto_hw = autoHW\<rparr>"

definition rewrite_skipped :: "adapter_config \<Rightarrow> string list \<Rightarrow> hardware_caps \<Rightarrow> bool" where
  "rewrite_skipped cfg args hc \<longleftrightarrow>
     \<not> ac_enabled cfg \<or> HasNoVideoOutput args \<or> HasInlineVideoEncoderSyntax args \<or> isPassthroughEncoder (adapter_parseEncoderFromArgs args hc)"

text \<open>The arguments to run, what was done, and the error a refused command ends with.\<close>

definition RewriteArgs ::
  "(string \<Rightarrow> string) \<Rightarrow> (string \<Rightarrow> string option) \<Rightarrow> translator option \<Rightarrow> adapter_config \<Rightarrow> string list \<Rightarrow> hardware_caps \<Rightarrow> bool \<Rightarrow>
     string list \<times> rewrite_result \<times> string option" where
  "RewriteArgs mux dvc tr cfg args hc autoHW =
     (if rewrite_skipped cfg args hc then (args, not_performed, None)
      else
        (let specified = adapter_parseEncoderFromArgs args hc;
             resp = Rewrite mux dvc tr (adapter_request args hc autoHW);
             res = \<lparr>rz_performed = (ers_translated resp \<or> ers_original resp \<noteq> ers_target resp), rz_original = ers_original resp,
                rz_target = ers_target resp, rz_scenario = scenario_text (ers_scenario resp), rz_notes = map snd (ers_notes resp),
                rz_audit = ers_audit resp, rz_capabilities = buildCapabilitiesSummary hc, rz_reason = buildDecisionReason resp,
                rz_error = [], rz_fallback = False\<rparr>
         in case ers_errors resp of
              [] \<Rightarrow> (ers_args resp, res, None)
            | (code, msg) # es \<Rightarrow>
                (let res = res\<lparr>rz_error := msg\<rparr>
                 in if code = ErrEncoderUnsupported
                    then (args, res, Some (''encoder '' @ [CHR 0x27] @ specified @ [CHR 0x27] @ '' is not recognized: '' @ msg))
                    else case (if ac_fallback cfg then fallbackToSoftware args hc else Inl []) of
                           Inr fallbackArgs \<Rightarrow>
                             let fallbackEncoder = adapter_parseEncoderFromArgs fallbackArgs hc
                             in (fallbackArgs, res\<lparr>rz_fallback := True, rz_notes := rz_notes res @
                                   (if fallbackEncoder \<noteq> [] then [''[rffmpeg] '' @ specified @ '' unavailable, fallback to '' @ fallbackEncoder] else [])\<rparr>, None)
                         | Inl e \<Rightarrow> (args, res, Some msg))))"

definition ResolveTargetEncoder ::
  "(string \<Rightarrow> string) \<Rightarrow> (string \<Rightarrow> string option) \<Rightarrow> translator option \<Rightarrow> adapter_config \<Rightarrow> string list \<Rightarrow> hardware_caps \<Rightarrow> bool \<Rightarrow> string" where
  "ResolveTargetEncoder mux dvc tr cfg args hc autoHW =
     (if rewrite_skipped cfg args hc then [] else ers_target (Rewrite mux dvc tr (adapter_request args hc autoHW)))"

definition ShouldRewrite :: "adapter_config \<Rightarrow> string list \<Rightarrow> hardware_caps option \<Rightarrow> bool \<Rightarrow> bool" where
  "ShouldRewrite cfg args hwCaps autoHW \<longleftrightarrow>
     (let enc = extractEncoderFromArgsWithCaps args hwCaps
      in if \<not> ac_enabled cfg \<or> HasNoVideoOutput args \<or> HasInlineVideoEncoderSyntax args then False
         else if enc = [] then True
         else if isPassthroughEncoder enc then False
         else case hwCaps of
                None \<Rightarrow> False
              | Some hc \<Rightarrow> \<not> caps_HasEncoder hc enc \<or> (autoHW \<and> HasHardwareEncoder hc \<and> \<not> IsHardware enc))"

end
