(* ===== verification/RewriteGuarantees.thy ===== *)
theory RewriteGuarantees
  imports RewriteAdapter
begin

section \<open>What the rewriter guarantees\<close>

text \<open>
  Commands are taken apart into words and options with their value; on those every scan of the rewriter sees the same parts, so that
  the encoder a rewritten command selects can be read off.
\<close>

subsection \<open>The parts of a command\<close>

datatype arg_part = Plain string | Valued string string

fun part_args :: "arg_part \<Rightarrow> string list" where
  "part_args (Plain s) = [s]"
| "part_args (Valued a v) = [a, v]"

definition command :: "arg_part list \<Rightarrow> string list" where
  "command parts = concat (map part_args parts)"

lemma command_simps [simp]:
  "command [] = []" "command (Plain s # ps) = s # command ps" "command (Valued a v # ps) = a # v # command ps"
  "command (ps @ qs) = command ps @ command qs"
  by (simp_all add: command_def)

text \<open>Words, inputs, outputs and options without a value stand alone; every other option has a value that does not begin with a dash.\<close>

fun part_ok :: "arg_part \<Rightarrow> bool" where
  "part_ok (Plain s) \<longleftrightarrow> s \<noteq> ''--'' \<and> (\<not> HasPrefix s ''-'' \<or> s = ''-'' \<or> IsBoolean s)"
| "part_ok (Valued a v) \<longleftrightarrow> HasPrefix a ''-'' \<and> a \<noteq> ''-'' \<and> a \<noteq> ''--'' \<and> \<not> IsBoolean a \<and> is_value v"

lemma HasPrefix_dash: "HasPrefix a ''-'' \<longleftrightarrow> (\<exists>n. a = CHR ''-'' # n)"
  by (cases a) (auto simp: HasPrefix_def)

lemma TrimPrefix_dash [simp]: "TrimPrefix (CHR ''-'' # n) ''-'' = n"
  by (simp add: TrimPrefix_def HasPrefix_def)

lemma before_idem [simp]: "before c (before c s) = before c s"
  by (simp add: before_def takeWhile_idem)

lemma IsBoolean_before: "CHR ''='' \<notin> set n \<Longrightarrow> IsBoolean (CHR ''-'' # before (CHR '':'') n) = IsBoolean (CHR ''-'' # n)"
proof -
  assume eq: "CHR ''='' \<notin> set n"
  then have "CHR ''='' \<notin> set (before (CHR '':'') n)" by (auto simp: before_def dest: set_takeWhileD)
  then show ?thesis using eq by (simp add: IsBoolean_def Let_def)
qed

lemma flag_name_no_boolean: "is_flag_name a \<Longrightarrow> \<not> IsBoolean a \<and> a \<noteq> ''-'' \<and> HasPrefix a ''-''"
proof -
  assume "is_flag_name a"
  then obtain n where n: "a = CHR ''-'' # n" "n \<noteq> []" "CHR ''='' \<notin> set n" "videoEncoderFlagName n \<noteq> None"
    by (cases a; cases "tl a") (auto simp: is_flag_name_def)
  have names: "before (CHR '':'') n \<in> {''vcodec'', ''c'', ''codec''}"
    using n(4) by (auto simp: videoEncoderFlagName_def before_def HasPrefix_def prefix_def split: if_splits)
  have "list_all (\<lambda>b. \<not> IsBoolean (CHR ''-'' # b)) [''vcodec'', ''c'', ''codec'']" by code_simp
  then have "\<not> IsBoolean (CHR ''-'' # n)" using names IsBoolean_before [OF n(3)] by auto
  then show ?thesis using n by (auto simp: HasPrefix_def)
qed

lemma plain_no_flag: "part_ok (Plain s) \<Longrightarrow> flag_here hwCaps i s rest = None \<and> \<not> is_flag_name s"
proof -
  assume "part_ok (Plain s)"
  then have "\<not> is_flag_name s" using flag_name_no_boolean [of s] by auto
  then show ?thesis using flag_here_name by simp
qed

lemma command_flags_append:
  assumes "list_all part_ok ps"
  shows "parse_flags hwCaps i (command ps @ rest) = parse_flags hwCaps i (command ps) @ parse_flags hwCaps (i + length (command ps)) rest"
  using assms
proof (induction ps arbitrary: i)
  case (Cons p ps)
  show ?case
  proof (cases p)
    case (Plain s)
    then show ?thesis using Cons plain_no_flag [of s hwCaps i] by simp
  next
    case (Valued a v)
    have v: "flag_here hwCaps (Suc i) v xs = None" "v \<noteq> ''--''" for xs
      using Cons(2) Valued is_value_flag [of v] flag_here_name by auto
    have "flag_here hwCaps i a (v # command ps @ rest) = flag_here hwCaps i a (v # command ps)" by (rule flag_here_next)
    then show ?thesis using Cons Valued v by (auto split: option.split)
  qed
qed simp

text \<open>The encoder options among the parts, without their index.\<close>

definition part_flags :: "hardware_caps option \<Rightarrow> arg_part list \<Rightarrow> video_flag list" where
  "part_flags hwCaps ps = map strip (parse_flags hwCaps 0 (command ps))"

lemma parse_flags_strip:
  assumes "list_all part_ok ps"
  shows "map strip (parse_flags hwCaps i (command ps)) = part_flags hwCaps ps"
proof -
  have "map strip (parse_flags hwCaps i (command ps)) = map strip (parse_flags hwCaps k (command ps))" for k
    using assms
  proof (induction ps arbitrary: i k)
    case (Cons p ps)
    show ?case
    proof (cases p)
      case (Plain s)
      then show ?thesis using Cons plain_no_flag [of s] by simp
    next
      case (Valued a v)
      have v: "flag_here hwCaps j v xs = None" "v \<noteq> ''--''" for xs j
        using Cons(2) Valued is_value_flag [of v] flag_here_name by auto
      have "map_option strip (flag_here hwCaps i a (v # command ps)) = map_option strip (flag_here hwCaps k a (v # command ps))"
        by (rule flag_here_strip)
      then show ?thesis using Cons Valued v by (auto split: option.split)
    qed
  qed simp
  then show ?thesis by (simp add: part_flags_def)
qed

lemma part_flags_append: "list_all part_ok ps \<Longrightarrow> list_all part_ok qs \<Longrightarrow> part_flags hwCaps (ps @ qs) = part_flags hwCaps ps @ part_flags hwCaps qs"
  using command_flags_append [of ps hwCaps 0 "command qs"] parse_flags_strip [of qs] by (simp add: part_flags_def)

lemma part_flags_Plain: "part_ok (Plain s) \<Longrightarrow> part_flags hwCaps [Plain s] = []"
  using plain_no_flag [of s hwCaps 0 "[]"] by (simp add: part_flags_def)

lemma part_flags_Valued: "part_ok (Valued a v) \<Longrightarrow> part_flags hwCaps [Valued a v] = map strip (case flag_here hwCaps 0 a [v] of None \<Rightarrow> [] | Some f \<Rightarrow> [f])"
  using is_value_flag [of v] flag_here_name [of v] by (auto simp: part_flags_def split: option.split)

subsection \<open>Inserting before the output\<close>

definition is_plain :: "arg_part \<Rightarrow> bool" where
  "is_plain p \<longleftrightarrow> (case p of Plain s \<Rightarrow> True | _ \<Rightarrow> False)"

lemma output_pos_parts:
  "list_all part_ok ps \<Longrightarrow> list_all (\<lambda>p. \<not> is_plain p) ps \<Longrightarrow> output_pos False i out (command ps) = out"
  "list_all part_ok (ps @ Plain s # qs) \<Longrightarrow> list_all (\<lambda>p. \<not> is_plain p) qs \<Longrightarrow>
     output_pos False i out (command (ps @ Plain s # qs)) = int (i + length (command ps))"
proof -
  have pairs: "list_all part_ok ps \<Longrightarrow> list_all (\<lambda>p. \<not> is_plain p) ps \<Longrightarrow> output_pos False i out (command ps) = out" for ps i out
    by (induction ps arbitrary: i) (auto simp: is_plain_def isBooleanFlagArg_def split: arg_part.splits)
  show "list_all part_ok ps \<Longrightarrow> list_all (\<lambda>p. \<not> is_plain p) ps \<Longrightarrow> output_pos False i out (command ps) = out" by (rule pairs)
  show "list_all part_ok (ps @ Plain s # qs) \<Longrightarrow> list_all (\<lambda>p. \<not> is_plain p) qs \<Longrightarrow>
     output_pos False i out (command (ps @ Plain s # qs)) = int (i + length (command ps))"
  proof (induction ps arbitrary: i out)
    case Nil
    then show ?case using pairs [of qs "Suc i" "int i"] by (auto simp: isBooleanFlagArg_def)
  next
    case (Cons p ps)
    then show ?case by (cases p) (auto simp: isBooleanFlagArg_def)
  qed
qed

lemma insert_parts:
  assumes "list_all part_ok ps"
  shows "\<exists>xs ys. ps = xs @ ys \<and> insertBeforeOutputPath (command ps) ins = command xs @ ins @ command ys \<and>
    (ps \<noteq> [] \<and> is_plain (last ps) \<longrightarrow> ys = [last ps])"
proof (cases "list_all (\<lambda>p. \<not> is_plain p) ps")
  case True
  then have "insertBeforeOutputPath (command ps) ins = command ps @ ins @ command []"
    using output_pos_parts(1) [OF assms] by (simp add: insertBeforeOutputPath_def findOutputFilePos_def)
  moreover have "\<not> (ps \<noteq> [] \<and> is_plain (last ps))" using True by (auto simp: list_all_iff)
  ultimately show ?thesis by (intro exI [of _ ps] exI [of _ "[]"]) simp
next
  case False
  then obtain xs p qs where p: "ps = xs @ p # qs" "is_plain p" "list_all (\<lambda>p. \<not> is_plain p) qs"
    using split_list_last_prop [of ps is_plain] by (auto simp: list_all_iff)
  then obtain s where s: "p = Plain s" by (auto simp: is_plain_def split: arg_part.splits)
  have "findOutputFilePos (command ps) = int (length (command xs))"
    using output_pos_parts(2) [of xs s qs 0 "- 1"] assms p s by (simp add: findOutputFilePos_def)
  then have "insertBeforeOutputPath (command ps) ins = command xs @ ins @ command (p # qs)"
    using p s by (simp add: insertBeforeOutputPath_def)
  moreover have "qs = []" if "is_plain (last ps)"
  proof (cases qs rule: rev_cases)
    case (snoc rs q)
    then have "last ps = q" "\<not> is_plain q" using p(1,3) by simp_all
    then show ?thesis using that by simp
  qed
  moreover have "last ps = p" if "qs = []" using p(1) that by simp
  ultimately show ?thesis using p(1) by blast
qed

subsection \<open>The copying loop\<close>

text \<open>Names the translator may give: of options that take a value and select no encoder.\<close>

definition key_ok :: "string \<Rightarrow> bool" where
  "key_ok k \<longleftrightarrow> k \<noteq> [] \<and> k \<noteq> ''-'' \<and> \<not> IsBoolean (CHR ''-'' # k) \<and> \<not> is_flag_name (CHR ''-'' # k)"

definition updated :: "video_flag option \<Rightarrow> string \<Rightarrow> video_flag \<Rightarrow> video_flag" where
  "updated primary target f = (case primary of Some p \<Rightarrow> if rewrite_primary primary target f then set_flag p target f else f | None \<Rightarrow> f)"

lemma lookup_key:
  assumes "lookup_param m (before (CHR ''='') n) (before (CHR '':'') (before (CHR ''='') n)) \<noteq> None" "list_all (key_ok \<circ> fst) m"
    "CHR ''='' \<notin> set n"
  shows "n \<noteq> []" "\<not> IsBoolean (CHR ''-'' # n)" "n \<notin> {''c'', ''codec''}"
proof -
  have n: "before (CHR ''='') n = n" using assms(3) by (auto simp: before_def takeWhile_eq_all_conv)
  then obtain k where k: "k \<in> {n, before (CHR '':'') n}" "key_ok k"
    using assms(1,2) by (force simp: lookup_param_def list_all_iff dest!: map_of_SomeD split: option.splits)
  then show "n \<noteq> []" by (auto simp: key_ok_def before_def)
  show "\<not> IsBoolean (CHR ''-'' # n)" using k IsBoolean_before [OF assms(3)] by (auto simp: key_ok_def)
  have "is_flag_name ''-c''" "is_flag_name ''-codec''" by code_simp+
  then show "n \<notin> {''c'', ''codec''}" using k by (auto simp: key_ok_def before_def)
qed

lemma valued_no_flag:
  assumes "flag_here hwCaps i (CHR ''-'' # n) (v # xs) = None" "is_value v" "n \<notin> {''c'', ''codec''}"
  shows "\<not> is_flag_name (CHR ''-'' # n)"
proof
  assume f: "is_flag_name (CHR ''-'' # n)"
  then obtain g sp where g: "videoEncoderFlagName n = Some (g, sp)" "CHR ''='' \<notin> set n" "n \<noteq> []" by (cases n) (auto simp: is_flag_name_def)
  then have "\<not> g" using assms(3) by (auto simp: videoEncoderFlagName_def split: if_splits)
  moreover have "v \<noteq> []" "v \<noteq> ''-''" "\<not> HasPrefix v ''-''" using assms(2) is_value_flag [of v] by (auto simp: is_value_def)
  ultimately show False using assms(1) g by (cases n) (auto simp: flag_here_def)
qed

lemma rewrite_loop_rules:
  fixes flags primary target params toFilter same
  defines "loop \<equiv> rewrite_loop flags primary target params toFilter same"
  assumes arg: "n \<noteq> ''-''" "List.find (\<lambda>f. vf_index f = i) flags = None"
  defines "full \<equiv> before (CHR ''='') n" and "base \<equiv> before (CHR '':'') (before (CHR ''='') n)"
  shows "lookup_param toFilter full base \<noteq> None \<Longrightarrow> CHR ''='' \<in> set n \<Longrightarrow>
      fst (loop i seen ((CHR ''-'' # n) # args)) = fst (loop (Suc i) (full # base # seen) args)"
    "lookup_param toFilter full base \<noteq> None \<Longrightarrow> CHR ''='' \<notin> set n \<Longrightarrow>
      fst (loop i seen ((CHR ''-'' # n) # v # args)) = fst (loop (Suc (Suc i)) (full # base # seen) args)"
    "lookup_param toFilter full base = None \<Longrightarrow> lookup_param same full base = Some c \<Longrightarrow> CHR ''='' \<in> set n \<Longrightarrow>
      fst (loop i seen ((CHR ''-'' # n) # args)) = (CHR ''-'' # n) # fst (loop (Suc i) (full # base # seen) args)"
    "lookup_param toFilter full base = None \<Longrightarrow> lookup_param same full base = Some c \<Longrightarrow> CHR ''='' \<notin> set n \<Longrightarrow>
      fst (loop i seen ((CHR ''-'' # n) # v # args)) = (CHR ''-'' # n) # c # fst (loop (Suc (Suc i)) (full # base # seen) args)"
    "lookup_param toFilter full base = None \<Longrightarrow> lookup_param same full base = None \<Longrightarrow>
      \<exists>seen'. fst (loop i seen ((CHR ''-'' # n) # args)) = (CHR ''-'' # n) # fst (loop (Suc i) seen' args)"
proof -
  have dash: "HasPrefix (CHR ''-'' # n) ''-''" by (simp add: HasPrefix_def)
  have empty: "lookup_param [] full base = None" by (simp add: lookup_param_def)
  note step = rewrite_loop.simps(2) [of flags primary target params toFilter same i seen "CHR ''-'' # n"]
  show "lookup_param toFilter full base \<noteq> None \<Longrightarrow> CHR ''='' \<in> set n \<Longrightarrow>
      fst (loop i seen ((CHR ''-'' # n) # args)) = fst (loop (Suc i) (full # base # seen) args)"
    using arg dash empty unfolding step loop_def full_def base_def by (cases args) (auto simp: Let_def)
  show "lookup_param toFilter full base \<noteq> None \<Longrightarrow> CHR ''='' \<notin> set n \<Longrightarrow>
      fst (loop i seen ((CHR ''-'' # n) # v # args)) = fst (loop (Suc (Suc i)) (full # base # seen) args)"
    using arg dash empty unfolding step loop_def full_def base_def by (auto simp: Let_def)
  show "lookup_param toFilter full base = None \<Longrightarrow> lookup_param same full base = Some c \<Longrightarrow> CHR ''='' \<in> set n \<Longrightarrow>
      fst (loop i seen ((CHR ''-'' # n) # args)) = (CHR ''-'' # n) # fst (loop (Suc i) (full # base # seen) args)"
    using arg dash empty unfolding step loop_def full_def base_def by (auto simp: Let_def)
  show "lookup_param toFilter full base = None \<Longrightarrow> lookup_param same full base = Some c \<Longrightarrow> CHR ''='' \<notin> set n \<Longrightarrow>
      fst (loop i seen ((CHR ''-'' # n) # v # args)) = (CHR ''-'' # n) # c # fst (loop (Suc (Suc i)) (full # base # seen) args)"
    using arg dash empty unfolding step loop_def full_def base_def by (auto simp: Let_def)
  show "lookup_param toFilter full base = None \<Longrightarrow> lookup_param same full base = None \<Longrightarrow>
      \<exists>seen'. fst (loop i seen ((CHR ''-'' # n) # args)) = (CHR ''-'' # n) # fst (loop (Suc i) seen' args)"
    using arg dash unfolding step loop_def full_def base_def by (cases "params = [] \<and> toFilter = [] \<and> same = []") (auto simp: Let_def)
qed

lemma command_Nil [simp]: "command qs = [] \<longleftrightarrow> qs = []" "[] = command qs \<longleftrightarrow> qs = []"
  by (cases qs; cases "hd qs"; auto)+

lemma rewrite_loop_parts:
  assumes "list_all part_ok ps" "\<And>j. i \<le> j \<Longrightarrow> List.find (\<lambda>f. vf_index f = j) flags = List.find (\<lambda>f. vf_index f = j) (parse_flags hwCaps i (command ps))"
    "list_all (key_ok \<circ> fst) toFilter" "list_all (key_ok \<circ> fst) same" "list_all (is_value \<circ> snd) same" "is_value target"
    "\<And>f. f \<in> set (parse_flags hwCaps i (command ps)) \<Longrightarrow> rewrite_primary primary target f \<Longrightarrow> primary = Some f"
  shows "\<exists>qs. fst (rewrite_loop flags primary target params toFilter same i seen (command ps)) = command qs \<and> list_all part_ok qs \<and>
    part_flags hwCaps qs = map (strip \<circ> updated primary target) (parse_flags hwCaps i (command ps)) \<and>
    (ps \<noteq> [] \<and> last ps = Plain s \<and> \<not> HasPrefix s ''-'' \<longrightarrow> qs \<noteq> [] \<and> last qs = Plain s)"
  using assms(1,2,7)
proof (induction ps arbitrary: i seen)
  case Nil
  then show ?case by (intro exI [of _ "[]"]) (simp add: part_flags_def)
next
  case (Cons p ps)
  show ?case
  proof (cases p)
    case (Plain t)
    have none: "flag_here hwCaps i t (command ps) = None" "t \<noteq> ''--''" using Cons.prems(1) Plain plain_no_flag by auto
    then have P: "parse_flags hwCaps i (command (p # ps)) = parse_flags hwCaps (Suc i) (command ps)" using Plain by simp
    have here: "List.find (\<lambda>f. vf_index f = i) flags = None"
      using Cons.prems(2) [of i] P parse_flags_index [of _ hwCaps "Suc i" "command ps"] by (fastforce simp: find_None_iff)
    have IH: "\<exists>qs. fst (rewrite_loop flags primary target params toFilter same (Suc i) seen (command ps)) = command qs \<and> list_all part_ok qs \<and>
      part_flags hwCaps qs = map (strip \<circ> updated primary target) (parse_flags hwCaps (Suc i) (command ps)) \<and>
      (ps \<noteq> [] \<and> last ps = Plain s \<and> \<not> HasPrefix s ''-'' \<longrightarrow> qs \<noteq> [] \<and> last qs = Plain s)" for seen
      by (rule Cons.IH) (use Cons.prems P in auto)
    have keep: ?thesis if "fst (rewrite_loop flags primary target params toFilter same i seen (command (p # ps))) =
        t # fst (rewrite_loop flags primary target params toFilter same (Suc i) seen' (command ps))" for seen'
    proof -
      obtain qs where qs: "fst (rewrite_loop flags primary target params toFilter same (Suc i) seen' (command ps)) = command qs" "list_all part_ok qs"
        "part_flags hwCaps qs = map (strip \<circ> updated primary target) (parse_flags hwCaps (Suc i) (command ps))"
        "ps \<noteq> [] \<and> last ps = Plain s \<and> \<not> HasPrefix s ''-'' \<longrightarrow> qs \<noteq> [] \<and> last qs = Plain s" using IH by blast
      have "part_flags hwCaps (Plain t # qs) = part_flags hwCaps qs"
        using part_flags_append [of "[Plain t]" qs] part_flags_Plain [of t] Cons.prems(1) Plain qs(2) by simp
      then show ?thesis using that qs P Plain Cons.prems(1) by (intro exI [of _ "Plain t # qs"]) auto
    qed
    have drop: ?thesis if "fst (rewrite_loop flags primary target params toFilter same i seen (command (p # ps))) =
        fst (rewrite_loop flags primary target params toFilter same (Suc i) seen' (command ps))" "HasPrefix t ''-''" for seen'
    proof -
      obtain qs where "fst (rewrite_loop flags primary target params toFilter same (Suc i) seen' (command ps)) = command qs" "list_all part_ok qs"
        "part_flags hwCaps qs = map (strip \<circ> updated primary target) (parse_flags hwCaps (Suc i) (command ps))"
        "ps \<noteq> [] \<and> last ps = Plain s \<and> \<not> HasPrefix s ''-'' \<longrightarrow> qs \<noteq> [] \<and> last qs = Plain s" using IH by blast
      then show ?thesis using that P Plain by (intro exI [of _ qs]) auto
    qed
    show ?thesis
    proof (cases "HasPrefix t ''-''")
      case False
      then show ?thesis using none Plain by (intro keep [of seen]) (simp add: rewrite_loop.simps)
    next
      case True
      then obtain n where n: "t = CHR ''-'' # n" by (auto simp: HasPrefix_dash)
      let ?full = "before (CHR ''='') n"
      let ?base = "before (CHR '':'') ?full"
      have nd: "n \<noteq> ''-''" using none(2) n by simp
      note rules = rewrite_loop_rules [OF nd here]
      have boolean: "n = [] \<or> IsBoolean t" using Cons.prems(1) Plain True n by auto
      have inline: "CHR ''='' \<in> set n" if "lookup_param m ?full ?base \<noteq> None" "list_all (key_ok \<circ> fst) m" for m
        using lookup_key [OF that] boolean n by auto
      show ?thesis
      proof (cases "lookup_param toFilter ?full ?base")
        case (Some x)
        then show ?thesis
          using drop [of "?full # ?base # seen"] rules(1) [of toFilter] inline [of toFilter] assms(3) True n Plain by simp
      next
        case filter: None
        show ?thesis
        proof (cases "lookup_param same ?full ?base")
          case (Some x)
          then show ?thesis
            using keep [of "?full # ?base # seen"] rules(3) [OF filter Some] inline [of same] assms(4) n Plain by simp
        next
          case None
          then show ?thesis using keep rules(5) [OF filter None, of primary target params seen "command ps"] n Plain by auto
        qed
      qed
    qed
  next
    case (Valued a v)
    then have ok: "part_ok (Valued a v)" using Cons.prems(1) by simp
    obtain n where n: "a = CHR ''-'' # n" "a \<noteq> ''--''" "HasPrefix a ''-''" using ok by (auto simp: HasPrefix_dash)
    have v: "flag_here hwCaps j v xs = None" "v \<noteq> ''--''" "is_value v" for xs j using ok is_value_flag [of v] flag_here_name by auto
    have P: "parse_flags hwCaps i (command (p # ps)) =
        (case flag_here hwCaps i a (v # command ps) of None \<Rightarrow> [] | Some f \<Rightarrow> [f]) @ parse_flags hwCaps (Suc (Suc i)) (command ps)"
      using Valued n v by (simp split: option.split)
    have here: "List.find (\<lambda>f. vf_index f = i) flags = flag_here hwCaps i a (v # command ps)"
      using Cons.prems(2) [of i] find_flag_head [OF n(2)] Valued by (simp del: parse_flags.simps)
    have later: "List.find (\<lambda>f. vf_index f = j) flags = List.find (\<lambda>f. vf_index f = j) (parse_flags hwCaps (Suc (Suc i)) (command ps))"
      if "Suc (Suc i) \<le> j" for j
      using Cons.prems(2) [of j] that P by (auto split: option.splits dest!: flag_hereD)
    have IH: "\<exists>qs. fst (rewrite_loop flags primary target params toFilter same (Suc (Suc i)) seen (command ps)) = command qs \<and> list_all part_ok qs \<and>
      part_flags hwCaps qs = map (strip \<circ> updated primary target) (parse_flags hwCaps (Suc (Suc i)) (command ps)) \<and>
      (ps \<noteq> [] \<and> last ps = Plain s \<and> \<not> HasPrefix s ''-'' \<longrightarrow> qs \<noteq> [] \<and> last qs = Plain s)" for seen
      by (rule Cons.IH) (use Cons.prems P later in auto)
    have keep: ?thesis
      if "fst (rewrite_loop flags primary target params toFilter same i seen (command (p # ps))) =
          b # u # fst (rewrite_loop flags primary target params toFilter same (Suc (Suc i)) seen' (command ps))" "part_ok (Valued b u)"
        "part_flags hwCaps [Valued b u] =
           map (strip \<circ> updated primary target) (case flag_here hwCaps i a (v # command ps) of None \<Rightarrow> [] | Some f \<Rightarrow> [f])" for seen' b u
    proof -
      obtain qs where qs: "fst (rewrite_loop flags primary target params toFilter same (Suc (Suc i)) seen' (command ps)) = command qs" "list_all part_ok qs"
        "part_flags hwCaps qs = map (strip \<circ> updated primary target) (parse_flags hwCaps (Suc (Suc i)) (command ps))"
        "ps \<noteq> [] \<and> last ps = Plain s \<and> \<not> HasPrefix s ''-'' \<longrightarrow> qs \<noteq> [] \<and> last qs = Plain s" using IH by blast
      have "part_flags hwCaps (Valued b u # qs) = part_flags hwCaps [Valued b u] @ part_flags hwCaps qs"
        using part_flags_append [of "[Valued b u]" qs] that(2) qs(2) by simp
      then show ?thesis using that qs P Valued by (intro exI [of _ "Valued b u # qs"]) auto
    qed
    have same_flags: "part_flags hwCaps [Valued a v] =
        map strip (case flag_here hwCaps i a (v # command ps) of None \<Rightarrow> [] | Some f \<Rightarrow> [f])"
      using part_flags_Valued [OF ok, of hwCaps] flag_here_strip [of hwCaps 0 a v "[]" i "command ps"]
      by (cases "flag_here hwCaps 0 a [v]"; cases "flag_here hwCaps i a (v # command ps)") simp_all
    show ?thesis
    proof (cases "flag_here hwCaps i a (v # command ps)")
      case (Some f)
      have idx: "vf_index f = i" and name: "a = CHR ''-'' # vf_name f" "v = vf_value f" using flag_hereD [OF Some] by auto
      have loop: "fst (rewrite_loop flags primary target params toFilter same i seen (command (p # ps))) =
          (if rewrite_primary primary target f then RewrittenTokens f target else [a, v]) @
            fst (rewrite_loop flags primary target params toFilter same (Suc (Suc i)) seen (command ps))"
        using n here Some Valued by (simp add: rewrite_loop.simps)
      show ?thesis
      proof (cases "rewrite_primary primary target f")
        case True
        have "f \<in> set (parse_flags hwCaps i (command (p # ps)))" using P Some by simp
        then have prim: "primary = Some f" using Cons.prems(3) True by blast
        have put: "flag_here hwCaps i (CHR ''-'' # kept_name f) [target] = Some (set_flag f target f)"
          by (rule flag_here_put [OF Some]) (use assms(6) in \<open>simp_all add: is_value_def\<close>)
        have name_flag: "is_flag_name (CHR ''-'' # kept_name f)" using flag_here_name put by fastforce
        have ok': "part_ok (Valued (CHR ''-'' # kept_name f) target)"
          using flag_name_no_boolean [OF name_flag] flag_hereD [OF put] assms(6) by auto
        have "map_option strip (flag_here hwCaps 0 (CHR ''-'' # kept_name f) [target]) = Some (strip (set_flag f target f))"
          using flag_here_strip [of hwCaps 0 "CHR ''-'' # kept_name f" target "[]" i "[]"] put by simp
        then have "part_flags hwCaps [Valued (CHR ''-'' # kept_name f) target] = [strip (set_flag f target f)]"
          using part_flags_Valued [OF ok', of hwCaps] by (auto split: option.splits)
        then show ?thesis
          using loop True prim Some ok' by (intro keep [of "CHR ''-'' # kept_name f" target seen]) (simp_all add: RewrittenTokens_eq updated_def)
      next
        case False
        then have "updated primary target f = f" by (cases primary) (simp_all add: updated_def)
        then show ?thesis using loop ok same_flags Some False by (intro keep [of a v seen]) simp_all
      qed
    next
      case None
      have here': "List.find (\<lambda>f. vf_index f = i) flags = None" using here None by simp
      have nd: "n \<noteq> ''-''" using n by simp
      note rules = rewrite_loop_rules [OF nd here']
      have value_opt: "CHR ''='' \<notin> set n" using ok n(1) by (auto simp: IsBoolean_def)
      let ?full = "before (CHR ''='') n"
      let ?base = "before (CHR '':'') ?full"
      show ?thesis
      proof (cases "lookup_param toFilter ?full ?base")
        case (Some x)
        obtain qs where "fst (rewrite_loop flags primary target params toFilter same (Suc (Suc i)) (?full # ?base # seen) (command ps)) = command qs"
          "list_all part_ok qs" "part_flags hwCaps qs = map (strip \<circ> updated primary target) (parse_flags hwCaps (Suc (Suc i)) (command ps))"
          "ps \<noteq> [] \<and> last ps = Plain s \<and> \<not> HasPrefix s ''-'' \<longrightarrow> qs \<noteq> [] \<and> last qs = Plain s" using IH by blast
        then show ?thesis using rules(2) [of toFilter] Some value_opt n Valued P None by (intro exI [of _ qs]) auto
      next
        case filter: None
        show ?thesis
        proof (cases "lookup_param same ?full ?base")
          case (Some c)
          have "is_value c" using Some assms(5) by (auto simp: lookup_param_def list_all_iff dest!: map_of_SomeD split: option.splits)
          then have ok': "part_ok (Valued a c)" using ok by simp
          have "n \<notin> {''c'', ''codec''}" using lookup_key(3) [of same n] Some assms(4) value_opt by simp
          then have "\<not> is_flag_name a" using valued_no_flag [of hwCaps i n v] None v(3) n(1) by simp
          then have "part_flags hwCaps [Valued a c] = []" using part_flags_Valued [OF ok', of hwCaps] flag_here_name by simp
          then show ?thesis using rules(4) [OF filter Some value_opt, of primary target params seen v "command ps"] ok' None n Valued
            by (intro keep [of a c "?full # ?base # seen"]) simp_all
        next
          case none: None
          obtain seen1 where one: "fst (rewrite_loop flags primary target params toFilter same i seen (a # v # command ps)) =
              a # fst (rewrite_loop flags primary target params toFilter same (Suc i) seen1 (v # command ps))"
            using rules(5) [OF filter none] n by blast
          have "\<not> HasPrefix v ''-''" using is_value_flag [OF v(3)] by simp
          then have "fst (rewrite_loop flags primary target params toFilter same (Suc i) seen1 (v # command ps)) =
              v # fst (rewrite_loop flags primary target params toFilter same (Suc (Suc i)) seen1 (command ps))"
            using v(2) by (simp add: rewrite_loop.simps)
          then show ?thesis using one ok same_flags None Valued by (intro keep [of a v seen1]) simp_all
        qed
      qed
    qed
  qed
qed

subsection \<open>The rewritten command\<close>

definition param_ok :: "string \<times> string \<Rightarrow> bool" where
  "param_ok p \<longleftrightarrow> key_ok (fst p) \<and> (is_value (snd p) \<or> snd p = [] \<and> \<not> isGlobalInitParam (fst p))"

lemma key_part: "key_ok k \<Longrightarrow> is_value v \<Longrightarrow> part_ok (Valued (CHR ''-'' # k) v) \<and> part_flags hwCaps [Valued (CHR ''-'' # k) v] = []"
proof -
  assume k: "key_ok k" "is_value v"
  then have "part_ok (Valued (CHR ''-'' # k) v)" by (auto simp: key_ok_def HasPrefix_def)
  then show ?thesis using part_flags_Valued [of "CHR ''-'' # k" v hwCaps] flag_here_name k by (simp add: key_ok_def)
qed

lemma key_parts:
  assumes "list_all (\<lambda>(k, v). key_ok k \<and> is_value v) kvs"
  defines "ps \<equiv> map (\<lambda>(k, v). Valued (CHR ''-'' # k) v) kvs"
  shows "list_all part_ok ps \<and> part_flags hwCaps ps = [] \<and> command ps = concat (map (\<lambda>(k, v). [CHR ''-'' # k, v]) kvs)"
  using assms(1) unfolding ps_def
proof (induction kvs)
  case Nil
  then show ?case by (simp add: part_flags_def)
next
  case (Cons kv kvs)
  obtain k v where kv: "kv = (k, v)" by fastforce
  let ?qs = "map (\<lambda>(k, v). Valued (CHR ''-'' # k) v) kvs"
  have "list_all part_ok ?qs \<and> part_flags hwCaps ?qs = []" "key_ok k" "is_value v" using Cons kv by auto
  then show ?case using part_flags_append [of "[Valued (CHR ''-'' # k) v]" ?qs hwCaps] key_part [of k v] kv Cons by simp
qed

lemma extract_parts:
  assumes "list_all part_ok ps" "map strip fs = part_flags hwCaps ps"
  shows "extractEncoderFromArgsWithCaps (command ps) hwCaps = (case PrimaryVideoEncoderFlag fs of None \<Rightarrow> [] | Some f \<Rightarrow> vf_value f)"
proof -
  have "map strip (ParseVideoEncoderFlags (command ps) hwCaps) = map strip fs"
    using assms by (simp add: ParseVideoEncoderFlags_def part_flags_def)
  from Primary_strip [OF this] show ?thesis
    by (auto simp: extractEncoderFromArgsWithCaps_def split: option.splits)
qed

lemma insert_no_flags:
  assumes "list_all part_ok ps" "list_all part_ok ns"
  obtains qs where "insertBeforeOutputPath (command ps) (command ns) = command qs" "list_all part_ok qs"
    "part_flags hwCaps ns = [] \<Longrightarrow> part_flags hwCaps qs = part_flags hwCaps ps" "part_flags hwCaps ps = [] \<Longrightarrow> part_flags hwCaps qs = part_flags hwCaps ns"
    "ps \<noteq> [] \<and> is_plain (last ps) \<Longrightarrow> qs \<noteq> [] \<and> last qs = last ps"
proof -
  obtain xs ys where xy: "ps = xs @ ys" "insertBeforeOutputPath (command ps) (command ns) = command xs @ command ns @ command ys"
    "ps \<noteq> [] \<and> is_plain (last ps) \<longrightarrow> ys = [last ps]" using insert_parts [OF assms(1)] by blast
  have ok: "list_all part_ok xs" "list_all part_ok ys" using assms(1) xy(1) by simp_all
  have flags: "part_flags hwCaps (xs @ ns @ ys) = part_flags hwCaps xs @ part_flags hwCaps ns @ part_flags hwCaps ys"
    "part_flags hwCaps ps = part_flags hwCaps xs @ part_flags hwCaps ys"
    using part_flags_append ok assms(2) xy(1) by simp_all
  show ?thesis
  proof (rule that [of "xs @ ns @ ys"])
    show "insertBeforeOutputPath (command ps) (command ns) = command (xs @ ns @ ys)" using xy(2) by simp
    show "list_all part_ok (xs @ ns @ ys)" using ok assms(2) by simp
    show "part_flags hwCaps ns = [] \<Longrightarrow> part_flags hwCaps (xs @ ns @ ys) = part_flags hwCaps ps" using flags by simp
    show "part_flags hwCaps ps = [] \<Longrightarrow> part_flags hwCaps (xs @ ns @ ys) = part_flags hwCaps ns" using flags by simp
    assume "ps \<noteq> [] \<and> is_plain (last ps)"
    then have "ys = [last ps]" using xy(3) by blast
    then show "xs @ ns @ ys \<noteq> [] \<and> last (xs @ ns @ ys) = last ps" by simp
  qed
qed

lemma global_parts:
  fixes orig :: "string list"
  assumes "list_all param_ok params"
  defines "args \<equiv> concat (map (\<lambda>p. case map_of params p of Some v \<Rightarrow> if \<not> hasGlobalParam orig p then [CHR ''-'' # p, v] else [] | None \<Rightarrow> []) globalInitParamNames)"
  obtains gs where "args = command gs" "list_all part_ok gs" "part_flags hwCaps gs = []"
proof -
  let ?kvs = "map (\<lambda>p. (p, the (map_of params p))) (filter (\<lambda>p. map_of params p \<noteq> None \<and> \<not> hasGlobalParam orig p) globalInitParamNames)"
  have ok: "key_ok p \<and> is_value v" if "p \<in> set globalInitParamNames" "map_of params p = Some v" for p v
    using assms(1) map_of_SomeD [OF that(2)] that(1) by (auto simp: list_all_iff param_ok_def isGlobalInitParam_def)
  have "list_all (\<lambda>(k, v). key_ok k \<and> is_value v) ?kvs"
    unfolding list_all_iff
  proof
    fix kv assume "kv \<in> set ?kvs"
    then obtain p v where "p \<in> set globalInitParamNames" "map_of params p = Some v" "kv = (p, v)" by auto
    then show "case kv of (k, v) \<Rightarrow> key_ok k \<and> is_value v" using ok by simp
  qed
  note parts = key_parts [OF this, of hwCaps]
  have "concat (map (\<lambda>p. case map_of params p of Some v \<Rightarrow> if \<not> hasGlobalParam orig p then [CHR ''-'' # p, v] else [] | None \<Rightarrow> []) names) =
      concat (map (\<lambda>(k, v). [CHR ''-'' # k, v]) (map (\<lambda>p. (p, the (map_of params p)))
        (filter (\<lambda>p. map_of params p \<noteq> None \<and> \<not> hasGlobalParam orig p) names)))" for names
    by (induction names) (auto split: option.split)
  then have "args = concat (map (\<lambda>(k, v). [CHR ''-'' # k, v]) ?kvs)" unfolding args_def .
  also have "\<dots> = command (map (\<lambda>(k, v). Valued (CHR ''-'' # k) v) ?kvs)" using parts by simp
  finally show ?thesis using parts that by blast
qed



text \<open>An option without a value after the output is taken for it: what is inserted then follows the output, where ffmpeg ignores it.\<close>

lemma trailing_flag_hides_output:
  "buildRewrittenArgs [''-i'', ''a.mkv'', ''o.webm'', ''-y''] ''vp9_qsv'' [] [] [] empty_caps =
     [''-i'', ''a.mkv'', ''o.webm'', ''-c:v'', ''vp9_qsv'', ''-y'']"
  by code_simp

text \<open>After the separator the options land among the outputs.\<close>

lemma separator_hides_output:
  "buildRewrittenArgs [''-i'', ''a.mkv'', ''--'', ''o.webm''] ''vp9_qsv'' [] [] [] empty_caps =
     [''-i'', ''a.mkv'', ''--'', ''o.webm'', ''-c:v'', ''vp9_qsv'']"
  by code_simp

subsection \<open>The target\<close>

lemma converted_available:
  "set (hc_hardware (convertCapabilities (Some c))) \<subseteq> ei_name ` set (wc_video_encoders c)"
  "set (hc_software (convertCapabilities (Some c))) \<subseteq> ei_name ` set (wc_video_encoders c)"
  "caps_HasEncoder (convertCapabilities (Some c)) e \<longleftrightarrow> e \<in> ei_name ` set (wc_video_encoders c)"
  by (auto simp: convertCapabilities_def caps_HasEncoder_def Let_def)

lemma GetBest_available:
  "GetBestHardwareEncoder (convertCapabilities (Some c)) codec \<noteq> [] \<Longrightarrow>
     GetBestHardwareEncoder (convertCapabilities (Some c)) codec \<in> ei_name ` set (wc_video_encoders c)"
  using converted_available(1) [of c] converted_available(3) [of c]
  by (auto simp: GetBestHardwareEncoder_def dest!: find_SomeD split: option.splits)

lemma GetSoftware_available:
  "GetSoftwareEncoder (convertCapabilities (Some c)) codec \<noteq> [] \<Longrightarrow>
     GetSoftwareEncoder (convertCapabilities (Some c)) codec \<in> ei_name ` set (wc_video_encoders c)"
  using converted_available(2) [of c] by (auto simp: GetSoftwareEncoder_def dest!: find_SomeD split: option.splits)

lemma softwareTarget_codec: "softwareTarget hc codec \<noteq> [] \<Longrightarrow> CodecFormat (softwareTarget hc codec) = codec"
  using GetSoftwareEncoder_codec [of hc codec] SoftwareEncoderForCodec_codec [of codec] by (simp add: softwareTarget_def split: if_splits)

lemma translate_step_frame:
  assumes "translate_step tr info req target resp = (resp', ps, toFilter, same, report)"
  shows "ers_target resp' = ers_target resp" "ers_container resp' = ers_container resp" "ers_errors resp' = ers_errors resp"
  using assms by (auto simp: translate_step_def Let_def split: option.splits prod.splits if_splits)

lemma apply_target_frame:
  "ers_target (apply_target tr req scenario target fmt resp) = target \<and> ers_container (apply_target tr req scenario target fmt resp) = fmt \<and>
   ers_errors (apply_target tr req scenario target fmt resp) = ers_errors resp"
proof -
  let ?resp = "resp\<lparr>ers_audit := ers_audit resp @ [engine_audit AuditOpEncoderSelect (erq_specified req) target
                   (''Selected encoder for scenario: '' @ scenario_String scenario)],
                   ers_original := erq_specified req, ers_target := target, ers_container := fmt\<rparr>"
  obtain resp' ps toFilter same report where t: "translate_step tr (GetScenarioInfo scenario) req target ?resp = (resp', ps, toFilter, same, report)"
    using prod_cases5 by blast
  note frame = translate_step_frame [OF t]
  show ?thesis unfolding apply_target_def Let_def t using frame by (simp split: prod.split)
qed


definition example_capabilities :: "(string \<times> bool) list \<Rightarrow> worker_capabilities" where
  "example_capabilities es = NewWorkerCapabilities []
     (map (\<lambda>(n, hw). \<lparr>ei_name = n, ei_description = [], ei_type = ''video'', ei_is_hw = hw, ei_priority = 0\<rparr>) es) [] [] 1 [] []"


text \<open>
  Two codecs the engine does not model count as one: with automatic hardware a ProRes encoder is replaced by a hardware encoder for
  Motion JPEG.
\<close>

lemma auto_hw_confuses_unknown_codecs:
  "ers_target (Rewrite (\<lambda>_. []) (\<lambda>_. None) None (adapter_request [''-i'', ''a'', ''-c:v'', ''prores_ks'', ''o.mov'']
     (convertCapabilities (Some (example_capabilities [(''prores_ks'', False), (''mjpeg_qsv'', True)]))) True)) = ''mjpeg_qsv''"
  by code_simp

text \<open>
  The prediction of the target agrees with the rewrite, so what is cached under it fits: it is the target the rewrite reports,
  and where there is none and no software fallback happened the arguments are run as they are.
\<close>

theorem resolved_target_is_rewritten:
  "ResolveTargetEncoder mux dvc tr cfg args hc autoHW = rz_target (fst (snd (RewriteArgs mux dvc tr cfg args hc autoHW))) \<and>
   (ResolveTargetEncoder mux dvc tr cfg args hc autoHW \<noteq> [] \<or> rz_fallback (fst (snd (RewriteArgs mux dvc tr cfg args hc autoHW))) \<or>
    fst (RewriteArgs mux dvc tr cfg args hc autoHW) = args)"
proof (cases "rewrite_skipped cfg args hc")
  case True
  then show ?thesis by (simp add: ResolveTargetEncoder_def RewriteArgs_def not_performed_def)
next
  case False
  let ?req = "adapter_request args hc autoHW"
  let ?resp = "Rewrite mux dvc tr ?req"
  have "erq_args ?req = args" by (simp add: adapter_request_def)
  then have untouched: "ers_target ?resp \<noteq> [] \<or> ers_errors ?resp \<noteq> [] \<or> ers_args ?resp = args"
    by (auto simp: Rewrite_def Let_def empty_response_def apply_target_frame split: option.split)
  show ?thesis
    using False untouched by (auto simp: ResolveTargetEncoder_def RewriteArgs_def Let_def split: list.split sum.split prod.split)
qed

theorem resolved_target_is_rewritten_witness:
  "fst (RewriteArgs (\<lambda>_. []) (\<lambda>_. None) None DefaultRewriteAdapterConfig [''-i'', ''a'', ''-vn'', ''o.mp3''] empty_caps True) =
     [''-i'', ''a'', ''-vn'', ''o.mp3'']"
proof -
  have "ResolveTargetEncoder (\<lambda>_. []) (\<lambda>_. None) None DefaultRewriteAdapterConfig [''-i'', ''a'', ''-vn'', ''o.mp3''] empty_caps True = []"
    "\<not> rz_fallback (fst (snd (RewriteArgs (\<lambda>_. []) (\<lambda>_. None) None DefaultRewriteAdapterConfig [''-i'', ''a'', ''-vn'', ''o.mp3''] empty_caps True)))"
    by code_simp+
  then show ?thesis
    using resolved_target_is_rewritten [of "\<lambda>_. []" "\<lambda>_. None" None DefaultRewriteAdapterConfig "[''-i'', ''a'', ''-vn'', ''o.mp3'']" empty_caps True]
    by blast
qed

end
