(* ===== verification/WorkerCache.thy ===== *)
theory WorkerCache
  imports BlobStore GoFormat "HOL-Library.AList"
begin

section \<open>The disk cache of a worker (pkg/worker/cache.go)\<close>

text \<open>
  Outputs of finished jobs, kept on disk under the hash of the request and evicted by age and by size. The directory is an association
  list of paths, in the order a walk visits them, which is arbitrary. \<open>env\<close> is the machine: the outcome of every system call, what a
  failed write leaves behind, the clock at each reading, and the JSON form of an entry's metadata. Every method holds \<open>mu\<close>, so it is one
  step. The configured directory is a clean path.
\<close>

subsection \<open>Configuration and entries\<close>

record cache_config =
  cc_dir :: string
  cc_enabled :: bool
  cc_ttl :: duration
  cc_max_size :: int
  cc_ttl_scan :: duration
  cc_lru_check :: duration
  cc_url_ttl :: duration

definition seconds :: "int \<Rightarrow> duration" where "seconds n = n * 1000000000"

definition DefaultCacheConfig :: "string \<Rightarrow> cache_config" where
  "DefaultCacheConfig default_dir =
     \<lparr>cc_dir = default_dir, cc_enabled = True, cc_ttl = seconds (24 * 3600), cc_max_size = 10 * 1024 * 1024 * 1024,
      cc_ttl_scan = seconds 600, cc_lru_check = seconds 300, cc_url_ttl = seconds 3600\<rparr>"

text \<open>The values \<^verbatim>\<open>NewCache\<close> puts in place of zero ones.\<close>

definition cache_defaults :: "string \<Rightarrow> cache_config \<Rightarrow> cache_config" where
  "cache_defaults default_dir cfg =
     \<lparr>cc_dir = (if cc_dir cfg = [] then default_dir else cc_dir cfg), cc_enabled = cc_enabled cfg,
      cc_ttl = (if cc_ttl cfg = 0 then seconds (24 * 3600) else cc_ttl cfg),
      cc_max_size = (if cc_max_size cfg = 0 then 10 * 1024 * 1024 * 1024 else cc_max_size cfg),
      cc_ttl_scan = (if cc_ttl_scan cfg = 0 then seconds 600 else cc_ttl_scan cfg),
      cc_lru_check = (if cc_lru_check cfg = 0 then seconds 300 else cc_lru_check cfg), cc_url_ttl = cc_url_ttl cfg\<rparr>"

record entry_meta =
  em_key :: string
  em_created :: time
  em_size :: int
  em_ttl :: duration

record cache_stats =
  st_hits :: int
  st_misses :: int
  st_evictions :: int
  st_size :: int
  st_entries :: int

definition no_stats :: cache_stats where
  "no_stats = \<lparr>st_hits = 0, st_misses = 0, st_evictions = 0, st_size = 0, st_entries = 0\<rparr>"

definition HitRate :: "cache_stats \<Rightarrow> rat" where
  "HitRate s = (let n = st_hits s + st_misses s in if n = 0 then 0 else of_int (st_hits s) / of_int n)"

subsection \<open>The LRU tracker\<close>

record lru_entry =
  le_key :: string
  le_used :: time
  le_size :: int

record lru_tracker =
  lt_entries :: "lru_entry list"
  lt_index :: "string \<Rightarrow> nat option"

definition newLRUTracker :: lru_tracker where
  "newLRUTracker = \<lparr>lt_entries = [], lt_index = Map.empty\<rparr>"

definition lru_touch :: "time \<Rightarrow> string \<Rightarrow> lru_tracker \<Rightarrow> lru_tracker" where
  "lru_touch now key l =
     (case lt_index l key of
        None \<Rightarrow> l
      | Some i \<Rightarrow> l\<lparr>lt_entries := (lt_entries l)[i := (lt_entries l ! i)\<lparr>le_used := now\<rparr>]\<rparr>)"

definition lru_add :: "time \<Rightarrow> string \<Rightarrow> int \<Rightarrow> lru_tracker \<Rightarrow> lru_tracker" where
  "lru_add now key sz l =
     (case lt_index l key of
        Some i \<Rightarrow> l\<lparr>lt_entries := (lt_entries l)[i := (lt_entries l ! i)\<lparr>le_used := now, le_size := sz\<rparr>]\<rparr>
      | None \<Rightarrow>
          let es = lt_entries l @ [\<lparr>le_key = key, le_used = now, le_size = sz\<rparr>]
          in l\<lparr>lt_entries := es, lt_index := (lt_index l)(key \<mapsto> length es - 1)\<rparr>)"

text \<open>The removed entry is overwritten with the last one, which moves to its place.\<close>

definition lru_remove :: "string \<Rightarrow> lru_tracker \<Rightarrow> lru_tracker" where
  "lru_remove key l =
     (case lt_index l key of
        None \<Rightarrow> l
      | Some i \<Rightarrow>
          let es = lt_entries l; last_idx = length es - 1;
              (es', ix) = (if i \<noteq> last_idx then (es[i := es ! last_idx], (lt_index l)(le_key (es ! last_idx) \<mapsto> i)) else (es, lt_index l))
          in l\<lparr>lt_entries := take last_idx es', lt_index := ix(key := None)\<rparr>)"

definition sizeOf :: "string \<Rightarrow> lru_tracker \<Rightarrow> int option" where
  "sizeOf key l = map_option (\<lambda>i. le_size (lt_entries l ! i)) (lt_index l key)"

fun oldest_from :: "lru_entry \<Rightarrow> lru_entry list \<Rightarrow> lru_entry" where
  "oldest_from oldest [] = oldest"
| "oldest_from oldest (e # es) = oldest_from (if le_used e < le_used oldest then e else oldest) es"

definition getLRU :: "lru_tracker \<Rightarrow> lru_entry option" where
  "getLRU l = (case lt_entries l of [] \<Rightarrow> None | e # es \<Rightarrow> Some (oldest_from e es))"

definition lru_len :: "lru_tracker \<Rightarrow> nat" where
  "lru_len l = length (lt_entries l)"

definition totalSize :: "lru_tracker \<Rightarrow> int" where
  "totalSize l = sum_list (map le_size (lt_entries l))"

subsection \<open>The request as a key\<close>

definition key_token :: "string \<Rightarrow> string" where
  "key_token arg = Itoa (int (length arg)) @ CHR '':'' # arg"

text \<open>The arguments that enter the key: options with the value that follows them, in their order.\<close>

fun key_args :: "string list \<Rightarrow> string list" where
  "key_args [] = []"
| "key_args (arg # args) =
     (if arg = ''<INPUT_FILE>'' then key_args args
      else if \<not> HasPrefix arg ''-'' then key_args args
      else if CHR ''='' \<in> set arg then arg # key_args args
      else case args of
             [] \<Rightarrow> [arg]
           | v # rest \<Rightarrow> if \<not> HasPrefix v ''-'' then arg # v # key_args rest else arg # key_args args)"

definition canonicalizeArgs :: "string list \<Rightarrow> string" where
  "canonicalizeArgs args = join_strings '' '' (map key_token (key_args args))"

definition key_payload :: "string list \<Rightarrow> string list \<Rightarrow> bool \<Rightarrow> string \<Rightarrow> string \<Rightarrow> string" where
  "key_payload inputSources args autoHW outputExt encoder =
     join_strings ''|'' inputSources @ ''|'' @ canonicalizeArgs args @ ''|ext='' @ outputExt @ ''|encoder='' @ encoder @ ''|auto_hw='' @
     (if autoHW then ''true'' else ''false'')"

definition GenerateCacheKey :: "(string \<Rightarrow> string) \<Rightarrow> string list \<Rightarrow> string list \<Rightarrow> bool \<Rightarrow> string \<Rightarrow> string \<Rightarrow> string" where
  "GenerateCacheKey digest inputSources args autoHW outputExt encoder =
     digest (key_payload inputSources args autoHW outputExt encoder)"

definition validCacheKey :: "string \<Rightarrow> bool" where
  "validCacheKey key \<longleftrightarrow> length key = 64 \<and> list_all hex_char key"

definition keyPath :: "cache_config \<Rightarrow> string \<Rightarrow> string" where
  "keyPath cfg key = (if validCacheKey key then cc_dir cfg @ ''/'' @ take 2 key @ ''/'' @ key else [])"

definition metaPath :: "cache_config \<Rightarrow> string \<Rightarrow> string" where
  "metaPath cfg key = (let p = keyPath cfg key in if p = [] then [] else p @ ''.meta'')"

subsection \<open>The directory\<close>

record cache_file =
  cf_data :: string
  cf_mtime :: time

type_synonym cache_disk = "(string \<times> cache_file) list"

datatype cache_call = CallStat string | CallStatAgain string | CallRead string | CallWrite string | CallCopy string
  | CallRename string | CallRemove string | CallShardDir | CallRemoveAll | CallCacheDir

datatype cache_clock = ReadAt string | UsedAt | CreatedAt | TempCutoff

record cache_env =
  ce_ok :: "cache_call \<Rightarrow> bool"
  ce_junk :: "cache_call \<Rightarrow> string option"  \<comment> \<open>what a failed write leaves under its name, if it touched it\<close>
  ce_now :: "cache_clock \<Rightarrow> time"
  ce_encode :: "entry_meta \<Rightarrow> string"
  ce_decode :: "string \<Rightarrow> entry_meta option"

record cache =
  ca_cfg :: cache_config
  ca_stats :: cache_stats
  ca_lru :: lru_tracker
  ca_disk :: cache_disk
  ca_evict :: bool  \<comment> \<open>a request waits in \<open>evictCh\<close>\<close>

definition file_at :: "string \<Rightarrow> cache \<Rightarrow> cache_file option" where
  "file_at p c = map_of (ca_disk c) p"

definition write_file :: "string \<Rightarrow> string \<Rightarrow> time \<Rightarrow> cache \<Rightarrow> cache" where
  "write_file p data now c = c\<lparr>ca_disk := AList.update p \<lparr>cf_data = data, cf_mtime = now\<rparr> (ca_disk c)\<rparr>"

definition drop_file :: "string \<Rightarrow> cache \<Rightarrow> cache" where
  "drop_file p c = c\<lparr>ca_disk := AList.delete p (ca_disk c)\<rparr>"

text \<open>\<^verbatim>\<open>os.Remove\<close>, whose error the code ignores.\<close>

definition remove_file :: "cache_env \<Rightarrow> string \<Rightarrow> cache \<Rightarrow> cache" where
  "remove_file env p c = (if ce_ok env (CallRemove p) then drop_file p c else c)"

definition spoil_file :: "cache_env \<Rightarrow> cache_call \<Rightarrow> string \<Rightarrow> cache \<Rightarrow> cache" where
  "spoil_file env call p c = (case ce_junk env call of None \<Rightarrow> c | Some data \<Rightarrow> write_file p data (ce_now env UsedAt) c)"

definition add_size :: "int \<Rightarrow> cache \<Rightarrow> cache" where
  "add_size n c = c\<lparr>ca_stats := (ca_stats c)\<lparr>st_size := st_size (ca_stats c) + n\<rparr>\<rparr>"

definition sub_size :: "int \<Rightarrow> cache \<Rightarrow> cache" where
  "sub_size n c = c\<lparr>ca_stats := (ca_stats c)\<lparr>st_size := max 0 (st_size (ca_stats c) - n)\<rparr>\<rparr>"

definition add_entries :: "int \<Rightarrow> cache \<Rightarrow> cache" where
  "add_entries n c = c\<lparr>ca_stats := (ca_stats c)\<lparr>st_entries := st_entries (ca_stats c) + n\<rparr>\<rparr>"

definition count_miss :: "cache \<Rightarrow> cache" where
  "count_miss c = c\<lparr>ca_stats := (ca_stats c)\<lparr>st_misses := st_misses (ca_stats c) + 1\<rparr>\<rparr>"

definition count_eviction :: "cache \<Rightarrow> cache" where
  "count_eviction c = c\<lparr>ca_stats := (ca_stats c)\<lparr>st_evictions := st_evictions (ca_stats c) + 1\<rparr>\<rparr>"

subsection \<open>Permissions of the directories\<close>

datatype dir_error = DirCreate | DirStat | DirNotADirectory | DirOwner | DirChmod

text \<open>What \<^verbatim>\<open>MkdirAll\<close>, \<^verbatim>\<open>Stat\<close> (directory, owner, permission bits) and \<^verbatim>\<open>Chmod\<close> say; the result has the bits afterwards.\<close>

definition ensureCacheDirAs :: "bool \<Rightarrow> (bool \<times> int option \<times> nat) option \<Rightarrow> bool \<Rightarrow> int \<Rightarrow> dir_error + nat" where
  "ensureCacheDirAs mkdir_ok stat chmod_ok euid =
     (if \<not> mkdir_ok then Inl DirCreate
      else case stat of
             None \<Rightarrow> Inl DirStat
           | Some (is_dir, uid, perm) \<Rightarrow>
               if \<not> is_dir then Inl DirNotADirectory
               else if (case uid of Some u \<Rightarrow> euid \<ge> 0 \<and> u \<noteq> euid | None \<Rightarrow> False) then Inl DirOwner
               else if perm mod 64 \<noteq> 0 then (if chmod_ok then Inr 448 else Inl DirChmod)
               else Inr perm)"

subsection \<open>Lookup\<close>

definition loadMeta :: "cache_env \<Rightarrow> string \<Rightarrow> cache \<Rightarrow> entry_meta option" where
  "loadMeta env p c =
     (if ce_ok env (CallRead p) then Option.bind (file_at p c) (\<lambda>f. ce_decode env (cf_data f)) else None)"

definition entryTTL :: "cache_config \<Rightarrow> entry_meta \<Rightarrow> duration" where
  "entryTTL cfg meta = (if em_ttl meta > 0 then em_ttl meta else cc_ttl cfg)"

definition expired :: "cache_env \<Rightarrow> cache_config \<Rightarrow> string \<Rightarrow> entry_meta \<Rightarrow> bool" where
  "expired env cfg p meta \<longleftrightarrow> ce_now env (ReadAt p) - em_created meta > entryTTL cfg meta"

definition removeEntry :: "cache_env \<Rightarrow> string \<Rightarrow> int \<Rightarrow> cache \<Rightarrow> cache" where
  "removeEntry env key sz c =
     (let c = remove_file env (metaPath (ca_cfg c) key) (remove_file env (keyPath (ca_cfg c) key) c);
          c = sub_size sz (c\<lparr>ca_lru := lru_remove key (ca_lru c)\<rparr>)
      in if st_entries (ca_stats c) > 0 then add_entries (-1) c else c)"

text \<open>The path of a hit, and the cache afterwards.\<close>

definition Check :: "cache_env \<Rightarrow> string \<Rightarrow> cache \<Rightarrow> string option \<times> cache" where
  "Check env key c =
     (if \<not> cc_enabled (ca_cfg c) then (None, c)
      else if \<not> validCacheKey key then (None, count_miss c)
      else
        (let cachePath = keyPath (ca_cfg c) key; mp = metaPath (ca_cfg c) key
         in if ce_ok env (CallStat cachePath) \<and> file_at cachePath c = None then (None, count_miss c)
            else case loadMeta env mp c of
                   None \<Rightarrow> (None, count_miss c)
                 | Some meta \<Rightarrow>
                     if expired env (ca_cfg c) mp meta then (None, count_miss (removeEntry env key (em_size meta) c))
                     else (case (if ce_ok env (CallStatAgain cachePath) then file_at cachePath c else None) of
                             None \<Rightarrow> (None, count_miss (removeEntry env key (em_size meta) c))
                           | Some f \<Rightarrow>
                               if int (length (cf_data f)) \<noteq> em_size meta \<or> cf_data f = []
                               then (None, count_miss (removeEntry env key (em_size meta) c))
                               else (Some cachePath, c))))"

definition ConfirmHit :: "cache_env \<Rightarrow> string \<Rightarrow> cache \<Rightarrow> cache" where
  "ConfirmHit env key c =
     (if \<not> validCacheKey key then c
      else c\<lparr>ca_stats := (ca_stats c)\<lparr>st_hits := st_hits (ca_stats c) + 1\<rparr>, ca_lru := lru_touch (ce_now env UsedAt) key (ca_lru c)\<rparr>)"

subsection \<open>Insertion\<close>

datatype put_error = PutInvalidKey | PutNoSource | PutShardDir | PutCopy | PutRename | PutMeta

definition requestLRUEviction :: "cache \<Rightarrow> cache" where
  "requestLRUEviction c = c\<lparr>ca_evict := True\<rparr>"

text \<open>A temporary file in the way was counted by the scan at the start; its bytes are released.\<close>

definition release_temp :: "cache_env \<Rightarrow> string \<Rightarrow> cache \<Rightarrow> cache" where
  "release_temp env tmp c =
     (case (if ce_ok env (CallStat tmp) then file_at tmp c else None) of
        None \<Rightarrow> c
      | Some f \<Rightarrow> sub_size (int (length (cf_data f))) c)"

definition track_entry :: "cache_env \<Rightarrow> string \<Rightarrow> int \<Rightarrow> cache \<Rightarrow> cache" where
  "track_entry env key sz c =
     (let c = (case sizeOf key (ca_lru c) of Some prev \<Rightarrow> add_size (- prev) c | None \<Rightarrow> add_entries 1 c);
          c = c\<lparr>ca_lru := lru_add (ce_now env UsedAt) key sz (ca_lru c)\<rparr>
      in add_size sz c)"

text \<open>\<open>src\<close> is the size the source has when it is looked at, and the bytes that are then copied.\<close>

definition Put :: "cache_env \<Rightarrow> string \<Rightarrow> (int \<times> string) option \<Rightarrow> duration option \<Rightarrow> cache \<Rightarrow> put_error option \<times> cache" where
  "Put env key src ttlOverride c =
     (if \<not> cc_enabled (ca_cfg c) then (None, c)
      else if \<not> validCacheKey key then (Some PutInvalidKey, c)
      else case src of
             None \<Rightarrow> (Some PutNoSource, c)
           | Some (srcSize, data) \<Rightarrow>
               let cachePath = keyPath (ca_cfg c) key; mp = metaPath (ca_cfg c) key; tmp = cachePath @ ''.tmp''
               in if \<not> ce_ok env CallShardDir then (Some PutShardDir, c)
                  else
                    let c = release_temp env tmp c
                    in if \<not> ce_ok env (CallCopy tmp)
                       then (Some PutCopy, remove_file env tmp (spoil_file env (CallCopy tmp) tmp c))
                       else
                         let c = write_file tmp data (ce_now env UsedAt) c
                         in if \<not> ce_ok env (CallRename tmp) then (Some PutRename, remove_file env tmp c)
                            else
                              let c = drop_file tmp (write_file cachePath data (ce_now env UsedAt) c);
                                  meta = \<lparr>em_key = key, em_created = ce_now env CreatedAt, em_size = srcSize,
                                          em_ttl = (case ttlOverride of Some t \<Rightarrow> if t > 0 then t else 0 | None \<Rightarrow> 0)\<rparr>
                              in if \<not> ce_ok env (CallWrite mp)
                                 then (Some PutMeta, remove_file env cachePath (spoil_file env (CallWrite mp) mp c))
                                 else
                                   let c = write_file mp (ce_encode env meta) (ce_now env UsedAt) c
                                   in (None, requestLRUEviction (track_entry env key srcSize c)))"

subsection \<open>Scans of the directory\<close>

definition staleTempFileAge :: duration where "staleTempFileAge = seconds 3600"

definition is_absent :: "cache_env \<Rightarrow> string \<Rightarrow> cache \<Rightarrow> bool" where
  "is_absent env p c \<longleftrightarrow> ce_ok env (CallStat p) \<and> file_at p c = None"

text \<open>One file of the walk at the start, with the size and the entries found so far.\<close>

definition scan_file :: "cache_env \<Rightarrow> string \<times> cache_file \<Rightarrow> cache \<times> int \<times> int \<Rightarrow> cache \<times> int \<times> int" where
  "scan_file env pf acc =
     (let (p, f) = pf; (c, total, count) = acc
      in if HasSuffix p ''.meta'' then
           (case loadMeta env p c of
              None \<Rightarrow> acc
            | Some meta \<Rightarrow>
                if \<not> validCacheKey (em_key meta) then (remove_file env p c, total, count)
                else if is_absent env (take (length p - 5) p) c then (remove_file env p c, total, count)
                else (c\<lparr>ca_lru := lru_add (ce_now env UsedAt) (em_key meta) (em_size meta) (ca_lru c)\<rparr>,
                      total + em_size meta, count + 1))
         else if HasSuffix p ''.tmp'' then
           (if cf_mtime f < ce_now env TempCutoff - staleTempFileAge then (remove_file env p c, total, count)
            else (c, total + int (length (cf_data f)), count))
         else acc)"

definition scanExisting :: "cache_env \<Rightarrow> cache \<Rightarrow> cache" where
  "scanExisting env c =
     (let (c', total, count) = fold (scan_file env) (ca_disk c) (c, 0, 0)
      in c'\<lparr>ca_stats := (ca_stats c')\<lparr>st_size := total, st_entries := count\<rparr>\<rparr>)"

text \<open>\<open>disk\<close> is what the directory holds when the worker starts; \<open>dir\<close> the outcome of checking its permissions.\<close>

definition NewCache :: "cache_env \<Rightarrow> string \<Rightarrow> cache_config \<Rightarrow> dir_error + nat \<Rightarrow> cache_disk \<Rightarrow> dir_error + cache" where
  "NewCache env default_dir cfg dir disk =
     (let blank = (\<lambda>cfg. \<lparr>ca_cfg = cfg, ca_stats = no_stats, ca_lru = newLRUTracker, ca_disk = disk, ca_evict = False\<rparr>)
      in if \<not> cc_enabled cfg then Inr (blank cfg)
         else case dir of
                Inl e \<Rightarrow> Inl e
              | Inr _ \<Rightarrow> Inr (scanExisting env (blank (cache_defaults default_dir cfg))))"

subsection \<open>Eviction\<close>

text \<open>One metadata file of the walk over expired entries.\<close>

definition collect_expired :: "cache_env \<Rightarrow> string \<times> cache_file \<Rightarrow> cache \<times> string list \<Rightarrow> cache \<times> string list" where
  "collect_expired env pf acc =
     (let (p, f) = pf; (c, keys) = acc
      in if \<not> HasSuffix p ''.meta'' then acc
         else case loadMeta env p c of
                None \<Rightarrow> acc
              | Some meta \<Rightarrow>
                  if \<not> validCacheKey (em_key meta) then (remove_file env p c, keys)
                  else if expired env (ca_cfg c) p meta then (c, keys @ [em_key meta])
                  else acc)"

definition evict_key :: "cache_env \<Rightarrow> string \<Rightarrow> cache \<Rightarrow> cache" where
  "evict_key env key c =
     (let p = keyPath (ca_cfg c) key
      in count_eviction
           (case (if ce_ok env (CallStat p) then file_at p c else None) of
              Some f \<Rightarrow> removeEntry env key (int (length (cf_data f))) c
            | None \<Rightarrow> removeEntry env key 0 c))"

definition reclaim_temp :: "cache_env \<Rightarrow> string \<times> cache_file \<Rightarrow> cache \<times> int \<Rightarrow> cache \<times> int" where
  "reclaim_temp env pf acc =
     (let (p, f) = pf; (c, reclaimed) = acc
      in if \<not> HasSuffix p ''.tmp'' \<or> ce_now env TempCutoff - staleTempFileAge < cf_mtime f \<or> \<not> ce_ok env (CallRemove p) then acc
         else (drop_file p c, reclaimed + int (length (cf_data f))))"

definition evictExpired :: "cache_env \<Rightarrow> cache \<Rightarrow> cache" where
  "evictExpired env c =
     (let (c, keys) = fold (collect_expired env) (ca_disk c) (c, []);
          c = fold (evict_key env) keys c;
          (c, reclaimed) = fold (reclaim_temp env) (ca_disk c) (c, 0)
      in if reclaimed > 0 then sub_size reclaimed c else c)"

text \<open>The loop ends only because the removed entry leaves the tracker, so its end is a theorem.\<close>

definition evict_lru_entry :: "cache_env \<Rightarrow> lru_entry \<Rightarrow> cache \<Rightarrow> cache" where
  "evict_lru_entry env lru c = count_eviction (removeEntry env (le_key lru) (le_size lru) c)"

partial_function (option) evictLRUIfNeeded :: "cache_env \<Rightarrow> cache \<Rightarrow> cache option" where
  "evictLRUIfNeeded env c =
     (if st_size (ca_stats c) > cc_max_size (ca_cfg c) then
        (case getLRU (ca_lru c) of
           None \<Rightarrow> Some c
         | Some lru \<Rightarrow> evictLRUIfNeeded env (evict_lru_entry env lru c))
      else Some c)"

declare evictLRUIfNeeded.simps [code]

subsection \<open>Clearing\<close>

text \<open>A failed \<^verbatim>\<open>RemoveAll\<close> has removed some of the files.\<close>

definition Clear :: "cache_env \<Rightarrow> cache \<Rightarrow> bool \<times> cache" where
  "Clear env c =
     (if \<not> ce_ok env CallRemoveAll then (False, c\<lparr>ca_disk := filter (\<lambda>(p, f). \<not> ce_ok env (CallRemove p)) (ca_disk c)\<rparr>)
      else let c = c\<lparr>ca_disk := []\<rparr>
           in if \<not> ce_ok env CallCacheDir then (False, c)
              else (True, c\<lparr>ca_lru := newLRUTracker, ca_stats := no_stats\<rparr>))"

end
