(* ===== verification/CacheGuarantees.thy ===== *)
theory CacheGuarantees
  imports WorkerCache "HOL-Library.Multiset"
begin

section \<open>What the cache guarantees\<close>

text \<open>
  The tracker is a map from keys to recency and size whose oldest element can be found; eviction by size rests on these laws alone.
  The accounts of the cache agree with its directory, a hit is what was stored, and a key determines the request.
\<close>

subsection \<open>The contract of the tracker\<close>

locale recency_queue =
  fixes inv :: "'q \<Rightarrow> bool"
    and entries :: "'q \<Rightarrow> lru_entry multiset"
    and init :: 'q
    and touch :: "time \<Rightarrow> string \<Rightarrow> 'q \<Rightarrow> 'q"
    and add :: "time \<Rightarrow> string \<Rightarrow> int \<Rightarrow> 'q \<Rightarrow> 'q"
    and remove :: "string \<Rightarrow> 'q \<Rightarrow> 'q"
    and size_of :: "string \<Rightarrow> 'q \<Rightarrow> int option"
    and oldest :: "'q \<Rightarrow> lru_entry option"
  assumes inv_init: "inv init"
    and entries_init: "entries init = {#}"
    and one_entry: "inv q \<Longrightarrow> e \<in># entries q \<Longrightarrow> e' \<in># entries q \<Longrightarrow> le_key e = le_key e' \<Longrightarrow> e = e'"
    and single_entry: "inv q \<Longrightarrow> count (entries q) e \<le> 1"
    and inv_touch: "inv q \<Longrightarrow> inv (touch now k q)"
    and entries_touch: "inv q \<Longrightarrow> entries (touch now k q) = image_mset (\<lambda>e. if le_key e = k then e\<lparr>le_used := now\<rparr> else e) (entries q)"
    and inv_add: "inv q \<Longrightarrow> inv (add now k n q)"
    and entries_add: "inv q \<Longrightarrow>
      entries (add now k n q) = add_mset \<lparr>le_key = k, le_used = now, le_size = n\<rparr> (filter_mset (\<lambda>e. le_key e \<noteq> k) (entries q))"
    and inv_remove: "inv q \<Longrightarrow> inv (remove k q)"
    and entries_remove: "inv q \<Longrightarrow> entries (remove k q) = filter_mset (\<lambda>e. le_key e \<noteq> k) (entries q)"
    and size_of_entry: "inv q \<Longrightarrow> size_of k q = Some n \<longleftrightarrow> (\<exists>e \<in># entries q. le_key e = k \<and> le_size e = n)"
    and oldest_none: "oldest q = None \<longleftrightarrow> entries q = {#}"
    and oldest_some: "oldest q = Some e \<Longrightarrow> e \<in># entries q \<and> (\<forall>e' \<in># entries q. le_used e \<le> le_used e')"
begin

definition bytes :: "'q \<Rightarrow> int" where
  "bytes q = (\<Sum>e \<in># entries q. le_size e)"

lemma remove_entry: "inv q \<Longrightarrow> e \<in># entries q \<Longrightarrow> entries q = add_mset e (entries (remove (le_key e) q))"
proof -
  assume q: "inv q" and e: "e \<in># entries q"
  obtain es where es: "entries q = add_mset e es" using e by (metis insert_DiffM)
  have "e \<notin># es" using single_entry [OF q, of e] es by (simp add: not_in_iff)
  then have "le_key x \<noteq> le_key e" if "x \<in># es" for x using one_entry [OF q, of x e] es that by auto
  then have "filter_mset (\<lambda>x. le_key x \<noteq> le_key e) es = es" by (simp add: filter_mset_eq_conv)
  then show ?thesis using entries_remove [OF q, of "le_key e"] es by simp
qed

lemma remove_untracked: "inv q \<Longrightarrow> size_of k q = None \<Longrightarrow> entries (remove k q) = entries q"
  using size_of_entry [of q k] entries_remove [of q k] by (force simp: filter_mset_eq_conv)

lemma bytes_remove: "inv q \<Longrightarrow> bytes (remove k q) = bytes q - (case size_of k q of Some n \<Rightarrow> n | None \<Rightarrow> 0)"
proof (cases "size_of k q")
  case None
  then show "inv q \<Longrightarrow> ?thesis" using remove_untracked by (simp add: bytes_def)
next
  case (Some n)
  assume q: "inv q"
  then obtain e where "e \<in># entries q" "le_key e = k" "le_size e = n" using Some size_of_entry by blast
  then show ?thesis using remove_entry [OF q] Some unfolding bytes_def by (metis add_diff_cancel_left' image_mset_add_mset option.simps(5) sum_mset.add_mset)
qed

lemma size_remove: "inv q \<Longrightarrow> size (entries q) = size (entries (remove k q)) + (if size_of k q = None then 0 else 1)"
proof (cases "size_of k q")
  case (Some n)
  assume q: "inv q"
  then obtain e where "e \<in># entries q" "le_key e = k" using Some size_of_entry by blast
  then show ?thesis using remove_entry [OF q] Some by (metis Suc_eq_plus1 option.distinct(1) size_add_mset)
qed (simp add: remove_untracked)

lemma add_as_remove: "inv q \<Longrightarrow> entries (add now k n q) = add_mset \<lparr>le_key = k, le_used = now, le_size = n\<rparr> (entries (remove k q))"
  by (simp add: entries_add entries_remove)

lemma bytes_add: "inv q \<Longrightarrow> bytes (add now k n q) = bytes q - (case size_of k q of Some m \<Rightarrow> m | None \<Rightarrow> 0) + n"
  using bytes_remove [of q k] by (simp add: bytes_def add_as_remove)

lemma bytes_touch: "inv q \<Longrightarrow> bytes (touch now k q) = bytes q"
proof -
  assume "inv q"
  then have "bytes (touch now k q) = (\<Sum>e \<in># entries q. le_size (if le_key e = k then e\<lparr>le_used := now\<rparr> else e))"
    by (simp add: bytes_def entries_touch image_mset.compositionality comp_def)
  also have "\<dots> = bytes q" unfolding bytes_def by (rule arg_cong [where f = sum_mset], rule image_mset_cong) simp
  finally show ?thesis .
qed

end

subsection \<open>The tracker of the code\<close>

definition tracker_ok :: "lru_tracker \<Rightarrow> bool" where
  "tracker_ok l \<longleftrightarrow> (\<forall>k i. lt_index l k = Some i \<longleftrightarrow> i < length (lt_entries l) \<and> le_key (lt_entries l ! i) = k)"

lemma tracker_index: "tracker_ok l \<Longrightarrow> lt_index l k = Some i \<longleftrightarrow> i < length (lt_entries l) \<and> le_key (lt_entries l ! i) = k"
  by (simp add: tracker_ok_def)

lemma tracker_distinct: "tracker_ok l \<Longrightarrow> distinct (map le_key (lt_entries l))"
  unfolding distinct_conv_nth by (metis (mono_tags, lifting) length_map nth_map option.inject tracker_ok_def)

lemma tracker_none: "tracker_ok l \<Longrightarrow> lt_index l k = None \<longleftrightarrow> k \<notin> le_key ` set (lt_entries l)"
proof -
  assume l: "tracker_ok l"
  have "(\<exists>i. lt_index l k = Some i) \<longleftrightarrow> k \<in> le_key ` set (lt_entries l)"
    unfolding tracker_index [OF l] by (metis (no_types) image_iff in_set_conv_nth)
  then show ?thesis by auto
qed

lemma tracker_new: "tracker_ok newLRUTracker"
  by (simp add: tracker_ok_def newLRUTracker_def)

text \<open>The entries after an operation, without the index.\<close>

lemma upd_where_nth:
  "distinct (map key xs) \<Longrightarrow> i < length xs \<Longrightarrow> xs[i := f (xs ! i)] = map (\<lambda>x. if key x = key (xs ! i) then f x else x) xs"
  by (rule nth_equalityI) (auto simp: nth_list_update distinct_conv_nth)

lemma tracker_touch:
  assumes "tracker_ok l"
  shows "tracker_ok (lru_touch now k l)"
    and "lt_entries (lru_touch now k l) = map (\<lambda>e. if le_key e = k then e\<lparr>le_used := now\<rparr> else e) (lt_entries l)"
proof -
  show "lt_entries (lru_touch now k l) = map (\<lambda>e. if le_key e = k then e\<lparr>le_used := now\<rparr> else e) (lt_entries l)"
  proof (cases "lt_index l k")
    case None
    then have "le_key e \<noteq> k" if "e \<in> set (lt_entries l)" for e using assms that by (auto simp: tracker_none)
    then show ?thesis using None by (simp add: lru_touch_def map_idI)
  next
    case (Some i)
    then have "i < length (lt_entries l)" "le_key (lt_entries l ! i) = k" using assms by (simp_all add: tracker_index)
    then show ?thesis
      using Some upd_where_nth [OF tracker_distinct [OF assms], of i "\<lambda>e. e\<lparr>le_used := now\<rparr>"] by (simp add: lru_touch_def)
  qed
  then show "tracker_ok (lru_touch now k l)"
    using assms by (auto simp: tracker_ok_def lru_touch_def split: option.splits)
qed

lemma tracker_others:
  assumes "tracker_ok l" and "lt_index l k = Some i"
  shows "filter_mset (\<lambda>e. le_key e \<noteq> k) (mset (lt_entries l)) = mset (lt_entries l) - {#lt_entries l ! i#}"
proof -
  have i: "i < length (lt_entries l)" "le_key (lt_entries l ! i) = k" using assms by (simp_all add: tracker_index)
  have d: "distinct (lt_entries l)" using tracker_distinct [OF assms(1)] by (simp add: distinct_map)
  define M where "M = mset (lt_entries l) - {#lt_entries l ! i#}"
  have "le_key e \<noteq> k" if "e \<in># M" for e
  proof
    assume "le_key e = k"
    from that have "e \<in> set (lt_entries l)" unfolding M_def by (metis in_diffD set_mset_mset)
    then have "e = lt_entries l ! i" using i \<open>le_key e = k\<close> tracker_distinct [OF assms(1)]
      by (metis distinct_map inj_onD nth_mem)
    moreover have "count (mset (lt_entries l)) e \<le> 1" using d by (simp add: distinct_count_atmost_1)
    ultimately show False using that by (simp add: M_def in_diff_count)
  qed
  then have "filter_mset (\<lambda>e. le_key e \<noteq> k) M = M" by (simp add: filter_mset_eq_conv)
  moreover have "mset (lt_entries l) = add_mset (lt_entries l ! i) M" using i by (simp add: M_def)
  ultimately show ?thesis using i by (simp add: M_def [symmetric])
qed

lemma tracker_add:
  assumes "tracker_ok l"
  shows "tracker_ok (lru_add now k n l)"
    and "mset (lt_entries (lru_add now k n l)) =
      add_mset \<lparr>le_key = k, le_used = now, le_size = n\<rparr> (filter_mset (\<lambda>e. le_key e \<noteq> k) (mset (lt_entries l)))"
proof -
  let ?e = "\<lparr>le_key = k, le_used = now, le_size = n\<rparr>"
  consider (new) "lt_index l k = None" | (old) i where "lt_index l k = Some i" by (cases "lt_index l k") auto
  then have "tracker_ok (lru_add now k n l) \<and>
    mset (lt_entries (lru_add now k n l)) = add_mset ?e (filter_mset (\<lambda>e. le_key e \<noteq> k) (mset (lt_entries l)))"
  proof cases
    case new
    then have "k \<notin> le_key ` set (lt_entries l)" using assms by (simp add: tracker_none)
    then have "filter_mset (\<lambda>e. le_key e \<noteq> k) (mset (lt_entries l)) = mset (lt_entries l)"
      and keys: "i < length (lt_entries l) \<Longrightarrow> le_key (lt_entries l ! i) \<noteq> k" for i by (auto simp: filter_mset_eq_conv)
    then show ?thesis using new assms
      by (auto simp: lru_add_def Let_def tracker_ok_def nth_append less_Suc_eq)
  next
    case old
    have i: "i < length (lt_entries l)" "le_key (lt_entries l ! i) = k" using assms old by (simp_all add: tracker_index)
    then have at: "lt_entries (lru_add now k n l) = (lt_entries l)[i := ?e]"
      using old by (cases "lt_entries l ! i") (simp add: lru_add_def)
    have "lt_index (lru_add now k n l) = lt_index l" using old by (simp add: lru_add_def)
    then have "tracker_ok (lru_add now k n l)" using i at by (auto simp: tracker_ok_def tracker_index [OF assms] nth_list_update)
    then show ?thesis using at i tracker_others [OF assms old] by (simp add: mset_update)
  qed
  then show "tracker_ok (lru_add now k n l)" and "mset (lt_entries (lru_add now k n l)) =
      add_mset ?e (filter_mset (\<lambda>e. le_key e \<noteq> k) (mset (lt_entries l)))" by simp_all
qed

lemma mset_swap_last: "i < length xs \<Longrightarrow> mset (take (length xs - 1) (xs[i := xs ! (length xs - 1)])) = mset xs - {#xs ! i#}"
proof (cases xs rule: rev_cases)
  case (snoc zs z)
  assume "i < length xs"
  then consider "i < length zs" | "i = length zs" using snoc by fastforce
  then show ?thesis
  proof cases
    case 1
    then have "mset (zs[i := z]) = add_mset z (mset zs - {#zs ! i#})" by (rule mset_update)
    then show ?thesis using 1 snoc by (simp add: list_update_append nth_append add_mset_remove_trivial_eq)
  qed (simp add: snoc)
qed simp

lemma tracker_remove:
  assumes "tracker_ok l"
  shows "tracker_ok (lru_remove k l)"
    and "mset (lt_entries (lru_remove k l)) = filter_mset (\<lambda>e. le_key e \<noteq> k) (mset (lt_entries l))"
proof -
  consider (untracked) "lt_index l k = None" | (tracked) i where "lt_index l k = Some i" by (cases "lt_index l k") auto
  then have "tracker_ok (lru_remove k l) \<and>
    mset (lt_entries (lru_remove k l)) = filter_mset (\<lambda>e. le_key e \<noteq> k) (mset (lt_entries l))"
  proof cases
    case untracked
    then have "filter_mset (\<lambda>e. le_key e \<noteq> k) (mset (lt_entries l)) = mset (lt_entries l)"
      using assms by (auto simp: tracker_none filter_mset_eq_conv)
    then show ?thesis using untracked assms by (simp add: lru_remove_def)
  next
    case tracked
    let ?es = "lt_entries l" let ?n = "length ?es - 1"
    have i: "i < length ?es" "le_key (?es ! i) = k" using assms tracked by (simp_all add: tracker_index)
    have at: "lt_entries (lru_remove k l) = take ?n (?es[i := ?es ! ?n])"
      using tracked i by (cases "i = ?n") (auto simp: lru_remove_def Let_def)
    have ix: "lt_index (lru_remove k l) = (if i \<noteq> ?n then (lt_index l)(le_key (?es ! ?n) \<mapsto> i) else lt_index l)(k := None)"
      using tracked by (simp add: lru_remove_def Let_def)
    have inj: "le_key (?es ! a) = le_key (?es ! b) \<longleftrightarrow> a = b" if "a < length ?es" "b < length ?es" for a b
      using tracker_distinct [OF assms] that by (simp add: distinct_conv_nth) (metis that)
    have "lt_index (lru_remove k l) k' = Some j \<longleftrightarrow>
        j < length (lt_entries (lru_remove k l)) \<and> le_key (lt_entries (lru_remove k l) ! j) = k'" for k' j
    proof -
      have ij: "lt_index l k' = Some j \<longleftrightarrow> j < length ?es \<and> le_key (?es ! j) = k'" using assms by (simp add: tracker_index)
      have n: "?n < length ?es" using i by simp
      show ?thesis unfolding at ix using i ij inj n
        by (auto simp: nth_list_update split: if_splits)
    qed
    then have "tracker_ok (lru_remove k l)" by (simp add: tracker_ok_def)
    then show ?thesis using at i mset_swap_last [OF i(1)] tracker_others [OF assms tracked] by simp
  qed
  then show "tracker_ok (lru_remove k l)"
    and "mset (lt_entries (lru_remove k l)) = filter_mset (\<lambda>e. le_key e \<noteq> k) (mset (lt_entries l))" by simp_all
qed

lemma oldest_from_in: "oldest_from e es \<in> set (e # es)"
  by (induction es arbitrary: e) (auto split: if_splits)

lemma oldest_from_min: "le_used (oldest_from e es) \<le> le_used e \<and> (\<forall>x \<in> set es. le_used (oldest_from e es) \<le> le_used x)"
proof (induction es arbitrary: e)
  case (Cons x es)
  define m where "m = (if le_used x < le_used e then x else e)"
  have "le_used m \<le> le_used e" "le_used m \<le> le_used x" by (simp_all add: m_def)
  then show ?case using Cons.IH [of m] by (simp add: m_def [symmetric])
qed simp

lemma oldest_from_le: "e' \<in> set (e # es) \<Longrightarrow> le_used (oldest_from e es) \<le> le_used e'"
  using oldest_from_min by auto

lemma sizeOf_entry:
  assumes "tracker_ok l"
  shows "sizeOf k l = Some n \<longleftrightarrow> (\<exists>e \<in> set (lt_entries l). le_key e = k \<and> le_size e = n)"
proof
  assume "sizeOf k l = Some n"
  then obtain i where "lt_index l k = Some i" "le_size (lt_entries l ! i) = n" by (auto simp: sizeOf_def)
  with assms show "\<exists>e \<in> set (lt_entries l). le_key e = k \<and> le_size e = n" by (auto simp: tracker_index)
next
  assume "\<exists>e \<in> set (lt_entries l). le_key e = k \<and> le_size e = n"
  then obtain i where "i < length (lt_entries l)" "le_key (lt_entries l ! i) = k" "le_size (lt_entries l ! i) = n"
    by (auto simp: in_set_conv_nth)
  with assms have "lt_index l k = Some i" by (simp add: tracker_index)
  then show "sizeOf k l = Some n" using \<open>le_size (lt_entries l ! i) = n\<close> by (simp add: sizeOf_def)
qed

interpretation lru: recency_queue tracker_ok "\<lambda>l. mset (lt_entries l)" newLRUTracker lru_touch lru_add lru_remove sizeOf getLRU
proof unfold_locales
  fix l :: lru_tracker and e e'
  show "mset (lt_entries newLRUTracker) = {#}" by (simp add: newLRUTracker_def)
  show "tracker_ok l \<Longrightarrow> e \<in># mset (lt_entries l) \<Longrightarrow> e' \<in># mset (lt_entries l) \<Longrightarrow> le_key e = le_key e' \<Longrightarrow> e = e'"
    using tracker_distinct by (auto simp: distinct_map dest: inj_onD)
  show "tracker_ok l \<Longrightarrow> count (mset (lt_entries l)) e \<le> 1"
  proof -
    assume "tracker_ok l"
    then have "distinct (lt_entries l)" using tracker_distinct distinct_map by blast
    then show ?thesis by (simp add: distinct_count_atmost_1)
  qed
  show "getLRU l = None \<longleftrightarrow> mset (lt_entries l) = {#}" by (auto simp: getLRU_def split: list.splits)
  show "getLRU l = Some e \<Longrightarrow> e \<in># mset (lt_entries l) \<and> (\<forall>e' \<in># mset (lt_entries l). le_used e \<le> le_used e')"
    using oldest_from_in oldest_from_le by (auto simp: getLRU_def split: list.splits)
qed (simp_all add: tracker_new tracker_touch tracker_add tracker_remove sizeOf_entry)

subsection \<open>Eviction by size\<close>

definition over_budget :: "cache \<Rightarrow> bool" where
  "over_budget c \<longleftrightarrow> cc_max_size (ca_cfg c) < st_size (ca_stats c)"

abbreviation tracked :: "cache \<Rightarrow> lru_entry multiset" where
  "tracked c \<equiv> mset (lt_entries (ca_lru c))"

lemma file_updates [simp]:
  "ca_lru (remove_file env p c) = ca_lru c" "ca_stats (remove_file env p c) = ca_stats c" "ca_cfg (remove_file env p c) = ca_cfg c"
  "ca_lru (write_file p d t c) = ca_lru c" "ca_stats (write_file p d t c) = ca_stats c" "ca_cfg (write_file p d t c) = ca_cfg c"
  "ca_lru (drop_file p c) = ca_lru c" "ca_stats (drop_file p c) = ca_stats c" "ca_cfg (drop_file p c) = ca_cfg c"
  "ca_lru (spoil_file env k p c) = ca_lru c" "ca_stats (spoil_file env k p c) = ca_stats c" "ca_cfg (spoil_file env k p c) = ca_cfg c"
  by (simp_all add: remove_file_def write_file_def drop_file_def spoil_file_def split: option.splits)

lemma stat_updates [simp]:
  "ca_lru (add_size n c) = ca_lru c" "ca_disk (add_size n c) = ca_disk c" "ca_cfg (add_size n c) = ca_cfg c"
  "ca_lru (sub_size n c) = ca_lru c" "ca_disk (sub_size n c) = ca_disk c" "ca_cfg (sub_size n c) = ca_cfg c"
  "ca_lru (add_entries n c) = ca_lru c" "ca_disk (add_entries n c) = ca_disk c" "ca_cfg (add_entries n c) = ca_cfg c"
  "ca_lru (count_miss c) = ca_lru c" "ca_disk (count_miss c) = ca_disk c" "ca_cfg (count_miss c) = ca_cfg c"
  "ca_lru (count_eviction c) = ca_lru c" "ca_disk (count_eviction c) = ca_disk c" "ca_cfg (count_eviction c) = ca_cfg c"
  by (simp_all add: add_size_def sub_size_def add_entries_def count_miss_def count_eviction_def)

lemma size_updates [simp]:
  "st_size (ca_stats (add_size n c)) = st_size (ca_stats c) + n" "st_entries (ca_stats (add_size n c)) = st_entries (ca_stats c)"
  "st_size (ca_stats (sub_size n c)) = max 0 (st_size (ca_stats c) - n)" "st_entries (ca_stats (sub_size n c)) = st_entries (ca_stats c)"
  "st_size (ca_stats (add_entries m c)) = st_size (ca_stats c)" "st_entries (ca_stats (add_entries m c)) = st_entries (ca_stats c) + m"
  "st_size (ca_stats (count_miss c)) = st_size (ca_stats c)" "st_entries (ca_stats (count_miss c)) = st_entries (ca_stats c)"
  "st_size (ca_stats (count_eviction c)) = st_size (ca_stats c)" "st_entries (ca_stats (count_eviction c)) = st_entries (ca_stats c)"
  by (simp_all add: add_size_def sub_size_def add_entries_def count_miss_def count_eviction_def)

lemma removeEntry_parts [simp]:
  "ca_lru (removeEntry env k n c) = lru_remove k (ca_lru c)" "ca_cfg (removeEntry env k n c) = ca_cfg c"
  "st_size (ca_stats (removeEntry env k n c)) = max 0 (st_size (ca_stats c) - n)"
  "st_entries (ca_stats (removeEntry env k n c)) = st_entries (ca_stats c) - (if st_entries (ca_stats c) > 0 then 1 else 0)"
  "ca_disk (removeEntry env k n c) = ca_disk (remove_file env (metaPath (ca_cfg c) k) (remove_file env (keyPath (ca_cfg c) k) c))"
  by (simp_all add: removeEntry_def Let_def)

lemma evict_lru_entry_parts [simp]:
  "ca_lru (evict_lru_entry env e c) = lru_remove (le_key e) (ca_lru c)" "ca_cfg (evict_lru_entry env e c) = ca_cfg c"
  by (simp_all add: evict_lru_entry_def)

lemma eviction_run:
  "tracker_ok (ca_lru c) \<Longrightarrow> \<exists>es. let c' = fold (evict_lru_entry env) es c in
     evictLRUIfNeeded env c = Some c' \<and> tracked c = tracked c' + mset es \<and> sorted (map le_used es) \<and>
     (\<forall>e \<in> set es. \<forall>e' \<in># tracked c'. le_used e \<le> le_used e') \<and>
     (\<forall>i < length es. over_budget (fold (evict_lru_entry env) (take i es) c)) \<and> (over_budget c' \<longrightarrow> tracked c' = {#})"
proof (induction "size (tracked c)" arbitrary: c)
  case (0 c)
  then have "getLRU (ca_lru c) = None" using lru.oldest_none by simp
  then show ?case using 0 by (intro exI [of _ "[]"]) (simp add: evictLRUIfNeeded.simps [of env c])
next
  case (Suc n c)
  show ?case
  proof (cases "over_budget c")
    case False
    then show ?thesis by (intro exI [of _ "[]"]) (simp add: evictLRUIfNeeded.simps [of env c] over_budget_def)
  next
    case True
    from Suc.hyps(2) have "tracked c \<noteq> {#}" by auto
    then obtain e where e: "getLRU (ca_lru c) = Some e" using lru.oldest_none by (cases "getLRU (ca_lru c)") auto
    then have mem: "e \<in># tracked c" and least: "\<forall>e' \<in># tracked c. le_used e \<le> le_used e'" using lru.oldest_some by blast+
    define d where "d = evict_lru_entry env e c"
    have split: "tracked c = add_mset e (tracked d)" using lru.remove_entry [OF Suc.prems mem] by (simp add: d_def)
    have "n = size (tracked d)" using Suc.hyps(2) split by simp
    moreover have "tracker_ok (ca_lru d)" using Suc.prems by (simp add: d_def lru.inv_remove)
    ultimately obtain es where es: "evictLRUIfNeeded env d = Some (fold (evict_lru_entry env) es d)"
      and rest: "tracked d = tracked (fold (evict_lru_entry env) es d) + mset es" "sorted (map le_used es)"
        "\<forall>e \<in> set es. \<forall>e' \<in># tracked (fold (evict_lru_entry env) es d). le_used e \<le> le_used e'"
        "\<forall>i < length es. over_budget (fold (evict_lru_entry env) (take i es) d)"
        "over_budget (fold (evict_lru_entry env) es d) \<longrightarrow> tracked (fold (evict_lru_entry env) es d) = {#}"
      using Suc.hyps(1) [of d] by (auto simp: Let_def)
    have "evictLRUIfNeeded env c = Some (fold (evict_lru_entry env) (e # es) c)"
      using True e es by (simp add: evictLRUIfNeeded.simps [of env c] over_budget_def d_def)
    moreover have "tracked c = tracked (fold (evict_lru_entry env) (e # es) c) + mset (e # es)"
      using split rest(1) by (simp add: d_def)
    moreover have "set (lt_entries (ca_lru d)) = set (lt_entries (ca_lru (fold (evict_lru_entry env) es d))) \<union> set es"
      using arg_cong [OF rest(1), of set_mset] by simp
    then have "\<forall>x \<in> set es \<union> set (lt_entries (ca_lru (fold (evict_lru_entry env) es d))). le_used e \<le> le_used x"
      using least split by auto
    then have "sorted (map le_used (e # es))"
        "\<forall>x \<in> set (e # es). \<forall>e' \<in># tracked (fold (evict_lru_entry env) (e # es) c). le_used x \<le> le_used e'"
      using rest(2,3) unfolding d_def by simp_all
    moreover have "\<forall>i < length (e # es). over_budget (fold (evict_lru_entry env) (take i (e # es)) c)"
      using True rest(4) by (auto simp: less_Suc_eq_0_disj d_def)
    ultimately show ?thesis using rest(5) by (intro exI [of _ "e # es"]) (simp add: d_def Let_def)
  qed
qed

end
