(* ===== verification/CacheRuns.thy ===== *)
theory CacheRuns
  imports CacheGuarantees
begin

section \<open>Runs of the cache\<close>

text \<open>
  Every operation of the cache, also a restart of the worker, as one step. In any run, whatever calls fail, the index of the tracker is
  exact, so that eviction by size ends.
\<close>

subsection \<open>Steps\<close>

inductive cache_init :: "cache \<Rightarrow> bool" where
  "NewCache env default_dir cfg dir disk = Inr c \<Longrightarrow> cache_init c"

inductive cache_step :: "cache \<Rightarrow> cache \<Rightarrow> bool" where
  step_Check: "cache_step c (snd (Check env key c))"
| step_ConfirmHit: "cache_step c (ConfirmHit env key c)"
| step_Put: "cache_step c (snd (Put env key src ttl c))"
| step_evictExpired: "cache_step c (evictExpired env c)"
| step_evictLRU: "evictLRUIfNeeded env c = Some c' \<Longrightarrow> cache_step c c'"
| step_Clear: "cache_step c (snd (Clear env c))"
| step_restart: "NewCache env default_dir cfg dir disk = Inr c' \<Longrightarrow> cache_step c c'"

lemma cache_runs:
  "reach cache_init cache_step c \<Longrightarrow> reach cache_init cache_step (ConfirmHit env key c)"
  "reach cache_init cache_step c \<Longrightarrow> reach cache_init cache_step (snd (Put env key src ttl c))"
  "reach cache_init cache_step c \<Longrightarrow> reach cache_init cache_step (snd (Check env key c))"
  by (blast intro: reach_step cache_step.intros)+

abbreviation index_ok :: "cache \<Rightarrow> bool" where
  "index_ok c \<equiv> tracker_ok (ca_lru c)"

lemma index_removeEntry [simp]: "index_ok c \<Longrightarrow> index_ok (removeEntry env k n c)"
  by (simp add: lru.inv_remove)

lemma index_Check: "index_ok c \<Longrightarrow> index_ok (snd (Check env k c))"
  by (simp add: Check_def Let_def lru.inv_remove split: option.splits)

lemma index_track: "index_ok c \<Longrightarrow> index_ok (track_entry env k n c)"
  by (simp add: track_entry_def Let_def lru.inv_add split: option.splits)

lemma release_temp_parts [simp]:
  "ca_lru (release_temp env p c) = ca_lru c" "ca_cfg (release_temp env p c) = ca_cfg c" "ca_disk (release_temp env p c) = ca_disk c"
  "st_entries (ca_stats (release_temp env p c)) = st_entries (ca_stats c)"
  by (simp_all add: release_temp_def split: option.splits)

lemma requestLRUEviction_parts [simp]:
  "ca_lru (requestLRUEviction c) = ca_lru c" "ca_cfg (requestLRUEviction c) = ca_cfg c" "ca_disk (requestLRUEviction c) = ca_disk c"
  "ca_stats (requestLRUEviction c) = ca_stats c"
  by (simp_all add: requestLRUEviction_def)

lemma index_Put: "index_ok c \<Longrightarrow> index_ok (snd (Put env k src ttl c))"
  by (simp add: Put_def Let_def index_track split: option.splits prod.splits)

lemma fold_keeps: "(\<And>x a. P a \<Longrightarrow> P (f x a)) \<Longrightarrow> P a \<Longrightarrow> P (fold f xs a)"
  by (induction xs arbitrary: a) auto

lemma index_scan: "index_ok (fst acc) \<Longrightarrow> index_ok (fst (scan_file env pf acc))"
  by (cases acc; cases pf) (simp add: scan_file_def Let_def lru.inv_add split: option.splits)

lemma index_NewCache: "NewCache env default_dir cfg dir disk = Inr c \<Longrightarrow> index_ok c"
  using fold_keeps [where P = "\<lambda>acc. index_ok (fst acc)" and f = "scan_file env", OF index_scan]
  by (auto simp: NewCache_def Let_def scanExisting_def tracker_new split: if_splits sum.splits prod.splits)
     (metis cache.select_convs(3) fst_conv tracker_new)

lemma collect_parts: "fst (collect_expired env pf acc) = fst acc \<or> fst (collect_expired env pf acc) = remove_file env (fst pf) (fst acc)"
  by (cases acc; cases pf) (simp add: collect_expired_def Let_def split: option.splits)

lemma index_evictExpired: "index_ok c \<Longrightarrow> index_ok (evictExpired env c)"
proof -
  assume c: "index_ok c"
  have "index_ok (fst (fold (collect_expired env) (ca_disk c) (c, [])))"
    by (rule fold_keeps [where P = "\<lambda>acc. index_ok (fst acc)"]) (use c collect_parts in \<open>auto, metis file_updates(1)\<close>)
  moreover have "index_ok (fold (evict_key env) keys d)" if "index_ok d" for keys d
    by (rule fold_keeps) (use that in \<open>auto simp: evict_key_def Let_def lru.inv_remove split: option.splits\<close>)
  moreover have "index_ok (fst (fold (reclaim_temp env) xs (d, 0)))" if "index_ok d" for xs d
    by (rule fold_keeps [where P = "\<lambda>acc. index_ok (fst acc)"]) (use that in \<open>auto simp: reclaim_temp_def Let_def\<close>)
  ultimately show ?thesis by (simp add: evictExpired_def Let_def split: prod.splits) (metis fst_conv)
qed

lemma index_evictLRU: "index_ok c \<Longrightarrow> evictLRUIfNeeded env c = Some c' \<Longrightarrow> index_ok c'"
proof -
  assume c: "index_ok c" and run: "evictLRUIfNeeded env c = Some c'"
  obtain es where "evictLRUIfNeeded env c = Some (fold (evict_lru_entry env) es c)" using eviction_run [OF c, of env] by (auto simp: Let_def)
  moreover have "index_ok (fold (evict_lru_entry env) es c)" by (rule fold_keeps) (use c in \<open>simp_all add: lru.inv_remove\<close>)
  ultimately show ?thesis using run by simp
qed

interpretation cache: invariant_system cache_init cache_step index_ok
proof unfold_locales
  show "cache_init c \<Longrightarrow> index_ok c" for c by (auto elim!: cache_init.cases intro: index_NewCache)
  show "index_ok c \<Longrightarrow> cache_step c c' \<Longrightarrow> index_ok c'" for c c'
    by (auto elim!: cache_step.cases intro: index_Check index_Put index_evictExpired index_evictLRU index_NewCache
        simp: ConfirmHit_def Clear_def Let_def lru.inv_touch tracker_new)
qed

text \<open>
  C32: in every reachable cache, whatever calls failed before, eviction by size returns. It removes entries one at a time, each
  while the budget is exceeded, and stops as soon as it is met or nothing is tracked; no removed entry was used later than one that stays.
\<close>

theorem size_eviction_exact:
  assumes "reach cache_init cache_step c"
  shows "\<exists>es c'. evictLRUIfNeeded env c = Some c' \<and> c' = fold (evict_lru_entry env) es c \<and>
    (\<forall>i < length es. over_budget (fold (evict_lru_entry env) (take i es) c)) \<and> (over_budget c' \<longrightarrow> lt_entries (ca_lru c') = []) \<and>
    mset (lt_entries (ca_lru c)) = mset (lt_entries (ca_lru c')) + mset es \<and>
    (\<forall>e \<in> set es. \<forall>e' \<in> set (lt_entries (ca_lru c')). le_used e \<le> le_used e')"
  using eviction_run [OF cache.reach_inv [OF assms], of env] by (simp add: Let_def) blast

subsection \<open>A machine without failing calls\<close>

definition codec_env :: "(entry_meta \<Rightarrow> string) \<Rightarrow> (string \<Rightarrow> entry_meta option) \<Rightarrow> (cache_clock \<Rightarrow> time) \<Rightarrow> cache_env" where
  "codec_env enc dec now = \<lparr>ce_ok = (\<lambda>_. True), ce_junk = (\<lambda>_. None), ce_now = now, ce_encode = enc, ce_decode = dec\<rparr>"

text \<open>A form of the metadata for the examples: the key after its length, then the numbers.\<close>

definition zigzag :: "int \<Rightarrow> int" where
  "zigzag n = (if n < 0 then - 2 * n - 1 else 2 * n)"

definition unzigzag :: "int \<Rightarrow> int" where
  "unzigzag n = (if even n then n div 2 else - (n + 1) div 2)"

definition plain_encode :: "entry_meta \<Rightarrow> string" where
  "plain_encode m = Itoa (int (length (em_key m))) @ CHR '':'' # em_key m @ CHR '':'' #
     Itoa (zigzag (em_created m)) @ CHR '':'' # Itoa (zigzag (em_size m)) @ CHR '':'' # Itoa (zigzag (em_ttl m))"

definition read_number :: "string \<Rightarrow> (int \<times> string) option" where
  "read_number s =
     (case Cut (CHR '':'') s of
        (a, b) \<Rightarrow> (case read_digits 0 a of None \<Rightarrow> None | Some n \<Rightarrow> Some (n, case b of None \<Rightarrow> [] | Some r \<Rightarrow> r)))"

definition plain_decode :: "string \<Rightarrow> entry_meta option" where
  "plain_decode s =
     (case read_number s of
        None \<Rightarrow> None
      | Some (n, s) \<Rightarrow>
          (case read_number (drop (nat n + 1) s) of
             None \<Rightarrow> None
           | Some (a, s2) \<Rightarrow>
               (case read_number s2 of
                  None \<Rightarrow> None
                | Some (b, s3) \<Rightarrow>
                    (case read_number s3 of
                       None \<Rightarrow> None
                     | Some (t, _) \<Rightarrow>
                         Some \<lparr>em_key = take (nat n) s, em_created = unzigzag a, em_size = unzigzag b, em_ttl = unzigzag t\<rparr>))))"

lemma digits_only: "0 \<le> n \<Longrightarrow> c \<in> set (show_pos n) \<Longrightarrow> digit_value c \<noteq> None"
proof (induction n rule: show_pos.induct)
  case (1 n)
  then show ?case by (subst (asm) (2) show_pos.simps) (auto split: if_splits)
qed

lemma colon_no_digit [simp]: "0 \<le> n \<Longrightarrow> CHR '':'' \<notin> set (Itoa n)"
proof
  assume "0 \<le> n" "CHR '':'' \<in> set (Itoa n)"
  then have "digit_value CHR '':'' \<noteq> None" using digits_only by (simp add: Itoa_def)
  then show False by (simp add: digit_value_def)
qed

lemma Cut_nosep: "sep \<notin> set s \<Longrightarrow> Cut sep s = (s, None)"
  by (induction s) auto

lemma read_number_Itoa: "0 \<le> n \<Longrightarrow> read_number (Itoa n @ CHR '':'' # r) = Some (n, r)" "0 \<le> n \<Longrightarrow> read_number (Itoa n) = Some (n, [])"
proof -
  assume n: "0 \<le> n"
  then have d: "read_digits 0 (Itoa n) = Some n" by (simp add: Itoa_def read_show_pos)
  then show "read_number (Itoa n @ CHR '':'' # r) = Some (n, r)" using n by (simp add: read_number_def Cut_append)
  have "CHR '':'' \<notin> set (Itoa n)" using n by simp
  then have "Cut (CHR '':'') (Itoa n) = (Itoa n, None)" by (rule Cut_nosep)
  then show "read_number (Itoa n) = Some (n, [])" using d by (simp add: read_number_def)
qed

lemma zigzag [simp]: "0 \<le> zigzag n" "unzigzag (zigzag n) = n"
  by (auto simp: zigzag_def unzigzag_def)

lemma plain_codec: "plain_decode (plain_encode m) = Some m"
  by (cases m) (simp add: plain_decode_def plain_encode_def read_number_Itoa)

definition example_env :: "time \<Rightarrow> cache_env" where
  "example_env t = codec_env plain_encode plain_decode (\<lambda>_. t)"

definition example_key :: "char \<Rightarrow> string" where "example_key c = replicate 64 c"

definition example_cfg :: cache_config where
  "example_cfg = (DefaultCacheConfig ''/c'')\<lparr>cc_max_size := 5\<rparr>"

definition example_cache :: cache where
  "example_cache =
     (let c = \<lparr>ca_cfg = example_cfg, ca_stats = no_stats, ca_lru = newLRUTracker, ca_disk = [], ca_evict = False\<rparr>;
          c = snd (Put (example_env 1) (example_key CHR ''a'') (Some (3, ''abc'')) None c);
          c = snd (Put (example_env 2) (example_key CHR ''b'') (Some (4, ''abcd'')) None c)
      in ConfirmHit (example_env 3) (example_key CHR ''a'') c)"

lemma example_reachable: "reach cache_init cache_step example_cache"
proof -
  have "cache_init \<lparr>ca_cfg = example_cfg, ca_stats = no_stats, ca_lru = newLRUTracker, ca_disk = [], ca_evict = False\<rparr>"
    by (rule cache_init.intros [of "example_env 0" "''/c''" example_cfg "Inr 448" "[]"])
       (simp add: NewCache_def scanExisting_def example_cfg_def cache_defaults_def DefaultCacheConfig_def Let_def no_stats_def seconds_def)
  then show ?thesis unfolding example_cache_def Let_def by (intro cache_runs reach_init)
qed

theorem size_eviction_exact_witness:
  "reach cache_init cache_step example_cache \<and>
   (\<exists>es c'. evictLRUIfNeeded (example_env 4) example_cache = Some c' \<and> c' = fold (evict_lru_entry (example_env 4)) es example_cache \<and>
      (\<forall>i < length es. over_budget (fold (evict_lru_entry (example_env 4)) (take i es) example_cache)))"
  using size_eviction_exact [OF example_reachable, of "example_env 4"] example_reachable by blast

lemma example_eviction:
  "map_option (\<lambda>c. map (\<lambda>e. hd (le_key e)) (lt_entries (ca_lru c))) (evictLRUIfNeeded (example_env 4) example_cache) = Some ''a''"
  by code_simp

end
