(* ===== verification/CacheHits.thy ===== *)
theory CacheHits
  imports CacheRuns
begin

section \<open>What a cache hit is\<close>

text \<open>The paths of the cache do not collide, so the bytes under a key are those that were stored for it.\<close>

subsection \<open>Paths\<close>

lemma hex_no_dot: "validCacheKey k \<Longrightarrow> CHR ''.'' \<notin> set k"
  by (auto simp: validCacheKey_def list_all_iff hex_char_def Let_def)

lemma keyPath_valid: "validCacheKey k \<Longrightarrow> keyPath cfg k = cc_dir cfg @ ''/'' @ take 2 k @ ''/'' @ k"
  by (simp add: keyPath_def)

lemma keyPath_nonempty [simp]: "validCacheKey k \<Longrightarrow> keyPath cfg k \<noteq> []"
  by (simp add: keyPath_def)

lemma metaPath_valid: "validCacheKey k \<Longrightarrow> metaPath cfg k = keyPath cfg k @ ''.meta''"
  by (simp add: metaPath_def Let_def)

lemma keyPath_no_suffix:
  assumes "validCacheKey k" and "CHR ''.'' \<in> set s" and "length s \<le> 64"
  shows "\<not> HasSuffix (keyPath cfg k) s"
proof
  assume "HasSuffix (keyPath cfg k) s"
  then have "suffix s ((cc_dir cfg @ ''/'' @ take 2 k @ ''/'') @ k)" using assms(1) by (simp add: HasSuffix_iff keyPath_valid)
  moreover have "length s \<le> length k" using assms by (simp add: validCacheKey_def)
  ultimately have "suffix s k" by (metis suffix_length_suffix suffixI append.assoc)
  then have "set s \<subseteq> set k" by (auto simp: suffix_def)
  then show False using assms hex_no_dot by blast
qed

lemma keyPath_suffixes [simp]:
  "validCacheKey k \<Longrightarrow> \<not> HasSuffix (keyPath cfg k) ''.meta''" "validCacheKey k \<Longrightarrow> \<not> HasSuffix (keyPath cfg k) ''.tmp''"
  by (simp_all add: keyPath_no_suffix)

lemma temp_suffixes [simp]: "HasSuffix (a @ ''.tmp'') ''.tmp''" "\<not> HasSuffix (a @ ''.tmp'') ''.meta''"
  by (simp_all add: HasSuffix_def)

lemma meta_suffixes [simp]: "validCacheKey k \<Longrightarrow> HasSuffix (metaPath cfg k) ''.meta''" "\<not> HasSuffix (metaPath cfg k) ''.tmp''"
  by (auto simp: HasSuffix_def metaPath_def Let_def)

lemma path_kinds [simp]:
  "validCacheKey k \<Longrightarrow> validCacheKey j \<Longrightarrow> keyPath cfg k \<noteq> metaPath cfg j" "validCacheKey k \<Longrightarrow> validCacheKey j \<Longrightarrow> metaPath cfg j \<noteq> keyPath cfg k"
  "validCacheKey k \<Longrightarrow> keyPath cfg k \<noteq> a @ ''.tmp''" "validCacheKey k \<Longrightarrow> a @ ''.tmp'' \<noteq> keyPath cfg k"
  "validCacheKey k \<Longrightarrow> metaPath cfg k \<noteq> a @ ''.tmp''" "validCacheKey k \<Longrightarrow> a @ ''.tmp'' \<noteq> metaPath cfg k"
  by (metis keyPath_suffixes meta_suffixes temp_suffixes)+

lemma keyPath_tail: "validCacheKey k \<Longrightarrow> drop (length (keyPath cfg k) - 64) (keyPath cfg k) = k"
proof -
  assume k: "validCacheKey k"
  then have "length k = 64" by (simp add: validCacheKey_def)
  moreover obtain x where "keyPath cfg k = x @ k" using keyPath_valid [OF k, of cfg] by (metis append.assoc)
  ultimately show ?thesis by simp
qed

lemma keyPath_inj [simp]: "validCacheKey k \<Longrightarrow> validCacheKey j \<Longrightarrow> keyPath cfg k = keyPath cfg j \<longleftrightarrow> k = j"
  using keyPath_tail by metis

lemma metaPath_inj [simp]: "validCacheKey k \<Longrightarrow> validCacheKey j \<Longrightarrow> metaPath cfg k = metaPath cfg j \<longleftrightarrow> k = j"
  by (simp add: metaPath_valid)

lemma meta_of_key [simp]: "validCacheKey k \<Longrightarrow> take (length (metaPath cfg k) - 5) (metaPath cfg k) = keyPath cfg k"
  by (simp add: metaPath_valid)

subsection \<open>Files\<close>

lemma file_at_updates [simp]:
  "file_at q (write_file p d t c) = (if q = p then Some \<lparr>cf_data = d, cf_mtime = t\<rparr> else file_at q c)"
  "file_at q (drop_file p c) = (if q = p then None else file_at q c)"
  "file_at q (remove_file env p c) = (if q = p \<and> ce_ok env (CallRemove p) then None else file_at q c)"
  "file_at q (c\<lparr>ca_lru := l\<rparr>) = file_at q c" "file_at q (c\<lparr>ca_stats := st\<rparr>) = file_at q c" "file_at q (c\<lparr>ca_evict := b\<rparr>) = file_at q c"
  by (simp_all add: file_at_def write_file_def drop_file_def remove_file_def update_conv' delete_conv')

lemma file_at_disk: "ca_disk c = ca_disk d \<Longrightarrow> file_at p c = file_at p d"
  by (simp add: file_at_def)

lemma file_at_stats [simp]:
  "file_at q (add_size n c) = file_at q c" "file_at q (sub_size n c) = file_at q c" "file_at q (add_entries n c) = file_at q c"
  "file_at q (count_miss c) = file_at q c" "file_at q (count_eviction c) = file_at q c" "file_at q (release_temp env p c) = file_at q c"
  "file_at q (requestLRUEviction c) = file_at q c"
  by (auto intro: file_at_disk)

lemma file_at_removeEntry [simp]:
  "file_at q (removeEntry env k n c) =
     file_at q (remove_file env (metaPath (ca_cfg c) k) (remove_file env (keyPath (ca_cfg c) k) c))"
  by (rule file_at_disk) simp

lemma file_at_track [simp]: "file_at q (track_entry env k n c) = file_at q c"
  by (simp add: track_entry_def Let_def split: option.splits)

text \<open>What an operation that writes nothing leaves was there before.\<close>

definition shrinks :: "cache \<Rightarrow> cache \<Rightarrow> bool" where
  "shrinks c c' \<longleftrightarrow> ca_cfg c' = ca_cfg c \<and> (\<forall>p f. file_at p c' = Some f \<longrightarrow> file_at p c = Some f)"

lemma shrinks_refl [simp]: "shrinks c c"
  by (simp add: shrinks_def)

lemma shrinks_trans: "shrinks c d \<Longrightarrow> shrinks d e \<Longrightarrow> shrinks c e"
  by (simp add: shrinks_def)

lemma shrinks_basic [simp]:
  "shrinks c (remove_file env p c)" "shrinks c (drop_file p c)" "shrinks c (removeEntry env k n c)" "shrinks c (count_miss c)"
  "shrinks c (ConfirmHit env k c)" "shrinks c (evict_key env k c)" "shrinks c (evict_lru_entry env e c)" "shrinks c (sub_size n c)"
  by (auto simp: shrinks_def ConfirmHit_def evict_key_def evict_lru_entry_def Let_def split: option.splits if_splits)

lemma shrinks_fold: "(\<And>x a. shrinks a (f x a)) \<Longrightarrow> shrinks c (fold f xs c)"
  by (rule fold_keeps [where P = "shrinks c"]) (auto intro: shrinks_trans)

lemma shrinks_fold_fst: "(\<And>x a. shrinks (fst a) (fst (f x a))) \<Longrightarrow> shrinks (fst a) (fst (fold f xs a))"
  by (rule fold_keeps [where P = "\<lambda>b. shrinks (fst a) (fst b)"]) (auto intro: shrinks_trans)

lemma shrinks_Check [simp]: "shrinks c (snd (Check env k c))"
proof -
  have "shrinks c (count_miss (removeEntry env k n c))" for n by (rule shrinks_trans [of _ "removeEntry env k n c"]) simp_all
  then show ?thesis by (simp add: Check_def Let_def split: option.splits)
qed

lemma shrinks_collect [simp]: "shrinks (fst acc) (fst (collect_expired env pf acc))"
  using collect_parts [of env pf acc] shrinks_basic(1) shrinks_refl by metis

lemma shrinks_evictExpired [simp]: "shrinks c (evictExpired env c)"
proof -
  obtain d keys where d: "fold (collect_expired env) (ca_disk c) (c, []) = (d, keys)" by (cases "fold (collect_expired env) (ca_disk c) (c, [])")
  define e where "e = fold (evict_key env) keys d"
  obtain g n where g: "fold (reclaim_temp env) (ca_disk e) (e, 0) = (g, n)" by (cases "fold (reclaim_temp env) (ca_disk e) (e, 0)")
  have "shrinks c d" using shrinks_fold_fst [of "collect_expired env" "(c, [])", OF shrinks_collect] d by (metis fst_conv)
  moreover have "shrinks d e" unfolding e_def by (rule shrinks_fold) simp
  moreover have "shrinks (fst a) (fst (reclaim_temp env pf a))" for pf a
    by (cases a; cases pf) (simp add: reclaim_temp_def Let_def)
  then have "shrinks e g" using shrinks_fold_fst [of "reclaim_temp env" "(e, 0)"] g by (metis fst_conv)
  ultimately have "shrinks c g" "shrinks c (sub_size n g)" by (blast intro: shrinks_trans shrinks_basic(8))+
  then show ?thesis using d g by (simp add: evictExpired_def Let_def e_def)
qed

lemma shrinks_evictLRU: "index_ok c \<Longrightarrow> evictLRUIfNeeded env c = Some c' \<Longrightarrow> shrinks c c'"
  using eviction_run [of c env] shrinks_fold [where f = "evict_lru_entry env" and c = c] by (auto simp: Let_def)

lemma map_of_filter_key: "map_of (filter (\<lambda>(p, f). Q p) d) p = (if Q p then map_of d p else None)"
  by (induction d) auto

lemma shrinks_Clear [simp]: "shrinks c (snd (Clear env c))"
  by (auto simp: Clear_def shrinks_def file_at_def Let_def map_of_filter_key split: if_splits)

lemma shrinks_scan [simp]: "shrinks (fst acc) (fst (scan_file env pf acc))"
  by (cases acc; cases pf) (auto simp: scan_file_def Let_def shrinks_def split: option.splits if_splits)

lemma shrinks_scanExisting [simp]: "shrinks c (scanExisting env c)"
proof -
  have "shrinks c (fst (fold (scan_file env) (ca_disk c) (c, 0, 0)))"
    using shrinks_fold_fst [of "scan_file env" "(c, 0, 0)", OF shrinks_scan] by simp
  moreover obtain d a b where "fold (scan_file env) (ca_disk c) (c, 0, 0) = (d, a, b)" by (metis prod_cases3)
  ultimately show ?thesis by (simp add: scanExisting_def shrinks_def)
qed

subsection \<open>Everything that was ever stored\<close>

text \<open>
  The form of the metadata is read back as it was written, and what an interrupted write leaves cannot be read. Any call may fail.
\<close>

definition readable :: "(string \<Rightarrow> entry_meta option) \<Rightarrow> cache_env \<Rightarrow> bool" where
  "readable dec env \<longleftrightarrow> ce_decode env = dec \<and> (\<forall>m. dec (ce_encode env m) = Some m) \<and>
     (\<forall>p s. ce_junk env (CallWrite p) = Some s \<longrightarrow> dec s = None)"

record stored =
  sd_key :: string
  sd_data :: string
  sd_created :: time
  sd_ttl :: duration

definition put_ttl :: "duration option \<Rightarrow> duration" where
  "put_ttl ttl = (case ttl of Some t \<Rightarrow> if t > 0 then t else 0 | None \<Rightarrow> 0)"

text \<open>The list has every insertion that was tried, also those that failed.\<close>

inductive hit_init :: "cache \<times> stored list \<Rightarrow> bool" where
  "NewCache env default_dir cfg dir [] = Inr c \<Longrightarrow> hit_init (c, puts)"

inductive hit_step :: "(string \<Rightarrow> entry_meta option) \<Rightarrow> cache \<times> stored list \<Rightarrow> cache \<times> stored list \<Rightarrow> bool" for dec where
  hit_Check: "hit_step dec (c, puts) (snd (Check env key c), puts)"
| hit_ConfirmHit: "hit_step dec (c, puts) (ConfirmHit env key c, puts)"
| hit_Put: "readable dec env \<Longrightarrow> hit_step dec (c, puts)
    (snd (Put env key (Some (n, data)) ttl c), \<lparr>sd_key = key, sd_data = data, sd_created = ce_now env CreatedAt, sd_ttl = put_ttl ttl\<rparr> # puts)"
| hit_evictExpired: "hit_step dec (c, puts) (evictExpired env c, puts)"
| hit_evictLRU: "evictLRUIfNeeded env c = Some c' \<Longrightarrow> hit_step dec (c, puts) (c', puts)"
| hit_Clear: "hit_step dec (c, puts) (snd (Clear env c), puts)"
| hit_restart: "NewCache env default_dir (ca_cfg c) dir (ca_disk c) = Inr c' \<Longrightarrow> cc_dir (ca_cfg c) \<noteq> [] \<Longrightarrow> hit_step dec (c, puts) (c', puts)"

definition stored_ok :: "(string \<Rightarrow> entry_meta option) \<Rightarrow> cache \<Rightarrow> stored list \<Rightarrow> bool" where
  "stored_ok dec c puts \<longleftrightarrow>
     (\<forall>k f. validCacheKey k \<and> file_at (keyPath (ca_cfg c) k) c = Some f \<longrightarrow> (\<exists>s \<in> set puts. sd_key s = k \<and> sd_data s = cf_data f)) \<and>
     (\<forall>k f m. validCacheKey k \<and> file_at (metaPath (ca_cfg c) k) c = Some f \<and> dec (cf_data f) = Some m \<longrightarrow>
        (\<exists>s \<in> set puts. sd_key s = k \<and> sd_created s = em_created m \<and> sd_ttl s = em_ttl m))"

lemma stored_shrinks: "stored_ok dec c puts \<Longrightarrow> shrinks c c' \<Longrightarrow> stored_ok dec c' puts"
  unfolding stored_ok_def shrinks_def by (elim conjE, simp) blast

lemma stored_Put:
  assumes ok: "stored_ok dec c puts" and r: "readable dec env"
  shows "stored_ok dec (snd (Put env key (Some (n, data)) ttl c))
    (\<lparr>sd_key = key, sd_data = data, sd_created = ce_now env CreatedAt, sd_ttl = put_ttl ttl\<rparr> # puts)"
proof (cases "cc_enabled (ca_cfg c) \<and> validCacheKey key")
  case True
  let ?c' = "snd (Put env key (Some (n, data)) ttl c)"
  let ?p = "keyPath (ca_cfg c) key" let ?m = "metaPath (ca_cfg c) key"
  let ?meta = "\<lparr>em_key = key, em_created = ce_now env CreatedAt, em_size = n, em_ttl = put_ttl ttl\<rparr>"
  have cfg: "ca_cfg ?c' = ca_cfg c"
    using True by (simp add: Put_def Let_def track_entry_def split: option.splits)
  have data: "cf_data f = data \<or> file_at (keyPath (ca_cfg c) k) c = Some f" "k = key \<or> file_at (keyPath (ca_cfg c) k) c = Some f"
    if "validCacheKey k" "file_at (keyPath (ca_cfg c) k) ?c' = Some f" for k f
    using that True by (auto simp: Put_def Let_def spoil_file_def split: if_splits option.splits)
  have meta: "k = key \<and> (cf_data f = ce_encode env ?meta \<or> ce_junk env (CallWrite ?m) = Some (cf_data f)) \<or> file_at (metaPath (ca_cfg c) k) c = Some f"
    if "validCacheKey k" "file_at (metaPath (ca_cfg c) k) ?c' = Some f" for k f
    using that True by (auto simp: Put_def Let_def put_ttl_def spoil_file_def split: if_splits option.splits)
  show ?thesis unfolding stored_ok_def cfg
  proof (intro conjI allI impI; elim conjE)
    fix k f assume "validCacheKey k" "file_at (keyPath (ca_cfg c) k) ?c' = Some f"
    then show "\<exists>s \<in> set (\<lparr>sd_key = key, sd_data = data, sd_created = ce_now env CreatedAt, sd_ttl = put_ttl ttl\<rparr> # puts).
        sd_key s = k \<and> sd_data s = cf_data f"
      using data [of k f] ok unfolding stored_ok_def by (cases "file_at (keyPath (ca_cfg c) k) c = Some f") auto
  next
    fix k f m assume k: "validCacheKey k" "file_at (metaPath (ca_cfg c) k) ?c' = Some f" "dec (cf_data f) = Some m"
    show "\<exists>s \<in> set (\<lparr>sd_key = key, sd_data = data, sd_created = ce_now env CreatedAt, sd_ttl = put_ttl ttl\<rparr> # puts).
        sd_key s = k \<and> sd_created s = em_created m \<and> sd_ttl s = em_ttl m"
    proof (cases "file_at (metaPath (ca_cfg c) k) c = Some f")
      case True
      then show ?thesis using ok k unfolding stored_ok_def by (metis list.set_intros(2))
    next
      case False
      then have "k = key" "m = ?meta" using meta [OF k(1,2)] k(3) r by (auto simp: readable_def)
      then show ?thesis by simp
    qed
  qed
next
  case False
  then have "snd (Put env key (Some (n, data)) ttl c) = c" by (auto simp: Put_def)
  then show ?thesis using ok unfolding stored_ok_def by (metis list.set_intros(2))
qed

lemma NewCache_disk: "NewCache env default_dir cfg dir disk = Inr c \<Longrightarrow>
    ca_cfg c = (if cc_enabled cfg then cache_defaults default_dir cfg else cfg) \<and> (\<forall>p f. file_at p c = Some f \<longrightarrow> map_of disk p = Some f)"
proof -
  assume new: "NewCache env default_dir cfg dir disk = Inr c"
  define b where "b = \<lparr>ca_cfg = (if cc_enabled cfg then cache_defaults default_dir cfg else cfg), ca_stats = no_stats,
    ca_lru = newLRUTracker, ca_disk = disk, ca_evict = False\<rparr>"
  have "c = b \<or> c = scanExisting env b" using new by (auto simp: NewCache_def Let_def b_def split: if_splits sum.splits)
  then have "shrinks b c" by auto
  then show ?thesis by (simp add: shrinks_def file_at_def b_def)
qed

lemma stored_restart:
  assumes "stored_ok dec c puts" and new: "NewCache env default_dir (ca_cfg c) dir (ca_disk c) = Inr c'" and "cc_dir (ca_cfg c) \<noteq> []"
  shows "stored_ok dec c' puts"
proof -
  have "cc_dir (ca_cfg c') = cc_dir (ca_cfg c)" using NewCache_disk [OF new] assms(3) by (auto simp: cache_defaults_def)
  then have "keyPath (ca_cfg c') = keyPath (ca_cfg c)" "metaPath (ca_cfg c') = metaPath (ca_cfg c)"
    by (simp_all add: keyPath_def metaPath_def fun_eq_iff)
  moreover have "\<forall>p f. file_at p c' = Some f \<longrightarrow> file_at p c = Some f" using NewCache_disk [OF new] by (simp add: file_at_def)
  ultimately show ?thesis using assms(1) unfolding stored_ok_def by simp blast
qed

interpretation hits: invariant_system hit_init "hit_step dec" "\<lambda>(c, puts). index_ok c \<and> stored_ok dec c puts" for dec
proof unfold_locales
  fix s t :: "cache \<times> stored list"
  show "hit_init s \<Longrightarrow> case s of (c, puts) \<Rightarrow> index_ok c \<and> stored_ok dec c puts"
    by (auto elim!: hit_init.cases simp: stored_ok_def dest: index_NewCache NewCache_disk)
  assume inv: "case s of (c, puts) \<Rightarrow> index_ok c \<and> stored_ok dec c puts" and step: "hit_step dec s t"
  show "case t of (c, puts) \<Rightarrow> index_ok c \<and> stored_ok dec c puts"
    using step inv
  proof (induction rule: hit_step.induct)
    case (hit_restart env default_dir c dir c' puts)
    then show ?case using index_NewCache stored_restart by auto
  qed (auto intro: stored_Put stored_shrinks stored_shrinks [OF _ shrinks_evictLRU] cache.step_inv cache_step.intros)
qed

lemma Check_hit:
  assumes "Check env key c = (Some p, c')"
  shows "c' = c \<and> validCacheKey key \<and> p = keyPath (ca_cfg c) key \<and>
    (\<exists>f g m. file_at p c = Some f \<and> cf_data f \<noteq> [] \<and> int (length (cf_data f)) = em_size m \<and>
      file_at (metaPath (ca_cfg c) key) c = Some g \<and> ce_decode env (cf_data g) = Some m \<and>
      \<not> expired env (ca_cfg c) (metaPath (ca_cfg c) key) m)"
  using assms by (auto simp: Check_def Let_def loadMeta_def bind_eq_Some_conv split: if_splits option.splits)


text \<open>What an insertion stored is found again, with its bytes, for as long as its limit allows.\<close>

theorem cache_roundtrip:
  assumes "cc_enabled (ca_cfg c)" and "Put env key (Some (int (length data), data)) ttl c = (None, c1)" and "data \<noteq> []"
    and "ce_decode env2 = dec" and "\<forall>m. dec (ce_encode env m) = Some m" and "\<forall>call. ce_ok env2 call"
    and "ce_now env2 (ReadAt (metaPath (ca_cfg c) key)) - ce_now env CreatedAt \<le> (if put_ttl ttl > 0 then put_ttl ttl else cc_ttl (ca_cfg c))"
  shows "Check env2 key c1 = (Some (keyPath (ca_cfg c) key), c1) \<and> map_option cf_data (file_at (keyPath (ca_cfg c) key) c1) = Some data"
proof -
  have v: "validCacheKey key" using assms(1,2) by (auto simp: Put_def split: if_splits)
  have cfg: "ca_cfg c1 = ca_cfg c"
    and f: "map_option cf_data (file_at (keyPath (ca_cfg c) key) c1) = Some data"
    and g: "map_option cf_data (file_at (metaPath (ca_cfg c) key) c1) =
      Some (ce_encode env \<lparr>em_key = key, em_created = ce_now env CreatedAt, em_size = int (length data), em_ttl = put_ttl ttl\<rparr>)"
    using assms(1,2) v by (auto simp: Put_def Let_def put_ttl_def track_entry_def split: if_splits option.splits)
  obtain ff where ff: "file_at (keyPath (ca_cfg c) key) c1 = Some ff" "cf_data ff = data" using f by auto
  obtain gg where gg: "file_at (metaPath (ca_cfg c) key) c1 = Some gg"
      "cf_data gg = ce_encode env \<lparr>em_key = key, em_created = ce_now env CreatedAt, em_size = int (length data), em_ttl = put_ttl ttl\<rparr>"
    using g by auto
  show ?thesis using assms v cfg ff gg by (auto simp: Check_def Let_def loadMeta_def expired_def entryTTL_def not_less split: if_splits)
qed

definition example_start :: cache where
  "example_start = \<lparr>ca_cfg = example_cfg, ca_stats = no_stats, ca_lru = newLRUTracker, ca_disk = [], ca_evict = False\<rparr>"

lemma example_start: "NewCache (example_env 0) ''/c'' example_cfg (Inr 448) [] = Inr example_start"
  by (simp add: example_start_def NewCache_def scanExisting_def example_cfg_def cache_defaults_def DefaultCacheConfig_def Let_def
      no_stats_def seconds_def)

lemma example_readable: "readable plain_decode (example_env t)"
  by (simp add: readable_def example_env_def codec_env_def plain_codec)

definition example_stored :: cache where
  "example_stored = snd (Put (example_env 1) (example_key CHR ''a'') (Some (3, ''abc'')) None example_start)"

definition example_puts :: "stored list" where
  "example_puts = [\<lparr>sd_key = example_key CHR ''a'', sd_data = ''abc'', sd_created = 1, sd_ttl = 0\<rparr>]"

lemma example_stored_reachable: "reach hit_init (hit_step plain_decode) (example_stored, example_puts)"
proof (rule reach_step)
  show "reach hit_init (hit_step plain_decode) (example_start, [])" by (rule reach_init, rule hit_init.intros, rule example_start)
  show "hit_step plain_decode (example_start, []) (example_stored, example_puts)"
    using hit_Put [OF example_readable [of 1], of example_start "[]" "example_key CHR ''a''" 3 "''abc''" None]
    by (simp add: example_stored_def example_puts_def put_ttl_def) (simp add: example_env_def codec_env_def)
qed

lemma example_hit: "Check (example_env 4) (example_key CHR ''a'') example_stored =
    (Some (keyPath example_cfg (example_key CHR ''a'')), snd (Check (example_env 4) (example_key CHR ''a'') example_stored))"
proof -
  have "fst (Check (example_env 4) (example_key CHR ''a'') example_stored) = Some (keyPath example_cfg (example_key CHR ''a''))"
    by code_simp
  then show ?thesis by (metis prod.collapse)
qed


theorem cache_roundtrip_witness:
  "Check (example_env 4) (example_key CHR ''a'') example_stored = (Some (keyPath example_cfg (example_key CHR ''a'')), example_stored) \<and>
   map_option cf_data (file_at (keyPath example_cfg (example_key CHR ''a'')) example_stored) = Some ''abc''"
proof -
  have "Put (example_env 1) (example_key CHR ''a'') (Some (int (length ''abc''), ''abc'')) None example_start = (None, example_stored)"
  proof -
    have "fst (Put (example_env 1) (example_key CHR ''a'') (Some (3, ''abc'')) None example_start) = None" by code_simp
    then show ?thesis by (simp add: example_stored_def prod_eq_iff)
  qed
  from cache_roundtrip [OF _ this, of "example_env 4" plain_decode] show ?thesis
    by (simp add: example_start_def example_env_def codec_env_def plain_codec put_ttl_def) (simp add: example_cfg_def DefaultCacheConfig_def seconds_def)
qed

end
