(* ===== verification/CacheBooks.thy ===== *)
theory CacheBooks
  imports CacheHits
begin

section \<open>The accounts of the cache\<close>

text \<open>
  In a run without failing calls, with restarts and copies that a crash cut short, the recorded size and number of entries are those
  of the directory. A failing call can break them: see \<open>missing_file_leaks_size\<close>.
\<close>

subsection \<open>Sums over the directory\<close>

definition temp_weight :: "string \<times> cache_file \<Rightarrow> int" where
  "temp_weight pf = (if HasSuffix (fst pf) ''.tmp'' then int (length (cf_data (snd pf))) else 0)"

definition temp_bytes :: "cache_disk \<Rightarrow> int" where
  "temp_bytes d = sum_list (map temp_weight d)"

lemma temp_weight_nonneg [simp]: "0 \<le> temp_weight pf"
  by (simp add: temp_weight_def)

lemma temp_bytes_nonneg [simp]: "0 \<le> temp_bytes d"
  by (auto simp: temp_bytes_def intro!: sum_list_nonneg)

lemma temp_bytes_delete:
  "distinct (map fst d) \<Longrightarrow> temp_bytes (AList.delete p d) = temp_bytes d - (case map_of d p of Some f \<Rightarrow> temp_weight (p, f) | None \<Rightarrow> 0)"
proof (induction d)
  case (Cons x d)
  show ?case
  proof (cases "fst x = p")
    case True
    then have "p \<notin> fst ` set d" using Cons.prems by auto
    then have "AList.delete p d = d" by simp
    then show ?thesis using True by (cases x) (simp add: temp_bytes_def AList.delete_eq)
  next
    case False
    then show ?thesis using Cons by (cases x) (simp add: temp_bytes_def AList.delete_eq)
  qed
qed (simp add: temp_bytes_def AList.delete_eq)

lemma temp_bytes_update:
  "distinct (map fst d) \<Longrightarrow> temp_bytes (AList.update p f d) =
     temp_bytes d - (case map_of d p of Some g \<Rightarrow> temp_weight (p, g) | None \<Rightarrow> 0) + temp_weight (p, f)"
  by (induction d) (auto simp: temp_bytes_def)

lemma temp_weight_other [simp]: "\<not> HasSuffix p ''.tmp'' \<Longrightarrow> temp_weight (p, f) = 0"
  by (simp add: temp_weight_def)

definition clean :: "cache \<Rightarrow> bool" where
  "clean c \<longleftrightarrow> distinct (map fst (ca_disk c))"

lemma clean_updates [simp]:
  "clean c \<Longrightarrow> clean (write_file p d t c)" "clean c \<Longrightarrow> clean (drop_file p c)" "clean c \<Longrightarrow> clean (remove_file env p c)"
  by (simp_all add: clean_def write_file_def drop_file_def remove_file_def distinct_update distinct_delete)

lemma clean_disk: "ca_disk c' = ca_disk c \<Longrightarrow> clean c' = clean c"
  by (simp add: clean_def)

lemma temp_bytes_files:
  "clean c \<Longrightarrow> \<not> HasSuffix p ''.tmp'' \<Longrightarrow> temp_bytes (ca_disk (write_file p d t c)) = temp_bytes (ca_disk c)"
  "clean c \<Longrightarrow> \<not> HasSuffix p ''.tmp'' \<Longrightarrow> temp_bytes (ca_disk (remove_file env p c)) = temp_bytes (ca_disk c)"
  "clean c \<Longrightarrow> temp_bytes (ca_disk (drop_file p c)) = temp_bytes (ca_disk c) - (case file_at p c of Some f \<Rightarrow> temp_weight (p, f) | None \<Rightarrow> 0)"
  by (auto simp: write_file_def remove_file_def drop_file_def clean_def temp_bytes_update temp_bytes_delete file_at_def split: option.splits)

subsection \<open>The invariant\<close>

text \<open>
  What a clean shutdown, or a crash in the middle of a copy, leaves: readable metadata lies under the name of its key and has the size of its file.
\<close>

definition disk_ok :: "(string \<Rightarrow> entry_meta option) \<Rightarrow> cache \<Rightarrow> bool" where
  "disk_ok dec c \<longleftrightarrow> clean c \<and>
     (\<forall>p f m. file_at p c = Some f \<and> HasSuffix p ''.meta'' \<and> dec (cf_data f) = Some m \<longrightarrow>
        validCacheKey (em_key m) \<and> p = metaPath (ca_cfg c) (em_key m) \<and>
        (\<forall>g. file_at (keyPath (ca_cfg c) (em_key m)) c = Some g \<longrightarrow> em_size m = int (length (cf_data g))))"

definition has_entry :: "(string \<Rightarrow> entry_meta option) \<Rightarrow> cache \<Rightarrow> string \<Rightarrow> int \<Rightarrow> bool" where
  "has_entry dec c k n \<longleftrightarrow> validCacheKey k \<and>
     (\<exists>f. file_at (keyPath (ca_cfg c) k) c = Some f \<and> int (length (cf_data f)) = n) \<and>
     (\<exists>f m. file_at (metaPath (ca_cfg c) k) c = Some f \<and> dec (cf_data f) = Some m \<and> em_key m = k \<and> em_size m = n)"

definition tracks_disk :: "(string \<Rightarrow> entry_meta option) \<Rightarrow> cache \<Rightarrow> bool" where
  "tracks_disk dec c \<longleftrightarrow>
     (\<forall>e \<in> set (lt_entries (ca_lru c)). has_entry dec c (le_key e) (le_size e)) \<and>
     (\<forall>p f m. file_at p c = Some f \<and> HasSuffix p ''.meta'' \<and> dec (cf_data f) = Some m \<longrightarrow> sizeOf (em_key m) (ca_lru c) \<noteq> None)"

definition balanced :: "cache \<Rightarrow> bool" where
  "balanced c \<longleftrightarrow> st_entries (ca_stats c) = int (length (lt_entries (ca_lru c))) \<and>
     st_size (ca_stats c) = lru.bytes (ca_lru c) + temp_bytes (ca_disk c)"

definition books :: "(string \<Rightarrow> entry_meta option) \<Rightarrow> cache \<Rightarrow> bool" where
  "books dec c \<longleftrightarrow> index_ok c \<and> disk_ok dec c \<and> tracks_disk dec c \<and> balanced c"

definition working :: "(string \<Rightarrow> entry_meta option) \<Rightarrow> cache_env \<Rightarrow> bool" where
  "working dec env \<longleftrightarrow> (\<forall>call. ce_ok env call) \<and> ce_decode env = dec \<and> (\<forall>m. dec (ce_encode env m) = Some m)"

subsection \<open>The tracker under the operations\<close>

lemma entry_sets:
  "tracker_ok l \<Longrightarrow> set (lt_entries (lru_remove k l)) = {e \<in> set (lt_entries l). le_key e \<noteq> k}"
  "tracker_ok l \<Longrightarrow> set (lt_entries (lru_add t k n l)) =
     insert \<lparr>le_key = k, le_used = t, le_size = n\<rparr> {e \<in> set (lt_entries l). le_key e \<noteq> k}"
  by (simp_all flip: set_mset_mset add: lru.entries_remove lru.entries_add)

lemma sizeOf_updates:
  "tracker_ok l \<Longrightarrow> sizeOf k (lru_remove j l) = (if k = j then None else sizeOf k l)"
  "tracker_ok l \<Longrightarrow> sizeOf k (lru_add t j n l) = (if k = j then Some n else sizeOf k l)"
  "tracker_ok l \<Longrightarrow> sizeOf k (lru_touch t j l) = sizeOf k l"
proof -
  assume l: "tracker_ok l"
  have "sizeOf k (lru_remove j l) = Some m \<longleftrightarrow> (if k = j then None else sizeOf k l) = Some m" for m
    using sizeOf_entry [OF l, of k m] sizeOf_entry [OF lru.inv_remove [OF l, of j], of k m] entry_sets(1) [OF l, of j] by auto
  then show "sizeOf k (lru_remove j l) = (if k = j then None else sizeOf k l)" by (metis not_None_eq)
  have "sizeOf k (lru_add t j n l) = Some m \<longleftrightarrow> (if k = j then Some n else sizeOf k l) = Some m" for m
    using sizeOf_entry [OF l, of k m] sizeOf_entry [OF lru.inv_add [OF l, of t j n], of k m] entry_sets(2) [OF l, of t j n] by auto
  then show "sizeOf k (lru_add t j n l) = (if k = j then Some n else sizeOf k l)" by (metis not_None_eq)
  have "le_size (xs[i := (xs ! i)\<lparr>le_used := t\<rparr>] ! i') = le_size (xs ! i')" for xs :: "lru_entry list" and i i'
    by (cases "i < length xs"; cases "i' = i") (auto simp: list_update_beyond)
  then show "sizeOf k (lru_touch t j l) = sizeOf k l" by (simp add: sizeOf_def lru_touch_def split: option.split)
qed

lemma length_remove: "tracker_ok l \<Longrightarrow> length (lt_entries l) = length (lt_entries (lru_remove k l)) + (if sizeOf k l = None then 0 else 1)"
  using lru.size_remove [of l k] by simp

lemma length_add: "tracker_ok l \<Longrightarrow> length (lt_entries (lru_add t k n l)) = Suc (length (lt_entries (lru_remove k l)))"
  using arg_cong [OF lru.add_as_remove [of l t k n], of size] by simp

lemma lru_bytes: "lru.bytes l = totalSize l"
  by (simp add: lru.bytes_def totalSize_def flip: mset_map sum_mset_sum_list)

lemma bytes_nonneg: "(\<And>e. e \<in> set (lt_entries l) \<Longrightarrow> 0 \<le> le_size e) \<Longrightarrow> 0 \<le> lru.bytes l"
  by (auto simp: lru_bytes totalSize_def intro!: sum_list_nonneg)

subsection \<open>One entry leaves\<close>

lemma disk_ok_shrinks: "disk_ok dec c \<Longrightarrow> shrinks c c' \<Longrightarrow> clean c' \<Longrightarrow> disk_ok dec c'"
  unfolding disk_ok_def shrinks_def by (elim conjE, simp) blast

lemma has_entry_size: "has_entry dec c k n \<Longrightarrow> 0 \<le> n \<and> validCacheKey k"
  by (auto simp: has_entry_def)

lemma books_bytes:
  assumes "tracks_disk dec c"
  shows "0 \<le> lru.bytes (ca_lru c)" and "index_ok c \<Longrightarrow> 0 \<le> lru.bytes (lru_remove k (ca_lru c))"
proof -
  have e: "0 \<le> le_size e" if "e \<in> set (lt_entries (ca_lru c))" for e
    using assms that has_entry_size unfolding tracks_disk_def by blast
  then show "0 \<le> lru.bytes (ca_lru c)" by (rule bytes_nonneg)
  show "index_ok c \<Longrightarrow> 0 \<le> lru.bytes (lru_remove k (ca_lru c))" by (rule bytes_nonneg) (simp add: entry_sets e)
qed

lemma tracked_entry: "index_ok c \<Longrightarrow> tracks_disk dec c \<Longrightarrow> sizeOf k (ca_lru c) = Some n \<Longrightarrow> has_entry dec c k n"
  by (auto simp: tracks_disk_def sizeOf_entry)

lemma books_meta:
  assumes "books dec c" and "validCacheKey k" and "file_at (metaPath (ca_cfg c) k) c = Some f" and "dec (cf_data f) = Some m"
  shows "em_key m = k \<and> sizeOf k (ca_lru c) = Some (em_size m)"
proof -
  have "em_key m = k" using assms by (auto simp: books_def disk_ok_def dest!: spec [of _ "metaPath (ca_cfg c) k"])
  moreover obtain n where "sizeOf (em_key m) (ca_lru c) = Some n"
    using assms by (auto simp: books_def tracks_disk_def dest!: spec [of _ "metaPath (ca_cfg c) k"])
  moreover from this have "has_entry dec c (em_key m) n" using assms by (simp add: books_def tracked_entry)
  ultimately show ?thesis using assms by (auto simp: has_entry_def)
qed

lemma books_removeEntry:
  assumes b: "books dec c" and w: "working dec env" and n: "sizeOf k (ca_lru c) = Some n"
  shows "books dec (removeEntry env k n c)"
proof -
  let ?c = "removeEntry env k n c"
  have parts: "index_ok c" "disk_ok dec c" "tracks_disk dec c" "balanced c" using b by (simp_all add: books_def)
  have k: "has_entry dec c k n" "validCacheKey k" using tracked_entry [OF parts(1,3) n] has_entry_size by blast+
  have cl: "clean c" using parts(2) by (simp add: disk_ok_def)
  have cl': "clean ?c" using cl by (simp add: clean_disk [of ?c "remove_file env (metaPath (ca_cfg c) k) (remove_file env (keyPath (ca_cfg c) k) c)"])
  have files: "file_at q ?c = (if q = metaPath (ca_cfg c) k \<or> q = keyPath (ca_cfg c) k then None else file_at q c)" for q
    using w by (simp add: working_def)
  have "tracks_disk dec ?c" unfolding tracks_disk_def
  proof (intro conjI ballI allI impI; (elim conjE)?)
    fix e assume "e \<in> set (lt_entries (ca_lru ?c))"
    then have e: "e \<in> set (lt_entries (ca_lru c))" "le_key e \<noteq> k" using parts(1) by (simp_all add: entry_sets)
    then have h: "has_entry dec c (le_key e) (le_size e)" using parts(3) by (simp add: tracks_disk_def)
    moreover have "validCacheKey (le_key e)" using h has_entry_size by blast
    ultimately show "has_entry dec ?c (le_key e) (le_size e)"
      using e(2) k(2) unfolding has_entry_def removeEntry_parts files by simp
  next
    fix p f m assume p: "file_at p ?c = Some f" "HasSuffix p ''.meta''" "dec (cf_data f) = Some m"
    then have q: "file_at p c = Some f" "p \<noteq> metaPath (ca_cfg c) k" unfolding files by (simp_all split: if_splits)
    have "em_key m \<noteq> k" using parts(2) p q unfolding disk_ok_def by metis
    then show "sizeOf (em_key m) (ca_lru ?c) \<noteq> None"
      using parts(1,3) p q by (auto simp: tracks_disk_def sizeOf_updates)
  qed
  moreover have "balanced ?c"
  proof -
    have "temp_bytes (ca_disk ?c) = temp_bytes (ca_disk c)" using cl k(2) by (simp add: temp_bytes_files)
    moreover have "lru.bytes (lru_remove k (ca_lru c)) = lru.bytes (ca_lru c) - n" using lru.bytes_remove [OF parts(1)] n by simp
    moreover have "0 \<le> lru.bytes (lru_remove k (ca_lru c))" by (rule books_bytes(2) [OF parts(3,1)])
    moreover have "length (lt_entries (ca_lru c)) = Suc (length (lt_entries (lru_remove k (ca_lru c))))" using length_remove [OF parts(1), of k] n by simp
    ultimately show ?thesis using parts(4) temp_bytes_nonneg [of "ca_disk c"] by (simp add: balanced_def del: temp_bytes_nonneg)
  qed
  ultimately show ?thesis using parts(1) disk_ok_shrinks [OF parts(2) _ cl'] by (simp add: books_def lru.inv_remove)
qed

lemma books_same:
  assumes "books dec c" and "ca_lru c' = ca_lru c" and "ca_disk c' = ca_disk c" and "ca_cfg c' = ca_cfg c"
    and "st_size (ca_stats c') = st_size (ca_stats c)" and "st_entries (ca_stats c') = st_entries (ca_stats c)"
  shows "books dec c'"
proof -
  have "file_at p c' = file_at p c" for p using assms(3) by (rule file_at_disk)
  then show ?thesis
    using assms unfolding books_def disk_ok_def tracks_disk_def balanced_def has_entry_def clean_def by (simp cong: conj_cong)
qed

lemma books_Check:
  assumes b: "books dec c" and w: "working dec env"
  shows "books dec (snd (Check env k c))"
proof -
  have miss: "books dec d \<Longrightarrow> books dec (count_miss d)" for d by (erule books_same) simp_all
  have removed: "books dec (removeEntry env k (em_size m) c)" if v: "validCacheKey k" and m: "loadMeta env (metaPath (ca_cfg c) k) c = Some m" for m
  proof -
    obtain f where "file_at (metaPath (ca_cfg c) k) c = Some f" "dec (cf_data f) = Some m"
      using m w by (auto simp: loadMeta_def working_def bind_eq_Some_conv split: if_splits)
    then show ?thesis using books_meta [OF b v] books_removeEntry [OF b w] by blast
  qed
  show ?thesis using b miss removed by (auto simp: Check_def Let_def split: option.splits)
qed

lemma books_ConfirmHit:
  assumes b: "books dec c"
  shows "books dec (ConfirmHit env k c)"
proof (cases "validCacheKey k")
  case True
  let ?l = "lru_touch (ce_now env UsedAt) k (ca_lru c)"
  let ?c = "ConfirmHit env k c"
  have parts: "index_ok c" "disk_ok dec c" "tracks_disk dec c" "balanced c" using b by (simp_all add: books_def)
  have l: "ca_lru ?c = ?l" "ca_disk ?c = ca_disk c" "ca_cfg ?c = ca_cfg c" using True by (simp_all add: ConfirmHit_def)
  then have f: "file_at p ?c = file_at p c" for p by (simp add: file_at_def)
  have "has_entry dec c (le_key e) (le_size e)" if e: "e \<in> set (lt_entries ?l)" for e
  proof -
    obtain x where "x \<in> set (lt_entries (ca_lru c))" "le_key x = le_key e" "le_size x = le_size e"
      using e by (auto simp: tracker_touch(2) [OF parts(1)])
    then show ?thesis using parts(3) unfolding tracks_disk_def by metis
  qed
  then have "tracks_disk dec ?c"
    using parts(1,3) unfolding tracks_disk_def has_entry_def l f by (simp add: sizeOf_updates)
  moreover have "disk_ok dec ?c" using parts(2) unfolding disk_ok_def clean_def l f .
  moreover have "balanced ?c"
    using parts(4) lru.bytes_touch [OF parts(1)] tracker_touch(2) [OF parts(1)] l True unfolding balanced_def
    by (simp add: ConfirmHit_def)
  ultimately show ?thesis using parts(1) l by (simp add: books_def lru.inv_touch)
qed (simp add: ConfirmHit_def b)

subsection \<open>Insertion\<close>

lemma temp_weight_le: "clean c \<Longrightarrow> file_at p c = Some f \<Longrightarrow> temp_weight (p, f) \<le> temp_bytes (ca_disk c)"
  using temp_bytes_delete [of "ca_disk c" p] temp_bytes_nonneg [of "AList.delete p (ca_disk c)"] by (simp add: clean_def file_at_def)

lemma release_temp_size:
  "books dec c \<Longrightarrow> working dec env \<Longrightarrow> st_size (ca_stats (release_temp env (a @ ''.tmp'') c)) =
     st_size (ca_stats c) - (case file_at (a @ ''.tmp'') c of Some f \<Rightarrow> temp_weight (a @ ''.tmp'', f) | None \<Rightarrow> 0)"
proof -
  assume b: "books dec c" and w: "working dec env"
  show ?thesis
  proof (cases "file_at (a @ ''.tmp'') c")
    case (Some f)
    have "temp_weight (a @ ''.tmp'', f) \<le> temp_bytes (ca_disk c)" using b Some by (simp add: books_def disk_ok_def temp_weight_le)
    moreover have "0 \<le> lru.bytes (ca_lru c)" using b books_bytes(1) unfolding books_def by blast
    ultimately have "temp_weight (a @ ''.tmp'', f) \<le> st_size (ca_stats c)" using b by (simp add: books_def balanced_def)
    then show ?thesis using Some w by (simp add: release_temp_def working_def temp_weight_def)
  qed (simp add: release_temp_def)
qed

lemma books_Put:
  assumes b: "books dec c" and w: "working dec env"
  shows "books dec (snd (Put env k (Some (int (length data), data)) ttl c))"
proof (cases "cc_enabled (ca_cfg c) \<and> validCacheKey k")
  case True
  then have k: "validCacheKey k" by simp
  let ?p = "keyPath (ca_cfg c) k" let ?mp = "metaPath (ca_cfg c) k" let ?tmp = "keyPath (ca_cfg c) k @ ''.tmp''"
  let ?n = "int (length data)"
  define meta where "meta = \<lparr>em_key = k, em_created = ce_now env CreatedAt, em_size = ?n, em_ttl = put_ttl ttl\<rparr>"
  define c1 where "c1 = release_temp env ?tmp c"
  define c2 where "c2 = drop_file ?tmp (write_file ?p data (ce_now env UsedAt) (write_file ?tmp data (ce_now env UsedAt) c1))"
  define c3 where "c3 = write_file ?mp (ce_encode env meta) (ce_now env UsedAt) c2"
  define c4 where "c4 = track_entry env k ?n c3"
  have put: "snd (Put env k (Some (?n, data)) ttl c) = requestLRUEviction c4"
    using True w by (simp add: Put_def Let_def working_def c1_def c2_def c3_def c4_def meta_def put_ttl_def)
  have parts: "index_ok c" "disk_ok dec c" "tracks_disk dec c" "balanced c" using b by (simp_all add: books_def)
  have l: "ca_lru c3 = ca_lru c" "ca_cfg c3 = ca_cfg c" "st_entries (ca_stats c3) = st_entries (ca_stats c)" 
    by (simp_all add: c1_def c2_def c3_def)
  have l4: "ca_lru c4 = lru_add (ce_now env UsedAt) k ?n (ca_lru c)" "ca_cfg c4 = ca_cfg c" "ca_disk c4 = ca_disk c3"
    using l by (simp_all add: c4_def track_entry_def Let_def split: option.splits)
  have cl: "clean c" "clean c1" "clean c3"
  proof -
    show "clean c" using parts(2) by (simp add: disk_ok_def)
    then show "clean c1" by (simp add: c1_def clean_def)
    then show "clean c3" by (simp add: c2_def c3_def)
  qed
  have f4: "file_at q c4 = (if q = ?mp then Some \<lparr>cf_data = ce_encode env meta, cf_mtime = ce_now env UsedAt\<rparr>
      else if q = ?tmp then None else if q = ?p then Some \<lparr>cf_data = data, cf_mtime = ce_now env UsedAt\<rparr> else file_at q c)" for q
    by (simp add: c4_def c3_def c2_def c1_def)
  have temp: "temp_bytes (ca_disk c4) = temp_bytes (ca_disk c) - (case file_at ?tmp c of Some f \<Rightarrow> temp_weight (?tmp, f) | None \<Rightarrow> 0)"
  proof -
    have "temp_bytes (ca_disk c4) = temp_bytes (ca_disk c2)"
      using cl k by (simp add: l4 c3_def c2_def temp_bytes_files)
    also have "\<dots> = temp_bytes (ca_disk (write_file ?tmp data (ce_now env UsedAt) c1)) - int (length data)"
      using cl k by (simp add: c2_def temp_bytes_files temp_weight_def)
    also have "\<dots> = temp_bytes (ca_disk c1) - (case file_at ?tmp c1 of Some f \<Rightarrow> temp_weight (?tmp, f) | None \<Rightarrow> 0)"
      using cl by (simp add: write_file_def clean_def temp_bytes_update file_at_def temp_weight_def split: option.splits)
    finally show ?thesis by (simp add: c1_def)
  qed
  have "disk_ok dec c4" unfolding disk_ok_def
  proof (intro conjI allI impI; (elim conjE)?)
    show "clean c4" using cl l4 by (simp add: clean_def)
    fix p f m assume p: "file_at p c4 = Some f" "HasSuffix p ''.meta''" "dec (cf_data f) = Some m"
    have own: "m = meta \<and> p = ?mp \<or> p \<noteq> ?mp \<and> file_at p c = Some f"
      using p w k unfolding f4 by (auto simp: working_def split: if_splits)
    show "validCacheKey (em_key m)" "p = metaPath (ca_cfg c4) (em_key m)"
      using own parts(2) p k l4 unfolding disk_ok_def by (auto simp: meta_def)
    fix g assume g: "file_at (keyPath (ca_cfg c4) (em_key m)) c4 = Some g"
    show "em_size m = int (length (cf_data g))"
    proof (cases "p = ?mp")
      case True
      then show ?thesis using own g k l4 unfolding f4 by (auto simp: meta_def)
    next
      case False
      then have "validCacheKey (em_key m)" "em_key m \<noteq> k" using own parts(2) p unfolding disk_ok_def by auto
      then show ?thesis using own False g k l4 parts(2) p unfolding f4 disk_ok_def by auto
    qed
  qed
  moreover have "tracks_disk dec c4" unfolding tracks_disk_def
  proof (intro conjI ballI allI impI; (elim conjE)?)
    fix e assume "e \<in> set (lt_entries (ca_lru c4))"
    then consider "le_key e = k" "le_size e = ?n" | "e \<in> set (lt_entries (ca_lru c))" "le_key e \<noteq> k"
      using parts(1) by (auto simp: l4 entry_sets)
    then show "has_entry dec c4 (le_key e) (le_size e)"
    proof cases
      case 1
      then show ?thesis using k w unfolding has_entry_def f4 l4 by (simp add: working_def meta_def)
    next
      case 2
      then have h: "has_entry dec c (le_key e) (le_size e)" using parts(3) by (simp add: tracks_disk_def)
      moreover have "validCacheKey (le_key e)" using h has_entry_size by blast
      ultimately show ?thesis using 2 k unfolding has_entry_def f4 l4 by simp
    qed
  next
    fix p f m assume p: "file_at p c4 = Some f" "HasSuffix p ''.meta''" "dec (cf_data f) = Some m"
    have "m = meta \<or> file_at p c = Some f" using p w k unfolding f4 by (auto simp: working_def split: if_splits)
    then show "sizeOf (em_key m) (ca_lru c4) \<noteq> None"
      using parts(1,3) p by (auto simp: l4 sizeOf_updates tracks_disk_def meta_def)
  qed
  moreover have "balanced c4"
    using parts(4) release_temp_size [OF b w, of ?p] temp lru.bytes_add [OF parts(1), of "ce_now env UsedAt" k ?n] l
      length_add [OF parts(1), of "ce_now env UsedAt" k ?n] length_remove [OF parts(1), of k]
    unfolding balanced_def l4
    by (simp add: c4_def track_entry_def Let_def c3_def c2_def c1_def split: option.splits)
  moreover have "index_ok c4" using parts(1) by (simp add: l4 lru.inv_add)
  ultimately have "books dec c4" by (simp add: books_def)
  then show ?thesis unfolding put by (rule books_same) simp_all
next
  case False
  then have "snd (Put env k (Some (int (length data), data)) ttl c) = c" by (auto simp: Put_def)
  then show ?thesis using b by simp
qed

subsection \<open>Eviction\<close>

lemma books_entry: "books dec c \<Longrightarrow> e \<in> set (lt_entries (ca_lru c)) \<Longrightarrow> sizeOf (le_key e) (ca_lru c) = Some (le_size e)"
  by (auto simp: books_def sizeOf_entry)

lemma books_evict_lru_entry:
  "books dec c \<Longrightarrow> working dec env \<Longrightarrow> e \<in> set (lt_entries (ca_lru c)) \<Longrightarrow> books dec (evict_lru_entry env e c)"
  by (rule books_same [OF books_removeEntry [where k = "le_key e" and n = "le_size e"]]) (simp_all add: evict_lru_entry_def books_entry)

lemma books_evict_all:
  "books dec c \<Longrightarrow> working dec env \<Longrightarrow> mset es \<subseteq># tracked c \<Longrightarrow> books dec (fold (evict_lru_entry env) es c)"
proof (induction es arbitrary: c)
  case (Cons e es)
  have e: "e \<in># tracked c" using Cons.prems(3) by (simp add: insert_subset_eq_iff)
  have "tracked c = add_mset e (tracked (evict_lru_entry env e c))"
    using lru.remove_entry [OF _ e] Cons.prems(1) by (simp add: books_def)
  then have "mset es \<subseteq># tracked (evict_lru_entry env e c)" using Cons.prems(3) by (metis mset.simps(2) mset_subset_eq_add_mset_cancel)
  then show ?case using Cons e by (simp add: books_evict_lru_entry)
qed simp

lemma books_evictLRU:
  assumes b: "books dec c" and w: "working dec env" and run: "evictLRUIfNeeded env c = Some c'"
  shows "books dec c'"
proof -
  have "index_ok c" using b by (simp add: books_def)
  from eviction_run [OF this, of env] run obtain es where "c' = fold (evict_lru_entry env) es c" "tracked c = tracked c' + mset es"
    by (auto simp: Let_def)
  then show ?thesis using books_evict_all [OF b w, of es] by simp
qed

lemma collect_books:
  assumes b: "books dec c" and w: "working dec env"
  shows "distinct (map fst ds) \<Longrightarrow> (\<forall>(p, f) \<in> set ds. file_at p c = Some f) \<Longrightarrow>
    \<exists>new. fold (collect_expired env) ds (c, ks) = (c, ks @ new) \<and> distinct new \<and>
      (\<forall>k \<in> set new. sizeOf k (ca_lru c) \<noteq> None \<and> validCacheKey k \<and> metaPath (ca_cfg c) k \<in> fst ` set ds)"
proof (induction ds arbitrary: ks)
  case (Cons d ds)
  obtain p f where d: "d = (p, f)" by (cases d)
  have f: "file_at p c = Some f" using Cons.prems d by simp
  have rest: "distinct (map fst ds)" "\<forall>(p, f) \<in> set ds. file_at p c = Some f" "p \<notin> fst ` set ds" using Cons.prems d by auto
  consider (key) m where "HasSuffix p ''.meta''" "dec (cf_data f) = Some m" "collect_expired env d (c, ks) = (c, ks @ [em_key m])"
    | (skip) "collect_expired env d (c, ks) = (c, ks)"
    using b w f d unfolding books_def disk_ok_def
    by (cases "HasSuffix p ''.meta''"; cases "dec (cf_data f)"; cases "expired env (ca_cfg c) p (the (dec (cf_data f)))")
      (auto simp: collect_expired_def Let_def loadMeta_def working_def split: if_splits)
  then show ?case
  proof cases
    case key
    then have m: "validCacheKey (em_key m)" "p = metaPath (ca_cfg c) (em_key m)" "sizeOf (em_key m) (ca_lru c) \<noteq> None"
      using b f unfolding books_def disk_ok_def tracks_disk_def by metis+
    obtain new where new: "fold (collect_expired env) ds (c, ks @ [em_key m]) = (c, (ks @ [em_key m]) @ new)" "distinct new"
        "\<forall>k \<in> set new. sizeOf k (ca_lru c) \<noteq> None \<and> validCacheKey k \<and> metaPath (ca_cfg c) k \<in> fst ` set ds"
      using Cons.IH [OF rest(1,2), of "ks @ [em_key m]"] by blast
    have "em_key m \<notin> set new" using new(3) m rest(3) by blast
    then show ?thesis using new m key(3) d by (intro exI [of _ "em_key m # new"]) auto
  next
    case skip
    then show ?thesis using Cons.IH [OF rest(1,2), of ks] by auto
  qed
qed simp

lemma books_evict_key:
  assumes b: "books dec c" and w: "working dec env" and k: "sizeOf k (ca_lru c) \<noteq> None"
  shows "books dec (evict_key env k c) \<and> ca_lru (evict_key env k c) = lru_remove k (ca_lru c)"
proof -
  obtain n where n: "sizeOf k (ca_lru c) = Some n" using k by auto
  then have "has_entry dec c k n" using b tracked_entry by (simp add: books_def)
  then obtain f where "file_at (keyPath (ca_cfg c) k) c = Some f" "int (length (cf_data f)) = n" by (auto simp: has_entry_def)
  then have "evict_key env k c = count_eviction (removeEntry env k n c)" using w by (simp add: evict_key_def Let_def working_def)
  then show ?thesis using books_same [OF books_removeEntry [OF b w n]] by simp
qed

lemma books_evict_keys:
  "books dec c \<Longrightarrow> working dec env \<Longrightarrow> distinct ks \<Longrightarrow> \<forall>k \<in> set ks. sizeOf k (ca_lru c) \<noteq> None \<Longrightarrow> books dec (fold (evict_key env) ks c)"
proof (induction ks arbitrary: c)
  case (Cons k ks)
  have "index_ok c" using Cons.prems by (simp add: books_def)
  then have "\<forall>j \<in> set ks. sizeOf j (ca_lru (evict_key env k c)) \<noteq> None"
    using Cons.prems books_evict_key [OF Cons.prems(1,2), of k] by (auto simp: sizeOf_updates)
  then show ?case using Cons books_evict_key [OF Cons.prems(1,2), of k] by simp
qed simp

text \<open>Books whose recorded size is too large by what was reclaimed.\<close>

definition books_but :: "(string \<Rightarrow> entry_meta option) \<Rightarrow> int \<Rightarrow> cache \<Rightarrow> bool" where
  "books_but dec n c \<longleftrightarrow> index_ok c \<and> disk_ok dec c \<and> tracks_disk dec c \<and>
     st_entries (ca_stats c) = int (length (lt_entries (ca_lru c))) \<and> st_size (ca_stats c) = lru.bytes (ca_lru c) + temp_bytes (ca_disk c) + n"

lemma drop_temp_books:
  assumes b: "books_but dec n c" and p: "HasSuffix p ''.tmp''" and f: "file_at p c = Some f"
  shows "books_but dec (n + int (length (cf_data f))) (drop_file p c)"
proof -
  let ?c = "drop_file p c"
  have cl: "clean c" using b by (simp add: books_but_def disk_ok_def)
  have other: "validCacheKey k \<Longrightarrow> keyPath (ca_cfg c) k \<noteq> p" "validCacheKey k \<Longrightarrow> metaPath (ca_cfg c) k \<noteq> p" for k
    using p keyPath_suffixes(2) [of k "ca_cfg c"] meta_suffixes(2) [of "ca_cfg c" k] by auto
  have "disk_ok dec ?c" using b cl by (auto simp: books_but_def intro: disk_ok_shrinks [OF _ shrinks_basic(2)])
  moreover have "has_entry dec ?c k m = has_entry dec c k m" for k m using other unfolding has_entry_def by auto
  then have "tracks_disk dec ?c" using b unfolding books_but_def tracks_disk_def by (auto split: if_splits)
  ultimately show ?thesis using b f p cl by (simp add: books_but_def temp_bytes_files temp_weight_def)
qed

lemma reclaim_books:
  "books_but dec n c \<Longrightarrow> distinct (map fst ds) \<Longrightarrow> (\<forall>(p, f) \<in> set ds. file_at p c = Some f) \<Longrightarrow>
   case fold (reclaim_temp env) ds (c, n) of (c', n') \<Rightarrow> books_but dec n' c' \<and> n \<le> n'"
proof (induction ds arbitrary: c n)
  case (Cons d ds)
  obtain p f where d: "d = (p, f)" by (cases d)
  have f: "file_at p c = Some f" "p \<notin> fst ` set ds" using Cons.prems d by auto
  have rest: "distinct (map fst ds)" "\<forall>(q, g) \<in> set ds. file_at q c = Some g" using Cons.prems by auto
  have later: "\<forall>(q, g) \<in> set ds. file_at q (drop_file p c) = Some g" using rest(2) f(2) by (auto simp: rev_image_eqI)
  consider "reclaim_temp env d (c, n) = (c, n)"
    | "HasSuffix p ''.tmp''" "reclaim_temp env d (c, n) = (drop_file p c, n + int (length (cf_data f)))"
    by (cases "HasSuffix p ''.tmp'' \<and> \<not> ce_now env TempCutoff - staleTempFileAge < cf_mtime f \<and> ce_ok env (CallRemove p)")
      (auto simp: d reclaim_temp_def Let_def)
  then show ?case
  proof cases
    case 1
    then show ?thesis using Cons.IH [OF Cons.prems(1) rest] by simp
  next
    case 2
    then show ?thesis using Cons.IH [OF drop_temp_books [OF Cons.prems(1) 2(1) f(1)] rest(1) later] by (auto split: prod.splits)
  qed
qed simp

lemma clean_files: "clean c \<Longrightarrow> distinct (map fst (ca_disk c)) \<and> (\<forall>(p, f) \<in> set (ca_disk c). file_at p c = Some f)"
  by (auto simp: clean_def file_at_def)

lemma books_evictExpired:
  assumes b: "books dec c" and w: "working dec env"
  shows "books dec (evictExpired env c)"
proof -
  obtain ks where ks: "fold (collect_expired env) (ca_disk c) (c, []) = (c, ks)" "distinct ks" "\<forall>k \<in> set ks. sizeOf k (ca_lru c) \<noteq> None"
    using collect_books [OF b w, of "ca_disk c" "[]"] b clean_files [of c] by (auto simp: books_def disk_ok_def)
  define d where "d = fold (evict_key env) ks c"
  have d: "books dec d" unfolding d_def by (rule books_evict_keys [OF b w ks(2,3)])
  obtain e n where e: "fold (reclaim_temp env) (ca_disk d) (d, 0) = (e, n)" by fastforce
  have "books_but dec 0 d" using d by (simp add: books_def books_but_def balanced_def)
  then have but: "books_but dec n e" "0 \<le> n"
    using reclaim_books [of dec 0 d "ca_disk d" env] e d clean_files [of d] by (simp_all add: books_def disk_ok_def)
  let ?c = "if n > 0 then sub_size n e else e"
  have "ca_lru ?c = ca_lru e" "ca_disk ?c = ca_disk e" "ca_cfg ?c = ca_cfg e" "st_entries (ca_stats ?c) = st_entries (ca_stats e)" by simp_all
  moreover have "0 \<le> lru.bytes (ca_lru e)" using but(1) books_bytes(1) unfolding books_but_def by blast
  then have "st_size (ca_stats ?c) = lru.bytes (ca_lru e) + temp_bytes (ca_disk e)"
    using but temp_bytes_nonneg [of "ca_disk e"] by (simp add: books_but_def)
  ultimately have "books dec ?c"
    using but(1) file_at_disk [of ?c e] unfolding books_but_def books_def balanced_def disk_ok_def tracks_disk_def has_entry_def clean_def
    by simp
  moreover have "evictExpired env c = ?c" using ks(1) e by (simp add: evictExpired_def Let_def d_def)
  ultimately show ?thesis by simp
qed

subsection \<open>Start and restart\<close>

definition blank_cache :: "cache_config \<Rightarrow> cache_disk \<Rightarrow> cache" where
  "blank_cache cfg d = \<lparr>ca_cfg = cfg, ca_stats = no_stats, ca_lru = newLRUTracker, ca_disk = d, ca_evict = False\<rparr>"

text \<open>The walk at the start, with the files it has still to visit: their metadata is not tracked yet, nor are their temporary bytes counted.\<close>

definition scanned :: "(string \<Rightarrow> entry_meta option) \<Rightarrow> cache_disk \<Rightarrow> cache \<times> int \<times> int \<Rightarrow> bool" where
  "scanned dec rest acc \<longleftrightarrow>
     (case acc of (c, tot, cnt) \<Rightarrow>
        index_ok c \<and> disk_ok dec c \<and> distinct (map fst rest) \<and> (\<forall>(p, f) \<in> set rest. file_at p c = Some f) \<and>
        (\<forall>e \<in> set (lt_entries (ca_lru c)). has_entry dec c (le_key e) (le_size e) \<and> metaPath (ca_cfg c) (le_key e) \<notin> fst ` set rest) \<and>
        (\<forall>p f m. file_at p c = Some f \<and> HasSuffix p ''.meta'' \<and> dec (cf_data f) = Some m \<and> p \<notin> fst ` set rest \<longrightarrow>
           sizeOf (em_key m) (ca_lru c) \<noteq> None) \<and>
        cnt = int (length (lt_entries (ca_lru c))) \<and>
        tot + temp_bytes rest = lru.bytes (ca_lru c) + temp_bytes (ca_disk c))"

lemma scan_file_scanned:
  assumes s: "scanned dec ((p, f) # rest) (c, tot, cnt)" and w: "working dec env"
  shows "scanned dec rest (scan_file env (p, f) (c, tot, cnt))"
proof -
  have ix: "index_ok c" and dk: "disk_ok dec c" and f: "file_at p c = Some f" and cl: "clean c"
    using s by (auto simp: scanned_def disk_ok_def)
  have rest: "distinct (map fst rest)" "\<forall>(p, f) \<in> set rest. file_at p c = Some f" "p \<notin> fst ` set rest"
    using s by (auto simp: scanned_def)
  have ents: "has_entry dec c (le_key e) (le_size e)" "metaPath (ca_cfg c) (le_key e) \<notin> fst ` set rest" "metaPath (ca_cfg c) (le_key e) \<noteq> p"
    if "e \<in> set (lt_entries (ca_lru c))" for e using s that by (auto simp: scanned_def)
  have metas: "sizeOf (em_key m) (ca_lru c) \<noteq> None"
    if "file_at q c = Some g" "HasSuffix q ''.meta''" "dec (cf_data g) = Some m" "q \<noteq> p" "q \<notin> fst ` set rest" for q g m
    using s that unfolding scanned_def by auto
  have sums: "cnt = int (length (lt_entries (ca_lru c)))" "tot + temp_weight (p, f) + temp_bytes rest = lru.bytes (ca_lru c) + temp_bytes (ca_disk c)"
    using s by (simp_all add: scanned_def temp_bytes_def)
  \<comment> \<open>a file that is removed, not being one of an entry\<close>
  have dropped: "scanned dec rest (drop_file p c, tot, cnt)"
    if kind: "HasSuffix p ''.meta'' \<or> HasSuffix p ''.tmp''"
  proof -
    have other: "keyPath (ca_cfg c) k \<noteq> p" if "validCacheKey k" for k
      using kind keyPath_suffixes [OF that, of "ca_cfg c"] by auto
    have "disk_ok dec (drop_file p c)" using cl by (rule disk_ok_shrinks [OF dk shrinks_basic(2) clean_updates(2)])
    moreover have "has_entry dec (drop_file p c) (le_key e) (le_size e)" if e: "e \<in> set (lt_entries (ca_lru c))" for e
      using ents(1,3) [OF e] other [of "le_key e"] unfolding has_entry_def by simp
    moreover have "\<forall>(q, g) \<in> set rest. file_at q (drop_file p c) = Some g" using rest(2,3) by (auto simp: rev_image_eqI)
    ultimately show ?thesis
      using ix rest(1) ents(2) metas sums f cl unfolding scanned_def by (auto simp: temp_bytes_files)
  qed
  have skipped: "scanned dec rest (c, tot + temp_weight (p, f), cnt)"
    if "HasSuffix p ''.meta'' \<Longrightarrow> dec (cf_data f) = None"
  proof -
    have "sizeOf (em_key m) (ca_lru c) \<noteq> None"
      if "file_at q c = Some g" "HasSuffix q ''.meta''" "dec (cf_data g) = Some m" "q \<notin> fst ` set rest" for q g m
      using metas that \<open>HasSuffix p ''.meta'' \<Longrightarrow> dec (cf_data f) = None\<close> f by (cases "q = p") auto
    then show ?thesis using ix dk rest ents sums unfolding scanned_def by auto
  qed
  show ?thesis
  proof (cases "HasSuffix p ''.meta''")
    case True
    then have nt: "\<not> HasSuffix p ''.tmp''" by (cases "rev p") (auto simp: HasSuffix_def)
    show ?thesis
    proof (cases "dec (cf_data f)")
      case None
      then show ?thesis using skipped True nt f w by (simp add: scan_file_def loadMeta_def working_def)
    next
      case (Some m)
      then have m: "validCacheKey (em_key m)" "p = metaPath (ca_cfg c) (em_key m)"
          "\<And>g. file_at (keyPath (ca_cfg c) (em_key m)) c = Some g \<Longrightarrow> em_size m = int (length (cf_data g))"
        using dk f True unfolding disk_ok_def by blast+
      have load: "loadMeta env p c = Some m" using f w Some by (simp add: loadMeta_def working_def)
      have tp: "take (length p - 5) p = keyPath (ca_cfg c) (em_key m)" using m(1,2) by simp
      show ?thesis
      proof (cases "file_at (keyPath (ca_cfg c) (em_key m)) c")
        case None
        then have "is_absent env (take (length p - 5) p) c" using w unfolding tp by (simp add: is_absent_def working_def)
        then have "scan_file env (p, f) (c, tot, cnt) = (remove_file env p c, tot, cnt)"
          using True load m(1) by (simp add: scan_file_def)
        then show ?thesis using dropped True w by (simp add: remove_file_def working_def)
      next
        case (Some g)
        let ?c = "c\<lparr>ca_lru := lru_add (ce_now env UsedAt) (em_key m) (em_size m) (ca_lru c)\<rparr>"
        have "\<not> is_absent env (take (length p - 5) p) c" using Some unfolding tp by (simp add: is_absent_def)
        then have run: "scan_file env (p, f) (c, tot, cnt) = (?c, tot + em_size m, cnt + 1)"
          using True load m(1) by (simp add: scan_file_def)
        have untracked: "le_key e \<noteq> em_key m" if "e \<in> set (lt_entries (ca_lru c))" for e using ents(3) [OF that] m(2) by auto
        then have none: "sizeOf (em_key m) (ca_lru c) = None" using sizeOf_entry [OF ix] by (meson not_None_eq)
        have he: "has_entry dec ?c k n = has_entry dec c k n" for k n by (simp add: has_entry_def)
        have own: "has_entry dec c (em_key m) (em_size m)" using m f Some \<open>dec (cf_data f) = Some m\<close> by (auto simp: has_entry_def)
        have "set (lt_entries (ca_lru ?c)) = insert \<lparr>le_key = em_key m, le_used = ce_now env UsedAt, le_size = em_size m\<rparr> (set (lt_entries (ca_lru c)))"
          using untracked by (auto simp: entry_sets [OF ix])
        moreover have "sizeOf (em_key n) (ca_lru ?c) \<noteq> None"
          if "file_at q c = Some g" "HasSuffix q ''.meta''" "dec (cf_data g) = Some n" "q \<notin> fst ` set rest" for q g n
          using metas [OF that(1-3)] that f \<open>dec (cf_data f) = Some m\<close> by (cases "q = p") (auto simp: sizeOf_updates [OF ix])
        moreover have "length (lt_entries (ca_lru ?c)) = Suc (length (lt_entries (ca_lru c)))"
          using length_add [OF ix] length_remove [OF ix, of "em_key m"] none by simp
        moreover have "lru.bytes (ca_lru ?c) = lru.bytes (ca_lru c) + em_size m" using lru.bytes_add [OF ix] none by simp
        moreover have "disk_ok dec ?c" using dk by (simp add: disk_ok_def clean_def)
        ultimately show ?thesis
          using ix rest ents own m sums nt unfolding run scanned_def by (auto simp: he lru.inv_add)
      qed
    qed
  next
    case False
    then show ?thesis using skipped dropped w by (auto simp: scan_file_def remove_file_def working_def temp_weight_def)
  qed
qed

lemma scan_fold: "scanned dec ds acc \<Longrightarrow> working dec env \<Longrightarrow> scanned dec [] (fold (scan_file env) ds acc)"
proof (induction ds arbitrary: acc)
  case (Cons d ds)
  obtain p f c tot cnt where da: "d = (p, f)" "acc = (c, tot, cnt)" by (metis prod_cases3 surj_pair)
  then have "scanned dec ds (scan_file env d acc)" using scan_file_scanned Cons.prems by simp
  then show ?case using Cons by simp
qed simp

lemma books_scan:
  assumes d: "disk_ok dec (blank_cache cfg d)" and w: "working dec env"
  shows "books dec (scanExisting env (blank_cache cfg d))"
proof -
  let ?b = "blank_cache cfg d"
  have b: "ca_disk ?b = d" "ca_lru ?b = newLRUTracker" by (simp_all add: blank_cache_def)
  have "clean ?b" using d by (simp add: disk_ok_def)
  then have "\<forall>(p, f) \<in> set d. file_at p ?b = Some f" "distinct (map fst d)" using clean_files [of ?b] b by simp_all
  moreover have "\<forall>p f. file_at p ?b = Some f \<longrightarrow> p \<in> fst ` set d" by (auto simp: file_at_def b dest: map_of_SomeD intro: rev_image_eqI)
  ultimately have "scanned dec d (?b, 0, 0)"
    using d tracker_new by (auto simp: scanned_def b lru.bytes_def newLRUTracker_def)
  then have "scanned dec [] (fold (scan_file env) d (?b, 0, 0))" using w by (rule scan_fold)
  then obtain c tot cnt where c: "fold (scan_file env) d (?b, 0, 0) = (c, tot, cnt)" "scanned dec [] (c, tot, cnt)" by (metis prod_cases3)
  let ?c = "c\<lparr>ca_stats := (ca_stats c)\<lparr>st_size := tot, st_entries := cnt\<rparr>\<rparr>"
  have "scanExisting env ?b = ?c" using c(1) by (simp add: scanExisting_def b)
  moreover have "has_entry dec ?c k n = has_entry dec c k n" for k n by (simp add: has_entry_def)
  moreover have "disk_ok dec ?c = disk_ok dec c" by (simp add: disk_ok_def clean_def)
  ultimately show ?thesis using c(2) by (auto simp: books_def scanned_def tracks_disk_def balanced_def temp_bytes_def)
qed

text \<open>
  Runs in which no call fails. A restart may find any directory whose metadata agrees with its files, so also one that a crash left in the
  middle of a copy.
\<close>

inductive calm_init :: "(string \<Rightarrow> entry_meta option) \<Rightarrow> cache \<Rightarrow> bool" for dec where
  "working dec env \<Longrightarrow> cc_enabled cfg \<Longrightarrow> disk_ok dec (blank_cache (cache_defaults default_dir cfg) d) \<Longrightarrow>
   NewCache env default_dir cfg dir d = Inr c \<Longrightarrow> calm_init dec c"

inductive calm_step :: "(string \<Rightarrow> entry_meta option) \<Rightarrow> cache \<Rightarrow> cache \<Rightarrow> bool" for dec where
  calm_Check: "working dec env \<Longrightarrow> calm_step dec c (snd (Check env key c))"
| calm_ConfirmHit: "calm_step dec c (ConfirmHit env key c)"
| calm_Put: "working dec env \<Longrightarrow> calm_step dec c (snd (Put env key (Some (int (length data), data)) ttl c))"
| calm_evictExpired: "working dec env \<Longrightarrow> calm_step dec c (evictExpired env c)"
| calm_evictLRU: "working dec env \<Longrightarrow> evictLRUIfNeeded env c = Some c' \<Longrightarrow> calm_step dec c c'"
| calm_Clear: "working dec env \<Longrightarrow> calm_step dec c (snd (Clear env c))"
| calm_restart: "calm_init dec c' \<Longrightarrow> calm_step dec c c'"

lemma books_Clear: "working dec env \<Longrightarrow> books dec (snd (Clear env c))"
  by (auto simp: Clear_def Let_def working_def books_def tracker_ok_def disk_ok_def clean_def file_at_def tracks_disk_def balanced_def
      newLRUTracker_def no_stats_def lru.bytes_def temp_bytes_def)

interpretation calm: invariant_system "calm_init dec" "calm_step dec" "books dec" for dec
proof unfold_locales
  show start: "books dec c" if "calm_init dec c" for c
    using that
  proof (induction rule: calm_init.induct)
    case (1 env cfg default_dir d dir c)
    then show ?case using books_scan [OF 1(3) 1(1)] by (auto simp: NewCache_def Let_def blank_cache_def split: sum.splits)
  qed
  show "books dec c'" if "books dec c" "calm_step dec c c'" for c c'
    using that(2,1) by (induction rule: calm_step.induct)
      (auto intro: books_Check books_ConfirmHit books_Put books_evictExpired books_evictLRU books_Clear start)
qed

text \<open>
  C33: as long as no call fails, restarts included, the counters are those of the directory: the recorded size is the bytes of the tracked
  entries and of the temporary files, the number of entries that of the tracked keys, and every tracked key has its file of that size.
\<close>

theorem cache_books_balance:
  assumes "reach (calm_init dec) (calm_step dec) c"
  shows "st_size (ca_stats c) = totalSize (ca_lru c) + sum_list (map (\<lambda>(p, f). if HasSuffix p ''.tmp'' then int (length (cf_data f)) else 0) (ca_disk c)) \<and>
    st_entries (ca_stats c) = int (lru_len (ca_lru c)) \<and> distinct (map le_key (lt_entries (ca_lru c))) \<and>
    (\<forall>e \<in> set (lt_entries (ca_lru c)). \<exists>f. file_at (keyPath (ca_cfg c) (le_key e)) c = Some f \<and> int (length (cf_data f)) = le_size e)"
proof -
  have b: "books dec c" by (rule calm.reach_inv [OF assms])
  have "temp_weight = (\<lambda>(p, f). if HasSuffix p ''.tmp'' then int (length (cf_data f)) else 0)" by (auto simp: temp_weight_def)
  then show ?thesis
    using b tracker_distinct by (auto simp: books_def balanced_def lru_bytes temp_bytes_def lru_len_def tracks_disk_def has_entry_def)
qed

subsection \<open>Where the books fail\<close>

text \<open>
  The scan for expired entries releases the size of the file it finds. Where the file is gone, the entry leaves the tracker and its size
  stays recorded for ever: the next evictions pay for bytes that no file has.
\<close>

definition gone_cache :: cache where
  "gone_cache = drop_file (keyPath example_cfg (example_key CHR ''a'')) example_stored"

lemma missing_file_leaks_size:
  "let c = evictExpired (example_env (seconds (25 * 3600))) gone_cache
   in ca_disk c = [] \<and> lt_entries (ca_lru c) = [] \<and> st_entries (ca_stats c) = 0 \<and> st_size (ca_stats c) = 3"
  by code_simp

subsection \<open>An example\<close>

lemma example_working: "working plain_decode (example_env t)"
  by (simp add: working_def example_env_def codec_env_def plain_codec)

lemma example_calm: "reach (calm_init plain_decode) (calm_step plain_decode) example_stored"
proof (rule reach_step [OF reach_init])
  have "disk_ok plain_decode (blank_cache cfg [])" for cfg by (simp add: disk_ok_def clean_def blank_cache_def file_at_def)
  then show "calm_init plain_decode example_start"
    by (intro calm_init.intros [OF example_working _ _ example_start]) (simp_all add: example_cfg_def DefaultCacheConfig_def)
  show "calm_step plain_decode example_start example_stored"
    using calm_Put [OF example_working [of 1], of example_start "example_key CHR ''a''" "''abc''" None] by (simp add: example_stored_def)
qed

theorem cache_books_balance_witness:
  "reach (calm_init plain_decode) (calm_step plain_decode) example_stored \<and> st_entries (ca_stats example_stored) = int (lru_len (ca_lru example_stored))"
  using cache_books_balance [OF example_calm] example_calm by simp

lemma example_counters: "(st_size (ca_stats example_stored), st_entries (ca_stats example_stored), length (ca_disk example_stored)) = (3, 1, 2)"
  by code_simp

end
