(* ===== verification/CacheKeys.thy ===== *)
theory CacheKeys
  imports CacheRuns
begin

section \<open>What a cache key determines\<close>

text \<open>
  The arguments of a request are written with their lengths, so they can be read back from the text that is hashed. The inputs are only
  separated, which is enough for the identifiers of stored files and for locations without a bar.
\<close>

lemma show_pos_nonempty: "show_pos n \<noteq> []"
  by (subst show_pos.simps) simp

lemma Itoa_digits: "0 \<le> n \<Longrightarrow> c \<in> set (Itoa n) \<Longrightarrow> digit_value c \<noteq> None"
  using digits_only by (simp add: Itoa_def)

lemma Itoa_inj: "0 \<le> m \<Longrightarrow> 0 \<le> n \<Longrightarrow> Itoa m = Itoa n \<Longrightarrow> m = n"
  unfolding Itoa_def using read_show_pos by (metis not_less option.inject)

lemma split_at: "x \<notin> set a \<Longrightarrow> x \<notin> set b \<Longrightarrow> a @ x # r = b @ x # s \<Longrightarrow> a = b \<and> r = s"
proof (induction a arbitrary: b)
  case (Cons y a)
  then show ?case by (cases b) auto
qed (auto simp: Cons_eq_append_conv)

lemma key_token_inj: "key_token a @ r = key_token b @ s \<Longrightarrow> a = b \<and> r = s"
proof -
  assume "key_token a @ r = key_token b @ s"
  then have "Itoa (int (length a)) @ CHR '':'' # (a @ r) = Itoa (int (length b)) @ CHR '':'' # (b @ s)" by (simp add: key_token_def)
  then have "Itoa (int (length a)) = Itoa (int (length b)) \<and> a @ r = b @ s" by (intro split_at) simp_all
  moreover from this have "length a = length b" using Itoa_inj [of "int (length a)" "int (length b)"] by simp
  ultimately show ?thesis by simp
qed

lemma key_token_head: "\<exists>c cs. key_token a @ r = c # cs \<and> digit_value c \<noteq> None"
proof -
  obtain c cs where "Itoa (int (length a)) = c # cs" using show_pos_nonempty [of "int (length a)"] by (cases "Itoa (int (length a))") (auto simp: Itoa_def)
  moreover from this have "digit_value c \<noteq> None" using Itoa_digits [of "int (length a)" c] by simp
  ultimately show ?thesis by (simp add: key_token_def)
qed

lemma bar_no_digit [simp]: "digit_value CHR ''|'' = None"
  by (simp add: digit_value_def)

abbreviation token_text :: "string list \<Rightarrow> string" where
  "token_text as \<equiv> join_strings '' '' (map key_token as)"

lemma token_text_Cons: "token_text (a # as) = key_token a @ (if as = [] then [] else CHR '' '' # token_text as)"
  by (cases as) simp_all

lemma token_text_inj: "token_text as @ CHR ''|'' # r = token_text bs @ CHR ''|'' # s \<Longrightarrow> as = bs \<and> r = s"
proof (induction as arbitrary: bs)
  case Nil
  show ?case
  proof (cases bs)
    case (Cons b bs')
    obtain c cs where "token_text bs @ CHR ''|'' # s = c # cs" "digit_value c \<noteq> None"
      using key_token_head [of b] unfolding Cons token_text_Cons append_assoc by blast
    then show ?thesis using Nil by auto
  qed (use Nil in simp)
next
  case (Cons a as)
  show ?case
  proof (cases bs)
    case Nil
    obtain c cs where "token_text (a # as) @ CHR ''|'' # r = c # cs" "digit_value c \<noteq> None"
      using key_token_head [of a] unfolding token_text_Cons append_assoc by blast
    then show ?thesis using Nil Cons.prems by auto
  next
    case (Cons b bs')
    then have "a = b" "(if as = [] then [] else CHR '' '' # token_text as) @ CHR ''|'' # r = (if bs' = [] then [] else CHR '' '' # token_text bs') @ CHR ''|'' # s"
      using Cons.prems key_token_inj unfolding Cons token_text_Cons append_assoc by blast+
    then show ?thesis using Cons.IH [of bs'] Cons by (auto split: if_splits)
  qed
qed

text \<open>An input that its separator does not confuse: the identifier of a stored file, or a URL without a bar.\<close>

definition plain_input :: "string \<Rightarrow> bool" where
  "plain_input s \<longleftrightarrow> s \<noteq> [] \<and> CHR ''|'' \<notin> set s \<and> (CHR '':'' \<in> set s \<longrightarrow> digit_value (hd s) = None)"

abbreviation input_text :: "string list \<Rightarrow> string" where
  "input_text ins \<equiv> join_strings ''|'' ins"

lemma input_text_Cons: "input_text (i # ins) = i @ (if ins = [] then [] else CHR ''|'' # input_text ins)"
  by (cases ins) simp_all

lemma token_text_bar:
  assumes "plain_input i" and "token_text as @ CHR ''|'' # r = i @ CHR ''|'' # s"
  shows False
proof (cases as)
  case Nil
  then show ?thesis using assms by (cases i) (auto simp: plain_input_def)
next
  case (Cons a as')
  let ?d = "Itoa (int (length a))"
  have bar: "CHR ''|'' \<notin> set ?d" using Itoa_digits [of "int (length a)" "CHR ''|''"] by (auto simp: digit_value_def)
  obtain t where "token_text as @ CHR ''|'' # r = ?d @ CHR '':'' # t" 
    unfolding Cons token_text_Cons key_token_def append_assoc append_Cons by blast
  then have eq: "?d @ CHR '':'' # t = i @ CHR ''|'' # s" using assms(2) by simp
  have "length ?d < length i"
  proof (rule ccontr)
    assume "\<not> length ?d < length i"
    then have le: "length i \<le> length ?d" by simp
    have "(?d @ CHR '':'' # t) ! length i = CHR ''|''" using eq by simp
    then have "length i < length ?d \<and> ?d ! length i = CHR ''|''" using le by (cases "length i = length ?d") (simp_all add: nth_append)
    then have "CHR ''|'' \<in> set ?d" using nth_mem by metis
    then show False using bar by simp
  qed
  then have "i ! length ?d = CHR '':''" "take (length ?d) i = ?d"
    using arg_cong [OF eq, of "\<lambda>x. x ! length ?d"] arg_cong [OF eq, of "take (length ?d)"] by (simp_all add: nth_append)
  moreover have "?d \<noteq> []" using show_pos_nonempty by (simp add: Itoa_def)
  ultimately have "CHR '':'' \<in> set i" "hd i = hd ?d" using \<open>length ?d < length i\<close> by (metis nth_mem, metis hd_take length_greater_0_conv)
  moreover have "digit_value (hd ?d) \<noteq> None" using Itoa_digits [of "int (length a)" "hd ?d"] \<open>?d \<noteq> []\<close> by simp
  ultimately show False using assms(1) by (simp add: plain_input_def)
qed

lemma inputs_inj:
  "list_all plain_input ins \<Longrightarrow> list_all plain_input jns \<Longrightarrow>
   input_text ins @ CHR ''|'' # token_text as @ CHR ''|'' # r = input_text jns @ CHR ''|'' # token_text bs @ CHR ''|'' # s \<Longrightarrow>
   ins = jns \<and> as = bs \<and> r = s"
proof (induction ins arbitrary: jns)
  case Nil
  show ?case
  proof (cases jns)
    case (Cons j js)
    then have "plain_input j" "CHR ''|'' # token_text as @ CHR ''|'' # r = j @ ((if js = [] then [] else CHR ''|'' # input_text js) @ CHR ''|'' # token_text bs @ CHR ''|'' # s)"
      using Nil.prems unfolding Cons input_text_Cons append_assoc by simp_all
    then show ?thesis by (cases j) (auto simp: plain_input_def)
  qed (use Nil token_text_inj in simp)
next
  case (Cons i ins)
  have i: "plain_input i" "CHR ''|'' \<notin> set i" using Cons.prems by (simp_all add: plain_input_def)
  show ?case
  proof (cases jns)
    case Nil
    then have "CHR ''|'' # token_text bs @ CHR ''|'' # s = i @ ((if ins = [] then [] else CHR ''|'' # input_text ins) @ CHR ''|'' # token_text as @ CHR ''|'' # r)"
      using Cons.prems unfolding Nil input_text_Cons append_assoc by simp
    then show ?thesis using i by (cases i) (auto simp: plain_input_def)
  next
    case (Cons j js)
    have j: "CHR ''|'' \<notin> set j" using Cons.prems Cons by (simp add: plain_input_def)
    define ri where "ri = (if ins = [] then token_text as @ CHR ''|'' # r else input_text ins @ CHR ''|'' # token_text as @ CHR ''|'' # r)"
    define rj where "rj = (if js = [] then token_text bs @ CHR ''|'' # s else input_text js @ CHR ''|'' # token_text bs @ CHR ''|'' # s)"
    have "i @ CHR ''|'' # ri = j @ CHR ''|'' # rj"
      using Cons.prems(3) unfolding Cons input_text_Cons by (auto simp: ri_def rj_def)
    then have ij: "i = j" "ri = rj" using split_at [OF i(2) j] by simp_all
    consider "ins = []" "js = []" | "ins \<noteq> []" "js \<noteq> []" | x xs where "ins = []" "js = x # xs" | x xs where "js = []" "ins = x # xs"
      by (cases ins; cases js) auto
    then show ?thesis
    proof cases
      case 1
      then show ?thesis using ij Cons token_text_inj by (simp add: ri_def rj_def)
    next
      case 2
      then show ?thesis using ij Cons Cons.IH [of js] Cons.prems by (simp add: ri_def rj_def)
    next
      case 3
      then have "token_text as @ CHR ''|'' # r = x @ CHR ''|'' # (if xs = [] then token_text bs @ CHR ''|'' # s else input_text xs @ CHR ''|'' # token_text bs @ CHR ''|'' # s)"
        using ij by (simp add: ri_def rj_def input_text_Cons)
      moreover have "plain_input x" using 3 Cons Cons.prems by simp
      ultimately show ?thesis using token_text_bar by blast
    next
      case 4
      then have "token_text bs @ CHR ''|'' # s = x @ CHR ''|'' # (if xs = [] then token_text as @ CHR ''|'' # r else input_text xs @ CHR ''|'' # token_text as @ CHR ''|'' # r)"
        using ij(2) [symmetric] by (simp add: ri_def rj_def input_text_Cons)
      moreover have "plain_input x" using 4 Cons.prems by simp
      ultimately show ?thesis using token_text_bar by blast
    qed
  qed
qed



text \<open>Inputs with a bar are not kept apart, nor is a value after an option that has an equals sign.\<close>

lemma inputs_collide: "key_payload [''x|y''] args hw ext enc = key_payload [''x'', ''y''] args hw ext enc"
  by (simp add: key_payload_def)

lemma value_is_dropped: "key_args [''-metadata:a=b'', ''1''] = key_args [''-metadata:a=b'', ''2'']"
  by (simp add: HasPrefix_def)

end
