(* ===== verification/WorkerChecks.thy ===== *)
theory WorkerChecks
  imports RetryExecution RewriteAdapter
begin

section \<open>Checks a worker makes before it runs ffmpeg\<close>

text \<open>
  The pixel format of the inputs (pkg/worker/pixel_format_check.go), the codec of a hardware encoder (hw_codec_check.go), and the
  duration that progress is measured against (worker.go). What ffprobe and ffmpeg print is an argument, as is the parsing of floating point.
\<close>

subsection \<open>The report of ffprobe\<close>

datatype probe_value = ProbeString string | ProbeNumber rat | ProbeOther

type_synonym probe_object = "(string \<times> probe_value) list"

record ffprobe_result =
  fp_format :: "probe_object option"
  fp_streams :: "probe_object list"

subsection \<open>Pixel formats\<close>

record pixel_check =
  px_format :: string
  px_fallback :: bool
  px_reason :: string
  px_encoder :: string

definition isVAAPIEncoder :: "string \<Rightarrow> bool" where
  "isVAAPIEncoder encoder \<longleftrightarrow> HasSuffix (ToLower encoder) ''_vaapi''"

definition unsupportedFormats :: "string list" where
  "unsupportedFormats =
     [''yuv444p'', ''yuv444p10'', ''yuv444p12'', ''yuv444p16'', ''yuv422p'', ''yuv422p10'', ''yuv422p12'', ''yuv422p16'',
      ''yuv440p'', ''yuv440p10'', ''yuv440p12'', ''rgb24'', ''rgba'', ''bgr24'', ''bgra'', ''gbrp'', ''gbrp10'', ''gbrp12'', ''gbrp16'',
      ''gray'', ''gray10'', ''gray12'', ''gray16'', ''xyz12'', ''xyz12le'', ''xyz12be'']"

definition isUnsupportedPixelFormatForVAAPI :: "string \<Rightarrow> bool" where
  "isUnsupportedPixelFormatForVAAPI pixelFormat \<longleftrightarrow> pixelFormat \<in> set unsupportedFormats"

definition getSoftwareFallbackEncoder :: "string \<Rightarrow> string" where
  "getSoftwareFallbackEncoder vaapiEncoder = fb_GetSoftwareEncoder NewEncoderFallback vaapiEncoder"

text \<open>The format of the first video stream that states one.\<close>

fun stream_format :: "probe_object list \<Rightarrow> string" where
  "stream_format [] = []"
| "stream_format (s # ss) =
     (case (map_of s ''codec_type'', map_of s ''pix_fmt'') of
        (Some (ProbeString t), Some (ProbeString f)) \<Rightarrow> if t = ''video'' then f else stream_format ss
      | _ \<Rightarrow> stream_format ss)"

definition extractPixelFormat :: "ffprobe_result option \<Rightarrow> string" where
  "extractPixelFormat res = (case res of None \<Rightarrow> [] | Some r \<Rightarrow> stream_format (fp_streams r))"

definition CheckPixelFormat :: "(string \<Rightarrow> ffprobe_result option) \<Rightarrow> string \<Rightarrow> string \<Rightarrow> pixel_check option" where
  "CheckPixelFormat probe inputPath encoder =
     (case probe inputPath of
        None \<Rightarrow> None
      | Some r \<Rightarrow>
          let pixelFormat = extractPixelFormat (Some r);
              checked = \<lparr>px_format = pixelFormat, px_fallback = False, px_reason = [], px_encoder = []\<rparr>
          in if pixelFormat = [] then None
             else if \<not> isVAAPIEncoder encoder \<or> \<not> isUnsupportedPixelFormatForVAAPI pixelFormat then Some checked
             else Some (checked\<lparr>px_fallback := True,
                    px_reason := ''VAAPI encoder '' @ encoder @ '' does not support pixel format '' @ pixelFormat,
                    px_encoder := getSoftwareFallbackEncoder encoder\<rparr>))"

fun CheckInputsForPixelFormatIncompatibility :: "(string \<Rightarrow> ffprobe_result option) \<Rightarrow> string list \<Rightarrow> string \<Rightarrow> pixel_check option" where
  "CheckInputsForPixelFormatIncompatibility probe [] encoder = None"
| "CheckInputsForPixelFormatIncompatibility probe (p # ps) encoder =
     (case CheckPixelFormat probe p encoder of
        Some r \<Rightarrow> if px_fallback r then Some r else CheckInputsForPixelFormatIncompatibility probe ps encoder
      | None \<Rightarrow> CheckInputsForPixelFormatIncompatibility probe ps encoder)"

subsection \<open>The longest input\<close>

definition probed_duration :: "(string \<Rightarrow> rat option) \<Rightarrow> ffprobe_result option \<Rightarrow> int" where
  "probed_duration parse_float res =
     (case Option.bind res fp_format of
        None \<Rightarrow> 0
      | Some f \<Rightarrow>
          (case map_of f ''duration'' of
             Some (ProbeString d) \<Rightarrow> (case parse_float d of Some secs \<Rightarrow> if secs > 0 then \<lfloor>secs * 1000000\<rfloor> else 0 | None \<Rightarrow> 0)
           | Some (ProbeNumber d) \<Rightarrow> if d > 0 then \<lfloor>d * 1000000\<rfloor> else 0
           | _ \<Rightarrow> 0))"

definition probe_candidate :: "(string \<Rightarrow> bool) \<Rightarrow> string \<Rightarrow> bool" where
  "probe_candidate regular p \<longleftrightarrow> p \<noteq> [] \<and> \<not> HasPrefix p ''-'' \<and> regular p"

text \<open>The probes run concurrently and append their results in any order; the maximum does not depend on it.\<close>

definition longestProbedDurationUs ::
  "(string \<Rightarrow> rat option) \<Rightarrow> (string \<Rightarrow> bool) \<Rightarrow> (string \<Rightarrow> ffprobe_result option) \<Rightarrow> string list \<Rightarrow> int" where
  "longestProbedDurationUs parse_float regular probe inputPaths =
     (let durs = filter (\<lambda>us. us > 0) (map (\<lambda>p. probed_duration parse_float (probe p)) (filter (probe_candidate regular) inputPaths))
      in fold max durs 0)"

lemma longest_is_max:
  "longestProbedDurationUs parse_float regular probe inputPaths =
     Max (insert 0 (set (map (\<lambda>p. probed_duration parse_float (probe p)) (filter (probe_candidate regular) inputPaths))))"
proof -
  have "Max (insert 0 (set (filter (\<lambda>us. us > 0) xs))) = Max (insert 0 (set xs))" for xs :: "int list"
  proof (induction xs)
    case (Cons a xs)
    have "0 \<le> Max (insert 0 (set xs))" by (rule Max_ge) simp_all
    then show ?case using Cons by (auto simp: Max_insert insert_commute [of 0] max_def intro: order_trans [of a 0])
  qed simp
  then show ?thesis by (simp add: longestProbedDurationUs_def Let_def Max.set_eq_fold [symmetric] del: set_map set_filter)
qed

subsection \<open>The codec of a hardware encoder\<close>

datatype codec_verdict = VerdictInconclusive | VerdictSupported | VerdictUnsupported

text \<open>The first line of stderr that says the runtime cannot encode the codec.\<close>

definition says_unsupported :: "string \<Rightarrow> bool" where
  "says_unsupported line \<longleftrightarrow>
     (let lower = ToLower (TrimSpace line)
      in lower \<noteq> [] \<and> (Contains lower (''doesn'' @ [CHR 0x27] @ ''t support'') \<or> Contains lower ''does not support'') \<and>
         (Contains lower ''encoding'' \<or> Contains lower ''codec''))"

definition hardwareCodecUnsupportedReason :: "string \<Rightarrow> string" where
  "hardwareCodecUnsupportedReason stderr =
     (case List.find says_unsupported (Split LF stderr) of Some line \<Rightarrow> TrimSpace line | None \<Rightarrow> [])"

text \<open>The verdict on a probe that printed \<open>stderr\<close> and failed or not.\<close>

definition codec_probe :: "string \<Rightarrow> bool \<Rightarrow> codec_verdict \<times> string" where
  "codec_probe stderr failed =
     (let reason = hardwareCodecUnsupportedReason stderr
      in if reason \<noteq> [] then (VerdictUnsupported, reason)
         else if \<not> failed then (VerdictSupported, []) else (VerdictInconclusive, []))"

record codec_checker =
  ck_cache :: "string \<rightharpoonup> codec_verdict \<times> string"
  ck_inflight :: "string set"

definition NewHardwareCodecChecker :: codec_checker where
  "NewHardwareCodecChecker = \<lparr>ck_cache = Map.empty, ck_inflight = {}\<rparr>"

text \<open>What \<^verbatim>\<open>Check\<close> does under the lock: it answers, waits for the job that probes, or probes.\<close>

datatype codec_answer = Answered bool string | Waits | Probes

definition codec_check_begin :: "string \<Rightarrow> codec_checker \<Rightarrow> codec_answer \<times> codec_checker" where
  "codec_check_begin encoder c =
     (if \<not> isHardwareEncoderByName encoder then (Answered False [], c)
      else case ck_cache c encoder of
             Some (verdict, reason) \<Rightarrow> (Answered (verdict = VerdictUnsupported) reason, c)
           | None \<Rightarrow> if encoder \<in> ck_inflight c then (Waits, c) else (Probes, c\<lparr>ck_inflight := insert encoder (ck_inflight c)\<rparr>))"

definition codec_check_finish :: "string \<Rightarrow> codec_verdict \<times> string \<Rightarrow> codec_checker \<Rightarrow> (bool \<times> string) \<times> codec_checker" where
  "codec_check_finish encoder res c =
     (let c = c\<lparr>ck_inflight := ck_inflight c - {encoder}\<rparr>;
          c = (if fst res \<noteq> VerdictInconclusive then c\<lparr>ck_cache := (ck_cache c)(encoder \<mapsto> res)\<rparr> else c)
      in ((fst res = VerdictUnsupported, snd res), c))"

text \<open>Several jobs check at once: the second component lists the encoders jobs are probing, one entry for each such job.\<close>

inductive codec_step :: "codec_checker \<times> string list \<Rightarrow> codec_checker \<times> string list \<Rightarrow> bool" where
  codec_ask: "codec_check_begin e c = (a, c') \<Longrightarrow> codec_step (c, ps) (c', if a = Probes then e # ps else ps)"
| codec_settle: "e \<in> set ps \<Longrightarrow> codec_step (c, ps) (snd (codec_check_finish e (codec_probe stderr failed) c), remove1 e ps)"

definition conclusive :: "codec_verdict \<times> string \<Rightarrow> bool" where
  "conclusive r \<longleftrightarrow> fst r \<noteq> VerdictInconclusive \<and> (fst r = VerdictUnsupported \<longleftrightarrow> snd r \<noteq> [])"

definition codec_ok :: "codec_checker \<times> string list \<Rightarrow> bool" where
  "codec_ok s \<longleftrightarrow> distinct (snd s) \<and> set (snd s) = ck_inflight (fst s) \<and> (\<forall>e \<in> set (snd s). ck_cache (fst s) e = None) \<and>
     (\<forall>r \<in> ran (ck_cache (fst s)). conclusive r)"

lemma codec_probe_conclusive: "fst (codec_probe stderr failed) \<noteq> VerdictInconclusive \<Longrightarrow> conclusive (codec_probe stderr failed)"
  by (auto simp: codec_probe_def conclusive_def Let_def)

lemma codec_begin_cases:
  assumes "codec_check_begin e c = (a, c')"
  obtains "c' = c" "a \<noteq> Probes"
  | "a = Probes" "c' = c\<lparr>ck_inflight := insert e (ck_inflight c)\<rparr>" "ck_cache c e = None" "e \<notin> ck_inflight c"
  using assms by (auto simp: codec_check_begin_def split: if_splits option.splits)

lemma codec_step_keeps: "codec_step s t \<Longrightarrow> codec_ok s \<Longrightarrow> codec_ok t \<and> ck_cache (fst s) \<subseteq>\<^sub>m ck_cache (fst t)"
proof (induction rule: codec_step.induct)
  case (codec_ask e c a c' ps)
  from codec_ask(1) show ?case by (cases rule: codec_begin_cases) (use codec_ask(2) in \<open>auto simp: codec_ok_def\<close>)
next
  case (codec_settle e ps c stderr failed)
  let ?r = "codec_probe stderr failed"
  have ok: "distinct ps" "set ps = ck_inflight c" "\<forall>e \<in> set ps. ck_cache c e = None" "\<forall>r \<in> ran (ck_cache c). conclusive r"
    using codec_settle(2) by (simp_all add: codec_ok_def)
  have new: "ck_cache c e = None" using ok(3) codec_settle(1) by blast
  show ?case
  proof (cases "fst ?r = VerdictInconclusive")
    case True
    then show ?thesis using ok by (auto simp: codec_ok_def codec_check_finish_def Let_def)
  next
    case False
    then show ?thesis
      using ok new codec_probe_conclusive [OF False] by (auto simp: codec_ok_def codec_check_finish_def Let_def map_le_def)
  qed
qed

interpretation codecs: ordered_system "\<lambda>s. s = (NewHardwareCodecChecker, [])" codec_step codec_ok "\<lambda>s t. ck_cache (fst s) \<subseteq>\<^sub>m ck_cache (fst t)"
  by unfold_locales (auto simp: codec_ok_def NewHardwareCodecChecker_def dest: codec_step_keeps intro: map_le_trans)



subsection \<open>The notice of a rewrite (pkg/audit/notifier.go)\<close>

definition maxSoftwareEncodersOnLine :: nat where "maxSoftwareEncodersOnLine = 10"

definition summarizeNames :: "string list \<Rightarrow> nat \<Rightarrow> string" where
  "summarizeNames names limit =
     (if length names \<le> limit then join_strings '','' names
      else join_strings '','' (take limit names) @ '' [... +'' @ Itoa (int (length names) - int limit) @ '' more]'')"

definition formatCapabilitiesForDisplay :: "string \<Rightarrow> string" where
  "formatCapabilitiesForDisplay capabilitiesSummary =
     (let names = Split (CHR '','') capabilitiesSummary;
          hardware = filter (\<lambda>n. HasSuffix n HardwareEncoderMarker) names; software = filter (\<lambda>n. \<not> HasSuffix n HardwareEncoderMarker) names
      in join_strings ''; '' ((if hardware \<noteq> [] then [join_strings '','' hardware] else []) @
                              (if software \<noteq> [] then [summarizeNames software maxSoftwareEncodersOnLine] else [])))"

definition formatRewriteChainSegments :: "string \<Rightarrow> string \<Rightarrow> string \<Rightarrow> string \<Rightarrow> string" where
  "formatRewriteChainSegments capabilitiesSummary requested rewritten reason =
     join_strings '' | ''
       ((if capabilitiesSummary \<noteq> [] then [''Worker capabilities: '' @ formatCapabilitiesForDisplay capabilitiesSummary] else []) @
        (if requested \<noteq> [] then [''Requested: '' @ requested] else []) @
        (if rewritten \<noteq> [] then [''Rewritten: '' @ rewritten] else []) @
        (if reason \<noteq> [] then [''Reason: '' @ reason] else []))"

definition FormatRewriteChainLine :: "string \<Rightarrow> string \<Rightarrow> string \<Rightarrow> string \<Rightarrow> string \<Rightarrow> string" where
  "FormatRewriteChainLine capabilitiesSummary requested rewritten reason level =
     ''[rffmpeg] '' @ level @ '': '' @ formatRewriteChainSegments capabilitiesSummary requested rewritten reason @ [LF]"

end
