(* ===== verification/GoPath.thy ===== *)
theory GoPath
  imports FfmpegArgs
begin

section \<open>Go's path/filepath on Unix\<close>

text \<open>The lexical functions of the package the worker calls, on absolute and relative paths.\<close>

text \<open>The elements kept so far, the last one first: empty elements and dots are dropped, a parent step undoes the element before it.\<close>

fun clean_parts :: "bool \<Rightarrow> string list \<Rightarrow> string list \<Rightarrow> string list" where
  "clean_parts rooted kept [] = kept"
| "clean_parts rooted kept (p # ps) =
     (if p = [] \<or> p = ''.'' then clean_parts rooted kept ps
      else if p = ''..'' then
        (case kept of
           q # qs \<Rightarrow> if q \<noteq> ''..'' then clean_parts rooted qs ps else clean_parts rooted (p # kept) ps
         | [] \<Rightarrow> if rooted then clean_parts rooted [] ps else clean_parts rooted [p] ps)
      else clean_parts rooted (p # kept) ps)"

definition IsAbs :: "string \<Rightarrow> bool" where
  "IsAbs path \<longleftrightarrow> HasPrefix path ''/''"

definition Clean :: "string \<Rightarrow> string" where
  "Clean path =
     (let rooted = IsAbs path; body = join_strings ''/'' (rev (clean_parts rooted [] (Split (CHR ''/'') path)))
      in if rooted then CHR ''/'' # body else if body = [] then ''.'' else body)"

definition path_Join :: "string list \<Rightarrow> string" where
  "path_Join elems = (let es = filter (\<lambda>e. e \<noteq> []) elems in if es = [] then [] else Clean (join_strings ''/'' es))"

definition Base :: "string \<Rightarrow> string" where
  "Base path =
     (if path = [] then ''.''
      else let p = rev (dropWhile (\<lambda>c. c = CHR ''/'') (rev path))
           in if p = [] then ''/'' else rev (takeWhile (\<lambda>c. c \<noteq> CHR ''/'') (rev p)))"

definition Dir :: "string \<Rightarrow> string" where
  "Dir path = Clean (rev (dropWhile (\<lambda>c. c \<noteq> CHR ''/'') (rev path)))"

text \<open>The names a path goes through.\<close>

definition components :: "string \<Rightarrow> string list" where
  "components path = filter (\<lambda>p. p \<noteq> []) (Split (CHR ''/'') path)"

lemma Split_append: "Split sep (a @ sep # b) = Split sep a @ Split sep b"
proof (induction a)
  case (Cons c a)
  then show ?case by (cases "Split sep a"; cases "Split sep (a @ sep # b)") (auto split: list.splits)
qed simp

lemma components_append: "components (a @ CHR ''/'' # b) = components a @ components b"
  by (simp add: components_def Split_append)

lemma Split_no_sep: "sep \<notin> set s \<Longrightarrow> Split sep s = [s]"
  by (induction s) auto

lemma Split_pieces: "p \<in> set (Split sep s) \<Longrightarrow> sep \<notin> set p"
  by (induction s arbitrary: p) (auto split: list.splits if_splits)

lemma components_plain: "CHR ''/'' \<notin> set s \<Longrightarrow> components s = (if s = [] then [] else [s])"
  by (simp add: components_def Split_no_sep)

lemma join_strings_Cons: "join_strings sep (s # ss) = s @ (if ss = [] then [] else sep @ join_strings sep ss)"
  by (cases ss) simp_all

lemma components_join:
  "(\<And>e. e \<in> set es \<Longrightarrow> e \<noteq> [] \<and> CHR ''/'' \<notin> set e) \<Longrightarrow> components (join_strings ''/'' es) = es"
proof (induction es)
  case (Cons e es)
  then show ?case
    using components_append [of e "join_strings ''/'' es"] by (simp add: join_strings_Cons components_plain)
qed (simp add: components_def)

lemma clean_parts_names:
  "(\<And>e. e \<in> set kept \<union> set ps \<Longrightarrow> CHR ''/'' \<notin> set e) \<Longrightarrow> (\<And>e. e \<in> set kept \<Longrightarrow> e \<noteq> [] \<and> e \<noteq> ''.'') \<Longrightarrow>
   e \<in> set (clean_parts rooted kept ps) \<Longrightarrow> e \<noteq> [] \<and> e \<noteq> ''.'' \<and> CHR ''/'' \<notin> set e"
  by (induction rooted kept ps rule: clean_parts.induct) (auto split: list.splits if_splits)

lemma clean_parts_rooted: "(\<And>e. e \<in> set kept \<Longrightarrow> e \<noteq> ''..'') \<Longrightarrow> rooted \<Longrightarrow> e \<in> set (clean_parts rooted kept ps) \<Longrightarrow> e \<noteq> ''..''"
  by (induction rooted kept ps rule: clean_parts.induct) (auto split: list.splits if_splits)

text \<open>The names of a cleaned absolute path are those the path resolves to, without any step upwards.\<close>

lemma components_Clean:
  assumes "IsAbs path"
  shows "components (Clean path) = rev (clean_parts True [] (Split (CHR ''/'') path))" and "e \<in> set (components (Clean path)) \<Longrightarrow> e \<noteq> ''..'' \<and> e \<noteq> ''.''"
proof -
  let ?es = "rev (clean_parts True [] (Split (CHR ''/'') path))"
  have names: "e \<noteq> [] \<and> e \<noteq> ''.'' \<and> CHR ''/'' \<notin> set e" if "e \<in> set ?es" for e
    using clean_parts_names [of "[]" "Split (CHR ''/'') path" e True] that Split_pieces by auto
  then have "components (join_strings ''/'' ?es) = ?es" by (intro components_join) blast
  then show eq: "components (Clean path) = ?es" using assms components_append [of "[]"] by (simp add: Clean_def Let_def components_def)
  show "e \<in> set (components (Clean path)) \<Longrightarrow> e \<noteq> ''..'' \<and> e \<noteq> ''.''"
    using eq names clean_parts_rooted [of "[]" True e] by auto
qed

end
