(* ===== verification/WorkerPaths.thy ===== *)
theory WorkerPaths
  imports GoPath Access
begin

section \<open>Paths and files of a worker job (pkg/worker/worker.go)\<close>

text \<open>
  Which shared paths a job may name, the directory its output is staged in and how it is published. The file system answers through
  \<open>world\<close>: \<^verbatim>\<open>EvalSymlinks\<close>, \<^verbatim>\<open>Lstat\<close> and \<^verbatim>\<open>Stat\<close>, whose errors tell whether the path does not exist and carry their text.
\<close>

type_synonym path_error = "bool \<times> string"

record path_world =
  pw_eval :: "string \<Rightarrow> path_error + string"
  pw_lstat :: "string \<Rightarrow> path_error option"
  pw_stat :: "string \<Rightarrow> path_error option"

subsection \<open>The allow-list\<close>

definition resolved_prefix :: "path_world \<Rightarrow> string \<Rightarrow> string" where
  "resolved_prefix w p = (let cleaned = Clean p in case pw_eval w cleaned of Inr resolved \<Rightarrow> resolved | Inl _ \<Rightarrow> cleaned)"

definition parseAllowedPrefixes :: "path_world \<Rightarrow> string \<Rightarrow> string list" where
  "parseAllowedPrefixes w raw =
     (let raw = TrimSpace raw
      in if raw = [] then []
         else map (resolved_prefix w) (filter (\<lambda>p. p \<noteq> []) (map TrimSpace (Split (CHR '','') raw))))"

definition pathAllowed :: "string list \<Rightarrow> string \<Rightarrow> bool" where
  "pathAllowed allowedPrefixes path \<longleftrightarrow>
     allowedPrefixes = [] \<or>
     (let cleaned = Clean path in list_ex (\<lambda>prfx. cleaned = prfx \<or> HasPrefix cleaned (prfx @ ''/'')) allowedPrefixes)"

text \<open>A violation is its message and its details.\<close>

definition validateDirectInputPath :: "path_world \<Rightarrow> string list \<Rightarrow> string \<Rightarrow> (string \<times> string) option" where
  "validateDirectInputPath w allowed path =
     (if \<not> IsAbs path then Some (''direct path must be absolute: '' @ path, ''non-absolute direct path'')
      else case pw_eval w path of
             Inl (_, e) \<Rightarrow> Some (''input path unreachable: '' @ path @ '': '' @ e, e)
           | Inr resolved \<Rightarrow>
               if \<not> pathAllowed allowed resolved
               then Some (''direct path not allowed by RFFMPEG_SHARED_FS_ALLOWED_PREFIX: '' @ path, ''path not in allowed prefix'')
               else case pw_stat w path of
                      Some (_, e) \<Rightarrow> Some (''input path unreachable: '' @ path @ '': '' @ e, e)
                    | None \<Rightarrow> None)"

datatype real_path_error = OutputBrokenSymlink | OutputParentNotExist | OutputPathError string

definition resolveOutputRealPath :: "path_world \<Rightarrow> string \<Rightarrow> real_path_error + string" where
  "resolveOutputRealPath w path =
     (case pw_lstat w path of
        None \<Rightarrow>
          (case pw_eval w path of
             Inr resolved \<Rightarrow> Inr resolved
           | Inl (missing, e) \<Rightarrow> Inl (if missing then OutputBrokenSymlink else OutputPathError e))
      | Some (missing, e) \<Rightarrow>
          if \<not> missing then Inl (OutputPathError e)
          else case pw_eval w (Dir path) of
                 Inl (missing, e) \<Rightarrow> Inl (if missing then OutputParentNotExist else OutputPathError e)
               | Inr realParent \<Rightarrow> Inr (path_Join [realParent, Base path]))"

definition validateDirectOutputPath :: "path_world \<Rightarrow> string list \<Rightarrow> string \<Rightarrow> (string \<times> string) option" where
  "validateDirectOutputPath w allowed path =
     (if \<not> IsAbs path then Some (''direct output path must be absolute: '' @ path, ''non-absolute direct output path'')
      else case resolveOutputRealPath w path of
             Inl OutputParentNotExist \<Rightarrow>
               Some (''output path parent directory does not exist: '' @ Dir path, ''parent directory does not exist'')
           | Inl OutputBrokenSymlink \<Rightarrow> Some (''output path is a broken symbolic link: '' @ path, ''output path is a broken symlink'')
           | Inl (OutputPathError e) \<Rightarrow>
               Some (''output path not allowed by RFFMPEG_SHARED_FS_ALLOWED_PREFIX: '' @ path @ '': '' @ e, e)
           | Inr resolved \<Rightarrow>
               if \<not> pathAllowed allowed resolved
               then Some (''output path not allowed by RFFMPEG_SHARED_FS_ALLOWED_PREFIX: '' @ path, ''path not in allowed prefix'')
               else None)"

subsection \<open>Private directories\<close>

datatype private_dir_error = PrivateDirStat | PrivateDirType | PrivateDirOwner | PrivateDirMode

text \<open>What \<^verbatim>\<open>Stat\<close> says: the owner, where the system reports one, and the permission bits.\<close>

definition verifyPrivateDirAs :: "(int option \<times> nat) option \<Rightarrow> int \<Rightarrow> private_dir_error option" where
  "verifyPrivateDirAs stat euid =
     (case stat of
        None \<Rightarrow> Some PrivateDirStat
      | Some (None, _) \<Rightarrow> Some PrivateDirType
      | Some (Some uid, perm) \<Rightarrow>
          if uid \<noteq> euid mod 2 ^ 32 then Some PrivateDirOwner else if perm \<noteq> 448 then Some PrivateDirMode else None)"

subsection \<open>Staging\<close>

definition staging_char :: "char \<Rightarrow> char" where
  "staging_char c =
     (let n = of_char c :: nat in
      if (97 \<le> n \<and> n \<le> 122) \<or> (65 \<le> n \<and> n \<le> 90) \<or> (48 \<le> n \<and> n \<le> 57) \<or> c = CHR ''-'' \<or> c = CHR ''_'' then c else CHR ''_'')"

text \<open>A character of the identifier is a byte here; one that is not ASCII becomes as many underscores as it has bytes.\<close>

definition directStagingDir :: "string \<Rightarrow> string \<Rightarrow> string" where
  "directStagingDir jobID outputPath =
     (let token = (if jobID = [] then ''job'' else map staging_char jobID)
      in path_Join [Dir outputPath, ''.rffmpeg-staging-'' @ token])"

text \<open>The moves in their order: the main output last, the others in an order the sorting leaves open, that of the directory here.\<close>

definition publish_order :: "string \<Rightarrow> string list \<Rightarrow> string list" where
  "publish_order mainName names = filter (\<lambda>n. n \<noteq> mainName) names @ filter (\<lambda>n. n = mainName) names"

fun rename_all :: "(string \<Rightarrow> bool) \<Rightarrow> string list \<Rightarrow> string list \<times> bool" where
  "rename_all ok [] = ([], True)"
| "rename_all ok (n # ns) = (if \<not> ok n then ([], False) else (case rename_all ok ns of (moved, done) \<Rightarrow> (n # moved, done)))"

text \<open>The names that were moved, and whether all were; \<open>entries\<close> is the listing, with the directories marked.\<close>

definition publishStagedOutput :: "(string \<times> bool) list option \<Rightarrow> (string \<Rightarrow> bool) \<Rightarrow> string \<Rightarrow> string list \<times> bool" where
  "publishStagedOutput entries rename_ok mainName =
     (case entries of
        None \<Rightarrow> ([], False)
      | Some es \<Rightarrow> if list_ex snd es then ([], False) else rename_all rename_ok (publish_order mainName (map fst es)))"

subsection \<open>What stderr says of an output\<close>

definition ffmpegStderrIndicatesEmptyOutput :: "string \<Rightarrow> bool" where
  "ffmpegStderrIndicatesEmptyOutput stderr \<longleftrightarrow>
     list_ex (Contains (ToLower stderr)) [''output file is empty'', ''nothing was encoded'', ''does not contain any stream'']"

text \<open>The text after the first \<open>] \<close> of a line with a context tag.\<close>

fun after_tag :: "string \<Rightarrow> string option" where
  "after_tag [] = None"
| "after_tag (c # s) = (if HasPrefix (c # s) ''] '' then Some (tl s) else after_tag s)"

definition untagged :: "string \<Rightarrow> string" where
  "untagged raw =
     (let line = TrimSpace raw
      in if HasPrefix line ''['' then (case after_tag line of Some rest \<Rightarrow> TrimSpace rest | None \<Rightarrow> line) else line)"

definition ffmpegStderrIndicatesUnwrittenOutput :: "string \<Rightarrow> bool" where
  "ffmpegStderrIndicatesUnwrittenOutput stderr \<longleftrightarrow>
     list_ex (\<lambda>raw. let line = untagged raw in
        list_ex (HasPrefix line) [''Error opening output'', ''Error initializing the muxer'', ''Unable to choose an output format''] \<or>
        (HasPrefix line ''File '' \<and> Contains line ''already exists'')) (Split LF stderr)"

subsection \<open>An allowed path lies below a prefix\<close>

lemma HasPrefix_append: "HasPrefix s p \<longleftrightarrow> (\<exists>r. s = p @ r)"
  by (auto simp: HasPrefix_def prefix_def)

text \<open>
  C35: with an allow-list, an accepted path names an allowed directory or goes through one: the names of some prefix begin the names of the
  path, which has no step upwards. A directory that only shares the text of a prefix is not accepted.
\<close>

theorem allowed_path_is_below:
  assumes "pathAllowed allowed path" and "allowed \<noteq> []" and "IsAbs path"
  shows "(\<exists>prfx \<in> set allowed. \<exists>rest. components (Clean path) = components prfx @ rest) \<and> ''..'' \<notin> set (components (Clean path))"
proof -
  obtain prfx where p: "prfx \<in> set allowed" "Clean path = prfx \<or> HasPrefix (Clean path) (prfx @ ''/'')"
    using assms(1,2) by (auto simp: pathAllowed_def Let_def list_ex_iff)
  then have "\<exists>rest. components (Clean path) = components prfx @ rest"
    using components_append by (auto simp: HasPrefix_append)
  then show ?thesis using p(1) components_Clean(2) [OF assms(3)] by blast
qed

theorem allowed_path_is_below_witness:
  "(\<exists>prfx \<in> set [''/data/media'']. \<exists>rest. components (Clean ''/data/media/../media/a.mp4'') = components prfx @ rest) \<and>
   ''..'' \<notin> set (components (Clean ''/data/media/../media/a.mp4'')) \<and> \<not> pathAllowed [''/data/media''] ''/data/media2/a.mp4''"
proof -
  have "pathAllowed [''/data/media''] ''/data/media/../media/a.mp4''" "IsAbs ''/data/media/../media/a.mp4''" by code_simp+
  moreover have "\<not> pathAllowed [''/data/media''] ''/data/media2/a.mp4''" by code_simp
  ultimately show ?thesis using allowed_path_is_below [of "[''/data/media'']" "''/data/media/../media/a.mp4''"] by blast
qed

text \<open>The allow-list entry of the root directory allows only the root itself: nothing begins with two slashes.\<close>

lemma root_prefix_allows_nothing: "\<not> pathAllowed [''/''] ''/data/a.mp4''"
  by code_simp

subsection \<open>Publication\<close>

lemma filter_single: "distinct xs \<Longrightarrow> filter (\<lambda>n. n = x) xs = (if x \<in> set xs then [x] else [])"
  by (induction xs) auto

lemma rename_all_moved: "rename_all ok ns = (moved, all) \<Longrightarrow> \<exists>rest. ns = moved @ rest \<and> all = (rest = []) \<and> list_all ok moved"
  by (induction ns arbitrary: moved) (auto split: prod.splits if_splits)

text \<open>
  The main output is moved last and only once: a client that sees it can see every other file of the output, and after a failure
  before it nothing the client reads has changed its main file.
\<close>

theorem main_output_moves_last:
  assumes "publishStagedOutput (Some es) ok mainName = (moved, all)" and "distinct (map fst es)" and "mainName \<in> set moved"
  shows "all \<and> last moved = mainName \<and> set moved = fst ` set es \<and> distinct moved"
proof -
  have nodir: "\<not> list_ex snd es" using assms by (auto simp: publishStagedOutput_def split: if_splits)
  let ?others = "filter (\<lambda>n. n \<noteq> mainName) (map fst es)"
  have run: "rename_all ok (publish_order mainName (map fst es)) = (moved, all)" using assms(1) nodir by (simp add: publishStagedOutput_def)
  from rename_all_moved [OF this] obtain rest where r: "publish_order mainName (map fst es) = moved @ rest" "all = (rest = [])" by blast
  have "mainName \<in> set (publish_order mainName (map fst es))" using assms(3) r(1) by simp
  then have mem: "mainName \<in> set (map fst es)" by (auto simp: publish_order_def)
  then have order: "publish_order mainName (map fst es) = ?others @ [mainName]"
    unfolding publish_order_def filter_single [OF assms(2)] by simp
  have "mainName \<notin> set ?others" by simp
  have "rest = []"
  proof (rule ccontr)
    assume "rest \<noteq> []"
    then obtain r' z where "rest = r' @ [z]" by (metis rev_exhaust)
    then have "?others @ [mainName] = (moved @ r') @ [z]" using r(1) order by (metis append.assoc)
    then have "?others = moved @ r'" by (metis append1_eq_conv)
    then show False using assms(3) \<open>mainName \<notin> set ?others\<close> by (metis in_set_conv_decomp append_assoc append_Cons)
  qed
  then have moved: "moved = ?others @ [mainName]" using r(1) order by simp
  have "set moved = fst ` set es" using moved mem by auto
  moreover have "distinct moved" using moved assms(2) by simp
  ultimately show ?thesis using moved r(2) \<open>rest = []\<close> by simp
qed

theorem main_output_moves_last_witness:
  "last (fst (publishStagedOutput (Some [(''a.m3u8'', False), (''a0.ts'', False)]) (\<lambda>_. True) ''a.m3u8'')) = ''a.m3u8''"
proof -
  have "publishStagedOutput (Some [(''a.m3u8'', False), (''a0.ts'', False)]) (\<lambda>_. True) ''a.m3u8'' = ([''a0.ts'', ''a.m3u8''], True)" by code_simp
  then show ?thesis using main_output_moves_last [of "[(''a.m3u8'', False), (''a0.ts'', False)]" "\<lambda>_. True" "''a.m3u8''"] by simp
qed

end
