(* ===== verification/WorkerJob.thy ===== *)
theory WorkerJob
  imports JobHandlers WorkerChecks WorkerPaths WorkerCache
begin

section \<open>One job on a worker (pkg/worker/worker.go, processJob)\<close>

text \<open>
  From the pulled job to its terminal report. What the job does to its surroundings is a list of events in their order; \<open>w\<close> is
  everything that answers it: the server, the file system, the cache, ffmpeg, the cancellation of the job's context at each point it
  is asked for, and panics. A panic can strike at the start of every phase. The functions a Go function defers are appended to the
  events of the rest of its body. The cache is asked and filled through \<^verbatim>\<open>Check\<close>, \<^verbatim>\<open>ConfirmHit\<close> and \<^verbatim>\<open>Put\<close>, between which
  other jobs use it, so its answer is part of \<open>w\<close>.
\<close>

subsection \<open>Events and outcomes\<close>

datatype job_event =
    Reported job_status int string bool string string  \<comment> \<open>status, exit code, error, cached, failure type and details\<close>
  | WatchCancel | StopWatch
  | CacheConfirm string | CachePut string string duration
  | MakeTree string | RemoveTree string | RemoveOld string | CopyFile string string | MovedOutput string | WriteResult string
  | Download string string | Upload string
  | BatcherOpened | BatcherAdd string | BatcherFlushed | BatcherClosed
  | RouterLine string | RouterSeeded int "string list" | RouterAttempt | RouterFinal | RouterReset
  | RewriteRecorded string string string string
  | Process "string list" | Retried retry_event
  | StdoutOpened | StdoutFlushed | StdoutClosed

text \<open>A phase returns with \<open>Finished\<close> and the flag \<^verbatim>\<open>jobFailed\<close>, panics, or goes on.\<close>

datatype 'a job_outcome = Finished bool | Crashed string bool | Going 'a

type_synonym 'a job_run = "job_event list \<times> 'a job_outcome"

definition and_then :: "'a job_run \<Rightarrow> ('a \<Rightarrow> 'b job_run) \<Rightarrow> 'b job_run" where
  "and_then m f =
     (case m of (evs, out) \<Rightarrow>
        (case out of
           Going x \<Rightarrow> (case f x of (evs', out') \<Rightarrow> (evs @ evs', out'))
         | Finished failed \<Rightarrow> (evs, Finished failed)
         | Crashed msg flush \<Rightarrow> (evs, Crashed msg flush)))"

definition emits :: "job_event list \<Rightarrow> unit job_run" where "emits evs = (evs, Going ())"
definition stop :: "bool \<Rightarrow> job_event list \<Rightarrow> 'a job_run" where "stop failed evs = (evs, Finished failed)"
definition deferred :: "job_event list \<Rightarrow> 'a job_run \<Rightarrow> 'a job_run" where
  "deferred evs m = (case m of (evs', out) \<Rightarrow> (evs' @ evs, out))"

lemma and_then_alt:
  "and_then m f =
     (case snd m of
        Going x \<Rightarrow> (fst m @ fst (f x), snd (f x))
      | Finished failed \<Rightarrow> (fst m, Finished failed)
      | Crashed msg flush \<Rightarrow> (fst m, Crashed msg flush))"
  by (simp add: and_then_def split: prod.splits job_outcome.splits)

lemma deferred_alt: "deferred evs m = (fst m @ evs, snd m)"
  by (simp add: deferred_def split: prod.split)

subsection \<open>The surroundings\<close>

datatype job_phase = InDirectPaths | InCache | InDirectory | InDownloads | InOutput | InStaging | InRewrite | InChecks | InRun
  | InVerdict | InDelivery | InProbe

datatype job_call = MkCachedDir | CopyCached | StatCached | UploadCached | CleanJobDir | MkJobDir | RemoveStale | ClearStaging
  | MkStaging | ReportRunning | UploadResult | StreamStdout | RunProbe | WriteProbe

datatype job_stat = CachedTarget | DirectTarget | FinalOutput

datatype cancel_point = CancelAtDownload string | CancelAfterDownload | CancelBeforeRun | CancelAtRunning | CancelAfterRun

record download_error =
  de_full :: bool       \<comment> \<open>unwraps to a full disk\<close>
  de_transport :: bool  \<comment> \<open>the request got no response\<close>
  de_text :: string

record job_world =
  jw_panic :: "job_phase \<Rightarrow> string option"
  jw_fail :: "job_call \<Rightarrow> string option"     \<comment> \<open>the text of the error, if the call fails\<close>
  jw_exists :: "job_stat \<Rightarrow> bool"
  jw_cancelled :: "cancel_point \<Rightarrow> bool"
  jw_paths :: path_world
  jw_cached :: "string \<Rightarrow> string option"      \<comment> \<open>the answer of the cache to a key\<close>
  jw_download :: "string \<Rightarrow> download_error option"
  jw_uuid :: "string \<Rightarrow> string"
  jw_regular :: "string \<Rightarrow> bool"
  jw_probe :: "string \<Rightarrow> ffprobe_result option"
  jw_codec :: "string \<Rightarrow> bool \<times> string"       \<comment> \<open>the answer of the codec checker\<close>
  jw_run :: "string list \<Rightarrow> exec_result"
  jw_size :: "string \<Rightarrow> int option"
  jw_retry :: retry_world
  jw_deadline :: bool                          \<comment> \<open>the execution budget is spent after the retries\<close>
  jw_timeout_text :: string
  jw_listing :: "(string \<times> bool) list option"
  jw_rename :: "string \<Rightarrow> bool"
  jw_publish_text :: string

record worker_conf =
  wc_temp :: string
  wc_prefixes :: "string list"
  wc_caps :: hardware_caps
  wc_adapter :: adapter_config
  wc_retry :: retry_executor
  wc_url_ttl :: duration
  wc_audit :: bool
  wc_digest :: "string \<Rightarrow> string"
  wc_float :: "string \<Rightarrow> rat option"
  wc_mux :: "string \<Rightarrow> string"
  wc_dvc :: "string \<Rightarrow> string option"
  wc_tr :: "translator option"

definition guarded :: "job_world \<Rightarrow> job_phase \<Rightarrow> bool \<Rightarrow> 'a job_run \<Rightarrow> 'a job_run" where
  "guarded w phase flush m = (case jw_panic w phase of Some msg \<Rightarrow> ([], Crashed msg flush) | None \<Rightarrow> m)"

subsection \<open>Reports\<close>

definition status_report :: "job_status \<Rightarrow> int \<Rightarrow> string \<Rightarrow> bool \<Rightarrow> job_event" where
  "status_report status exitCode errMsg cached = Reported status exitCode errMsg cached [] []"

text \<open>Each takes the flushes that precede it; an error of the report itself is only logged.\<close>

definition reportJobCancelled :: "job_event list" where
  "reportJobCancelled = [status_report JobStatusCancelled (- 1) ''Job cancelled'' False]"

definition reportFailure :: "int \<Rightarrow> string \<Rightarrow> bool \<Rightarrow> job_event list \<Rightarrow> job_event list" where
  "reportFailure exitCode errMsg cached flush =
     (let (failureType, failureDetails) = ClassifyFailure exitCode errMsg errMsg False False
      in flush @ [Reported JobStatusFailed exitCode failureDetails cached failureType failureDetails])"

definition reportJobTimeout :: "exec_result \<Rightarrow> job_event list \<Rightarrow> job_event list" where
  "reportJobTimeout res flush =
     (let errMsg = (case ex_error res of Some e \<Rightarrow> e | None \<Rightarrow> []);
          (failureType, details) = ClassifyFailure (ex_exit res) (ex_stderr res) errMsg True False
      in flush @ [Reported JobStatusTimeout (ex_exit res) errMsg False failureType details])"

definition reportInfraFailure :: "int \<Rightarrow> string \<Rightarrow> job_event list" where
  "reportInfraFailure exitCode errMsg = [Reported JobStatusFailed exitCode errMsg False FailureInfra errMsg]"

definition reportInputDownloadFailure :: "string \<Rightarrow> download_error \<Rightarrow> job_event list" where
  "reportInputDownloadFailure fileID err =
     (let failureType = ClassifyInputDownloadFailure fileID (Some (de_full err, de_text err));
          errMsg = ''Failed to download input file '' @ fileID @ '': '' @ de_text err;
          userMsg = (if failureType = FailureInputUnreachable \<and> de_transport err
                     then ''Input file or stream cannot be reached: '' @ fileID else errMsg)
      in [Reported JobStatusFailed 1 userMsg False failureType errMsg])"

definition reportFailureWithType :: "int \<Rightarrow> string \<Rightarrow> string \<Rightarrow> string \<Rightarrow> job_event list \<Rightarrow> job_event list" where
  "reportFailureWithType exitCode errMsg failureType failureDetails flush =
     flush @ [Reported JobStatusFailed exitCode errMsg False failureType failureDetails]"

subsection \<open>Direct paths\<close>

definition directMode :: "job_info \<Rightarrow> bool" where
  "directMode job \<longleftrightarrow> jo_direct_paths job \<noteq> []"

definition unreachable :: "string \<times> string \<Rightarrow> unit job_run" where
  "unreachable v = stop True (reportFailureWithType 1 (fst v) FailureInputUnreachable (snd v) [])"

fun check_direct_inputs :: "worker_conf \<Rightarrow> job_world \<Rightarrow> string list \<Rightarrow> unit job_run" where
  "check_direct_inputs cf w [] = emits []"
| "check_direct_inputs cf w (path # paths) =
     (if ContainsPathTraversal path
      then unreachable (''direct path contains '' @ [CHR 0x27] @ ''..'' @ [CHR 0x27] @ '' traversal: '' @ path, ''path traversal rejected'')
      else case validateDirectInputPath (jw_paths w) (wc_prefixes cf) path of
             Some v \<Rightarrow> unreachable v
           | None \<Rightarrow> check_direct_inputs cf w paths)"

text \<open>Network and standard output have no file, so the allow-list does not concern them.\<close>

definition check_direct_output :: "worker_conf \<Rightarrow> job_world \<Rightarrow> job_info \<Rightarrow> string \<Rightarrow> unit job_run" where
  "check_direct_output cf w job outputFilename =
     (if \<not> directMode job \<or> outputFilename = ''-'' \<or> IsRemoteURL outputFilename then emits []
      else if ContainsPathTraversal outputFilename
      then unreachable (''output path contains '' @ [CHR 0x27] @ ''..'' @ [CHR 0x27] @ '' traversal: '' @ outputFilename, ''path traversal rejected'')
      else case validateDirectOutputPath (jw_paths w) (wc_prefixes cf) outputFilename of
             Some v \<Rightarrow> unreachable v
           | None \<Rightarrow> emits [])"

subsection \<open>The cache\<close>

definition jobDir :: "worker_conf \<Rightarrow> job_info \<Rightarrow> string" where
  "jobDir cf job = path_Join [wc_temp cf, jo_id job]"

definition job_key :: "worker_conf \<Rightarrow> job_info \<Rightarrow> string \<Rightarrow> string" where
  "job_key cf job encoder =
     GenerateCacheKey (wc_digest cf) (jo_input_files job) (jo_args job) (jo_auto_hw job) (path_ext (jo_output_filename job)) encoder"

definition first_key :: "worker_conf \<Rightarrow> job_info \<Rightarrow> string" where
  "first_key cf job =
     job_key cf job (ResolveTargetEncoder (wc_mux cf) (wc_dvc cf) (wc_tr cf) (wc_adapter cf) (jo_args job) (wc_caps cf) (jo_auto_hw job))"

definition job_line :: "job_info \<Rightarrow> string \<Rightarrow> string" where
  "job_line job msg = ''[rffmpeg] Job '' @ jo_id job @ '': '' @ msg @ [LF]"

definition cached_target :: "worker_conf \<Rightarrow> job_info \<Rightarrow> string" where
  "cached_target cf job =
     (let outputFilename = (if jo_output_filename job = [] then ''output'' else jo_output_filename job)
      in if IsAbs outputFilename then outputFilename else path_Join [jobDir cf job, outputFilename])"

text \<open>A hit is delivered and ends the job; where that fails the job goes on as after a miss.\<close>

definition deliver_cached :: "worker_conf \<Rightarrow> job_world \<Rightarrow> job_info \<Rightarrow> string \<Rightarrow> string \<Rightarrow> unit job_run" where
  "deliver_cached cf w job cacheKey cachePath =
     (let outputPath = cached_target cf job
      in if OverwritePolicy (jo_args job) \<noteq> OverwriteForce \<and> jw_exists w CachedTarget
         then emits [BatcherAdd (job_line job ''output exists and overwrite not allowed, re-transcoding'')]
         else case jw_fail w CopyCached of
                Some e \<Rightarrow> emits [BatcherAdd (job_line job (''cached output copy failed ('' @ e @ ''), re-transcoding''))]
              | None \<Rightarrow>
                  case jw_fail w StatCached of
                    Some e \<Rightarrow> emits [CopyFile cachePath outputPath,
                      BatcherAdd (job_line job (''cached file missing after copy ('' @ e @ ''), re-transcoding''))]
                  | None \<Rightarrow>
                      case jw_fail w UploadCached of
                        Some e \<Rightarrow> emits [CopyFile cachePath outputPath,
                          BatcherAdd (job_line job (''cached output upload failed ('' @ e @ ''), re-transcoding''))]
                      | None \<Rightarrow> stop False
                          [CopyFile cachePath outputPath, Upload outputPath, CacheConfirm cacheKey,
                           BatcherAdd (''[rffmpeg] Cache hit: '' @ cacheKey @ [LF]), BatcherClosed,
                           status_report JobStatusCompleted 0 [] True])"

text \<open>\<open>rest\<close> is what follows: what this part defers runs after all of it.\<close>

definition try_cache :: "worker_conf \<Rightarrow> job_world \<Rightarrow> job_info \<Rightarrow> string \<Rightarrow> unit job_run \<Rightarrow> unit job_run" where
  "try_cache cf w job cacheKey rest =
     (if directMode job \<or> IsRemoteURL (jo_output_filename job) \<or> jo_streaming_output job then rest
      else case jw_cached w cacheKey of
             None \<Rightarrow> rest
           | Some cachePath \<Rightarrow>
               and_then (emits [BatcherOpened]) (\<lambda>_. deferred [BatcherClosed]
                 (case jw_fail w MkCachedDir of
                    Some e \<Rightarrow> stop True (reportInfraFailure 1 (''Failed to create job directory: '' @ e))
                  | None \<Rightarrow>
                      and_then (emits [MakeTree (jobDir cf job)]) (\<lambda>_. deferred [RemoveTree (jobDir cf job)]
                        (and_then (deliver_cached cf w job cacheKey cachePath) (\<lambda>_. rest))))))"

subsection \<open>The directory and the inputs\<close>

definition bad_job_dir :: "worker_conf \<Rightarrow> job_info \<Rightarrow> bool" where
  "bad_job_dir cf job \<longleftrightarrow> jo_id job = [] \<or> ContainsPathTraversal (jo_id job) \<or> Clean (jobDir cf job) = Clean (wc_temp cf)"

definition make_job_dir :: "worker_conf \<Rightarrow> job_world \<Rightarrow> job_info \<Rightarrow> unit job_run" where
  "make_job_dir cf w job =
     (if bad_job_dir cf job
      then stop True (reportInfraFailure 1 (''invalid job ID '' @ [CHR 0x22] @ jo_id job @ [CHR 0x22] @ '': refusing to clean job directory''))
      else case jw_fail w CleanJobDir of
             Some e \<Rightarrow> stop True (reportInfraFailure 1 (''Failed to clean stale job directory: '' @ e))
           | None \<Rightarrow>
               case jw_fail w MkJobDir of
                 Some e \<Rightarrow> stop True (RemoveTree (jobDir cf job) # reportInfraFailure 1 (''Failed to create job directory: '' @ e))
               | None \<Rightarrow> emits [RemoveTree (jobDir cf job), MakeTree (jobDir cf job)])"

definition input_path :: "worker_conf \<Rightarrow> job_world \<Rightarrow> job_info \<Rightarrow> string \<Rightarrow> string" where
  "input_path cf w job fileID =
     path_Join [jobDir cf job,
       ''input-'' @ (if IsRemoteURL fileID then sanitizeInputBaseName (jw_uuid w fileID) (Base fileID) else fileID)]"

fun download_inputs :: "worker_conf \<Rightarrow> job_world \<Rightarrow> job_info \<Rightarrow> string list \<Rightarrow> string list job_run" where
  "download_inputs cf w job [] = ([], Going [])"
| "download_inputs cf w job (fileID # fileIDs) =
     (let inputPath = input_path cf w job fileID
      in case jw_download w fileID of
           Some e \<Rightarrow>
             stop True (Download fileID inputPath #
               (if jw_cancelled w (CancelAtDownload fileID) then reportJobCancelled else reportInputDownloadFailure fileID e))
         | None \<Rightarrow>
             and_then ([Download fileID inputPath], Going ()) (\<lambda>_.
               and_then (download_inputs cf w job fileIDs) (\<lambda>paths. ([], Going (inputPath # paths)))))"

definition gather_inputs :: "worker_conf \<Rightarrow> job_world \<Rightarrow> job_info \<Rightarrow> string list job_run" where
  "gather_inputs cf w job =
     and_then (if directMode job then ([], Going (jo_direct_paths job)) else download_inputs cf w job (jo_input_files job)) (\<lambda>paths.
       if jw_cancelled w CancelAfterDownload then stop True reportJobCancelled else ([], Going paths))"

subsection \<open>The output\<close>

record job_ctx =
  jc_name :: string            \<comment> \<open>\<open>outputFilename\<close>\<close>
  jc_output :: string          \<comment> \<open>\<open>outputPath\<close>\<close>
  jc_exec :: string            \<comment> \<open>\<open>executionOutputPath\<close>\<close>
  jc_staging :: "string option"
  jc_inputs :: "string list"
  jc_key :: string
  jc_args :: "string list"
  jc_encoder :: string

definition output_name :: "job_info \<Rightarrow> string" where
  "output_name job =
     (let name = jo_output_filename job
      in if jo_streaming_output job
         then (if name = [] \<or> IsRemoteURL name \<or> ToLower name = ''pipe:1'' then ''-'' else name)
         else if name = [] then ''output'' else name)"

definition output_path :: "worker_conf \<Rightarrow> job_info \<Rightarrow> string" where
  "output_path cf job =
     (let name = output_name job
      in if name = ''-'' \<or> IsRemoteURL name \<or> IsAbs name then name else path_Join [jobDir cf job, name])"

definition preserves_output :: "job_info \<Rightarrow> bool" where
  "preserves_output job \<longleftrightarrow> OverwritePolicy (jo_args job) \<in> {OverwriteNever, OverwriteConflict}"

text \<open>A job that was dispatched before removes what its last worker left; \<open>RemoveStale\<close> fails only where there was a file.\<close>

definition remove_stale :: "worker_conf \<Rightarrow> job_world \<Rightarrow> job_info \<Rightarrow> unit job_run" where
  "remove_stale cf w job =
     (let outputPath = output_path cf job
      in if jo_retry_count job > 0 \<and> outputPath \<noteq> [] \<and> outputPath \<noteq> ''-'' \<and> \<not> preserves_output job
         then (case jw_fail w RemoveStale of
                 Some e \<Rightarrow> stop True (reportInfraFailure 1 (''failed to remove stale output '' @ outputPath @ '': '' @ e))
               | None \<Rightarrow> emits [RemoveOld outputPath])
         else emits [])"

definition staged :: "worker_conf \<Rightarrow> job_info \<Rightarrow> bool" where
  "staged cf job \<longleftrightarrow> directMode job \<and> output_path cf job \<noteq> [] \<and> output_path cf job \<noteq> ''-'' \<and> \<not> IsRemoteURL (output_path cf job)"

definition unwritable :: "string \<Rightarrow> 'a job_run" where
  "unwritable msg = stop True (reportFailureWithType 1 msg FailureFFmpegError ''output path not writable'' [])"

text \<open>\<open>rest\<close> gets the path ffmpeg writes and the staging directory, which is removed after it.\<close>

definition stage_output :: "worker_conf \<Rightarrow> job_world \<Rightarrow> job_info \<Rightarrow> (string \<Rightarrow> string option \<Rightarrow> unit job_run) \<Rightarrow> unit job_run" where
  "stage_output cf w job rest =
     (let outputPath = output_path cf job; stagingDir = directStagingDir (jo_id job) outputPath
      in if \<not> staged cf job then rest outputPath None
         else if OverwritePolicy (jo_args job) \<in> {OverwriteAsk, OverwriteNever} \<and> jw_exists w DirectTarget
         then stop True (reportFailure 1 (''File '' @ outputPath @ '' already exists. Exiting.'') False [])
         else case jw_fail w ClearStaging of
                Some e \<Rightarrow> unwritable (''failed to clear output staging directory '' @ stagingDir @ '': '' @ e)
              | None \<Rightarrow>
                  case jw_fail w MkStaging of
                    Some e \<Rightarrow> and_then (emits [RemoveTree stagingDir]) (\<lambda>_.
                      unwritable (''failed to create output staging directory '' @ stagingDir @ '': '' @ e))
                  | None \<Rightarrow> and_then (emits [RemoveTree stagingDir, MakeTree stagingDir]) (\<lambda>_.
                      deferred [RemoveTree stagingDir] (rest (path_Join [stagingDir, Base outputPath]) (Some stagingDir))))"

subsection \<open>The command\<close>

definition rewrite_lines :: "worker_conf \<Rightarrow> rewrite_result \<Rightarrow> job_event list" where
  "rewrite_lines cf res =
     map (\<lambda>n. RouterLine (n @ [LF])) (rz_notes res) @
     (if rz_performed res then
        (let requested = (if rz_original res = [] then ''(none)'' else rz_original res);
             reason = (if rz_reason res = [] then rz_scenario res else rz_reason res)
         in (if wc_audit cf then [RewriteRecorded (rz_original res) (rz_target res) (rz_reason res) (rz_capabilities res)] else []) @
            [RouterLine (FormatRewriteChainLine (rz_capabilities res) requested (rz_target res) reason ''INFO'')])
      else [])"

definition rewrite_command :: "worker_conf \<Rightarrow> job_info \<Rightarrow> string list \<Rightarrow> string list job_run" where
  "rewrite_command cf job args =
     (case RewriteArgs (wc_mux cf) (wc_dvc cf) (wc_tr cf) (wc_adapter cf) args (wc_caps cf) (jo_auto_hw job) of
        (rewrittenArgs, res, err) \<Rightarrow>
          and_then (rewrite_lines cf res, Going ()) (\<lambda>_.
            case err of
              Some e \<Rightarrow> stop True (reportFailure 1 (''Encoder rewrite failed: '' @ e) False [BatcherFlushed])
            | None \<Rightarrow> ([], Going rewrittenArgs)))"

text \<open>Options a muxer needs to write to a pipe.\<close>

definition make_streamable :: "job_info \<Rightarrow> string \<Rightarrow> string list \<Rightarrow> string list job_run" where
  "make_streamable job outputPath args =
     (if \<not> jo_streaming_output job then ([], Going args)
      else case applyStreamableFormat args outputPath of
             (args, note) \<Rightarrow> (if note \<noteq> [] then [RouterLine (''[rffmpeg] '' @ note @ [LF])] else [], Going args))"

definition seed_progress :: "worker_conf \<Rightarrow> job_world \<Rightarrow> string list \<Rightarrow> string list \<Rightarrow> job_event list" where
  "seed_progress cf w inputPaths args =
     (let durationUs = longestProbedDurationUs (wc_float cf) (jw_regular w) (jw_probe w) inputPaths
      in if durationUs > 0 then [RouterSeeded durationUs args] else [])"

text \<open>An input VAAPI cannot encode changes the command, its encoder and the key of its result.\<close>

definition check_pixel_format :: "worker_conf \<Rightarrow> job_world \<Rightarrow> job_info \<Rightarrow> job_ctx \<Rightarrow> job_ctx job_run" where
  "check_pixel_format cf w job c =
     (if \<not> isVAAPIEncoder (jc_encoder c) then ([], Going c)
      else case CheckInputsForPixelFormatIncompatibility (jw_probe w) (jc_inputs c) (jc_encoder c) of
             None \<Rightarrow> ([], Going c)
           | Some r \<Rightarrow>
               (case PrepareFallbackArgsWithSource NewEncoderFallback (Some (wc_caps cf)) (jc_args c) (jc_output c) True of
                  None \<Rightarrow> ([RouterLine (''[rffmpeg] '' @ px_reason r @ [LF])], Going c)
                | Some args \<Rightarrow>
                    let encoder = extractEncoderFromArgsWithCaps args (Some (wc_caps cf))
                    in ([RouterLine (''[rffmpeg] '' @ px_reason r @ [LF]),
                         RouterLine (''[rffmpeg] fallback to software encoder '' @ encoder @ [LF])],
                        Going (c\<lparr>jc_args := args, jc_encoder := encoder, jc_key := job_key cf job encoder\<rparr>))))"

definition check_codec :: "job_world \<Rightarrow> job_ctx \<Rightarrow> unit job_run" where
  "check_codec w c =
     (if \<not> isHardwareEncoderByName (jc_encoder c) then emits []
      else case jw_codec w (jc_encoder c) of
             (unsupported, reason) \<Rightarrow>
               if unsupported
               then stop True (RouterLine (''[rffmpeg] '' @ reason @ [LF]) #
                      reportFailureWithType 1 reason FailureEncoderUnsupported reason [BatcherFlushed])
               else emits [])"

subsection \<open>The verdict on a run\<close>

definition ran_clean :: "exec_result \<Rightarrow> bool" where
  "ran_clean res \<longleftrightarrow> ex_error res = None \<and> ex_exit res = 0"

definition check_output_file :: "job_world \<Rightarrow> job_ctx \<Rightarrow> exec_result \<Rightarrow> exec_result" where
  "check_output_file w c res =
     (if \<not> ran_clean res then res
      else case jw_size w (jc_exec c) of
             None \<Rightarrow> res\<lparr>ex_error := Some (''output file not found: '' @ jc_output c), ex_exit := 1,
                         ex_stderr := ''Output file not found: '' @ jc_output c @ [LF] @ ex_stderr res\<rparr>
           | Some n \<Rightarrow>
               if n = 0 then res\<lparr>ex_error := Some (''output file is empty (0 bytes): '' @ jc_output c), ex_exit := 1,
                                 ex_stderr := ''Output file is empty (0 bytes): '' @ jc_output c @ [LF] @ ex_stderr res\<rparr>
               else res)"

definition check_empty_output :: "job_ctx \<Rightarrow> exec_result \<Rightarrow> exec_result" where
  "check_empty_output c res =
     (if ran_clean res \<and> ffmpegStderrIndicatesEmptyOutput (ex_stderr res)
      then res\<lparr>ex_error := Some (''ffmpeg produced empty output: '' @ jc_output c), ex_exit := 1\<rparr> else res)"

definition check_unwritten :: "exec_result \<Rightarrow> exec_result" where
  "check_unwritten res =
     (if ran_clean res \<and> ffmpegStderrIndicatesUnwrittenOutput (ex_stderr res)
      then res\<lparr>ex_error := Some ''ffmpeg could not open or initialize the output file'', ex_exit := 1\<rparr> else res)"

definition network_output :: "job_ctx \<Rightarrow> bool" where
  "network_output c \<longleftrightarrow> isNetworkOutput (jc_name c) (jc_args c)"

definition judge :: "job_world \<Rightarrow> job_info \<Rightarrow> job_ctx \<Rightarrow> exec_result \<Rightarrow> exec_result" where
  "judge w job c res =
     (let has_file = (\<not> network_output c \<and> \<not> jo_streaming_output job);
          res = (if has_file then check_output_file w c res else res);
          res = (if has_file then check_empty_output c res else res)
      in check_unwritten res)"

definition retry_lines :: "retry_result \<Rightarrow> job_event list" where
  "retry_lines r =
     map (\<lambda>e. RouterLine (''[RETRY] Stage '' @ stage_String (ae_stage e) @ '' succeeded with encoder '' @ ae_encoder e @ [LF]))
       (filter ae_success (rr_audit r)) @
     (if rr_usedSoftware r
      then [RouterLine (''[rffmpeg] '' @ rr_originalEncoder r @ '' unavailable, fallback to '' @ rr_finalEncoder r @ [LF])] else [])"

definition timeout_result :: "job_world \<Rightarrow> exec_result \<Rightarrow> exec_result" where
  "timeout_result w res =
     (if ex_timeout res then res
      else \<lparr>ex_exit = - 1, ex_stdout = [], ex_stderr = [], ex_error = Some (''ffmpeg command timed out after '' @ jw_timeout_text w), ex_timeout = True\<rparr>)"

definition retry_run :: "worker_conf \<Rightarrow> job_world \<Rightarrow> job_ctx \<Rightarrow> FFmpegErrorType \<Rightarrow> exec_result job_run" where
  "retry_run cf w c err =
     (let r = ExecuteWithRetry (wc_retry cf) (jw_retry w) \<lparr>rj_args = jc_args c, rj_output = jc_exec c, rj_network = network_output c\<rparr>
      in and_then (RouterLine (''[RETRY] Initial attempt failed ('' @ errortype_String err @ ''), starting multi-stage retry'' @ [LF]) #
                   map Retried (rr_events r), Going ()) (\<lambda>_.
           if rr_success r then (retry_lines r, Going (rr_final r))
           else if ex_timeout (rr_final r) \<or> jw_deadline w
           then stop True (reportJobTimeout (timeout_result w (rr_final r)) [BatcherFlushed])
           else stop True (reportFailure (ex_exit (rr_final r))
                  (''All retry attempts exhausted (original encoder: '' @ rr_originalEncoder r @ '', final stage: '' @ stage_String (rr_stage r) @
                   ''): '' @ ex_stderr (rr_final r)) False [BatcherFlushed])))"

text \<open>The result to deliver, of the run or of a retry.\<close>

definition settle_run :: "worker_conf \<Rightarrow> job_world \<Rightarrow> job_info \<Rightarrow> job_ctx \<Rightarrow> exec_result \<Rightarrow> exec_result job_run" where
  "settle_run cf w job c res =
     (if ex_error res = None then ([], Going res)
      else
        (let failed = stop True (reportFailure (ex_exit res) (ex_stderr res) False [BatcherFlushed])
         in case ic_error (Intercept NewErrorInterceptor res) of
              None \<Rightarrow> failed
            | Some err \<Rightarrow>
                if \<not> IsRetryable err \<or> (network_output c \<and> fe_type err = ErrorTypeOutputEmpty) then failed
                else retry_run cf w c (fe_type err)))"

subsection \<open>Delivery\<close>

definition publish :: "job_world \<Rightarrow> job_ctx \<Rightarrow> exec_result \<Rightarrow> unit job_run" where
  "publish w c res =
     (case jc_staging c of
        None \<Rightarrow> emits []
      | Some stagingDir \<Rightarrow>
          (case publishStagedOutput (jw_listing w) (jw_rename w) (Base (jc_output c)) of
             (moved, all_moved) \<Rightarrow>
               and_then (emits (map MovedOutput moved)) (\<lambda>_.
                 if all_moved then emits []
                 else stop True (reportInfraFailure (ex_exit res) (''failed to publish staged output '' @ jc_output c @ '': '' @ jw_publish_text w)))))"

definition deliver_upload :: "job_world \<Rightarrow> job_info \<Rightarrow> job_ctx \<Rightarrow> exec_result \<Rightarrow> unit job_run" where
  "deliver_upload w job c res =
     (if jo_streaming_output job \<or> directMode job \<or> IsRemoteURL (jc_output c) \<or> \<not> jw_exists w FinalOutput then emits []
      else case jw_fail w UploadResult of
             Some e \<Rightarrow> stop True (reportInfraFailure (ex_exit res) (''Failed to upload output: '' @ e))
           | None \<Rightarrow> emits [Upload (jc_output c)])"

text \<open>The flag \<^verbatim>\<open>cached\<close> is false here: a delivered hit has returned.\<close>

definition cache_result :: "worker_conf \<Rightarrow> job_info \<Rightarrow> job_ctx \<Rightarrow> unit job_run" where
  "cache_result cf job c =
     (if directMode job \<or> IsRemoteURL (jc_output c) then emits []
      else emits [CachePut (jc_key c) (jc_output c) (if list_ex IsRemoteURL (jo_input_files job) then wc_url_ttl cf else 0)])"

definition finish_stream :: "job_world \<Rightarrow> job_info \<Rightarrow> unit job_run" where
  "finish_stream w job =
     (if \<not> jo_streaming_output job then emits []
      else case jw_fail w StreamStdout of
             Some e \<Rightarrow> stop True (StdoutFlushed # reportInfraFailure 1 (''failed to stream stdout to server: '' @ e))
           | None \<Rightarrow> emits [StdoutFlushed])"

definition deliver :: "worker_conf \<Rightarrow> job_world \<Rightarrow> job_info \<Rightarrow> job_ctx \<Rightarrow> exec_result \<Rightarrow> unit job_run" where
  "deliver cf w job c res =
     and_then (publish w c res) (\<lambda>_. and_then (deliver_upload w job c res) (\<lambda>_. and_then (cache_result cf job c) (\<lambda>_.
       and_then (finish_stream w job) (\<lambda>_. stop False [RouterFinal, status_report JobStatusCompleted (ex_exit res) [] False]))))"

subsection \<open>The execution\<close>

definition announce_running :: "job_world \<Rightarrow> unit job_run" where
  "announce_running w =
     (if jw_cancelled w CancelBeforeRun then stop True reportJobCancelled
      else and_then (emits [status_report JobStatusRunning 0 [] False]) (\<lambda>_.
        case jw_fail w ReportRunning of
          None \<Rightarrow> emits []
        | Some e \<Rightarrow>
            if jw_cancelled w CancelAtRunning then stop True reportJobCancelled
            else stop True (reportInfraFailure 1 (''Failed to update job status to running: '' @ e))))"

text \<open>Standard output of a streaming job goes to a batcher that is closed when the function returns.\<close>

definition with_stdout :: "job_info \<Rightarrow> unit job_run \<Rightarrow> unit job_run" where
  "with_stdout job m =
     (if jo_streaming_output job then and_then (emits [StdoutOpened]) (\<lambda>_. deferred [StdoutClosed] m) else m)"

definition execute :: "worker_conf \<Rightarrow> job_world \<Rightarrow> job_info \<Rightarrow> job_ctx \<Rightarrow> unit job_run" where
  "execute cf w job c =
     and_then (emits [RouterAttempt]) (\<lambda>_. with_stdout job
       (and_then (emits [Process (jc_args c)]) (\<lambda>_.
         let res = jw_run w (jc_args c)
         in if jw_cancelled w CancelAfterRun then stop True reportJobCancelled
            else if ex_timeout res then stop True (reportJobTimeout res [BatcherFlushed])
            else guarded w InVerdict True
              (and_then (settle_run cf w job c (judge w job c res)) (\<lambda>res. guarded w InDelivery True (deliver cf w job c res))))))"

definition prepare_command :: "worker_conf \<Rightarrow> job_world \<Rightarrow> job_info \<Rightarrow> job_ctx \<Rightarrow> job_ctx job_run" where
  "prepare_command cf w job c =
     (let args = BuildArgs (jo_args job) (jc_inputs c) (jc_exec c)
      in and_then (seed_progress cf w (jc_inputs c) args, Going ()) (\<lambda>_.
         and_then (rewrite_command cf job args) (\<lambda>args. and_then (make_streamable job (jc_output c) args) (\<lambda>args.
           guarded w InChecks True (and_then (check_pixel_format cf w job
               (c\<lparr>jc_args := args, jc_encoder := extractEncoderFromArgsWithCaps args (Some (wc_caps cf))\<rparr>)) (\<lambda>c.
             and_then (check_codec w c) (\<lambda>_. ([], Going c))))))))"

definition transcode :: "worker_conf \<Rightarrow> job_world \<Rightarrow> job_info \<Rightarrow> job_ctx \<Rightarrow> unit job_run" where
  "transcode cf w job c =
     and_then (emits [BatcherOpened]) (\<lambda>_. deferred [RouterReset, BatcherClosed]
       (guarded w InRewrite True (and_then (prepare_command cf w job c) (\<lambda>c.
         and_then (announce_running w) (\<lambda>_. guarded w InRun True (execute cf w job c))))))"

definition process_file :: "worker_conf \<Rightarrow> job_world \<Rightarrow> job_info \<Rightarrow> string \<Rightarrow> unit job_run" where
  "process_file cf w job cacheKey =
     and_then (make_job_dir cf w job) (\<lambda>_. deferred [RemoveTree (jobDir cf job)]
       (guarded w InDownloads False (and_then (gather_inputs cf w job) (\<lambda>inputPaths.
         guarded w InOutput False (and_then (check_direct_output cf w job (output_name job)) (\<lambda>_.
           and_then (remove_stale cf w job) (\<lambda>_. guarded w InStaging False (stage_output cf w job (\<lambda>execPath staging.
             transcode cf w job
               \<lparr>jc_name = output_name job, jc_output = output_path cf job, jc_exec = execPath, jc_staging = staging,
                jc_inputs = inputPaths, jc_key = cacheKey, jc_args = [], jc_encoder = []\<rparr>)))))))))"

subsection \<open>Probe jobs\<close>

definition probe_input :: "worker_conf \<Rightarrow> job_world \<Rightarrow> job_info \<Rightarrow> string job_run" where
  "probe_input cf w job =
     (if directMode job then
        and_then (check_direct_inputs cf w (jo_direct_paths job)) (\<lambda>_. ([], Going (hd (jo_direct_paths job))))
      else case jo_input_files job of
             [] \<Rightarrow> stop True (reportInfraFailure 1 ''no input files for probe job'')
           | fileID # _ \<Rightarrow>
               and_then (download_inputs cf w job [fileID]) (\<lambda>paths. ([], Going (hd paths))))"

definition deliver_probe :: "worker_conf \<Rightarrow> job_world \<Rightarrow> job_info \<Rightarrow> unit job_run" where
  "deliver_probe cf w job =
     (let outputPath = path_Join [jobDir cf job, ''probe_result.json'']
      in case jw_fail w RunProbe of
           Some e \<Rightarrow> stop True (reportInfraFailure 1 (''ffprobe failed: '' @ e))
         | None \<Rightarrow>
             case jw_fail w WriteProbe of
               Some e \<Rightarrow> stop True (reportInfraFailure 1 (''Failed to write probe result: '' @ e))
             | None \<Rightarrow>
                 case jw_fail w UploadResult of
                   Some e \<Rightarrow> stop True (WriteResult outputPath # reportInfraFailure 1 (''Failed to upload probe output: '' @ e))
                 | None \<Rightarrow> stop True [WriteResult outputPath, Upload outputPath, status_report JobStatusCompleted 0 [] False])"

definition processProbeJob :: "worker_conf \<Rightarrow> job_world \<Rightarrow> job_info \<Rightarrow> unit job_run" where
  "processProbeJob cf w job =
     (case jw_fail w MkJobDir of
        Some e \<Rightarrow> stop True (reportInfraFailure 1 (''Failed to create job directory: '' @ e))
      | None \<Rightarrow>
          and_then (emits [MakeTree (jobDir cf job)]) (\<lambda>_. deferred [RemoveTree (jobDir cf job)]
            (and_then (emits [status_report JobStatusRunning 0 [] False]) (\<lambda>_.
              case jw_fail w ReportRunning of
                Some e \<Rightarrow> stop True []
              | None \<Rightarrow> guarded w InProbe False (and_then (probe_input cf w job) (\<lambda>_. deliver_probe cf w job))))))"

subsection \<open>The whole job\<close>

definition is_probe :: "job_info \<Rightarrow> bool" where
  "is_probe job \<longleftrightarrow> (case jo_args job of a # _ \<Rightarrow> a = ''__rffmpeg_probe__'' | [] \<Rightarrow> False)"

definition with_cancel_watch :: "job_info \<Rightarrow> unit job_run \<Rightarrow> unit job_run" where
  "with_cancel_watch job m =
     (if jo_streaming_output job then and_then (emits [WatchCancel]) (\<lambda>_. deferred [StopWatch] m) else m)"

definition job_body :: "worker_conf \<Rightarrow> job_world \<Rightarrow> job_info \<Rightarrow> unit job_run" where
  "job_body cf w job =
     (if is_probe job then processProbeJob cf w job
      else with_cancel_watch job
        (guarded w InDirectPaths False (and_then (check_direct_inputs cf w (jo_direct_paths job)) (\<lambda>_.
          let cacheKey = first_key cf job
          in guarded w InCache False (try_cache cf w job cacheKey
               (guarded w InDirectory False (process_file cf w job cacheKey)))))))"

text \<open>The outermost deferred function turns a panic into a report, after everything else that was deferred.\<close>

definition processJob :: "worker_conf \<Rightarrow> job_world \<Rightarrow> job_info \<Rightarrow> job_event list \<times> bool" where
  "processJob cf w job =
     (case job_body cf w job of
        (evs, Crashed msg flush) \<Rightarrow>
          (evs @ reportFailureWithType (- 1) (''worker panic during job processing: '' @ msg) FailureWorkerCrash msg
             (if flush then [BatcherFlushed] else []), True)
      | (evs, Finished failed) \<Rightarrow> (evs, failed)
      | (evs, Going _) \<Rightarrow> (evs, is_probe job))"

text \<open>The books of the worker after a job: its active jobs, and the completions of this registration and altogether.\<close>

record worker_books =
  wb_active :: "string list"
  wb_completed :: int
  wb_total :: int

definition job_finished :: "job_info \<Rightarrow> bool \<Rightarrow> worker_books \<Rightarrow> worker_books \<times> bool" where
  "job_finished job failed b =
     (let b = b\<lparr>wb_active := filter (\<lambda>i. i \<noteq> jo_id job) (wb_active b)\<rparr>;
          b = (if failed then b else b\<lparr>wb_completed := wb_completed b + 1, wb_total := wb_total b + 1\<rparr>)
      in (b, wb_active b = []))"

end
