(* ===== verification/JobTraces.thy ===== *)
theory JobTraces
  imports WorkerJob
begin

section \<open>Laws of the events of a job\<close>

text \<open>
  What is to be shown of every job is a law on its events and on how it ends. The locale asks of a law that it holds of the single
  events and reports and of the two deliveries, and lifts it through the phases to the whole job, once for all laws.
\<close>

datatype ending = Open | Ended bool | Broken

fun ending_of :: "'a job_outcome \<Rightarrow> ending" where
  "ending_of (Going x) = Open"
| "ending_of (Finished failed) = Ended failed"
| "ending_of (Crashed msg flush) = Broken"

definition staging_dir :: "worker_conf \<Rightarrow> job_info \<Rightarrow> string" where
  "staging_dir cf job = directStagingDir (jo_id job) (output_path cf job)"

text \<open>A directory of the job: the staging directory of a staged output, and the job's own, whose name is checked unless there is a hit.\<close>

definition own_tree :: "worker_conf \<Rightarrow> job_world \<Rightarrow> job_info \<Rightarrow> string \<Rightarrow> bool" where
  "own_tree cf w job d \<longleftrightarrow>
     (staged cf job \<and> d = staging_dir cf job) \<or> (d = jobDir cf job \<and> (\<not> bad_job_dir cf job \<or> jw_cached w (first_key cf job) \<noteq> None))"

fun plain_event :: "worker_conf \<Rightarrow> job_world \<Rightarrow> job_info \<Rightarrow> job_event \<Rightarrow> bool" where
  "plain_event cf w job (Reported s code e cached t d) \<longleftrightarrow> s = JobStatusRunning"
| "plain_event cf w job (MovedOutput n) \<longleftrightarrow> False"
| "plain_event cf w job (RemoveTree d) \<longleftrightarrow> own_tree cf w job d"
| "plain_event cf w job x \<longleftrightarrow> True"

definition closing_event :: "worker_conf \<Rightarrow> job_world \<Rightarrow> job_info \<Rightarrow> job_event \<Rightarrow> bool" where
  "closing_event cf w job x \<longleftrightarrow>
     x \<in> {StopWatch, BatcherClosed, RouterReset, StdoutClosed} \<or> (\<exists>d. x = RemoveTree d \<and> own_tree cf w job d)"

fun failure_report :: "job_event \<Rightarrow> bool" where
  "failure_report (Reported s code e cached t d) \<longleftrightarrow> s \<in> {JobStatusFailed, JobStatusCancelled, JobStatusTimeout}"
| "failure_report x \<longleftrightarrow> False"

text \<open>A context as the phases before the execution leave it.\<close>

definition context_ok :: "worker_conf \<Rightarrow> job_info \<Rightarrow> job_ctx \<Rightarrow> bool" where
  "context_ok cf job c \<longleftrightarrow>
     jc_name c = output_name job \<and> jc_output c = output_path cf job \<and>
     (if staged cf job then jc_staging c = Some (staging_dir cf job) \<and> jc_exec c = path_Join [staging_dir cf job, Base (output_path cf job)]
      else jc_staging c = None \<and> jc_exec c = output_path cf job)"

text \<open>The run and what settled it, up to the delivery of \<open>res\<close>.\<close>

definition run_settled :: "worker_conf \<Rightarrow> job_world \<Rightarrow> job_info \<Rightarrow> job_ctx \<Rightarrow> job_event list \<Rightarrow> exec_result \<Rightarrow> bool" where
  "run_settled cf w job c evs res \<longleftrightarrow>
     context_ok cf job c \<and> \<not> ex_timeout (jw_run w (jc_args c)) \<and> settle_run cf w job c (judge w job c (jw_run w (jc_args c))) = (evs, Going res)"

lemma settle_run_plain: "settle_run cf w job c res = (evs, Going r) \<Longrightarrow> list_all (plain_event cf w job) evs"
  by (auto simp: settle_run_def retry_run_def retry_lines_def Let_def and_then_alt stop_def list_all_iff split: if_splits option.splits)

locale job_law =
  fixes cf :: worker_conf and w :: job_world and job :: job_info
    and law :: "job_event list \<Rightarrow> ending \<Rightarrow> bool"
  assumes law_nil: "law [] Open" "law [] Broken"
    and law_event: "plain_event cf w job x \<Longrightarrow> law [x] Open"
    and law_failure: "failure_report x \<Longrightarrow> law [x] (Ended True)"
    and law_append: "law xs Open \<Longrightarrow> law ys e \<Longrightarrow> law (xs @ ys) e"
    and law_closing: "law xs e \<Longrightarrow> closing_event cf w job x \<Longrightarrow> law (xs @ [x]) e"
    and law_cached: "jw_cached w key = Some p \<Longrightarrow> key = first_key cf job \<Longrightarrow> \<not> jo_streaming_output job \<Longrightarrow>
      law (fst (deliver_cached cf w job key p)) (ending_of (snd (deliver_cached cf w job key p)))"
    and law_deliver: "run_settled cf w job c evs res \<Longrightarrow>
      law (Process (jc_args c) # evs @ fst (deliver cf w job c res)) (ending_of (snd (deliver cf w job c res)))"
begin

definition keeps :: "'a job_run \<Rightarrow> bool" where
  "keeps m \<longleftrightarrow> law (fst m) (ending_of (snd m))"

lemma law_plain: "list_all (plain_event cf w job) evs \<Longrightarrow> law evs Open"
  using law_append [OF law_event] by (induction evs) (fastforce simp: law_nil)+

lemma law_report: "list_all (plain_event cf w job) evs \<Longrightarrow> failure_report x \<Longrightarrow> law (evs @ [x]) (Ended True)"
  by (blast intro: law_append law_plain law_failure)

lemma keeps_plain: "list_all (plain_event cf w job) evs \<Longrightarrow> keeps (evs, Going x)"
  by (simp add: keeps_def law_plain)

lemma keeps_emits: "list_all (plain_event cf w job) evs \<Longrightarrow> keeps (emits evs)"
  by (simp add: emits_def keeps_plain)

lemma keeps_stop: "list_all (plain_event cf w job) evs \<Longrightarrow> failure_report x \<Longrightarrow> keeps (stop True (evs @ [x]))"
  by (simp add: keeps_def stop_def law_report)

lemma keeps_and_then: "keeps m \<Longrightarrow> (\<And>x. snd m = Going x \<Longrightarrow> keeps (f x)) \<Longrightarrow> keeps (and_then m f)"
  by (cases "snd m") (auto simp: keeps_def and_then_alt intro: law_append)

lemma law_closing_all: "law xs e \<Longrightarrow> list_all (closing_event cf w job) ys \<Longrightarrow> law (xs @ ys) e"
proof (induction ys arbitrary: xs)
  case (Cons y ys)
  then show ?case using Cons.IH [of "xs @ [y]"] law_closing by simp
qed simp

lemma keeps_deferred: "list_all (closing_event cf w job) evs \<Longrightarrow> keeps m \<Longrightarrow> keeps (deferred evs m)"
  by (simp add: keeps_def deferred_alt law_closing_all)

lemma keeps_guarded: "keeps m \<Longrightarrow> keeps (guarded w phase flush m)"
  by (auto simp: guarded_def keeps_def law_nil split: option.splits)

text \<open>Every report of a failure is a stop.\<close>

lemma keeps_reports:
  "keeps (stop True reportJobCancelled)"
  "list_all (plain_event cf w job) flush \<Longrightarrow> keeps (stop True (reportFailure code msg cached flush))"
  "list_all (plain_event cf w job) flush \<Longrightarrow> keeps (stop True (reportJobTimeout res flush))"
  "keeps (stop True (reportInfraFailure code msg))"
  "keeps (stop True (reportInputDownloadFailure f err))"
  "list_all (plain_event cf w job) flush \<Longrightarrow> keeps (stop True (reportFailureWithType code msg t d flush))"
  by (auto simp: reportJobCancelled_def status_report_def reportFailure_def reportJobTimeout_def reportInfraFailure_def
      reportInputDownloadFailure_def reportFailureWithType_def Let_def split: prod.splits
      intro!: keeps_stop keeps_stop [of "[]", simplified])

lemma keeps_stop_Cons: "plain_event cf w job x \<Longrightarrow> keeps (stop failed evs) \<Longrightarrow> keeps (stop failed (x # evs))"
  using law_append [OF law_event, of x evs] by (simp add: keeps_def stop_def)

lemmas keeps_rules = keeps_and_then keeps_deferred keeps_guarded keeps_reports keeps_emits keeps_plain keeps_stop_Cons

subsection \<open>The phases before the execution\<close>

lemma keeps_direct_inputs: "keeps (check_direct_inputs cf w paths)"
  by (induction cf w paths rule: check_direct_inputs.induct) (auto simp: unreachable_def intro!: keeps_rules split: option.splits)

lemma keeps_direct_output: "keeps (check_direct_output cf w job name)"
  by (auto simp: check_direct_output_def unreachable_def intro!: keeps_rules split: option.splits)

lemma keeps_make_job_dir: "keeps (make_job_dir cf w job)"
  by (auto simp: make_job_dir_def own_tree_def intro!: keeps_rules split: option.splits)

lemma make_job_dir_checked: "snd (make_job_dir cf w job) = Going u \<Longrightarrow> \<not> bad_job_dir cf job"
  by (auto simp: make_job_dir_def stop_def split: if_splits)

lemma keeps_download_inputs: "keeps (download_inputs cf w job fileIDs)"
  by (induction fileIDs) (auto simp: Let_def intro!: keeps_rules split: option.splits)

lemma keeps_gather_inputs: "keeps (gather_inputs cf w job)"
  by (auto simp: gather_inputs_def intro!: keeps_rules keeps_download_inputs)

lemma keeps_remove_stale: "keeps (remove_stale cf w job)"
  by (auto simp: remove_stale_def Let_def intro!: keeps_rules split: option.splits)

lemma keeps_stage_output:
  assumes "\<not> staged cf job \<Longrightarrow> keeps (rest (output_path cf job) None)"
    and "staged cf job \<Longrightarrow> keeps (rest (path_Join [staging_dir cf job, Base (output_path cf job)]) (Some (staging_dir cf job)))"
  shows "keeps (stage_output cf w job rest)"
  using assms
  by (auto simp: stage_output_def Let_def staging_dir_def [symmetric] unwritable_def closing_event_def own_tree_def intro!: keeps_rules split: option.splits)

lemma keeps_try_cache: "keeps rest \<Longrightarrow> keeps (try_cache cf w job (first_key cf job) rest)"
proof -
  assume rest: "keeps rest"
  have cached: "keeps (deliver_cached cf w job (first_key cf job) p)"
    if "jw_cached w (first_key cf job) = Some p" "\<not> jo_streaming_output job" for p
    using law_cached [OF that(1) refl that(2)] by (simp add: keeps_def)
  show ?thesis
    using rest by (auto simp: try_cache_def closing_event_def own_tree_def intro!: keeps_rules cached split: option.splits)
qed

subsection \<open>The command and its execution\<close>

lemma keeps_prepare_command: "keeps (prepare_command cf w job c)"
proof -
  have lines: "list_all (plain_event cf w job) (rewrite_lines cf res)" for res
    by (auto simp: rewrite_lines_def list_all_iff Let_def)
  have seed: "list_all (plain_event cf w job) (seed_progress cf w ps as)" for ps as
    by (auto simp: seed_progress_def Let_def)
  have rewrite: "keeps (rewrite_command cf job as)" for as
    using lines by (auto simp: rewrite_command_def intro!: keeps_rules split: prod.splits option.splits)
  have streamable: "keeps (make_streamable job out as)" for out as
    by (auto simp: make_streamable_def intro!: keeps_rules split: prod.splits)
  have pixel: "keeps (check_pixel_format cf w job c)" for c
    by (auto simp: check_pixel_format_def Let_def intro!: keeps_rules split: option.splits)
  have codec: "keeps (check_codec w c)" for c
    by (auto simp: check_codec_def intro!: keeps_rules split: prod.splits)
  show ?thesis
    unfolding prepare_command_def Let_def using seed by (intro keeps_rules rewrite streamable pixel codec) auto
qed

lemma keeps_announce_running: "keeps (announce_running w)"
  by (auto simp: announce_running_def status_report_def intro!: keeps_rules split: option.splits)

lemma keeps_settle_run: "keeps (settle_run cf w job c res)"
proof -
  have "keeps (retry_run cf w c err)" for err
    by (auto simp: retry_run_def retry_lines_def Let_def list_all_iff intro!: keeps_rules)
  then show ?thesis by (auto simp: settle_run_def Let_def intro!: keeps_rules split: option.splits)
qed

lemma keeps_with_stdout: "keeps m \<Longrightarrow> keeps (with_stdout job m)"
  by (auto simp: with_stdout_def closing_event_def intro!: keeps_rules)

lemma keeps_execute:
  assumes ok: "context_ok cf job c"
  shows "keeps (execute cf w job c)"
proof -
  let ?res = "jw_run w (jc_args c)"
  let ?settle = "settle_run cf w job c (judge w job c ?res)"
  let ?rest = "and_then ?settle (\<lambda>res. guarded w InDelivery True (deliver cf w job c res))"
  have run: "plain_event cf w job (Process (jc_args c))" by simp
  have "keeps (and_then (emits [Process (jc_args c)]) (\<lambda>_. guarded w InVerdict True ?rest))" if no_timeout: "\<not> ex_timeout ?res"
  proof (cases "jw_panic w InVerdict = None \<and> (\<exists>res. snd ?settle = Going res)")
    case True
    then obtain evs res where s: "?settle = (evs, Going res)" by (metis prod.collapse)
    have plain: "list_all (plain_event cf w job) (Process (jc_args c) # evs)" using settle_run_plain [OF s] by simp
    have "run_settled cf w job c evs res" using ok no_timeout s by (simp add: run_settled_def)
    from law_deliver [OF this] law_append [OF law_plain [OF plain] law_nil(2)] show ?thesis
      using True s by (cases "jw_panic w InDelivery") (simp_all add: keeps_def guarded_def and_then_alt emits_def)
  next
    case False
    then have "keeps (guarded w InVerdict True ?rest)"
    proof (cases "jw_panic w InVerdict")
      case None
      then have "and_then ?settle f = (fst ?settle, case snd ?settle of Finished b \<Rightarrow> Finished b | Crashed m x \<Rightarrow> Crashed m x)" for f :: "exec_result \<Rightarrow> unit job_run"
        using False by (auto simp: and_then_alt split: job_outcome.splits)
      moreover have "ending_of (snd ?settle) = ending_of (case snd ?settle of Finished b \<Rightarrow> (Finished b :: unit job_outcome) | Crashed m x \<Rightarrow> Crashed m x)"
        using False None by (auto split: job_outcome.splits)
      ultimately show ?thesis using keeps_settle_run [of c "judge w job c ?res"] None by (simp add: keeps_def guarded_def)
    qed (simp add: keeps_def guarded_def law_nil)
    then show ?thesis by (intro keeps_and_then keeps_emits) simp_all
  qed
  then have body: "keeps (and_then (emits [Process (jc_args c)]) (\<lambda>_.
      if jw_cancelled w CancelAfterRun then stop True reportJobCancelled
      else if ex_timeout ?res then stop True (reportJobTimeout ?res [BatcherFlushed]) else guarded w InVerdict True ?rest))"
    by (auto intro!: keeps_rules)
  show ?thesis
    unfolding execute_def Let_def by (rule keeps_and_then, simp add: keeps_emits) (rule keeps_with_stdout, rule body)
qed

lemma prepare_command_context:
  assumes "snd (prepare_command cf w job c) = Going c'" and "context_ok cf job c"
  shows "context_ok cf job c'"
proof -
  have pixel: "context_ok cf job d'" if "snd (check_pixel_format cf w job d) = Going d'" "context_ok cf job d" for d d'
    using that by (auto simp: check_pixel_format_def context_ok_def Let_def split: if_splits option.splits)
  have "context_ok cf job (c\<lparr>jc_args := as, jc_encoder := e\<rparr>)" for as e using assms(2) by (simp add: context_ok_def)
  then show ?thesis
    using assms(1) pixel
    by (force simp: prepare_command_def and_then_alt guarded_def Let_def split: job_outcome.splits option.splits)
qed

lemma keeps_transcode: "context_ok cf job c \<Longrightarrow> keeps (transcode cf w job c)"
  unfolding transcode_def
  by (intro keeps_and_then keeps_deferred keeps_guarded keeps_emits keeps_prepare_command keeps_announce_running keeps_execute)
    (auto simp: closing_event_def intro: prepare_command_context)

lemma keeps_process_file: "keeps (process_file cf w job key)"
proof -
  have "keeps (stage_output cf w job (\<lambda>execPath staging. transcode cf w job
      \<lparr>jc_name = output_name job, jc_output = output_path cf job, jc_exec = execPath, jc_staging = staging,
       jc_inputs = ps, jc_key = key, jc_args = [], jc_encoder = []\<rparr>))" for ps
    by (rule keeps_stage_output) (auto simp: context_ok_def intro!: keeps_transcode)
  then show ?thesis
    unfolding process_file_def
    by (intro keeps_and_then keeps_deferred keeps_guarded keeps_make_job_dir keeps_gather_inputs keeps_direct_output keeps_remove_stale)
      (auto simp: closing_event_def own_tree_def dest: make_job_dir_checked)
qed

theorem keeps_job_body: "\<not> is_probe job \<Longrightarrow> keeps (job_body cf w job)"
  by (auto simp: job_body_def Let_def with_cancel_watch_def closing_event_def
      intro!: keeps_rules keeps_direct_inputs keeps_try_cache keeps_process_file)

end

subsection \<open>Every job ends\<close>

definition ends :: "'a job_run \<Rightarrow> bool" where
  "ends m \<longleftrightarrow> ending_of (snd m) \<noteq> Open"

lemma ends_rules:
  "ends (stop failed evs)"
  "(\<And>x. ends (f x)) \<Longrightarrow> ends (and_then m0 f)"
  "ends m1 \<Longrightarrow> ends (deferred evs m1)"
  "ends m2 \<Longrightarrow> ends (guarded w phase flush m2)"
  "ends m \<Longrightarrow> ends (with_stdout job m)"
  "ends m \<Longrightarrow> ends (with_cancel_watch job m)"
  by (auto simp: ends_def stop_def and_then_alt deferred_alt guarded_def with_stdout_def with_cancel_watch_def emits_def
      split: job_outcome.splits option.splits)

lemma ends_deliver: "ends (deliver cf w job c res)"
  unfolding deliver_def by (intro ends_rules)

lemma ends_execute: "ends (execute cf w job c)"
  unfolding execute_def Let_def by (auto intro!: ends_rules ends_deliver)

lemma ends_process_file: "ends (process_file cf w job key)"
proof -
  have "ends (transcode cf w job c)" for c
    unfolding transcode_def by (intro ends_rules ends_execute)
  then have "ends (stage_output cf w job (\<lambda>execPath staging. transcode cf w job (c execPath staging)))" for c
    by (auto simp: stage_output_def unwritable_def Let_def intro!: ends_rules split: option.splits)
  then show ?thesis unfolding process_file_def by (intro ends_rules)
qed

lemma ends_job_body: "\<not> is_probe job \<Longrightarrow> ends (job_body cf w job)"
proof -
  assume "\<not> is_probe job"
  have "ends (try_cache cf w job key (guarded w InDirectory False (process_file cf w job key)))" for key
    by (auto simp: try_cache_def intro!: ends_rules ends_process_file split: option.splits)
  then show ?thesis using \<open>\<not> is_probe job\<close> by (auto simp: job_body_def Let_def intro!: ends_rules)
qed

text \<open>What a law says of the events of a job and of its flag, a panic included.\<close>

context job_law begin

theorem job_events:
  assumes "\<not> is_probe job" and "processJob cf w job = (evs, failed)"
  shows "law evs (Ended failed) \<or>
    (\<exists>pre flush msg. failed \<and> law pre Broken \<and> flush \<in> {[], [BatcherFlushed]} \<and>
       evs = pre @ reportFailureWithType (- 1) (''worker panic during job processing: '' @ msg) FailureWorkerCrash msg flush)"
proof -
  obtain pre out where b: "job_body cf w job = (pre, out)" by (rule prod.exhaust)
  have l: "law pre (ending_of out)" using keeps_job_body [OF assms(1)] b by (simp add: keeps_def)
  show ?thesis
  proof (cases out)
    case (Finished f)
    then show ?thesis using assms b l by (simp add: processJob_def)
  next
    case (Crashed msg flush)
    then have "failed" "evs = pre @ reportFailureWithType (- 1) (''worker panic during job processing: '' @ msg) FailureWorkerCrash msg
        (if flush then [BatcherFlushed] else [])" "law pre Broken"
      using assms(2) b l by (simp_all add: processJob_def)
    then show ?thesis by (cases flush) auto
  next
    case (Going x)
    then have False using ends_job_body [OF assms(1), of cf w] b by (simp add: ends_def)
    then show ?thesis ..
  qed
qed

end

end
