(* ===== verification/JobGuarantees.thy ===== *)
theory JobGuarantees
  imports JobTraces RetryGuarantees
begin

section \<open>What a worker guarantees of a job\<close>

subsection \<open>The two ways a delivery ends\<close>

fun delivery_event :: "job_event \<Rightarrow> bool" where
  "delivery_event (MovedOutput n) = True"
| "delivery_event (Upload p) = True"
| "delivery_event (CachePut k p ttl) = True"
| "delivery_event StdoutFlushed = True"
| "delivery_event x = False"

text \<open>A step goes on, or reports a failure of the infrastructure.\<close>

definition delivery_step :: "unit job_run \<Rightarrow> bool" where
  "delivery_step m \<longleftrightarrow> (\<exists>pre. list_all delivery_event pre \<and>
     (m = (pre, Going ()) \<or> (\<exists>r. failure_report r \<and> m = (pre @ [r], Finished True))))"

lemma delivery_steps:
  "delivery_step (publish w c res)" "delivery_step (deliver_upload w job c res)" "delivery_step (cache_result cf job c)"
  "delivery_step (finish_stream w job)"
proof -
  have stop: "list_all delivery_event pre \<Longrightarrow> delivery_step (stop True (pre @ reportInfraFailure code msg))" for pre code msg
    by (auto simp: delivery_step_def stop_def reportInfraFailure_def)
  have go: "list_all delivery_event pre \<Longrightarrow> delivery_step (emits pre)" for pre
    by (auto simp: delivery_step_def emits_def)
  note rules = go stop [of "[]", simplified] stop [of "[StdoutFlushed]", simplified]
  have "delivery_step (and_then (emits (map MovedOutput moved)) (\<lambda>_. if x then emits [] else stop True (reportInfraFailure code msg)))"
    for moved x code msg
    unfolding delivery_step_def
    by (intro exI [of _ "map MovedOutput moved"]) (auto simp: emits_def stop_def and_then_alt list_all_iff reportInfraFailure_def)
  then show "delivery_step (publish w c res)"
    by (auto simp: publish_def intro!: rules split: option.splits prod.splits)
  show "delivery_step (deliver_upload w job c res)"
    by (auto simp: deliver_upload_def intro!: rules split: option.splits)
  show "delivery_step (cache_result cf job c)"
    by (auto simp: cache_result_def intro!: rules)
  show "delivery_step (finish_stream w job)"
    by (auto simp: finish_stream_def intro!: rules split: option.splits)
qed

definition delivery_end :: "exec_result \<Rightarrow> unit job_run \<Rightarrow> bool" where
  "delivery_end res m \<longleftrightarrow> (\<exists>pre. list_all delivery_event pre \<and>
     (m = (pre @ [RouterFinal, status_report JobStatusCompleted (ex_exit res) [] False], Finished False) \<or>
      (\<exists>r. failure_report r \<and> m = (pre @ [r], Finished True))))"

lemma delivery_end_step: "delivery_step m \<Longrightarrow> delivery_end res rest \<Longrightarrow> delivery_end res (and_then m (\<lambda>_. rest))"
proof -
  assume m: "delivery_step m" and "delivery_end res rest"
  then obtain pre post where "list_all delivery_event pre" "list_all delivery_event post" and
    m: "m = (pre, Going ()) \<or> (\<exists>r. failure_report r \<and> m = (pre @ [r], Finished True))" and
    r: "rest = (post @ [RouterFinal, status_report JobStatusCompleted (ex_exit res) [] False], Finished False) \<or>
       (\<exists>r. failure_report r \<and> rest = (post @ [r], Finished True))"
    unfolding delivery_step_def delivery_end_def by blast
  then have all: "list_all delivery_event pre" "list_all delivery_event (pre @ post)" by simp_all
  from m show ?thesis
  proof (elim disjE exE)
    assume "m = (pre, Going ())"
    then have "and_then m (\<lambda>_. rest) = (pre @ fst rest, snd rest)" by (simp add: and_then_alt)
    then show ?thesis unfolding delivery_end_def using r all(2) by (intro exI [of _ "pre @ post"]) auto
  next
    fix r
    assume "failure_report r \<and> m = (pre @ [r], Finished True)"
    then show ?thesis unfolding delivery_end_def using all(1) by (intro exI [of _ pre]) (auto simp: and_then_alt)
  qed
qed

lemma deliver_ends: "delivery_end res (deliver cf w job c res)"
proof -
  have "delivery_end res (stop False [RouterFinal, status_report JobStatusCompleted (ex_exit res) [] False])"
    unfolding delivery_end_def stop_def by (intro exI [of _ "[]"]) simp
  then show ?thesis unfolding deliver_def by (intro delivery_end_step delivery_steps)
qed

lemma settled_plain: "run_settled cf w job c evs res \<Longrightarrow> x \<in> set evs \<Longrightarrow> plain_event cf w job x"
  unfolding run_settled_def by (elim conjE, drule settle_run_plain) (simp add: list_all_iff)

subsection \<open>One report\<close>

fun ends_job_report :: "job_event \<Rightarrow> bool" where
  "ends_job_report (Reported s code e cached t d) \<longleftrightarrow> s \<in> {JobStatusCompleted, JobStatusFailed, JobStatusCancelled, JobStatusTimeout}"
| "ends_job_report x \<longleftrightarrow> False"

fun completed_report :: "job_event \<Rightarrow> bool" where
  "completed_report (Reported s code e cached t d) \<longleftrightarrow> s = JobStatusCompleted"
| "completed_report x \<longleftrightarrow> False"

definition reports_law :: "job_event list \<Rightarrow> ending \<Rightarrow> bool" where
  "reports_law evs e \<longleftrightarrow>
     (case e of Ended failed \<Rightarrow> \<exists>r. filter ends_job_report evs = [r] \<and> (completed_report r \<longleftrightarrow> \<not> failed) | _ \<Rightarrow> filter ends_job_report evs = [])"

lemma plain_not_terminal: "plain_event cf w job x \<Longrightarrow> \<not> ends_job_report x"
  by (cases x) auto

lemma failure_terminal: "failure_report x \<Longrightarrow> ends_job_report x \<and> \<not> completed_report x"
  by (cases x) auto

interpretation reports: job_law cf w job reports_law for cf w job
proof unfold_locales
  show "reports_law [x] Open" if "plain_event cf w job x" for x
    using plain_not_terminal [OF that] by (simp add: reports_law_def)
  show "reports_law [x] (Ended True)" if "failure_report x" for x
    using failure_terminal [OF that] by (simp add: reports_law_def)
  show "reports_law (xs @ ys) e" if "reports_law xs Open" "reports_law ys e" for xs ys e
    using that by (auto simp: reports_law_def split: ending.splits)
  show "reports_law (xs @ [x]) e" if "reports_law xs e" "closing_event cf w job x" for xs x e
    using that by (auto simp: reports_law_def closing_event_def split: ending.splits)
  show "reports_law (fst (deliver_cached cf w job key p)) (ending_of (snd (deliver_cached cf w job key p)))" for key p
    by (auto simp: reports_law_def deliver_cached_def Let_def emits_def stop_def status_report_def split: option.splits)
  show "reports_law (Process (jc_args c) # evs @ fst (deliver cf w job c res)) (ending_of (snd (deliver cf w job c res)))"
    if "run_settled cf w job c evs res" for c evs res
  proof -
    have "filter ends_job_report evs = []"
      unfolding filter_empty_conv using settled_plain [OF that] plain_not_terminal by blast
    moreover have "list_all delivery_event pre \<Longrightarrow> filter ends_job_report pre = []" for pre
      by (induction pre rule: list.induct) (auto elim: ends_job_report.elims)
    ultimately show ?thesis
      using deliver_ends [of res cf w job c] by (auto simp: delivery_end_def reports_law_def status_report_def failure_terminal)
  qed
qed (simp_all add: reports_law_def)

text \<open>
  C36: whatever the server, the file system, ffmpeg, the cache and the cancellation do, and also when the worker panics, a transcoding job
  sends exactly one terminal report, and the completion counters advance exactly when that report says completed.
\<close>

theorem one_terminal_report:
  assumes "\<not> is_probe job" and "processJob cf w job = (evs, failed)"
  shows "\<exists>r. filter ends_job_report evs = [r] \<and>
    (let (b', idle) = job_finished job failed b; n = (if completed_report r then 1 else 0)
     in wb_completed b' = wb_completed b + n \<and> wb_total b' = wb_total b + n \<and> jo_id job \<notin> set (wb_active b') \<and> (idle \<longleftrightarrow> set (wb_active b) \<subseteq> {jo_id job}))"
proof -
  have "\<exists>r. filter ends_job_report evs = [r] \<and> (completed_report r \<longleftrightarrow> \<not> failed)"
    using reports.job_events [OF assms]
  proof (elim disjE exE conjE)
    fix pre flush msg
    assume p: "failed" "reports_law pre Broken" "flush \<in> {[], [BatcherFlushed]}"
      "evs = pre @ reportFailureWithType (- 1) (''worker panic during job processing: '' @ msg) FailureWorkerCrash msg flush"
    then have "filter ends_job_report pre = []" "filter ends_job_report flush = []" by (auto simp: reports_law_def)
    then show ?thesis using p(1,4) by (simp add: reportFailureWithType_def)
  qed (simp add: reports_law_def)
  then obtain r where "filter ends_job_report evs = [r]" "completed_report r \<longleftrightarrow> \<not> failed" by blast
  moreover have "filter (\<lambda>i. i \<noteq> jo_id job) xs = [] \<longleftrightarrow> set xs \<subseteq> {jo_id job}" for xs by (auto simp: filter_empty_conv)
  ultimately show ?thesis by (auto simp: job_finished_def Let_def)
qed

subsection \<open>A completed job was delivered\<close>

definition has_local_file :: "job_info \<Rightarrow> job_ctx \<Rightarrow> bool" where
  "has_local_file job c \<longleftrightarrow> \<not> network_output c \<and> \<not> jo_streaming_output job"

text \<open>The result that counts: of the run itself, with a file that is not empty and no complaint of ffmpeg about it, or of a retry that succeeded.\<close>

definition clean_first_run :: "job_world \<Rightarrow> job_info \<Rightarrow> job_ctx \<Rightarrow> exec_result \<Rightarrow> bool" where
  "clean_first_run w job c res \<longleftrightarrow>
     res = jw_run w (jc_args c) \<and> ex_error res = None \<and> \<not> ex_timeout res \<and>
     (ex_exit res = 0 \<longrightarrow> \<not> ffmpegStderrIndicatesUnwrittenOutput (ex_stderr res) \<and>
        (has_local_file job c \<longrightarrow> jw_size w (jc_exec c) \<notin> {None, Some 0} \<and> \<not> ffmpegStderrIndicatesEmptyOutput (ex_stderr res)))"

definition clean_retry :: "worker_conf \<Rightarrow> job_world \<Rightarrow> job_ctx \<Rightarrow> exec_result \<Rightarrow> bool" where
  "clean_retry cf w c res \<longleftrightarrow>
     (let r = ExecuteWithRetry (wc_retry cf) (jw_retry w) \<lparr>rj_args = jc_args c, rj_output = jc_exec c, rj_network = network_output c\<rparr>
      in rr_success r \<and> res = rr_final r \<and> ex_exit res = 0 \<and> ex_error res = None)"

lemma judge_clean:
  assumes "ex_error (judge w job c res) = None"
  shows "judge w job c res = res" "\<not> ex_timeout res \<Longrightarrow> res = jw_run w (jc_args c) \<Longrightarrow> clean_first_run w job c res"
proof -
  let ?f = "if has_local_file job c then check_empty_output c (check_output_file w c res) else res"
  have j: "judge w job c res = check_unwritten ?f" by (simp add: judge_def has_local_file_def Let_def)
  have u: "check_unwritten ?f = ?f" "ran_clean ?f \<Longrightarrow> \<not> ffmpegStderrIndicatesUnwrittenOutput (ex_stderr ?f)" "ex_error ?f = None"
    using assms unfolding j by (auto simp: check_unwritten_def split: if_splits)
  have e: "check_empty_output c r = r \<and> (ran_clean r \<longrightarrow> \<not> ffmpegStderrIndicatesEmptyOutput (ex_stderr r))"
    if "ex_error (check_empty_output c r) = None" for r
    using that by (auto simp: check_empty_output_def split: if_splits)
  have o: "check_output_file w c r = r \<and> (ran_clean r \<longrightarrow> jw_size w (jc_exec c) \<notin> {None, Some 0})"
    if "ex_error (check_output_file w c r) = None" for r
    using that by (auto simp: check_output_file_def split: if_splits option.splits)
  have f: "?f = res \<and> (has_local_file job c \<longrightarrow> ran_clean res \<longrightarrow>
      jw_size w (jc_exec c) \<notin> {None, Some 0} \<and> \<not> ffmpegStderrIndicatesEmptyOutput (ex_stderr res))"
  proof (cases "has_local_file job c")
    case True
    then have "ex_error (check_empty_output c (check_output_file w c res)) = None" using u(3) by simp
    moreover from this have "ex_error (check_output_file w c res) = None" using e by metis
    ultimately show ?thesis using e o True by metis
  qed simp
  then show eq: "judge w job c res = res" using u(1) by (simp add: j)
  show "clean_first_run w job c res" if "\<not> ex_timeout res" "res = jw_run w (jc_args c)"
    using that f u(2) assms unfolding eq clean_first_run_def ran_clean_def by metis
qed

lemma run_settled_clean:
  assumes "run_settled cf w job c evs res"
  shows "clean_first_run w job c res \<or> clean_retry cf w c res"
proof (cases "ex_error (judge w job c (jw_run w (jc_args c)))")
  case None
  then have "res = judge w job c (jw_run w (jc_args c))" using assms by (simp add: run_settled_def settle_run_def)
  then show ?thesis using judge_clean [OF None] assms by (simp add: run_settled_def)
next
  case (Some e)
  then obtain err where "retry_run cf w c err = (evs, Going res)"
    using assms by (auto simp: run_settled_def settle_run_def stop_def Let_def split: option.splits if_splits)
  then have "clean_retry cf w c res"
    using retry_success [of "wc_retry cf" "jw_retry w" "\<lparr>rj_args = jc_args c, rj_output = jc_exec c, rj_network = network_output c\<rparr>"]
    by (auto simp: retry_run_def clean_retry_def and_then_alt stop_def Let_def split: if_splits)
  then show ?thesis ..
qed

definition delivered_hit :: "worker_conf \<Rightarrow> job_world \<Rightarrow> job_info \<Rightarrow> job_event list \<Rightarrow> bool" where
  "delivered_hit cf w job evs \<longleftrightarrow>
     (\<exists>p. jw_cached w (first_key cf job) = Some p \<and> \<not> jo_streaming_output job \<and> CopyFile p (cached_target cf job) \<in> set evs \<and>
       Upload (cached_target cf job) \<in> set evs \<and> CacheConfirm (first_key cf job) \<in> set evs \<and>
       status_report JobStatusCompleted 0 [] True \<in> set evs)"

definition all_moved :: "job_world \<Rightarrow> job_event list \<Rightarrow> bool" where
  "all_moved w evs \<longleftrightarrow> (\<exists>es. jw_listing w = Some es \<and> MovedOutput ` fst ` set es \<subseteq> set evs)"

lemma all_moved_mono: "all_moved w evs \<Longrightarrow> set evs \<subseteq> set evs' \<Longrightarrow> all_moved w evs'"
  unfolding all_moved_def by (blast dest: subset_trans)

definition delivered_run :: "worker_conf \<Rightarrow> job_world \<Rightarrow> job_info \<Rightarrow> job_event list \<Rightarrow> bool" where
  "delivered_run cf w job evs \<longleftrightarrow>
     (\<exists>c res. context_ok cf job c \<and> (clean_first_run w job c res \<or> clean_retry cf w c res) \<and>
       Process (jc_args c) \<in> set evs \<and> status_report JobStatusCompleted (ex_exit res) [] False \<in> set evs \<and>
       (jo_streaming_output job \<longrightarrow> StdoutFlushed \<in> set evs \<and> jw_fail w StreamStdout = None) \<and>
       (staged cf job \<longrightarrow> all_moved w evs) \<and>
       (\<not> jo_streaming_output job \<and> \<not> directMode job \<and> \<not> IsRemoteURL (output_path cf job) \<and> jw_exists w FinalOutput \<longrightarrow>
          Upload (output_path cf job) \<in> set evs))"

lemma deliver_success:
  assumes "snd (deliver cf w job c res) = Finished False"
  defines "evs \<equiv> fst (deliver cf w job c res)"
  shows "status_report JobStatusCompleted (ex_exit res) [] False \<in> set evs"
    "jo_streaming_output job \<Longrightarrow> StdoutFlushed \<in> set evs \<and> jw_fail w StreamStdout = None"
    "jc_staging c \<noteq> None \<Longrightarrow> all_moved w evs"
    "\<not> jo_streaming_output job \<Longrightarrow> \<not> directMode job \<Longrightarrow> \<not> IsRemoteURL (jc_output c) \<Longrightarrow> jw_exists w FinalOutput \<Longrightarrow>
       Upload (jc_output c) \<in> set evs"
proof -
  have goes: "\<exists>pre. m = (pre, Going ()) \<and> snd rest = Finished False \<and> fst (and_then m (\<lambda>_. rest)) = pre @ fst rest"
    if "snd (and_then m (\<lambda>_. rest)) = Finished False" "delivery_step m" for m :: "unit job_run" and rest :: "unit job_run"
    using that by (auto simp: delivery_step_def and_then_alt)
  obtain p1 p2 p3 p4 where p: "publish w c res = (p1, Going ())" "deliver_upload w job c res = (p2, Going ())"
    "cache_result cf job c = (p3, Going ())" "finish_stream w job = (p4, Going ())"
    and evs: "evs = p1 @ p2 @ p3 @ p4 @ [RouterFinal, status_report JobStatusCompleted (ex_exit res) [] False]"
    using assms(1) unfolding evs_def deliver_def stop_def by (force dest: goes [OF _ delivery_steps(1)] goes [OF _ delivery_steps(2)] goes [OF _ delivery_steps(3)] goes [OF _ delivery_steps(4)])
  show "status_report JobStatusCompleted (ex_exit res) [] False \<in> set evs" by (simp add: evs)
  show "StdoutFlushed \<in> set evs \<and> jw_fail w StreamStdout = None" if "jo_streaming_output job"
    using p(4) that by (auto simp: evs finish_stream_def stop_def emits_def split: option.splits)
  show "Upload (jc_output c) \<in> set evs"
    if "\<not> jo_streaming_output job" "\<not> directMode job" "\<not> IsRemoteURL (jc_output c)" "jw_exists w FinalOutput"
    using p(2) that by (auto simp: evs deliver_upload_def stop_def emits_def split: option.splits)
  show "all_moved w evs" if st: "jc_staging c \<noteq> None"
  proof -
    obtain d where "jc_staging c = Some d" using st by blast
    then obtain es moved where es: "jw_listing w = Some es" "p1 = map MovedOutput moved"
      "rename_all (jw_rename w) (publish_order (Base (jc_output c)) (map fst es)) = (moved, True)"
      using p(1) by (auto simp: publish_def publishStagedOutput_def and_then_alt emits_def stop_def split: option.splits prod.splits if_splits)
    have "set (publish_order m ns) = set ns" for m ns by (auto simp: publish_order_def)
    then have "set moved = fst ` set es"
      using rename_all_moved [OF es(3)] by (metis append.right_neutral list.set_map)
    then show ?thesis using es(1,2) by (auto simp: evs all_moved_def)
  qed
qed

definition completed_law :: "worker_conf \<Rightarrow> job_world \<Rightarrow> job_info \<Rightarrow> job_event list \<Rightarrow> ending \<Rightarrow> bool" where
  "completed_law cf w job evs e \<longleftrightarrow> (e = Ended False \<longrightarrow> delivered_hit cf w job evs \<or> delivered_run cf w job evs)"

lemma delivered_mono:
  "set evs \<subseteq> set evs' \<Longrightarrow> delivered_hit cf w job evs \<Longrightarrow> delivered_hit cf w job evs'"
  "set evs \<subseteq> set evs' \<Longrightarrow> delivered_run cf w job evs \<Longrightarrow> delivered_run cf w job evs'"
proof -
  assume s: "set evs \<subseteq> set evs'"
  show "delivered_hit cf w job evs'" if "delivered_hit cf w job evs"
    using that subsetD [OF s] unfolding delivered_hit_def by (elim exE) (rule exI, blast)
  have m: "all_moved w evs \<longrightarrow> all_moved w evs'" using all_moved_mono s by blast
  show "delivered_run cf w job evs'" if "delivered_run cf w job evs"
    using that unfolding delivered_run_def by (elim exE) (rule exI, rule exI, use subsetD [OF s] m in auto)
qed

interpretation completed: job_law cf w job "completed_law cf w job" for cf w job
proof unfold_locales
  show "completed_law cf w job (xs @ ys) e" if "completed_law cf w job ys e" for xs ys e
    using that delivered_mono [of ys "xs @ ys" cf w job] by (simp add: completed_law_def) blast
  show "completed_law cf w job (xs @ [x]) e" if "completed_law cf w job xs e" for xs x e
    using that delivered_mono [of xs "xs @ [x]" cf w job] by (simp add: completed_law_def) blast
  show "completed_law cf w job (fst (deliver_cached cf w job key p)) (ending_of (snd (deliver_cached cf w job key p)))"
    if "jw_cached w key = Some p" "key = first_key cf job" "\<not> jo_streaming_output job" for key p
    using that by (auto simp: completed_law_def delivered_hit_def deliver_cached_def Let_def emits_def stop_def split: option.splits)
  show "completed_law cf w job (Process (jc_args c) # evs @ fst (deliver cf w job c res)) (ending_of (snd (deliver cf w job c res)))"
    if s: "run_settled cf w job c evs res" for c evs res
  proof (cases "snd (deliver cf w job c res) = Finished False")
    case True
    have c: "context_ok cf job c" using s by (simp add: run_settled_def)
    let ?evs = "Process (jc_args c) # evs @ fst (deliver cf w job c res)"
    have out: "jc_output c = output_path cf job" "staged cf job \<longrightarrow> jc_staging c \<noteq> None" using c by (simp_all add: context_ok_def)
    have sub: "set (fst (deliver cf w job c res)) \<subseteq> set ?evs" by auto
    have "staged cf job \<longrightarrow> all_moved w ?evs" using deliver_success(3) [OF True] out(2) all_moved_mono [OF _ sub] by blast
    then have "delivered_run cf w job ?evs"
      unfolding delivered_run_def using c run_settled_clean [OF s] deliver_success(1,2,4) [OF True] out(1)
      by (intro exI [of _ c] exI [of _ res] conjI impI) auto
    then show ?thesis by (simp add: completed_law_def)
  next
    case False
    then show ?thesis by (cases "snd (deliver cf w job c res)") (auto simp: completed_law_def)
  qed
qed (simp_all add: completed_law_def)


end
