(* ===== verification/JobTrees.thy ===== *)
theory JobTrees
  imports JobGuarantees
begin

section \<open>What a job moves and what it removes\<close>

subsection \<open>Publication comes last\<close>

fun move_event :: "job_event \<Rightarrow> bool" where
  "move_event (MovedOutput n) = True"
| "move_event x = False"

fun process_event :: "job_event \<Rightarrow> bool" where
  "process_event (Process args) = True"
| "process_event (Retried e) = True"
| "process_event x = False"

abbreviation quiet_event :: "job_event \<Rightarrow> bool" where
  "quiet_event x \<equiv> \<not> move_event x \<and> \<not> process_event x"

definition published :: "worker_conf \<Rightarrow> job_world \<Rightarrow> job_info \<Rightarrow> string list" where
  "published cf w job =
     (if staged cf job then fst (publishStagedOutput (jw_listing w) (jw_rename w) (Base (output_path cf job))) else [])"

definition calm :: "'a job_run \<Rightarrow> bool" where
  "calm m \<longleftrightarrow> list_all quiet_event (fst m)"

lemma calm_and_then: "calm m \<Longrightarrow> (\<And>y. calm (f y)) \<Longrightarrow> calm (and_then m f)"
  by (auto simp: calm_def and_then_alt split: job_outcome.splits)

lemma calm_steps:
  "calm (deliver_upload w job c res)" "calm (cache_result cf job c)" "calm (finish_stream w job)"
  "calm (stop False [RouterFinal, status_report JobStatusCompleted code [] False])"
  by (simp_all add: calm_def deliver_upload_def cache_result_def finish_stream_def stop_def emits_def reportInfraFailure_def
      status_report_def split: option.split)

lemma deliver_split:
  assumes "context_ok cf job c"
  shows "\<exists>post. fst (deliver cf w job c res) = map MovedOutput (published cf w job) @ post \<and> list_all quiet_event post"
proof -
  let ?rest = "and_then (deliver_upload w job c res) (\<lambda>_. and_then (cache_result cf job c) (\<lambda>_. and_then (finish_stream w job) (\<lambda>_.
    stop False [RouterFinal, status_report JobStatusCompleted (ex_exit res) [] False])))"
  have rest: "list_all quiet_event (fst ?rest)"
    by (fold calm_def) (intro calm_and_then calm_steps)
  have c: "jc_output c = output_path cf job" "jc_staging c = (if staged cf job then Some (staging_dir cf job) else None)"
    using assms by (auto simp: context_ok_def)
  show ?thesis
  proof (cases "staged cf job")
    case True
    obtain moved all where p: "publishStagedOutput (jw_listing w) (jw_rename w) (Base (output_path cf job)) = (moved, all)" by (rule prod.exhaust)
    then have "fst (and_then (publish w c res) (\<lambda>_. rest)) = map MovedOutput moved @
        (if all then fst rest else reportInfraFailure (ex_exit res) (''failed to publish staged output '' @ output_path cf job @ '': '' @ jw_publish_text w))"
      for rest :: "unit job_run"
      using True by (auto simp: publish_def c and_then_alt emits_def stop_def)
    from this [of ?rest] show ?thesis using p True rest unfolding deliver_def by (auto simp: published_def reportInfraFailure_def)
  next
    case False
    then have "fst (and_then (publish w c res) (\<lambda>_. rest)) = fst rest" for rest :: "unit job_run"
      by (simp add: publish_def c and_then_alt emits_def)
    from this [of ?rest] show ?thesis using False rest unfolding deliver_def by (simp add: published_def)
  qed
qed

definition good_run :: "worker_conf \<Rightarrow> job_world \<Rightarrow> job_info \<Rightarrow> bool" where
  "good_run cf w job \<longleftrightarrow> (\<exists>c res. context_ok cf job c \<and> (clean_first_run w job c res \<or> clean_retry cf w c res))"

text \<open>The moves of the publication in one piece, and no process after them.\<close>

definition moves_in_place :: "worker_conf \<Rightarrow> job_world \<Rightarrow> job_info \<Rightarrow> job_event list \<Rightarrow> bool" where
  "moves_in_place cf w job evs \<longleftrightarrow>
     (\<exists>pre post. evs = pre @ map MovedOutput (published cf w job) @ post \<and> (\<forall>x \<in> set pre. \<not> move_event x) \<and> (\<forall>x \<in> set post. quiet_event x))"

lemma moves_after: "(\<forall>x \<in> set xs. \<not> move_event x) \<Longrightarrow> moves_in_place cf w job ys \<Longrightarrow> moves_in_place cf w job (xs @ ys)"
  unfolding moves_in_place_def by (elim exE conjE, rule_tac x = "xs @ pre" in exI, rule_tac x = post in exI) auto

lemma moves_before: "moves_in_place cf w job xs \<Longrightarrow> quiet_event x \<Longrightarrow> moves_in_place cf w job (xs @ [x])"
  unfolding moves_in_place_def by (elim exE conjE, rule_tac x = pre in exI, rule_tac x = "post @ [x]" in exI) auto

definition publish_law :: "worker_conf \<Rightarrow> job_world \<Rightarrow> job_info \<Rightarrow> job_event list \<Rightarrow> ending \<Rightarrow> bool" where
  "publish_law cf w job evs e \<longleftrightarrow>
     (\<forall>x \<in> set evs. \<not> move_event x) \<or> ((\<exists>failed. e = Ended failed) \<and> good_run cf w job \<and> moves_in_place cf w job evs)"

lemma plain_no_move: "plain_event cf w job x \<Longrightarrow> \<not> move_event x"
  by (cases x) auto

lemma failure_no_move: "failure_report x \<Longrightarrow> \<not> move_event x"
  by (cases x) auto

interpretation publication: job_law cf w job "publish_law cf w job" for cf w job
proof unfold_locales
  show "publish_law cf w job [x] Open" if "plain_event cf w job x" for x
    using plain_no_move [OF that] by (simp add: publish_law_def)
  show "publish_law cf w job [x] (Ended True)" if "failure_report x" for x
    using failure_no_move [OF that] by (simp add: publish_law_def)
  show "publish_law cf w job (xs @ ys) e" if "publish_law cf w job xs Open" "publish_law cf w job ys e" for xs ys e
    using that moves_after [of xs cf w job ys] unfolding publish_law_def by auto
  show "publish_law cf w job (xs @ [x]) e" if "publish_law cf w job xs e" "closing_event cf w job x" for xs x e
  proof -
    have "quiet_event x" using that(2) by (auto simp: closing_event_def)
    then show ?thesis using that(1) moves_before [of cf w job xs x] unfolding publish_law_def by auto
  qed
  show "publish_law cf w job (fst (deliver_cached cf w job key p)) (ending_of (snd (deliver_cached cf w job key p)))" for key p
    by (simp add: publish_law_def deliver_cached_def Let_def emits_def stop_def status_report_def split: option.splits)
  show "publish_law cf w job (Process (jc_args c) # evs @ fst (deliver cf w job c res)) (ending_of (snd (deliver cf w job c res)))"
    if s: "run_settled cf w job c evs res" for c evs res
  proof -
    have c: "context_ok cf job c" using s by (simp add: run_settled_def)
    then have good: "good_run cf w job" using run_settled_clean [OF s] unfolding good_run_def by blast
    have pre: "\<forall>x \<in> set (Process (jc_args c) # evs). \<not> move_event x"
      using plain_no_move [OF settled_plain [OF s]] by simp
    have "moves_in_place cf w job (fst (deliver cf w job c res))"
      using deliver_split [OF c, of w res] unfolding moves_in_place_def list_all_iff
      by (elim exE conjE, rule_tac x = "[]" in exI, rule_tac x = post in exI) simp
    from moves_after [OF pre this] have "moves_in_place cf w job (Process (jc_args c) # evs @ fst (deliver cf w job c res))" by simp
    moreover have "\<exists>failed. ending_of (snd (deliver cf w job c res)) = Ended failed"
      using deliver_ends [of res cf w job c] by (auto simp: delivery_end_def)
    ultimately show ?thesis using good by (simp add: publish_law_def)
  qed
qed (simp_all add: publish_law_def)


subsection \<open>Only directories of the job are removed\<close>

definition trees_law :: "worker_conf \<Rightarrow> job_world \<Rightarrow> job_info \<Rightarrow> job_event list \<Rightarrow> ending \<Rightarrow> bool" where
  "trees_law cf w job evs e \<longleftrightarrow> (\<forall>d. RemoveTree d \<in> set evs \<longrightarrow> own_tree cf w job d)"

interpretation trees: job_law cf w job "trees_law cf w job" for cf w job
proof unfold_locales
  show "trees_law cf w job [x] Open" if "plain_event cf w job x" for x
    using that by (auto simp: trees_law_def)
  show "trees_law cf w job [x] (Ended True)" if "failure_report x" for x
    using that by (auto simp: trees_law_def)
  show "trees_law cf w job (xs @ [x]) e" if "trees_law cf w job xs e" "closing_event cf w job x" for xs x e
    using that by (auto simp: trees_law_def closing_event_def)
  show "trees_law cf w job (fst (deliver_cached cf w job key p)) (ending_of (snd (deliver_cached cf w job key p)))" for key p
    by (simp add: trees_law_def deliver_cached_def Let_def emits_def stop_def status_report_def split: option.splits)
  show "trees_law cf w job (Process (jc_args c) # evs @ fst (deliver cf w job c res)) (ending_of (snd (deliver cf w job c res)))"
    if s: "run_settled cf w job c evs res" for c evs res
  proof -
    have "RemoveTree d \<notin> set (fst (deliver cf w job c res))" for d
      using deliver_ends [of res cf w job c] by (auto simp: delivery_end_def status_report_def list_all_iff dest!: bspec [where x = "RemoveTree d"])
    then show ?thesis by (auto simp: trees_law_def dest!: settled_plain [OF s])
  qed
qed (auto simp: trees_law_def)

lemma path_fields_strip: "path_fields (dropWhile path_separator s) = path_fields s"
proof -
  have "dropWhile path_separator (dropWhile path_separator s) = dropWhile path_separator s"
    by (cases "dropWhile path_separator s") (auto simp: dropWhile_eq_Cons_conv)
  then show ?thesis by (subst (1 2) path_fields.simps) simp
qed

lemma path_fields_append:
  assumes "path_separator c"
  shows "path_fields (a @ c # b) = path_fields a @ path_fields b"
proof (induction a rule: path_fields.induct)
  case (1 a)
  let ?s = "dropWhile path_separator a"
  show ?case
  proof (cases "?s = []")
    case True
    then have "dropWhile path_separator (a @ c # b) = dropWhile path_separator b"
      using assms by (simp add: dropWhile_append)
    then have "path_fields (a @ c # b) = path_fields b" by (metis path_fields_strip)
    then show ?thesis using True by (subst (2) path_fields.simps) simp
  next
    case False
    have strip: "dropWhile path_separator (a @ c # b) = ?s @ c # b" using False by (auto simp: dropWhile_append)
    have "takeWhile (\<lambda>c. \<not> path_separator c) (?s @ c # b) = takeWhile (\<lambda>c. \<not> path_separator c) ?s"
      "dropWhile (\<lambda>c. \<not> path_separator c) (?s @ c # b) = dropWhile (\<lambda>c. \<not> path_separator c) ?s @ c # b"
      using assms by (simp_all add: takeWhile_tail dropWhile_append3)
    then show ?thesis
      using 1 [OF refl False] False strip by (subst (1 2) path_fields.simps) (simp add: Let_def)
  qed
qed

text \<open>A path without traversal has no step upwards between its slashes.\<close>

lemma no_traversal_Split: "\<not> ContainsPathTraversal s \<Longrightarrow> ''..'' \<notin> set (Split (CHR ''/'') s)"
proof (induction "length s" arbitrary: s rule: less_induct)
  case less
  show ?case
  proof (cases "CHR ''/'' \<in> set s")
    case True
    then obtain a b where s: "s = a @ CHR ''/'' # b" "CHR ''/'' \<notin> set a" by (meson split_list_first)
    have "path_separator (CHR ''/'')" by (simp add: path_separator_def)
    then have "\<not> ContainsPathTraversal a" "\<not> ContainsPathTraversal b"
      using less.prems s(1) path_fields_append [of "CHR ''/''" a b] by (simp_all add: ContainsPathTraversal_def)
    then show ?thesis using less.hyps [of a] less.hyps [of b] s(1) by (simp add: Split_append)
  next
    case False
    have "path_fields ''..'' = [''..'']" by code_simp
    then have "s \<noteq> ''..''" using less.prems by (auto simp: ContainsPathTraversal_def)
    then show ?thesis using False by (simp add: Split_no_sep)
  qed
qed

lemma clean_parts_append: "clean_parts rooted kept (ps @ qs) = clean_parts rooted (clean_parts rooted kept ps) qs"
  by (induction rooted kept ps rule: clean_parts.induct) (auto split: list.splits)

lemma clean_parts_plain:
  "''..'' \<notin> set ps \<Longrightarrow> clean_parts rooted kept ps = rev (filter (\<lambda>p. p \<noteq> [] \<and> p \<noteq> ''.'') ps) @ kept"
  by (induction rooted kept ps rule: clean_parts.induct) auto

lemma Clean_below:
  assumes "IsAbs d" and "''..'' \<notin> set (Split (CHR ''/'') s)"
  shows "components (Clean (d @ CHR ''/'' # s)) = components (Clean d) @ filter (\<lambda>p. p \<noteq> [] \<and> p \<noteq> ''.'') (Split (CHR ''/'') s)"
proof -
  have abs: "IsAbs (d @ CHR ''/'' # s)" using assms(1) by (cases d) (auto simp: IsAbs_def HasPrefix_def)
  show ?thesis
    unfolding components_Clean(1) [OF abs] components_Clean(1) [OF assms(1)] Split_append clean_parts_append
      clean_parts_plain [OF assms(2)] by simp
qed

text \<open>A cleaned absolute path is determined by its names.\<close>

lemma Clean_components: "IsAbs p \<Longrightarrow> Clean p = CHR ''/'' # join_strings ''/'' (components (Clean p))"
  using components_Clean(1) [of p] by (simp add: Clean_def Let_def)

lemma Clean_idem:
  assumes "IsAbs p"
  shows "Clean (Clean p) = Clean p"
proof -
  have a: "IsAbs (Clean p)" using assms by (simp add: Clean_def IsAbs_def HasPrefix_def Let_def)
  have "''..'' \<notin> set (Split (CHR ''/'') (Clean p))"
    using components_Clean(2) [OF assms] by (force simp: components_def)
  then have "components (Clean (Clean p)) = filter (\<lambda>q. q \<noteq> [] \<and> q \<noteq> ''.'') (Split (CHR ''/'') (Clean p))"
    using components_Clean(1) [OF a] clean_parts_plain by simp
  also have "\<dots> = filter (\<lambda>q. q \<noteq> ''.'') (components (Clean p))" by (simp add: components_def)
  also have "\<dots> = components (Clean p)" using components_Clean(2) [OF assms] by (auto simp: filter_id_conv)
  finally show ?thesis using Clean_components [OF a] Clean_components [OF assms] by simp
qed

lemma job_dir_below:
  assumes ok: "\<not> bad_job_dir cf job" and temp: "IsAbs (wc_temp cf)"
  shows "\<exists>rest. rest \<noteq> [] \<and> components (jobDir cf job) = components (Clean (wc_temp cf)) @ rest \<and> ''..'' \<notin> set rest"
proof -
  let ?names = "filter (\<lambda>p. p \<noteq> [] \<and> p \<noteq> ''.'') (Split (CHR ''/'') (jo_id job))"
  have dir: "jobDir cf job = Clean (wc_temp cf @ CHR ''/'' # jo_id job)"
    using ok temp by (auto simp: jobDir_def path_Join_def bad_job_dir_def IsAbs_def HasPrefix_def)
  have up: "''..'' \<notin> set (Split (CHR ''/'') (jo_id job))" using ok no_traversal_Split by (auto simp: bad_job_dir_def)
  have names: "components (jobDir cf job) = components (Clean (wc_temp cf)) @ ?names" unfolding dir by (rule Clean_below [OF temp up])
  have abs: "IsAbs (wc_temp cf @ CHR ''/'' # jo_id job)" using temp by (auto simp: IsAbs_def HasPrefix_def prefix_def)
  have "?names \<noteq> []"
  proof
    assume "?names = []"
    then have "jobDir cf job = Clean (wc_temp cf)"
      using Clean_components [OF abs] Clean_components [OF temp] Clean_below [OF temp up] by (simp add: dir)
    then show False using ok Clean_idem [OF temp] by (simp add: bad_job_dir_def)
  qed
  then show ?thesis using names up by auto
qed


end
