(* ===== verification/JobExamples.thy ===== *)
theory JobExamples
  imports JobTrees
begin

section \<open>Jobs on a concrete worker\<close>

text \<open>Retries without options to drop and without software encoders.\<close>

definition plain_executor :: retry_executor where
  "plain_executor =
     \<lparr>rx_config = DefaultRetryConfig, rx_interceptor = \<lparr>in_patterns = [], in_rules = []\<rparr>, rx_rules = [],
      rx_fallback = \<lparr>hardwareToSoftware = [], formatEncoders = [], softwareFallbackChain = []\<rparr>, rx_hwCaps = None\<rparr>"

definition example_conf :: worker_conf where
  "example_conf =
     \<lparr>wc_temp = ''/tmp/w'', wc_prefixes = [''/data''],
      wc_caps = \<lparr>hc_available = [''libx264''], hc_hardware = [], hc_software = [''libx264''], hc_codecs = [], hc_devices = [], hc_priority = [], hc_blacklist = []\<rparr>,
      wc_adapter = \<lparr>ac_enabled = False, ac_silent = False, ac_fallback = True\<rparr>, wc_retry = plain_executor, wc_url_ttl = 0,
      wc_audit = False, wc_digest = (\<lambda>s. s), wc_float = (\<lambda>_. None), wc_mux = (\<lambda>_. []), wc_dvc = (\<lambda>_. None), wc_tr = None\<rparr>"

text \<open>Nothing fails; the retries, if any, fall back to software after a crash.\<close>

definition example_machine :: job_world where
  "example_machine =
     \<lparr>jw_panic = (\<lambda>_. None), jw_fail = (\<lambda>_. None), jw_exists = (\<lambda>s. s = FinalOutput), jw_cancelled = (\<lambda>_. False),
      jw_paths = \<lparr>pw_eval = (\<lambda>p. Inr p), pw_lstat = (\<lambda>p. Some (True, ''no such file'')), pw_stat = (\<lambda>_. None)\<rparr>,
      jw_cached = (\<lambda>_. None), jw_download = (\<lambda>_. None), jw_uuid = (\<lambda>s. s), jw_regular = (\<lambda>_. False), jw_probe = (\<lambda>_. None),
      jw_codec = (\<lambda>_. (False, [])), jw_run = (\<lambda>_. zero_exec), jw_size = (\<lambda>_. Some 7), jw_retry = example_world, jw_deadline = False,
      jw_timeout_text = [], jw_listing = Some [(''out.m3u8'', False), (''out0.ts'', False)], jw_rename = (\<lambda>_. True), jw_publish_text = []\<rparr>"

definition example_transcode :: "string list \<Rightarrow> string list \<Rightarrow> string \<Rightarrow> job_info" where
  "example_transcode inputs direct output =
     \<lparr>jo_id = ''j1'', jo_status = JobStatusQueued, jo_input_files = inputs, jo_args = [''-i'', ''<INPUT_FILE>'', ''-c:v'', ''libx264''],
      jo_output_filename = output, jo_streaming_output = False, jo_output_files = [], jo_worker_id = [], jo_assigned_worker = [],
      jo_worker_name = [], jo_exit_code = 0, jo_error = [], jo_auto_hw = False, jo_cached = False, jo_failure_type = [],
      jo_failure_details = [], jo_retryable = False, jo_retry_count = 0, jo_direct_paths = direct, jo_progress_percent = 0,
      jo_eta_seconds = 0, jo_timeout = None, jo_created_at = 0, jo_updated_at = 0, jo_claimed_at = None, jo_started_at = None,
      jo_finished_at = None, jo_no_worker_deadline = None\<rparr>"

abbreviation uploaded_job :: job_info where
  "uploaded_job \<equiv> example_transcode [''f1''] [] ''out.mp4''"

abbreviation direct_job :: job_info where
  "direct_job \<equiv> example_transcode [] [''/data/in.mp4''] ''/data/out.m3u8''"

lemma uploaded_run:
  "processJob example_conf example_machine uploaded_job =
     ([RemoveTree ''/tmp/w/j1'', MakeTree ''/tmp/w/j1'', Download ''f1'' ''/tmp/w/j1/input-f1'', BatcherOpened,
       status_report JobStatusRunning 0 [] False, RouterAttempt,
       Process [''-i'', ''/tmp/w/j1/input-f1'', ''-c:v'', ''libx264'', ''/tmp/w/j1/out.mp4''], Upload ''/tmp/w/j1/out.mp4'',
       CachePut (first_key example_conf uploaded_job) ''/tmp/w/j1/out.mp4'' 0, RouterFinal,
       status_report JobStatusCompleted 0 [] False, RouterReset, BatcherClosed, RemoveTree ''/tmp/w/j1''], False)"
  by code_simp

lemma direct_run:
  "processJob example_conf example_machine direct_job =
     ([RemoveTree ''/tmp/w/j1'', MakeTree ''/tmp/w/j1'', RemoveTree ''/data/.rffmpeg-staging-j1'', MakeTree ''/data/.rffmpeg-staging-j1'',
       BatcherOpened, status_report JobStatusRunning 0 [] False, RouterAttempt,
       Process [''-i'', ''/data/in.mp4'', ''-c:v'', ''libx264'', ''/data/.rffmpeg-staging-j1/out.m3u8''],
       MovedOutput ''out0.ts'', MovedOutput ''out.m3u8'', RouterFinal, status_report JobStatusCompleted 0 [] False, RouterReset,
       BatcherClosed, RemoveTree ''/data/.rffmpeg-staging-j1'', RemoveTree ''/tmp/w/j1''], False)"
  by code_simp

theorem one_terminal_report_witness:
  "\<exists>r. filter ends_job_report (fst (processJob example_conf example_machine uploaded_job)) = [r] \<and> completed_report r \<and>
     wb_total (fst (job_finished uploaded_job False \<lparr>wb_active = [''j1''], wb_completed = 0, wb_total = 4\<rparr>)) = 5"
proof -
  have "\<not> is_probe uploaded_job" by code_simp
  from one_terminal_report [OF this uploaded_run, of "\<lparr>wb_active = [''j1''], wb_completed = 0, wb_total = 4\<rparr>"] show ?thesis
    unfolding uploaded_run by (auto simp: status_report_def Let_def split: prod.splits)
qed




text \<open>
  The guard on the name of the directory comes after the cache: a hit under an identifier with a step upwards removes a directory
  outside the temporary one.
\<close>

lemma hit_skips_the_guard:
  "RemoveTree ''/tmp'' \<in> set (fst (processJob example_conf
     (example_machine\<lparr>jw_cached := (\<lambda>_. Some ''/cache/entry'')\<rparr>) (uploaded_job\<lparr>jo_id := ''..''\<rparr>)))"
  by code_simp

text \<open>A job that is cancelled during the retries is reported as failed.\<close>

lemma cancelled_retry_fails:
  "(let w = example_machine\<lparr>jw_run := (\<lambda>_. zero_exec\<lparr>ex_exit := 139, ex_error := Some ''signal''\<rparr>),
              jw_retry := \<lparr>rw_exec = (\<lambda>_ _. zero_exec), rw_stat = (\<lambda>_ _. Some 7), rw_cancelled = (\<lambda>_. True)\<rparr>\<rparr>;
        evs = fst (processJob example_conf w uploaded_job)
    in list_ex failure_report evs \<and> \<not> list_ex (\<lambda>x. case x of Reported s _ _ _ _ _ \<Rightarrow> s = JobStatusCancelled | _ \<Rightarrow> False) evs)"
  by code_simp

end
