(* ===== verification/Spec2Isabelle.thy ===== *)
theory Spec2Isabelle
  imports HandlerGuarantees MonitorGuarantees WireGuarantees UploadRoundtrip
    RetryGuarantees FailureGuarantees RewriteGuarantees CacheBooks CacheKeys JobExamples
begin

text \<open>
  \<^bold>\<open>rffmpeg in Isabelle/HOL.\<close>

  rffmpeg runs ffmpeg on remote workers. A command line client (\<^verbatim>\<open>cmd/cli\<close>, \<^verbatim>\<open>pkg/cli\<close>) uploads inputs, submits a job and
  follows its output over a WebSocket. The server (\<^verbatim>\<open>cmd/server\<close>, \<^verbatim>\<open>pkg/server\<close>) keeps jobs, workers, upload sessions and an
  audit trail in SQLite, assigns jobs to workers, watches heartbeats, migrates the jobs of workers that disappear, and numbers and
  forwards output. A worker (\<^verbatim>\<open>pkg/worker\<close>, \<^verbatim>\<open>pkg/encoder\<close>) pulls its jobs, rewrites the command for its own hardware, runs
  ffmpeg, retries with fewer options or a software encoder, and reports. The theories below model these parts definition by
  definition; names are those of the Go code, with a prefix or suffix where two packages use one name.

  \<^bold>\<open>Conventions.\<close> Strings are byte strings. Instants and durations are integers of nanoseconds. Go's 64-bit integers are \<open>int\<close>:
  the counters here cannot reach the wrap-around, and where the code parses numbers from outside (\<open>Atoi\<close>, sizes, durations) the range
  check is written out. Floating point is rational or real, or a parameter where rounding would matter. A mutex section is one function, so concurrency is the
  interleaving of sections, that is, the paths of a step relation with arbitrary arguments. A call that may fail has a label, and an
  environment, an arbitrary function the theorems quantify over, gives each label its outcome, instant and fresh identifiers; a theorem
  about all environments therefore covers every combination of failing calls. Errors are values of a sum or an option. Log output is
  left out. Go maps are association lists or functions; where the order of a range could matter it is an argument or proved
  irrelevant.

  \<^bold>\<open>Foundations.\<close> \<^verbatim>\<open>RffPrelude\<close>: tables as lists of rows, the conditional UPDATE \<open>upd_where\<close>, and the locales
  \<open>invariant_system\<close> and \<open>ordered_system\<close> of a transition system with an invariant and a preorder its steps ascend, which the
  stateful components interpret. \<^verbatim>\<open>GoStrings\<close>, \<^verbatim>\<open>GoFormat\<close>, \<^verbatim>\<open>GoBase64\<close>: what the code uses of Go's \<^verbatim>\<open>strings\<close>,
  \<^verbatim>\<open>strconv\<close>, \<^verbatim>\<open>time\<close> and \<^verbatim>\<open>encoding/base64\<close>. \<^verbatim>\<open>Protocol\<close>: statuses, failure types and capability records of
  \<^verbatim>\<open>pkg/protocol\<close>.

  \<^bold>\<open>The store\<close> (\<^verbatim>\<open>pkg/server/db\<close>). \<^verbatim>\<open>DbState\<close> has one record per table and the row predicates; \<^verbatim>\<open>WorkerStore\<close>,
  \<^verbatim>\<open>WorkerQueries\<close>, \<^verbatim>\<open>MigrationAudit\<close>, \<^verbatim>\<open>JobStore\<close>, \<^verbatim>\<open>JobSweeps\<close> and \<^verbatim>\<open>MigrationStore\<close> the operations of
  \<^verbatim>\<open>workers.go\<close>, \<^verbatim>\<open>migrations.go\<close> and \<^verbatim>\<open>jobs.go\<close>. \<^verbatim>\<open>JobLifecycle\<close> makes every writer of the jobs table a step of one system
  and proves the row invariant \<open>job_ok\<close> and the refinement of the abstract life of a job; \<^verbatim>\<open>StoreGuarantees\<close> and
  \<^verbatim>\<open>SweepGuarantees\<close> draw the consequences: ownership, capacity of pulls, migration budgets, and that the chunked sweeps equal one
  guarded pass.

  \<^bold>\<open>Scheduling and health.\<close> \<^verbatim>\<open>EncoderSelect\<close> and \<^verbatim>\<open>Scheduler\<close> model \<^verbatim>\<open>pkg/server/scheduler\<close>; \<^verbatim>\<open>SchedulerGuarantees\<close>,
  \<^verbatim>\<open>TimeoutGuarantees\<close> and \<^verbatim>\<open>NotificationGuarantees\<close> show the capacity bound of a pass, the starvation verdict and its wake, the
  timeout sweep, and that each terminal job is notified exactly once. \<^verbatim>\<open>StateTable\<close>, \<^verbatim>\<open>HealthMonitor\<close> and
  \<^verbatim>\<open>ThroughputScale\<close> model \<^verbatim>\<open>pkg/server/workerhealth\<close>; \<^verbatim>\<open>StateTableGuarantees\<close> and \<^verbatim>\<open>MonitorGuarantees\<close> treat slow-node
  detection, failover and the agreement of eviction marks.

  \<^bold>\<open>Endpoints.\<close> \<^verbatim>\<open>RateLimit\<close> (with the locale \<open>client_job_counter\<close>, interpreted on the in-memory counter), \<^verbatim>\<open>Access\<close>,
  \<^verbatim>\<open>JobHandlers\<close> and \<^verbatim>\<open>WorkerHandlers\<close> model \<^verbatim>\<open>pkg/server/handlers\<close>, \<^verbatim>\<open>ratelimit\<close>, \<^verbatim>\<open>auth\<close> and \<^verbatim>\<open>pkg/pathutil\<close>;
  \<^verbatim>\<open>QuotaGuarantees\<close>, \<^verbatim>\<open>ReportGuarantees\<close> and \<^verbatim>\<open>HandlerGuarantees\<close> show that a client's quota is exactly its jobs that have not
  ended, the verdict of a submission, and the all-or-nothing effect of a report.

  \<^bold>\<open>Streams.\<close> \<^verbatim>\<open>WsHub\<close> (\<^verbatim>\<open>websocket/hub.go\<close>), \<^verbatim>\<open>WsClient\<close> (\<^verbatim>\<open>pkg/cli/client/wsclient.go\<close>) and \<^verbatim>\<open>Batchers\<close>
  (\<^verbatim>\<open>stdout_batcher.go\<close>, \<^verbatim>\<open>stderr_batcher.go\<close>) are composed in \<^verbatim>\<open>HubGuarantees\<close>, \<^verbatim>\<open>StreamGuarantees\<close> (with the locale
  \<open>counter_store\<close> of the sequence store, interpreted on the database) and \<^verbatim>\<open>WireGuarantees\<close>: consecutive numbers across restarts, no
  silent hole, bytes that arrive intact, no send on a closed channel, bounded reconnection.

  \<^bold>\<open>Uploads.\<close> \<^verbatim>\<open>UploadStore\<close>, \<^verbatim>\<open>BlobStore\<close>, \<^verbatim>\<open>ChunkUpload\<close> and \<^verbatim>\<open>UploadClient\<close> model the chunked upload from the command
  line to the content-addressed store; \<^verbatim>\<open>UploadGuarantees\<close> and \<^verbatim>\<open>UploadRoundtrip\<close> show its integrity under interleaving and failing
  calls, and the round trip under lost requests and answers.

  \<^bold>\<open>The worker.\<close> \<^verbatim>\<open>FfmpegArgs\<close>, \<^verbatim>\<open>FailureAnalysis\<close>, \<^verbatim>\<open>ParamPrune\<close>, \<^verbatim>\<open>EncoderFallback\<close> and \<^verbatim>\<open>RetryExecution\<close> model the
  commands of a job, the reading of failures and the retries; \<^verbatim>\<open>EncoderTypes\<close>, \<^verbatim>\<open>VideoFlags\<close>, \<^verbatim>\<open>RewriteEngine\<close> and
  \<^verbatim>\<open>RewriteAdapter\<close> the choice and substitution of the encoder. \<^verbatim>\<open>FailureGuarantees\<close>, \<^verbatim>\<open>RetryGuarantees\<close> and
  \<^verbatim>\<open>RewriteGuarantees\<close> bound the retries, say what a success means, that the codec is kept, and which encoder a rewritten command
  selects.

  \<^verbatim>\<open>WorkerCache\<close> is the result cache of \<^verbatim>\<open>cache.go\<close>: a directory of files, the counters and the recency tracker. \<^verbatim>\<open>CacheGuarantees\<close>
  states the tracker as the locale \<open>recency_queue\<close>, interpreted on the swap-and-truncate slice with its index, and proves eviction on it;
  \<^verbatim>\<open>CacheRuns\<close>, \<^verbatim>\<open>CacheHits\<close> and \<^verbatim>\<open>CacheBooks\<close> are its runs: eviction ends, a hit is genuine whatever fails, the counters
  agree with the directory while nothing fails. \<^verbatim>\<open>CacheKeys\<close> shows what the key determines. \<^verbatim>\<open>GoPath\<close> (\<^verbatim>\<open>path/filepath\<close>) and
  \<^verbatim>\<open>WorkerPaths\<close> model the allow-list of shared paths and the staging and publication of direct outputs. \<^verbatim>\<open>WorkerChecks\<close> has the
  checks before ffmpeg starts, among them the codec checker that concurrent jobs share, and \<^verbatim>\<open>WorkerJob\<close> the whole of
  \<^verbatim>\<open>processJob\<close>: its effects are a list of events, its phases a sequence that returns, panics or goes on, its deferred functions
  the events appended when it ends. \<^verbatim>\<open>JobTraces\<close> has the locale \<open>job_law\<close> of a law on the events, which lifts a law through all
  phases once; \<^verbatim>\<open>JobGuarantees\<close> and \<^verbatim>\<open>JobTrees\<close> interpret it four times: exactly one terminal report, completion only after a
  delivery, publication only after a good run, and removals that stay inside the directories of the job. \<^verbatim>\<open>JobExamples\<close> runs
  concrete jobs.

  \<^bold>\<open>Bounds and fuel.\<close> Loops over data are structural. The loops that the code bounds by a counter (retries, reconnects, chunked
  updates, drains of a channel) are functions with a measure; none uses fuel. The eviction of the cache, whose end depends on the state of
  its tracker, is a partial function, and that it returns in every reachable state is a theorem.

  \<^bold>\<open>Parameters.\<close> SHA-256, JSON encoding, UUID and number parsing, symbolic-link resolution, the muxer tables generated from ffmpeg, the
  parameter translator behind its interface, and everything ffmpeg and the kernel do are arguments of the definitions.

  \<^bold>\<open>Not modelled.\<close> Process start-up, command line and configuration files, TLS, routing and response texts, access logs, sockets and
  keep-alives, the terminal notifier's waiters, the translation tables of encoder parameters, hardware detection from tool output, the
  worker's registration, polling, heartbeats and watch for cancellation, the parsing of progress lines with its estimate of the remaining
  time, and the listings that only read.
\<close>

end
